(* ===== verification/QF_Prelude.thy ===== *)
theory QF_Prelude
  imports
    Main
    "HOL-Library.Word"
    "HOL-Library.State_Monad"
    "HOL-Library.Char_ord"
    "HOL-Library.List_Lexorder"
    "HOL-Library.Option_ord"
    "HOL-Library.Product_Lexorder"
begin

text \<open>
  Shared vocabulary of the development: the Rust standard-library operations that the
  QueryFabric sources use (ASCII case folding, decimal formatting, \<^verbatim>\<open>Iterator::reduce\<close>,
  \<^verbatim>\<open>BTreeMap\<close> and \<^verbatim>\<open>BTreeSet\<close> as sorted association lists and sorted lists), the traversals
  of the state monad in which the binder is written, and the two interfaces that several
  components share: state relations that are preserved by every action, and commutative
  merges. Rust strings are byte lists (\<^typ>\<open>string\<close>); \<^verbatim>\<open>len()\<close> is then \<^const>\<open>length\<close>.
\<close>

named_theorems ascii_simps "facts about ASCII case folding"

type_synonym u8 = "8 word"
type_synonym u32 = "32 word"
type_synonym u64 = "64 word"

section \<open>ASCII case folding\<close>

definition to_ascii_lowercase_char :: "char \<Rightarrow> char" where
  "to_ascii_lowercase_char c =
     (if 65 \<le> (of_char c :: nat) \<and> (of_char c :: nat) \<le> 90
      then char_of ((of_char c :: nat) + 32) else c)"

definition to_ascii_lowercase :: "string \<Rightarrow> string" where
  "to_ascii_lowercase s = map to_ascii_lowercase_char s"

definition eq_ignore_ascii_case :: "string \<Rightarrow> string \<Rightarrow> bool" where
  "eq_ignore_ascii_case a b \<longleftrightarrow> to_ascii_lowercase a = to_ascii_lowercase b"

lemma to_ascii_lowercase_char_idem [simp]:
  "to_ascii_lowercase_char (to_ascii_lowercase_char c) = to_ascii_lowercase_char c"
proof (cases "65 \<le> (of_char c :: nat) \<and> (of_char c :: nat) \<le> 90")
  case True
  then have "(of_char (char_of ((of_char c :: nat) + 32)) :: nat) = of_char c + 32"
    by (simp add: of_char_of)
  with True show ?thesis by (simp add: to_ascii_lowercase_char_def)
qed (auto simp: to_ascii_lowercase_char_def)

lemma to_ascii_lowercase_idem [simp, ascii_simps]:
  "to_ascii_lowercase (to_ascii_lowercase s) = to_ascii_lowercase s"
  by (simp add: to_ascii_lowercase_def)

lemma length_to_ascii_lowercase [simp]: "length (to_ascii_lowercase s) = length s"
  by (simp add: to_ascii_lowercase_def)

lemma eq_ignore_ascii_case_refl [simp, ascii_simps]: "eq_ignore_ascii_case s s"
  by (simp add: eq_ignore_ascii_case_def)

lemma eq_ignore_ascii_case_sym: "eq_ignore_ascii_case a b = eq_ignore_ascii_case b a"
  by (auto simp: eq_ignore_ascii_case_def)

lemma eq_ignore_ascii_case_trans:
  "eq_ignore_ascii_case a b \<Longrightarrow> eq_ignore_ascii_case b c \<Longrightarrow> eq_ignore_ascii_case a c"
  by (simp add: eq_ignore_ascii_case_def)

section \<open>Decimal formatting\<close>

definition digit_char :: "nat \<Rightarrow> char" where
  "digit_char d = char_of (48 + d)"

fun nat_to_string :: "nat \<Rightarrow> string" where
  "nat_to_string n =
     (if n < 10 then [digit_char n] else nat_to_string (n div 10) @ [digit_char (n mod 10)])"

declare nat_to_string.simps [simp del]

definition int_to_string :: "int \<Rightarrow> string" where
  "int_to_string i = (if i < 0 then ''-'' @ nat_to_string (nat (- i)) else nat_to_string (nat i))"

text \<open>\<^verbatim>\<open>str::join\<close>.\<close>

fun join_with :: "string \<Rightarrow> string list \<Rightarrow> string" where
  "join_with sep [] = []"
| "join_with sep [x] = x"
| "join_with sep (x # y # ys) = x @ sep @ join_with sep (y # ys)"

text \<open>\<^verbatim>\<open>str::replace\<close> of one character by another.\<close>

definition replace_char :: "char \<Rightarrow> char \<Rightarrow> string \<Rightarrow> string" where
  "replace_char a b s = map (\<lambda>c. if c = a then b else c) s"

section \<open>Text\<close>

text \<open>
  \<^verbatim>\<open>str::starts_with\<close>, \<^verbatim>\<open>to_ascii_uppercase\<close> and the trimming functions, whose white space is that of ASCII.
\<close>

definition starts_with :: "string \<Rightarrow> string \<Rightarrow> bool" where
  "starts_with s prefix \<longleftrightarrow> take (length prefix) s = prefix"

definition to_ascii_uppercase_char :: "char \<Rightarrow> char" where
  "to_ascii_uppercase_char c =
     (if 97 \<le> (of_char c :: nat) \<and> (of_char c :: nat) \<le> 122 then char_of (of_char c - 32 :: nat) else c)"

definition to_ascii_uppercase :: "string \<Rightarrow> string" where
  "to_ascii_uppercase s = map to_ascii_uppercase_char s"

definition is_ascii_space :: "char \<Rightarrow> bool" where
  "is_ascii_space c \<longleftrightarrow> (of_char c :: nat) \<in> {9, 10, 11, 12, 13, 32}"

definition trim_start :: "string \<Rightarrow> string" where
  "trim_start s = dropWhile is_ascii_space s"

definition trim_end :: "string \<Rightarrow> string" where
  "trim_end s = rev (dropWhile is_ascii_space (rev s))"

definition trim :: "string \<Rightarrow> string" where
  "trim s = trim_end (trim_start s)"

lemma length_to_ascii_uppercase [simp]: "length (to_ascii_uppercase s) = length s"
  by (simp add: to_ascii_uppercase_def)

lemma trim_start_drop: "trim_start s = drop (length s - length (trim_start s)) s"
  unfolding trim_start_def by (induction s) (auto simp: Suc_diff_le length_dropWhile_le)

lemma trim_end_take: "trim_end s = take (length (trim_end s)) s"
proof -
  have "s = trim_end s @ rev (takeWhile is_ascii_space (rev s))"
    unfolding trim_end_def by (metis rev_append rev_rev_ident takeWhile_dropWhile_id)
  then show ?thesis by (metis append_eq_conv_conj)
qed

lemma length_trim_end: "length (trim_end s) \<le> length s"
  by (simp add: trim_end_def) (metis length_dropWhile_le length_rev)

section \<open>Sorted lists and machine integers\<close>

text \<open>Sorting by a key and the position is sorting by the key: the library's sort is stable.\<close>

lemma sort_key_pair_stable:
  fixes f :: "'a \<Rightarrow> 'b::linorder" and g :: "'a \<Rightarrow> 'c::linorder"
  assumes "sorted (map g xs)"
  shows "sort_key (\<lambda>x. (f x, g x)) xs = sort_key f xs"
  using assms
proof (induction xs)
  case (Cons x xs)
  have "insort_key (\<lambda>x. (f x, g x)) x ys = insort_key f x ys" if "\<forall>y \<in> set ys. g x \<le> g y" for ys
    using that by (induction ys) auto
  with Cons show ?case by simp
qed simp

lemma sorted_wrt_remove1: "sorted_wrt P xs \<Longrightarrow> sorted_wrt P (remove1 x xs)"
  by (induction xs) (auto dest!: subsetD[OF set_remove1_subset])

lemma word_less_Suc:
  fixes m :: "'a::len word"
  assumes "m \<noteq> - 1"
  shows "m < m + 1"
proof -
  have "1 + m \<noteq> 0" using assms by (simp add: add_eq_0_iff)
  then have "unat (1 + m) = Suc (unat m)" by (rule unatSuc)
  then show ?thesis by (simp add: word_less_nat_alt add.commute)
qed

section \<open>Iterator::reduce\<close>

fun reduce :: "('a \<Rightarrow> 'a \<Rightarrow> 'a) \<Rightarrow> 'a list \<Rightarrow> 'a option" where
  "reduce f [] = None"
| "reduce f (x # xs) = Some (foldl f x xs)"

lemma reduce_eq_None [simp]: "reduce f xs = None \<longleftrightarrow> xs = []"
  by (cases xs) auto

lemma foldl_closed:
  assumes "P x" and "\<And>y. y \<in> set ys \<Longrightarrow> P y" and "\<And>a b. P a \<Longrightarrow> P b \<Longrightarrow> P (f a b)"
  shows "P (foldl f x ys)"
  using assms by (induction ys arbitrary: x) auto

lemma reduce_closed:
  assumes "reduce f xs = Some r" and "\<And>x. x \<in> set xs \<Longrightarrow> P x"
    and "\<And>a b. P a \<Longrightarrow> P b \<Longrightarrow> P (f a b)"
  shows "P r"
  using assms by (cases xs) (auto intro: foldl_closed)

section \<open>BTreeMap and BTreeSet\<close>

text \<open>
  A \<^verbatim>\<open>BTreeMap\<close> is the association list its iterator yields: keys strictly increasing.
\<close>

type_synonym ('k, 'v) btree_map = "('k \<times> 'v) list"

fun bt_get :: "('k, 'v) btree_map \<Rightarrow> 'k \<Rightarrow> 'v option" where
  "bt_get [] k = None"
| "bt_get ((k', v) # m) k = (if k = k' then Some v else bt_get m k)"

fun bt_insert :: "'k::linorder \<Rightarrow> 'v \<Rightarrow> ('k, 'v) btree_map \<Rightarrow> ('k, 'v) btree_map" where
  "bt_insert k v [] = [(k, v)]"
| "bt_insert k v ((k', v') # m) =
     (if k < k' then (k, v) # (k', v') # m
      else if k = k' then (k, v) # m
      else (k', v') # bt_insert k v m)"

definition bt_remove :: "'k \<Rightarrow> ('k, 'v) btree_map \<Rightarrow> ('k, 'v) btree_map" where
  "bt_remove k m = filter (\<lambda>e. fst e \<noteq> k) m"

definition bt_keys :: "('k, 'v) btree_map \<Rightarrow> 'k list" where
  "bt_keys m = map fst m"

definition bt_values :: "('k, 'v) btree_map \<Rightarrow> 'v list" where
  "bt_values m = map snd m"

definition bt_wf :: "('k::linorder, 'v) btree_map \<Rightarrow> bool" where
  "bt_wf m \<longleftrightarrow> sorted_wrt (<) (bt_keys m)"

lemma bt_keys_simps [simp]: "bt_keys [] = []" "bt_keys (kv # m) = fst kv # bt_keys m"
  by (simp_all add: bt_keys_def)

lemma set_bt_keys_insert [simp]: "set (bt_keys (bt_insert k v m)) = insert k (set (bt_keys m))"
  by (induction k v m rule: bt_insert.induct) auto

lemma bt_wf_Nil [simp]: "bt_wf []"
  by (simp add: bt_wf_def)

lemma bt_wf_Cons: "bt_wf ((k, v) # m) \<longleftrightarrow> (\<forall>k' \<in> set (bt_keys m). k < k') \<and> bt_wf m"
  by (simp add: bt_wf_def)

lemma bt_wf_insert [simp, intro]: "bt_wf m \<Longrightarrow> bt_wf (bt_insert k v m)"
  by (induction k v m rule: bt_insert.induct) (auto simp: bt_wf_Cons)

lemma bt_get_insert: "bt_get (bt_insert k v m) k' = (if k' = k then Some v else bt_get m k')"
  by (induction k v m rule: bt_insert.induct) auto

lemma bt_get_remove: "bt_get (bt_remove k m) k' = (if k' = k then None else bt_get m k')"
  by (induction m) (auto simp: bt_remove_def)

lemma bt_keys_remove [simp]: "bt_keys (bt_remove k m) = filter (\<lambda>k'. k' \<noteq> k) (bt_keys m)"
  by (induction m) (auto simp: bt_remove_def bt_keys_def)

lemma bt_wf_remove [simp, intro]: "bt_wf m \<Longrightarrow> bt_wf (bt_remove k m)"
  by (simp add: bt_wf_def sorted_wrt_filter)

lemma bt_get_None_iff: "bt_get m k = None \<longleftrightarrow> k \<notin> set (bt_keys m)"
  by (induction m k rule: bt_get.induct) (auto simp: bt_keys_def)

lemma bt_get_mem: "bt_get m k = Some v \<Longrightarrow> (k, v) \<in> set m"
  by (induction m k rule: bt_get.induct) (auto split: if_splits)

lemma bt_mem_get: "bt_wf m \<Longrightarrow> (k, v) \<in> set m \<Longrightarrow> bt_get m k = Some v"
  by (induction m k rule: bt_get.induct) (auto simp: bt_wf_Cons bt_keys_def)

lemma bt_wf_distinct: "bt_wf m \<Longrightarrow> distinct (bt_keys m)"
  by (simp add: bt_wf_def strict_sorted_iff)

lemma bt_ext:
  assumes "bt_wf m" and "bt_wf m'" and "\<And>k. bt_get m k = bt_get m' k"
  shows "m = m'"
  using assms
proof (induction m arbitrary: m')
  case Nil
  then show ?case
    by (cases m') (auto, metis bt_get.simps(1) bt_get.simps(2) option.distinct(1))
next
  case (Cons kv m)
  obtain k v where kv: "kv = (k, v)" by (cases kv)
  obtain k' v' n where m': "m' = (k', v') # n"
  proof (cases m')
    case Nil
    with Cons.prems(3)[of k] kv show ?thesis by simp
  next
    case (Cons a list)
    with that show ?thesis by (cases a) auto
  qed
  have wf: "\<forall>j \<in> set (bt_keys m). k < j" "bt_wf m" "\<forall>j \<in> set (bt_keys n). k' < j" "bt_wf n"
    using Cons.prems(1,2) kv m' by (auto simp: bt_wf_Cons)
  have "k' \<in> insert k (set (bt_keys m))" "k \<in> insert k' (set (bt_keys n))"
    using Cons.prems(3)[of k'] Cons.prems(3)[of k] kv m' bt_get_None_iff[of m k'] bt_get_None_iff[of n k]
    by (auto split: if_splits)
  with wf have kk: "k = k'" by (auto dest: less_asym)
  with Cons.prems(3)[of k] kv m' have vv: "v = v'" by simp
  have "bt_get m j = bt_get n j" for j
  proof (cases "j = k")
    case True
    with wf kk have "j \<notin> set (bt_keys m)" "j \<notin> set (bt_keys n)" by auto
    then show ?thesis by (simp add: bt_get_None_iff[symmetric])
  next
    case False
    with Cons.prems(3)[of j] kv m' kk show ?thesis by simp
  qed
  with Cons.IH[of n] wf kv m' kk vv show ?case by simp
qed

text \<open>A \<^verbatim>\<open>BTreeSet\<close> is the strictly increasing list of its elements.\<close>

fun bs_insert :: "'a::linorder \<Rightarrow> 'a list \<Rightarrow> 'a list" where
  "bs_insert x [] = [x]"
| "bs_insert x (y # ys) = (if x < y then x # y # ys else if x = y then y # ys else y # bs_insert x ys)"

definition bs_extend :: "'a::linorder list \<Rightarrow> 'a list \<Rightarrow> 'a list" where
  "bs_extend xs ys = foldl (\<lambda>s y. bs_insert y s) xs ys"

lemma set_bs_insert [simp]: "set (bs_insert x xs) = insert x (set xs)"
  by (induction x xs rule: bs_insert.induct) auto

lemma strict_sorted_bs_insert [simp]: "sorted_wrt (<) xs \<Longrightarrow> sorted_wrt (<) (bs_insert x xs)"
  by (induction x xs rule: bs_insert.induct) auto

lemma set_bs_extend [simp]: "set (bs_extend xs ys) = set xs \<union> set ys"
  unfolding bs_extend_def by (induction ys arbitrary: xs) auto

lemma strict_sorted_bs_extend [simp]: "sorted_wrt (<) xs \<Longrightarrow> sorted_wrt (<) (bs_extend xs ys)"
  unfolding bs_extend_def by (induction ys arbitrary: xs) auto

section \<open>Results\<close>

text \<open>The operator \<^verbatim>\<open>?\<close> and collecting into a \<^verbatim>\<open>Result\<close>.\<close>

definition result_bind :: "'e + 'a \<Rightarrow> ('a \<Rightarrow> 'e + 'b) \<Rightarrow> 'e + 'b" where
  "result_bind r f = (case r of Inl e \<Rightarrow> Inl e | Inr x \<Rightarrow> f x)"

fun result_collect :: "('a \<Rightarrow> 'e + 'b) \<Rightarrow> 'a list \<Rightarrow> 'e + 'b list" where
  "result_collect f [] = Inr []"
| "result_collect f (x # xs) = result_bind (f x) (\<lambda>y. result_bind (result_collect f xs) (\<lambda>ys. Inr (y # ys)))"

definition ok_or :: "'e \<Rightarrow> 'a option \<Rightarrow> 'e + 'a" where
  "ok_or e v = (case v of Some x \<Rightarrow> Inr x | None \<Rightarrow> Inl e)"

lemma result_bind_simps [simp]:
  "result_bind (Inl e) f = Inl e" "result_bind (Inr x) f = f x"
  by (simp_all add: result_bind_def)

lemma ok_or_simps [simp]: "ok_or e (Some x) = Inr x" "ok_or e None = Inl e"
  by (simp_all add: ok_or_def)

lemma result_bind_Inr_iff: "result_bind m f = Inr y \<longleftrightarrow> (\<exists>x. m = Inr x \<and> f x = Inr y)"
  by (cases m) simp_all

lemma result_bind_cong [fundef_cong]:
  assumes "m = n" and "\<And>x. n = Inr x \<Longrightarrow> f x = g x"
  shows "result_bind m f = result_bind n g"
  using assms by (cases n) simp_all

lemma result_collect_cong [fundef_cong]:
  assumes "xs = ys" and "\<And>x. x \<in> set ys \<Longrightarrow> f x = g x"
  shows "result_collect f xs = result_collect g ys"
  using assms by (induction ys arbitrary: xs) simp_all

lemma result_collect_Inr_iff: "result_collect f xs = Inr ys \<longleftrightarrow> list_all2 (\<lambda>x y. f x = Inr y) xs ys"
  by (induction xs arbitrary: ys) (auto simp: result_bind_Inr_iff list_all2_Cons1)

text \<open>\<open>fails_only B m\<close>: when \<open>m\<close> fails, its error is one of \<open>B\<close>.\<close>

definition fails_only :: "('e \<Rightarrow> bool) \<Rightarrow> 'e + 'a \<Rightarrow> bool" where
  "fails_only B m \<longleftrightarrow> (case m of Inl e \<Rightarrow> B e | Inr _ \<Rightarrow> True)"

lemma fails_only_simps [simp]: "fails_only B (Inl e) = B e" "fails_only B (Inr x)"
  by (simp_all add: fails_only_def)

lemma fails_only_bind:
  "fails_only B m \<Longrightarrow> (\<And>x. m = Inr x \<Longrightarrow> fails_only B (f x)) \<Longrightarrow> fails_only B (result_bind m f)"
  by (cases m) simp_all

lemma fails_only_collect:
  "(\<And>x. x \<in> set xs \<Longrightarrow> fails_only B (f x)) \<Longrightarrow> fails_only B (result_collect f xs)"
  by (induction xs) (auto intro!: fails_only_bind)

lemma fails_never: "fails_only (\<lambda>_. False) m \<longleftrightarrow> (\<exists>x. m = Inr x)"
  by (cases m) simp_all

section \<open>Traversals in the state monad\<close>

fun traverse_option :: "('a \<Rightarrow> ('s, 'b) state) \<Rightarrow> 'a option \<Rightarrow> ('s, 'b option) state" where
  "traverse_option f None = State_Monad.return None"
| "traverse_option f (Some x) = State_Monad.bind (f x) (\<lambda>y. State_Monad.return (Some y))"

lemma state_bind_cong [fundef_cong]:
  assumes "m = n" and "\<And>x. f x = g x"
  shows "State_Monad.bind m f = State_Monad.bind n g"
  using assms by presburger

lemma traverse_list_cong [fundef_cong]:
  assumes "xs = ys" and "\<And>x. x \<in> set ys \<Longrightarrow> f x = g x"
  shows "traverse_list f xs = traverse_list g ys"
  using assms by (induction ys arbitrary: xs) auto

lemma traverse_option_cong [fundef_cong]:
  assumes "x = y" and "\<And>z. y = Some z \<Longrightarrow> f z = g z"
  shows "traverse_option f x = traverse_option g y"
  using assms by (cases y) auto

fun fold_state :: "('a \<Rightarrow> 'b \<Rightarrow> ('s, 'b) state) \<Rightarrow> 'a list \<Rightarrow> 'b \<Rightarrow> ('s, 'b) state" where
  "fold_state f [] b = State_Monad.return b"
| "fold_state f (x # xs) b = State_Monad.bind (f x b) (\<lambda>b'. fold_state f xs b')"

lemma fold_state_cong [fundef_cong]:
  assumes "xs = ys" and "b = c" and "\<And>x b. x \<in> set ys \<Longrightarrow> f x b = g x b"
  shows "fold_state f xs b = fold_state g ys c"
  unfolding assms(1,2) using assms(3) by (induction ys arbitrary: c) (auto intro: state_bind_cong)

text \<open>
  \<open>post R m Q\<close>: from every state, the action \<open>m\<close> ends in an \<open>R\<close>-later state, and its result and final
  state satisfy \<open>Q\<close>. A postcondition that stays true in \<open>R\<close>-later states survives whatever runs next.
\<close>

definition post :: "('s \<Rightarrow> 's \<Rightarrow> bool) \<Rightarrow> ('s, 'a) state \<Rightarrow> ('a \<Rightarrow> 's \<Rightarrow> bool) \<Rightarrow> bool" where
  "post R m Q \<longleftrightarrow> (\<forall>s. R s (snd (run_state m s)) \<and> Q (fst (run_state m s)) (snd (run_state m s)))"

definition stable :: "('s \<Rightarrow> 's \<Rightarrow> bool) \<Rightarrow> ('s \<Rightarrow> bool) \<Rightarrow> bool" where
  "stable R P \<longleftrightarrow> (\<forall>s t. R s t \<longrightarrow> P s \<longrightarrow> P t)"

lemma post_weaken: "post R m P \<Longrightarrow> (\<And>x s. P x s \<Longrightarrow> Q x s) \<Longrightarrow> post R m Q"
  by (auto simp: post_def)

lemma stable_True [simp]: "stable R (\<lambda>_. True)"
  by (simp add: stable_def)

lemma stable_const [simp]: "stable R (\<lambda>_. c)"
  by (simp add: stable_def)

lemma stable_conj: "stable R P \<Longrightarrow> stable R Q \<Longrightarrow> stable R (\<lambda>s. P s \<and> Q s)"
  by (auto simp: stable_def)

lemma stable_list_all: "(\<And>x. stable R (P x)) \<Longrightarrow> stable R (\<lambda>s. list_all (\<lambda>x. P x s) xs)"
  by (induction xs) (auto simp: stable_def)

lemma stable_list_all2:
  assumes "\<And>x y. stable R (P x y)"
  shows "stable R (\<lambda>s. list_all2 (\<lambda>x y. P x y s) xs ys)"
  unfolding stable_def using assms by (auto simp: stable_def elim!: list_all2_mono)

lemma stable_pred_option: "(\<And>x. stable R (P x)) \<Longrightarrow> stable R (\<lambda>s. pred_option (\<lambda>x. P x s) v)"
  by (cases v) (auto simp: stable_def)

text \<open>
  The interface between the binder's actions and a relation on its state: a reflexive and transitive
  relation passes through every monadic composition, so what the few primitive actions establish is
  established by the whole binder.
\<close>

locale state_preorder =
  fixes R :: "'s \<Rightarrow> 's \<Rightarrow> bool"
  assumes refl: "R s s"
    and trans: "R s t \<Longrightarrow> R t u \<Longrightarrow> R s u"
begin

lemma post_return: "(\<And>s. Q x s) \<Longrightarrow> post R (State_Monad.return x) Q"
  by (simp add: post_def refl)

lemma post_bind:
  assumes "post R m P" and "\<And>x. stable R (P x)" and "\<And>x. post R (f x) (\<lambda>y s. P x s \<longrightarrow> Q y s)"
  shows "post R (State_Monad.bind m f) Q"
  unfolding post_def
proof
  fix s
  obtain x t where xt: "run_state m s = (x, t)" by (cases "run_state m s")
  obtain y u where yu: "run_state (f x) t = (y, u)" by (cases "run_state (f x) t")
  have "R s t" "P x t" using assms(1) xt by (auto simp: post_def dest: spec[of _ s])
  moreover have "R t u" "P x u \<longrightarrow> Q y u" using assms(3)[of x] yu by (auto simp: post_def dest: spec[of _ t])
  ultimately show "R s (snd (run_state (State_Monad.bind m f) s)) \<and>
      Q (fst (run_state (State_Monad.bind m f) s)) (snd (run_state (State_Monad.bind m f) s))"
    using assms(2)[of x] xt yu trans[of s t u] by (auto simp: stable_def)
qed

lemma post_bind_any:
  assumes "post R m (\<lambda>_ _. True)" and "\<And>x. post R (f x) Q"
  shows "post R (State_Monad.bind m f) Q"
  using assms by (intro post_bind[where P = "\<lambda>_ _. True"]) auto

lemma post_traverse_list2:
  assumes "\<And>x. x \<in> set xs \<Longrightarrow> post R (f x) (P x)" and "\<And>x y. stable R (P x y)"
  shows "post R (traverse_list f xs) (\<lambda>ys s. list_all2 (\<lambda>x y. P x y s) xs ys)"
  using assms(1)
proof (induction xs)
  case Nil
  show ?case by (simp add: post_return)
next
  case (Cons x xs)
  show ?case unfolding traverse_list.simps
  proof (rule post_bind)
    show "post R (f x) (P x)" using Cons.prems by simp
    show "stable R (P x y)" for y by (rule assms(2))
    show "post R (State_Monad.bind (traverse_list f xs) (\<lambda>ys. State_Monad.return (y # ys)))
        (\<lambda>ys s. P x y s \<longrightarrow> list_all2 (\<lambda>x y. P x y s) (x # xs) ys)" for y
    proof (rule post_bind)
      show "post R (traverse_list f xs) (\<lambda>ys s. list_all2 (\<lambda>x y. P x y s) xs ys)"
        using Cons by simp
      show "stable R (\<lambda>s. list_all2 (\<lambda>x y. P x y s) xs ys)" for ys
        by (rule stable_list_all2) (rule assms(2))
    qed (rule post_return, simp)
  qed
qed

lemma post_traverse_list:
  assumes "\<And>x. x \<in> set xs \<Longrightarrow> post R (f x) P" and "\<And>y. stable R (P y)"
  shows "post R (traverse_list f xs) (\<lambda>ys s. list_all (\<lambda>y. P y s) ys)"
  by (rule post_weaken[OF post_traverse_list2[of xs f "\<lambda>_. P"]])
    (auto simp: assms list_all2_conv_all_nth list_all_length)

lemma post_traverse_option:
  assumes "\<And>x. v = Some x \<Longrightarrow> post R (f x) P" and "\<And>y. stable R (P y)"
  shows "post R (traverse_option f v) (\<lambda>w s. pred_option (\<lambda>y. P y s) w)"
  using assms by (cases v) (auto intro!: post_return post_bind)

lemma fold_state_from:
  assumes step: "\<And>x b. x \<in> set xs \<Longrightarrow> post R (f x b) (\<lambda>b' s. I b s \<longrightarrow> I b' s)"
    and stable: "\<And>b. stable R (I b)" and init: "I b s"
  shows "R s (snd (run_state (fold_state f xs b) s)) \<and>
      I (fst (run_state (fold_state f xs b) s)) (snd (run_state (fold_state f xs b) s))"
  using step init
proof (induction xs arbitrary: b s)
  case Nil
  then show ?case by (simp add: refl)
next
  case (Cons x xs)
  obtain c t where ct: "run_state (f x b) s = (c, t)" by (cases "run_state (f x b) s")
  have "post R (f x b) (\<lambda>b' s. I b s \<longrightarrow> I b' s)" using Cons.prems(1) by simp
  then have t: "R s t" "I b t \<longrightarrow> I c t" using ct by (auto simp: post_def dest: spec[of _ s])
  with stable[of b] Cons.prems(2) have "I c t" by (auto simp: stable_def)
  with Cons.IH[of c t] Cons.prems(1) have "R t (snd (run_state (fold_state f xs c) t)) \<and>
      I (fst (run_state (fold_state f xs c) t)) (snd (run_state (fold_state f xs c) t))" by simp
  with ct t(1) show ?case by (auto intro: trans)
qed

lemma post_fold_state:
  assumes "\<And>x b. x \<in> set xs \<Longrightarrow> post R (f x b) (\<lambda>b' s. I b s \<longrightarrow> I b' s)"
    and "\<And>b. stable R (I b)" and "\<And>s. I b s"
  shows "post R (fold_state f xs b) I"
  unfolding post_def using fold_state_from[of xs f I b] assms by simp

text \<open>A loop whose initial value comes from the action before it.\<close>

lemma post_bind_fold:
  assumes "post R m (\<lambda>x s. I (g x) s)" and "\<And>b. stable R (I b)"
    and "\<And>y b. y \<in> set ys \<Longrightarrow> post R (f y b) (\<lambda>b' s. I b s \<longrightarrow> I b' s)"
  shows "post R (State_Monad.bind m (\<lambda>x. fold_state f ys (g x))) I"
  unfolding post_def
proof
  fix s
  obtain x t where xt: "run_state m s = (x, t)" by (cases "run_state m s")
  have "R s t" "I (g x) t" using assms(1) xt by (auto simp: post_def dest: spec[of _ s])
  moreover from this(2) have "R t (snd (run_state (fold_state f ys (g x)) t)) \<and>
      I (fst (run_state (fold_state f ys (g x)) t)) (snd (run_state (fold_state f ys (g x)) t))"
    using fold_state_from[of ys f I "g x" t] assms(2,3) by simp
  ultimately show "R s (snd (run_state (State_Monad.bind m (\<lambda>x. fold_state f ys (g x))) s)) \<and>
      I (fst (run_state (State_Monad.bind m (\<lambda>x. fold_state f ys (g x))) s))
        (snd (run_state (State_Monad.bind m (\<lambda>x. fold_state f ys (g x))) s))"
    using xt trans[of s t] by simp
qed

lemma post_update: "(\<And>s. R s (f s) \<and> Q () (f s)) \<Longrightarrow> post R (State_Monad.update f) Q"
  by (simp add: post_def State_Monad.update_def)

end

section \<open>Commutative merges\<close>

text \<open>
  A merge that is associative, commutative and idempotent does not care about the order or
  the multiplicity of what is merged.
\<close>

locale semilattice_merge =
  fixes merge :: "'a \<Rightarrow> 'a \<Rightarrow> 'a"
  assumes assoc: "merge (merge a b) c = merge a (merge b c)"
    and commute: "merge a b = merge b a"
    and idem: "merge a a = a"
begin

lemma left_commute: "merge b (merge a c) = merge a (merge b c)"
  using assoc commute by metis

lemma merge_absorb: "merge (merge a x) x = merge a x"
  by (simp add: assoc idem)

lemma foldl_merge_start: "foldl merge (merge a b) xs = merge a (foldl merge b xs)"
  by (induction xs arbitrary: b) (simp_all add: assoc)

lemma foldl_merge_absorb: "x \<in> set xs \<Longrightarrow> merge (foldl merge a xs) x = foldl merge a xs"
proof (induction xs arbitrary: a)
  case (Cons y ys)
  show ?case
  proof (cases "x = y")
    case True
    then have "foldl merge a (y # ys) = merge x (foldl merge a ys)"
      by (simp add: commute[of a] foldl_merge_start)
    then show ?thesis by (metis commute merge_absorb)
  qed (use Cons in auto)
qed simp

lemma foldl_merge_insert: "x \<in> set xs \<Longrightarrow> foldl merge (merge a x) xs = foldl merge a xs"
  using foldl_merge_absorb[of x xs a] foldl_merge_start[of x a xs] by (simp add: commute)

lemma foldl_merge_mono_set:
  "set xs \<subseteq> set ys \<Longrightarrow> merge (foldl merge a xs) (foldl merge a ys) = foldl merge a ys"
proof (induction xs arbitrary: a)
  case Nil
  show ?case by (simp add: foldl_merge_start[symmetric] idem)
next
  case (Cons x xs)
  then have "merge (foldl merge (merge a x) xs) (foldl merge (merge a x) ys) = foldl merge (merge a x) ys"
    by simp
  moreover have "foldl merge (merge a x) ys = foldl merge a ys"
    using Cons.prems by (intro foldl_merge_insert) auto
  ultimately show ?case by simp
qed

lemma foldl_merge_set_eq: "set xs = set ys \<Longrightarrow> foldl merge a xs = foldl merge a ys"
  using foldl_merge_mono_set[of xs ys a] foldl_merge_mono_set[of ys xs a] commute by auto

end

end
