(* ===== verification/QF_Types.thy ===== *)
theory QF_Types
  imports QF_Prelude
begin

text \<open>
  The portable type system, parameters, capability requirements, source spans, diagnostics
  and provenance receipts: \<^verbatim>\<open>crates/queryfabric-ir/src/types.rs\<close> and
  \<^verbatim>\<open>crates/queryfabric-ir/src/diagnostics.rs\<close>. The main result is that \<open>common_type\<close> computes
  least upper bounds of the implicit-coercion order.
\<close>

type_synonym i64 = "64 word"

section \<open>Data types\<close>

record FieldMetadata =
  fm_unit :: "string option"
  fm_coordinate_reference_system :: "string option"
  fm_ontology_id :: "string option"
  fm_modality :: "string option"
  fm_provenance :: "string option"
  fm_measurement_scale :: "string option"
  fm_shape :: "nat list"
  fm_extensions :: "(string, string) btree_map"

definition FieldMetadata_default :: FieldMetadata where
  "FieldMetadata_default =
     \<lparr>fm_unit = None, fm_coordinate_reference_system = None, fm_ontology_id = None,
      fm_modality = None, fm_provenance = None, fm_measurement_scale = None,
      fm_shape = [], fm_extensions = []\<rparr>"

definition FieldMetadata_is_empty :: "FieldMetadata \<Rightarrow> bool" where
  "FieldMetadata_is_empty m \<longleftrightarrow>
     fm_unit m = None \<and> fm_coordinate_reference_system m = None \<and> fm_ontology_id m = None \<and>
     fm_modality m = None \<and> fm_provenance m = None \<and> fm_measurement_scale m = None \<and>
     fm_shape m = [] \<and> fm_extensions m = []"

datatype DataType =
    Boolean
  | Int32
  | Int64
  | Float64
  | Utf8
  | Uuid
  | Json
  | Date
  | Decimal (precision: u8) (scale: u8) \<comment> \<open>scale is an i8: read it with \<open>sint\<close>\<close>
  | Timestamp (timezone: "string option")
  | List DataType
  | Struct "ResultField list"
  | Unknown
and ResultField =
    ResultField (rf_name: string) (rf_data_type: DataType) (rf_nullable: bool)
      (rf_metadata: FieldMetadata)

definition is_unknown :: "DataType \<Rightarrow> bool" where
  "is_unknown t \<longleftrightarrow> t = Unknown"

definition is_numeric :: "DataType \<Rightarrow> bool" where
  "is_numeric t \<longleftrightarrow> (case t of Int32 \<Rightarrow> True | Int64 \<Rightarrow> True | Float64 \<Rightarrow> True | Decimal _ _ \<Rightarrow> True | _ \<Rightarrow> False)"

fun common_type :: "DataType \<Rightarrow> DataType \<Rightarrow> DataType option" where
  "common_type left right =
     (if left = right then Some left
      else case (left, right) of
        (Unknown, other) \<Rightarrow> Some other
      | (other, Unknown) \<Rightarrow> Some other
      | (Int32, Int64) \<Rightarrow> Some Int64
      | (Int64, Int32) \<Rightarrow> Some Int64
      | (Int32, Float64) \<Rightarrow> Some Float64
      | (Float64, Int32) \<Rightarrow> Some Float64
      | (Int64, Float64) \<Rightarrow> Some Float64
      | (Float64, Int64) \<Rightarrow> Some Float64
      | (List l, List r) \<Rightarrow> map_option List (common_type l r)
      | _ \<Rightarrow> None)"

declare common_type.simps [simp del]

definition ResultField_new :: "string \<Rightarrow> DataType \<Rightarrow> bool \<Rightarrow> ResultField" where
  "ResultField_new name data_type nullable = ResultField name data_type nullable FieldMetadata_default"

definition set_rf_name :: "string \<Rightarrow> ResultField \<Rightarrow> ResultField" where
  "set_rf_name n f = ResultField n (rf_data_type f) (rf_nullable f) (rf_metadata f)"

definition set_rf_nullable :: "bool \<Rightarrow> ResultField \<Rightarrow> ResultField" where
  "set_rf_nullable b f = ResultField (rf_name f) (rf_data_type f) b (rf_metadata f)"

lemma set_rf_simps [simp]:
  "rf_name (set_rf_name n f) = n" "rf_data_type (set_rf_name n f) = rf_data_type f"
  "rf_nullable (set_rf_name n f) = rf_nullable f" "rf_metadata (set_rf_name n f) = rf_metadata f"
  "rf_name (set_rf_nullable b f) = rf_name f" "rf_data_type (set_rf_nullable b f) = rf_data_type f"
  "rf_nullable (set_rf_nullable b f) = b" "rf_metadata (set_rf_nullable b f) = rf_metadata f"
  by (simp_all add: set_rf_name_def set_rf_nullable_def)

record ResultSchema =
  rs_fields :: "ResultField list"
  rs_metadata :: "(string, string) btree_map"

definition ResultSchema_new :: "ResultField list \<Rightarrow> ResultSchema" where
  "ResultSchema_new fs = \<lparr>rs_fields = fs, rs_metadata = []\<rparr>"

definition ResultSchema_default :: ResultSchema where
  "ResultSchema_default = \<lparr>rs_fields = [], rs_metadata = []\<rparr>"

definition ResultSchema_is_empty :: "ResultSchema \<Rightarrow> bool" where
  "ResultSchema_is_empty s \<longleftrightarrow> rs_fields s = []"

lemma rs_fields_new [simp]: "rs_fields (ResultSchema_new fs) = fs" "rs_fields ResultSchema_default = []"
  by (simp_all add: ResultSchema_new_def ResultSchema_default_def)

section \<open>Parameters\<close>

datatype ParameterRef = Positional u32 | Named string

text \<open>The derived \<^verbatim>\<open>Ord\<close>: variants in declaration order, then their payload.\<close>

fun ParameterRef_key :: "ParameterRef \<Rightarrow> nat \<times> u32 \<times> string" where
  "ParameterRef_key (Positional p) = (0, p, '''')"
| "ParameterRef_key (Named n) = (1, 0, n)"

lemma ParameterRef_key_inj: "ParameterRef_key a = ParameterRef_key b \<longleftrightarrow> a = b"
  by (cases a; cases b) auto

instantiation ParameterRef :: linorder
begin

definition less_eq_ParameterRef :: "ParameterRef \<Rightarrow> ParameterRef \<Rightarrow> bool" where
  "less_eq_ParameterRef a b \<longleftrightarrow> ParameterRef_key a \<le> ParameterRef_key b"

definition less_ParameterRef :: "ParameterRef \<Rightarrow> ParameterRef \<Rightarrow> bool" where
  "less_ParameterRef a b \<longleftrightarrow> ParameterRef_key a < ParameterRef_key b"

instance
  by intro_classes
    (auto simp: less_eq_ParameterRef_def less_ParameterRef_def less_le ParameterRef_key_inj)

end

fun ParameterRef_display :: "ParameterRef \<Rightarrow> string" where
  "ParameterRef_display (Positional position) = ''$'' @ nat_to_string (unat position)"
| "ParameterRef_display (Named name) = '':'' @ name"

datatype ParameterValue =
    Null
  | Boolean bool
  | Int64 i64
  | Float64 string
  | Utf8 string
  | Uuid string
  | Json string
  | List "ParameterValue list"

fun inferred_type :: "ParameterValue \<Rightarrow> DataType" where
  "inferred_type ParameterValue.Null = DataType.Unknown"
| "inferred_type (ParameterValue.Boolean _) = DataType.Boolean"
| "inferred_type (ParameterValue.Int64 _) = DataType.Int64"
| "inferred_type (ParameterValue.Float64 _) = DataType.Float64"
| "inferred_type (ParameterValue.Utf8 _) = DataType.Utf8"
| "inferred_type (ParameterValue.Uuid _) = DataType.Uuid"
| "inferred_type (ParameterValue.Json _) = DataType.Json"
| "inferred_type (ParameterValue.List values) =
     DataType.List
       (case reduce (\<lambda>left right. case common_type left right of Some t \<Rightarrow> t | None \<Rightarrow> DataType.Unknown)
               (filter (\<lambda>ty. \<not> is_unknown ty) (map inferred_type values)) of
          Some t \<Rightarrow> t
        | None \<Rightarrow> DataType.Unknown)"

record ParameterSchema =
  ps_reference :: ParameterRef
  ps_data_type :: DataType
  ps_nullable :: bool
  ps_metadata :: FieldMetadata

record ParameterSummary =
  psm_positional_count :: u32
  psm_named_params :: "string list"

record ParameterBinding =
  pb_schema :: ParameterSchema
  pb_value :: "ParameterValue option"

record QueryParameters =
  qp_positional :: "(u32, ParameterValue) btree_map"
  qp_named :: "(string, ParameterValue) btree_map"

definition QueryParameters_default :: QueryParameters where
  "QueryParameters_default = \<lparr>qp_positional = [], qp_named = []\<rparr>"

definition insert_positional :: "u32 \<Rightarrow> ParameterValue \<Rightarrow> QueryParameters \<Rightarrow> QueryParameters" where
  "insert_positional position value ps =
     ps\<lparr>qp_positional := bt_insert position value (qp_positional ps)\<rparr>"

definition insert_named :: "string \<Rightarrow> ParameterValue \<Rightarrow> QueryParameters \<Rightarrow> QueryParameters" where
  "insert_named name value ps = ps\<lparr>qp_named := bt_insert name value (qp_named ps)\<rparr>"

fun QueryParameters_lookup :: "QueryParameters \<Rightarrow> ParameterRef \<Rightarrow> ParameterValue option" where
  "QueryParameters_lookup ps (Positional position) = bt_get (qp_positional ps) position"
| "QueryParameters_lookup ps (Named name) = bt_get (qp_named ps) name"

definition QueryParameters_is_empty :: "QueryParameters \<Rightarrow> bool" where
  "QueryParameters_is_empty ps \<longleftrightarrow> qp_positional ps = [] \<and> qp_named ps = []"

section \<open>Function references and capability requirements\<close>

datatype FunctionRef = FunctionRef (fr_namespace: "string option") (fr_name: string)

instantiation FunctionRef :: linorder
begin

definition less_eq_FunctionRef :: "FunctionRef \<Rightarrow> FunctionRef \<Rightarrow> bool" where
  "less_eq_FunctionRef a b \<longleftrightarrow> (fr_namespace a, fr_name a) \<le> (fr_namespace b, fr_name b)"

definition less_FunctionRef :: "FunctionRef \<Rightarrow> FunctionRef \<Rightarrow> bool" where
  "less_FunctionRef a b \<longleftrightarrow> (fr_namespace a, fr_name a) < (fr_namespace b, fr_name b)"

instance
  by intro_classes (auto simp: less_eq_FunctionRef_def less_FunctionRef_def FunctionRef.expand)

end

definition FunctionRef_display_name :: "FunctionRef \<Rightarrow> string" where
  "FunctionRef_display_name f =
     (case fr_namespace f of Some namespace \<Rightarrow> namespace @ ''.'' @ fr_name f | None \<Rightarrow> fr_name f)"

datatype CapabilityRequirement =
    CommonTableExpressions
  | DerivedTables
  | Joins
  | Windows
  | SetOperations
  | Aggregates
  | DistinctAggregates
  | ScalarSubqueries
  | InSubqueries
  | Explain
  | LimitOffset
  | NamespacedFunctions
  | ApproximateAggregates
  | BackendSpecific string

fun CapabilityRequirement_key :: "CapabilityRequirement \<Rightarrow> nat \<times> string" where
  "CapabilityRequirement_key CommonTableExpressions = (0, '''')"
| "CapabilityRequirement_key DerivedTables = (1, '''')"
| "CapabilityRequirement_key Joins = (2, '''')"
| "CapabilityRequirement_key Windows = (3, '''')"
| "CapabilityRequirement_key SetOperations = (4, '''')"
| "CapabilityRequirement_key Aggregates = (5, '''')"
| "CapabilityRequirement_key DistinctAggregates = (6, '''')"
| "CapabilityRequirement_key ScalarSubqueries = (7, '''')"
| "CapabilityRequirement_key InSubqueries = (8, '''')"
| "CapabilityRequirement_key Explain = (9, '''')"
| "CapabilityRequirement_key LimitOffset = (10, '''')"
| "CapabilityRequirement_key NamespacedFunctions = (11, '''')"
| "CapabilityRequirement_key ApproximateAggregates = (12, '''')"
| "CapabilityRequirement_key (BackendSpecific s) = (13, s)"

lemma CapabilityRequirement_key_inj:
  "CapabilityRequirement_key a = CapabilityRequirement_key b \<longleftrightarrow> a = b"
  by (cases a; cases b) auto

instantiation CapabilityRequirement :: linorder
begin

definition less_eq_CapabilityRequirement :: "CapabilityRequirement \<Rightarrow> CapabilityRequirement \<Rightarrow> bool" where
  "less_eq_CapabilityRequirement a b \<longleftrightarrow> CapabilityRequirement_key a \<le> CapabilityRequirement_key b"

definition less_CapabilityRequirement :: "CapabilityRequirement \<Rightarrow> CapabilityRequirement \<Rightarrow> bool" where
  "less_CapabilityRequirement a b \<longleftrightarrow> CapabilityRequirement_key a < CapabilityRequirement_key b"

instance
  by intro_classes
    (auto simp: less_eq_CapabilityRequirement_def less_CapabilityRequirement_def
      less_le CapabilityRequirement_key_inj)

end

record CapabilityRequirements =
  cr_required :: "CapabilityRequirement list"
  cr_referenced_functions :: "FunctionRef list"

definition CapabilityRequirements_default :: CapabilityRequirements where
  "CapabilityRequirements_default = \<lparr>cr_required = [], cr_referenced_functions = []\<rparr>"

definition require :: "CapabilityRequirement \<Rightarrow> CapabilityRequirements \<Rightarrow> CapabilityRequirements" where
  "require requirement r = r\<lparr>cr_required := bs_insert requirement (cr_required r)\<rparr>"

definition record_function :: "FunctionRef \<Rightarrow> CapabilityRequirements \<Rightarrow> CapabilityRequirements" where
  "record_function f r = r\<lparr>cr_referenced_functions := bs_insert f (cr_referenced_functions r)\<rparr>"

definition CapabilityRequirements_is_empty :: "CapabilityRequirements \<Rightarrow> bool" where
  "CapabilityRequirements_is_empty r \<longleftrightarrow> cr_required r = [] \<and> cr_referenced_functions r = []"

lemma require_simps [simp]:
  "set (cr_required (require q r)) = insert q (set (cr_required r))"
  "cr_referenced_functions (require q r) = cr_referenced_functions r"
  "cr_required (record_function f r) = cr_required r"
  "set (cr_referenced_functions (record_function f r)) = insert f (set (cr_referenced_functions r))"
  by (simp_all add: require_def record_function_def)

datatype CatalogSnapshotId = CatalogSnapshotId string

record DialectMetadata =
  dm_entries :: "(string, string) btree_map"

definition DialectMetadata_default :: DialectMetadata where
  "DialectMetadata_default = \<lparr>dm_entries = []\<rparr>"

definition DialectMetadata_get :: "DialectMetadata \<Rightarrow> string \<Rightarrow> string option" where
  "DialectMetadata_get m key = bt_get (dm_entries m) key"

definition DialectMetadata_insert :: "string \<Rightarrow> string \<Rightarrow> DialectMetadata \<Rightarrow> DialectMetadata" where
  "DialectMetadata_insert key value m = m\<lparr>dm_entries := bt_insert key value (dm_entries m)\<rparr>"

section \<open>Spans, diagnostics and receipts\<close>

record QuerySourceSpan =
  qs_offset :: nat
  qs_len :: nat

definition span_whole :: "string \<Rightarrow> QuerySourceSpan" where
  "span_whole input = \<lparr>qs_offset = 0, qs_len = length input\<rparr>"

definition span_end :: "QuerySourceSpan \<Rightarrow> nat" where
  "span_end s = qs_offset s + qs_len s"

definition span_union :: "QuerySourceSpan \<Rightarrow> QuerySourceSpan \<Rightarrow> QuerySourceSpan" where
  "span_union a b =
     (let start = min (qs_offset a) (qs_offset b);
          end' = max (span_end a) (span_end b)
      in \<lparr>qs_offset = start, qs_len = end' - start\<rparr>)"

datatype DiagnosticSeverity = Error | Warning | Note

record QueryDiagnostic =
  qd_code :: string
  qd_severity :: DiagnosticSeverity
  qd_message :: string
  qd_remediation :: "string option"
  qd_backend :: "string option"
  qd_span :: "QuerySourceSpan option"
  qd_node_id :: "string option"

definition QueryDiagnostic_error :: "string \<Rightarrow> string \<Rightarrow> QueryDiagnostic" where
  "QueryDiagnostic_error code message =
     \<lparr>qd_code = code, qd_severity = Error, qd_message = message, qd_remediation = None,
      qd_backend = None, qd_span = None, qd_node_id = None\<rparr>"

definition QueryDiagnostic_warning :: "string \<Rightarrow> string \<Rightarrow> QueryDiagnostic" where
  "QueryDiagnostic_warning code message =
     \<lparr>qd_code = code, qd_severity = Warning, qd_message = message, qd_remediation = None,
      qd_backend = None, qd_span = None, qd_node_id = None\<rparr>"

definition QueryDiagnostic_note :: "string \<Rightarrow> string \<Rightarrow> QueryDiagnostic" where
  "QueryDiagnostic_note code message =
     \<lparr>qd_code = code, qd_severity = Note, qd_message = message, qd_remediation = None,
      qd_backend = None, qd_span = None, qd_node_id = None\<rparr>"

definition is_error :: "QueryDiagnostic \<Rightarrow> bool" where
  "is_error d \<longleftrightarrow> qd_severity d = Error"

definition with_remediation :: "string \<Rightarrow> QueryDiagnostic \<Rightarrow> QueryDiagnostic" where
  "with_remediation r d = d\<lparr>qd_remediation := Some r\<rparr>"

definition with_backend :: "string \<Rightarrow> QueryDiagnostic \<Rightarrow> QueryDiagnostic" where
  "with_backend b d = d\<lparr>qd_backend := Some b\<rparr>"

definition with_span :: "QuerySourceSpan \<Rightarrow> QueryDiagnostic \<Rightarrow> QueryDiagnostic" where
  "with_span s d = d\<lparr>qd_span := Some s\<rparr>"

definition with_node_id :: "string \<Rightarrow> QueryDiagnostic \<Rightarrow> QueryDiagnostic" where
  "with_node_id n d = d\<lparr>qd_node_id := Some n\<rparr>"

record ProvenanceReceipt =
  pr_query_hash :: string
  pr_compiler_version :: string
  pr_catalog_snapshot :: "CatalogSnapshotId option"
  pr_dialect :: string
  pr_backend :: "string option"
  pr_capability_decision :: "string option"
  pr_artifact_identity :: "string option"

text \<open>
  \<^verbatim>\<open>query_hash\<close> calls the external \<^verbatim>\<open>blake3\<close> crate: its digest is the parameter \<open>blake3_hex\<close>.
\<close>

definition query_hash :: "(string \<Rightarrow> string) \<Rightarrow> string \<Rightarrow> string" where
  "query_hash blake3_hex sql = blake3_hex sql"

definition ProvenanceReceipt_for_query ::
  "(string \<Rightarrow> string) \<Rightarrow> string \<Rightarrow> string \<Rightarrow> ProvenanceReceipt" where
  "ProvenanceReceipt_for_query blake3_hex canonical_sql dialect =
     \<lparr>pr_query_hash = query_hash blake3_hex canonical_sql, pr_compiler_version = ''unknown'',
      pr_catalog_snapshot = None, pr_dialect = dialect, pr_backend = None,
      pr_capability_decision = None, pr_artifact_identity = None\<rparr>"

definition receipt_with_compiler_version :: "string \<Rightarrow> ProvenanceReceipt \<Rightarrow> ProvenanceReceipt" where
  "receipt_with_compiler_version v r = r\<lparr>pr_compiler_version := v\<rparr>"

definition receipt_with_catalog_snapshot :: "CatalogSnapshotId \<Rightarrow> ProvenanceReceipt \<Rightarrow> ProvenanceReceipt" where
  "receipt_with_catalog_snapshot s r = r\<lparr>pr_catalog_snapshot := Some s\<rparr>"

definition receipt_with_backend :: "string \<Rightarrow> ProvenanceReceipt \<Rightarrow> ProvenanceReceipt" where
  "receipt_with_backend b r = r\<lparr>pr_backend := Some b\<rparr>"

definition receipt_with_capability_decision :: "string \<Rightarrow> ProvenanceReceipt \<Rightarrow> ProvenanceReceipt" where
  "receipt_with_capability_decision d r = r\<lparr>pr_capability_decision := Some d\<rparr>"

definition receipt_with_artifact_identity :: "string \<Rightarrow> ProvenanceReceipt \<Rightarrow> ProvenanceReceipt" where
  "receipt_with_artifact_identity i r = r\<lparr>pr_artifact_identity := Some i\<rparr>"

lemma is_error_simps [simp]:
  "is_error (QueryDiagnostic_error c m)" "\<not> is_error (QueryDiagnostic_warning c m)"
  "\<not> is_error (QueryDiagnostic_note c m)"
  "is_error (with_remediation r d) = is_error d" "is_error (with_backend b d) = is_error d"
  "is_error (with_span s d) = is_error d" "is_error (with_node_id n d) = is_error d"
  by (simp_all add: is_error_def QueryDiagnostic_error_def QueryDiagnostic_warning_def
      QueryDiagnostic_note_def with_remediation_def with_backend_def with_span_def with_node_id_def)

section \<open>The coercion order\<close>

text \<open>
  The implicit coercions the binder accepts: \<open>Unknown\<close> is below every type, the numeric types
  form a chain, and lists are covariant.
\<close>

fun coerces :: "DataType \<Rightarrow> DataType \<Rightarrow> bool" where
  "coerces Unknown t = True"
| "coerces Int32 t = (t = Int32 \<or> t = DataType.Int64 \<or> t = DataType.Float64)"
| "coerces DataType.Int64 t = (t = DataType.Int64 \<or> t = DataType.Float64)"
| "coerces (DataType.List s) t = (case t of DataType.List r \<Rightarrow> coerces s r | _ \<Rightarrow> False)"
| "coerces s t = (s = t)"

lemma coerces_refl [simp]: "coerces t t"
  by (induction t) auto

lemma coerces_trans: "coerces a b \<Longrightarrow> coerces b c \<Longrightarrow> coerces a c"
proof (induction a b arbitrary: c rule: coerces.induct)
  case (4 s t)
  then show ?case by (auto split: DataType.splits)
qed auto

lemma coerces_antisym: "coerces a b \<Longrightarrow> coerces b a \<Longrightarrow> a = b"
proof (induction a b rule: coerces.induct)
  case (1 t)
  then show ?case by (cases t) auto
next
  case (4 s t)
  then show ?case by (auto split: DataType.splits)
qed auto

lemma coerces_Unknown_right [simp]: "coerces t Unknown \<longleftrightarrow> t = Unknown"
  by (cases t) auto

lemma coerces_List_left: "coerces (DataType.List s) t \<longleftrightarrow> (\<exists>r. t = DataType.List r \<and> coerces s r)"
  by (cases t) auto

lemma common_type_same [simp]: "common_type t t = Some t"
  by (simp add: common_type.simps)

lemma common_type_Unknown [simp]: "common_type Unknown t = Some t" "common_type t Unknown = Some t"
  by (cases t; simp add: common_type.simps)+

lemma common_type_List:
  "common_type (DataType.List a) (DataType.List b) = map_option DataType.List (common_type a b)"
  by (cases "a = b") (simp_all add: common_type.simps[of "DataType.List a"])

lemma common_type_commute: "common_type a b = common_type b a"
proof (induction a b rule: common_type.induct)
  case (1 a b)
  show ?case
  proof (cases "\<exists>l r. a = DataType.List l \<and> b = DataType.List r")
    case True
    with 1 show ?thesis by (metis common_type_List common_type_same)
  next
    case False
    then show ?thesis
      by (cases a; cases b; simp add: common_type.simps)
  qed
qed

lemma common_type_cases:
  "common_type a b =
     (if coerces a b then Some b else if coerces b a then Some a
      else case (a, b) of (DataType.List l, DataType.List r) \<Rightarrow> map_option DataType.List (common_type l r)
         | _ \<Rightarrow> None)"
proof (induction a b rule: common_type.induct)
  case (1 a b)
  show ?case
  proof (cases "\<exists>l r. a = DataType.List l \<and> b = DataType.List r")
    case True
    then obtain l r where ab: "a = DataType.List l" "b = DataType.List r" by auto
    show ?thesis
    proof (cases "l = r")
      case False
      with 1 ab have "common_type l r = (if coerces l r then Some r else if coerces r l then Some l
        else case (l, r) of (DataType.List l, DataType.List r) \<Rightarrow> map_option DataType.List (common_type l r)
           | _ \<Rightarrow> None)" by auto
      with ab show ?thesis by (auto simp: common_type_List)
    qed (use ab in simp)
  next
    case False
    then show ?thesis
      by (cases a; cases b; simp add: common_type.simps)
  qed
qed

lemma coerces_common: "coerces a b \<Longrightarrow> common_type a b = Some b"
  by (simp add: common_type_cases)

lemma common_type_upper: "common_type a b = Some c \<Longrightarrow> coerces a c \<and> coerces b c"
proof (induction a b arbitrary: c rule: common_type.induct)
  case (1 a b)
  show ?case
  proof (cases "\<exists>l r. a = DataType.List l \<and> b = DataType.List r")
    case True
    with 1 show ?thesis by (cases "a = b") (auto simp: common_type_List)
  next
    case False
    with "1.prems" show ?thesis
      by (cases a; cases b) (auto simp: common_type_cases split: if_splits)
  qed
qed

lemma common_type_least:
  "coerces a d \<Longrightarrow> coerces b d \<Longrightarrow> \<exists>c. common_type a b = Some c \<and> coerces c d"
proof (induction a b arbitrary: d rule: common_type.induct)
  case (1 a b)
  show ?case
  proof (cases "\<exists>l r. a = DataType.List l \<and> b = DataType.List r")
    case True
    then obtain l r where ab: "a = DataType.List l" "b = DataType.List r" by auto
    with "1.prems" obtain e where d: "d = DataType.List e" "coerces l e" "coerces r e"
      by (auto simp: coerces_List_left simp del: coerces.simps)
    show ?thesis
    proof (cases "l = r")
      case False
      with 1 ab d obtain c where "common_type l r = Some c" "coerces c e" by (auto; blast)
      with ab d show ?thesis by (simp add: common_type_List)
    qed (use ab d in simp)
  next
    case False
    with "1.prems" show ?thesis
      by (cases a; cases b) (auto simp: common_type_cases split: DataType.splits)
  qed
qed

lemma common_type_None_iff: "common_type a b = None \<longleftrightarrow> (\<nexists>d. coerces a d \<and> coerces b d)"
  using common_type_upper[of a b] common_type_least[of a _ b] by (cases "common_type a b") auto

lemma common_type_assoc:
  "Option.bind (common_type a b) (\<lambda>t. common_type t c) = Option.bind (common_type b c) (common_type a)"
proof -
  have iff: "Option.bind (common_type x y) (\<lambda>t. common_type t z) = Some w \<longleftrightarrow>
      coerces x w \<and> coerces y w \<and> coerces z w \<and>
      (\<forall>d. coerces x d \<and> coerces y d \<and> coerces z d \<longrightarrow> coerces w d)" for x y z w
  proof
    assume "Option.bind (common_type x y) (\<lambda>t. common_type t z) = Some w"
    then obtain t where t: "common_type x y = Some t" "common_type t z = Some w"
      by (auto simp: bind_eq_Some_conv)
    then show "coerces x w \<and> coerces y w \<and> coerces z w \<and>
        (\<forall>d. coerces x d \<and> coerces y d \<and> coerces z d \<longrightarrow> coerces w d)"
      by (metis common_type_least common_type_upper coerces_trans option.inject)
  next
    assume R: "coerces x w \<and> coerces y w \<and> coerces z w \<and>
        (\<forall>d. coerces x d \<and> coerces y d \<and> coerces z d \<longrightarrow> coerces w d)"
    then obtain t where t: "common_type x y = Some t" "coerces t w" using common_type_least by blast
    with R obtain u where u: "common_type t z = Some u" "coerces u w" using common_type_least by blast
    with t R have "coerces w u" by (meson coerces_trans common_type_upper)
    with u have "u = w" by (simp add: coerces_antisym)
    with t u show "Option.bind (common_type x y) (\<lambda>t. common_type t z) = Some w" by simp
  qed
  have rot: "Option.bind (common_type b c) (common_type a) = Option.bind (common_type b c) (\<lambda>t. common_type t a)"
    by (metis common_type_commute)
  have "Option.bind (common_type a b) (\<lambda>t. common_type t c) = Some w \<longleftrightarrow>
        Option.bind (common_type b c) (\<lambda>t. common_type t a) = Some w" for w
    unfolding iff by blast
  then show ?thesis unfolding rot by (metis option.exhaust)
qed

text \<open>
  C15. \<^verbatim>\<open>DataType::common_type\<close> computes least upper bounds of the coercion order: it returns
  \<open>c\<close> exactly when both types coerce to \<open>c\<close> and \<open>c\<close> coerces to every other common target.
\<close>

theorem common_type_is_lub:
  "common_type a b = Some c \<longleftrightarrow>
     coerces a c \<and> coerces b c \<and> (\<forall>d. coerces a d \<and> coerces b d \<longrightarrow> coerces c d)"
  by (metis coerces_antisym common_type_least common_type_upper option.inject)

theorem common_type_is_lub_witness:
  "common_type (DataType.List Int32) (DataType.List DataType.Float64)
     = Some (DataType.List DataType.Float64)"
  using common_type_is_lub[of "DataType.List Int32" "DataType.List DataType.Float64"
      "DataType.List DataType.Float64"]
  by (auto simp: coerces_List_left)

end
