(* ===== verification/QF_Syntax.thy ===== *)
theory QF_Syntax
  imports QF_Types
begin

text \<open>
  The parser-facing syntax tree and parsed queries: \<^verbatim>\<open>crates/queryfabric-ir/src/syntax.rs\<close>,
  the \<^verbatim>\<open>ParsedQuery\<close> part of \<^verbatim>\<open>bound.rs\<close> and \<^verbatim>\<open>error.rs\<close>. The structs that only wrap expressions,
  relations or queries are type constructors over them (\<open>'e\<close>, \<open>'r\<close>, \<open>'q\<close>); the four recursive
  types \<open>SyntaxQuery\<close>, \<open>SyntaxSetExpr\<close>, \<open>SyntaxRelation\<close> and \<open>SyntaxExpr\<close> tie the knot.
\<close>

datatype SyntaxNode = SyntaxNode (sn_span: "QuerySourceSpan option") (sn_node_id: string)

datatype NameRef = NameRef (nr_namespace: "string option") (nr_name: string)

definition NameRef_display_name :: "NameRef \<Rightarrow> string" where
  "NameRef_display_name n =
     (case nr_namespace n of Some namespace \<Rightarrow> namespace @ ''.'' @ nr_name n | None \<Rightarrow> nr_name n)"

datatype BackendClause =
    ClickHouseSettings string SyntaxNode
  | ClickHouseFormat string SyntaxNode

definition is_ClickHouseSettings_clause :: "BackendClause \<Rightarrow> bool" where
  "is_ClickHouseSettings_clause c \<longleftrightarrow> (case c of ClickHouseSettings _ _ \<Rightarrow> True | _ \<Rightarrow> False)"

definition is_ClickHouseFormat_clause :: "BackendClause \<Rightarrow> bool" where
  "is_ClickHouseFormat_clause c \<longleftrightarrow> (case c of ClickHouseFormat _ _ \<Rightarrow> True | _ \<Rightarrow> False)"

datatype JoinKind = Inner | Left | Right | Full | Cross

datatype UnaryOperator = Plus | Minus | Not

datatype BinaryOperator =
  Add | Subtract | Multiply | Divide | Eq | NotEq | Lt | LtEq | Gt | GtEq | And | Or

datatype LiteralValue = Null | Boolean bool | Int64 i64 | Float64 string | Utf8 string

datatype (plugins only: code size) 'e SyntaxOrderByExpr =
  SyntaxOrderByExpr (so_expr: 'e) (so_asc: "bool option") (so_nulls_first: "bool option")
    (so_node: SyntaxNode)

datatype (plugins only: code size) 'e WindowSpec =
  WindowSpec (ws_partition_by: "'e list") (ws_order_by: "'e SyntaxOrderByExpr list")
    (ws_node: SyntaxNode)

datatype (plugins only: code size) 'e SyntaxFunctionCall =
  SyntaxFunctionCall (sf_function: FunctionRef) (sf_args: "'e list") (sf_distinct: bool)
    (sf_filter: "'e option") (sf_over: "'e WindowSpec option")

datatype (plugins only: code size) 'e SyntaxWhenThen =
  SyntaxWhenThen (sw_condition: 'e) (sw_result: 'e)

datatype (plugins only: code size) ('e, 'q) SyntaxExprKind =
    Column "string option" string
  | Literal LiteralValue
  | Parameter ParameterRef
  | Unary UnaryOperator 'e
  | Binary BinaryOperator 'e 'e
  | Function "'e SyntaxFunctionCall"
  | Case "'e option" "'e SyntaxWhenThen list" "'e option"
  | Cast 'e DataType
  | Between 'e 'e 'e bool
  | InList 'e "'e list" bool
  | InSubquery 'e 'q bool
  | ScalarSubquery 'q
  | Exists 'q
  | Like 'e 'e bool bool
  | IsNull 'e bool
  | Tuple "'e list"
  | Array "'e list"
  | Unsupported string

datatype (plugins only: code size) 'e SyntaxProjectionExpr =
  SyntaxProjectionExpr (sp_expr: 'e) (sp_alias: "string option") (sp_node: SyntaxNode)

datatype (plugins only: code size) 'e SyntaxProjectionItem =
    Wildcard "string option" SyntaxNode
  | Expr "'e SyntaxProjectionExpr"
  | Unsupported string SyntaxNode

datatype (plugins only: code size) ('e, 'r) SyntaxJoin =
  SyntaxJoin (sj_kind: JoinKind) (sj_relation: 'r) (sj_on: "'e option") (sj_node: SyntaxNode)

datatype (plugins only: code size) ('e, 'r) SyntaxTableWithJoins =
  SyntaxTableWithJoins (st_relation: 'r) (st_joins: "('e, 'r) SyntaxJoin list") (st_node: SyntaxNode)

datatype (plugins only: code size) ('e, 'r) SyntaxSelect =
  SyntaxSelect (ss_distinct: bool) (ss_projection: "'e SyntaxProjectionItem list")
    (ss_from: "('e, 'r) SyntaxTableWithJoins list") (ss_selection: "'e option")
    (ss_group_by: "'e list") (ss_having: "'e option") (ss_node: SyntaxNode)

datatype (plugins only: code size) 'q SyntaxCte =
  SyntaxCte (sc_name: string) (sc_columns: "string list") (sc_query: 'q) (sc_node: SyntaxNode)

datatype (plugins only: code size) SyntaxQuery =
    SyntaxQuery (sq_node: SyntaxNode) (sq_ctes: "SyntaxQuery SyntaxCte list")
      (sq_with_recursive: bool) (sq_body: SyntaxSetExpr)
      (sq_order_by: "SyntaxExpr SyntaxOrderByExpr list") (sq_limit: "SyntaxExpr option")
      (sq_offset: "SyntaxExpr option") (sq_backend_clauses: "BackendClause list")
and SyntaxSetExpr =
    Select "(SyntaxExpr, SyntaxRelation) SyntaxSelect"
  | UnionAll SyntaxSetExpr SyntaxSetExpr SyntaxNode
  | Unsupported string SyntaxNode
and SyntaxRelation =
    Table NameRef "string option" SyntaxNode
  | Derived SyntaxQuery "string option" SyntaxNode
  | NestedJoin "(SyntaxExpr, SyntaxRelation) SyntaxTableWithJoins" "string option" SyntaxNode
  | Unsupported string SyntaxNode
and SyntaxExpr = SyntaxExpr (se_kind: "(SyntaxExpr, SyntaxQuery) SyntaxExprKind") (se_node: SyntaxNode)

definition SyntaxSetExpr_as_select :: "SyntaxSetExpr \<Rightarrow> (SyntaxExpr, SyntaxRelation) SyntaxSelect option" where
  "SyntaxSetExpr_as_select e = (case e of Select s \<Rightarrow> Some s | _ \<Rightarrow> None)"

definition SyntaxProjectionItem_expr ::
  "'e \<Rightarrow> string option \<Rightarrow> SyntaxNode \<Rightarrow> 'e SyntaxProjectionItem" where
  "SyntaxProjectionItem_expr expr alias node = Expr (SyntaxProjectionExpr expr alias node)"

definition SyntaxProjectionItem_as_expr :: "'e SyntaxProjectionItem \<Rightarrow> 'e SyntaxProjectionExpr option" where
  "SyntaxProjectionItem_as_expr item = (case item of Expr details \<Rightarrow> Some details | _ \<Rightarrow> None)"

definition SyntaxQuery_unsupported ::
  "QuerySourceSpan option \<Rightarrow> string \<Rightarrow> string \<Rightarrow> SyntaxQuery" where
  "SyntaxQuery_unsupported span node_id description =
     SyntaxQuery (SyntaxNode span node_id) [] False
       (SyntaxSetExpr.Unsupported description (SyntaxNode span ''unsupported'')) [] None None []"

section \<open>Parsed queries and errors\<close>

record ParsedQuery =
  pq_dialect :: string
  pq_source_sql :: string
  pq_canonical_sql :: string
  pq_explain :: bool
  pq_dialect_metadata :: DialectMetadata
  pq_query_span :: QuerySourceSpan
  pq_syntax :: SyntaxQuery
  pq_lowering_diagnostics :: "QueryDiagnostic list"

definition ParsedQuery_new :: "string \<Rightarrow> string \<Rightarrow> string \<Rightarrow> ParsedQuery" where
  "ParsedQuery_new dialect source_sql canonical_sql =
     (let query_span = span_whole source_sql in
      \<lparr>pq_dialect = dialect, pq_source_sql = source_sql, pq_canonical_sql = canonical_sql,
       pq_explain = False, pq_dialect_metadata = DialectMetadata_default,
       pq_query_span = query_span,
       pq_syntax = SyntaxQuery_unsupported (Some query_span) ''syntax.unsupported''
         ''query syntax missing'',
       pq_lowering_diagnostics = []\<rparr>)"

definition with_explain :: "bool \<Rightarrow> ParsedQuery \<Rightarrow> ParsedQuery" where
  "with_explain explain p = p\<lparr>pq_explain := explain\<rparr>"

definition with_dialect_metadata :: "DialectMetadata \<Rightarrow> ParsedQuery \<Rightarrow> ParsedQuery" where
  "with_dialect_metadata metadata p = p\<lparr>pq_dialect_metadata := metadata\<rparr>"

definition with_syntax :: "SyntaxQuery \<Rightarrow> ParsedQuery \<Rightarrow> ParsedQuery" where
  "with_syntax syntax p = p\<lparr>pq_syntax := syntax\<rparr>"

definition with_lowering_diagnostics :: "QueryDiagnostic list \<Rightarrow> ParsedQuery \<Rightarrow> ParsedQuery" where
  "with_lowering_diagnostics ds p = p\<lparr>pq_lowering_diagnostics := ds\<rparr>"

datatype QueryBudgetDimension = InputBytes | Parameters | SyntaxNodes | NestingDepth | Joins | Ctes

record BindErrorDetails =
  be_message :: string
  be_source_sql :: "string option"
  be_dialect :: "string option"
  be_diagnostics :: "QueryDiagnostic list"
  be_provenance :: "ProvenanceReceipt option"

datatype QueryFabricError =
    Parse string
  | Bind BindErrorDetails
  | UnsupportedFeature string string
  | Catalog string
  | Emission string
  | BudgetExceeded QueryBudgetDimension nat nat

type_synonym 'a result = "QueryFabricError + 'a"

definition QueryFabricError_bind ::
  "string \<Rightarrow> ParsedQuery option \<Rightarrow> QueryDiagnostic list \<Rightarrow> ProvenanceReceipt option \<Rightarrow> QueryFabricError" where
  "QueryFabricError_bind message query diagnostics provenance =
     Bind \<lparr>be_message = message, be_source_sql = map_option pq_source_sql query,
           be_dialect = map_option pq_dialect query, be_diagnostics = diagnostics,
           be_provenance = provenance\<rparr>"

definition QueryFabricError_as_bind :: "QueryFabricError \<Rightarrow> BindErrorDetails option" where
  "QueryFabricError_as_bind e = (case e of Bind details \<Rightarrow> Some details | _ \<Rightarrow> None)"

definition BindErrorDetails_with_compiler_version :: "string \<Rightarrow> BindErrorDetails \<Rightarrow> BindErrorDetails" where
  "BindErrorDetails_with_compiler_version v d =
     d\<lparr>be_provenance := map_option (receipt_with_compiler_version v) (be_provenance d)\<rparr>"

definition QueryFabricError_with_compiler_version :: "string \<Rightarrow> QueryFabricError \<Rightarrow> QueryFabricError" where
  "QueryFabricError_with_compiler_version v e =
     (case e of Bind details \<Rightarrow> Bind (BindErrorDetails_with_compiler_version v details) | other \<Rightarrow> other)"

section \<open>Sizes\<close>

text \<open>Elements of a list field are smaller than the node that holds the list.\<close>

lemma size_list_mem_le: "x \<in> set xs \<Longrightarrow> f x \<le> size_list f xs"
  by (induction xs) auto

lemma size_order_by_mem: "x \<in> set xs \<Longrightarrow> size (so_expr x) < size_list (size_SyntaxOrderByExpr size) xs"
  using size_list_mem_le[of x xs "size_SyntaxOrderByExpr size"] by (cases x) simp

lemma size_when_then_mem:
  "x \<in> set xs \<Longrightarrow> size (sw_condition x) < size_list (size_SyntaxWhenThen size) xs"
  "x \<in> set xs \<Longrightarrow> size (sw_result x) < size_list (size_SyntaxWhenThen size) xs"
  using size_list_mem_le[of x xs "size_SyntaxWhenThen size"] by (cases x; simp)+

lemma size_projection_mem:
  "x \<in> set xs \<Longrightarrow> SyntaxProjectionItem_as_expr x = Some d \<Longrightarrow>
     size (sp_expr d) < size_list (size_SyntaxProjectionItem size) xs"
  using size_list_mem_le[of x xs "size_SyntaxProjectionItem size"]
  by (cases d) (auto simp: SyntaxProjectionItem_as_expr_def split: SyntaxProjectionItem.splits)

lemma size_join_mem:
  "x \<in> set xs \<Longrightarrow> size (sj_relation x) < size_list (size_SyntaxJoin size size) xs"
  "x \<in> set xs \<Longrightarrow> sj_on x = Some e \<Longrightarrow> size e < size_list (size_SyntaxJoin size size) xs"
  using size_list_mem_le[of x xs "size_SyntaxJoin size size"] by (cases x; simp)+

lemma size_cte_mem: "x \<in> set xs \<Longrightarrow> size (sc_query x) < size_list (size_SyntaxCte size) xs"
  using size_list_mem_le[of x xs "size_SyntaxCte size"] by (cases x) simp

lemma size_WindowSpec_sel:
  "size_WindowSpec size w =
     size_list size (ws_partition_by w) + size_list (size_SyntaxOrderByExpr size) (ws_order_by w) + 1"
  by (cases w) simp

lemmas syntax_size_dests =
  size_list_mem_le[where f = size]
  size_list_mem_le[where f = "size_SyntaxCte size"]
  size_list_mem_le[where f = "size_SyntaxTableWithJoins size size"]
  size_order_by_mem size_when_then_mem size_projection_mem size_join_mem size_cte_mem

end
