(* ===== verification/QF_Budget.thy ===== *)
theory QF_Budget
  imports QF_Syntax
begin

text \<open>
  Compilation budgets: \<^verbatim>\<open>crates/queryfabric-ir/src/budget.rs\<close>. \<open>measure_query\<close> and its helpers walk
  the syntax tree and count nodes, depth, joins and CTEs; \<open>QueryBudget_check\<close> rejects the first
  exceeded dimension. Counters are \<^typ>\<open>nat\<close>: they count nodes of a tree that is in memory, so a
  \<^verbatim>\<open>usize\<close> cannot overflow.
\<close>

fun QueryBudgetDimension_display :: "QueryBudgetDimension \<Rightarrow> string" where
  "QueryBudgetDimension_display InputBytes = ''input bytes''"
| "QueryBudgetDimension_display Parameters = ''parameters''"
| "QueryBudgetDimension_display SyntaxNodes = ''syntax nodes''"
| "QueryBudgetDimension_display NestingDepth = ''nesting depth''"
| "QueryBudgetDimension_display QueryBudgetDimension.Joins = ''joins''"
| "QueryBudgetDimension_display Ctes = ''CTEs''"

record QueryBudget =
  max_input_bytes :: nat
  max_parameters :: nat
  max_syntax_nodes :: nat
  max_nesting_depth :: nat
  max_joins :: nat
  max_ctes :: nat

definition QueryBudget_default :: QueryBudget where
  "QueryBudget_default =
     \<lparr>max_input_bytes = 1024 * 1024, max_parameters = 256, max_syntax_nodes = 10000,
      max_nesting_depth = 64, max_joins = 256, max_ctes = 256\<rparr>"

record QueryBudgetUsage =
  input_bytes :: nat
  parameters :: nat
  syntax_nodes :: nat
  nesting_depth :: nat
  joins :: nat
  ctes :: nat

definition QueryBudgetUsage_default :: QueryBudgetUsage where
  "QueryBudgetUsage_default =
     \<lparr>input_bytes = 0, parameters = 0, syntax_nodes = 0, nesting_depth = 0, joins = 0, ctes = 0\<rparr>"

text \<open>\<^verbatim>\<open>QueryBudgetUsage { syntax_nodes: 1, nesting_depth: depth, ..default() }\<close>\<close>

definition usage_node :: "nat \<Rightarrow> QueryBudgetUsage" where
  "usage_node depth = QueryBudgetUsage_default\<lparr>syntax_nodes := 1, nesting_depth := depth\<rparr>"

definition merge :: "QueryBudgetUsage \<Rightarrow> QueryBudgetUsage \<Rightarrow> nat \<Rightarrow> QueryBudgetUsage" where
  "merge target source extra_depth =
     target\<lparr>syntax_nodes := syntax_nodes target + syntax_nodes source,
            nesting_depth := max (nesting_depth target) (nesting_depth source + extra_depth),
            joins := joins target + joins source,
            ctes := ctes target + ctes source\<rparr>"

text \<open>The loops \<^verbatim>\<open>for x in xs { merge(&mut usage, measure(x), 0) }\<close> and their \<^verbatim>\<open>if let\<close> forms.\<close>

definition merge_all :: "QueryBudgetUsage \<Rightarrow> QueryBudgetUsage list \<Rightarrow> QueryBudgetUsage" where
  "merge_all usage us = foldl (\<lambda>u s. merge u s 0) usage us"

definition merge_opt :: "QueryBudgetUsage \<Rightarrow> QueryBudgetUsage option \<Rightarrow> QueryBudgetUsage" where
  "merge_opt usage o' = (case o' of None \<Rightarrow> usage | Some s \<Rightarrow> merge usage s 0)"

definition add_nodes :: "nat \<Rightarrow> QueryBudgetUsage \<Rightarrow> QueryBudgetUsage" where
  "add_nodes n usage = usage\<lparr>syntax_nodes := syntax_nodes usage + n\<rparr>"

definition add_join :: "QueryBudgetUsage \<Rightarrow> QueryBudgetUsage" where
  "add_join usage = usage\<lparr>joins := joins usage + 1, syntax_nodes := syntax_nodes usage + 1\<rparr>"

function measure_query :: "SyntaxQuery \<Rightarrow> QueryBudgetUsage"
  and measure_cte :: "SyntaxQuery SyntaxCte \<Rightarrow> QueryBudgetUsage"
  and measure_set_expr :: "SyntaxSetExpr \<Rightarrow> nat \<Rightarrow> QueryBudgetUsage"
  and measure_table :: "(SyntaxExpr, SyntaxRelation) SyntaxTableWithJoins \<Rightarrow> nat \<Rightarrow> QueryBudgetUsage"
  and measure_relation :: "SyntaxRelation \<Rightarrow> nat \<Rightarrow> QueryBudgetUsage"
  and measure_expr :: "SyntaxExpr \<Rightarrow> nat \<Rightarrow> QueryBudgetUsage"
where
  "measure_query (SyntaxQuery node query_ctes with_recursive body order_by limit offset clauses) =
     merge_opt (merge_opt
       (foldl (\<lambda>u s. merge (add_nodes 1 u) s 0)
         (merge
           (foldl (\<lambda>u s. merge u s 1)
             (QueryBudgetUsage_default\<lparr>syntax_nodes := 1, ctes := length query_ctes\<rparr>)
             (map measure_cte query_ctes))
           (measure_set_expr body 1) 0)
         (map (\<lambda>order. measure_expr (so_expr order) 1) order_by))
       (map_option (\<lambda>e. measure_expr e 1) limit))
       (map_option (\<lambda>e. measure_expr e 1) offset)"
| "measure_cte (SyntaxCte name columns query node) =
     merge (QueryBudgetUsage_default\<lparr>syntax_nodes := 1, ctes := length (sq_ctes query)\<rparr>)
       (measure_query query) 1"
| "measure_set_expr (Select (SyntaxSelect distinct' projection from selection group_by having node)) depth =
     merge_opt (merge_all (merge_opt (merge_all
       (foldl (\<lambda>u o'. merge_opt (add_nodes 1 u) o') (usage_node depth)
         (map (\<lambda>item. map_option (\<lambda>details. measure_expr (sp_expr details) depth)
                 (SyntaxProjectionItem_as_expr item)) projection))
       (map (\<lambda>table. measure_table table depth) from))
       (map_option (\<lambda>e. measure_expr e depth) selection))
       (map (\<lambda>e. measure_expr e depth) group_by))
       (map_option (\<lambda>e. measure_expr e depth) having)"
| "measure_set_expr (UnionAll left right node) depth =
     merge (merge (usage_node depth) (measure_set_expr left (depth + 1)) 0)
       (measure_set_expr right (depth + 1)) 0"
| "measure_set_expr (SyntaxSetExpr.Unsupported description node) depth = usage_node depth"
| "measure_table (SyntaxTableWithJoins relation table_joins node) depth =
     foldl (\<lambda>usage (r, on). merge_opt (merge (add_join usage) r 0) on)
       (measure_relation relation depth)
       (map (\<lambda>join. (measure_relation (sj_relation join) depth,
                        map_option (\<lambda>e. measure_expr e depth) (sj_on join))) table_joins)"
| "measure_relation (Table name alias node) depth = usage_node depth"
| "measure_relation (SyntaxRelation.Unsupported description node) depth = usage_node depth"
| "measure_relation (Derived query alias node) depth =
     merge (usage_node depth) (measure_query query) (depth + 1)"
| "measure_relation (NestedJoin table_with_joins alias node) depth =
     merge (usage_node depth) (measure_table table_with_joins (depth + 1)) 0"
| "measure_expr (SyntaxExpr (Unary op e) node) depth =
     merge (usage_node depth) (measure_expr e (depth + 1)) 0"
| "measure_expr (SyntaxExpr (IsNull e negated) node) depth =
     merge (usage_node depth) (measure_expr e (depth + 1)) 0"
| "measure_expr (SyntaxExpr (Cast e data_type) node) depth =
     merge (usage_node depth) (measure_expr e (depth + 1)) 0"
| "measure_expr (SyntaxExpr (Binary op left right) node) depth =
     merge (merge (usage_node depth) (measure_expr left (depth + 1)) 0)
       (measure_expr right (depth + 1)) 0"
| "measure_expr (SyntaxExpr (Function (SyntaxFunctionCall f args distinct' filter' over)) node) depth =
     merge_all (merge_all
       (merge_opt (merge_all (usage_node depth) (map (\<lambda>e. measure_expr e (depth + 1)) args))
         (map_option (\<lambda>e. measure_expr e (depth + 1)) filter'))
       (case over of None \<Rightarrow> []
        | Some window \<Rightarrow> map (\<lambda>e. measure_expr e (depth + 1)) (ws_partition_by window)))
       (case over of None \<Rightarrow> []
        | Some window \<Rightarrow> map (\<lambda>order. measure_expr (so_expr order) (depth + 1)) (ws_order_by window))"
| "measure_expr (SyntaxExpr (Case operand when_then else_result) node) depth =
     merge_opt
       (foldl (\<lambda>u (c, r). merge (merge u c 0) r 0)
         (merge_opt (usage_node depth) (map_option (\<lambda>e. measure_expr e (depth + 1)) operand))
         (map (\<lambda>pair. (measure_expr (sw_condition pair) (depth + 1),
                        measure_expr (sw_result pair) (depth + 1))) when_then))
       (map_option (\<lambda>e. measure_expr e (depth + 1)) else_result)"
| "measure_expr (SyntaxExpr (Between e low high negated) node) depth =
     merge (merge (merge (usage_node depth) (measure_expr e (depth + 1)) 0)
       (measure_expr low (depth + 1)) 0) (measure_expr high (depth + 1)) 0"
| "measure_expr (SyntaxExpr (InList e items negated) node) depth =
     merge_all (merge (usage_node depth) (measure_expr e (depth + 1)) 0)
       (map (\<lambda>e. measure_expr e (depth + 1)) items)"
| "measure_expr (SyntaxExpr (InSubquery e subquery negated) node) depth =
     merge (merge (usage_node depth) (measure_expr e (depth + 1)) 0) (measure_query subquery) (depth + 1)"
| "measure_expr (SyntaxExpr (ScalarSubquery query) node) depth =
     merge (usage_node depth) (measure_query query) (depth + 1)"
| "measure_expr (SyntaxExpr (Exists query) node) depth =
     merge (usage_node depth) (measure_query query) (depth + 1)"
| "measure_expr (SyntaxExpr (Like e pattern negated case_insensitive) node) depth =
     merge (merge (usage_node depth) (measure_expr e (depth + 1)) 0) (measure_expr pattern (depth + 1)) 0"
| "measure_expr (SyntaxExpr (Tuple items) node) depth =
     merge_all (usage_node depth) (map (\<lambda>e. measure_expr e (depth + 1)) items)"
| "measure_expr (SyntaxExpr (Array items) node) depth =
     merge_all (usage_node depth) (map (\<lambda>e. measure_expr e (depth + 1)) items)"
| "measure_expr (SyntaxExpr (Column relation name) node) depth = usage_node depth"
| "measure_expr (SyntaxExpr (Literal value) node) depth = usage_node depth"
| "measure_expr (SyntaxExpr (Parameter reference) node) depth = usage_node depth"
| "measure_expr (SyntaxExpr (SyntaxExprKind.Unsupported description) node) depth = usage_node depth"
  by pat_completeness auto
termination
  by (relation "measure (case_sum
        (case_sum size (case_sum (size_SyntaxCte size) (\<lambda>(e, d). size e)))
        (case_sum (\<lambda>(t, d). size_SyntaxTableWithJoins size size t)
          (case_sum (\<lambda>(r, d). size r) (\<lambda>(e, d). size e))))")
    (auto simp: size_WindowSpec_sel dest: syntax_size_dests)

definition QueryBudgetUsage_for_parsed :: "ParsedQuery \<Rightarrow> QueryBudgetUsage" where
  "QueryBudgetUsage_for_parsed parsed =
     (measure_query (pq_syntax parsed))\<lparr>input_bytes := length (pq_source_sql parsed)\<rparr>"

definition QueryBudgetUsage_with_parameters :: "nat \<Rightarrow> QueryBudgetUsage \<Rightarrow> QueryBudgetUsage" where
  "QueryBudgetUsage_with_parameters n usage = usage\<lparr>parameters := n\<rparr>"

definition budget_limits :: "QueryBudget \<Rightarrow> QueryBudgetUsage \<Rightarrow> (QueryBudgetDimension \<times> nat \<times> nat) list" where
  "budget_limits budget usage =
     [(InputBytes, max_input_bytes budget, input_bytes usage),
      (Parameters, max_parameters budget, parameters usage),
      (SyntaxNodes, max_syntax_nodes budget, syntax_nodes usage),
      (NestingDepth, max_nesting_depth budget, nesting_depth usage),
      (QueryBudgetDimension.Joins, max_joins budget, joins usage),
      (Ctes, max_ctes budget, ctes usage)]"

fun check_limits :: "(QueryBudgetDimension \<times> nat \<times> nat) list \<Rightarrow> unit result" where
  "check_limits [] = Inr ()"
| "check_limits ((dimension, limit, actual) # rest) =
     (if actual > limit then Inl (BudgetExceeded dimension limit actual) else check_limits rest)"

definition QueryBudget_check :: "QueryBudget \<Rightarrow> QueryBudgetUsage \<Rightarrow> unit result" where
  "QueryBudget_check budget usage = check_limits (budget_limits budget usage)"

section \<open>What a check decides\<close>

lemma check_limits_Inr: "check_limits ls = Inr () \<longleftrightarrow> (\<forall>(d, limit, actual) \<in> set ls. actual \<le> limit)"
  by (induction ls rule: check_limits.induct) auto

lemma check_limits_Inl:
  "check_limits ls = Inl e \<longleftrightarrow>
     (\<exists>pre d limit actual post. ls = pre @ (d, limit, actual) # post \<and> limit < actual \<and>
        e = BudgetExceeded d limit actual \<and> (\<forall>(d, limit, actual) \<in> set pre. actual \<le> limit))"
proof (induction ls rule: check_limits.induct)
  case (2 dimension limit actual rest)
  let ?hit = "\<lambda>ls pre d limit actual post. ls = pre @ (d, limit, actual) # post \<and> limit < actual \<and>
    e = BudgetExceeded d limit actual \<and> (\<forall>(d, limit, actual) \<in> set pre. actual \<le> (limit :: nat))"
  show ?case
  proof
    assume L: "check_limits ((dimension, limit, actual) # rest) = Inl e"
    show "\<exists>pre d l a post. ?hit ((dimension, limit, actual) # rest) pre d l a post"
    proof (cases "actual > limit")
      case True
      with L have "?hit ((dimension, limit, actual) # rest) [] dimension limit actual rest" by simp
      then show ?thesis by blast
    next
      case False
      with L 2 obtain pre d l a post where "?hit rest pre d l a post" by auto
      with False have "?hit ((dimension, limit, actual) # rest) ((dimension, limit, actual) # pre) d l a post"
        by simp
      then show ?thesis by blast
    qed
  next
    assume "\<exists>pre d l a post. ?hit ((dimension, limit, actual) # rest) pre d l a post"
    then obtain pre d l a post where H: "?hit ((dimension, limit, actual) # rest) pre d l a post" by blast
    show "check_limits ((dimension, limit, actual) # rest) = Inl e"
    proof (cases pre)
      case Nil
      with H show ?thesis by simp
    next
      case (Cons x xs)
      with H have "\<not> limit < actual" and hit: "?hit rest xs d l a post" by auto
      from hit have "\<exists>pre d l a post. ?hit rest pre d l a post" by blast
      with 2 \<open>\<not> limit < actual\<close> show ?thesis by simp
    qed
  qed
qed simp

text \<open>
  \<^verbatim>\<open>QueryBudget::check\<close> accepts a usage exactly when all six dimensions are within their
  limits, and otherwise reports the first exceeded dimension in declaration order, with its
  limit and its actual value.
\<close>

theorem QueryBudget_check_first_exceeded:
  "(QueryBudget_check budget usage = Inr () \<longleftrightarrow>
      input_bytes usage \<le> max_input_bytes budget \<and> parameters usage \<le> max_parameters budget \<and>
      syntax_nodes usage \<le> max_syntax_nodes budget \<and> nesting_depth usage \<le> max_nesting_depth budget \<and>
      joins usage \<le> max_joins budget \<and> ctes usage \<le> max_ctes budget) \<and>
   (QueryBudget_check budget usage = Inl e \<longleftrightarrow>
      (\<exists>pre d limit actual post.
         budget_limits budget usage = pre @ (d, limit, actual) # post \<and> limit < actual \<and>
         e = BudgetExceeded d limit actual \<and> list_all (\<lambda>(d, limit, actual). actual \<le> limit) pre))"
proof
  show "QueryBudget_check budget usage = Inr () \<longleftrightarrow>
      input_bytes usage \<le> max_input_bytes budget \<and> parameters usage \<le> max_parameters budget \<and>
      syntax_nodes usage \<le> max_syntax_nodes budget \<and> nesting_depth usage \<le> max_nesting_depth budget \<and>
      joins usage \<le> max_joins budget \<and> ctes usage \<le> max_ctes budget"
    unfolding QueryBudget_check_def check_limits_Inr by (simp add: budget_limits_def)
qed (simp only: QueryBudget_check_def check_limits_Inl list_all_iff)

section \<open>Reference depth\<close>

definition max_list :: "nat list \<Rightarrow> nat" where
  "max_list xs = foldr max xs 0"

lemma max_list_simps [simp]: "max_list [] = 0" "max_list (x # xs) = max x (max_list xs)"
  by (simp_all add: max_list_def)

lemma max_list_append [simp]: "max_list (xs @ ys) = max (max_list xs) (max_list ys)"
  by (induction xs) auto

lemma max_list_ge: "x \<in> set xs \<Longrightarrow> x \<le> max_list xs"
  by (induction xs) auto

lemma max_add_max_list: "max d (max_list (map (\<lambda>x. d + f x) xs)) = d + max_list (map f xs)"
  by (induction xs) auto

definition opt_list :: "'a option \<Rightarrow> 'a list" where
  "opt_list o' = (case o' of None \<Rightarrow> [] | Some x \<Rightarrow> [x])"

lemma opt_list_simps [simp]: "opt_list None = []" "opt_list (Some x) = [x]"
  by (simp_all add: opt_list_def)

text \<open>
  The depth of a tree, without accumulators: a child expression is one level below its parent,
  a subquery one level below the expression or relation that holds it, a CTE two.
\<close>

function query_depth :: "SyntaxQuery \<Rightarrow> nat"
  and set_expr_depth :: "SyntaxSetExpr \<Rightarrow> nat"
  and table_depth :: "(SyntaxExpr, SyntaxRelation) SyntaxTableWithJoins \<Rightarrow> nat"
  and relation_depth :: "SyntaxRelation \<Rightarrow> nat"
  and expr_depth :: "SyntaxExpr \<Rightarrow> nat"
where
  "query_depth (SyntaxQuery node query_ctes with_recursive body order_by limit offset clauses) =
     max_list (map (\<lambda>c. query_depth (sc_query c) + 2) query_ctes @
       [Suc (set_expr_depth body)] @
       map (\<lambda>order. Suc (expr_depth (so_expr order))) order_by @
       opt_list (map_option (\<lambda>e. Suc (expr_depth e)) limit) @
       opt_list (map_option (\<lambda>e. Suc (expr_depth e)) offset))"
| "set_expr_depth (Select (SyntaxSelect distinct' projection from selection group_by having node)) =
     max_list (concat (map (\<lambda>item. opt_list (map_option (\<lambda>details. expr_depth (sp_expr details))
                 (SyntaxProjectionItem_as_expr item))) projection) @
       map table_depth from @
       opt_list (map_option expr_depth selection) @
       map expr_depth group_by @
       opt_list (map_option expr_depth having))"
| "set_expr_depth (UnionAll left right node) =
     Suc (max (set_expr_depth left) (set_expr_depth right))"
| "set_expr_depth (SyntaxSetExpr.Unsupported description node) = 0"
| "table_depth (SyntaxTableWithJoins relation table_joins node) =
     max (relation_depth relation)
       (max_list (map (\<lambda>join. max (relation_depth (sj_relation join))
           (max_list (opt_list (map_option expr_depth (sj_on join))))) table_joins))"
| "relation_depth (Table name alias node) = 0"
| "relation_depth (SyntaxRelation.Unsupported description node) = 0"
| "relation_depth (Derived query alias node) = Suc (query_depth query)"
| "relation_depth (NestedJoin table_with_joins alias node) = Suc (table_depth table_with_joins)"
| "expr_depth (SyntaxExpr (Unary op e) node) = Suc (expr_depth e)"
| "expr_depth (SyntaxExpr (IsNull e negated) node) = Suc (expr_depth e)"
| "expr_depth (SyntaxExpr (Cast e data_type) node) = Suc (expr_depth e)"
| "expr_depth (SyntaxExpr (Binary op left right) node) = Suc (max (expr_depth left) (expr_depth right))"
| "expr_depth (SyntaxExpr (Function (SyntaxFunctionCall f args distinct' filter' over)) node) =
     max_list (map (\<lambda>e. Suc (expr_depth e)) args @
       opt_list (map_option (\<lambda>e. Suc (expr_depth e)) filter') @
       (case over of None \<Rightarrow> []
        | Some window \<Rightarrow> map (\<lambda>e. Suc (expr_depth e)) (ws_partition_by window)) @
       (case over of None \<Rightarrow> []
        | Some window \<Rightarrow> map (\<lambda>order. Suc (expr_depth (so_expr order))) (ws_order_by window)))"
| "expr_depth (SyntaxExpr (Case operand when_then else_result) node) =
     max_list (opt_list (map_option (\<lambda>e. Suc (expr_depth e)) operand) @
       map (\<lambda>pair. Suc (max (expr_depth (sw_condition pair)) (expr_depth (sw_result pair)))) when_then @
       opt_list (map_option (\<lambda>e. Suc (expr_depth e)) else_result))"
| "expr_depth (SyntaxExpr (Between e low high negated) node) =
     Suc (max (expr_depth e) (max (expr_depth low) (expr_depth high)))"
| "expr_depth (SyntaxExpr (InList e items negated) node) =
     max (Suc (expr_depth e)) (max_list (map (\<lambda>e. Suc (expr_depth e)) items))"
| "expr_depth (SyntaxExpr (InSubquery e subquery negated) node) =
     Suc (max (expr_depth e) (query_depth subquery))"
| "expr_depth (SyntaxExpr (ScalarSubquery query) node) = Suc (query_depth query)"
| "expr_depth (SyntaxExpr (Exists query) node) = Suc (query_depth query)"
| "expr_depth (SyntaxExpr (Like e pattern negated case_insensitive) node) =
     Suc (max (expr_depth e) (expr_depth pattern))"
| "expr_depth (SyntaxExpr (Tuple items) node) = max_list (map (\<lambda>e. Suc (expr_depth e)) items)"
| "expr_depth (SyntaxExpr (Array items) node) = max_list (map (\<lambda>e. Suc (expr_depth e)) items)"
| "expr_depth (SyntaxExpr (Column relation name) node) = 0"
| "expr_depth (SyntaxExpr (Literal value) node) = 0"
| "expr_depth (SyntaxExpr (Parameter reference) node) = 0"
| "expr_depth (SyntaxExpr (SyntaxExprKind.Unsupported description) node) = 0"
  by pat_completeness auto
termination
  by (relation "measure (case_sum
        (case_sum size size)
        (case_sum (size_SyntaxTableWithJoins size size) (case_sum size size)))")
    (auto simp: size_WindowSpec_sel dest: syntax_size_dests)

section \<open>The measured depth is the reference depth\<close>

lemma merge_depth [simp]:
  "nesting_depth (merge t s x) = max (nesting_depth t) (nesting_depth s + x)"
  "nesting_depth (usage_node d) = d" "nesting_depth (add_nodes n u) = nesting_depth u"
  "nesting_depth (add_join u) = nesting_depth u"
  by (simp_all add: merge_def usage_node_def add_nodes_def add_join_def)

lemma merge_opt_depth_le [simp]:
  "nesting_depth (merge_opt u o') \<le> k \<longleftrightarrow> nesting_depth u \<le> k \<and> (\<forall>s \<in> set_option o'. nesting_depth s \<le> k)"
  by (simp add: merge_opt_def split: option.splits)

lemma depth_foldl_le:
  assumes "\<And>u s. nesting_depth (f u s) \<le> k \<longleftrightarrow> nesting_depth u \<le> k \<and> P s"
  shows "nesting_depth (foldl f u us) \<le> k \<longleftrightarrow> nesting_depth u \<le> k \<and> (\<forall>s \<in> set us. P s)"
  by (induction us arbitrary: u) (simp_all add: assms)

lemma merge_all_depth_le [simp]:
  "nesting_depth (merge_all u us) \<le> k \<longleftrightarrow> nesting_depth u \<le> k \<and> (\<forall>s \<in> set us. nesting_depth s \<le> k)"
  unfolding merge_all_def by (rule depth_foldl_le) simp

lemma foldl_merge_depth_le [simp]:
  "nesting_depth (foldl (\<lambda>u s. merge u s x) u us) \<le> k \<longleftrightarrow>
     nesting_depth u \<le> k \<and> (\<forall>s \<in> set us. nesting_depth s + x \<le> k)"
  by (rule depth_foldl_le) simp

lemma foldl_add_nodes_depth_le [simp]:
  "nesting_depth (foldl (\<lambda>u s. merge (add_nodes n u) s x) u us) \<le> k \<longleftrightarrow>
     nesting_depth u \<le> k \<and> (\<forall>s \<in> set us. nesting_depth s + x \<le> k)"
  by (rule depth_foldl_le) simp

lemma foldl_merge_opt_depth_le [simp]:
  "nesting_depth (foldl (\<lambda>u o'. merge_opt (add_nodes n u) o') u os) \<le> k \<longleftrightarrow>
     nesting_depth u \<le> k \<and> (\<forall>o' \<in> set os. \<forall>s \<in> set_option o'. nesting_depth s \<le> k)"
  by (rule depth_foldl_le) simp

lemma foldl_when_then_depth_le [simp]:
  "nesting_depth (foldl (\<lambda>u (c, r). merge (merge u c x) r x) u ps) \<le> k \<longleftrightarrow>
     nesting_depth u \<le> k \<and> (\<forall>(c, r) \<in> set ps. nesting_depth c + x \<le> k \<and> nesting_depth r + x \<le> k)"
  by (rule depth_foldl_le) auto

lemma foldl_join_depth_le [simp]:
  "nesting_depth (foldl (\<lambda>u (r, on). merge_opt (merge (add_join u) r x) on) u js) \<le> k \<longleftrightarrow>
     nesting_depth u \<le> k \<and>
     (\<forall>(r, on) \<in> set js. nesting_depth r + x \<le> k \<and> (\<forall>s \<in> set_option on. nesting_depth s \<le> k))"
  by (rule depth_foldl_le) auto

lemma nat_le_ext: "(\<And>k. a \<le> k \<longleftrightarrow> b \<le> k) \<Longrightarrow> (a :: nat) = b"
  by (meson le_antisym order_refl)

lemma max_list_le: "max_list xs \<le> k \<longleftrightarrow> (\<forall>x \<in> set xs. x \<le> k)"
  by (induction xs) auto

lemma add_max_list_le: "d + max_list xs \<le> k \<longleftrightarrow> d \<le> k \<and> (\<forall>x \<in> set xs. d + x \<le> k)"
  by (induction xs) (auto simp: nat_add_max_right)

lemma Suc_max_le: "Suc (max a b) \<le> k \<longleftrightarrow> Suc a \<le> k \<and> Suc b \<le> k"
  by auto

lemma set_opt_list: "set (opt_list o') = set_option o'"
  by (cases o') auto

lemmas depth_le_simps =
  nat_add_max_right max_list_le add_max_list_le set_opt_list Suc_max_le ball_Un QueryBudgetUsage_default_def

lemma depth_eqs:
  "nesting_depth (measure_query q) = query_depth q"
  "nesting_depth (measure_cte c) = query_depth (sc_query c) + 1"
  "nesting_depth (measure_set_expr s d) = d + set_expr_depth s"
  "nesting_depth (measure_table t d) = d + table_depth t"
  "nesting_depth (measure_relation r d) = d + relation_depth r"
  "nesting_depth (measure_expr e d) = d + expr_depth e"
proof (induction q and c and s d and t d and r d and e d rule:
    measure_query_measure_cte_measure_set_expr_measure_table_measure_relation_measure_expr.induct)
  case (15 f args distinct' filter' over node depth)
  then show ?case
    by (intro nat_le_ext; cases over) (auto simp: depth_le_simps)
qed (rule nat_le_ext, (auto simp: depth_le_simps)[])+

text \<open>
  The nesting depth that the budget checks is the depth of the syntax tree: a parsed query
  that passes the check is no deeper than the configured maximum, so the recursive passes that
  follow are bounded by it.
\<close>

theorem checked_query_depth_bounded:
  "QueryBudget_check budget (QueryBudgetUsage_with_parameters n (QueryBudgetUsage_for_parsed parsed)) = Inr () \<Longrightarrow>
     query_depth (pq_syntax parsed) \<le> max_nesting_depth budget"
  unfolding QueryBudget_check_def check_limits_Inr
  by (simp add: budget_limits_def QueryBudgetUsage_with_parameters_def QueryBudgetUsage_for_parsed_def
      depth_eqs)

theorem checked_query_depth_bounded_witness:
  "QueryBudget_check QueryBudget_default (QueryBudgetUsage_with_parameters 0
     (QueryBudgetUsage_for_parsed (ParsedQuery_new ''sql'' ''SELECT 1'' ''SELECT 1''))) = Inr () \<and>
   query_depth (pq_syntax (ParsedQuery_new ''sql'' ''SELECT 1'' ''SELECT 1'')) \<le> 64"
proof -
  let ?p = "ParsedQuery_new ''sql'' ''SELECT 1'' ''SELECT 1''"
  have h: "QueryBudget_check QueryBudget_default
      (QueryBudgetUsage_with_parameters 0 (QueryBudgetUsage_for_parsed ?p)) = Inr ()"
    by (simp add: QueryBudget_check_def budget_limits_def QueryBudgetUsage_with_parameters_def
        QueryBudgetUsage_for_parsed_def ParsedQuery_new_def SyntaxQuery_unsupported_def
        QueryBudget_default_def QueryBudgetUsage_default_def merge_def usage_node_def merge_opt_def Let_def)
  show ?thesis using h checked_query_depth_bounded[OF h] by (simp add: QueryBudget_default_def)
qed

section \<open>Counting nodes, joins and common table expressions\<close>

text \<open>
  A reference count without accumulators: \<open>n\<close> for each query, CTE, order key, set expression, projection item,
  relation and expression of the tree, \<open>j\<close> for each join and \<open>a\<close> more for each CTE.
\<close>

function query_count :: "nat \<Rightarrow> nat \<Rightarrow> nat \<Rightarrow> SyntaxQuery \<Rightarrow> nat"
  and set_expr_count :: "nat \<Rightarrow> nat \<Rightarrow> nat \<Rightarrow> SyntaxSetExpr \<Rightarrow> nat"
  and table_count :: "nat \<Rightarrow> nat \<Rightarrow> nat \<Rightarrow> (SyntaxExpr, SyntaxRelation) SyntaxTableWithJoins \<Rightarrow> nat"
  and relation_count :: "nat \<Rightarrow> nat \<Rightarrow> nat \<Rightarrow> SyntaxRelation \<Rightarrow> nat"
  and expr_count :: "nat \<Rightarrow> nat \<Rightarrow> nat \<Rightarrow> SyntaxExpr \<Rightarrow> nat"
where
  "query_count n j a (SyntaxQuery node query_ctes with_recursive body order_by limit offset clauses) =
     n + sum_list (map (\<lambda>c. n + a + query_count n j a (sc_query c)) query_ctes @
       [set_expr_count n j a body] @
       map (\<lambda>order. n + expr_count n j a (so_expr order)) order_by @
       opt_list (map_option (expr_count n j a) limit) @
       opt_list (map_option (expr_count n j a) offset))"
| "set_expr_count n j a (Select (SyntaxSelect distinct' projection from selection group_by having node)) =
     n + sum_list (map (\<lambda>item. n + sum_list (opt_list (map_option (\<lambda>details. expr_count n j a (sp_expr details))
                 (SyntaxProjectionItem_as_expr item)))) projection @
       map (table_count n j a) from @
       opt_list (map_option (expr_count n j a) selection) @
       map (expr_count n j a) group_by @
       opt_list (map_option (expr_count n j a) having))"
| "set_expr_count n j a (UnionAll left right node) = n + set_expr_count n j a left + set_expr_count n j a right"
| "set_expr_count n j a (SyntaxSetExpr.Unsupported description node) = n"
| "table_count n j a (SyntaxTableWithJoins relation table_joins node) =
     relation_count n j a relation +
     sum_list (map (\<lambda>join. j + relation_count n j a (sj_relation join) +
         sum_list (opt_list (map_option (expr_count n j a) (sj_on join)))) table_joins)"
| "relation_count n j a (Table name alias node) = n"
| "relation_count n j a (SyntaxRelation.Unsupported description node) = n"
| "relation_count n j a (Derived query alias node) = n + query_count n j a query"
| "relation_count n j a (NestedJoin table_with_joins alias node) = n + table_count n j a table_with_joins"
| "expr_count n j a (SyntaxExpr (Unary op e) node) = n + expr_count n j a e"
| "expr_count n j a (SyntaxExpr (IsNull e negated) node) = n + expr_count n j a e"
| "expr_count n j a (SyntaxExpr (Cast e data_type) node) = n + expr_count n j a e"
| "expr_count n j a (SyntaxExpr (Binary op left right) node) = n + expr_count n j a left + expr_count n j a right"
| "expr_count n j a (SyntaxExpr (Function (SyntaxFunctionCall f args distinct' filter' over)) node) =
     n + sum_list (map (expr_count n j a) args @
       opt_list (map_option (expr_count n j a) filter') @
       (case over of None \<Rightarrow> []
        | Some window \<Rightarrow> map (expr_count n j a) (ws_partition_by window)) @
       (case over of None \<Rightarrow> []
        | Some window \<Rightarrow> map (\<lambda>order. expr_count n j a (so_expr order)) (ws_order_by window)))"
| "expr_count n j a (SyntaxExpr (Case operand when_then else_result) node) =
     n + sum_list (opt_list (map_option (expr_count n j a) operand) @
       map (\<lambda>pair. expr_count n j a (sw_condition pair) + expr_count n j a (sw_result pair)) when_then @
       opt_list (map_option (expr_count n j a) else_result))"
| "expr_count n j a (SyntaxExpr (Between e low high negated) node) =
     n + expr_count n j a e + expr_count n j a low + expr_count n j a high"
| "expr_count n j a (SyntaxExpr (InList e items negated) node) =
     n + expr_count n j a e + sum_list (map (expr_count n j a) items)"
| "expr_count n j a (SyntaxExpr (InSubquery e subquery negated) node) =
     n + expr_count n j a e + query_count n j a subquery"
| "expr_count n j a (SyntaxExpr (ScalarSubquery query) node) = n + query_count n j a query"
| "expr_count n j a (SyntaxExpr (Exists query) node) = n + query_count n j a query"
| "expr_count n j a (SyntaxExpr (Like e pattern negated case_insensitive) node) =
     n + expr_count n j a e + expr_count n j a pattern"
| "expr_count n j a (SyntaxExpr (Tuple items) node) = n + sum_list (map (expr_count n j a) items)"
| "expr_count n j a (SyntaxExpr (Array items) node) = n + sum_list (map (expr_count n j a) items)"
| "expr_count n j a (SyntaxExpr (Column relation name) node) = n"
| "expr_count n j a (SyntaxExpr (Literal value) node) = n"
| "expr_count n j a (SyntaxExpr (Parameter reference) node) = n"
| "expr_count n j a (SyntaxExpr (SyntaxExprKind.Unsupported description) node) = n"
  by pat_completeness auto
termination
  by (relation "measure (case_sum
        (case_sum (\<lambda>(_, _, _, q). size q) (\<lambda>(_, _, _, s). size s))
        (case_sum (\<lambda>(_, _, _, t). size_SyntaxTableWithJoins size size t)
          (case_sum (\<lambda>(_, _, _, r). size r) (\<lambda>(_, _, _, e). size e))))")
    (auto simp: size_WindowSpec_sel dest: syntax_size_dests)

definition query_node_count :: "SyntaxQuery \<Rightarrow> nat" where
  "query_node_count = query_count 1 1 0"

definition query_join_count :: "SyntaxQuery \<Rightarrow> nat" where
  "query_join_count = query_count 0 1 0"

definition query_cte_count :: "SyntaxQuery \<Rightarrow> nat" where
  "query_cte_count = query_count 0 0 1"

lemma sum_list_map_le: "(\<And>x. x \<in> set xs \<Longrightarrow> f x \<le> g x) \<Longrightarrow> sum_list (map f xs) \<le> sum_list (map g xs)"
  for f g :: "'a \<Rightarrow> nat"
  by (induction xs) (auto intro: add_mono)

lemma sum_opt_le: "(\<And>x. o' = Some x \<Longrightarrow> f x \<le> g x) \<Longrightarrow>
    sum_list (opt_list (map_option f o')) \<le> sum_list (opt_list (map_option g o'))"
  for f g :: "'a \<Rightarrow> nat"
  by (cases o') auto

lemma sum_opt_cong: "(\<And>x. o' = Some x \<Longrightarrow> f x = g x) \<Longrightarrow>
    sum_list (opt_list (map_option f o')) = sum_list (opt_list (map_option g o'))"
  for f g :: "'a \<Rightarrow> nat"
  by (cases o') auto

lemma sum_list_map_cong: "(\<And>x. x \<in> set xs \<Longrightarrow> f x = g x) \<Longrightarrow> sum_list (map f xs) = sum_list (map g xs)"
  for f g :: "'a \<Rightarrow> nat"
  by (metis map_cong)

text \<open>
  A dimension of the usage that merging adds up. Its law is what \<^verbatim>\<open>merge\<close> and the constructors of a usage promise;
  the measurement never counts less than the reference, and exactly the reference unless it counts CTEs.
\<close>

locale usage_counter =
  fixes f :: "QueryBudgetUsage \<Rightarrow> nat" and n j a :: nat
  assumes f_merge [simp]: "f (merge t s x) = f t + f s"
    and f_merge_opt [simp]: "f (merge_opt u o') = f u + sum_list (opt_list (map_option f o'))"
    and f_usage_node [simp]: "f (usage_node d) = n"
    and f_add_nodes [simp]: "f (add_nodes k u) = f u + k * n"
    and f_add_join [simp]: "f (add_join u) = f u + j"
    and f_init [simp]: "f (QueryBudgetUsage_default\<lparr>syntax_nodes := m, ctes := k\<rparr>) = m * n + a * k"
begin

lemma f_foldl:
  assumes "\<And>u s. f (step u s) = f u + g s"
  shows "f (foldl step u us) = f u + sum_list (map g us)"
  by (induction us arbitrary: u) (simp_all add: assms)

lemma f_folds [simp]:
  "f (merge_all u us) = f u + sum_list (map f us)"
  "f (foldl (\<lambda>u s. merge u s x) u us) = f u + sum_list (map f us)"
  "f (foldl (\<lambda>u s. merge (add_nodes k u) s x) u us) = f u + sum_list (map (\<lambda>s. k * n + f s) us)"
  "f (foldl (\<lambda>u o'. merge_opt (add_nodes k u) o') u os) =
     f u + sum_list (map (\<lambda>o'. k * n + sum_list (opt_list (map_option f o'))) os)"
  "f (foldl (\<lambda>u (c, r). merge (merge u c x) r x) u ps) = f u + sum_list (map (\<lambda>(c, r). f c + f r) ps)"
  "f (foldl (\<lambda>u (r, on). merge_opt (merge (add_join u) r x) on) u js) =
     f u + sum_list (map (\<lambda>(r, on). j + f r + sum_list (opt_list (map_option f on))) js)"
  unfolding merge_all_def by (rule f_foldl; auto)+

lemma counted_at_least:
  "query_count n j a q \<le> f (measure_query q)"
  "n + query_count n j a (sc_query c) \<le> f (measure_cte c)"
  "set_expr_count n j a s \<le> f (measure_set_expr s d)"
  "table_count n j a t \<le> f (measure_table t d)"
  "relation_count n j a r \<le> f (measure_relation r d)"
  "expr_count n j a e \<le> f (measure_expr e d)"
proof (induction q and c and s d and t d and r d and e d rule:
    measure_query_measure_cte_measure_set_expr_measure_table_measure_relation_measure_expr.induct)
  case (1 node query_ctes with_recursive body order_by limit offset clauses)
  have "sum_list (map (\<lambda>c. n + a + query_count n j a (sc_query c)) query_ctes) \<le>
      a * length query_ctes + sum_list (map (\<lambda>c. f (measure_cte c)) query_ctes)"
    using sum_list_map_le[of query_ctes "\<lambda>c. n + query_count n j a (sc_query c)" "\<lambda>c. f (measure_cte c)"] 1(1)
    by (simp add: sum_list_addf sum_list_triv)
  moreover have "sum_list (map (\<lambda>order. n + expr_count n j a (so_expr order)) order_by) \<le>
      sum_list (map (\<lambda>order. n + f (measure_expr (so_expr order) 1)) order_by)"
    by (rule sum_list_map_le) (use 1 in simp)
  moreover have "sum_list (opt_list (map_option (expr_count n j a) limit)) \<le>
      sum_list (opt_list (map_option (\<lambda>e. f (measure_expr e 1)) limit))"
    "sum_list (opt_list (map_option (expr_count n j a) offset)) \<le>
      sum_list (opt_list (map_option (\<lambda>e. f (measure_expr e 1)) offset))"
    by (rule sum_opt_le, use 1 in simp)+
  ultimately show ?case using 1(2) by (simp add: o_def option.map_comp)
qed ((auto simp: o_def option.map_comp add.assoc
      intro!: add_mono sum_list_map_le sum_opt_le split: option.splits)[])+

lemma counted_at_most:
  assumes "a = 0"
  shows "f (measure_query q) \<le> query_count n j 0 q"
    and "f (measure_cte c) \<le> n + query_count n j 0 (sc_query c)"
    and "f (measure_set_expr s d) \<le> set_expr_count n j 0 s"
    and "f (measure_table t d) \<le> table_count n j 0 t"
    and "f (measure_relation r d) \<le> relation_count n j 0 r"
    and "f (measure_expr e d) \<le> expr_count n j 0 e"
proof (induction q and c and s d and t d and r d and e d rule:
    measure_query_measure_cte_measure_set_expr_measure_table_measure_relation_measure_expr.induct)
qed ((auto simp: assms o_def option.map_comp add.assoc
      intro!: add_mono sum_list_map_le sum_opt_le split: option.splits)[])+

end

interpretation node_counter: usage_counter syntax_nodes 1 1 0
  by unfold_locales
    (auto simp: merge_def merge_opt_def usage_node_def add_nodes_def add_join_def QueryBudgetUsage_default_def split: option.splits)

interpretation join_counter: usage_counter joins 0 1 0
  by unfold_locales
    (auto simp: merge_def merge_opt_def usage_node_def add_nodes_def add_join_def QueryBudgetUsage_default_def split: option.splits)

interpretation cte_counter: usage_counter ctes 0 0 1
  by unfold_locales
    (auto simp: merge_def merge_opt_def usage_node_def add_nodes_def add_join_def QueryBudgetUsage_default_def split: option.splits)

lemma measured_counts:
  "syntax_nodes (measure_query q) = query_node_count q" "joins (measure_query q) = query_join_count q"
  "query_cte_count q \<le> ctes (measure_query q)"
  unfolding query_node_count_def query_join_count_def query_cte_count_def
  by (rule le_antisym[OF node_counter.counted_at_most(1)[OF refl] node_counter.counted_at_least(1)],
    rule le_antisym[OF join_counter.counted_at_most(1)[OF refl] join_counter.counted_at_least(1)], rule cte_counter.counted_at_least)

text \<open>
  The CTE dimension never under-counts: the measured number is at least the number of CTEs
  the query defines.
\<close>

theorem measured_ctes_at_least_defined: "query_cte_count q \<le> ctes (measure_query q)"
  by (rule measured_counts)

text \<open>
  A CTE inside a CTE is counted twice: \<^verbatim>\<open>measure_cte\<close> adds the inner query's CTEs to the count that
  \<^verbatim>\<open>measure_query\<close> of the inner query already returns.
\<close>

definition one_row :: SyntaxSetExpr where
  "one_row = Select (SyntaxSelect False [] [] None [] None (SyntaxNode None ''s''))"

definition nested_cte_query :: SyntaxQuery where
  "nested_cte_query =
     SyntaxQuery (SyntaxNode None ''q'')
       [SyntaxCte ''outer'' []
          (SyntaxQuery (SyntaxNode None ''q1'')
             [SyntaxCte ''inner'' [] (SyntaxQuery (SyntaxNode None ''q2'') [] False one_row [] None None [])
                (SyntaxNode None ''c2'')]
             False one_row [] None None [])
          (SyntaxNode None ''c1'')]
       False one_row [] None None []"

lemma nested_ctes_counted_twice:
  "query_cte_count nested_cte_query = 2 \<and> ctes (measure_query nested_cte_query) = 3"
  by (simp add: nested_cte_query_def one_row_def query_cte_count_def)

end
