(* ===== verification/QF_Catalog.thy ===== *)
theory QF_Catalog
  imports QF_Types
begin

text \<open>
  Catalogs and function registries: the schema types, the \<^verbatim>\<open>Catalog\<close> and \<^verbatim>\<open>FunctionRegistry\<close>
  traits and \<^verbatim>\<open>MemoryCatalog\<close> of \<^verbatim>\<open>crates/queryfabric-catalog/src/model.rs\<close>, and the portable builtin
  functions of \<^verbatim>\<open>builtins.rs\<close>. A \<^verbatim>\<open>&dyn Catalog\<close> is the record \<open>Catalog\<close> of the three operations
  the compiler calls on it.
\<close>

section \<open>Schemas and signatures\<close>

datatype RelationKind = Table | View | MaterializedView

record ColumnSchema =
  cs_name :: string
  cs_data_type :: DataType
  cs_nullable :: bool
  cs_metadata :: FieldMetadata

definition to_result_field :: "ColumnSchema \<Rightarrow> ResultField" where
  "to_result_field c = ResultField (cs_name c) (cs_data_type c) (cs_nullable c) (cs_metadata c)"

record RelationSchema =
  rel_namespace :: "string option"
  rel_name :: string
  rel_aliases :: "string list"
  rel_kind :: RelationKind
  rel_columns :: "ColumnSchema list"
  rel_metadata :: "(string, string) btree_map"

definition to_result_schema :: "RelationSchema \<Rightarrow> ResultSchema" where
  "to_result_schema r = ResultSchema_new (map to_result_field (rel_columns r))"

datatype FunctionKind = Scalar | Aggregate | Window

datatype FunctionVolatility = Immutable | Stable | Volatile

record TypeCoercionRule =
  tc_from :: DataType
  tc_to :: DataType
  tc_implicit :: bool

record BackendFunctionMapping =
  bm_backend :: string
  bm_namespace :: "string option"
  bm_name :: string

definition as_function_ref :: "BackendFunctionMapping \<Rightarrow> FunctionRef" where
  "as_function_ref m = FunctionRef (bm_namespace m) (bm_name m)"

record FunctionSignature =
  fs_namespace :: "string option"
  fs_name :: string
  fs_kind :: FunctionKind
  fs_volatility :: FunctionVolatility
  fs_arg_types :: "DataType list"
  fs_return_type :: DataType
  fs_variadic :: bool
  fs_coercions :: "TypeCoercionRule list"
  fs_backend_mappings :: "BackendFunctionMapping list"
  fs_metadata :: "(string, string) btree_map"

definition function_ref :: "FunctionSignature \<Rightarrow> FunctionRef" where
  "function_ref s = FunctionRef (fs_namespace s) (fs_name s)"

definition backend_mapping :: "FunctionSignature \<Rightarrow> string \<Rightarrow> FunctionRef option" where
  "backend_mapping s backend =
     map_option as_function_ref (List.find (\<lambda>m. bm_backend m = backend) (fs_backend_mappings s))"

definition metadata_flag :: "FunctionSignature \<Rightarrow> string \<Rightarrow> bool" where
  "metadata_flag s key \<longleftrightarrow> bt_get (fs_metadata s) key = Some ''true''"

record Catalog =
  cat_snapshot_id :: CatalogSnapshotId
  cat_resolve_function :: "string option \<Rightarrow> string \<Rightarrow> FunctionSignature option"
  cat_resolve_relation :: "string option \<Rightarrow> string \<Rightarrow> RelationSchema option"

section \<open>Builtin functions\<close>

definition mapping_to :: "string \<Rightarrow> string \<Rightarrow> BackendFunctionMapping" where
  "mapping_to backend name = \<lparr>bm_backend = backend, bm_namespace = None, bm_name = name\<rparr>"

definition builtin_scalar :: "string \<Rightarrow> DataType \<Rightarrow> bool \<Rightarrow> FunctionSignature" where
  "builtin_scalar name return_type variadic =
     \<lparr>fs_namespace = None, fs_name = name, fs_kind = Scalar, fs_volatility = Immutable,
      fs_arg_types = [], fs_return_type = return_type, fs_variadic = variadic, fs_coercions = [],
      fs_backend_mappings = [mapping_to ''clickhouse'' name, mapping_to ''postgres'' name],
      fs_metadata = []\<rparr>"

definition builtin_aggregate :: "string \<Rightarrow> DataType \<Rightarrow> FunctionSignature" where
  "builtin_aggregate name return_type =
     \<lparr>fs_namespace = None, fs_name = name, fs_kind = Aggregate, fs_volatility = Immutable,
      fs_arg_types = [], fs_return_type = return_type, fs_variadic = True, fs_coercions = [],
      fs_backend_mappings = [mapping_to ''clickhouse'' name, mapping_to ''postgres'' name],
      fs_metadata = []\<rparr>"

definition builtin_clickhouse_aggregate :: "string \<Rightarrow> DataType \<Rightarrow> FunctionSignature" where
  "builtin_clickhouse_aggregate name return_type =
     \<lparr>fs_namespace = None, fs_name = name, fs_kind = Aggregate, fs_volatility = Immutable,
      fs_arg_types = [], fs_return_type = return_type, fs_variadic = True, fs_coercions = [],
      fs_backend_mappings = [mapping_to ''clickhouse'' name], fs_metadata = []\<rparr>"

definition builtin_clickhouse_scalar :: "string \<Rightarrow> DataType \<Rightarrow> bool \<Rightarrow> FunctionSignature" where
  "builtin_clickhouse_scalar name return_type variadic =
     \<lparr>fs_namespace = None, fs_name = name, fs_kind = Scalar, fs_volatility = Immutable,
      fs_arg_types = [], fs_return_type = return_type, fs_variadic = variadic, fs_coercions = [],
      fs_backend_mappings = [mapping_to ''clickhouse'' name], fs_metadata = []\<rparr>"

definition builtin_clickhouse_extension ::
  "string \<Rightarrow> string \<Rightarrow> string \<Rightarrow> DataType \<Rightarrow> FunctionSignature" where
  "builtin_clickhouse_extension namespace name clickhouse_name return_type =
     \<lparr>fs_namespace = Some namespace, fs_name = name, fs_kind = Aggregate, fs_volatility = Immutable,
      fs_arg_types = [], fs_return_type = return_type, fs_variadic = True, fs_coercions = [],
      fs_backend_mappings = [mapping_to ''clickhouse'' clickhouse_name], fs_metadata = []\<rparr>"

definition builtin_window :: "string \<Rightarrow> DataType \<Rightarrow> FunctionSignature" where
  "builtin_window name return_type =
     \<lparr>fs_namespace = None, fs_name = name, fs_kind = Window, fs_volatility = Immutable,
      fs_arg_types = [], fs_return_type = return_type, fs_variadic = True, fs_coercions = [],
      fs_backend_mappings = [mapping_to ''clickhouse'' name, mapping_to ''postgres'' name],
      fs_metadata = []\<rparr>"

definition with_args :: "DataType list \<Rightarrow> FunctionSignature \<Rightarrow> FunctionSignature" where
  "with_args arg_types s = s\<lparr>fs_arg_types := arg_types\<rparr>"

definition with_metadata_flag :: "string \<Rightarrow> FunctionSignature \<Rightarrow> FunctionSignature" where
  "with_metadata_flag key s = s\<lparr>fs_metadata := bt_insert key ''true'' (fs_metadata s)\<rparr>"

definition portable_builtin_functions :: "FunctionSignature list" where
  "portable_builtin_functions =
     [builtin_scalar ''coalesce'' Unknown True,
      with_args [DataType.Float64] (builtin_scalar ''sqrt'' DataType.Float64 False),
      builtin_clickhouse_scalar ''toString'' DataType.Utf8 False,
      builtin_scalar ''greatest'' Unknown True,
      builtin_scalar ''least'' Unknown True,
      builtin_aggregate ''count'' DataType.Int64,
      builtin_aggregate ''sum'' DataType.Float64,
      builtin_aggregate ''avg'' DataType.Float64,
      builtin_aggregate ''min'' Unknown,
      builtin_aggregate ''max'' Unknown,
      builtin_window ''rank'' DataType.Int64,
      builtin_window ''dense_rank'' DataType.Int64,
      builtin_window ''row_number'' DataType.Int64,
      builtin_window ''lag'' Unknown,
      builtin_window ''lead'' Unknown,
      builtin_window ''first_value'' Unknown,
      builtin_window ''last_value'' Unknown,
      with_metadata_flag ''approximate'' (builtin_clickhouse_aggregate ''quantile'' DataType.Float64),
      with_metadata_flag ''approximate''
        (builtin_clickhouse_extension ''ch'' ''quantile_25'' ''quantile(0.25)'' DataType.Float64),
      with_metadata_flag ''approximate''
        (builtin_clickhouse_extension ''ch'' ''quantile_50'' ''quantile(0.5)'' DataType.Float64),
      with_metadata_flag ''approximate''
        (builtin_clickhouse_extension ''ch'' ''quantile_75'' ''quantile(0.75)'' DataType.Float64),
      with_metadata_flag ''state''
        (builtin_clickhouse_extension ''ch'' ''avg_merge'' ''avgMerge'' DataType.Float64),
      with_metadata_flag ''state''
        (builtin_clickhouse_extension ''ch'' ''count_merge'' ''countMerge'' DataType.Int64),
      with_metadata_flag ''state''
        (builtin_clickhouse_extension ''ch'' ''min_merge'' ''minMerge'' Unknown),
      with_metadata_flag ''state''
        (builtin_clickhouse_extension ''ch'' ''max_merge'' ''maxMerge'' Unknown),
      with_metadata_flag ''state''
        (builtin_clickhouse_extension ''ch'' ''stddevpop_merge'' ''stddevPopMerge'' DataType.Float64),
      with_metadata_flag ''state''
        (builtin_clickhouse_extension ''ch'' ''sum_merge'' ''sumMerge'' DataType.Float64),
      with_metadata_flag ''state''
        (builtin_clickhouse_extension ''ch'' ''varpop_merge'' ''varPopMerge'' DataType.Float64)]"

definition builtin_function_signature :: "string option \<Rightarrow> string \<Rightarrow> FunctionSignature option" where
  "builtin_function_signature namespace name =
     List.find (\<lambda>s. fs_namespace s = namespace \<and> eq_ignore_ascii_case (fs_name s) name)
       portable_builtin_functions"

section \<open>Relation statistics\<close>

record RelationStatistics =
  st_relation :: string
  st_estimated_rows :: u64
  st_average_row_bytes :: u64
  st_shard_count :: "u32 option"

text \<open>\<^verbatim>\<open>str::parse\<close> for unsigned integers of a given width: an optional plus sign, then digits.\<close>

definition is_digit :: "char \<Rightarrow> bool" where
  "is_digit c \<longleftrightarrow> 48 \<le> (of_char c :: nat) \<and> (of_char c :: nat) \<le> 57"

fun parse_digits :: "nat \<Rightarrow> nat \<Rightarrow> string \<Rightarrow> nat option" where
  "parse_digits bound acc [] = Some acc"
| "parse_digits bound acc (c # cs) =
     (if is_digit c \<and> acc * 10 + (of_char c - 48) < bound
      then parse_digits bound (acc * 10 + (of_char c - 48)) cs else None)"

definition parse_unsigned :: "nat \<Rightarrow> string \<Rightarrow> nat option" where
  "parse_unsigned width s =
     (let ds = (case s of c # cs \<Rightarrow> if c = CHR ''+'' then cs else s | [] \<Rightarrow> [])
      in if ds = [] then None else parse_digits (2 ^ width) 0 ds)"

fun find_map :: "('a \<Rightarrow> 'b option) \<Rightarrow> 'a list \<Rightarrow> 'b option" where
  "find_map f [] = None"
| "find_map f (x # xs) = (case f x of Some y \<Rightarrow> Some y | None \<Rightarrow> find_map f xs)"

definition metadata_u64 :: "(string, string) btree_map \<Rightarrow> string list \<Rightarrow> u64 option" where
  "metadata_u64 metadata keys =
     map_option of_nat (Option.bind (find_map (bt_get metadata) keys) (parse_unsigned 64))"

definition metadata_u32 :: "(string, string) btree_map \<Rightarrow> string list \<Rightarrow> u32 option" where
  "metadata_u32 metadata keys =
     map_option of_nat (Option.bind (find_map (bt_get metadata) keys) (parse_unsigned 32))"

definition relation_statistics_from_schema :: "RelationSchema \<Rightarrow> RelationStatistics option" where
  "relation_statistics_from_schema relation =
     map_option (\<lambda>estimated_rows.
        \<lparr>st_relation = rel_name relation, st_estimated_rows = estimated_rows,
         st_average_row_bytes =
           (case metadata_u64 (rel_metadata relation)
                   [''average_row_bytes'', ''avg_row_bytes'', ''row_bytes''] of
              Some n \<Rightarrow> n | None \<Rightarrow> 64),
         st_shard_count = metadata_u32 (rel_metadata relation) [''shard_count'', ''shards'']\<rparr>)
       (metadata_u64 (rel_metadata relation) [''estimated_rows'', ''row_count'', ''rows''])"

section \<open>MemoryCatalog\<close>

type_synonym catalog_key = "string option \<times> string"

record MemoryCatalog =
  mc_snapshot_id :: CatalogSnapshotId
  mc_relations :: "(catalog_key, RelationSchema) btree_map"
  mc_functions :: "(catalog_key, FunctionSignature) btree_map"
  mc_statistics :: "(catalog_key, RelationStatistics) btree_map"

record CatalogDocument =
  cd_snapshot_id :: CatalogSnapshotId
  cd_relations :: "RelationSchema list"
  cd_functions :: "FunctionSignature list"

definition MemoryCatalog_default :: MemoryCatalog where
  "MemoryCatalog_default =
     \<lparr>mc_snapshot_id = CatalogSnapshotId ''memory-catalog'', mc_relations = [], mc_functions = [],
      mc_statistics = []\<rparr>"

definition relation_key :: "RelationSchema \<Rightarrow> catalog_key" where
  "relation_key r = (rel_namespace r, to_ascii_lowercase (rel_name r))"

definition function_key :: "FunctionSignature \<Rightarrow> catalog_key" where
  "function_key s = (fs_namespace s, to_ascii_lowercase (fs_name s))"

definition set_snapshot_id :: "string \<Rightarrow> MemoryCatalog \<Rightarrow> MemoryCatalog" where
  "set_snapshot_id i c = c\<lparr>mc_snapshot_id := CatalogSnapshotId i\<rparr>"

definition register_relation :: "RelationSchema \<Rightarrow> MemoryCatalog \<Rightarrow> MemoryCatalog" where
  "register_relation r c = c\<lparr>mc_relations := bt_insert (relation_key r) r (mc_relations c)\<rparr>"

definition register_function :: "FunctionSignature \<Rightarrow> MemoryCatalog \<Rightarrow> MemoryCatalog" where
  "register_function s c = c\<lparr>mc_functions := bt_insert (function_key s) s (mc_functions c)\<rparr>"

definition MemoryCatalog_resolve_function ::
  "MemoryCatalog \<Rightarrow> string option \<Rightarrow> string \<Rightarrow> FunctionSignature option" where
  "MemoryCatalog_resolve_function c namespace name =
     (case bt_get (mc_functions c) (namespace, to_ascii_lowercase name) of
        Some s \<Rightarrow> Some s
      | None \<Rightarrow> builtin_function_signature namespace name)"

definition MemoryCatalog_functions :: "MemoryCatalog \<Rightarrow> FunctionSignature list" where
  "MemoryCatalog_functions c =
     bt_values
       (foldl (\<lambda>m (k, s). bt_insert k s m)
         (foldl (\<lambda>m s. bt_insert (function_key s) s m) [] portable_builtin_functions)
         (mc_functions c))"

definition MemoryCatalog_resolve_relation ::
  "MemoryCatalog \<Rightarrow> string option \<Rightarrow> string \<Rightarrow> RelationSchema option" where
  "MemoryCatalog_resolve_relation c namespace name =
     (case bt_get (mc_relations c) (namespace, to_ascii_lowercase name) of
        Some r \<Rightarrow> Some r
      | None \<Rightarrow>
          List.find (\<lambda>r. eq_ignore_ascii_case (rel_name r) name \<or>
                         list_ex (\<lambda>alias. eq_ignore_ascii_case alias name) (rel_aliases r))
            (bt_values (mc_relations c)))"

definition MemoryCatalog_relations :: "MemoryCatalog \<Rightarrow> RelationSchema list" where
  "MemoryCatalog_relations c = bt_values (mc_relations c)"

definition set_relation_statistics ::
  "string option \<Rightarrow> string \<Rightarrow> RelationStatistics \<Rightarrow> MemoryCatalog \<Rightarrow> MemoryCatalog" where
  "set_relation_statistics namespace name statistics c =
     (let key = (case MemoryCatalog_resolve_relation c namespace name of
                   Some relation \<Rightarrow> relation_key relation
                 | None \<Rightarrow> (namespace, to_ascii_lowercase name))
      in c\<lparr>mc_statistics := bt_insert key statistics (mc_statistics c)\<rparr>)"

definition MemoryCatalog_relation_statistics ::
  "MemoryCatalog \<Rightarrow> string option \<Rightarrow> string \<Rightarrow> RelationStatistics option" where
  "MemoryCatalog_relation_statistics c namespace name =
     (case MemoryCatalog_resolve_relation c namespace name of
        None \<Rightarrow> None
      | Some relation \<Rightarrow>
          (case bt_get (mc_statistics c) (relation_key relation) of
             Some statistics \<Rightarrow> Some statistics
           | None \<Rightarrow> relation_statistics_from_schema relation))"

definition to_document :: "MemoryCatalog \<Rightarrow> CatalogDocument" where
  "to_document c =
     \<lparr>cd_snapshot_id = mc_snapshot_id c, cd_relations = MemoryCatalog_relations c,
      cd_functions = MemoryCatalog_functions c\<rparr>"

definition from_document :: "CatalogDocument \<Rightarrow> MemoryCatalog" where
  "from_document d =
     foldl (\<lambda>c s. register_function s c)
       (foldl (\<lambda>c r. register_relation r c)
         \<lparr>mc_snapshot_id = cd_snapshot_id d, mc_relations = [], mc_functions = [], mc_statistics = []\<rparr>
         (cd_relations d))
       (cd_functions d)"

text \<open>The trait object the compiler sees.\<close>

definition memory_catalog :: "MemoryCatalog \<Rightarrow> Catalog" where
  "memory_catalog c =
     \<lparr>cat_snapshot_id = mc_snapshot_id c,
      cat_resolve_function = MemoryCatalog_resolve_function c,
      cat_resolve_relation = MemoryCatalog_resolve_relation c\<rparr>"

section \<open>Keyed registries\<close>

text \<open>
  Both tables of a catalog are keyed registries: registering a value makes it the answer for its
  key and changes no other answer. What follows for a sequence of registrations (the last one
  for a key wins) is proved once.
\<close>

locale keyed_registry =
  fixes register :: "'v \<Rightarrow> 'c \<Rightarrow> 'c"
    and key :: "'v \<Rightarrow> 'k"
    and entry :: "'c \<Rightarrow> 'k \<Rightarrow> 'v option"
  assumes entry_register: "entry (register v c) k = (if k = key v then Some v else entry c k)"
begin

lemma entry_register_all:
  "entry (foldl (\<lambda>c v. register v c) c vs) k =
     (case List.find (\<lambda>v. key v = k) (rev vs) of Some v \<Rightarrow> Some v | None \<Rightarrow> entry c k)"
  by (induction vs rule: rev_induct) (auto simp: entry_register)

lemma entry_register_all_mem:
  assumes "distinct (map key vs)" and "v \<in> set vs"
  shows "entry (foldl (\<lambda>c v. register v c) c vs) (key v) = Some v"
proof -
  have "List.find (\<lambda>w. key w = key v) (rev vs) \<noteq> None"
    using assms(2) by (auto simp: find_None_iff)
  moreover have "w = v" if found: "List.find (\<lambda>w. key w = key v) (rev vs) = Some w" for w
  proof -
    obtain i where "i < length (rev vs)" "w = rev vs ! i" "key w = key v"
      using found unfolding find_Some_iff by metis
    then have "w \<in> set vs" "key w = key v" using nth_mem[of i "rev vs"] by auto
    then show ?thesis using assms by (auto simp: distinct_map dest: inj_onD)
  qed
  ultimately show ?thesis by (auto simp: entry_register_all)
qed

end

interpretation relation_registry: keyed_registry register_relation relation_key
    "\<lambda>c k. bt_get (mc_relations c) k"
  by unfold_locales (simp add: register_relation_def bt_get_insert)

interpretation function_registry: keyed_registry register_function function_key
    "\<lambda>c k. bt_get (mc_functions c) k"
  by unfold_locales (simp add: register_function_def bt_get_insert)

section \<open>Well-formed catalogs\<close>

definition keyed_by :: "('v \<Rightarrow> 'k) \<Rightarrow> ('k::linorder, 'v) btree_map \<Rightarrow> bool" where
  "keyed_by key m \<longleftrightarrow> bt_wf m \<and> list_all (\<lambda>(k, v). k = key v) m"

definition MemoryCatalog_wf :: "MemoryCatalog \<Rightarrow> bool" where
  "MemoryCatalog_wf c \<longleftrightarrow>
     keyed_by relation_key (mc_relations c) \<and> keyed_by function_key (mc_functions c) \<and>
     bt_wf (mc_statistics c)"

lemma set_bt_insert_subset: "set (bt_insert k v m) \<subseteq> insert (k, v) (set m)"
  by (induction k v m rule: bt_insert.induct) auto

lemma keyed_by_insert [simp, intro]: "keyed_by key m \<Longrightarrow> keyed_by key (bt_insert (key v) v m)"
  using set_bt_insert_subset[of "key v" v m] by (auto simp: keyed_by_def list_all_iff)

lemma keyed_by_Nil [simp]: "keyed_by key []"
  by (simp add: keyed_by_def)

lemma keyed_by_get: "keyed_by key m \<Longrightarrow> bt_get m k = Some v \<Longrightarrow> key v = k"
  using bt_get_mem[of m k v] by (auto simp: keyed_by_def list_all_iff)

lemma keyed_by_foldl: "keyed_by key m \<Longrightarrow> keyed_by key (foldl (\<lambda>m v. bt_insert (key v) v m) m vs)"
  by (induction vs arbitrary: m) auto

lemma bt_insert_last: "\<forall>j \<in> set (bt_keys m). j < k \<Longrightarrow> bt_insert k v m = m @ [(k, v)]"
  by (induction k v m rule: bt_insert.induct) auto

lemma foldl_insert_values:
  "keyed_by key n \<Longrightarrow> bt_wf (m @ n) \<Longrightarrow> foldl (\<lambda>m v. bt_insert (key v) v m) m (bt_values n) = m @ n"
proof (induction n arbitrary: m)
  case (Cons kv n)
  obtain k v where kv: "kv = (k, v)" by (cases kv)
  have *: "k = key v" "keyed_by key n" "\<forall>j \<in> set (bt_keys m). j < k"
    using Cons.prems kv by (auto simp: keyed_by_def bt_wf_def bt_keys_def sorted_wrt_append)
  then have "bt_insert (key v) v m = m @ [kv]" using kv by (simp add: bt_insert_last)
  with Cons.IH[of "m @ [kv]"] Cons.prems * kv show ?case by (simp add: bt_values_def)
qed (simp add: bt_values_def)

lemma rebuild_from_values: "keyed_by key m \<Longrightarrow> foldl (\<lambda>m v. bt_insert (key v) v m) [] (bt_values m) = m"
  using foldl_insert_values[of key m "[]"] by (simp add: keyed_by_def)

definition overlay :: "('k::linorder, 'v) btree_map \<Rightarrow> ('k, 'v) btree_map \<Rightarrow> ('k, 'v) btree_map" where
  "overlay b m = foldl (\<lambda>m (k, s). bt_insert k s m) b m"

lemma overlay_wf: "bt_wf b \<Longrightarrow> bt_wf (overlay b m)"
  unfolding overlay_def by (induction m arbitrary: b) auto

lemma overlay_keyed: "keyed_by key b \<Longrightarrow> list_all (\<lambda>(k, v). k = key v) m \<Longrightarrow> keyed_by key (overlay b m)"
  unfolding overlay_def by (induction m arbitrary: b) auto

lemma overlay_get:
  "bt_wf m \<Longrightarrow> bt_get (overlay b m) k = (case bt_get m k of Some v \<Rightarrow> Some v | None \<Rightarrow> bt_get b k)"
proof (induction m arbitrary: b)
  case (Cons kv m)
  obtain k' v where kv: "kv = (k', v)" by (cases kv)
  with Cons have IH: "bt_get (overlay (bt_insert k' v b) m) k =
      (case bt_get m k of Some v \<Rightarrow> Some v | None \<Rightarrow> bt_get (bt_insert k' v b) k)"
    by (auto simp: bt_wf_Cons)
  have "k = k' \<Longrightarrow> bt_get m k = None" using Cons.prems kv by (auto simp: bt_wf_Cons bt_get_None_iff)
  with IH kv show ?case by (auto simp: overlay_def bt_get_insert split: option.splits)
qed (simp add: overlay_def)

lemma overlay_overlay:
  assumes "bt_wf b" and "bt_wf m"
  shows "overlay b (overlay b m) = overlay b m"
  by (rule bt_ext) (auto simp: assms overlay_wf overlay_get split: option.splits)

definition builtin_table :: "(catalog_key, FunctionSignature) btree_map" where
  "builtin_table = foldl (\<lambda>m s. bt_insert (function_key s) s m) [] portable_builtin_functions"

lemma builtin_table_keyed: "keyed_by function_key builtin_table"
  unfolding builtin_table_def by (rule keyed_by_foldl) simp

lemma MemoryCatalog_functions_overlay:
  "MemoryCatalog_functions c = bt_values (overlay builtin_table (mc_functions c))"
  by (simp add: MemoryCatalog_functions_def overlay_def builtin_table_def)

lemma foldl_register_function:
  "foldl (\<lambda>c s. register_function s c) c ss =
     c\<lparr>mc_functions := foldl (\<lambda>m s. bt_insert (function_key s) s m) (mc_functions c) ss\<rparr>"
  by (induction ss arbitrary: c) (simp_all add: register_function_def)

lemma foldl_register_relation:
  "foldl (\<lambda>c r. register_relation r c) c rs =
     c\<lparr>mc_relations := foldl (\<lambda>m r. bt_insert (relation_key r) r m) (mc_relations c) rs\<rparr>"
  by (induction rs arbitrary: c) (simp_all add: register_relation_def)

lemma register_preserves_wf [simp]:
  "MemoryCatalog_wf c \<Longrightarrow> MemoryCatalog_wf (register_relation r c)"
  "MemoryCatalog_wf c \<Longrightarrow> MemoryCatalog_wf (register_function s c)"
  "MemoryCatalog_wf c \<Longrightarrow> MemoryCatalog_wf (set_relation_statistics ns n st c)"
  "MemoryCatalog_wf MemoryCatalog_default"
  by (auto simp: MemoryCatalog_wf_def register_relation_def register_function_def
      set_relation_statistics_def MemoryCatalog_default_def Let_def)

text \<open>
  Exporting a catalog to a document, reloading it and exporting it again gives the same
  document: snapshot, relations and functions (builtins included) survive the round trip.
\<close>

theorem catalog_document_roundtrip:
  assumes "MemoryCatalog_wf c"
  shows "to_document (from_document (to_document c)) = to_document c"
proof -
  let ?F = "overlay builtin_table (mc_functions c)"
  have wf: "keyed_by relation_key (mc_relations c)" "keyed_by function_key (mc_functions c)"
    using assms by (simp_all add: MemoryCatalog_wf_def)
  have F: "keyed_by function_key ?F"
    using wf(2) builtin_table_keyed by (auto simp: keyed_by_def intro!: overlay_keyed[unfolded keyed_by_def])
  have "from_document (to_document c) =
      \<lparr>mc_snapshot_id = mc_snapshot_id c, mc_relations = mc_relations c, mc_functions = ?F, mc_statistics = []\<rparr>"
    using rebuild_from_values[OF wf(1)] rebuild_from_values[OF F]
    by (simp add: from_document_def to_document_def foldl_register_function foldl_register_relation
        MemoryCatalog_relations_def MemoryCatalog_functions_overlay)
  moreover have "overlay builtin_table ?F = ?F"
    using builtin_table_keyed wf(2) by (intro overlay_overlay) (simp_all add: keyed_by_def)
  ultimately show ?thesis
    by (simp add: to_document_def MemoryCatalog_relations_def MemoryCatalog_functions_overlay)
qed

definition example_relation :: RelationSchema where
  "example_relation =
     \<lparr>rel_namespace = Some ''lab'', rel_name = ''Records'', rel_aliases = [''r''], rel_kind = Table,
      rel_columns = [\<lparr>cs_name = ''record_id'', cs_data_type = DataType.Uuid, cs_nullable = False,
                      cs_metadata = FieldMetadata_default\<rparr>],
      rel_metadata = []\<rparr>"

theorem catalog_document_roundtrip_witness:
  "MemoryCatalog_wf (register_relation example_relation MemoryCatalog_default) \<and>
   to_document (from_document (to_document (register_relation example_relation MemoryCatalog_default)))
     = to_document (register_relation example_relation MemoryCatalog_default)"
  using catalog_document_roundtrip[of "register_relation example_relation MemoryCatalog_default"] by simp

text \<open>
  A registered relation is found under its namespace and its name in any letter case, and
  whatever a lookup returns was registered and carries the requested name as its own name or as
  one of its aliases.
\<close>

theorem resolve_relation_correct:
  assumes "MemoryCatalog_wf c"
  shows "(eq_ignore_ascii_case n (rel_name r) \<longrightarrow>
      MemoryCatalog_resolve_relation (register_relation r c) (rel_namespace r) n = Some r) \<and>
    (MemoryCatalog_resolve_relation c ns n = Some r \<longrightarrow>
      r \<in> set (MemoryCatalog_relations c) \<and>
      (eq_ignore_ascii_case (rel_name r) n \<or> list_ex (\<lambda>a. eq_ignore_ascii_case a n) (rel_aliases r)))"
proof (intro conjI[of "_ \<longrightarrow> _" "_ \<longrightarrow> _"] impI)
  assume "eq_ignore_ascii_case n (rel_name r)"
  then show "MemoryCatalog_resolve_relation (register_relation r c) (rel_namespace r) n = Some r"
    by (simp add: MemoryCatalog_resolve_relation_def relation_registry.entry_register relation_key_def
        eq_ignore_ascii_case_def)
next
  assume R: "MemoryCatalog_resolve_relation c ns n = Some r"
  show "r \<in> set (MemoryCatalog_relations c) \<and>
      (eq_ignore_ascii_case (rel_name r) n \<or> list_ex (\<lambda>a. eq_ignore_ascii_case a n) (rel_aliases r))"
  proof (cases "bt_get (mc_relations c) (ns, to_ascii_lowercase n)")
    case None
    with R show ?thesis
      by (auto simp: MemoryCatalog_resolve_relation_def MemoryCatalog_relations_def find_Some_iff)
  next
    case (Some r')
    with R have "r' = r" by (simp add: MemoryCatalog_resolve_relation_def)
    with Some have "relation_key r = (ns, to_ascii_lowercase n)" "r \<in> set (bt_values (mc_relations c))"
      using assms keyed_by_get[of relation_key "mc_relations c"] bt_get_mem[of "mc_relations c"]
      by (force simp: MemoryCatalog_wf_def bt_values_def)+
    then show ?thesis by (simp add: relation_key_def MemoryCatalog_relations_def eq_ignore_ascii_case_def)
  qed
qed

theorem resolve_relation_correct_witness:
  "MemoryCatalog_wf MemoryCatalog_default \<and> eq_ignore_ascii_case ''RECORDS'' (rel_name example_relation) \<and>
   MemoryCatalog_resolve_relation (register_relation example_relation MemoryCatalog_default)
     (Some ''lab'') ''RECORDS'' = Some example_relation"
proof -
  have wf: "MemoryCatalog_wf MemoryCatalog_default" by simp
  have e: "eq_ignore_ascii_case ''RECORDS'' (rel_name example_relation)"
    by code_simp
  have ns: "rel_namespace example_relation = Some ''lab''" by (simp add: example_relation_def)
  show ?thesis using wf e resolve_relation_correct[OF wf, of "''RECORDS''" example_relation] by (simp add: ns)
qed

text \<open>
  A lookup under a namespace that holds no such relation still succeeds when any other namespace
  does: the fallback of \<^verbatim>\<open>resolve_relation\<close> compares names and aliases only.
\<close>

lemma resolve_relation_ignores_namespace:
  "MemoryCatalog_resolve_relation (register_relation example_relation MemoryCatalog_default)
     (Some ''other'') ''records'' = Some example_relation"
  by code_simp

end
