(* ===== verification/QF_Bound.thy ===== *)
theory QF_Bound
  imports QF_Syntax
begin

text \<open>
  Bound queries: the plan types and \<^verbatim>\<open>BoundQuery\<close> of \<^verbatim>\<open>crates/queryfabric-ir/src/bound.rs\<close>. As in the
  syntax tree, the structs that only wrap expressions, relations or plans are type constructors over
  them; \<open>BoundQueryPlan\<close>, \<open>BoundSetExpr\<close>, \<open>BoundRelation\<close> and \<open>BoundExpr\<close> are the recursive types.
  The traversal \<open>plan_all\<close> says that a predicate holds at every node of a plan.
\<close>

section \<open>Plan types\<close>

record BoundRelationBinding =
  rb_binding_name :: string
  rb_relation_name :: "NameRef option"
  rb_schema :: ResultSchema

datatype BoundColumnRef = BoundColumnRef (bcr_relation: "string option") (bcr_name: string)

datatype (plugins only: code size) 'e BoundOrderByExpr =
  BoundOrderByExpr (bo_expr: 'e) (bo_asc: "bool option") (bo_nulls_first: "bool option")
    (bo_node: SyntaxNode)

datatype (plugins only: code size) 'e BoundWindowSpec =
  BoundWindowSpec (bw_partition_by: "'e list") (bw_order_by: "'e BoundOrderByExpr list")
    (bw_node: SyntaxNode)

datatype (plugins only: code size) 'e BoundFunctionCall =
  BoundFunctionCall (bf_function: FunctionRef) (bf_resolved_backend_name: "FunctionRef option")
    (bf_args: "'e list") (bf_distinct: bool) (bf_filter: "'e option")
    (bf_over: "'e BoundWindowSpec option") (bf_resolved_signature_name: "string option")

datatype (plugins only: code size) 'e BoundWhenThen =
  BoundWhenThen (bwt_condition: 'e) (bwt_result: 'e)

datatype (plugins only: code size) ('e, 'q) BoundExprKind =
    Column BoundColumnRef
  | Literal LiteralValue
  | Parameter ParameterRef
  | Unary UnaryOperator 'e
  | Binary BinaryOperator 'e 'e
  | Function "'e BoundFunctionCall"
  | Case "'e option" "'e BoundWhenThen list" "'e option"
  | Cast 'e DataType
  | Between 'e 'e 'e bool
  | InList 'e "'e list" bool
  | InSubquery 'e 'q bool
  | ScalarSubquery 'q
  | Exists 'q
  | Like 'e 'e bool bool
  | IsNull 'e bool
  | Tuple "'e list"
  | Array "'e list"
  | Unsupported string

datatype (plugins only: code size) 'e BoundProjectionExpr =
  BoundProjectionExpr (bpe_expr: 'e) (bpe_alias: "string option") (bpe_field: ResultField)
    (bpe_node: SyntaxNode)

datatype (plugins only: code size) 'e BoundProjectionItem =
    Wildcard "string option" "ResultField list" SyntaxNode
  | Expr "'e BoundProjectionExpr"
  | Unsupported string SyntaxNode

datatype (plugins only: code size) ('e, 'r) BoundJoin =
  BoundJoin (bj_kind: JoinKind) (bj_relation: 'r) (bj_on: "'e option") (bj_node: SyntaxNode)

datatype (plugins only: code size) ('e, 'r) BoundTableWithJoins =
  BoundTableWithJoins (btj_relation: 'r) (btj_joins: "('e, 'r) BoundJoin list") (btj_node: SyntaxNode)

datatype (plugins only: code size) ('e, 'r) BoundSelect =
  BoundSelect (bsel_distinct: bool) (bsel_projection: "'e BoundProjectionItem list")
    (bsel_from: "('e, 'r) BoundTableWithJoins list") (bsel_selection: "'e option")
    (bsel_group_by: "'e list") (bsel_having: "'e option") (bsel_result_schema: ResultSchema)
    (bsel_node: SyntaxNode)

datatype (plugins only: code size) 'q BoundCte =
  BoundCte (bc_name: string) (bc_columns: "string list") (bc_query: 'q)
    (bc_result_schema: ResultSchema) (bc_node: SyntaxNode)

datatype (plugins only: code size) BoundQueryPlan =
    BoundQueryPlan (bp_node: SyntaxNode) (bp_ctes: "BoundQueryPlan BoundCte list")
      (bp_body: BoundSetExpr) (bp_order_by: "BoundExpr BoundOrderByExpr list")
      (bp_limit: "BoundExpr option") (bp_offset: "BoundExpr option")
      (bp_backend_clauses: "BackendClause list") (bp_result_schema: ResultSchema)
and BoundSetExpr =
    Select "(BoundExpr, BoundRelation) BoundSelect"
  | UnionAll BoundSetExpr BoundSetExpr SyntaxNode ResultSchema
  | Unsupported string SyntaxNode ResultSchema
and BoundRelation =
    Table BoundRelationBinding SyntaxNode
  | Derived BoundRelationBinding BoundQueryPlan SyntaxNode
  | NestedJoin BoundRelationBinding "(BoundExpr, BoundRelation) BoundTableWithJoins" SyntaxNode
  | Unsupported string string SyntaxNode
and BoundExpr =
    BoundExpr (bx_kind: "(BoundExpr, BoundQueryPlan) BoundExprKind") (bx_data_type: DataType)
      (bx_nullable: bool) (bx_node: SyntaxNode)

type_synonym BoundTable = "(BoundExpr, BoundRelation) BoundTableWithJoins"

definition BoundSetExpr_as_select :: "BoundSetExpr \<Rightarrow> (BoundExpr, BoundRelation) BoundSelect option" where
  "BoundSetExpr_as_select e = (case e of Select s \<Rightarrow> Some s | _ \<Rightarrow> None)"

fun BoundSetExpr_result_schema :: "BoundSetExpr \<Rightarrow> ResultSchema" where
  "BoundSetExpr_result_schema (Select s) = bsel_result_schema s"
| "BoundSetExpr_result_schema (UnionAll _ _ _ schema) = schema"
| "BoundSetExpr_result_schema (BoundSetExpr.Unsupported _ _ schema) = schema"

definition BoundProjectionItem_expr ::
  "'e \<Rightarrow> string option \<Rightarrow> ResultField \<Rightarrow> SyntaxNode \<Rightarrow> 'e BoundProjectionItem" where
  "BoundProjectionItem_expr expr alias field node = Expr (BoundProjectionExpr expr alias field node)"

definition BoundProjectionItem_as_expr :: "'e BoundProjectionItem \<Rightarrow> 'e BoundProjectionExpr option" where
  "BoundProjectionItem_as_expr item = (case item of Expr details \<Rightarrow> Some details | _ \<Rightarrow> None)"

fun BoundRelation_binding :: "BoundRelation \<Rightarrow> BoundRelationBinding option" where
  "BoundRelation_binding (Table binding _) = Some binding"
| "BoundRelation_binding (Derived binding _ _) = Some binding"
| "BoundRelation_binding (NestedJoin binding _ _) = Some binding"
| "BoundRelation_binding (BoundRelation.Unsupported _ _ _) = None"

definition as_function :: "('e, 'q) BoundExprKind \<Rightarrow> 'e BoundFunctionCall option" where
  "as_function kind = (case kind of Function f \<Rightarrow> Some f | _ \<Rightarrow> None)"

definition BoundQueryPlan_unsupported :: "ParsedQuery \<Rightarrow> BoundQueryPlan" where
  "BoundQueryPlan_unsupported parsed =
     BoundQueryPlan (SyntaxNode (Some (pq_query_span parsed)) ''bound.unsupported'') []
       (BoundSetExpr.Unsupported ''query has not been bound''
          (SyntaxNode (Some (pq_query_span parsed)) ''bound.unsupported.body'') ResultSchema_default)
       [] None None [] ResultSchema_default"

section \<open>BoundQuery\<close>

record BoundQuery =
  bq_parsed :: ParsedQuery
  bq_catalog_snapshot :: "CatalogSnapshotId option"
  bq_parameters :: "ParameterBinding list"
  bq_diagnostics :: "QueryDiagnostic list"
  bq_capability_requirements :: CapabilityRequirements
  bq_result_schema :: ResultSchema
  bq_provenance :: ProvenanceReceipt
  bq_plan :: BoundQueryPlan

definition BoundQuery_new :: "(string \<Rightarrow> string) \<Rightarrow> ParsedQuery \<Rightarrow> BoundQuery" where
  "BoundQuery_new blake3_hex parsed =
     \<lparr>bq_parsed = parsed, bq_catalog_snapshot = None, bq_parameters = [], bq_diagnostics = [],
      bq_capability_requirements = CapabilityRequirements_default,
      bq_result_schema = ResultSchema_default,
      bq_provenance = ProvenanceReceipt_for_query blake3_hex (pq_canonical_sql parsed) (pq_dialect parsed),
      bq_plan = BoundQueryPlan_unsupported parsed\<rparr>"

definition with_catalog_snapshot :: "CatalogSnapshotId \<Rightarrow> BoundQuery \<Rightarrow> BoundQuery" where
  "with_catalog_snapshot snapshot q =
     q\<lparr>bq_provenance := receipt_with_catalog_snapshot snapshot (bq_provenance q),
       bq_catalog_snapshot := Some snapshot\<rparr>"

definition with_parameters :: "ParameterBinding list \<Rightarrow> BoundQuery \<Rightarrow> BoundQuery" where
  "with_parameters ps q = q\<lparr>bq_parameters := ps\<rparr>"

definition with_diagnostics :: "QueryDiagnostic list \<Rightarrow> BoundQuery \<Rightarrow> BoundQuery" where
  "with_diagnostics ds q = q\<lparr>bq_diagnostics := ds\<rparr>"

definition with_capability_requirements :: "CapabilityRequirements \<Rightarrow> BoundQuery \<Rightarrow> BoundQuery" where
  "with_capability_requirements rs q = q\<lparr>bq_capability_requirements := rs\<rparr>"

definition with_result_schema :: "ResultSchema \<Rightarrow> BoundQuery \<Rightarrow> BoundQuery" where
  "with_result_schema schema q = q\<lparr>bq_result_schema := schema\<rparr>"

definition with_provenance :: "ProvenanceReceipt \<Rightarrow> BoundQuery \<Rightarrow> BoundQuery" where
  "with_provenance receipt q = q\<lparr>bq_provenance := receipt\<rparr>"

definition with_plan :: "BoundQueryPlan \<Rightarrow> BoundQuery \<Rightarrow> BoundQuery" where
  "with_plan plan q = q\<lparr>bq_result_schema := bp_result_schema plan, bq_plan := plan\<rparr>"

section \<open>Every node of a plan\<close>

datatype BoundNode =
    PlanNode BoundQueryPlan
  | CteNode "BoundQueryPlan BoundCte"
  | SetNode BoundSetExpr
  | ItemNode "BoundExpr BoundProjectionItem"
  | RelationNode BoundRelation
  | ExprNode BoundExpr

lemmas pred_congs [fundef_cong] =
  option.pred_cong BoundExprKind.pred_cong BoundProjectionItem.pred_cong
  BoundTableWithJoins.pred_cong BoundOrderByExpr.pred_cong

lemma pred_option_code [code]: "pred_option P None = True" "pred_option P (Some x) = P x"
  by simp_all

lemma size_bound_list_mem_le: "x \<in> set xs \<Longrightarrow> f x \<le> size_list f xs"
  by (induction xs) auto

lemma size_bound_order_by_mem: "x \<in> set xs \<Longrightarrow> size (bo_expr x) < size_list (size_BoundOrderByExpr size) xs"
  using size_bound_list_mem_le[of x xs "size_BoundOrderByExpr size"] by (cases x) simp

lemma size_bound_cte_mem: "x \<in> set xs \<Longrightarrow> size (bc_query x) < size_list (size_BoundCte size) xs"
  using size_bound_list_mem_le[of x xs "size_BoundCte size"] by (cases x) simp

lemma size_bound_item_mem:
  "x \<in> set xs \<Longrightarrow> e \<in> set_BoundProjectionItem x \<Longrightarrow> size e < size_list (size_BoundProjectionItem size) xs"
  using size_bound_list_mem_le[of x xs "size_BoundProjectionItem size"]
  by (cases x) (auto elim!: BoundProjectionExpr.set_cases)

lemma size_bound_joins_mem:
  "x \<in> set xs \<Longrightarrow> e \<in> set1_BoundJoin x \<Longrightarrow> size e < size_list (size_BoundJoin size size) xs"
  "x \<in> set xs \<Longrightarrow> r \<in> set2_BoundJoin x \<Longrightarrow> size r < size_list (size_BoundJoin size size) xs"
  using size_bound_list_mem_le[of x xs "size_BoundJoin size size"]
  by (cases x; auto split: option.splits)+

lemma size_bound_table:
  "e \<in> set1_BoundTableWithJoins t \<Longrightarrow> size e < size_BoundTableWithJoins size size t"
  "r \<in> set2_BoundTableWithJoins t \<Longrightarrow> size r < size_BoundTableWithJoins size size t"
  by (cases t; fastforce dest: size_bound_joins_mem)+

lemma size_bound_from_mem:
  "x \<in> set xs \<Longrightarrow> e \<in> set1_BoundTableWithJoins x \<Longrightarrow> size e < size_list (size_BoundTableWithJoins size size) xs"
  "x \<in> set xs \<Longrightarrow> r \<in> set2_BoundTableWithJoins x \<Longrightarrow> size r < size_list (size_BoundTableWithJoins size size) xs"
  using size_bound_list_mem_le[of x xs "size_BoundTableWithJoins size size"] size_bound_table
  by fastforce+

lemma size_bound_order_set:
  "x \<in> set xs \<Longrightarrow> e \<in> set_BoundOrderByExpr x \<Longrightarrow> size e < size_list (size_BoundOrderByExpr size) xs"
  using size_bound_list_mem_le[of x xs "size_BoundOrderByExpr size"] by (cases x) simp

lemma size_bound_window: "e \<in> set_BoundWindowSpec w \<Longrightarrow> size e < size_BoundWindowSpec size w"
  by (cases w) (auto dest: size_bound_order_set size_bound_list_mem_le[of e _ size])

lemma size_bound_function: "e \<in> set_BoundFunctionCall f \<Longrightarrow> size e < size_BoundFunctionCall size f"
  by (cases f) (auto dest: size_bound_window size_bound_list_mem_le[of e _ size])

lemma size_bound_when_then_mem:
  "x \<in> set xs \<Longrightarrow> e \<in> set_BoundWhenThen x \<Longrightarrow> size e < size_list (size_BoundWhenThen size) xs"
  using size_bound_list_mem_le[of x xs "size_BoundWhenThen size"] by (cases x) auto

lemma size_bound_kind:
  "e \<in> set1_BoundExprKind k \<Longrightarrow> size e < size_BoundExprKind size size k"
  "q \<in> set2_BoundExprKind k \<Longrightarrow> size q < size_BoundExprKind size size k"
  by (cases k; auto dest: size_bound_function size_bound_when_then_mem size_bound_list_mem_le[of e _ size])+

lemmas bound_size_dests =
  size_bound_list_mem_le[where f = size] size_bound_order_by_mem size_bound_cte_mem size_bound_item_mem
  size_bound_from_mem size_bound_table size_bound_kind

function plan_all :: "(BoundNode \<Rightarrow> bool) \<Rightarrow> BoundQueryPlan \<Rightarrow> bool"
  and set_expr_all :: "(BoundNode \<Rightarrow> bool) \<Rightarrow> BoundSetExpr \<Rightarrow> bool"
  and relation_all :: "(BoundNode \<Rightarrow> bool) \<Rightarrow> BoundRelation \<Rightarrow> bool"
  and expr_all :: "(BoundNode \<Rightarrow> bool) \<Rightarrow> BoundExpr \<Rightarrow> bool"
where
  "plan_all P (BoundQueryPlan node ctes body order_by limit offset clauses schema) \<longleftrightarrow>
     P (PlanNode (BoundQueryPlan node ctes body order_by limit offset clauses schema)) \<and>
     list_all (\<lambda>c. P (CteNode c) \<and> plan_all P (bc_query c)) ctes \<and>
     set_expr_all P body \<and> list_all (\<lambda>k. expr_all P (bo_expr k)) order_by \<and>
     pred_option (expr_all P) limit \<and> pred_option (expr_all P) offset"
| "set_expr_all P (Select (BoundSelect distinct' projection from selection group_by having schema node)) \<longleftrightarrow>
     P (SetNode (Select (BoundSelect distinct' projection from selection group_by having schema node))) \<and>
     list_all (\<lambda>i. P (ItemNode i) \<and> pred_BoundProjectionItem (expr_all P) i) projection \<and>
     list_all (pred_BoundTableWithJoins (expr_all P) (relation_all P)) from \<and>
     pred_option (expr_all P) selection \<and> list_all (expr_all P) group_by \<and>
     pred_option (expr_all P) having"
| "set_expr_all P (UnionAll left right node schema) \<longleftrightarrow>
     P (SetNode (UnionAll left right node schema)) \<and> set_expr_all P left \<and> set_expr_all P right"
| "set_expr_all P (BoundSetExpr.Unsupported description node schema) \<longleftrightarrow>
     P (SetNode (BoundSetExpr.Unsupported description node schema))"
| "relation_all P (Table binding node) \<longleftrightarrow> P (RelationNode (Table binding node))"
| "relation_all P (Derived binding plan node) \<longleftrightarrow>
     P (RelationNode (Derived binding plan node)) \<and> plan_all P plan"
| "relation_all P (NestedJoin binding table node) \<longleftrightarrow>
     P (RelationNode (NestedJoin binding table node)) \<and>
     pred_BoundTableWithJoins (expr_all P) (relation_all P) table"
| "relation_all P (BoundRelation.Unsupported description name node) \<longleftrightarrow>
     P (RelationNode (BoundRelation.Unsupported description name node))"
| "expr_all P (BoundExpr kind data_type nullable node) \<longleftrightarrow>
     P (ExprNode (BoundExpr kind data_type nullable node)) \<and>
     pred_BoundExprKind (expr_all P) (plan_all P) kind"
  by pat_completeness auto
termination
  by (relation "measure (case_sum (case_sum (size \<circ> snd) (size \<circ> snd)) (case_sum (size \<circ> snd) (size \<circ> snd)))")
    (auto dest: bound_size_dests)

lemma all_nodes_mono:
  "plan_all P plan \<Longrightarrow> (\<And>n. P n \<Longrightarrow> Q n) \<Longrightarrow> plan_all Q plan"
  "set_expr_all P body \<Longrightarrow> (\<And>n. P n \<Longrightarrow> Q n) \<Longrightarrow> set_expr_all Q body"
  "relation_all P rel \<Longrightarrow> (\<And>n. P n \<Longrightarrow> Q n) \<Longrightarrow> relation_all Q rel"
  "expr_all P expr \<Longrightarrow> (\<And>n. P n \<Longrightarrow> Q n) \<Longrightarrow> expr_all Q expr"
proof (induction P plan and P body and P rel and P expr rule: plan_all_set_expr_all_relation_all_expr_all.induct)
  case 1
  then show ?case by (auto simp: list_all_iff option.pred_set)
next
  case 2
  then show ?case
    by (auto simp: list_all_iff option.pred_set BoundProjectionItem.pred_set BoundTableWithJoins.pred_set)
next
  case 7
  then show ?case by (auto simp: BoundTableWithJoins.pred_set)
next
  case 9
  then show ?case by (auto simp: BoundExprKind.pred_set)
qed auto

lemma all_nodes_conj:
  "plan_all P plan \<Longrightarrow> plan_all Q plan \<Longrightarrow> plan_all (\<lambda>n. P n \<and> Q n) plan"
  "set_expr_all P body \<Longrightarrow> set_expr_all Q body \<Longrightarrow> set_expr_all (\<lambda>n. P n \<and> Q n) body"
  "relation_all P rel \<Longrightarrow> relation_all Q rel \<Longrightarrow> relation_all (\<lambda>n. P n \<and> Q n) rel"
  "expr_all P expr \<Longrightarrow> expr_all Q expr \<Longrightarrow> expr_all (\<lambda>n. P n \<and> Q n) expr"
proof (induction P plan and P body and P rel and P expr rule: plan_all_set_expr_all_relation_all_expr_all.induct)
  case 1
  then show ?case by (auto simp: list_all_iff option.pred_set)
next
  case 2
  then show ?case
    by (auto simp: list_all_iff option.pred_set BoundProjectionItem.pred_set BoundTableWithJoins.pred_set)
next
  case 7
  then show ?case by (auto simp: BoundTableWithJoins.pred_set)
next
  case 9
  then show ?case by (auto simp: BoundExprKind.pred_set)
qed auto

end
