(* ===== verification/QF_Binder.thy ===== *)
theory QF_Binder
  imports QF_Catalog QF_Bound
begin

text \<open>
  The binder's state and its primitive actions: the data of
  \<^verbatim>\<open>crates/queryfabric-catalog/src/bind/mod.rs\<close>, the diagnostics of \<^verbatim>\<open>bind/helpers.rs\<close> and the
  parameters of \<^verbatim>\<open>bind/params.rs\<close>. Methods that take \<^verbatim>\<open>&mut self\<close> are actions of the state monad over
  \<open>Binder\<close>; the catalog and the supplied parameters, which they only read, are arguments.
\<close>

section \<open>State\<close>

datatype NullableConstraint = Unknown | Nullable | NonNull

fun NullableConstraint_merge :: "NullableConstraint \<Rightarrow> NullableConstraint \<Rightarrow> NullableConstraint" where
  "NullableConstraint_merge NonNull _ = NonNull"
| "NullableConstraint_merge _ NonNull = NonNull"
| "NullableConstraint_merge Nullable Nullable = Nullable"
| "NullableConstraint_merge Nullable NullableConstraint.Unknown = Nullable"
| "NullableConstraint_merge NullableConstraint.Unknown Nullable = Nullable"
| "NullableConstraint_merge _ _ = NullableConstraint.Unknown"

record ParameterConstraint =
  pc_data_type :: "DataType option"
  pc_nullable :: NullableConstraint
  pc_span :: "QuerySourceSpan option"
  pc_node_id :: "string option"

record ExpectedType =
  xt_data_type :: "DataType option"
  xt_nullable :: NullableConstraint

definition ExpectedType_default :: ExpectedType where
  "ExpectedType_default = \<lparr>xt_data_type = None, xt_nullable = NullableConstraint.Unknown\<rparr>"

definition expect :: "DataType \<Rightarrow> NullableConstraint \<Rightarrow> ExpectedType" where
  "expect data_type nullable = \<lparr>xt_data_type = Some data_type, xt_nullable = nullable\<rparr>"

text \<open>\<^verbatim>\<open>(!ty.is_unknown()).then_some(&ty)\<close>, not null.\<close>

definition expect_known :: "DataType \<Rightarrow> ExpectedType" where
  "expect_known data_type =
     \<lparr>xt_data_type = (if is_unknown data_type then None else Some data_type), xt_nullable = NonNull\<rparr>"

record Binder =
  b_diagnostics :: "QueryDiagnostic list"
  b_parameter_constraints :: "(ParameterRef, ParameterConstraint) btree_map"
  b_next_auto_position :: u32

type_synonym 'a action = "(Binder, 'a) state"

definition next_auto_position_seed :: "QueryParameters \<Rightarrow> u32" where
  "next_auto_position_seed parameters =
     (let m = (case reduce max (bt_keys (qp_positional parameters)) of Some n \<Rightarrow> n | None \<Rightarrow> 0)
      in if m = - 1 then - 1 else m + 1)"

definition Binder_new :: "QueryParameters \<Rightarrow> Binder" where
  "Binder_new parameters =
     \<lparr>b_diagnostics = [], b_parameter_constraints = [],
      b_next_auto_position = next_auto_position_seed parameters\<rparr>"

section \<open>Diagnostics\<close>

definition locate_diagnostic :: "QueryDiagnostic \<Rightarrow> SyntaxNode \<Rightarrow> string option \<Rightarrow> QueryDiagnostic" where
  "locate_diagnostic d node remediation =
     (let d = with_node_id (sn_node_id node) d;
          d = (case sn_span node of Some span \<Rightarrow> with_span span d | None \<Rightarrow> d)
      in case remediation of Some r \<Rightarrow> with_remediation r d | None \<Rightarrow> d)"

definition push_diagnostic :: "QueryDiagnostic \<Rightarrow> unit action" where
  "push_diagnostic d = State_Monad.update (\<lambda>s. s\<lparr>b_diagnostics := b_diagnostics s @ [d]\<rparr>)"

definition push_error :: "string \<Rightarrow> string \<Rightarrow> SyntaxNode \<Rightarrow> string option \<Rightarrow> unit action" where
  "push_error code message node remediation =
     push_diagnostic (locate_diagnostic (QueryDiagnostic_error code message) node remediation)"

definition push_warning :: "string \<Rightarrow> string \<Rightarrow> SyntaxNode \<Rightarrow> string option \<Rightarrow> unit action" where
  "push_warning code message node remediation =
     push_diagnostic (locate_diagnostic (QueryDiagnostic_warning code message) node remediation)"

definition unsupported_expr ::
  "SyntaxNode \<Rightarrow> string \<Rightarrow> string \<Rightarrow> string option \<Rightarrow> BoundExpr action" where
  "unsupported_expr node code message remediation =
     do {
       push_error code message node remediation;
       State_Monad.return
         (BoundExpr (BoundExprKind.Unsupported (sn_node_id node)) DataType.Unknown True node)
     }"

definition bind_literal :: "SyntaxNode \<Rightarrow> LiteralValue \<Rightarrow> BoundExpr" where
  "bind_literal node value =
     (let (data_type, nullable) =
        (case value of
           LiteralValue.Null \<Rightarrow> (DataType.Unknown, True)
         | LiteralValue.Boolean _ \<Rightarrow> (DataType.Boolean, False)
         | LiteralValue.Int64 _ \<Rightarrow> (DataType.Int64, False)
         | LiteralValue.Float64 _ \<Rightarrow> (DataType.Float64, False)
         | LiteralValue.Utf8 _ \<Rightarrow> (DataType.Utf8, False))
      in BoundExpr (BoundExprKind.Literal value) data_type nullable node)"

definition expression_name :: "SyntaxExpr \<Rightarrow> string" where
  "expression_name e =
     (case se_kind e of
        SyntaxExprKind.Column _ name \<Rightarrow> name
      | SyntaxExprKind.Function function \<Rightarrow> FunctionRef_display_name (sf_function function)
      | SyntaxExprKind.Parameter reference \<Rightarrow> ParameterRef_display reference
      | _ \<Rightarrow> sn_node_id (se_node e))"

fun render_data_type :: "DataType \<Rightarrow> string" where
  "render_data_type DataType.Boolean = ''BOOLEAN''"
| "render_data_type DataType.Int32 = ''INT32''"
| "render_data_type DataType.Int64 = ''INT64''"
| "render_data_type DataType.Float64 = ''FLOAT64''"
| "render_data_type DataType.Utf8 = ''UTF8''"
| "render_data_type DataType.Uuid = ''UUID''"
| "render_data_type DataType.Json = ''JSON''"
| "render_data_type DataType.Date = ''DATE''"
| "render_data_type (DataType.Decimal p sc) =
     ''DECIMAL('' @ nat_to_string (unat p) @ '','' @ int_to_string (sint sc) @ '')''"
| "render_data_type (DataType.Timestamp zone) =
     (case zone of Some tz \<Rightarrow> ''TIMESTAMP('' @ tz @ '')'' | None \<Rightarrow> ''TIMESTAMP'')"
| "render_data_type (DataType.List inner) = ''LIST<'' @ render_data_type inner @ ''>''"
| "render_data_type (DataType.Struct _) = ''STRUCT''"
| "render_data_type DataType.Unknown = ''UNKNOWN''"

section \<open>Parameters\<close>

definition allocate_parameter :: "ParameterRef \<Rightarrow> ParameterRef action" where
  "allocate_parameter reference =
     (if reference = Positional 0
      then do {
        s \<leftarrow> State_Monad.get;
        State_Monad.update (\<lambda>s. s\<lparr>b_next_auto_position := b_next_auto_position s + 1\<rparr>);
        State_Monad.return (Positional (b_next_auto_position s))
      }
      else State_Monad.return reference)"

definition new_constraint :: "SyntaxNode \<Rightarrow> ParameterConstraint" where
  "new_constraint node =
     \<lparr>pc_data_type = None, pc_nullable = NullableConstraint.Unknown, pc_span = sn_span node,
      pc_node_id = Some (sn_node_id node)\<rparr>"

definition refine_constraint :: "ExpectedType \<Rightarrow> ParameterConstraint \<Rightarrow> ParameterConstraint" where
  "refine_constraint expected entry =
     (let entry = entry\<lparr>pc_nullable := NullableConstraint_merge (pc_nullable entry) (xt_nullable expected)\<rparr>
      in case xt_data_type expected of
           Some data_type \<Rightarrow>
             if is_unknown data_type then entry
             else entry\<lparr>pc_data_type := Some
                    (case pc_data_type entry of
                       Some existing \<Rightarrow>
                         (case common_type existing data_type of Some t \<Rightarrow> t | None \<Rightarrow> DataType.Unknown)
                     | None \<Rightarrow> data_type)\<rparr>
         | None \<Rightarrow> entry)"

definition record_parameter_use :: "ParameterRef \<Rightarrow> ExpectedType \<Rightarrow> SyntaxNode \<Rightarrow> unit action" where
  "record_parameter_use reference expected node =
     State_Monad.update (\<lambda>s. s\<lparr>b_parameter_constraints :=
       (let entry = (case bt_get (b_parameter_constraints s) reference of
                       Some entry \<Rightarrow> entry | None \<Rightarrow> new_constraint node)
        in bt_insert reference (refine_constraint expected entry) (b_parameter_constraints s))\<rparr>)"

fun parameter_value_matches :: "ParameterValue \<Rightarrow> DataType \<Rightarrow> bool \<Rightarrow> bool" where
  "parameter_value_matches ParameterValue.Null data_type nullable = nullable"
| "parameter_value_matches (ParameterValue.Boolean _) data_type nullable \<longleftrightarrow> data_type = DataType.Boolean"
| "parameter_value_matches (ParameterValue.Int64 _) data_type nullable \<longleftrightarrow>
     data_type = DataType.Int32 \<or> data_type = DataType.Int64"
| "parameter_value_matches (ParameterValue.Float64 _) data_type nullable \<longleftrightarrow>
     (case data_type of DataType.Float64 \<Rightarrow> True | DataType.Decimal _ _ \<Rightarrow> True | _ \<Rightarrow> False)"
| "parameter_value_matches (ParameterValue.Utf8 _) data_type nullable \<longleftrightarrow> data_type = DataType.Utf8"
| "parameter_value_matches (ParameterValue.Uuid _) data_type nullable \<longleftrightarrow> data_type = DataType.Uuid"
| "parameter_value_matches (ParameterValue.Json _) data_type nullable \<longleftrightarrow> data_type = DataType.Json"
| "parameter_value_matches (ParameterValue.List values) data_type nullable \<longleftrightarrow>
     (case data_type of
        DataType.List inner \<Rightarrow> list_all (\<lambda>value. parameter_value_matches value inner nullable) values
      | _ \<Rightarrow> False)"

definition parameter_value_matches_schema :: "ParameterValue \<Rightarrow> ParameterSchema \<Rightarrow> bool" where
  "parameter_value_matches_schema value schema =
     parameter_value_matches value (ps_data_type schema) (ps_nullable schema)"

definition constraint_node :: "ParameterRef \<Rightarrow> ParameterConstraint \<Rightarrow> SyntaxNode" where
  "constraint_node reference constraint =
     SyntaxNode (pc_span constraint)
       (case pc_node_id constraint of Some i \<Rightarrow> i | None \<Rightarrow> ''param:'' @ ParameterRef_display reference)"

definition quoted_parameter :: "ParameterRef \<Rightarrow> string" where
  "quoted_parameter reference = ''Parameter `'' @ ParameterRef_display reference @ ''`''"

text \<open>The inferred type, or an error and \<^verbatim>\<open>None\<close> for \<^verbatim>\<open>has_error\<close>; likewise for the nullability.\<close>

definition finalize_data_type ::
  "ParameterRef \<Rightarrow> ParameterConstraint \<Rightarrow> DataType option action" where
  "finalize_data_type reference constraint =
     (case pc_data_type constraint of
        Some data_type \<Rightarrow>
          if is_unknown data_type
          then do {
            push_error ''QF0018'' (quoted_parameter reference @ '' has unresolved type.'')
              (constraint_node reference constraint)
              (Some ''Cast the parameter or use it in a typed comparison.'');
            State_Monad.return None
          }
          else State_Monad.return (Some data_type)
      | None \<Rightarrow> do {
          push_error ''QF0018'' (quoted_parameter reference @ '' has unresolved type.'')
            (constraint_node reference constraint)
            (Some ''Cast the parameter or use it in a typed comparison.'');
          State_Monad.return None
        })"

definition finalize_nullable :: "ParameterRef \<Rightarrow> ParameterConstraint \<Rightarrow> bool option action" where
  "finalize_nullable reference constraint =
     (case pc_nullable constraint of
        Nullable \<Rightarrow> State_Monad.return (Some True)
      | NonNull \<Rightarrow> State_Monad.return (Some False)
      | NullableConstraint.Unknown \<Rightarrow> do {
          push_error ''QF0019'' (quoted_parameter reference @ '' has unresolved nullability.'')
            (constraint_node reference constraint)
            (Some ''Use the parameter in a context that constrains nullability.'');
          State_Monad.return None
        })"

definition check_parameter_value ::
  "SyntaxNode \<Rightarrow> ParameterSchema \<Rightarrow> ParameterValue option \<Rightarrow> ParameterBinding option action" where
  "check_parameter_value node schema value =
     (case value of
        None \<Rightarrow> State_Monad.return (Some \<lparr>pb_schema = schema, pb_value = None\<rparr>)
      | Some v \<Rightarrow>
          if \<not> parameter_value_matches_schema v schema
          then do {
            push_error ''QF0020''
              (quoted_parameter (ps_reference schema) @ '' value is incompatible with inferred type `'' @
                 render_data_type (ps_data_type schema) @ ''`.'')
              node (Some ''Supply a value that matches the inferred parameter schema.'');
            State_Monad.return None
          }
          else if v = ParameterValue.Null \<and> \<not> ps_nullable schema
          then do {
            push_error ''QF0021'' (quoted_parameter (ps_reference schema) @ '' cannot be NULL in this query.'')
              node (Some ''Supply a non-null parameter value or rewrite the query to allow NULL.'');
            State_Monad.return None
          }
          else State_Monad.return (Some \<lparr>pb_schema = schema, pb_value = Some v\<rparr>))"

definition finalize_parameter ::
  "QueryParameters \<Rightarrow> ParameterRef \<times> ParameterConstraint \<Rightarrow> ParameterBinding option action" where
  "finalize_parameter parameters = (\<lambda>(reference, constraint).
     do {
       data_type \<leftarrow> finalize_data_type reference constraint;
       nullable \<leftarrow> finalize_nullable reference constraint;
       case (data_type, nullable) of
         (Some dt, Some nl) \<Rightarrow>
           check_parameter_value (constraint_node reference constraint)
             \<lparr>ps_reference = reference, ps_data_type = dt, ps_nullable = nl,
              ps_metadata = FieldMetadata_default\<rparr>
             (QueryParameters_lookup parameters reference)
       | _ \<Rightarrow> State_Monad.return None
     })"

definition first_error_message :: "QueryDiagnostic list \<Rightarrow> string \<Rightarrow> string" where
  "first_error_message diagnostics fallback =
     (case List.find is_error diagnostics of Some d \<Rightarrow> qd_message d | None \<Rightarrow> fallback)"

definition finalize_parameters :: "QueryParameters \<Rightarrow> ParameterBinding list result action" where
  "finalize_parameters parameters =
     do {
       s \<leftarrow> State_Monad.get;
       bindings \<leftarrow> traverse_list (finalize_parameter parameters) (b_parameter_constraints s);
       t \<leftarrow> State_Monad.get;
       State_Monad.return
         (if list_ex is_error (b_diagnostics t)
          then Inl (QueryFabricError_bind
                 (first_error_message (b_diagnostics t) ''parameter binding failed'')
                 None (b_diagnostics t) None)
          else Inr (sort_key (ps_reference \<circ> pb_schema) (List.map_filter id bindings)))
     }"


section \<open>Nullability constraints form a semilattice\<close>

interpretation nullable_merge: semilattice_merge NullableConstraint_merge
proof unfold_locales
  fix a b c
  show "NullableConstraint_merge (NullableConstraint_merge a b) c = NullableConstraint_merge a (NullableConstraint_merge b c)"
    by (cases a; cases b; cases c) simp_all
  show "NullableConstraint_merge a b = NullableConstraint_merge b a" by (cases a; cases b) simp_all
  show "NullableConstraint_merge a a = a" by (cases a) simp_all
qed

lemma merge_NonNull [simp]: "NullableConstraint_merge n NonNull = NonNull"
  by (cases n) simp_all

lemma pc_nullable_refine [simp]:
  "pc_nullable (refine_constraint x c) = NullableConstraint_merge (pc_nullable c) (xt_nullable x)"
  by (simp add: refine_constraint_def Let_def split: option.split)

lemma pc_location_refine [simp]:
  "pc_span (refine_constraint x c) = pc_span c" "pc_node_id (refine_constraint x c) = pc_node_id c"
  by (simp_all add: refine_constraint_def Let_def split: option.split)

lemma pc_nullable_uses:
  "pc_nullable (foldl (\<lambda>c x. refine_constraint x c) c xs) =
     foldl NullableConstraint_merge (pc_nullable c) (map xt_nullable xs)"
  by (induction xs arbitrary: c) simp_all

text \<open>
  The nullability inferred for a parameter depends only on the set of contexts it is used in, not
  on their order or number.
\<close>

theorem parameter_nullability_order_independent:
  assumes "set xs = set ys"
  shows "pc_nullable (foldl (\<lambda>c x. refine_constraint x c) (new_constraint node) xs) =
    pc_nullable (foldl (\<lambda>c x. refine_constraint x c) (new_constraint node) ys)"
  unfolding pc_nullable_uses using assms by (intro nullable_merge.foldl_merge_set_eq) simp

theorem parameter_nullability_order_independent_witness:
  "pc_nullable (foldl (\<lambda>c x. refine_constraint x c) (new_constraint (SyntaxNode None ''p''))
     [ExpectedType_default, expect DataType.Int64 NonNull]) =
   pc_nullable (foldl (\<lambda>c x. refine_constraint x c) (new_constraint (SyntaxNode None ''p''))
     [expect DataType.Int64 NonNull, ExpectedType_default, expect DataType.Int64 NonNull])"
  by (rule parameter_nullability_order_independent) auto

text \<open>
  The inferred type does depend on the order: a conflict is recorded as \<^verbatim>\<open>Unknown\<close>, which the next use
  overwrites, so INT64, UTF8, INT64 is accepted as INT64 while INT64, INT64, UTF8 is rejected.
\<close>

theorem parameter_type_order_dependent:
  "pc_data_type (foldl (\<lambda>c x. refine_constraint x c) (new_constraint node)
     [expect DataType.Int64 NonNull, expect DataType.Utf8 NonNull, expect DataType.Int64 NonNull]) = Some DataType.Int64 \<and>
   pc_data_type (foldl (\<lambda>c x. refine_constraint x c) (new_constraint node)
     [expect DataType.Int64 NonNull, expect DataType.Int64 NonNull, expect DataType.Utf8 NonNull]) = Some DataType.Unknown"
  by (simp add: refine_constraint_def new_constraint_def expect_def is_unknown_def is_numeric_def
      common_type.simps Let_def)

section \<open>States only grow\<close>

definition has_error :: "Binder \<Rightarrow> bool" where
  "has_error s \<longleftrightarrow> list_ex is_error (b_diagnostics s)"

definition constraint_le :: "ParameterConstraint \<Rightarrow> ParameterConstraint \<Rightarrow> bool" where
  "constraint_le c d \<longleftrightarrow>
     NullableConstraint_merge (pc_nullable c) (pc_nullable d) = pc_nullable d \<and>
     pc_span d = pc_span c \<and> pc_node_id d = pc_node_id c"

definition binder_le :: "Binder \<Rightarrow> Binder \<Rightarrow> bool" where
  "binder_le s t \<longleftrightarrow>
     (\<exists>ds. b_diagnostics t = b_diagnostics s @ ds) \<and>
     (bt_wf (b_parameter_constraints s) \<longrightarrow> bt_wf (b_parameter_constraints t)) \<and>
     (\<forall>r c. bt_get (b_parameter_constraints s) r = Some c \<longrightarrow>
        (\<exists>d. bt_get (b_parameter_constraints t) r = Some d \<and> constraint_le c d))"

lemma constraint_le_refl [simp]: "constraint_le c c"
  by (simp add: constraint_le_def nullable_merge.idem)

lemma constraint_le_trans: "constraint_le c d \<Longrightarrow> constraint_le d e \<Longrightarrow> constraint_le c e"
  by (auto simp: constraint_le_def) (metis nullable_merge.assoc)

lemma constraint_le_refine [simp]: "constraint_le c (refine_constraint x c)"
  by (simp add: constraint_le_def nullable_merge.idem flip: nullable_merge.assoc)

lemma constraint_le_NonNull: "constraint_le c d \<Longrightarrow> pc_nullable c = NonNull \<Longrightarrow> pc_nullable d = NonNull"
  by (simp add: constraint_le_def)

interpretation binder_le: state_preorder binder_le
proof unfold_locales
  show "binder_le s s" for s by (auto simp: binder_le_def)
  show "binder_le s u" if "binder_le s t" "binder_le t u" for s t u
    using that unfolding binder_le_def by (auto, (meson constraint_le_trans)+)
qed

lemma post_push_diagnostic:
  "(\<And>s. Q () (s\<lparr>b_diagnostics := b_diagnostics s @ [d]\<rparr>)) \<Longrightarrow> post binder_le (push_diagnostic d) Q"
  unfolding push_diagnostic_def by (rule binder_le.post_update) (auto simp: binder_le_def)

lemma is_error_locate [simp]: "is_error (locate_diagnostic d node r) = is_error d"
  by (simp add: locate_diagnostic_def Let_def is_error_def with_node_id_def with_span_def
      with_remediation_def split: option.split)

lemma post_push_error: "post binder_le (push_error code msg node r) (\<lambda>_ s. has_error s)"
  unfolding push_error_def
  by (rule post_push_diagnostic) (simp add: has_error_def is_error_def QueryDiagnostic_error_def
      locate_diagnostic_def Let_def with_node_id_def with_span_def with_remediation_def split: option.split)

lemma post_push_warning: "post binder_le (push_warning code msg node r) (\<lambda>_ _. True)"
  unfolding push_warning_def by (rule post_push_diagnostic) simp

lemma stable_has_error [simp]: "stable binder_le has_error"
  by (auto simp: stable_def binder_le_def has_error_def)

lemma post_allocate_parameter: "post binder_le (allocate_parameter r) (\<lambda>_ _. True)"
  unfolding allocate_parameter_def post_def by (auto simp: State_Monad.update_def binder_le_def)

definition parameter_recorded :: "ParameterRef \<Rightarrow> bool \<Rightarrow> Binder \<Rightarrow> bool" where
  "parameter_recorded r nullable s \<longleftrightarrow>
     (\<exists>c. bt_get (b_parameter_constraints s) r = Some c \<and> (\<not> nullable \<longrightarrow> pc_nullable c = NonNull))"

lemma stable_parameter_recorded [simp]: "stable binder_le (parameter_recorded r nullable)"
  unfolding stable_def parameter_recorded_def binder_le_def using constraint_le_NonNull by blast

lemma post_record_parameter_use:
  "post binder_le (record_parameter_use r x node) (\<lambda>_ s. parameter_recorded r (xt_nullable x \<noteq> NonNull) s)"
  unfolding record_parameter_use_def
  by (rule binder_le.post_update)
    (auto simp: binder_le_def parameter_recorded_def bt_get_insert split: option.split)

section \<open>Finalised parameters\<close>

definition binding_ok :: "QueryParameters \<Rightarrow> ParameterRef \<times> ParameterConstraint \<Rightarrow> ParameterBinding \<Rightarrow> bool" where
  "binding_ok parameters rc b \<longleftrightarrow>
     ps_reference (pb_schema b) = fst rc \<and>
     pc_data_type (snd rc) = Some (ps_data_type (pb_schema b)) \<and>
     ps_data_type (pb_schema b) \<noteq> DataType.Unknown \<and>
     pc_nullable (snd rc) = (if ps_nullable (pb_schema b) then Nullable else NonNull) \<and>
     pb_value b = QueryParameters_lookup parameters (fst rc) \<and>
     (case pb_value b of Some v \<Rightarrow> parameter_value_matches_schema v (pb_schema b) | None \<Rightarrow> True)"

lemma post_error_return:
  "(\<And>s. has_error s \<Longrightarrow> Q x s) \<Longrightarrow>
     post binder_le (do { push_error code msg node r; State_Monad.return x }) Q"
  by (rule binder_le.post_bind[OF post_push_error]) (auto intro: binder_le.post_return)

lemma post_finalize_data_type:
  "post binder_le (finalize_data_type r c)
     (\<lambda>v s. has_error s \<or> (\<exists>t. v = Some t \<and> pc_data_type c = Some t \<and> t \<noteq> DataType.Unknown))"
  unfolding finalize_data_type_def
  by (auto simp: is_unknown_def intro!: post_error_return binder_le.post_return split: option.split)

lemma post_finalize_nullable:
  "post binder_le (finalize_nullable r c)
     (\<lambda>v s. has_error s \<or> (\<exists>n. v = Some n \<and> pc_nullable c = (if n then Nullable else NonNull)))"
  unfolding finalize_nullable_def
  by (auto intro!: post_error_return binder_le.post_return split: NullableConstraint.split)

lemma post_check_parameter_value:
  "post binder_le (check_parameter_value node schema value)
     (\<lambda>b s. has_error s \<or> (\<exists>x. b = Some x \<and> pb_schema x = schema \<and> pb_value x = value \<and>
        (case value of Some v \<Rightarrow> parameter_value_matches_schema v schema | None \<Rightarrow> True)))"
  unfolding check_parameter_value_def
  by (auto intro!: post_error_return binder_le.post_return split: option.split)

lemma stable_error_or [simp]: "stable binder_le (\<lambda>s. has_error s \<or> P)"
  using stable_has_error by (auto simp: stable_def)

lemma binding_okI:
  assumes "pb_schema x = \<lparr>ps_reference = r, ps_data_type = t, ps_nullable = n, ps_metadata = m\<rparr>"
    and "pb_value x = QueryParameters_lookup parameters r"
    and "case QueryParameters_lookup parameters r of
        Some v \<Rightarrow> parameter_value_matches_schema v
          \<lparr>ps_reference = r, ps_data_type = t, ps_nullable = n, ps_metadata = m\<rparr>
      | None \<Rightarrow> True"
    and "pc_data_type c = Some t" and "t \<noteq> DataType.Unknown"
    and "pc_nullable c = (if n then Nullable else NonNull)"
  shows "binding_ok parameters (r, c) x"
  using assms by (simp add: binding_ok_def split: option.splits)

lemma post_finalize_parameter:
  "post binder_le (finalize_parameter parameters rc)
     (\<lambda>b s. has_error s \<or> (\<exists>x. b = Some x \<and> binding_ok parameters rc x))"
proof -
  obtain r c where rc: "rc = (r, c)" by (cases rc)
  show ?thesis unfolding finalize_parameter_def rc prod.case
  proof (rule binder_le.post_bind[OF post_finalize_data_type stable_error_or],
      rule binder_le.post_bind[OF post_finalize_nullable stable_error_or])
    fix dt nl
    show "post binder_le
      (case dt of
         None \<Rightarrow> State_Monad.return None
       | Some dt \<Rightarrow>
           (case nl of
              None \<Rightarrow> State_Monad.return None
            | Some nl \<Rightarrow>
                check_parameter_value (constraint_node r c)
                  \<lparr>ps_reference = r, ps_data_type = dt, ps_nullable = nl, ps_metadata = FieldMetadata_default\<rparr>
                  (QueryParameters_lookup parameters r)))
      (\<lambda>b s. has_error s \<or> (\<exists>n. nl = Some n \<and> pc_nullable c = (if n then Nullable else NonNull)) \<longrightarrow>
         has_error s \<or> (\<exists>t. dt = Some t \<and> pc_data_type c = Some t \<and> t \<noteq> DataType.Unknown) \<longrightarrow>
         has_error s \<or> (\<exists>x. b = Some x \<and> binding_ok parameters (r, c) x))"
    proof (cases "dt = None \<or> nl = None")
      case True
      then show ?thesis by (auto intro!: binder_le.post_return split: option.split)
    next
      case False
      then obtain t n where dn: "dt = Some t" "nl = Some n" by auto
      have "post binder_le
          (check_parameter_value (constraint_node r c)
             \<lparr>ps_reference = r, ps_data_type = t, ps_nullable = n, ps_metadata = FieldMetadata_default\<rparr>
             (QueryParameters_lookup parameters r))
          (\<lambda>b s. has_error s \<or> (\<exists>x. b = Some x \<and> (pc_data_type c = Some t \<longrightarrow> t \<noteq> DataType.Unknown \<longrightarrow>
             pc_nullable c = (if n then Nullable else NonNull) \<longrightarrow> binding_ok parameters (r, c) x)))"
        by (rule post_weaken[OF post_check_parameter_value]) (blast intro: binding_okI)
      then show ?thesis unfolding dn prod.case option.case
        by (rule post_weaken) (simp only: option.inject, blast)
    qed
  qed
qed

lemma list_all2_binding_ok:
  assumes "list_all2 (\<lambda>rc b. \<exists>x. b = Some x \<and> binding_ok parameters rc x) rcs bs"
  shows "list_all2 (binding_ok parameters) rcs (List.map_filter id bs)"
  using assms by (induction rule: list_all2_induct) (auto simp: List.map_filter_simps)

lemma binding_ok_references:
  "list_all2 (binding_ok parameters) rcs bs \<Longrightarrow> map (ps_reference \<circ> pb_schema) bs = bt_keys rcs"
  by (induction rule: list_all2_induct) (auto simp: binding_ok_def)

lemma finalize_parameters_bindings:
  assumes wf: "bt_wf (b_parameter_constraints s)"
    and run: "run_state (finalize_parameters parameters) s = (Inr bs, t)"
  shows "list_all2 (binding_ok parameters) (b_parameter_constraints s) bs"
    and "map (ps_reference \<circ> pb_schema) bs = bt_keys (b_parameter_constraints s)"
    and "\<not> has_error t" and "binder_le s t"
proof -
  obtain bs' u where bu: "run_state (traverse_list (finalize_parameter parameters) (b_parameter_constraints s)) s = (bs', u)"
    by (cases "run_state (traverse_list (finalize_parameter parameters) (b_parameter_constraints s)) s")
  have "post binder_le (traverse_list (finalize_parameter parameters) (b_parameter_constraints s))
     (\<lambda>ys s'. list_all2 (\<lambda>rc b. has_error s' \<or> (\<exists>x. b = Some x \<and> binding_ok parameters rc x)) (b_parameter_constraints s) ys)"
    by (rule binder_le.post_traverse_list2[OF post_finalize_parameter stable_error_or])
  with bu have u: "binder_le s u"
      "list_all2 (\<lambda>rc b. has_error u \<or> (\<exists>x. b = Some x \<and> binding_ok parameters rc x)) (b_parameter_constraints s) bs'"
    by (auto simp: post_def dest: spec[of _ s])
  have t: "t = u" and ok: "\<not> has_error u" and bs: "bs = sort_key (ps_reference \<circ> pb_schema) (List.map_filter id bs')"
    using run bu by (auto simp: finalize_parameters_def has_error_def split: if_splits)
  have all: "list_all2 (binding_ok parameters) (b_parameter_constraints s) (List.map_filter id bs')"
    using u(2) ok by (intro list_all2_binding_ok) simp
  have keys: "map (ps_reference \<circ> pb_schema) (List.map_filter id bs') = bt_keys (b_parameter_constraints s)"
    by (rule binding_ok_references[OF all])
  have "sorted (bt_keys (b_parameter_constraints s))"
    using wf unfolding bt_wf_def by (metis strict_sorted_iff)
  then have "bs = List.map_filter id bs'" unfolding bs using keys by (simp add: sort_key_id_if_sorted)
  with all keys ok t u(1) show "list_all2 (binding_ok parameters) (b_parameter_constraints s) bs"
    "map (ps_reference \<circ> pb_schema) bs = bt_keys (b_parameter_constraints s)" "\<not> has_error t" "binder_le s t"
    by simp_all
qed

end
