(* ===== verification/QF_Scope.thy ===== *)
theory QF_Scope
  imports QF_Bound
begin

text \<open>
  Name resolution scopes: \<^verbatim>\<open>crates/queryfabric-catalog/src/bind/scope.rs\<close>. A scope is the list of the
  relations bound so far; a column reference resolves when exactly one column of the scope matches it,
  ignoring ASCII case.
\<close>

section \<open>The code\<close>

record ScopeEntry =
  en_binding_name :: string
  en_schema :: ResultSchema

record Scope =
  scope_entries :: "ScopeEntry list"

record ResolvedColumn =
  rc_relation :: "string option"
  rc_field :: ResultField

datatype ColumnResolution = Local ResolvedColumn | Missing | Ambiguous

definition Scope_default :: Scope where
  "Scope_default = \<lparr>scope_entries = []\<rparr>"

definition from_output_schema :: "ResultSchema \<Rightarrow> Scope" where
  "from_output_schema schema =
     \<lparr>scope_entries = [\<lparr>en_binding_name = ''__output__'', en_schema = schema\<rparr>]\<rparr>"

definition push_relation :: "BoundRelation \<Rightarrow> Scope \<Rightarrow> Scope" where
  "push_relation relation scope =
     (case BoundRelation_binding relation of
        Some binding \<Rightarrow>
          scope\<lparr>scope_entries := scope_entries scope @
            [\<lparr>en_binding_name = rb_binding_name binding, en_schema = rb_schema binding\<rparr>]\<rparr>
      | None \<Rightarrow> scope)"

definition merge_table :: "BoundTable \<Rightarrow> Scope \<Rightarrow> Scope" where
  "merge_table table scope =
     foldl (\<lambda>s join. push_relation (bj_relation join) s) (push_relation (btj_relation table) scope)
       (btj_joins table)"

definition make_schema_nullable :: "ResultSchema \<Rightarrow> ResultSchema" where
  "make_schema_nullable schema = schema\<lparr>rs_fields := map (set_rf_nullable True) (rs_fields schema)\<rparr>"

definition make_all_nullable :: "Scope \<Rightarrow> Scope" where
  "make_all_nullable scope =
     scope\<lparr>scope_entries :=
       map (\<lambda>entry. entry\<lparr>en_schema := make_schema_nullable (en_schema entry)\<rparr>) (scope_entries scope)\<rparr>"

definition expand_all :: "Scope \<Rightarrow> ResultField list" where
  "expand_all scope = concat (map (\<lambda>entry. rs_fields (en_schema entry)) (scope_entries scope))"

definition expand_qualified :: "Scope \<Rightarrow> string \<Rightarrow> ResultField list option" where
  "expand_qualified scope qualifier =
     map_option (\<lambda>entry. rs_fields (en_schema entry))
       (List.find (\<lambda>entry. eq_ignore_ascii_case (en_binding_name entry) qualifier) (scope_entries scope))"

definition has_relation :: "Scope \<Rightarrow> string \<Rightarrow> bool" where
  "has_relation scope qualifier \<longleftrightarrow>
     list_ex (\<lambda>entry. eq_ignore_ascii_case (en_binding_name entry) qualifier) (scope_entries scope)"

definition relation_column_names :: "Scope \<Rightarrow> string \<Rightarrow> string list option" where
  "relation_column_names scope qualifier = map_option (map rf_name) (expand_qualified scope qualifier)"

definition all_column_names :: "Scope \<Rightarrow> string list" where
  "all_column_names scope =
     concat (map (\<lambda>entry. map rf_name (rs_fields (en_schema entry))) (scope_entries scope))"

text \<open>The matches of one entry: nothing when a given qualifier does not name it.\<close>

definition entry_matches :: "string option \<Rightarrow> string \<Rightarrow> ScopeEntry \<Rightarrow> ResolvedColumn list" where
  "entry_matches relation name entry =
     (if case relation of Some r \<Rightarrow> \<not> eq_ignore_ascii_case (en_binding_name entry) r | None \<Rightarrow> False
      then []
      else map (\<lambda>field. \<lparr>rc_relation = Some (en_binding_name entry), rc_field = field\<rparr>)
             (filter (\<lambda>field. eq_ignore_ascii_case (rf_name field) name) (rs_fields (en_schema entry))))"

definition column_matches :: "Scope \<Rightarrow> string option \<Rightarrow> string \<Rightarrow> ResolvedColumn list" where
  "column_matches scope relation name = concat (map (entry_matches relation name) (scope_entries scope))"

definition resolve_column :: "Scope \<Rightarrow> string option \<Rightarrow> string \<Rightarrow> ColumnResolution" where
  "resolve_column scope relation name =
     (case column_matches scope relation name of
        [] \<Rightarrow> Missing
      | [column] \<Rightarrow> Local column
      | _ \<Rightarrow> Ambiguous)"

definition try_resolve_column :: "Scope \<Rightarrow> string option \<Rightarrow> string \<Rightarrow> ColumnResolution option" where
  "try_resolve_column scope relation name =
     (let resolution = resolve_column scope relation name
      in if resolution = Missing then None else Some resolution)"

definition scope_schema_for_table :: "BoundTable \<Rightarrow> ResultSchema" where
  "scope_schema_for_table table =
     ResultSchema_new
       ((case BoundRelation_binding (btj_relation table) of
           Some binding \<Rightarrow> rs_fields (rb_schema binding) | None \<Rightarrow> []) @
        concat (map (\<lambda>join. case BoundRelation_binding (bj_relation join) of
                   Some binding \<Rightarrow> rs_fields (rb_schema binding) | None \<Rightarrow> []) (btj_joins table)))"

section \<open>Resolution\<close>

text \<open>The columns of a scope that a reference may mean, by position.\<close>

definition column_candidates :: "Scope \<Rightarrow> string option \<Rightarrow> string \<Rightarrow> (nat \<times> nat) set" where
  "column_candidates scope relation name =
     {(i, j). i < length (scope_entries scope) \<and>
        j < length (rs_fields (en_schema (scope_entries scope ! i))) \<and>
        (\<forall>r. relation = Some r \<longrightarrow> eq_ignore_ascii_case (en_binding_name (scope_entries scope ! i)) r) \<and>
        eq_ignore_ascii_case (rf_name (rs_fields (en_schema (scope_entries scope ! i)) ! j)) name}"

lemma length_filter_card: "length (filter P xs) = card {j. j < length xs \<and> P (xs ! j)}"
  by (rule length_filter_conv_card)

lemma length_concat_map_card:
  assumes "\<And>x. x \<in> set xs \<Longrightarrow> length (f x) = card (C x) \<and> finite (C x)"
  shows "length (concat (map f xs)) = card (SIGMA i : {..<length xs}. C (xs ! i))"
proof -
  have "length (concat (map f xs)) = (\<Sum>i<length xs. length (f (xs ! i)))"
    by (simp add: length_concat sum_list_sum_nth atLeast0LessThan)
  also have "\<dots> = (\<Sum>i<length xs. card (C (xs ! i)))"
    using assms by (intro sum.cong) auto
  also have "\<dots> = card (SIGMA i : {..<length xs}. C (xs ! i))"
    using assms by (subst card_SigmaI) auto
  finally show ?thesis .
qed

lemma length_column_matches:
  "length (column_matches scope relation name) = card (column_candidates scope relation name)"
  "finite (column_candidates scope relation name)"
proof -
  define C where "C entry = {j. j < length (rs_fields (en_schema entry)) \<and>
      (\<forall>r. relation = Some r \<longrightarrow> eq_ignore_ascii_case (en_binding_name entry) r) \<and>
      eq_ignore_ascii_case (rf_name (rs_fields (en_schema entry) ! j)) name}" for entry :: ScopeEntry
  have "length (entry_matches relation name entry) = card (C entry) \<and> finite (C entry)" for entry
    by (auto simp: entry_matches_def C_def length_filter_card split: option.splits)
  then have card: "length (column_matches scope relation name) =
      card (SIGMA i : {..<length (scope_entries scope)}. C (scope_entries scope ! i))"
    unfolding column_matches_def by (intro length_concat_map_card) simp
  have sigma: "(SIGMA i : {..<length (scope_entries scope)}. C (scope_entries scope ! i)) =
      column_candidates scope relation name"
    by (auto simp: column_candidates_def C_def)
  show "length (column_matches scope relation name) = card (column_candidates scope relation name)"
    using card by (simp add: sigma)
  show "finite (column_candidates scope relation name)"
    unfolding sigma[symmetric] by (intro finite_SigmaI) (auto simp: C_def)
qed

lemma set_column_matches:
  "set (column_matches scope relation name) =
     (\<lambda>(i, j). \<lparr>rc_relation = Some (en_binding_name (scope_entries scope ! i)),
                rc_field = rs_fields (en_schema (scope_entries scope ! i)) ! j\<rparr>) `
       column_candidates scope relation name"
  by (fastforce simp: column_matches_def column_candidates_def entry_matches_def in_set_conv_nth
      split: option.splits if_splits)

text \<open>
  C18. A column reference resolves exactly when one column of the scope has the name, under the given
  qualifier if there is one; it is missing when none has and ambiguous when several have. The
  resolved column is the one in the scope, with its relation's binding name.
\<close>

theorem resolve_column_correct:
  "(resolve_column scope relation name = Missing \<longleftrightarrow> column_candidates scope relation name = {}) \<and>
   (resolve_column scope relation name = Ambiguous \<longleftrightarrow> 2 \<le> card (column_candidates scope relation name)) \<and>
   (\<forall>c. resolve_column scope relation name = Local c \<longleftrightarrow>
      (\<exists>i j. column_candidates scope relation name = {(i, j)} \<and>
         c = \<lparr>rc_relation = Some (en_binding_name (scope_entries scope ! i)),
              rc_field = rs_fields (en_schema (scope_entries scope ! i)) ! j\<rparr>))"
proof -
  note len = length_column_matches[of scope relation name] and set = set_column_matches[of scope relation name]
  consider (none) "column_matches scope relation name = []"
    | (one) c where "column_matches scope relation name = [c]"
    | (many) c d cs where "column_matches scope relation name = c # d # cs"
    by (metis list.exhaust)
  then show ?thesis
  proof cases
    case none
    with len show ?thesis by (simp add: resolve_column_def)
  next
    case (one c)
    with len obtain i j where ij: "column_candidates scope relation name = {(i, j)}"
      by (metis One_nat_def card_1_singletonE length_Cons list.size(3) prod.exhaust)
    with one set show ?thesis by (auto simp: resolve_column_def)
  next
    case (many c d cs)
    with len have "2 \<le> card (column_candidates scope relation name)" by simp
    then have "column_candidates scope relation name \<noteq> {}" "column_candidates scope relation name \<noteq> {(i, j)}" for i j
      by auto
    with many \<open>2 \<le> _\<close> show ?thesis by (auto simp: resolve_column_def)
  qed
qed

section \<open>Outer joins\<close>

definition nullable_resolution :: "ColumnResolution \<Rightarrow> ColumnResolution" where
  "nullable_resolution r =
     (case r of Local c \<Rightarrow> Local (c\<lparr>rc_field := set_rf_nullable True (rc_field c)\<rparr>) | _ \<Rightarrow> r)"

lemma rf_name_set_nullable [simp]: "rf_name (set_rf_nullable b f) = rf_name f"
  by (cases f) (simp add: set_rf_nullable_def)

lemma entry_matches_nullable:
  "entry_matches relation name (entry\<lparr>en_schema := make_schema_nullable (en_schema entry)\<rparr>) =
     map (\<lambda>c. c\<lparr>rc_field := set_rf_nullable True (rc_field c)\<rparr>) (entry_matches relation name entry)"
  by (simp add: entry_matches_def make_schema_nullable_def filter_map comp_def split: option.split)

lemma column_matches_nullable:
  "column_matches (make_all_nullable scope) relation name =
     map (\<lambda>c. c\<lparr>rc_field := set_rf_nullable True (rc_field c)\<rparr>) (column_matches scope relation name)"
  by (simp add: column_matches_def make_all_nullable_def map_concat comp_def entry_matches_nullable)

text \<open>
  Under the null-extended side of an outer join every reference resolves as before, to the same
  column with its nullability raised.
\<close>

theorem resolve_column_make_all_nullable:
  "resolve_column (make_all_nullable scope) relation name =
     nullable_resolution (resolve_column scope relation name)"
  by (simp add: resolve_column_def column_matches_nullable nullable_resolution_def split: list.split)

text \<open>
  Bringing another relation into scope never rebinds a reference: a column that resolved before
  still resolves to the same column or becomes ambiguous, and an ambiguous one stays ambiguous.
\<close>

theorem push_relation_never_rebinds:
  "(resolve_column scope r n = Local c \<longrightarrow>
      resolve_column (push_relation rel scope) r n \<in> {Local c, Ambiguous}) \<and>
   (resolve_column scope r n = Ambiguous \<longrightarrow> resolve_column (push_relation rel scope) r n = Ambiguous)"
proof -
  have "\<exists>ms. column_matches (push_relation rel scope) r n = column_matches scope r n @ ms"
    by (cases "BoundRelation_binding rel") (simp_all add: push_relation_def column_matches_def)
  then obtain ms where "column_matches (push_relation rel scope) r n = column_matches scope r n @ ms" ..
  then show ?thesis by (auto simp: resolve_column_def split: list.splits)
qed

definition example_scope :: Scope where
  "example_scope = from_output_schema (ResultSchema_new [ResultField_new ''id'' DataType.Uuid False])"

theorem push_relation_never_rebinds_witness:
  "\<exists>c. resolve_column example_scope None ''id'' = Local c \<and>
     resolve_column (push_relation (BoundRelation.Unsupported [] [] (SyntaxNode None [])) example_scope) None ''id''
       \<in> {Local c, Ambiguous}"
proof -
  obtain c where c: "resolve_column example_scope None ''id'' = Local c"
    by (simp add: example_scope_def from_output_schema_def resolve_column_def column_matches_def
        entry_matches_def ResultSchema_new_def ResultField_new_def)
  then show ?thesis using push_relation_never_rebinds[of example_scope None "''id''" c] by blast
qed

end
