(* ===== verification/QF_Suggest.thy ===== *)
theory QF_Suggest
  imports QF_Prelude
begin

text \<open>
  Identifier suggestions: \<^verbatim>\<open>crates/queryfabric-catalog/src/bind/suggest.rs\<close>. The two-row dynamic program
  \<open>levenshtein\<close> is proved to compute the least cost of an alignment of the two lower-cased names, and
  \<open>top_similar\<close> to return the best-ranked options within the threshold. Identifiers are ASCII, where
  \<^verbatim>\<open>char::to_lowercase\<close> is ASCII case folding and characters are bytes.
\<close>

section \<open>The code\<close>

text \<open>
  The inner loop writes \<open>curr[1..n]\<close> from left to right; the outer loop swaps the two buffers, so the
  stale row is overwritten in the next round.
\<close>

definition lev_cell :: "string \<Rightarrow> string \<Rightarrow> nat \<Rightarrow> nat list \<Rightarrow> nat list \<Rightarrow> nat \<Rightarrow> nat list" where
  "lev_cell a b i prev cur j =
     cur[j := min (min (prev ! j + 1) (cur ! (j - 1) + 1))
                  (prev ! (j - 1) + of_bool (a ! (i - 1) \<noteq> b ! (j - 1)))]"

definition lev_inner :: "string \<Rightarrow> string \<Rightarrow> nat \<Rightarrow> nat list \<Rightarrow> nat list \<Rightarrow> nat list" where
  "lev_inner a b i prev cur = foldl (lev_cell a b i prev) (cur[0 := i]) [1..<length b + 1]"

definition lev_outer :: "string \<Rightarrow> string \<Rightarrow> nat list \<times> nat list" where
  "lev_outer a b =
     foldl (\<lambda>(prev, cur) i. (lev_inner a b i prev cur, prev))
       ([0..<length b + 1], replicate (length b + 1) 0) [1..<length a + 1]"

definition levenshtein :: "string \<Rightarrow> string \<Rightarrow> nat" where
  "levenshtein s t =
     (let a = to_ascii_lowercase s; b = to_ascii_lowercase t; m = length a; n = length b
      in if m = 0 then n else if n = 0 then m else fst (lev_outer a b) ! n)"

definition top_similar :: "string \<Rightarrow> string list \<Rightarrow> nat \<Rightarrow> string list" where
  "top_similar query options max' =
     (let threshold = max (length query div 3) 2;
          scored = filter (\<lambda>(distance, _). distance \<le> threshold)
                     (map (\<lambda>option. (levenshtein query option, option)) options)
      in map snd (take max' (sort_key (\<lambda>(distance, option). (distance, length option)) scored)))"

section \<open>Edit distance\<close>

text \<open>The textbook recursion, and alignments: scripts of kept, replaced, inserted and deleted letters.\<close>

fun edit_distance :: "'a list \<Rightarrow> 'a list \<Rightarrow> nat" where
  "edit_distance [] ys = length ys"
| "edit_distance (x # xs) [] = length (x # xs)"
| "edit_distance (x # xs) (y # ys) =
     min (min (edit_distance xs (y # ys) + 1) (edit_distance (x # xs) ys + 1))
         (edit_distance xs ys + of_bool (x \<noteq> y))"

inductive align :: "'a list \<Rightarrow> 'a list \<Rightarrow> nat \<Rightarrow> bool" where
  stop: "align [] [] 0"
| keep: "align xs ys k \<Longrightarrow> align (x # xs) (x # ys) k"
| replace: "align xs ys k \<Longrightarrow> x \<noteq> y \<Longrightarrow> align (x # xs) (y # ys) (k + 1)"
| delete: "align xs ys k \<Longrightarrow> align (x # xs) ys (k + 1)"
| insert: "align xs ys k \<Longrightarrow> align xs (y # ys) (k + 1)"

lemma align_insert_all: "align [] ys (length ys)"
  by (induction ys) (use align.stop align.insert in fastforce)+

lemma align_delete_all: "align xs [] (length xs)"
  by (induction xs) (use align.stop align.delete in fastforce)+

lemma align_edit_distance: "align xs ys (edit_distance xs ys)"
proof (induction xs ys rule: edit_distance.induct)
  case (1 ys)
  show ?case using align_insert_all[of ys] by simp
next
  case (2 x xs)
  show ?case using align_delete_all[of "x # xs"] by simp
next
  case (3 x xs y ys)
  have d: "align (x # xs) (y # ys) (edit_distance xs (y # ys) + 1)" by (rule align.delete) (rule 3)
  have i: "align (x # xs) (y # ys) (edit_distance (x # xs) ys + 1)" by (rule align.insert) (rule 3)
  have r: "align (x # xs) (y # ys) (edit_distance xs ys + of_bool (x \<noteq> y))"
    using align.keep[OF 3(3)] align.replace[OF 3(3)] by (cases "x = y") auto
  show ?case using d i r by (simp add: min_def)
qed

lemma edit_distance_Nil [simp]: "edit_distance xs [] = length xs"
  by (cases xs) auto

lemma edit_distance_delete: "edit_distance (x # xs) ys \<le> edit_distance xs ys + 1"
  by (cases ys) auto

lemma edit_distance_insert: "edit_distance xs (y # ys) \<le> edit_distance xs ys + 1"
  by (cases xs) auto

lemma edit_distance_step: "edit_distance (x # xs) (y # ys) \<le> edit_distance xs ys + of_bool (x \<noteq> y)"
  by simp

lemma edit_distance_least: "align xs ys k \<Longrightarrow> edit_distance xs ys \<le> k"
proof (induction rule: align.induct)
  case (keep xs ys k x)
  then show ?case using edit_distance_step[of x xs x ys] by (simp del: edit_distance.simps)
next
  case (replace xs ys k x y)
  then show ?case using edit_distance_step[of x xs y ys] by (simp del: edit_distance.simps)
next
  case (delete xs ys k x)
  then show ?case using edit_distance_delete[of x xs ys] by simp
next
  case (insert xs ys k y)
  then show ?case using edit_distance_insert[of xs y ys] by simp
qed simp

lemma align_append: "align xs ys k \<Longrightarrow> align us vs l \<Longrightarrow> align (xs @ us) (ys @ vs) (k + l)"
proof (induction rule: align.induct)
  case (replace xs ys k x y)
  then show ?case using align.replace[of "xs @ us" "ys @ vs" "k + l" x y] by simp
next
  case (delete xs ys k x)
  then show ?case using align.delete[of "xs @ us" "ys @ vs" "k + l" x] by simp
next
  case (insert xs ys k y)
  then show ?case using align.insert[of "xs @ us" "ys @ vs" "k + l" y] by simp
qed (auto intro: align.keep)

lemma align_single:
  "align [x] [x] 0" "x \<noteq> y \<Longrightarrow> align [x] [y] 1" "align [x] [] 1" "align [] [y] 1"
  using align.keep[OF align.stop, of x] align.replace[OF align.stop, of x y]
    align.delete[OF align.stop, of x] align.insert[OF align.stop, of y] by simp_all

lemma align_rev: "align xs ys k \<Longrightarrow> align (rev xs) (rev ys) k"
proof (induction rule: align.induct)
  case (keep xs ys k x)
  then show ?case using align_append[OF keep.IH align_single(1)[of x]] by simp
next
  case (replace xs ys k x y)
  then show ?case using align_append[OF replace.IH align_single(2)[of x y]] by simp
next
  case (delete xs ys k x)
  then show ?case using align_append[OF delete.IH align_single(3)[of x]] by simp
next
  case (insert xs ys k y)
  then show ?case using align_append[OF insert.IH align_single(4)[of y]] by simp
qed (simp add: align.stop)

lemma edit_distance_rev: "edit_distance (rev xs) (rev ys) = edit_distance xs ys"
proof (rule antisym)
  show "edit_distance (rev xs) (rev ys) \<le> edit_distance xs ys"
    by (intro edit_distance_least align_rev align_edit_distance)
  show "edit_distance xs ys \<le> edit_distance (rev xs) (rev ys)"
    using edit_distance_least[OF align_rev[OF align_edit_distance[of "rev xs" "rev ys"]]] by simp
qed

section \<open>The dynamic program computes it\<close>

text \<open>Entry \<open>j\<close> of row \<open>i\<close> is the distance of the prefixes of length \<open>i\<close> and \<open>j\<close>.\<close>

definition prefix_distance :: "string \<Rightarrow> string \<Rightarrow> nat \<Rightarrow> nat \<Rightarrow> nat" where
  "prefix_distance a b i j = edit_distance (rev (take i a)) (rev (take j b))"

definition is_row :: "string \<Rightarrow> string \<Rightarrow> nat \<Rightarrow> nat list \<Rightarrow> bool" where
  "is_row a b i row \<longleftrightarrow> length row = length b + 1 \<and> (\<forall>j \<le> length b. row ! j = prefix_distance a b i j)"

lemma rev_take_Suc: "i < length a \<Longrightarrow> rev (take (Suc i) a) = a ! i # rev (take i a)"
  by (simp add: take_Suc_conv_app_nth)

lemma prefix_distance_simps:
  "j \<le> length b \<Longrightarrow> prefix_distance a b 0 j = j"
  "i \<le> length a \<Longrightarrow> prefix_distance a b i 0 = i"
  "i < length a \<Longrightarrow> j < length b \<Longrightarrow> prefix_distance a b (Suc i) (Suc j) =
     min (min (prefix_distance a b i (Suc j) + 1) (prefix_distance a b (Suc i) j + 1))
         (prefix_distance a b i j + of_bool (a ! i \<noteq> b ! j))"
  by (auto simp: prefix_distance_def rev_take_Suc)

lemma lev_inner_row:
  assumes "i < length a" and "is_row a b i prev" and "length cur = length b + 1"
  shows "is_row a b (Suc i) (lev_inner a b (Suc i) prev cur)"
proof -
  define R where "R n = foldl (lev_cell a b (Suc i) prev) (cur[0 := Suc i]) [1..<n + 1]" for n
  have R_Suc: "R (Suc n) = lev_cell a b (Suc i) prev (R n) (Suc n)" for n by (simp add: R_def)
  have "length (R n) = length b + 1 \<and> (\<forall>j \<le> n. R n ! j = prefix_distance a b (Suc i) j)"
    if "n \<le> length b" for n
    using that
  proof (induction n)
    case 0
    then show ?case using assms by (simp add: R_def prefix_distance_simps)
  next
    case (Suc n)
    then have IH: "length (R n) = length b + 1" "\<And>j. j \<le> n \<Longrightarrow> R n ! j = prefix_distance a b (Suc i) j"
      by simp_all
    have "prev ! Suc n = prefix_distance a b i (Suc n)" "prev ! n = prefix_distance a b i n"
      using assms(2) Suc.prems by (auto simp: is_row_def)
    then have "R (Suc n) = (R n)[Suc n := prefix_distance a b (Suc i) (Suc n)]"
      using Suc.prems assms(1) IH(2)[of n] by (simp add: R_Suc lev_cell_def prefix_distance_simps)
    with IH Suc.prems show ?case by (simp add: nth_list_update le_Suc_eq)
  qed
  from this[of "length b"] show ?thesis by (simp add: is_row_def lev_inner_def R_def)
qed

lemma lev_outer_rows:
  assumes "m \<le> length a"
  shows "let (prev, cur) = foldl (\<lambda>(prev, cur) i. (lev_inner a b i prev cur, prev))
           ([0..<length b + 1], replicate (length b + 1) 0) [1..<m + 1]
         in is_row a b m prev \<and> length cur = length b + 1"
  using assms
proof (induction m)
  case 0
  then show ?case by (simp add: is_row_def prefix_distance_simps nth_append del: upt_Suc)
next
  case (Suc m)
  then show ?case using lev_inner_row[of m a b] by (auto simp: is_row_def split: prod.splits)
qed

lemma levenshtein_edit_distance:
  "levenshtein s t = edit_distance (to_ascii_lowercase s) (to_ascii_lowercase t)"
proof (cases "s = [] \<or> t = []")
  case True
  then show ?thesis by (auto simp: levenshtein_def Let_def to_ascii_lowercase_def)
next
  case False
  let ?a = "to_ascii_lowercase s" and ?b = "to_ascii_lowercase t"
  have "is_row ?a ?b (length ?a) (fst (lev_outer ?a ?b))"
    using lev_outer_rows[of "length ?a" ?a ?b] by (auto simp: lev_outer_def split: prod.splits)
  then have "fst (lev_outer ?a ?b) ! length ?b = edit_distance (rev ?a) (rev ?b)"
    by (simp add: is_row_def prefix_distance_def)
  with False show ?thesis by (simp add: levenshtein_def Let_def edit_distance_rev)
qed

text \<open>
  C17. The two-row dynamic program returns the least number of insertions, deletions and replacements
  that turn one name into the other, ignoring ASCII case.
\<close>

theorem levenshtein_is_least_alignment:
  "align (to_ascii_lowercase s) (to_ascii_lowercase t) (levenshtein s t) \<and>
   (\<forall>k. align (to_ascii_lowercase s) (to_ascii_lowercase t) k \<longrightarrow> levenshtein s t \<le> k)"
  by (auto simp: levenshtein_edit_distance align_edit_distance edit_distance_least)

lemma align_cell_cells: "align (to_ascii_lowercase ''Cell'') (to_ascii_lowercase ''cells'') 1"
proof -
  have "to_ascii_lowercase ''Cell'' = ''cell''" "to_ascii_lowercase ''cells'' = ''cells''" by code_simp+
  moreover have "align ''cell'' ''cells'' (0 + 1)"
    by (intro align.keep align.insert align.stop)
  ultimately show ?thesis by simp
qed

theorem levenshtein_is_least_alignment_witness:
  "align (to_ascii_lowercase ''Cell'') (to_ascii_lowercase ''cells'') 1 \<and> levenshtein ''Cell'' ''cells'' \<le> 1"
  using levenshtein_is_least_alignment[of "''Cell''" "''cells''"] align_cell_cells by blast

section \<open>Ranking\<close>

definition suggestion_rank :: "string \<Rightarrow> string \<Rightarrow> nat \<times> nat" where
  "suggestion_rank query option = (levenshtein query option, length option)"

definition suggestion_candidates :: "string \<Rightarrow> string list \<Rightarrow> string list" where
  "suggestion_candidates query options =
     filter (\<lambda>option. levenshtein query option \<le> max (length query div 3) 2) options"

lemma sort_key_map: "sort_key f (map g xs) = map g (sort_key (f \<circ> g) xs)"
proof -
  have ins: "insort_key f (g x) (map g ys) = map g (insort_key (f \<circ> g) x ys)" for x ys
    by (induction ys) auto
  show ?thesis by (induction xs) (simp_all add: ins comp_def)
qed

lemma top_similar_ranked:
  "top_similar query options n = take n (sort_key (suggestion_rank query) (suggestion_candidates query options))"
proof -
  have "filter (\<lambda>(distance, _). distance \<le> max (length query div 3) 2)
      (map (\<lambda>option. (levenshtein query option, option)) options) =
    map (\<lambda>option. (levenshtein query option, option)) (suggestion_candidates query options)"
    by (induction options) (auto simp: suggestion_candidates_def)
  moreover have "(\<lambda>(distance, option). (distance, length option)) \<circ> (\<lambda>option. (levenshtein query option, option)) =
      suggestion_rank query"
    by (auto simp: suggestion_rank_def)
  ultimately show ?thesis by (simp add: top_similar_def sort_key_map take_map comp_def)
qed

text \<open>
  Suggestions are at most \<open>n\<close> of the offered names, all within a third of the query's length (at
  least two edits), best first; a close enough name is left out only when \<open>n\<close> names that rank at
  least as well are returned.
\<close>

theorem top_similar_correct:
  "length (top_similar query options n) \<le> n \<and>
   (\<forall>x \<in> set (top_similar query options n).
      x \<in> set options \<and> levenshtein query x \<le> max (length query div 3) 2) \<and>
   sorted (map (suggestion_rank query) (top_similar query options n)) \<and>
   (\<forall>y \<in> set options. levenshtein query y \<le> max (length query div 3) 2 \<longrightarrow>
      y \<in> set (top_similar query options n) \<or>
      length (top_similar query options n) = n \<and>
      (\<forall>x \<in> set (top_similar query options n). suggestion_rank query x \<le> suggestion_rank query y))"
proof -
  define S where "S = sort_key (suggestion_rank query) (suggestion_candidates query options)"
  have top: "top_similar query options n = take n S" by (simp add: S_def top_similar_ranked)
  have S: "set S = set (suggestion_candidates query options)" "sorted (map (suggestion_rank query) S)"
    by (simp_all add: S_def)
  have "y \<in> set (take n S) \<or> length (take n S) = n \<and> (\<forall>x \<in> set (take n S). suggestion_rank query x \<le> suggestion_rank query y)"
    if "y \<in> set S" for y
  proof (cases "y \<in> set (take n S)")
    case False
    with that have y: "y \<in> set (drop n S)" by (metis Un_iff append_take_drop_id set_append)
    then have "n < length S" by (metis drop_all empty_iff list.set(1) not_le)
    moreover have "sorted (map (suggestion_rank query) (take n S @ drop n S))" using S(2) by simp
    ultimately show ?thesis using y by (auto simp: sorted_append simp del: append_take_drop_id)
  qed simp
  moreover have "x \<in> set options \<and> levenshtein query x \<le> max (length query div 3) 2" if "x \<in> set (take n S)" for x
    using in_set_takeD[OF that] S(1) by (auto simp: suggestion_candidates_def)
  moreover have "sorted (map (suggestion_rank query) (take n S))"
    using S(2) by (simp flip: take_map)
  ultimately show ?thesis unfolding top using S(1) by (simp add: suggestion_candidates_def)
qed

lemma length_top_similar_le: "length (top_similar query options n) \<le> length options"
  by (simp add: top_similar_ranked suggestion_candidates_def le_trans[OF min.cobounded1])

theorem top_similar_correct_witness: "''cells'' \<in> set (top_similar ''Cell'' [''cells'', ''score''] 3)"
proof -
  have "levenshtein ''Cell'' ''cells'' \<le> max (length ''Cell'' div 3) 2"
    using edit_distance_least[OF align_cell_cells] by (simp add: levenshtein_edit_distance)
  moreover have "length (top_similar ''Cell'' [''cells'', ''score''] 3) \<noteq> 3"
    using length_top_similar_le[of "''Cell''" "[''cells'', ''score'']" 3] by auto
  ultimately show ?thesis
    using top_similar_correct[of "''Cell''" "[''cells'', ''score'']" 3] by auto
qed

end
