(* ===== verification/QF_Bind.thy ===== *)
theory QF_Bind
  imports QF_Binder QF_Scope QF_Suggest
begin

text \<open>
  The catalog-aware binder: \<^verbatim>\<open>bind_query\<close> and the functions it is mutually recursive with, from
  \<^verbatim>\<open>crates/queryfabric-catalog/src/bind/query.rs\<close>, \<^verbatim>\<open>exprs.rs\<close> and \<^verbatim>\<open>functions.rs\<close>. It never fails: problems
  are recorded as diagnostics, and a node that cannot be bound becomes an \<^verbatim>\<open>Unsupported\<close> node.
\<close>

section \<open>Helpers that do not recurse\<close>

definition unwrap_common_type :: "DataType \<Rightarrow> DataType \<Rightarrow> DataType" where
  "unwrap_common_type left right =
     (case common_type left right of Some t \<Rightarrow> t | None \<Rightarrow> DataType.Unknown)"

definition reduce_types :: "DataType list \<Rightarrow> DataType" where
  "reduce_types ts = (case reduce unwrap_common_type ts of Some t \<Rightarrow> t | None \<Rightarrow> DataType.Unknown)"

definition suggest_columns :: "string \<Rightarrow> string list \<Rightarrow> string \<Rightarrow> string \<Rightarrow> string" where
  "suggest_columns name columns plain prefix' =
     (let suggestions = top_similar name columns 3
      in if suggestions = [] then plain
         else prefix' @ '' Did you mean: '' @ join_with '', '' suggestions @ ''?'')"

definition missing_column_remediation :: "Scope \<Rightarrow> string option \<Rightarrow> string \<Rightarrow> string option" where
  "missing_column_remediation scope relation name =
     (case relation of
        Some r \<Rightarrow>
          if \<not> has_relation scope r
          then Some (''Unknown relation alias `'' @ r @ ''`. Check the relation aliases in scope.'')
          else map_option (\<lambda>columns.
                 suggest_columns name columns
                   (''Check the relation alias `'' @ r @ ''` and its column names.'')
                   (''Check the column name on `'' @ r @ ''`.''))
                 (relation_column_names scope r)
      | None \<Rightarrow>
          Some (suggest_columns name (all_column_names scope)
            ''Check the relation aliases and column names in scope.''
            ''Check the relation aliases and column names in scope.''))"

definition bind_column ::
  "SyntaxNode \<Rightarrow> string option \<Rightarrow> string \<Rightarrow> Scope \<Rightarrow> Scope option \<Rightarrow> BoundExpr action" where
  "bind_column node relation name scope outer_scope =
     (case resolve_column scope relation name of
        Local column \<Rightarrow>
          State_Monad.return
            (BoundExpr (BoundExprKind.Column (BoundColumnRef (rc_relation column) name))
               (rf_data_type (rc_field column)) (rf_nullable (rc_field column)) node)
      | Ambiguous \<Rightarrow>
          unsupported_expr node ''QF0016'' (''Ambiguous column reference `'' @ name @ ''`.'')
            (Some ''Qualify the column with a relation alias.'')
      | Missing \<Rightarrow>
          if Option.bind outer_scope (\<lambda>outer. try_resolve_column outer relation name) \<noteq> None
          then unsupported_expr node ''QF0014''
                 ''Correlated subqueries are outside the verified portable subset.''
                 (Some ''Rewrite the subquery so it depends only on its local FROM scope.'')
          else unsupported_expr node ''QF0015'' (''Unknown column `'' @ name @ ''`.'')
                 (missing_column_remediation scope relation name))"

definition bind_parameter :: "SyntaxNode \<Rightarrow> ParameterRef \<Rightarrow> ExpectedType \<Rightarrow> BoundExpr action" where
  "bind_parameter node reference expected =
     do {
       reference \<leftarrow> allocate_parameter reference;
       record_parameter_use reference expected node;
       State_Monad.return
         (BoundExpr (BoundExprKind.Parameter reference)
            (case xt_data_type expected of Some t \<Rightarrow> t | None \<Rightarrow> DataType.Unknown)
            (xt_nullable expected \<noteq> NonNull) node)
     }"

definition is_parameter :: "SyntaxExpr \<Rightarrow> bool" where
  "is_parameter e \<longleftrightarrow> (case se_kind e of SyntaxExprKind.Parameter _ \<Rightarrow> True | _ \<Rightarrow> False)"

text \<open>The extra use that \<^verbatim>\<open>IS NULL\<close> records when its operand is a parameter.\<close>

definition note_null_test :: "SyntaxExpr \<Rightarrow> unit action" where
  "note_null_test inner =
     (case se_kind inner of
        SyntaxExprKind.Parameter reference \<Rightarrow>
          do {
            reference \<leftarrow> allocate_parameter reference;
            record_parameter_use reference \<lparr>xt_data_type = None, xt_nullable = Nullable\<rparr> (se_node inner)
          }
      | _ \<Rightarrow> State_Monad.return ())"

definition subquery_single_field ::
  "SyntaxNode \<Rightarrow> BoundQueryPlan \<Rightarrow> string \<Rightarrow> string \<Rightarrow> ResultField option action" where
  "subquery_single_field node subquery code context' =
     (case rs_fields (bp_result_schema subquery) of
        [field] \<Rightarrow> State_Monad.return (Some field)
      | fs \<Rightarrow>
          do {
            push_error code
              (context' @ '' must project exactly one column in the verified portable subset; found '' @
                 nat_to_string (length fs) @ ''.'')
              node (Some ''Rewrite the subquery to return exactly one projected column.'');
            State_Monad.return None
          })"

definition unify_field :: "ResultField \<Rightarrow> ResultField \<Rightarrow> ResultField" where
  "unify_field left right =
     ResultField (rf_name left) (unwrap_common_type (rf_data_type left) (rf_data_type right))
       (rf_nullable left \<or> rf_nullable right) (rf_metadata left)"

definition unify_union_schema ::
  "ResultSchema \<Rightarrow> ResultSchema \<Rightarrow> SyntaxNode \<Rightarrow> ResultSchema action" where
  "unify_union_schema left right node =
     (if length (rs_fields left) \<noteq> length (rs_fields right)
      then do {
        push_error ''QF0022''
          (''UNION ALL requires equal column counts but found '' @ nat_to_string (length (rs_fields left)) @
             '' and '' @ nat_to_string (length (rs_fields right)) @ ''.'')
          node None;
        State_Monad.return ResultSchema_default
      }
      else State_Monad.return
             (ResultSchema_new (map2 unify_field (rs_fields left) (rs_fields right))))"

definition make_binding_nullable :: "BoundRelationBinding \<Rightarrow> BoundRelationBinding" where
  "make_binding_nullable b = b\<lparr>rb_schema := make_schema_nullable (rb_schema b)\<rparr>"

fun make_relation_nullable :: "BoundRelation \<Rightarrow> BoundRelation" where
  "make_relation_nullable (BoundRelation.Table b node) = BoundRelation.Table (make_binding_nullable b) node"
| "make_relation_nullable (BoundRelation.Derived b q node) = BoundRelation.Derived (make_binding_nullable b) q node"
| "make_relation_nullable (BoundRelation.NestedJoin b t node) =
     BoundRelation.NestedJoin (make_binding_nullable b) t node"
| "make_relation_nullable (BoundRelation.Unsupported d n node) = BoundRelation.Unsupported d n node"

definition make_join_relations_nullable ::
  "(BoundExpr, BoundRelation) BoundJoin list \<Rightarrow> (BoundExpr, BoundRelation) BoundJoin list" where
  "make_join_relations_nullable joins =
     map (\<lambda>j. BoundJoin (bj_kind j) (make_relation_nullable (bj_relation j)) (bj_on j) (bj_node j)) joins"

text \<open>The local variables of the join loop, and one turn of it once relation and condition are bound.\<close>

record JoinState =
  js_relation :: BoundRelation
  js_scope :: Scope
  js_joins :: "(BoundExpr, BoundRelation) BoundJoin list"

definition apply_join ::
  "JoinKind \<Rightarrow> BoundRelation \<Rightarrow> BoundExpr option \<Rightarrow> SyntaxNode \<Rightarrow> JoinState \<Rightarrow> JoinState" where
  "apply_join kind joined_relation on node s =
     (let joined = (if kind = JoinKind.Left \<or> kind = JoinKind.Full
                    then make_relation_nullable joined_relation else joined_relation);
          s = (if kind = JoinKind.Right \<or> kind = JoinKind.Full
               then \<lparr>js_relation = make_relation_nullable (js_relation s),
                     js_scope = make_all_nullable (js_scope s),
                     js_joins = make_join_relations_nullable (js_joins s)\<rparr>
               else s)
      in s\<lparr>js_scope := push_relation joined (js_scope s),
           js_joins := js_joins s @ [BoundJoin kind joined on node]\<rparr>)"

type_synonym cte_bindings = "(string, BoundRelationBinding) btree_map"

definition cte_result_schema :: "string list \<Rightarrow> ResultSchema \<Rightarrow> ResultSchema" where
  "cte_result_schema columns schema =
     (if columns \<noteq> [] \<and> length columns = length (rs_fields schema)
      then schema\<lparr>rs_fields := map2 (\<lambda>field alias. set_rf_name alias field) (rs_fields schema) columns\<rparr>
      else schema)"

definition add_cte ::
  "SyntaxQuery SyntaxCte \<Rightarrow> BoundQueryPlan \<Rightarrow> cte_bindings \<times> BoundQueryPlan BoundCte list \<Rightarrow>
     cte_bindings \<times> BoundQueryPlan BoundCte list" where
  "add_cte cte plan acc =
     (let result_schema = cte_result_schema (sc_columns cte) (bp_result_schema plan)
      in (bt_insert (to_ascii_lowercase (sc_name cte))
            \<lparr>rb_binding_name = sc_name cte, rb_relation_name = Some (NameRef None (sc_name cte)),
             rb_schema = result_schema\<rparr> (fst acc),
          snd acc @ [BoundCte (sc_name cte) (sc_columns cte) plan result_schema (sc_node cte)]))"

definition push_recursive_error :: "bool \<Rightarrow> SyntaxNode \<Rightarrow> unit action" where
  "push_recursive_error with_recursive node =
     (if with_recursive
      then push_error ''QF0001'' ''WITH RECURSIVE is outside the verified QueryFabric portable subset.''
             node (Some ''Rewrite the query using a non-recursive CTE or a host-side expansion.'')
      else State_Monad.return ())"

fun push_clause_warning :: "BackendClause \<Rightarrow> unit action" where
  "push_clause_warning (ClickHouseSettings _ node) =
     push_warning ''QF0101'' ''ClickHouse SETTINGS are preserved only for backend-specific adapters.''
       node (Some ''Do not rely on SETTINGS for portable execution.'')"
| "push_clause_warning (ClickHouseFormat _ node) =
     push_warning ''QF0102'' ''ClickHouse FORMAT is preserved only for backend-specific adapters.''
       node (Some ''Prefer result consumers to choose the output format outside QueryFabric core.'')"

definition bind_table_name ::
  "Catalog \<Rightarrow> NameRef \<Rightarrow> string option \<Rightarrow> SyntaxNode \<Rightarrow> cte_bindings \<Rightarrow> BoundRelation action" where
  "bind_table_name catalog name alias node ctes =
     (case (if nr_namespace name = None then bt_get ctes (to_ascii_lowercase (nr_name name)) else None) of
        Some binding \<Rightarrow>
          State_Monad.return
            (BoundRelation.Table
              (case alias of Some a \<Rightarrow> binding\<lparr>rb_binding_name := a\<rparr> | None \<Rightarrow> binding) node)
      | None \<Rightarrow>
          (case cat_resolve_relation catalog (nr_namespace name) (nr_name name) of
             Some schema \<Rightarrow>
               State_Monad.return
                 (BoundRelation.Table
                   \<lparr>rb_binding_name = (case alias of Some a \<Rightarrow> a | None \<Rightarrow> nr_name name),
                    rb_relation_name = Some name, rb_schema = to_result_schema schema\<rparr> node)
           | None \<Rightarrow>
               do {
                 push_error ''QF0005'' (''Unknown relation `'' @ NameRef_display_name name @ ''`.'') node
                   (Some ''Register the relation in the catalog or qualify it with the correct namespace.'');
                 State_Monad.return
                   (BoundRelation.Unsupported (''unknown relation `'' @ NameRef_display_name name @ ''`'')
                     (case alias of Some a \<Rightarrow> a | None \<Rightarrow> nr_name name) node)
               }))"

definition derived_binding :: "string option \<Rightarrow> SyntaxNode \<Rightarrow> ResultSchema \<Rightarrow> BoundRelationBinding" where
  "derived_binding alias node schema =
     \<lparr>rb_binding_name =
        (case alias of Some a \<Rightarrow> a | None \<Rightarrow> replace_char CHR ''.'' CHR ''_'' (sn_node_id node)),
      rb_relation_name = None, rb_schema = schema\<rparr>"

definition bind_wildcard ::
  "string option \<Rightarrow> SyntaxNode \<Rightarrow> Scope \<Rightarrow> BoundExpr BoundProjectionItem action" where
  "bind_wildcard qualifier node scope =
     (case (case qualifier of Some q \<Rightarrow> expand_qualified scope q | None \<Rightarrow> Some (expand_all scope)) of
        Some fs \<Rightarrow> State_Monad.return (BoundProjectionItem.Wildcard qualifier fs node)
      | None \<Rightarrow>
          do {
            push_error ''QF0007''
              (''Unknown relation qualifier `'' @ (case qualifier of Some q \<Rightarrow> q | None \<Rightarrow> []) @
                 ''` in wildcard projection.'')
              node (Some ''Use an in-scope relation alias or remove the qualifier.'');
            State_Monad.return (BoundProjectionItem.Wildcard qualifier [] node)
          })"

definition projection_field :: "SyntaxExpr SyntaxProjectionExpr \<Rightarrow> BoundExpr \<Rightarrow> ResultField" where
  "projection_field details bound =
     ResultField (case sp_alias details of Some a \<Rightarrow> a | None \<Rightarrow> expression_name (sp_expr details))
       (bx_data_type bound) (bx_nullable bound) FieldMetadata_default"

fun item_fields :: "BoundExpr BoundProjectionItem \<Rightarrow> ResultField list" where
  "item_fields (BoundProjectionItem.Wildcard _ fs _) = fs"
| "item_fields (BoundProjectionItem.Expr details) = [bpe_field details]"
| "item_fields (BoundProjectionItem.Unsupported _ _) = []"

definition resolve_signature :: "Catalog \<Rightarrow> FunctionRef \<Rightarrow> FunctionSignature option" where
  "resolve_signature catalog function =
     (case cat_resolve_function catalog (fr_namespace function) (fr_name function) of
        Some s \<Rightarrow> Some s
      | None \<Rightarrow> builtin_function_signature (fr_namespace function) (fr_name function))"

definition argument_type :: "FunctionSignature \<Rightarrow> nat \<Rightarrow> DataType option" where
  "argument_type signature idx =
     (if idx < length (fs_arg_types signature) then Some (fs_arg_types signature ! idx)
      else if fs_variadic signature \<and> fs_arg_types signature \<noteq> [] then Some (last (fs_arg_types signature))
      else None)"

definition polymorphic_functions :: "string list" where
  "polymorphic_functions =
     [''coalesce'', ''greatest'', ''least'', ''min'', ''max'', ''lag'', ''lead'', ''first_value'', ''last_value'']"

definition infer_function_return_type :: "FunctionSignature \<Rightarrow> BoundExpr list \<Rightarrow> DataType" where
  "infer_function_return_type signature args =
     (if \<not> is_unknown (fs_return_type signature) then fs_return_type signature
      else if List.member polymorphic_functions (fs_name signature) then reduce_types (map bx_data_type args)
      else DataType.Unknown)"

definition infer_function_nullability :: "FunctionSignature \<Rightarrow> BoundExpr list \<Rightarrow> bool" where
  "infer_function_nullability signature args =
     (if fs_kind signature = Aggregate then fs_name signature \<noteq> ''count''
      else if fs_kind signature = Window \<and>
              List.member [''rank'', ''dense_rank'', ''row_number''] (fs_name signature) then False
      else if fs_kind signature = Window \<and> List.member [''lag'', ''lead''] (fs_name signature) then True
      else if fs_name signature = ''coalesce'' then list_all bx_nullable args
      else list_ex bx_nullable args)"

definition warn_backend_specific :: "FunctionSignature \<Rightarrow> FunctionRef \<Rightarrow> SyntaxNode \<Rightarrow> unit action" where
  "warn_backend_specific signature function node =
     (if metadata_flag signature ''approximate'' \<or> fr_namespace function \<noteq> None
      then push_warning ''QF0104''
             (''Function `'' @ FunctionRef_display_name function @
                ''` is backend-specific and outside the verified portable subset.'')
             node (Some ''Rely on adapter-specific capability checks before executing this query.'')
      else State_Monad.return ())"

definition is_logical :: "BinaryOperator \<Rightarrow> bool" where
  "is_logical op \<longleftrightarrow> (case op of And \<Rightarrow> True | Or \<Rightarrow> True | _ \<Rightarrow> False)"

definition is_arithmetic :: "BinaryOperator \<Rightarrow> bool" where
  "is_arithmetic op \<longleftrightarrow>
     (case op of Add \<Rightarrow> True | Subtract \<Rightarrow> True | Multiply \<Rightarrow> True | Divide \<Rightarrow> True | _ \<Rightarrow> False)"

definition tuple_type :: "BoundExpr list \<Rightarrow> DataType" where
  "tuple_type items =
     DataType.Struct (map (\<lambda>(idx, item). ResultField_new (''_'' @ nat_to_string idx) (bx_data_type item) (bx_nullable item))
       (enumerate 0 items))"

definition case_type :: "BoundExpr BoundWhenThen list \<Rightarrow> BoundExpr option \<Rightarrow> DataType" where
  "case_type when_then else_result =
     reduce_types (map (bx_data_type \<circ> bwt_result) when_then @
       (case else_result of Some e \<Rightarrow> [bx_data_type e] | None \<Rightarrow> []))"

definition case_nullable :: "BoundExpr BoundWhenThen list \<Rightarrow> BoundExpr option \<Rightarrow> bool" where
  "case_nullable when_then else_result \<longleftrightarrow>
     list_ex (bx_nullable \<circ> bwt_result) when_then \<or>
     (case else_result of Some e \<Rightarrow> bx_nullable e | None \<Rightarrow> True)"

section \<open>The mutually recursive binder\<close>

lemma size_enumerate_mem: "p \<in> set (enumerate n xs) \<Longrightarrow> size (snd p) \<le> size_list size xs"
  by (metis image_eqI list.set_map map_snd_enumerate size_list_mem_le)

lemma size_SyntaxProjectionExpr_sel: "size_SyntaxProjectionExpr size d = size (sp_expr d) + 1"
  by (cases d) simp

lemmas bind_size_dests =
  size_enumerate_mem size_list_mem_le[where f = size] size_list_mem_le[where f = "size_SyntaxOrderByExpr size"]
  size_list_mem_le[where f = "size_SyntaxProjectionItem size"]
  size_list_mem_le[where f = "size_SyntaxTableWithJoins size size"]
  size_cte_mem size_join_mem size_when_then_mem

function bind_query :: "Catalog \<Rightarrow> SyntaxQuery \<Rightarrow> Scope option \<Rightarrow> BoundQueryPlan action"
  and bind_set_expr :: "Catalog \<Rightarrow> SyntaxSetExpr \<Rightarrow> cte_bindings \<Rightarrow> Scope option \<Rightarrow> BoundSetExpr action"
  and bind_select :: "Catalog \<Rightarrow> (SyntaxExpr, SyntaxRelation) SyntaxSelect \<Rightarrow> cte_bindings \<Rightarrow> Scope option \<Rightarrow>
    (BoundExpr, BoundRelation) BoundSelect action"
  and bind_projection_item :: "Catalog \<Rightarrow> SyntaxExpr SyntaxProjectionItem \<Rightarrow> Scope \<Rightarrow> Scope option \<Rightarrow>
    BoundExpr BoundProjectionItem action"
  and bind_table_with_joins :: "Catalog \<Rightarrow> (SyntaxExpr, SyntaxRelation) SyntaxTableWithJoins \<Rightarrow> cte_bindings \<Rightarrow>
    Scope option \<Rightarrow> Scope \<Rightarrow> BoundTable action"
  and bind_relation :: "Catalog \<Rightarrow> SyntaxRelation \<Rightarrow> cte_bindings \<Rightarrow> Scope option \<Rightarrow> Scope \<Rightarrow> BoundRelation action"
  and bind_order_by_expr :: "Catalog \<Rightarrow> SyntaxExpr SyntaxOrderByExpr \<Rightarrow> Scope \<Rightarrow> Scope option \<Rightarrow>
    BoundExpr BoundOrderByExpr action"
  and bind_expr :: "Catalog \<Rightarrow> SyntaxExpr \<Rightarrow> Scope \<Rightarrow> Scope option \<Rightarrow> ExpectedType \<Rightarrow> BoundExpr action"
  and bind_binary_expr :: "Catalog \<Rightarrow> SyntaxNode \<Rightarrow> BinaryOperator \<Rightarrow> SyntaxExpr \<Rightarrow> SyntaxExpr \<Rightarrow> Scope \<Rightarrow>
    Scope option \<Rightarrow> BoundExpr action"
  and bind_function :: "Catalog \<Rightarrow> SyntaxNode \<Rightarrow> SyntaxExpr SyntaxFunctionCall \<Rightarrow> Scope \<Rightarrow> Scope option \<Rightarrow>
    BoundExpr action"
  and bind_case :: "Catalog \<Rightarrow> SyntaxNode \<Rightarrow> SyntaxExpr option \<Rightarrow> SyntaxExpr SyntaxWhenThen list \<Rightarrow>
    SyntaxExpr option \<Rightarrow> Scope \<Rightarrow> Scope option \<Rightarrow> BoundExpr action"
where
  "bind_query catalog (SyntaxQuery node ctes with_recursive body order_by limit offset clauses) outer_scope =
     do {
       push_recursive_error with_recursive node;
       bound \<leftarrow> fold_state (\<lambda>cte acc. do {
           plan \<leftarrow> bind_query catalog (sc_query cte) None;
           State_Monad.return (add_cte cte plan acc)
         }) ctes ([], []);
       body' \<leftarrow> bind_set_expr catalog body (fst bound) outer_scope;
       order_by' \<leftarrow> traverse_list (\<lambda>expr.
           bind_order_by_expr catalog expr (from_output_schema (BoundSetExpr_result_schema body')) None) order_by;
       limit' \<leftarrow> traverse_option (\<lambda>expr.
           bind_expr catalog expr (from_output_schema (BoundSetExpr_result_schema body')) None
             (expect DataType.Int64 NonNull)) limit;
       offset' \<leftarrow> traverse_option (\<lambda>expr.
           bind_expr catalog expr (from_output_schema (BoundSetExpr_result_schema body')) None
             (expect DataType.Int64 NonNull)) offset;
       traverse_list push_clause_warning clauses;
       State_Monad.return
         (BoundQueryPlan node (snd bound) body' order_by' limit' offset' clauses
            (BoundSetExpr_result_schema body'))
     }"
| "bind_set_expr catalog (SyntaxSetExpr.Select select) ctes outer_scope =
     do {
       select' \<leftarrow> bind_select catalog select ctes outer_scope;
       State_Monad.return (BoundSetExpr.Select select')
     }"
| "bind_set_expr catalog (SyntaxSetExpr.UnionAll left right node) ctes outer_scope =
     do {
       left' \<leftarrow> bind_set_expr catalog left ctes outer_scope;
       right' \<leftarrow> bind_set_expr catalog right ctes outer_scope;
       schema \<leftarrow> unify_union_schema (BoundSetExpr_result_schema left') (BoundSetExpr_result_schema right') node;
       State_Monad.return (BoundSetExpr.UnionAll left' right' node schema)
     }"
| "bind_set_expr catalog (SyntaxSetExpr.Unsupported description node) ctes outer_scope =
     do {
       push_error ''QF0002'' description node None;
       State_Monad.return (BoundSetExpr.Unsupported description node ResultSchema_default)
     }"
| "bind_select catalog (SyntaxSelect distinct' projection from selection group_by having node) ctes outer_scope =
     do {
       acc \<leftarrow> fold_state (\<lambda>table acc. do {
           table' \<leftarrow> bind_table_with_joins catalog table ctes outer_scope (fst acc);
           State_Monad.return (merge_table table' (fst acc), snd acc @ [table'])
         }) from (Scope_default, []);
       selection' \<leftarrow> traverse_option (\<lambda>expr.
           bind_expr catalog expr (fst acc) outer_scope (expect DataType.Boolean NonNull)) selection;
       group_by' \<leftarrow> traverse_list (\<lambda>expr.
           bind_expr catalog expr (fst acc) outer_scope ExpectedType_default) group_by;
       having' \<leftarrow> traverse_option (\<lambda>expr.
           bind_expr catalog expr (fst acc) outer_scope (expect DataType.Boolean NonNull)) having;
       projection' \<leftarrow> traverse_list (\<lambda>item. bind_projection_item catalog item (fst acc) outer_scope) projection;
       State_Monad.return
         (BoundSelect distinct' projection' (snd acc) selection' group_by' having'
            (ResultSchema_new (concat (map item_fields projection'))) node)
     }"
| "bind_projection_item catalog (SyntaxProjectionItem.Wildcard qualifier node) scope outer_scope =
     bind_wildcard qualifier node scope"
| "bind_projection_item catalog (SyntaxProjectionItem.Expr details) scope outer_scope =
     do {
       bound \<leftarrow> bind_expr catalog (sp_expr details) scope outer_scope ExpectedType_default;
       State_Monad.return
         (BoundProjectionItem_expr bound (sp_alias details) (projection_field details bound) (sp_node details))
     }"
| "bind_projection_item catalog (SyntaxProjectionItem.Unsupported description node) scope outer_scope =
     do {
       push_error ''QF0008'' description node None;
       State_Monad.return (BoundProjectionItem.Unsupported description node)
     }"
| "bind_table_with_joins catalog (SyntaxTableWithJoins relation joins node) ctes outer_scope current_scope =
     do {
       relation' \<leftarrow> bind_relation catalog relation ctes outer_scope current_scope;
       joined \<leftarrow> fold_state (\<lambda>join s. do {
           joined_relation \<leftarrow> bind_relation catalog (sj_relation join) ctes outer_scope (js_scope s);
           on \<leftarrow> traverse_option (\<lambda>expr.
               bind_expr catalog expr (push_relation joined_relation (js_scope s)) outer_scope
                 (expect DataType.Boolean NonNull)) (sj_on join);
           State_Monad.return (apply_join (sj_kind join) joined_relation on (sj_node join) s)
         }) joins \<lparr>js_relation = relation', js_scope = push_relation relation' current_scope, js_joins = []\<rparr>;
       State_Monad.return (BoundTableWithJoins (js_relation joined) (js_joins joined) node)
     }"
| "bind_relation catalog (SyntaxRelation.Table name alias node) ctes outer_scope current_scope =
     bind_table_name catalog name alias node ctes"
| "bind_relation catalog (SyntaxRelation.Derived query alias node) ctes outer_scope current_scope =
     do {
       plan \<leftarrow> bind_query catalog query (Some current_scope);
       State_Monad.return
         (BoundRelation.Derived (derived_binding alias node (bp_result_schema plan)) plan node)
     }"
| "bind_relation catalog (SyntaxRelation.NestedJoin table alias node) ctes outer_scope current_scope =
     do {
       table' \<leftarrow> bind_table_with_joins catalog table ctes None current_scope;
       State_Monad.return
         (BoundRelation.NestedJoin (derived_binding alias node (scope_schema_for_table table')) table' node)
     }"
| "bind_relation catalog (SyntaxRelation.Unsupported description node) ctes outer_scope current_scope =
     do {
       push_error ''QF0009'' description node None;
       State_Monad.return (BoundRelation.Unsupported description (sn_node_id node) node)
     }"
| "bind_order_by_expr catalog (SyntaxOrderByExpr expr asc nulls_first node) scope outer_scope =
     do {
       expr' \<leftarrow> bind_expr catalog expr scope outer_scope ExpectedType_default;
       State_Monad.return (BoundOrderByExpr expr' asc nulls_first node)
     }"
| "bind_expr catalog (SyntaxExpr (SyntaxExprKind.Column relation name) node) scope outer_scope expected =
     bind_column node relation name scope outer_scope"
| "bind_expr catalog (SyntaxExpr (SyntaxExprKind.Literal value) node) scope outer_scope expected =
     State_Monad.return (bind_literal node value)"
| "bind_expr catalog (SyntaxExpr (SyntaxExprKind.Parameter reference) node) scope outer_scope expected =
     bind_parameter node reference expected"
| "bind_expr catalog (SyntaxExpr (SyntaxExprKind.Unary op inner) node) scope outer_scope expected =
     do {
       inner' \<leftarrow> bind_expr catalog inner scope outer_scope ExpectedType_default;
       State_Monad.return
         (BoundExpr (BoundExprKind.Unary op inner')
            (if op = UnaryOperator.Not then DataType.Boolean else bx_data_type inner')
            (bx_nullable inner') node)
     }"
| "bind_expr catalog (SyntaxExpr (SyntaxExprKind.Binary op left right) node) scope outer_scope expected =
     bind_binary_expr catalog node op left right scope outer_scope"
| "bind_expr catalog (SyntaxExpr (SyntaxExprKind.Function function) node) scope outer_scope expected =
     bind_function catalog node function scope outer_scope"
| "bind_expr catalog (SyntaxExpr (SyntaxExprKind.Case operand when_then else_result) node) scope outer_scope expected =
     bind_case catalog node operand when_then else_result scope outer_scope"
| "bind_expr catalog (SyntaxExpr (SyntaxExprKind.Cast inner data_type) node) scope outer_scope expected =
     do {
       inner' \<leftarrow> bind_expr catalog inner scope outer_scope (expect data_type Nullable);
       State_Monad.return
         (BoundExpr (BoundExprKind.Cast inner' data_type) data_type (bx_nullable inner') node)
     }"
| "bind_expr catalog (SyntaxExpr (SyntaxExprKind.Between input low high negated) node) scope outer_scope expected =
     do {
       input' \<leftarrow> bind_expr catalog input scope outer_scope ExpectedType_default;
       low' \<leftarrow> bind_expr catalog low scope outer_scope (expect_known (bx_data_type input'));
       high' \<leftarrow> bind_expr catalog high scope outer_scope (expect_known (bx_data_type input'));
       State_Monad.return
         (BoundExpr (BoundExprKind.Between input' low' high' negated) DataType.Boolean
            (bx_nullable input' \<or> bx_nullable low' \<or> bx_nullable high') node)
     }"
| "bind_expr catalog (SyntaxExpr (SyntaxExprKind.InList input list negated) node) scope outer_scope expected =
     do {
       input' \<leftarrow> bind_expr catalog input scope outer_scope ExpectedType_default;
       list' \<leftarrow> traverse_list (\<lambda>item.
           bind_expr catalog item scope outer_scope
             (if length list = 1 \<and> is_parameter item
              then expect (DataType.List (bx_data_type input')) NonNull
              else expect_known (bx_data_type input'))) list;
       State_Monad.return
         (BoundExpr (BoundExprKind.InList input' list' negated) DataType.Boolean
            (bx_nullable input' \<or> list_ex bx_nullable list') node)
     }"
| "bind_expr catalog (SyntaxExpr (SyntaxExprKind.InSubquery input subquery negated) node) scope outer_scope expected =
     do {
       input' \<leftarrow> bind_expr catalog input scope outer_scope ExpectedType_default;
       subquery' \<leftarrow> bind_query catalog subquery (Some scope);
       field \<leftarrow> subquery_single_field node subquery' ''QF0024'' ''IN subqueries'';
       State_Monad.return
         (BoundExpr (BoundExprKind.InSubquery input' subquery' negated) DataType.Boolean
            (bx_nullable input' \<or> (case field of Some f \<Rightarrow> rf_nullable f | None \<Rightarrow> False)) node)
     }"
| "bind_expr catalog (SyntaxExpr (SyntaxExprKind.ScalarSubquery subquery) node) scope outer_scope expected =
     do {
       subquery' \<leftarrow> bind_query catalog subquery (Some scope);
       field \<leftarrow> subquery_single_field node subquery' ''QF0023'' ''Scalar subqueries'';
       State_Monad.return
         (BoundExpr (BoundExprKind.ScalarSubquery subquery')
            (case field of Some f \<Rightarrow> rf_data_type f | None \<Rightarrow> DataType.Unknown) True node)
     }"
| "bind_expr catalog (SyntaxExpr (SyntaxExprKind.Exists subquery) node) scope outer_scope expected =
     do {
       subquery' \<leftarrow> bind_query catalog subquery (Some scope);
       State_Monad.return (BoundExpr (BoundExprKind.Exists subquery') DataType.Boolean False node)
     }"
| "bind_expr catalog (SyntaxExpr (SyntaxExprKind.Like input pattern negated case_insensitive) node) scope outer_scope expected =
     do {
       input' \<leftarrow> bind_expr catalog input scope outer_scope (expect DataType.Utf8 NonNull);
       pattern' \<leftarrow> bind_expr catalog pattern scope outer_scope (expect DataType.Utf8 NonNull);
       State_Monad.return
         (BoundExpr (BoundExprKind.Like input' pattern' negated case_insensitive) DataType.Boolean
            (bx_nullable input' \<or> bx_nullable pattern') node)
     }"
| "bind_expr catalog (SyntaxExpr (SyntaxExprKind.IsNull inner negated) node) scope outer_scope expected =
     do {
       note_null_test inner;
       inner' \<leftarrow> bind_expr catalog inner scope outer_scope ExpectedType_default;
       State_Monad.return (BoundExpr (BoundExprKind.IsNull inner' negated) DataType.Boolean False node)
     }"
| "bind_expr catalog (SyntaxExpr (SyntaxExprKind.Tuple items) node) scope outer_scope expected =
     do {
       items' \<leftarrow> traverse_list (\<lambda>item. bind_expr catalog item scope outer_scope ExpectedType_default) items;
       State_Monad.return
         (BoundExpr (BoundExprKind.Tuple items') (tuple_type items') (list_ex bx_nullable items') node)
     }"
| "bind_expr catalog (SyntaxExpr (SyntaxExprKind.Array items) node) scope outer_scope expected =
     do {
       items' \<leftarrow> traverse_list (\<lambda>item. bind_expr catalog item scope outer_scope ExpectedType_default) items;
       State_Monad.return
         (BoundExpr (BoundExprKind.Array items') (DataType.List (reduce_types (map bx_data_type items')))
            (list_ex bx_nullable items') node)
     }"
| "bind_expr catalog (SyntaxExpr (SyntaxExprKind.Unsupported description) node) scope outer_scope expected =
     unsupported_expr node ''QF0012'' description None"
| "bind_binary_expr catalog node op left right scope outer_scope =
     (if is_logical op
      then do {
        left' \<leftarrow> bind_expr catalog left scope outer_scope (expect DataType.Boolean NonNull);
        right' \<leftarrow> bind_expr catalog right scope outer_scope (expect DataType.Boolean NonNull);
        State_Monad.return
          (BoundExpr (BoundExprKind.Binary op left' right') DataType.Boolean
             (bx_nullable left' \<or> bx_nullable right') node)
      }
      else if is_arithmetic op
      then do {
        left' \<leftarrow> bind_expr catalog left scope outer_scope (expect DataType.Float64 NonNull);
        right' \<leftarrow> bind_expr catalog right scope outer_scope (expect DataType.Float64 NonNull);
        State_Monad.return
          (BoundExpr (BoundExprKind.Binary op left' right')
             (case common_type (bx_data_type left') (bx_data_type right') of
                Some t \<Rightarrow> t | None \<Rightarrow> DataType.Float64)
             (bx_nullable left' \<or> bx_nullable right') node)
      }
      else do {
        left' \<leftarrow> bind_expr catalog left scope outer_scope ExpectedType_default;
        right' \<leftarrow> bind_expr catalog right scope outer_scope (expect_known (bx_data_type left'));
        State_Monad.return
          (BoundExpr (BoundExprKind.Binary op left' right') DataType.Boolean
             (bx_nullable left' \<or> bx_nullable right') node)
      })"
| "bind_function catalog node (SyntaxFunctionCall function args distinct' filter' over) scope outer_scope =
     (case resolve_signature catalog function of
        None \<Rightarrow>
          unsupported_expr node ''QF0013''
            (''Unknown function `'' @ FunctionRef_display_name function @ ''`.'')
            (Some ''Register the function in the catalog or portable builtin registry.'')
      | Some signature \<Rightarrow>
          do {
            args' \<leftarrow> traverse_list (\<lambda>arg.
                bind_expr catalog (snd arg) scope outer_scope
                  \<lparr>xt_data_type = argument_type signature (fst arg), xt_nullable = NonNull\<rparr>) (enumerate 0 args);
            filter'' \<leftarrow> traverse_option (\<lambda>expr.
                bind_expr catalog expr scope outer_scope (expect DataType.Boolean NonNull)) filter';
            over' \<leftarrow> traverse_option (\<lambda>window. do {
                partition_by \<leftarrow> traverse_list (\<lambda>expr.
                    bind_expr catalog expr scope outer_scope ExpectedType_default) (ws_partition_by window);
                order_by \<leftarrow> traverse_list (\<lambda>expr.
                    bind_order_by_expr catalog expr scope outer_scope) (ws_order_by window);
                State_Monad.return (BoundWindowSpec partition_by order_by (ws_node window))
              }) over;
            warn_backend_specific signature function node;
            State_Monad.return
              (BoundExpr
                (BoundExprKind.Function
                  (BoundFunctionCall function None args' distinct' filter'' over' (Some (fs_name signature))))
                (infer_function_return_type signature args') (infer_function_nullability signature args') node)
          })"
| "bind_case catalog node operand when_then else_result scope outer_scope =
     do {
       operand' \<leftarrow> traverse_option (\<lambda>expr. bind_expr catalog expr scope outer_scope ExpectedType_default) operand;
       when_then' \<leftarrow> traverse_list (\<lambda>pair. do {
           condition \<leftarrow> bind_expr catalog (sw_condition pair) scope outer_scope (expect DataType.Boolean NonNull);
           result \<leftarrow> bind_expr catalog (sw_result pair) scope outer_scope ExpectedType_default;
           State_Monad.return (BoundWhenThen condition result)
         }) when_then;
       else_result' \<leftarrow> traverse_option (\<lambda>expr.
           bind_expr catalog expr scope outer_scope ExpectedType_default) else_result;
       State_Monad.return
         (BoundExpr (BoundExprKind.Case operand' when_then' else_result')
            (case_type when_then' else_result') (case_nullable when_then' else_result') node)
     }"
  by pat_completeness auto
termination
  by (relation "measure (case_sum
        (case_sum
          (case_sum (\<lambda>(_, q, _). size q) (\<lambda>(_, e, _). size e))
          (case_sum (\<lambda>(_, s, _). size_SyntaxSelect size size s)
            (case_sum (\<lambda>(_, i, _). size_SyntaxProjectionItem size i)
              (\<lambda>(_, t, _). size_SyntaxTableWithJoins size size t))))
        (case_sum
          (case_sum (\<lambda>(_, r, _). size r)
            (case_sum (\<lambda>(_, k, _). size_SyntaxOrderByExpr size k) (\<lambda>(_, e, _). size e)))
          (case_sum (\<lambda>(_, _, _, l, r, _). size l + size r + 1)
            (case_sum (\<lambda>(_, _, f, _). size_SyntaxFunctionCall size f)
              (\<lambda>(_, _, x, w, y, _). size_option size x + size_list (size_SyntaxWhenThen size) w + size_option size y)))))")
    (auto simp: size_WindowSpec_sel size_SyntaxProjectionExpr_sel dest: bind_size_dests)

end
