(* ===== verification/QF_Plan_Sound.thy ===== *)
theory QF_Plan_Sound
  imports QF_Bind
begin

text \<open>
  What the binder guarantees of a plan: unless it has recorded an error, every node of the plan is
  supported and well typed, and every parameter of the plan is recorded with its constraints. Typing
  is a local condition between a node's annotations and those of its children.
\<close>

section \<open>Well-typed plans\<close>

fun node_supported :: "BoundNode \<Rightarrow> bool" where
  "node_supported (SetNode (BoundSetExpr.Unsupported _ _ _)) = False"
| "node_supported (ItemNode (BoundProjectionItem.Unsupported _ _)) = False"
| "node_supported (RelationNode (BoundRelation.Unsupported _ _ _)) = False"
| "node_supported (ExprNode (BoundExpr (BoundExprKind.Unsupported _) _ _ _)) = False"
| "node_supported _ = True"

text \<open>A relation shows the fields of its subplan, some of them made nullable by an outer join.\<close>

definition field_widens :: "ResultField \<Rightarrow> ResultField \<Rightarrow> bool" where
  "field_widens f g \<longleftrightarrow> rf_name g = rf_name f \<and> rf_data_type g = rf_data_type f \<and>
     rf_metadata g = rf_metadata f \<and> (rf_nullable f \<longrightarrow> rf_nullable g)"

definition schema_widens :: "ResultSchema \<Rightarrow> ResultSchema \<Rightarrow> bool" where
  "schema_widens a b \<longleftrightarrow> list_all2 field_widens (rs_fields a) (rs_fields b)"

fun expr_typed :: "Catalog \<Rightarrow> BoundExpr \<Rightarrow> bool" where
  "expr_typed catalog (BoundExpr kind data_type nullable node) \<longleftrightarrow>
     (case kind of
        BoundExprKind.Literal value \<Rightarrow> BoundExpr kind data_type nullable node = bind_literal node value
      | BoundExprKind.Unary op e \<Rightarrow>
          data_type = (if op = UnaryOperator.Not then DataType.Boolean else bx_data_type e) \<and>
          nullable = bx_nullable e
      | BoundExprKind.Binary op l r \<Rightarrow>
          data_type = (if is_arithmetic op
             then (case common_type (bx_data_type l) (bx_data_type r) of Some t \<Rightarrow> t | None \<Rightarrow> DataType.Float64)
             else DataType.Boolean) \<and>
          nullable = (bx_nullable l \<or> bx_nullable r)
      | BoundExprKind.Function f \<Rightarrow>
          (case resolve_signature catalog (bf_function f) of
             Some signature \<Rightarrow>
               data_type = infer_function_return_type signature (bf_args f) \<and>
               nullable = infer_function_nullability signature (bf_args f)
           | None \<Rightarrow> False)
      | BoundExprKind.Case operand when_then else_result \<Rightarrow>
          data_type = case_type when_then else_result \<and> nullable = case_nullable when_then else_result
      | BoundExprKind.Cast e t \<Rightarrow> data_type = t \<and> nullable = bx_nullable e
      | BoundExprKind.Between e l h negated \<Rightarrow>
          data_type = DataType.Boolean \<and> nullable = (bx_nullable e \<or> bx_nullable l \<or> bx_nullable h)
      | BoundExprKind.InList e es negated \<Rightarrow>
          data_type = DataType.Boolean \<and> nullable = (bx_nullable e \<or> list_ex bx_nullable es)
      | BoundExprKind.InSubquery e q negated \<Rightarrow>
          (case rs_fields (bp_result_schema q) of
             [f] \<Rightarrow> data_type = DataType.Boolean \<and> nullable = (bx_nullable e \<or> rf_nullable f)
           | _ \<Rightarrow> False)
      | BoundExprKind.ScalarSubquery q \<Rightarrow>
          (case rs_fields (bp_result_schema q) of
             [f] \<Rightarrow> data_type = rf_data_type f \<and> nullable
           | _ \<Rightarrow> False)
      | BoundExprKind.Exists q \<Rightarrow> data_type = DataType.Boolean \<and> \<not> nullable
      | BoundExprKind.Like e p negated case_insensitive \<Rightarrow>
          data_type = DataType.Boolean \<and> nullable = (bx_nullable e \<or> bx_nullable p)
      | BoundExprKind.IsNull e negated \<Rightarrow> data_type = DataType.Boolean \<and> \<not> nullable
      | BoundExprKind.Tuple es \<Rightarrow> data_type = tuple_type es \<and> nullable = list_ex bx_nullable es
      | BoundExprKind.Array es \<Rightarrow>
          data_type = DataType.List (reduce_types (map bx_data_type es)) \<and> nullable = list_ex bx_nullable es
      | _ \<Rightarrow> True)"

fun node_typed :: "Catalog \<Rightarrow> BoundNode \<Rightarrow> bool" where
  "node_typed catalog (PlanNode p) \<longleftrightarrow> bp_result_schema p = BoundSetExpr_result_schema (bp_body p)"
| "node_typed catalog (CteNode c) \<longleftrightarrow>
     bc_result_schema c = cte_result_schema (bc_columns c) (bp_result_schema (bc_query c))"
| "node_typed catalog (SetNode (BoundSetExpr.Select s)) \<longleftrightarrow>
     rs_fields (bsel_result_schema s) = concat (map item_fields (bsel_projection s))"
| "node_typed catalog (SetNode (BoundSetExpr.UnionAll l r node schema)) \<longleftrightarrow>
     length (rs_fields (BoundSetExpr_result_schema l)) = length (rs_fields (BoundSetExpr_result_schema r)) \<and>
     rs_fields schema =
       map2 unify_field (rs_fields (BoundSetExpr_result_schema l)) (rs_fields (BoundSetExpr_result_schema r))"
| "node_typed catalog (SetNode (BoundSetExpr.Unsupported _ _ _)) = True"
| "node_typed catalog (ItemNode (BoundProjectionItem.Expr d)) \<longleftrightarrow>
     rf_data_type (bpe_field d) = bx_data_type (bpe_expr d) \<and>
     rf_nullable (bpe_field d) = bx_nullable (bpe_expr d) \<and>
     (case bpe_alias d of Some a \<Rightarrow> rf_name (bpe_field d) = a | None \<Rightarrow> True)"
| "node_typed catalog (ItemNode _) = True"
| "node_typed catalog (RelationNode (BoundRelation.Derived b q node)) \<longleftrightarrow>
     schema_widens (bp_result_schema q) (rb_schema b)"
| "node_typed catalog (RelationNode (BoundRelation.NestedJoin b t node)) \<longleftrightarrow>
     schema_widens (scope_schema_for_table t) (rb_schema b)"
| "node_typed catalog (RelationNode _) = True"
| "node_typed catalog (ExprNode e) = expr_typed catalog e"

fun node_declared :: "Binder \<Rightarrow> BoundNode \<Rightarrow> bool" where
  "node_declared s (ExprNode (BoundExpr (BoundExprKind.Parameter r) data_type nullable node)) =
     parameter_recorded r nullable s"
| "node_declared s _ = True"

definition node_ok :: "Catalog \<Rightarrow> Binder \<Rightarrow> BoundNode \<Rightarrow> bool" where
  "node_ok catalog s n \<longleftrightarrow>
     node_declared s n \<and> (has_error s \<or> node_supported n \<and> node_typed catalog n)"

lemma node_ok_mono:
  assumes "binder_le s t" and "node_ok catalog s n"
  shows "node_ok catalog t n"
proof -
  have "node_declared s n \<Longrightarrow> node_declared t n"
    using assms(1) stable_parameter_recorded
    by (cases "(s, n)" rule: node_declared.cases) (auto simp: stable_def)
  then show ?thesis using assms stable_has_error by (auto simp: node_ok_def stable_def)
qed

lemma all_ok_mono:
  "binder_le s t \<Longrightarrow> plan_all (node_ok catalog s) p \<Longrightarrow> plan_all (node_ok catalog t) p"
  "binder_le s t \<Longrightarrow> set_expr_all (node_ok catalog s) b \<Longrightarrow> set_expr_all (node_ok catalog t) b"
  "binder_le s t \<Longrightarrow> relation_all (node_ok catalog s) r \<Longrightarrow> relation_all (node_ok catalog t) r"
  "binder_le s t \<Longrightarrow> expr_all (node_ok catalog s) e \<Longrightarrow> expr_all (node_ok catalog t) e"
  by (blast intro: all_nodes_mono node_ok_mono)+

lemma stable_all_nodes [simp]:
  "stable binder_le (\<lambda>s. plan_all (node_ok catalog s) p)"
  "stable binder_le (\<lambda>s. set_expr_all (node_ok catalog s) b)"
  "stable binder_le (\<lambda>s. relation_all (node_ok catalog s) r)"
  "stable binder_le (\<lambda>s. expr_all (node_ok catalog s) e)"
  "stable binder_le (\<lambda>s. node_ok catalog s n)"
  unfolding stable_def by (blast intro: all_ok_mono node_ok_mono)+

abbreviation item_ok :: "(BoundNode \<Rightarrow> bool) \<Rightarrow> BoundExpr BoundProjectionItem \<Rightarrow> bool" where
  "item_ok P i \<equiv> P (ItemNode i) \<and> pred_BoundProjectionItem (expr_all P) i"

abbreviation table_ok :: "(BoundNode \<Rightarrow> bool) \<Rightarrow> BoundTable \<Rightarrow> bool" where
  "table_ok P t \<equiv> pred_BoundTableWithJoins (expr_all P) (relation_all P) t"

abbreviation order_ok :: "(BoundNode \<Rightarrow> bool) \<Rightarrow> BoundExpr BoundOrderByExpr \<Rightarrow> bool" where
  "order_ok P k \<equiv> expr_all P (bo_expr k)"

abbreviation when_ok :: "(BoundNode \<Rightarrow> bool) \<Rightarrow> BoundExpr BoundWhenThen \<Rightarrow> bool" where
  "when_ok P w \<equiv> expr_all P (bwt_condition w) \<and> expr_all P (bwt_result w)"

abbreviation window_ok :: "(BoundNode \<Rightarrow> bool) \<Rightarrow> BoundExpr BoundWindowSpec \<Rightarrow> bool" where
  "window_ok P w \<equiv> list_all (expr_all P) (bw_partition_by w) \<and> list_all (order_ok P) (bw_order_by w)"

lemma stable_wrapped [simp]:
  "stable binder_le (\<lambda>s. item_ok (node_ok catalog s) i)"
  "stable binder_le (\<lambda>s. table_ok (node_ok catalog s) t)"
  "stable binder_le (\<lambda>s. when_ok (node_ok catalog s) w)"
  "stable binder_le (\<lambda>s. window_ok (node_ok catalog s) v)"
  unfolding stable_def
  by (auto simp: BoundProjectionItem.pred_set BoundTableWithJoins.pred_set list_all_iff
      dest: all_ok_mono node_ok_mono)

text \<open>Sequencing, by the type of what the first action returns.\<close>

lemma post_bind_typed:
  "post binder_le m (\<lambda>e s. expr_all (node_ok catalog s) e) \<Longrightarrow>
     (\<And>x. post binder_le (f x) (\<lambda>y s. expr_all (node_ok catalog s) x \<longrightarrow> Q y s)) \<Longrightarrow>
     post binder_le (State_Monad.bind m f) Q"
  "post binder_le m2 (\<lambda>p s. plan_all (node_ok catalog s) p) \<Longrightarrow>
     (\<And>x. post binder_le (f2 x) (\<lambda>y s. plan_all (node_ok catalog s) x \<longrightarrow> Q y s)) \<Longrightarrow>
     post binder_le (State_Monad.bind m2 f2) Q"
  "post binder_le m3 (\<lambda>p s. set_expr_all (node_ok catalog s) p) \<Longrightarrow>
     (\<And>x. post binder_le (f3 x) (\<lambda>y s. set_expr_all (node_ok catalog s) x \<longrightarrow> Q y s)) \<Longrightarrow>
     post binder_le (State_Monad.bind m3 f3) Q"
  "post binder_le m4 (\<lambda>p s. relation_all (node_ok catalog s) p) \<Longrightarrow>
     (\<And>x. post binder_le (f4 x) (\<lambda>y s. relation_all (node_ok catalog s) x \<longrightarrow> Q y s)) \<Longrightarrow>
     post binder_le (State_Monad.bind m4 f4) Q"
  "post binder_le m5 (\<lambda>p s. set_expr_all (node_ok catalog s) (BoundSetExpr.Select p)) \<Longrightarrow>
     (\<And>x. post binder_le (f5 x) (\<lambda>y s. set_expr_all (node_ok catalog s) (BoundSetExpr.Select x) \<longrightarrow> Q y s)) \<Longrightarrow>
     post binder_le (State_Monad.bind m5 f5) Q"
  "post binder_le m6 (\<lambda>p s. table_ok (node_ok catalog s) p) \<Longrightarrow>
     (\<And>x. post binder_le (f6 x) (\<lambda>y s. table_ok (node_ok catalog s) x \<longrightarrow> Q y s)) \<Longrightarrow>
     post binder_le (State_Monad.bind m6 f6) Q"
  by (erule binder_le.post_bind; simp)+

lemma post_bind_lists:
  "post binder_le m (\<lambda>es s. list_all (expr_all (node_ok catalog s)) es) \<Longrightarrow>
     (\<And>x. post binder_le (f x) (\<lambda>y s. list_all (expr_all (node_ok catalog s)) x \<longrightarrow> Q y s)) \<Longrightarrow>
     post binder_le (State_Monad.bind m f) Q"
  "post binder_le m2 (\<lambda>p s. list_all (item_ok (node_ok catalog s)) p) \<Longrightarrow>
     (\<And>x. post binder_le (f2 x) (\<lambda>y s. list_all (item_ok (node_ok catalog s)) x \<longrightarrow> Q y s)) \<Longrightarrow>
     post binder_le (State_Monad.bind m2 f2) Q"
  "post binder_le m3 (\<lambda>p s. list_all (order_ok (node_ok catalog s)) p) \<Longrightarrow>
     (\<And>x. post binder_le (f3 x) (\<lambda>y s. list_all (order_ok (node_ok catalog s)) x \<longrightarrow> Q y s)) \<Longrightarrow>
     post binder_le (State_Monad.bind m3 f3) Q"
  "post binder_le m4 (\<lambda>p s. list_all (when_ok (node_ok catalog s)) p) \<Longrightarrow>
     (\<And>x. post binder_le (f4 x) (\<lambda>y s. list_all (when_ok (node_ok catalog s)) x \<longrightarrow> Q y s)) \<Longrightarrow>
     post binder_le (State_Monad.bind m4 f4) Q"
  "post binder_le m5 (\<lambda>e s. pred_option (expr_all (node_ok catalog s)) e) \<Longrightarrow>
     (\<And>x. post binder_le (f5 x) (\<lambda>y s. pred_option (expr_all (node_ok catalog s)) x \<longrightarrow> Q y s)) \<Longrightarrow>
     post binder_le (State_Monad.bind m5 f5) Q"
  "post binder_le m6 (\<lambda>e s. pred_option (window_ok (node_ok catalog s)) e) \<Longrightarrow>
     (\<And>x. post binder_le (f6 x) (\<lambda>y s. pred_option (window_ok (node_ok catalog s)) x \<longrightarrow> Q y s)) \<Longrightarrow>
     post binder_le (State_Monad.bind m6 f6) Q"
  by (erule binder_le.post_bind, (rule stable_list_all stable_pred_option, simp), simp)+

lemma post_bind_unit:
  assumes "post binder_le (m :: unit action) (\<lambda>_ _. True)" and "\<And>x. post binder_le (f x) Q"
  shows "post binder_le (State_Monad.bind m f) Q"
  using assms by (rule binder_le.post_bind_any)

lemmas post_binds = post_bind_typed post_bind_lists post_bind_unit

section \<open>The actions that do not recurse\<close>

lemma post_unsupported_expr:
  "post binder_le (unsupported_expr node code msg r) (\<lambda>e s. expr_all (node_ok catalog s) e)"
  unfolding unsupported_expr_def by (rule post_error_return) (simp add: node_ok_def)

lemma post_bind_column:
  "post binder_le (bind_column node relation name scope outer) (\<lambda>e s. expr_all (node_ok catalog s) e)"
  unfolding bind_column_def
  by (auto simp: node_ok_def intro!: post_unsupported_expr binder_le.post_return split: ColumnResolution.split)

lemma post_bind_parameter:
  "post binder_le (bind_parameter node r x) (\<lambda>e s. expr_all (node_ok catalog s) e)"
  unfolding bind_parameter_def
proof (rule binder_le.post_bind_any[OF post_allocate_parameter])
  fix reference
  show "post binder_le (do { record_parameter_use reference x node; State_Monad.return
         (BoundExpr (BoundExprKind.Parameter reference)
            (case xt_data_type x of Some t \<Rightarrow> t | None \<Rightarrow> DataType.Unknown) (xt_nullable x \<noteq> NonNull) node) })
     (\<lambda>e s. expr_all (node_ok catalog s) e)"
    by (rule binder_le.post_bind[OF post_record_parameter_use stable_parameter_recorded])
      (auto simp: node_ok_def intro!: binder_le.post_return)
qed

lemma post_note_null_test: "post binder_le (note_null_test e) (\<lambda>_ _. True)"
  unfolding note_null_test_def
  by (auto split: SyntaxExprKind.split intro!: binder_le.post_return binder_le.post_bind_any
      post_allocate_parameter post_weaken[OF post_record_parameter_use])

lemma post_push_recursive_error: "post binder_le (push_recursive_error b node) (\<lambda>_ _. True)"
  by (auto simp: push_recursive_error_def intro: binder_le.post_return post_weaken[OF post_push_error])

lemma post_push_clause_warnings: "post binder_le (traverse_list push_clause_warning cs) (\<lambda>_ _. True)"
proof -
  have "post binder_le (push_clause_warning c) (\<lambda>_ _. True)" for c
    by (cases c) (simp_all add: post_push_warning)
  then have "post binder_le (traverse_list push_clause_warning cs) (\<lambda>ys s. list_all (\<lambda>_. True) ys)"
    by (intro binder_le.post_traverse_list) simp_all
  then show ?thesis by (rule post_weaken) simp
qed

lemma post_warn_backend_specific: "post binder_le (warn_backend_specific sig f node) (\<lambda>_ _. True)"
  by (simp add: warn_backend_specific_def post_push_warning binder_le.post_return)

lemma post_subquery_single_field:
  "post binder_le (subquery_single_field node q code ctx)
     (\<lambda>f s. has_error s \<or> (\<exists>g. f = Some g \<and> rs_fields (bp_result_schema q) = [g]))"
  unfolding subquery_single_field_def
  by (auto intro!: post_error_return binder_le.post_return split: list.split)

lemma post_unify_union_schema:
  "post binder_le (unify_union_schema l r node)
     (\<lambda>schema s. has_error s \<or> length (rs_fields l) = length (rs_fields r) \<and>
        rs_fields schema = map2 unify_field (rs_fields l) (rs_fields r))"
  unfolding unify_union_schema_def
  by (auto intro!: post_error_return binder_le.post_return simp: ResultSchema_new_def)

lemma post_bind_table_name:
  "post binder_le (bind_table_name catalog name alias node ctes) (\<lambda>r s. relation_all (node_ok catalog s) r)"
  unfolding bind_table_name_def
  by (auto simp: node_ok_def intro!: post_error_return binder_le.post_return split: option.split)

lemma post_bind_wildcard:
  "post binder_le (bind_wildcard q node scope) (\<lambda>i s. item_ok (node_ok catalog s) i)"
  unfolding bind_wildcard_def
  by (auto simp: node_ok_def intro!: post_error_return binder_le.post_return split: option.split)

section \<open>Outer joins keep plans well typed\<close>

lemma field_widens_refl [simp]: "field_widens f f"
  by (simp add: field_widens_def)

lemma schema_widens_refl [simp]: "schema_widens a a"
  by (simp add: schema_widens_def list_all2_refl)

lemma field_widens_nullable: "field_widens f g \<Longrightarrow> field_widens f (set_rf_nullable True g)"
  by (cases g) (simp add: field_widens_def set_rf_nullable_def)

lemma schema_widens_nullable: "schema_widens a b \<Longrightarrow> schema_widens a (make_schema_nullable b)"
  by (auto simp: schema_widens_def make_schema_nullable_def list_all2_map2
      intro: list_all2_mono field_widens_nullable)

lemma make_relation_nullable_ok:
  "relation_all (node_ok catalog s) r \<Longrightarrow> relation_all (node_ok catalog s) (make_relation_nullable r)"
  by (cases r) (auto simp: node_ok_def make_binding_nullable_def intro: schema_widens_nullable)

definition joins_ok :: "Catalog \<Rightarrow> JoinState \<Rightarrow> Binder \<Rightarrow> bool" where
  "joins_ok catalog js s \<longleftrightarrow>
     relation_all (node_ok catalog s) (js_relation js) \<and>
     list_all (pred_BoundJoin (expr_all (node_ok catalog s)) (relation_all (node_ok catalog s))) (js_joins js)"

lemma stable_joins_ok [simp]: "stable binder_le (joins_ok catalog js)"
  unfolding stable_def joins_ok_def by (auto simp: list_all_iff BoundJoin.pred_set dest: all_ok_mono)

lemma apply_join_ok:
  assumes "joins_ok catalog js s" and "relation_all (node_ok catalog s) r"
    and "pred_option (expr_all (node_ok catalog s)) on"
  shows "joins_ok catalog (apply_join kind r on node js) s"
proof -
  have "pred_BoundJoin P Q (BoundJoin (bj_kind j) x (bj_on j) (bj_node j))"
    if "pred_BoundJoin P Q j" "Q x" for j x and P :: "BoundExpr \<Rightarrow> bool" and Q :: "BoundRelation \<Rightarrow> bool"
    using that by (cases j) simp
  moreover have "relation_all (node_ok catalog s) (bj_relation j)"
    if "pred_BoundJoin (expr_all (node_ok catalog s)) (relation_all (node_ok catalog s)) j" for j
    using that by (cases j) simp
  ultimately show ?thesis using assms
    by (auto simp: joins_ok_def apply_join_def Let_def make_join_relations_nullable_def list_all_iff
        make_relation_nullable_ok)
qed

section \<open>The recursive actions\<close>

lemma post_bind_field:
  "post binder_le m (\<lambda>f s. has_error s \<or> P f) \<Longrightarrow> (\<And>x. post binder_le (f x) (\<lambda>y s. has_error s \<or> P x \<longrightarrow> Q y s)) \<Longrightarrow>
     post binder_le (State_Monad.bind m f) Q"
  by (erule binder_le.post_bind) simp_all

lemma post_fold_ctes:
  assumes "\<And>c. c \<in> set ctes \<Longrightarrow> post binder_le (bind_query catalog (sc_query c) None) (\<lambda>p s. plan_all (node_ok catalog s) p)"
  shows "post binder_le (fold_state (\<lambda>cte acc. do {
           plan \<leftarrow> bind_query catalog (sc_query cte) None;
           State_Monad.return (add_cte cte plan acc)
         }) ctes ([], []))
     (\<lambda>acc s. list_all (\<lambda>c. node_ok catalog s (CteNode c) \<and> plan_all (node_ok catalog s) (bc_query c)) (snd acc))"
proof (rule binder_le.post_fold_state)
  show "stable binder_le (\<lambda>s. list_all (\<lambda>c. node_ok catalog s (CteNode c) \<and> plan_all (node_ok catalog s) (bc_query c)) (snd acc))"
    for acc :: "cte_bindings \<times> BoundQueryPlan BoundCte list"
    by (intro stable_list_all stable_conj) simp_all
qed (auto simp: add_cte_def Let_def node_ok_def intro!: post_bind_typed assms binder_le.post_return)

lemma post_fold_from:
  assumes "\<And>t (acc :: Scope \<times> BoundTable list). t \<in> set from \<Longrightarrow>
      post binder_le (bind_table_with_joins catalog t ctes outer (fst acc)) (\<lambda>t s. table_ok (node_ok catalog s) t)"
  shows "post binder_le (fold_state (\<lambda>table acc. do {
           table' \<leftarrow> bind_table_with_joins catalog table ctes outer (fst acc);
           State_Monad.return (merge_table table' (fst acc), snd acc @ [table'])
         }) from (scope, []))
     (\<lambda>acc s. list_all (table_ok (node_ok catalog s)) (snd acc))"
proof (rule binder_le.post_fold_state)
  show "stable binder_le (\<lambda>s. list_all (table_ok (node_ok catalog s)) (snd acc))" for acc :: "Scope \<times> BoundTable list"
    by (intro stable_list_all) simp
qed (auto intro!: post_bind_typed(6) assms binder_le.post_return)

lemma post_fold_joins:
  assumes "post binder_le (bind_relation catalog rel ctes outer scope) (\<lambda>r s. relation_all (node_ok catalog s) r)"
    and "\<And>j js. j \<in> set joins \<Longrightarrow>
      post binder_le (bind_relation catalog (sj_relation j) ctes outer (js_scope (js :: JoinState))) (\<lambda>r s. relation_all (node_ok catalog s) r)"
    and "\<And>j js r e. j \<in> set joins \<Longrightarrow> sj_on j = Some e \<Longrightarrow>
      post binder_le (bind_expr catalog e (push_relation r (js_scope (js :: JoinState))) outer (expect DataType.Boolean NonNull)) (\<lambda>e s. expr_all (node_ok catalog s) e)"
  shows "post binder_le (do {
       relation' \<leftarrow> bind_relation catalog rel ctes outer scope;
       fold_state (\<lambda>join s. do {
           joined_relation \<leftarrow> bind_relation catalog (sj_relation join) ctes outer (js_scope s);
           on \<leftarrow> traverse_option (\<lambda>expr.
               bind_expr catalog expr (push_relation joined_relation (js_scope s)) outer
                 (expect DataType.Boolean NonNull)) (sj_on join);
           State_Monad.return (apply_join (sj_kind join) joined_relation on (sj_node join) s)
         }) joins \<lparr>js_relation = relation', js_scope = push_relation relation' scope, js_joins = []\<rparr> })
     (joins_ok catalog)"
proof (rule binder_le.post_bind_fold)
  show "post binder_le (bind_relation catalog rel ctes outer scope)
      (\<lambda>r. joins_ok catalog \<lparr>js_relation = r, js_scope = push_relation r scope, js_joins = []\<rparr>)"
    by (rule post_weaken[OF assms(1)]) (simp add: joins_ok_def)
qed (auto intro!: post_bind_typed[where catalog = catalog] post_bind_lists[where catalog = catalog]
    assms binder_le.post_traverse_option binder_le.post_return apply_join_ok)

lemma node_ok_simps:
  "node_ok catalog s (ExprNode e) \<longleftrightarrow>
     node_declared s (ExprNode e) \<and> (has_error s \<or> node_supported (ExprNode e) \<and> expr_typed catalog e)"
  "node_ok catalog s (PlanNode p) \<longleftrightarrow> has_error s \<or> node_typed catalog (PlanNode p)"
  "node_ok catalog s (CteNode c) \<longleftrightarrow> has_error s \<or> node_typed catalog (CteNode c)"
  "node_ok catalog s (SetNode b) \<longleftrightarrow> has_error s \<or> node_supported (SetNode b) \<and> node_typed catalog (SetNode b)"
  "node_ok catalog s (ItemNode i) \<longleftrightarrow> has_error s \<or> node_supported (ItemNode i) \<and> node_typed catalog (ItemNode i)"
  "node_ok catalog s (RelationNode r) \<longleftrightarrow>
     has_error s \<or> node_supported (RelationNode r) \<and> node_typed catalog (RelationNode r)"
  by (simp_all add: node_ok_def)

lemma is_logical_not_arithmetic: "is_logical op \<Longrightarrow> \<not> is_arithmetic op"
  by (cases op) (simp_all add: is_logical_def is_arithmetic_def)

lemma pred_BoundOrderByExpr_sel [simp]: "pred_BoundOrderByExpr Q k = Q (bo_expr k)"
  by (cases k) simp

lemma pred_BoundWindowSpec_sel [simp]:
  "pred_BoundWindowSpec Q = (\<lambda>w. list_all Q (bw_partition_by w) \<and> list_all (\<lambda>k. Q (bo_expr k)) (bw_order_by w))"
proof
  show "pred_BoundWindowSpec Q w = (list_all Q (bw_partition_by w) \<and> list_all (\<lambda>k. Q (bo_expr k)) (bw_order_by w))" for w
    by (cases w) (simp add: list_all_iff)
qed

lemma pred_BoundWhenThen_sel [simp]: "pred_BoundWhenThen Q = (\<lambda>w. Q (bwt_condition w) \<and> Q (bwt_result w))"
proof
  show "pred_BoundWhenThen Q w = (Q (bwt_condition w) \<and> Q (bwt_result w))" for w by (cases w) simp
qed

lemma bind_literal_ok: "expr_all (node_ok catalog s) (bind_literal node v)"
  by (cases v) (simp_all add: bind_literal_def node_ok_simps)

lemma bind_ok:
  "post binder_le (bind_query catalog query outer1) (\<lambda>p s. plan_all (node_ok catalog s) p)"
  "post binder_le (bind_set_expr catalog body ctes2 outer2) (\<lambda>b s. set_expr_all (node_ok catalog s) b)"
  "post binder_le (bind_select catalog select ctes3 outer3)
     (\<lambda>b s. set_expr_all (node_ok catalog s) (BoundSetExpr.Select b))"
  "post binder_le (bind_projection_item catalog item scope4 outer4) (\<lambda>i s. item_ok (node_ok catalog s) i)"
  "post binder_le (bind_table_with_joins catalog table ctes5 outer5 scope5) (\<lambda>t s. table_ok (node_ok catalog s) t)"
  "post binder_le (bind_relation catalog relation ctes6 outer6 scope6) (\<lambda>r s. relation_all (node_ok catalog s) r)"
  "post binder_le (bind_order_by_expr catalog order scope7 outer7) (\<lambda>k s. order_ok (node_ok catalog s) k)"
  "post binder_le (bind_expr catalog expr scope8 outer8 expected8) (\<lambda>e s. expr_all (node_ok catalog s) e)"
  "post binder_le (bind_binary_expr catalog node9 op9 left9 right9 scope9 outer9) (\<lambda>e s. expr_all (node_ok catalog s) e)"
  "post binder_le (bind_function catalog node10 function10 scope10 outer10) (\<lambda>e s. expr_all (node_ok catalog s) e)"
  "post binder_le (bind_case catalog node11 operand11 whens11 else11 scope11 outer11) (\<lambda>e s. expr_all (node_ok catalog s) e)"
proof (induction catalog query outer1 and catalog body ctes2 outer2 and catalog select ctes3 outer3
    and catalog item scope4 outer4 and catalog table ctes5 outer5 scope5 and catalog relation ctes6 outer6 scope6
    and catalog order scope7 outer7 and catalog expr scope8 outer8 expected8
    and catalog node9 op9 left9 right9 scope9 outer9 and catalog node10 function10 scope10 outer10
    and catalog node11 operand11 whens11 else11 scope11 outer11
    rule: bind_query_bind_set_expr_bind_select_bind_projection_item_bind_table_with_joins_bind_relation_bind_order_by_expr_bind_expr_bind_binary_expr_bind_function_bind_case.induct)
  case (1 catalog node ctes with_recursive body order_by limit offset clauses outer)
  show ?case unfolding bind_query.simps
  proof (rule post_bind_unit[OF post_push_recursive_error], rule binder_le.post_bind[OF post_fold_ctes[OF 1(1)]])
    show "stable binder_le (\<lambda>s. list_all (\<lambda>c. node_ok catalog s (CteNode c) \<and> plan_all (node_ok catalog s) (bc_query c)) (snd x))"
      for x :: "cte_bindings \<times> BoundQueryPlan BoundCte list"
      by (intro stable_list_all stable_conj; simp)
  qed (assumption, intro post_bind_typed[where catalog = catalog] post_bind_lists[where catalog = catalog]
      binder_le.post_traverse_list binder_le.post_traverse_option binder_le.post_bind_any[OF post_push_clause_warnings],
       (erule 1 | rule 1 | simp)+, auto intro!: binder_le.post_return simp: node_ok_simps)
next
  case (3 catalog left right node ctes outer)
  show ?case unfolding bind_set_expr.simps
    by (intro post_bind_typed[where catalog = catalog] 3 binder_le.post_bind[OF post_unify_union_schema])
       (auto intro!: binder_le.post_return simp: node_ok_simps)
next
  case (5 catalog d projection tables selection group_by having node ctes outer)
  show ?case unfolding bind_select.simps
  proof (rule binder_le.post_bind[OF post_fold_from[OF 5(1)]])
    show "stable binder_le (\<lambda>s. list_all (table_ok (node_ok catalog s)) (snd x))" for x :: "Scope \<times> BoundTable list"
      by (intro stable_list_all) simp
  qed (assumption, intro post_bind_typed[where catalog = catalog] post_bind_lists[where catalog = catalog]
      binder_le.post_traverse_list binder_le.post_traverse_option, (erule 5 | rule 5 | simp)+,
       auto intro!: binder_le.post_return simp: node_ok_simps ResultSchema_new_def)
next
  case (6 catalog qualifier node scope outer)
  show ?case unfolding bind_projection_item.simps by (rule post_bind_wildcard)
next
  case (9 catalog relation joins node ctes outer scope)
  show ?case unfolding bind_table_with_joins.simps bind_assoc[symmetric]
    by (rule binder_le.post_bind[OF post_fold_joins], (erule 9 | rule 9 | simp)+)
       (auto intro!: binder_le.post_return simp: joins_ok_def)
next
  case (23 catalog input low high negated node scope outer expected)
  show ?case unfolding bind_expr.simps
    by (intro post_bind_typed[where catalog = catalog] 23) (auto intro!: binder_le.post_return simp: node_ok_simps)
next
  case (24 catalog input items negated node scope outer expected)
  show ?case unfolding bind_expr.simps
    by (intro post_bind_typed[where catalog = catalog] post_bind_lists[where catalog = catalog]
      binder_le.post_traverse_list binder_le.post_traverse_option, (erule 24 | rule 24 | simp)+) (auto intro!: binder_le.post_return simp: node_ok_simps)
next
  case (25 catalog input subquery negated node scope outer expected)
  show ?case unfolding bind_expr.simps
    by (intro post_bind_typed[where catalog = catalog] 25 binder_le.post_bind[OF post_subquery_single_field])
       (auto intro!: binder_le.post_return simp: node_ok_simps)
next
  case (26 catalog subquery node scope outer expected)
  show ?case unfolding bind_expr.simps
    by (intro post_bind_typed[where catalog = catalog] 26 binder_le.post_bind[OF post_subquery_single_field])
       (auto intro!: binder_le.post_return simp: node_ok_simps)
next
  case (30 catalog items node scope outer expected)
  show ?case unfolding bind_expr.simps
    by (intro post_bind_typed[where catalog = catalog] post_bind_lists[where catalog = catalog]
      binder_le.post_traverse_list binder_le.post_traverse_option, (erule 30 | simp)+) (auto intro!: binder_le.post_return simp: node_ok_simps)
next
  case (31 catalog items node scope outer expected)
  show ?case unfolding bind_expr.simps
    by (intro post_bind_typed[where catalog = catalog] post_bind_lists[where catalog = catalog]
      binder_le.post_traverse_list binder_le.post_traverse_option, (erule 31 | simp)+) (auto intro!: binder_le.post_return simp: node_ok_simps)
next
  case (33 catalog node op left right scope outer)
  then show ?case
    by (cases "is_logical op"; cases "is_arithmetic op")
       (auto intro!: post_bind_typed[where catalog = catalog] binder_le.post_return simp: node_ok_simps
         dest: is_logical_not_arithmetic)
next
  case (34 catalog node f args d filt ov scope outer)
  show ?case
  proof (cases "resolve_signature catalog f")
    case (Some signature)
    then show ?thesis
      by simp (intro post_bind_typed[where catalog = catalog] post_bind_lists[where catalog = catalog]
      binder_le.post_traverse_list binder_le.post_traverse_option post_bind_unit, (erule 34 | rule 34 | simp)+,
        auto intro!: binder_le.post_return simp: node_ok_simps post_warn_backend_specific)
  qed (simp add: post_unsupported_expr)
next
  case (35 catalog node operand whens els scope outer)
  show ?case unfolding bind_case.simps
    by (intro post_bind_typed[where catalog = catalog] post_bind_lists[where catalog = catalog]
      binder_le.post_traverse_list binder_le.post_traverse_option, (erule 35 | rule 35 | rule binder_le.post_return | simp)+)
       (auto intro!: binder_le.post_return simp: node_ok_simps)
qed (auto intro!: post_error_return post_bind_column post_bind_parameter post_unsupported_expr post_bind_wildcard
    post_bind_table_name binder_le.post_return post_bind_unit post_note_null_test bind_literal_ok
    elim!: post_bind_typed
    simp: node_ok_simps BoundProjectionItem_expr_def projection_field_def derived_binding_def split: option.split)

end
