(* ===== verification/QF_Cost.thy ===== *)
theory QF_Cost
  imports QF_Catalog
begin

text \<open>
  The admission cost model of \<^verbatim>\<open>crates/queryfabric-catalog/src/model.rs\<close>: backend features and limits,
  \<^verbatim>\<open>QueryCostEstimate::classify\<close> and \<^verbatim>\<open>DefaultQueryCostModel\<close>, with the record \<^verbatim>\<open>PlanFeatures\<close> of
  \<^verbatim>\<open>features.rs\<close> that it reads. Row, byte and shard counts keep their machine width: the sum of the
  relation sizes wraps as in a release build, the products saturate.
\<close>

section \<open>Plan features and backend capabilities\<close>

record PlanFeatures =
  has_ctes :: bool
  has_recursive_ctes :: bool
  has_derived_tables :: bool
  has_joins :: bool
  has_windows :: bool
  has_set_operations :: bool
  has_aggregates :: bool
  has_distinct_aggregates :: bool
  has_scalar_subqueries :: bool
  has_in_subqueries :: bool
  has_clickhouse_settings :: bool
  has_clickhouse_format :: bool
  has_limit_offset :: bool
  unsupported_set_ops :: "string list"
  pf_functions :: "FunctionRef list"

definition PlanFeatures_default :: PlanFeatures where
  "PlanFeatures_default =
     \<lparr>has_ctes = False, has_recursive_ctes = False, has_derived_tables = False, has_joins = False,
      has_windows = False, has_set_operations = False, has_aggregates = False,
      has_distinct_aggregates = False, has_scalar_subqueries = False, has_in_subqueries = False,
      has_clickhouse_settings = False, has_clickhouse_format = False, has_limit_offset = False,
      unsupported_set_ops = [], pf_functions = []\<rparr>"

datatype BackendFeature =
    CommonTableExpressions | DerivedTables | Joins | Windows | SetOperations | Aggregates
  | DistinctAggregates | ScalarSubqueries | InSubqueries | NamespacedFunctions
  | ApproximateAggregates | Explain | LimitOffset | IsolatedExecution | UuidToStringInArrowOutput

primrec BackendFeature_index :: "BackendFeature \<Rightarrow> nat" where
  "BackendFeature_index CommonTableExpressions = 0"
| "BackendFeature_index DerivedTables = 1"
| "BackendFeature_index BackendFeature.Joins = 2"
| "BackendFeature_index Windows = 3"
| "BackendFeature_index SetOperations = 4"
| "BackendFeature_index Aggregates = 5"
| "BackendFeature_index DistinctAggregates = 6"
| "BackendFeature_index ScalarSubqueries = 7"
| "BackendFeature_index InSubqueries = 8"
| "BackendFeature_index NamespacedFunctions = 9"
| "BackendFeature_index ApproximateAggregates = 10"
| "BackendFeature_index Explain = 11"
| "BackendFeature_index LimitOffset = 12"
| "BackendFeature_index IsolatedExecution = 13"
| "BackendFeature_index UuidToStringInArrowOutput = 14"

lemma BackendFeature_index_inj [simp]: "BackendFeature_index a = BackendFeature_index b \<longleftrightarrow> a = b"
  by (cases a; cases b; simp)

instantiation BackendFeature :: linorder
begin

definition less_eq_BackendFeature :: "BackendFeature \<Rightarrow> BackendFeature \<Rightarrow> bool" where
  "less_eq_BackendFeature a b \<longleftrightarrow> BackendFeature_index a \<le> BackendFeature_index b"

definition less_BackendFeature :: "BackendFeature \<Rightarrow> BackendFeature \<Rightarrow> bool" where
  "less_BackendFeature a b \<longleftrightarrow> BackendFeature_index a < BackendFeature_index b"

instance
  by intro_classes (auto simp: less_eq_BackendFeature_def less_BackendFeature_def)

end

datatype ResultDeliveryFormat = ArrowIpc | Parquet | Csv | Json

primrec ResultDeliveryFormat_index :: "ResultDeliveryFormat \<Rightarrow> nat" where
  "ResultDeliveryFormat_index ArrowIpc = 0"
| "ResultDeliveryFormat_index Parquet = 1"
| "ResultDeliveryFormat_index Csv = 2"
| "ResultDeliveryFormat_index Json = 3"

lemma ResultDeliveryFormat_index_inj [simp]:
  "ResultDeliveryFormat_index a = ResultDeliveryFormat_index b \<longleftrightarrow> a = b"
  by (cases a; cases b; simp)

instantiation ResultDeliveryFormat :: linorder
begin

definition less_eq_ResultDeliveryFormat :: "ResultDeliveryFormat \<Rightarrow> ResultDeliveryFormat \<Rightarrow> bool" where
  "less_eq_ResultDeliveryFormat a b \<longleftrightarrow> ResultDeliveryFormat_index a \<le> ResultDeliveryFormat_index b"

definition less_ResultDeliveryFormat :: "ResultDeliveryFormat \<Rightarrow> ResultDeliveryFormat \<Rightarrow> bool" where
  "less_ResultDeliveryFormat a b \<longleftrightarrow> ResultDeliveryFormat_index a < ResultDeliveryFormat_index b"

instance
  by intro_classes (auto simp: less_eq_ResultDeliveryFormat_def less_ResultDeliveryFormat_def)

end

record BackendExecutionLimits =
  bl_max_rows :: "u64 option"
  bl_max_bytes_scanned :: "u64 option"
  bl_max_result_bytes :: "u64 option"
  bl_max_concurrent_queries :: "u32 option"
  bl_interactive_byte_limit :: u64
  bl_batch_byte_limit :: u64

definition BackendExecutionLimits_default :: BackendExecutionLimits where
  "BackendExecutionLimits_default =
     \<lparr>bl_max_rows = None, bl_max_bytes_scanned = None, bl_max_result_bytes = None,
      bl_max_concurrent_queries = None, bl_interactive_byte_limit = 512 * 1024 * 1024,
      bl_batch_byte_limit = 16 * 1024 * 1024 * 1024\<rparr>"

record CapabilitySet =
  cap_features :: "BackendFeature list"
  cap_limits :: "BackendExecutionLimits option"
  cap_result_formats :: "ResultDeliveryFormat list"
  cap_async_export :: bool
  cap_federated_execution :: bool

definition CapabilitySet_default :: CapabilitySet where
  "CapabilitySet_default =
     \<lparr>cap_features = [], cap_limits = None, cap_result_formats = [], cap_async_export = False,
      cap_federated_execution = False\<rparr>"

definition from_features :: "BackendFeature list \<Rightarrow> CapabilitySet" where
  "from_features fs = CapabilitySet_default\<lparr>cap_features := bs_extend [] fs\<rparr>"

definition supports :: "CapabilitySet \<Rightarrow> BackendFeature \<Rightarrow> bool" where
  "supports c f \<longleftrightarrow> List.member (cap_features c) f"

definition with_limits :: "BackendExecutionLimits \<Rightarrow> CapabilitySet \<Rightarrow> CapabilitySet" where
  "with_limits limits c = c\<lparr>cap_limits := Some limits\<rparr>"

definition with_result_formats :: "ResultDeliveryFormat list \<Rightarrow> CapabilitySet \<Rightarrow> CapabilitySet" where
  "with_result_formats formats c = c\<lparr>cap_result_formats := bs_extend [] formats\<rparr>"

definition with_async_export :: "bool \<Rightarrow> CapabilitySet \<Rightarrow> CapabilitySet" where
  "with_async_export enabled c = c\<lparr>cap_async_export := enabled\<rparr>"

definition with_federated_execution :: "bool \<Rightarrow> CapabilitySet \<Rightarrow> CapabilitySet" where
  "with_federated_execution enabled c = c\<lparr>cap_federated_execution := enabled\<rparr>"

section \<open>Estimates\<close>

datatype ResultDeliveryMode =
  InteractiveStream | PagedResult | AsyncMaterializedExport | RejectedOverBudget

datatype EstimatedCostClass = Low | Medium | High | Unknown

datatype QueryTimeoutClass = Interactive | Batch | Export

record QueryCostEstimate =
  qe_estimated_rows :: u64
  qe_estimated_bytes :: u64
  qe_estimated_shards :: u32
  qe_timeout_class :: QueryTimeoutClass
  qe_execution_mode :: ResultDeliveryMode
  qe_async_required :: bool
  qe_diagnostics :: "string list"

definition classify :: "u64 \<Rightarrow> u64 \<Rightarrow> u32 \<Rightarrow> u64 \<Rightarrow> u64 \<Rightarrow> QueryCostEstimate" where
  "classify estimated_rows estimated_bytes estimated_shards interactive_byte_limit export_byte_limit =
     (let timeout_class =
            (if estimated_bytes \<le> interactive_byte_limit then Interactive
             else if estimated_bytes \<le> export_byte_limit then Batch else Export);
          execution_mode =
            (case timeout_class of Interactive \<Rightarrow> InteractiveStream | Batch \<Rightarrow> PagedResult
             | Export \<Rightarrow> AsyncMaterializedExport)
      in \<lparr>qe_estimated_rows = estimated_rows, qe_estimated_bytes = estimated_bytes,
          qe_estimated_shards = estimated_shards, qe_timeout_class = timeout_class,
          qe_execution_mode = execution_mode,
          qe_async_required = (timeout_class \<noteq> Interactive), qe_diagnostics = []\<rparr>)"

record QueryCostInput =
  ci_plan_features :: PlanFeatures
  ci_relations :: "RelationStatistics list"
  ci_selected_columns :: u32
  ci_row_limit :: "u64 option"
  ci_estimated_filter_selectivity_ppm :: u32
  ci_default_row_bytes :: u64
  ci_default_shards :: u32
  ci_backend_capabilities :: CapabilitySet

definition QueryCostInput_default :: QueryCostInput where
  "QueryCostInput_default =
     \<lparr>ci_plan_features = PlanFeatures_default, ci_relations = [], ci_selected_columns = 16,
      ci_row_limit = None, ci_estimated_filter_selectivity_ppm = 1000000,
      ci_default_row_bytes = 64, ci_default_shards = 1,
      ci_backend_capabilities = CapabilitySet_default\<rparr>"

text \<open>\<^verbatim>\<open>u64::saturating_mul\<close> and \<^verbatim>\<open>Ord::clamp\<close>.\<close>

definition saturating_mul :: "u64 \<Rightarrow> u64 \<Rightarrow> u64" where
  "saturating_mul a b = (if unat a * unat b < 2 ^ 64 then a * b else - 1)"

definition clamp :: "'a::linorder \<Rightarrow> 'a \<Rightarrow> 'a \<Rightarrow> 'a" where
  "clamp x low high = (if x < low then low else if x > high then high else x)"

definition estimate_relation_rows :: "QueryCostInput \<Rightarrow> u64" where
  "estimate_relation_rows input =
     max (sum_list (map st_estimated_rows (ci_relations input)))
       (case ci_row_limit input of Some n \<Rightarrow> n | None \<Rightarrow> 1000000)"

definition estimate_rows :: "QueryCostInput \<Rightarrow> u64" where
  "estimate_rows input =
     (let selectivity_ppm = ucast (clamp (ci_estimated_filter_selectivity_ppm input) 1 1000000);
          rows = saturating_mul (estimate_relation_rows input) selectivity_ppm div 1000000;
          rows = (case ci_row_limit input of Some limit \<Rightarrow> min rows limit | None \<Rightarrow> rows)
      in max rows 1)"

definition estimate_bytes :: "QueryCostInput \<Rightarrow> u64" where
  "estimate_bytes input =
     (let selected_columns = ucast (max (ci_selected_columns input) 1);
          average_row_bytes =
            max (case reduce max (map st_average_row_bytes (ci_relations input)) of
                   Some n \<Rightarrow> n | None \<Rightarrow> ci_default_row_bytes input) 1
      in saturating_mul (saturating_mul (estimate_rows input) selected_columns) average_row_bytes)"

definition estimate_shards :: "QueryCostInput \<Rightarrow> u32" where
  "estimate_shards input =
     max (case reduce max (List.map_filter st_shard_count (ci_relations input)) of
            Some n \<Rightarrow> n | None \<Rightarrow> ci_default_shards input) 1"

definition cost_limits :: "QueryCostInput \<Rightarrow> BackendExecutionLimits" where
  "cost_limits input =
     (case cap_limits (ci_backend_capabilities input) of Some l \<Rightarrow> l
      | None \<Rightarrow> BackendExecutionLimits_default)"

definition is_some_and :: "'a option \<Rightarrow> ('a \<Rightarrow> bool) \<Rightarrow> bool" where
  "is_some_and v p = (case v of Some x \<Rightarrow> p x | None \<Rightarrow> False)"

definition over_limits :: "QueryCostInput \<Rightarrow> bool" where
  "over_limits input \<longleftrightarrow>
     is_some_and (bl_max_bytes_scanned (cost_limits input)) (\<lambda>limit. estimate_bytes input > limit) \<or>
     is_some_and (bl_max_rows (cost_limits input)) (\<lambda>limit. estimate_rows input > limit)"

definition conservative_message :: string where
  "conservative_message =
     ''plan contains joins/windows; interactive execution should be treated conservatively''"

definition over_limits_message :: string where
  "over_limits_message = ''estimated query exceeds backend execution limits''"

definition push_cost_diagnostic :: "string \<Rightarrow> QueryCostEstimate \<Rightarrow> QueryCostEstimate" where
  "push_cost_diagnostic d e = e\<lparr>qe_diagnostics := qe_diagnostics e @ [d]\<rparr>"

definition treat_conservatively :: "QueryCostEstimate \<Rightarrow> QueryCostEstimate" where
  "treat_conservatively e =
     (if qe_timeout_class e = Interactive
      then e\<lparr>qe_timeout_class := Batch, qe_execution_mode := PagedResult, qe_async_required := True\<rparr>
      else e)"

definition estimate :: "QueryCostInput \<Rightarrow> QueryCostEstimate" where
  "estimate input =
     (let limits = cost_limits input;
          e0 = classify (estimate_rows input) (estimate_bytes input) (estimate_shards input)
                 (bl_interactive_byte_limit limits) (bl_batch_byte_limit limits);
          e1 = (if has_joins (ci_plan_features input) \<or> has_windows (ci_plan_features input)
                then treat_conservatively (push_cost_diagnostic conservative_message e0) else e0)
      in if over_limits input
         then push_cost_diagnostic over_limits_message
                (e1\<lparr>qe_execution_mode := RejectedOverBudget, qe_async_required := True\<rparr>)
         else e1)"

section \<open>Bounds and classification\<close>

lemma unat_max_u64: "unat (- 1 :: u64) = 2 ^ 64 - 1"
  by (simp add: unsigned_minus_1_eq_mask mask_eq_exp_minus_1)

lemma unat_u64_le: "unat (a :: u64) \<le> 2 ^ 64 - 1"
  using unsigned_less[of a, where 'a = nat] by simp

lemma unat_saturating_mul: "unat (saturating_mul a b) = min (unat a * unat b) (2 ^ 64 - 1)"
  by (auto simp: saturating_mul_def unat_word_ariths unat_max_u64)

lemma saturating_mul_ge: "1 \<le> b \<Longrightarrow> a \<le> saturating_mul a b"
proof -
  assume "1 \<le> b"
  then have "1 \<le> unat b" by (simp add: word_le_nat_alt)
  then have "unat a * 1 \<le> unat a * unat b" by (rule mult_le_mono2)
  then show ?thesis using unat_u64_le[of a] by (simp add: word_le_nat_alt unat_saturating_mul)
qed

lemma saturating_mul_mono: "a \<le> a' \<Longrightarrow> b \<le> b' \<Longrightarrow> saturating_mul a b \<le> saturating_mul a' b'"
  using mult_le_mono[of "unat a" "unat a'" "unat b" "unat b'"]
  by (simp add: word_le_nat_alt unat_saturating_mul min_le_iff_disj)

lemma ucast_mono_u32: "a \<le> b \<Longrightarrow> (ucast a :: u64) \<le> ucast (b :: u32)"
  by (simp add: word_le_nat_alt unsigned_ucast_eq) (simp add: take_bit_nat_eq_self unsigned_less[THEN less_trans])

lemma ucast_ge_one: "1 \<le> a \<Longrightarrow> 1 \<le> (ucast (a :: u32) :: u64)"
  using ucast_mono_u32[of 1 a] by simp

lemma word_div_mono: "(a :: u64) \<le> b \<Longrightarrow> a div c \<le> b div c"
  by (simp add: word_le_nat_alt unat_div div_le_mono)

lemma clamp_mono: "x \<le> y \<Longrightarrow> low \<le> high \<Longrightarrow> clamp x low high \<le> clamp y low high"
  by (auto simp: clamp_def)

lemma estimate_sel [simp]:
  "qe_estimated_rows (estimate input) = estimate_rows input"
  "qe_estimated_bytes (estimate input) = estimate_bytes input"
  "qe_estimated_shards (estimate input) = estimate_shards input"
  by (simp_all add: estimate_def Let_def classify_def treat_conservatively_def push_cost_diagnostic_def)

lemma estimate_rows_ge_one: "1 \<le> estimate_rows input"
  by (simp add: estimate_rows_def Let_def)

lemma estimate_rows_le_limit: "ci_row_limit input = Some l \<Longrightarrow> estimate_rows input \<le> max l 1"
  by (auto simp: estimate_rows_def Let_def min_le_iff_disj le_max_iff_disj)

lemma estimate_rows_le_bytes: "estimate_rows input \<le> estimate_bytes input"
proof -
  have "estimate_rows input \<le> saturating_mul (estimate_rows input) (ucast (max (ci_selected_columns input) 1))"
    by (rule saturating_mul_ge) (rule ucast_ge_one, simp)
  also have "\<dots> \<le> estimate_bytes input"
    unfolding estimate_bytes_def Let_def by (rule saturating_mul_ge) simp
  finally show ?thesis .
qed

text \<open>
  Every estimate counts at least one row and one shard, at least one byte per row, and never
  more rows than the query's row limit (or one row, when the limit is zero).
\<close>

theorem cost_estimate_bounds:
  "1 \<le> qe_estimated_rows (estimate input) \<and> 1 \<le> qe_estimated_shards (estimate input) \<and>
   qe_estimated_rows (estimate input) \<le> qe_estimated_bytes (estimate input) \<and>
   (\<forall>l. ci_row_limit input = Some l \<longrightarrow> qe_estimated_rows (estimate input) \<le> max l 1)"
  using estimate_rows_ge_one estimate_rows_le_bytes estimate_rows_le_limit
  by (simp add: estimate_shards_def)

theorem cost_estimate_bounds_witness:
  "qe_estimated_rows (estimate (QueryCostInput_default\<lparr>ci_row_limit := Some 50\<rparr>)) \<le> 50"
proof -
  have "max (50 :: u64) 1 = 50" by (simp add: max_def word_le_nat_alt)
  then show ?thesis
    using cost_estimate_bounds[of "QueryCostInput_default\<lparr>ci_row_limit := Some 50\<rparr>"] by simp
qed

text \<open>
  The delivery mode in closed form: over the backend's row or byte limits the query is rejected;
  otherwise it streams interactively only when its bytes fit the interactive limit and the plan has
  neither joins nor windows, is paged when its bytes fit the interactive or the batch limit, and is
  exported otherwise. Asynchronous execution is required in every mode but the interactive one.
\<close>

theorem cost_estimate_mode:
  "qe_execution_mode (estimate input) =
     (if over_limits input then RejectedOverBudget
      else if estimate_bytes input \<le> bl_interactive_byte_limit (cost_limits input) \<and>
              \<not> (has_joins (ci_plan_features input) \<or> has_windows (ci_plan_features input))
        then InteractiveStream
      else if estimate_bytes input \<le> bl_interactive_byte_limit (cost_limits input) \<or>
              estimate_bytes input \<le> bl_batch_byte_limit (cost_limits input)
        then PagedResult
      else AsyncMaterializedExport) \<and>
   (qe_async_required (estimate input) \<longleftrightarrow> qe_execution_mode (estimate input) \<noteq> InteractiveStream)"
  by (auto simp: estimate_def Let_def classify_def treat_conservatively_def push_cost_diagnostic_def)

lemma estimate_rows_mono_selectivity:
  assumes "s \<le> s'"
  shows "estimate_rows (input\<lparr>ci_estimated_filter_selectivity_ppm := s\<rparr>) \<le>
    estimate_rows (input\<lparr>ci_estimated_filter_selectivity_ppm := s'\<rparr>)"
proof -
  define Q where
    "Q t = saturating_mul (estimate_relation_rows input) (ucast (clamp t 1 1000000)) div 1000000" for t :: u32
  have eq: "estimate_rows (input\<lparr>ci_estimated_filter_selectivity_ppm := t\<rparr>) =
      max (case ci_row_limit input of Some l \<Rightarrow> min (Q t) l | None \<Rightarrow> Q t) 1" for t
    by (simp add: estimate_rows_def estimate_relation_rows_def Let_def Q_def split: option.split)
  have "Q s \<le> Q s'" unfolding Q_def
    by (intro word_div_mono saturating_mul_mono ucast_mono_u32 clamp_mono assms) simp_all
  then show ?thesis unfolding eq
    by (intro max.mono) (auto split: option.split intro: min.mono simp: min.coboundedI1)
qed

text \<open>
  The estimate is monotone in the filter selectivity: assuming that more rows survive the
  filter never lowers the estimated rows or bytes.
\<close>

theorem cost_estimate_mono_selectivity:
  assumes "s \<le> s'"
  shows "qe_estimated_rows (estimate (input\<lparr>ci_estimated_filter_selectivity_ppm := s\<rparr>)) \<le>
      qe_estimated_rows (estimate (input\<lparr>ci_estimated_filter_selectivity_ppm := s'\<rparr>)) \<and>
    qe_estimated_bytes (estimate (input\<lparr>ci_estimated_filter_selectivity_ppm := s\<rparr>)) \<le>
      qe_estimated_bytes (estimate (input\<lparr>ci_estimated_filter_selectivity_ppm := s'\<rparr>))"
  using estimate_rows_mono_selectivity[OF assms, of input]
  by (simp add: estimate_bytes_def Let_def cong: option.case_cong) (intro saturating_mul_mono order_refl)

theorem cost_estimate_mono_selectivity_witness:
  "(10 :: u32) \<le> 20 \<and>
   qe_estimated_rows (estimate (QueryCostInput_default\<lparr>ci_estimated_filter_selectivity_ppm := 10\<rparr>)) \<le>
     qe_estimated_rows (estimate (QueryCostInput_default\<lparr>ci_estimated_filter_selectivity_ppm := 20\<rparr>))"
  using cost_estimate_mono_selectivity[of 10 20 QueryCostInput_default] by simp

text \<open>
  Without a row limit, statistics that add up to at most a million rows do not influence the
  row estimate: the query is charged as if nothing were known about its relations.
\<close>

theorem small_statistics_ignored:
  assumes "ci_row_limit input = None"
    and "sum_list (map st_estimated_rows (ci_relations input)) \<le> 1000000"
  shows "qe_estimated_rows (estimate input) = qe_estimated_rows (estimate (input\<lparr>ci_relations := []\<rparr>))"
  using assms by (simp add: estimate_rows_def estimate_relation_rows_def Let_def max_def)

definition tiny_relation :: RelationStatistics where
  "tiny_relation = \<lparr>st_relation = ''units'', st_estimated_rows = 10, st_average_row_bytes = 8, st_shard_count = None\<rparr>"

theorem small_statistics_ignored_witness:
  "qe_estimated_rows (estimate (QueryCostInput_default\<lparr>ci_relations := [tiny_relation]\<rparr>)) =
     qe_estimated_rows (estimate (QueryCostInput_default\<lparr>ci_relations := []\<rparr>))"
  using small_statistics_ignored[of "QueryCostInput_default\<lparr>ci_relations := [tiny_relation]\<rparr>"]
  by (simp add: QueryCostInput_default_def tiny_relation_def)

end
