(* ===== verification/QF_Features.thy ===== *)
theory QF_Features
  imports QF_Cost QF_Bind
begin

text \<open>
  Plan features and capability requirements: \<^verbatim>\<open>crates/queryfabric-catalog/src/features.rs\<close> and
  \<^verbatim>\<open>capability_requirements_from_plan\<close> of \<^verbatim>\<open>bind/query.rs\<close>. The visitors that take
  \<^verbatim>\<open>&mut PlanFeatures\<close> return the updated record.
\<close>

section \<open>The visitors\<close>

text \<open>The \<^verbatim>\<open>if let Some(x) = ...\<close> of the visitors.\<close>

fun visit_option :: "('a \<Rightarrow> 'f \<Rightarrow> 'f) \<Rightarrow> 'a option \<Rightarrow> 'f \<Rightarrow> 'f" where
  "visit_option visit None f = f"
| "visit_option visit (Some x) f = visit x f"

lemma visit_option_cong [fundef_cong]:
  assumes "v = w" and "f = g" and "\<And>x h. w = Some x \<Longrightarrow> visit x h = visit' x h"
  shows "visit_option visit v f = visit_option visit' w g"
  using assms by (cases w) auto

definition merge_plan_features :: "PlanFeatures \<Rightarrow> PlanFeatures \<Rightarrow> PlanFeatures" where
  "merge_plan_features other target =
     \<lparr>has_ctes = (has_ctes target \<or> has_ctes other),
      has_recursive_ctes = (has_recursive_ctes target \<or> has_recursive_ctes other),
      has_derived_tables = (has_derived_tables target \<or> has_derived_tables other),
      has_joins = (has_joins target \<or> has_joins other),
      has_windows = (has_windows target \<or> has_windows other),
      has_set_operations = (has_set_operations target \<or> has_set_operations other),
      has_aggregates = (has_aggregates target \<or> has_aggregates other),
      has_distinct_aggregates = (has_distinct_aggregates target \<or> has_distinct_aggregates other),
      has_scalar_subqueries = (has_scalar_subqueries target \<or> has_scalar_subqueries other),
      has_in_subqueries = (has_in_subqueries target \<or> has_in_subqueries other),
      has_clickhouse_settings = (has_clickhouse_settings target \<or> has_clickhouse_settings other),
      has_clickhouse_format = (has_clickhouse_format target \<or> has_clickhouse_format other),
      has_limit_offset = (has_limit_offset target \<or> has_limit_offset other),
      unsupported_set_ops = unsupported_set_ops target @ unsupported_set_ops other,
      pf_functions = bs_extend (pf_functions target) (pf_functions other)\<rparr>"

definition query_level_features ::
  "bool \<Rightarrow> bool \<Rightarrow> BackendClause list \<Rightarrow> bool \<Rightarrow> PlanFeatures" where
  "query_level_features ctes recursive clauses limit_offset =
     PlanFeatures_default\<lparr>has_ctes := ctes, has_recursive_ctes := recursive,
       has_clickhouse_settings := list_ex is_ClickHouseSettings_clause clauses,
       has_clickhouse_format := list_ex is_ClickHouseFormat_clause clauses,
       has_limit_offset := limit_offset\<rparr>"

definition syntactic_aggregates :: "string list" where
  "syntactic_aggregates =
     [''count'', ''sum'', ''avg'', ''min'', ''max'', ''quantile'', ''avg_merge'', ''count_merge'', ''sum_merge'']"

definition note_syntax_function :: "'e SyntaxFunctionCall \<Rightarrow> PlanFeatures \<Rightarrow> PlanFeatures" where
  "note_syntax_function f features =
     (let features = features\<lparr>pf_functions := bs_insert (sf_function f) (pf_functions features)\<rparr>;
          features = (if sf_distinct f then features\<lparr>has_distinct_aggregates := True\<rparr> else features);
          features = (if sf_over f \<noteq> None then features\<lparr>has_windows := True\<rparr> else features)
      in if List.member syntactic_aggregates (fr_name (sf_function f))
         then features\<lparr>has_aggregates := True\<rparr> else features)"

definition note_joins :: "bool \<Rightarrow> PlanFeatures \<Rightarrow> PlanFeatures" where
  "note_joins joined features = (if joined then features\<lparr>has_joins := True\<rparr> else features)"

lemma size_table_parts:
  "size (st_relation t) < size_SyntaxTableWithJoins size size t"
  "j \<in> set (st_joins t) \<Longrightarrow> size (sj_relation j) < size_SyntaxTableWithJoins size size t"
  "j \<in> set (st_joins t) \<Longrightarrow> sj_on j = Some e \<Longrightarrow> size e < size_SyntaxTableWithJoins size size t"
  by (cases t; auto dest: size_join_mem)+

lemma size_table_mem:
  "t \<in> set ts \<Longrightarrow> size (st_relation t) < size_list (size_SyntaxTableWithJoins size size) ts"
  "j \<in> set (st_joins t) \<Longrightarrow> t \<in> set ts \<Longrightarrow> size (sj_relation j) < size_list (size_SyntaxTableWithJoins size size) ts"
  "sj_on j = Some e \<Longrightarrow> j \<in> set (st_joins t) \<Longrightarrow> t \<in> set ts \<Longrightarrow>
     size e < size_list (size_SyntaxTableWithJoins size size) ts"
  by (blast intro: less_le_trans[OF _ size_list_mem_le] size_table_parts)+

lemma size_argument: "e \<in> set (sf_args f) \<Longrightarrow> size e < size_SyntaxFunctionCall size f"
  by (cases f) (auto dest: size_list_mem_le[of e _ size])

lemma size_projected:
  "d \<in> set (List.map_filter SyntaxProjectionItem_as_expr xs) \<Longrightarrow>
     size (sp_expr d) < size_list (size_SyntaxProjectionItem size) xs"
  by (auto simp: List.map_filter_def intro: size_projection_mem)

lemmas visit_size_dests =
  size_table_mem size_argument size_projected size_list_mem_le[where f = size] size_when_then_mem size_join_mem
  size_cte_mem

function plan_features_from_syntax :: "SyntaxQuery \<Rightarrow> PlanFeatures"
  and visit_syntax_set_expr :: "SyntaxSetExpr \<Rightarrow> PlanFeatures \<Rightarrow> PlanFeatures"
  and visit_syntax_select :: "(SyntaxExpr, SyntaxRelation) SyntaxSelect \<Rightarrow> PlanFeatures \<Rightarrow> PlanFeatures"
  and visit_syntax_relation :: "SyntaxRelation \<Rightarrow> PlanFeatures \<Rightarrow> PlanFeatures"
  and visit_syntax_expr :: "SyntaxExpr \<Rightarrow> PlanFeatures \<Rightarrow> PlanFeatures"
where
  "plan_features_from_syntax (SyntaxQuery node ctes with_recursive body order_by limit offset clauses) =
     fold (\<lambda>cte features. merge_plan_features (plan_features_from_syntax (sc_query cte)) features) ctes
       (visit_syntax_set_expr body
         (query_level_features (ctes \<noteq> []) with_recursive clauses (limit \<noteq> None \<or> offset \<noteq> None)))"
| "visit_syntax_set_expr (SyntaxSetExpr.Select select) features = visit_syntax_select select features"
| "visit_syntax_set_expr (SyntaxSetExpr.UnionAll left right node) features =
     visit_syntax_set_expr right (visit_syntax_set_expr left (features\<lparr>has_set_operations := True\<rparr>))"
| "visit_syntax_set_expr (SyntaxSetExpr.Unsupported description node) features =
     features\<lparr>unsupported_set_ops := unsupported_set_ops features @ [description]\<rparr>"
| "visit_syntax_select (SyntaxSelect distinct' projection tables selection group_by having node) features =
     visit_option visit_syntax_expr having
      (fold visit_syntax_expr group_by
       (visit_option visit_syntax_expr selection
        (fold (\<lambda>table f.
            fold (\<lambda>join f. visit_option visit_syntax_expr (sj_on join) (visit_syntax_relation (sj_relation join) f))
              (st_joins table)
              (visit_syntax_relation (st_relation table) (note_joins (st_joins table \<noteq> []) f))) tables
         (fold (\<lambda>details. visit_syntax_expr (sp_expr details))
           (List.map_filter SyntaxProjectionItem_as_expr projection) features))))"
| "visit_syntax_relation (SyntaxRelation.Table name alias node) features = features"
| "visit_syntax_relation (SyntaxRelation.Derived query alias node) features =
     merge_plan_features (plan_features_from_syntax query) (features\<lparr>has_derived_tables := True\<rparr>)"
| "visit_syntax_relation (SyntaxRelation.NestedJoin (SyntaxTableWithJoins relation joins table_node) alias node) features =
     fold (\<lambda>join f. visit_syntax_relation (sj_relation join) f) joins
       (visit_syntax_relation relation (features\<lparr>has_derived_tables := True\<rparr>))"
| "visit_syntax_relation (SyntaxRelation.Unsupported description node) features = features"
| "visit_syntax_expr (SyntaxExpr (SyntaxExprKind.Binary op left right) node) features =
     visit_syntax_expr right (visit_syntax_expr left features)"
| "visit_syntax_expr (SyntaxExpr (SyntaxExprKind.Unary op e) node) features = visit_syntax_expr e features"
| "visit_syntax_expr (SyntaxExpr (SyntaxExprKind.Cast e t) node) features = visit_syntax_expr e features"
| "visit_syntax_expr (SyntaxExpr (SyntaxExprKind.IsNull e negated) node) features = visit_syntax_expr e features"
| "visit_syntax_expr (SyntaxExpr (SyntaxExprKind.Function f) node) features =
     fold visit_syntax_expr (sf_args f) (note_syntax_function f features)"
| "visit_syntax_expr (SyntaxExpr (SyntaxExprKind.Case operand when_then else_result) node) features =
     visit_option visit_syntax_expr else_result
      (fold (\<lambda>pair f. visit_syntax_expr (sw_result pair) (visit_syntax_expr (sw_condition pair) f)) when_then
        (visit_option visit_syntax_expr operand features))"
| "visit_syntax_expr (SyntaxExpr (SyntaxExprKind.Between e low high negated) node) features =
     visit_syntax_expr high (visit_syntax_expr low (visit_syntax_expr e features))"
| "visit_syntax_expr (SyntaxExpr (SyntaxExprKind.InList e items negated) node) features =
     fold visit_syntax_expr items (visit_syntax_expr e features)"
| "visit_syntax_expr (SyntaxExpr (SyntaxExprKind.InSubquery e subquery negated) node) features =
     merge_plan_features (plan_features_from_syntax subquery)
       (visit_syntax_expr e (features\<lparr>has_in_subqueries := True\<rparr>))"
| "visit_syntax_expr (SyntaxExpr (SyntaxExprKind.ScalarSubquery subquery) node) features =
     merge_plan_features (plan_features_from_syntax subquery) (features\<lparr>has_scalar_subqueries := True\<rparr>)"
| "visit_syntax_expr (SyntaxExpr (SyntaxExprKind.Exists subquery) node) features =
     merge_plan_features (plan_features_from_syntax subquery) (features\<lparr>has_scalar_subqueries := True\<rparr>)"
| "visit_syntax_expr (SyntaxExpr (SyntaxExprKind.Like e pattern negated case_insensitive) node) features =
     visit_syntax_expr pattern (visit_syntax_expr e features)"
| "visit_syntax_expr (SyntaxExpr (SyntaxExprKind.Tuple items) node) features = fold visit_syntax_expr items features"
| "visit_syntax_expr (SyntaxExpr (SyntaxExprKind.Array items) node) features = fold visit_syntax_expr items features"
| "visit_syntax_expr (SyntaxExpr (SyntaxExprKind.Column relation name) node) features = features"
| "visit_syntax_expr (SyntaxExpr (SyntaxExprKind.Literal value) node) features = features"
| "visit_syntax_expr (SyntaxExpr (SyntaxExprKind.Parameter reference) node) features = features"
| "visit_syntax_expr (SyntaxExpr (SyntaxExprKind.Unsupported description) node) features = features"
  by pat_completeness auto
termination
  by (relation "measure (case_sum
        (case_sum size (\<lambda>(e, _). size e))
        (case_sum (\<lambda>(s, _). size_SyntaxSelect size size s) (case_sum (\<lambda>(r, _). size r) (\<lambda>(e, _). size e))))")
    (auto dest: visit_size_dests)


definition note_bound_function :: "Catalog \<Rightarrow> 'e BoundFunctionCall \<Rightarrow> PlanFeatures \<Rightarrow> PlanFeatures" where
  "note_bound_function catalog f features =
     (let features = features\<lparr>pf_functions := bs_insert (bf_function f) (pf_functions features)\<rparr>;
          features =
            (case cat_resolve_function catalog (fr_namespace (bf_function f)) (fr_name (bf_function f)) of
               Some signature \<Rightarrow>
                 (let features =
                    (case fs_kind signature of
                       Aggregate \<Rightarrow> features\<lparr>has_aggregates := True\<rparr>
                     | Window \<Rightarrow> features\<lparr>has_windows := True\<rparr>
                     | Scalar \<Rightarrow> features)
                  in if metadata_flag signature ''approximate'' then features\<lparr>has_aggregates := True\<rparr>
                     else features)
             | None \<Rightarrow> features);
          features = (if bf_distinct f then features\<lparr>has_distinct_aggregates := True\<rparr> else features)
      in if bf_over f \<noteq> None then features\<lparr>has_windows := True\<rparr> else features)"

lemma size_bound_table_parts:
  "size (btj_relation t) < size_BoundTableWithJoins size size t"
  "j \<in> set (btj_joins t) \<Longrightarrow> size (bj_relation j) < size_BoundTableWithJoins size size t"
  "j \<in> set (btj_joins t) \<Longrightarrow> bj_on j = Some e \<Longrightarrow> size e < size_BoundTableWithJoins size size t"
  by (rule size_bound_table; cases t; cases j; force)+

lemma size_bound_table_mem:
  "t \<in> set ts \<Longrightarrow> size (btj_relation t) < size_list (size_BoundTableWithJoins size size) ts"
  "j \<in> set (btj_joins t) \<Longrightarrow> t \<in> set ts \<Longrightarrow> size (bj_relation j) < size_list (size_BoundTableWithJoins size size) ts"
  "bj_on j = Some e \<Longrightarrow> j \<in> set (btj_joins t) \<Longrightarrow> t \<in> set ts \<Longrightarrow>
     size e < size_list (size_BoundTableWithJoins size size) ts"
  by (blast intro: less_le_trans[OF _ size_bound_list_mem_le] size_bound_table_parts)+

lemma size_bound_join_parts:
  "j \<in> set js \<Longrightarrow> size (bj_relation j) < size_list (size_BoundJoin size size) js"
  by (rule size_bound_joins_mem; (assumption | rule BoundJoin.set_sel))

lemma size_bound_argument: "e \<in> set (bf_args f) \<Longrightarrow> size e < size_BoundFunctionCall size f"
  by (rule size_bound_function) (cases f, simp)

lemma size_bound_projected:
  "d \<in> set (List.map_filter BoundProjectionItem_as_expr xs) \<Longrightarrow>
     size (bpe_expr d) < size_list (size_BoundProjectionItem size) xs"
  by (cases d) (auto simp: List.map_filter_def BoundProjectionItem_as_expr_def split: BoundProjectionItem.splits
      intro!: size_bound_item_mem)

lemma size_bound_when_parts:
  "w \<in> set ws \<Longrightarrow> size (bwt_condition w) < size_list (size_BoundWhenThen size) ws"
  "w \<in> set ws \<Longrightarrow> size (bwt_result w) < size_list (size_BoundWhenThen size) ws"
  by (rule size_bound_when_then_mem; (assumption | rule BoundWhenThen.set_sel))+

lemmas bound_visit_size_dests =
  size_bound_table_mem size_bound_join_parts size_bound_argument size_bound_projected
  size_bound_list_mem_le[where f = size] size_bound_when_parts size_bound_cte_mem

function plan_features_from_bound :: "Catalog \<Rightarrow> BoundQueryPlan \<Rightarrow> PlanFeatures"
  and visit_bound_set_expr :: "Catalog \<Rightarrow> BoundSetExpr \<Rightarrow> PlanFeatures \<Rightarrow> PlanFeatures"
  and visit_bound_select :: "Catalog \<Rightarrow> (BoundExpr, BoundRelation) BoundSelect \<Rightarrow> PlanFeatures \<Rightarrow> PlanFeatures"
  and visit_bound_relation :: "Catalog \<Rightarrow> BoundRelation \<Rightarrow> PlanFeatures \<Rightarrow> PlanFeatures"
  and visit_bound_expr :: "Catalog \<Rightarrow> BoundExpr \<Rightarrow> PlanFeatures \<Rightarrow> PlanFeatures"
where
  "plan_features_from_bound catalog (BoundQueryPlan node ctes body order_by limit offset clauses schema) =
     fold (\<lambda>cte features. merge_plan_features (plan_features_from_bound catalog (bc_query cte)) features) ctes
       (visit_bound_set_expr catalog body
         (query_level_features (ctes \<noteq> []) False clauses (limit \<noteq> None \<or> offset \<noteq> None)))"
| "visit_bound_set_expr catalog (BoundSetExpr.Select select) features = visit_bound_select catalog select features"
| "visit_bound_set_expr catalog (BoundSetExpr.UnionAll left right node schema) features =
     visit_bound_set_expr catalog right (visit_bound_set_expr catalog left (features\<lparr>has_set_operations := True\<rparr>))"
| "visit_bound_set_expr catalog (BoundSetExpr.Unsupported description node schema) features = features"
| "visit_bound_select catalog (BoundSelect distinct' projection tables selection group_by having schema node) features =
     visit_option (visit_bound_expr catalog) having
      (fold (visit_bound_expr catalog) group_by
       (visit_option (visit_bound_expr catalog) selection
        (fold (\<lambda>table f.
            fold (\<lambda>join f. visit_option (visit_bound_expr catalog) (bj_on join) (visit_bound_relation catalog (bj_relation join) f))
              (btj_joins table)
              (visit_bound_relation catalog (btj_relation table) (note_joins (btj_joins table \<noteq> []) f))) tables
         (fold (\<lambda>details. visit_bound_expr catalog (bpe_expr details))
           (List.map_filter BoundProjectionItem_as_expr projection) features))))"
| "visit_bound_relation catalog (BoundRelation.Table binding node) features = features"
| "visit_bound_relation catalog (BoundRelation.Derived binding query node) features =
     merge_plan_features (plan_features_from_bound catalog query) (features\<lparr>has_derived_tables := True\<rparr>)"
| "visit_bound_relation catalog (BoundRelation.NestedJoin binding (BoundTableWithJoins relation joins table_node) node) features =
     fold (\<lambda>join f. visit_bound_relation catalog (bj_relation join) f) joins
       (visit_bound_relation catalog relation (features\<lparr>has_derived_tables := True\<rparr>))"
| "visit_bound_relation catalog (BoundRelation.Unsupported description name node) features = features"
| "visit_bound_expr catalog (BoundExpr (BoundExprKind.Binary op left right) data_type nullable node) features =
     visit_bound_expr catalog right (visit_bound_expr catalog left features)"
| "visit_bound_expr catalog (BoundExpr (BoundExprKind.Unary op e) data_type nullable node) features = visit_bound_expr catalog e features"
| "visit_bound_expr catalog (BoundExpr (BoundExprKind.Cast e t) data_type nullable node) features = visit_bound_expr catalog e features"
| "visit_bound_expr catalog (BoundExpr (BoundExprKind.IsNull e negated) data_type nullable node) features = visit_bound_expr catalog e features"
| "visit_bound_expr catalog (BoundExpr (BoundExprKind.Function f) data_type nullable node) features =
     fold (visit_bound_expr catalog) (bf_args f) (note_bound_function catalog f features)"
| "visit_bound_expr catalog (BoundExpr (BoundExprKind.Case operand when_then else_result) data_type nullable node) features =
     visit_option (visit_bound_expr catalog) else_result
      (fold (\<lambda>pair f. visit_bound_expr catalog (bwt_result pair) (visit_bound_expr catalog (bwt_condition pair) f)) when_then
        (visit_option (visit_bound_expr catalog) operand features))"
| "visit_bound_expr catalog (BoundExpr (BoundExprKind.Between e low high negated) data_type nullable node) features =
     visit_bound_expr catalog high (visit_bound_expr catalog low (visit_bound_expr catalog e features))"
| "visit_bound_expr catalog (BoundExpr (BoundExprKind.InList e items negated) data_type nullable node) features =
     fold (visit_bound_expr catalog) items (visit_bound_expr catalog e features)"
| "visit_bound_expr catalog (BoundExpr (BoundExprKind.InSubquery e subquery negated) data_type nullable node) features =
     merge_plan_features (plan_features_from_bound catalog subquery)
       (visit_bound_expr catalog e (features\<lparr>has_in_subqueries := True\<rparr>))"
| "visit_bound_expr catalog (BoundExpr (BoundExprKind.ScalarSubquery subquery) data_type nullable node) features =
     merge_plan_features (plan_features_from_bound catalog subquery) (features\<lparr>has_scalar_subqueries := True\<rparr>)"
| "visit_bound_expr catalog (BoundExpr (BoundExprKind.Exists subquery) data_type nullable node) features =
     merge_plan_features (plan_features_from_bound catalog subquery) (features\<lparr>has_scalar_subqueries := True\<rparr>)"
| "visit_bound_expr catalog (BoundExpr (BoundExprKind.Like e pattern negated case_insensitive) data_type nullable node) features =
     visit_bound_expr catalog pattern (visit_bound_expr catalog e features)"
| "visit_bound_expr catalog (BoundExpr (BoundExprKind.Tuple items) data_type nullable node) features = fold (visit_bound_expr catalog) items features"
| "visit_bound_expr catalog (BoundExpr (BoundExprKind.Array items) data_type nullable node) features = fold (visit_bound_expr catalog) items features"
| "visit_bound_expr catalog (BoundExpr (BoundExprKind.Column column) data_type nullable node) features = features"
| "visit_bound_expr catalog (BoundExpr (BoundExprKind.Literal value) data_type nullable node) features = features"
| "visit_bound_expr catalog (BoundExpr (BoundExprKind.Parameter reference) data_type nullable node) features = features"
| "visit_bound_expr catalog (BoundExpr (BoundExprKind.Unsupported description) data_type nullable node) features = features"
  by pat_completeness auto
termination
  by (relation "measure (case_sum
        (case_sum (\<lambda>(_, p). size p) (\<lambda>(_, e, _). size e))
        (case_sum (\<lambda>(_, s, _). size_BoundSelect size size s) (case_sum (\<lambda>(_, r, _). size r) (\<lambda>(_, e, _). size e))))")
    (auto dest: bound_visit_size_dests)

definition inspect_plan :: "ParsedQuery \<Rightarrow> PlanFeatures result" where
  "inspect_plan query = Inr (plan_features_from_syntax (pq_syntax query))"

section \<open>Capability requirements\<close>

definition require_if :: "bool \<Rightarrow> CapabilityRequirement \<Rightarrow> CapabilityRequirements \<Rightarrow> CapabilityRequirements" where
  "require_if b requirement r = (if b then require requirement r else r)"

definition require_function :: "Catalog \<Rightarrow> FunctionRef \<Rightarrow> CapabilityRequirements \<Rightarrow> CapabilityRequirements" where
  "require_function catalog function r =
     record_function function
       (require_if
         (is_some_and (cat_resolve_function catalog (fr_namespace function) (fr_name function))
           (\<lambda>signature. metadata_flag signature ''approximate''))
         CapabilityRequirement.ApproximateAggregates
         (require_if (fr_namespace function \<noteq> None) CapabilityRequirement.NamespacedFunctions r))"

definition capability_requirements_from_plan ::
  "BoundQueryPlan \<Rightarrow> bool \<Rightarrow> Catalog \<Rightarrow> CapabilityRequirements" where
  "capability_requirements_from_plan plan explain catalog =
     (let features = plan_features_from_bound catalog plan
      in fold (require_function catalog) (pf_functions features)
        (require_if explain CapabilityRequirement.Explain
        (require_if (has_limit_offset features) CapabilityRequirement.LimitOffset
        (require_if (has_in_subqueries features) CapabilityRequirement.InSubqueries
        (require_if (has_scalar_subqueries features) CapabilityRequirement.ScalarSubqueries
        (require_if (has_distinct_aggregates features) CapabilityRequirement.DistinctAggregates
        (require_if (has_aggregates features) CapabilityRequirement.Aggregates
        (require_if (has_set_operations features) CapabilityRequirement.SetOperations
        (require_if (has_windows features) CapabilityRequirement.Windows
        (require_if (has_joins features) CapabilityRequirement.Joins
        (require_if (has_derived_tables features) CapabilityRequirement.DerivedTables
        (require_if (has_ctes features) CapabilityRequirement.CommonTableExpressions
          CapabilityRequirements_default))))))))))))"

end
