(* ===== verification/QF_Requirements.thy ===== *)
theory QF_Requirements
  imports QF_Features
begin

text \<open>
  What capability analysis guarantees: the requirements computed from a plan are exactly the recorded
  features, and every capability that a node of the plan needs is among them, on the plans the analysis
  sees in full. What a node needs is stated for the language, not for the analysis. The analysis does not enter
  ORDER BY, LIMIT, OFFSET, FILTER and OVER expressions, does not count the joins of a parenthesised join, and
  does not know the builtin functions that a catalog leaves to the binder; \<open>node_scanned\<close> says that
  a node has none of these.
\<close>

section \<open>What a node needs\<close>

definition signature_needs :: "FunctionSignature \<Rightarrow> CapabilityRequirement list" where
  "signature_needs s =
     (case fs_kind s of Aggregate \<Rightarrow> [CapabilityRequirement.Aggregates]
      | Window \<Rightarrow> [CapabilityRequirement.Windows] | Scalar \<Rightarrow> []) @
     (if metadata_flag s ''approximate'' then [CapabilityRequirement.ApproximateAggregates] else [])"

fun node_needs :: "Catalog \<Rightarrow> BoundNode \<Rightarrow> CapabilityRequirement list" where
  "node_needs catalog (PlanNode p) =
     (if bp_ctes p \<noteq> [] then [CapabilityRequirement.CommonTableExpressions] else []) @
     (if bp_limit p \<noteq> None \<or> bp_offset p \<noteq> None then [CapabilityRequirement.LimitOffset] else [])"
| "node_needs catalog (SetNode (BoundSetExpr.Select s)) =
     (if list_ex (\<lambda>t. btj_joins t \<noteq> []) (bsel_from s) then [CapabilityRequirement.Joins] else [])"
| "node_needs catalog (SetNode (BoundSetExpr.UnionAll l r node schema)) = [CapabilityRequirement.SetOperations]"
| "node_needs catalog (RelationNode (BoundRelation.Derived b q node)) = [CapabilityRequirement.DerivedTables]"
| "node_needs catalog (RelationNode (BoundRelation.NestedJoin b t node)) = 
     CapabilityRequirement.DerivedTables # (if btj_joins t \<noteq> [] then [CapabilityRequirement.Joins] else [])"
| "node_needs catalog (ExprNode e) =
     (case bx_kind e of
        BoundExprKind.Function f \<Rightarrow>
          (if bf_distinct f then [CapabilityRequirement.DistinctAggregates] else []) @
          (if bf_over f \<noteq> None then [CapabilityRequirement.Windows] else []) @
          (if fr_namespace (bf_function f) \<noteq> None then [CapabilityRequirement.NamespacedFunctions] else []) @
          (case resolve_signature catalog (bf_function f) of Some s \<Rightarrow> signature_needs s | None \<Rightarrow> [])
      | BoundExprKind.InSubquery _ _ _ \<Rightarrow> [CapabilityRequirement.InSubqueries]
      | BoundExprKind.ScalarSubquery _ \<Rightarrow> [CapabilityRequirement.ScalarSubqueries]
      | BoundExprKind.Exists _ \<Rightarrow> [CapabilityRequirement.ScalarSubqueries]
      | _ \<Rightarrow> [])"
| "node_needs catalog _ = []"

definition is_leaf :: "BoundExpr \<Rightarrow> bool" where
  "is_leaf e \<longleftrightarrow>
     (case bx_kind e of BoundExprKind.Column _ \<Rightarrow> True | BoundExprKind.Literal _ \<Rightarrow> True
      | BoundExprKind.Parameter _ \<Rightarrow> True | _ \<Rightarrow> False)"

text \<open>
  What the analysis sees of a node is all of it: the expressions that no visitor enters are leaves, a
  parenthesised join holds no join, and the catalog itself knows the functions that are called.
\<close>

fun node_scanned :: "Catalog \<Rightarrow> BoundNode \<Rightarrow> bool" where
  "node_scanned catalog (PlanNode p) \<longleftrightarrow>
     list_all (is_leaf \<circ> bo_expr) (bp_order_by p) \<and> pred_option is_leaf (bp_limit p) \<and>
     pred_option is_leaf (bp_offset p)"
| "node_scanned catalog (RelationNode (BoundRelation.NestedJoin b t node)) \<longleftrightarrow> btj_joins t = []"
| "node_scanned catalog (ExprNode e) \<longleftrightarrow>
     (case bx_kind e of
        BoundExprKind.Function f \<Rightarrow>
          resolve_signature catalog (bf_function f) =
            cat_resolve_function catalog (fr_namespace (bf_function f)) (fr_name (bf_function f)) \<and>
          pred_option is_leaf (bf_filter f) \<and>
          pred_option (\<lambda>w. list_all is_leaf (bw_partition_by w) \<and> list_all (is_leaf \<circ> bo_expr) (bw_order_by w)) (bf_over f)
      | _ \<Rightarrow> True)"
| "node_scanned catalog _ = True"

section \<open>Requirements are the recorded features\<close>

definition is_approximate :: "Catalog \<Rightarrow> FunctionRef \<Rightarrow> bool" where
  "is_approximate catalog f \<longleftrightarrow>
     is_some_and (cat_resolve_function catalog (fr_namespace f) (fr_name f)) (\<lambda>s. metadata_flag s ''approximate'')"

fun recorded :: "Catalog \<Rightarrow> PlanFeatures \<Rightarrow> CapabilityRequirement \<Rightarrow> bool" where
  "recorded catalog f CapabilityRequirement.CommonTableExpressions = has_ctes f"
| "recorded catalog f CapabilityRequirement.DerivedTables = has_derived_tables f"
| "recorded catalog f CapabilityRequirement.Joins = has_joins f"
| "recorded catalog f CapabilityRequirement.Windows = has_windows f"
| "recorded catalog f CapabilityRequirement.SetOperations = has_set_operations f"
| "recorded catalog f CapabilityRequirement.Aggregates = has_aggregates f"
| "recorded catalog f CapabilityRequirement.DistinctAggregates = has_distinct_aggregates f"
| "recorded catalog f CapabilityRequirement.ScalarSubqueries = has_scalar_subqueries f"
| "recorded catalog f CapabilityRequirement.InSubqueries = has_in_subqueries f"
| "recorded catalog f CapabilityRequirement.Explain = False"
| "recorded catalog f CapabilityRequirement.LimitOffset = has_limit_offset f"
| "recorded catalog f CapabilityRequirement.NamespacedFunctions =
     list_ex (\<lambda>g. fr_namespace g \<noteq> None) (pf_functions f)"
| "recorded catalog f CapabilityRequirement.ApproximateAggregates = list_ex (is_approximate catalog) (pf_functions f)"
| "recorded catalog f (CapabilityRequirement.BackendSpecific s) = False"

lemma required_require_if:
  "c \<in> set (cr_required (require_if b q r)) \<longleftrightarrow> b \<and> c = q \<or> c \<in> set (cr_required r)"
  by (simp add: require_if_def)

lemma required_require_function:
  "c \<in> set (cr_required (require_function catalog g r)) \<longleftrightarrow>
     is_approximate catalog g \<and> c = CapabilityRequirement.ApproximateAggregates \<or>
     fr_namespace g \<noteq> None \<and> c = CapabilityRequirement.NamespacedFunctions \<or> c \<in> set (cr_required r)"
  unfolding require_function_def require_simps required_require_if is_approximate_def ..

lemma required_require_functions:
  "c \<in> set (cr_required (fold (require_function catalog) fs r)) \<longleftrightarrow>
     c \<in> set (cr_required r) \<or>
     c = CapabilityRequirement.NamespacedFunctions \<and> list_ex (\<lambda>g. fr_namespace g \<noteq> None) fs \<or>
     c = CapabilityRequirement.ApproximateAggregates \<and> list_ex (is_approximate catalog) fs"
proof (induction fs arbitrary: r)
  case (Cons g fs)
  show ?case
    unfolding fold_Cons comp_apply Cons.IH required_require_function list_ex_iff list.set by blast
qed simp

lemma requirements_iff:
  "c \<in> set (cr_required (capability_requirements_from_plan plan explain catalog)) \<longleftrightarrow>
     recorded catalog (plan_features_from_bound catalog plan) c \<or> c = CapabilityRequirement.Explain \<and> explain"
  unfolding capability_requirements_from_plan_def Let_def required_require_functions required_require_if
  by (cases c) (simp_all add: CapabilityRequirements_default_def)

lemma referenced_functions_eq:
  "set (cr_referenced_functions (capability_requirements_from_plan plan explain catalog)) =
     set (pf_functions (plan_features_from_bound catalog plan))"
proof -
  have "set (cr_referenced_functions (fold (require_function catalog) fs r)) = set (cr_referenced_functions r) \<union> set fs"
    for fs r
    by (induction fs arbitrary: r) (simp_all add: require_function_def require_if_def)
  then show ?thesis
    by (simp add: capability_requirements_from_plan_def Let_def require_if_def CapabilityRequirements_default_def)
qed

section \<open>Features only accumulate\<close>

definition plan_flags :: "(PlanFeatures \<Rightarrow> bool) list" where
  "plan_flags =
     [has_ctes, has_derived_tables, has_joins, has_windows, has_set_operations, has_aggregates,
      has_distinct_aggregates, has_scalar_subqueries, has_in_subqueries, has_limit_offset]"

definition features_le :: "PlanFeatures \<Rightarrow> PlanFeatures \<Rightarrow> bool" where
  "features_le f g \<longleftrightarrow>
     (\<forall>flag \<in> set plan_flags. flag f \<longrightarrow> flag g) \<and> set (pf_functions f) \<subseteq> set (pf_functions g)"

lemma features_le_refl [simp]: "features_le f f"
  by (simp add: features_le_def)

lemma features_le_trans: "features_le f g \<Longrightarrow> features_le g h \<Longrightarrow> features_le f h"
  by (auto simp: features_le_def)

lemma features_le_merge: "features_le f (merge_plan_features g f)" "features_le g (merge_plan_features g f)"
  by (simp_all add: features_le_def plan_flags_def merge_plan_features_def)

lemma features_le_flag: "flag \<in> set plan_flags \<Longrightarrow> features_le f g \<Longrightarrow> flag f \<Longrightarrow> flag g"
  unfolding features_le_def by blast

lemma features_le_list_ex: "features_le f g \<Longrightarrow> list_ex P (pf_functions f) \<Longrightarrow> list_ex P (pf_functions g)"
  unfolding features_le_def list_ex_iff by blast

lemma mem_plan_flags:
  "has_ctes \<in> set plan_flags"
  "has_derived_tables \<in> set plan_flags"
  "has_joins \<in> set plan_flags"
  "has_windows \<in> set plan_flags"
  "has_set_operations \<in> set plan_flags"
  "has_aggregates \<in> set plan_flags"
  "has_distinct_aggregates \<in> set plan_flags"
  "has_scalar_subqueries \<in> set plan_flags"
  "has_in_subqueries \<in> set plan_flags"
  "has_limit_offset \<in> set plan_flags"
  by (simp_all add: plan_flags_def)

lemmas features_leD = mem_plan_flags[THEN features_le_flag] features_le_list_ex

lemma recorded_mono: "features_le f g \<Longrightarrow> recorded catalog f c \<Longrightarrow> recorded catalog g c"
  by (cases c) (simp_all, (erule (1) features_leD)+)

definition covered :: "Catalog \<Rightarrow> PlanFeatures \<Rightarrow> BoundNode \<Rightarrow> bool" where
  "covered catalog f n \<longleftrightarrow> list_all (recorded catalog f) (node_needs catalog n)"

lemma covered_mono: "features_le f g \<Longrightarrow> covered catalog f n \<Longrightarrow> covered catalog g n"
  by (auto simp: covered_def list_all_iff intro: recorded_mono)

lemma all_covered_mono:
  "features_le f g \<Longrightarrow> plan_all (covered catalog f) p \<Longrightarrow> plan_all (covered catalog g) p"
  "features_le f g \<Longrightarrow> set_expr_all (covered catalog f) b \<Longrightarrow> set_expr_all (covered catalog g) b"
  "features_le f g \<Longrightarrow> relation_all (covered catalog f) r \<Longrightarrow> relation_all (covered catalog g) r"
  "features_le f g \<Longrightarrow> expr_all (covered catalog f) e \<Longrightarrow> expr_all (covered catalog g) e"
  by (blast intro: all_nodes_mono covered_mono)+

lemma fold_covers:
  assumes "\<And>x f. x \<in> set xs \<Longrightarrow> features_le f (visit x f) \<and> C (visit x f) x"
    and "\<And>f g x. features_le f g \<Longrightarrow> C f x \<Longrightarrow> C g x"
  shows "features_le f (fold visit xs f) \<and> list_all (C (fold visit xs f)) xs"
  using assms(1)
proof (induction xs arbitrary: f)
  case (Cons x xs)
  then have x: "features_le f (visit x f)" "C (visit x f) x" by simp_all
  have xs: "features_le (visit x f) (fold visit xs (visit x f))" "list_all (C (fold visit xs (visit x f))) xs"
    using Cons by simp_all
  show ?case using x xs assms(2)[OF xs(1) x(2)] features_le_trans[OF x(1) xs(1)] by simp
qed simp

lemma leaf_covered [simp]: "is_leaf e \<Longrightarrow> expr_all (covered catalog f) e"
  by (cases e) (auto simp: is_leaf_def covered_def split: BoundExprKind.splits)

text \<open>A visitor that extends the features and covers \<open>C\<close>; such visitors compose.\<close>

definition covers :: "(PlanFeatures \<Rightarrow> PlanFeatures) \<Rightarrow> (PlanFeatures \<Rightarrow> bool) \<Rightarrow> bool" where
  "covers visit C \<longleftrightarrow> (\<forall>f. features_le f (visit f) \<and> C (visit f))"

lemma coversI: "(\<And>f. features_le f (visit f) \<and> C (visit f)) \<Longrightarrow> covers visit C"
  by (simp add: covers_def)

lemma covers_fold:
  assumes "\<And>x. x \<in> set xs \<Longrightarrow> covers (visit x) (\<lambda>f. C f x)" and "\<And>x. stable features_le (\<lambda>f. C f x)"
  shows "covers (fold visit xs) (\<lambda>f. list_all (C f) xs)"
  using fold_covers[of xs visit C] assms by (auto simp: covers_def stable_def)

lemma covers_option:
  assumes "\<And>x. v = Some x \<Longrightarrow> covers (visit x) (\<lambda>f. C f x)"
  shows "covers (visit_option visit v) (\<lambda>f. pred_option (C f) v)"
  using assms by (cases v) (auto simp: covers_def)

lemma stable_covered [simp]:
  "stable features_le (\<lambda>f. covered catalog f n)"
  "stable features_le (\<lambda>f. recorded catalog f c)"
  "stable features_le (\<lambda>f. plan_all (covered catalog f) p)"
  "stable features_le (\<lambda>f. set_expr_all (covered catalog f) b)"
  "stable features_le (\<lambda>f. relation_all (covered catalog f) r)"
  "stable features_le (\<lambda>f. expr_all (covered catalog f) e)"
  unfolding stable_def by (blast intro: covered_mono recorded_mono all_covered_mono)+

lemma covered_simps [simp]:
  "covered catalog f (SetNode (BoundSetExpr.UnionAll l r node schema)) \<longleftrightarrow>
     recorded catalog f CapabilityRequirement.SetOperations"
  "covered catalog f (SetNode (BoundSetExpr.Select s)) \<longleftrightarrow>
     (list_ex (\<lambda>t. btj_joins t \<noteq> []) (bsel_from s) \<longrightarrow> recorded catalog f CapabilityRequirement.Joins)"
  "covered catalog f (SetNode (BoundSetExpr.Unsupported description node schema))"
  "covered catalog f (RelationNode (BoundRelation.Table b node))"
  "covered catalog f (RelationNode (BoundRelation.Unsupported description name node))"
  "covered catalog f (RelationNode (BoundRelation.Derived b q node)) \<longleftrightarrow>
     recorded catalog f CapabilityRequirement.DerivedTables"
  "covered catalog f (RelationNode (BoundRelation.NestedJoin b t node)) \<longleftrightarrow>
     recorded catalog f CapabilityRequirement.DerivedTables \<and>
     (btj_joins t \<noteq> [] \<longrightarrow> recorded catalog f CapabilityRequirement.Joins)"
  "covered catalog f (PlanNode (BoundQueryPlan node ctes body order_by limit offset clauses schema)) \<longleftrightarrow>
     (ctes \<noteq> [] \<longrightarrow> recorded catalog f CapabilityRequirement.CommonTableExpressions) \<and>
     (limit \<noteq> None \<or> offset \<noteq> None \<longrightarrow> recorded catalog f CapabilityRequirement.LimitOffset)"
  "covered catalog f (ItemNode i)"
  "covered catalog f (CteNode c)"
  by (auto simp: covered_def)

definition needs_capability :: "('e, 'q) BoundExprKind \<Rightarrow> bool" where
  "needs_capability kind \<longleftrightarrow>
     (case kind of BoundExprKind.Function _ \<Rightarrow> True | BoundExprKind.InSubquery _ _ _ \<Rightarrow> True
      | BoundExprKind.ScalarSubquery _ \<Rightarrow> True | BoundExprKind.Exists _ \<Rightarrow> True | _ \<Rightarrow> False)"

lemma covered_expr_simps [simp]:
  "covered catalog f (ExprNode (BoundExpr (BoundExprKind.InSubquery e q negated) t n node)) \<longleftrightarrow>
     recorded catalog f CapabilityRequirement.InSubqueries"
  "covered catalog f (ExprNode (BoundExpr (BoundExprKind.ScalarSubquery q) t n node)) \<longleftrightarrow>
     recorded catalog f CapabilityRequirement.ScalarSubqueries"
  "covered catalog f (ExprNode (BoundExpr (BoundExprKind.Exists q) t n node)) \<longleftrightarrow>
     recorded catalog f CapabilityRequirement.ScalarSubqueries"
  "\<not> needs_capability kind \<Longrightarrow> covered catalog f (ExprNode (BoundExpr kind t n node))"
  by (simp_all add: covered_def) (cases kind; simp add: needs_capability_def)

lemma covers_conj:
  assumes "covers v C" and "stable features_le C" and "covers w D"
  shows "covers (\<lambda>f. w (v f)) (\<lambda>f. C f \<and> D f)"
  using assms unfolding covers_def stable_def by (meson features_le_trans)

lemma stable_flags [simp]: "flag \<in> set plan_flags \<Longrightarrow> stable features_le flag"
  unfolding stable_def by (blast intro: features_le_flag)

lemma covers_merge:
  assumes "plan_all (covered catalog (plan_features_from_bound catalog p)) p"
  shows "covers (merge_plan_features (plan_features_from_bound catalog p)) (\<lambda>f. plan_all (covered catalog f) p)"
  using all_covered_mono(1)[OF features_le_merge(2) assms] features_le_merge(1) by (simp add: covers_def)

declare stable_conj [simp] stable_list_all [simp] stable_pred_option [simp]

lemma stable_imp [simp]: "stable features_le C \<Longrightarrow> stable features_le (\<lambda>f. b \<longrightarrow> C f)"
  unfolding stable_def by blast

lemma features_le_update:
  "features_le f (f\<lparr>has_set_operations := True\<rparr>)" "features_le f (f\<lparr>has_derived_tables := True\<rparr>)"
  "features_le f (f\<lparr>has_in_subqueries := True\<rparr>)" "features_le f (f\<lparr>has_scalar_subqueries := True\<rparr>)"
  "features_le f (note_joins b f)"
  by (simp_all add: features_le_def plan_flags_def note_joins_def)

lemma covers_note:
  "covers (\<lambda>f. f\<lparr>has_set_operations := True\<rparr>) (\<lambda>f. recorded catalog f CapabilityRequirement.SetOperations)"
  "covers (\<lambda>f. f\<lparr>has_derived_tables := True\<rparr>) (\<lambda>f. recorded catalog f CapabilityRequirement.DerivedTables)"
  "covers (\<lambda>f. f\<lparr>has_in_subqueries := True\<rparr>) (\<lambda>f. recorded catalog f CapabilityRequirement.InSubqueries)"
  "covers (\<lambda>f. f\<lparr>has_scalar_subqueries := True\<rparr>) (\<lambda>f. recorded catalog f CapabilityRequirement.ScalarSubqueries)"
  "covers (note_joins b) (\<lambda>f. b \<longrightarrow> recorded catalog f CapabilityRequirement.Joins)"
  by (simp_all add: covers_def features_le_update) (simp add: note_joins_def)

definition resolved_as :: "Catalog \<Rightarrow> FunctionRef \<Rightarrow> (FunctionSignature \<Rightarrow> bool) \<Rightarrow> bool" where
  "resolved_as catalog f P = is_some_and (cat_resolve_function catalog (fr_namespace f) (fr_name f)) P"

lemma note_bound_function_flags [simp]:
  "has_aggregates (note_bound_function catalog f g) \<longleftrightarrow> has_aggregates g \<or>
     resolved_as catalog (bf_function f) (\<lambda>s. fs_kind s = Aggregate \<or> metadata_flag s ''approximate'')"
  "has_windows (note_bound_function catalog f g) \<longleftrightarrow>
     has_windows g \<or> bf_over f \<noteq> None \<or> resolved_as catalog (bf_function f) (\<lambda>s. fs_kind s = Window)"
  "has_distinct_aggregates (note_bound_function catalog f g) \<longleftrightarrow> has_distinct_aggregates g \<or> bf_distinct f"
  "has_ctes (note_bound_function catalog f g) = has_ctes g"
  "has_derived_tables (note_bound_function catalog f g) = has_derived_tables g"
  "has_joins (note_bound_function catalog f g) = has_joins g"
  "has_set_operations (note_bound_function catalog f g) = has_set_operations g"
  "has_scalar_subqueries (note_bound_function catalog f g) = has_scalar_subqueries g"
  "has_in_subqueries (note_bound_function catalog f g) = has_in_subqueries g"
  "has_limit_offset (note_bound_function catalog f g) = has_limit_offset g"
  "pf_functions (note_bound_function catalog f g) = bs_insert (bf_function f) (pf_functions g)"
  by (simp_all add: note_bound_function_def Let_def resolved_as_def is_some_and_def split: option.split FunctionKind.split)

lemma features_le_note_function: "features_le g (note_bound_function catalog f g)"
  by (simp add: features_le_def plan_flags_def subset_insertI)

lemma signature_needs_recorded:
  assumes "cat_resolve_function catalog (fr_namespace (bf_function f)) (fr_name (bf_function f)) = Some s"
  shows "list_all (recorded catalog (note_bound_function catalog f g)) (signature_needs s)"
  using assms
  by (cases "fs_kind s") (simp_all add: signature_needs_def resolved_as_def is_approximate_def is_some_and_def list_ex_iff)

lemma covers_function:
  assumes "resolve_signature catalog (bf_function f) =
    cat_resolve_function catalog (fr_namespace (bf_function f)) (fr_name (bf_function f))"
  shows "covers (note_bound_function catalog f) (\<lambda>g. covered catalog g (ExprNode (BoundExpr (BoundExprKind.Function f) t n node)))"
proof (rule coversI)
  fix g
  have "list_all (recorded catalog (note_bound_function catalog f g))
      (node_needs catalog (ExprNode (BoundExpr (BoundExprKind.Function f) t n node)))"
    by (simp add: assms signature_needs_recorded list_ex_iff split: option.split)
  then show "features_le g (note_bound_function catalog f g) \<and>
      covered catalog (note_bound_function catalog f g) (ExprNode (BoundExpr (BoundExprKind.Function f) t n node))"
    by (simp add: features_le_note_function covered_def)
qed


lemma covers_eq:
  assumes "covers w C" and "\<And>f. visit f = w f" and "\<And>f. C f \<Longrightarrow> D f"
  shows "covers visit D"
  using assms by (simp add: covers_def)

declare recorded.simps [simp del]

lemma joins_covers:
  assumes "\<And>j. j \<in> set joins \<Longrightarrow>
      covers (visit_bound_relation catalog (bj_relation j)) (\<lambda>f. relation_all (covered catalog f) (bj_relation j))"
    and "\<And>j e. j \<in> set joins \<Longrightarrow> bj_on j = Some e \<Longrightarrow>
      covers (visit_bound_expr catalog e) (\<lambda>f. expr_all (covered catalog f) e)"
  shows "covers
     (fold (\<lambda>join f. visit_option (visit_bound_expr catalog) (bj_on join) (visit_bound_relation catalog (bj_relation join) f)) joins)
     (\<lambda>f. list_all (\<lambda>j. relation_all (covered catalog f) (bj_relation j) \<and> pred_option (expr_all (covered catalog f)) (bj_on j)) joins)"
  by (rule covers_fold[OF covers_conj[OF assms(1) _ covers_option[OF assms(2)]]]) simp_all

lemma tables_covers:
  assumes "\<And>t. t \<in> set tables \<Longrightarrow> covers (visit_bound_relation catalog (btj_relation t))
      (\<lambda>f. relation_all (covered catalog f) (btj_relation t))"
    and "\<And>t j. t \<in> set tables \<Longrightarrow> j \<in> set (btj_joins t) \<Longrightarrow>
      covers (visit_bound_relation catalog (bj_relation j)) (\<lambda>f. relation_all (covered catalog f) (bj_relation j))"
    and "\<And>t j e. t \<in> set tables \<Longrightarrow> j \<in> set (btj_joins t) \<Longrightarrow> bj_on j = Some e \<Longrightarrow>
      covers (visit_bound_expr catalog e) (\<lambda>f. expr_all (covered catalog f) e)"
  shows "covers
     (fold (\<lambda>table f.
        fold (\<lambda>join f. visit_option (visit_bound_expr catalog) (bj_on join) (visit_bound_relation catalog (bj_relation join) f))
          (btj_joins table)
          (visit_bound_relation catalog (btj_relation table) (note_joins (btj_joins table \<noteq> []) f))) tables)
     (\<lambda>f. list_all (\<lambda>t. ((btj_joins t \<noteq> [] \<longrightarrow> recorded catalog f CapabilityRequirement.Joins) \<and>
            relation_all (covered catalog f) (btj_relation t)) \<and>
          list_all (\<lambda>j. relation_all (covered catalog f) (bj_relation j) \<and> pred_option (expr_all (covered catalog f)) (bj_on j))
            (btj_joins t)) tables)"
  by (rule covers_fold[OF covers_conj[OF covers_conj[OF covers_note(5) _ assms(1)] _
            joins_covers[OF assms(2,3)]]])
    (simp_all del: recorded.simps)

lemma table_all_iff:
  "pred_BoundTableWithJoins P R t \<longleftrightarrow>
     R (btj_relation t) \<and> list_all (\<lambda>j. R (bj_relation j) \<and> pred_option P (bj_on j)) (btj_joins t)"
proof -
  have "pred_BoundJoin P R j \<longleftrightarrow> R (bj_relation j) \<and> pred_option P (bj_on j)" for j
    by (cases j) simp
  then show ?thesis by (cases t) (simp add: list_all_iff)
qed

lemma item_all_iff:
  "list_all (pred_BoundProjectionItem P) items \<longleftrightarrow>
     list_all (\<lambda>d. P (bpe_expr d)) (List.map_filter BoundProjectionItem_as_expr items)"
proof (induction items)
  case (Cons item items)
  have "pred_BoundProjectionExpr P d \<longleftrightarrow> P (bpe_expr d)" for d by (cases d) simp
  with Cons show ?case
    by (cases item) (simp_all add: List.map_filter_simps BoundProjectionItem_as_expr_def)
qed (simp add: List.map_filter_simps)

lemma function_all_iff:
  "pred_BoundFunctionCall P f \<longleftrightarrow>
     list_all P (bf_args f) \<and> pred_option P (bf_filter f) \<and>
     pred_option (\<lambda>w. list_all P (bw_partition_by w) \<and> list_all (\<lambda>k. P (bo_expr k)) (bw_order_by w)) (bf_over f)"
proof -
  have "pred_BoundOrderByExpr P k \<longleftrightarrow> P (bo_expr k)" for k by (cases k) simp
  then have "pred_BoundWindowSpec P w \<longleftrightarrow> list_all P (bw_partition_by w) \<and> list_all (\<lambda>k. P (bo_expr k)) (bw_order_by w)"
    for w
    by (cases w) (simp add: list_all_iff)
  then show ?thesis by (cases f) (simp add: option.pred_set)
qed

lemma when_then_all_iff: "pred_BoundWhenThen P w \<longleftrightarrow> P (bwt_condition w) \<and> P (bwt_result w)"
  by (cases w) simp

lemma plan_covers:
  assumes body: "covers (visit_bound_set_expr catalog body) (\<lambda>f. set_expr_all (covered catalog f) body)"
    and ctes: "\<And>c. c \<in> set ctes \<Longrightarrow>
      plan_all (covered catalog (plan_features_from_bound catalog (bc_query c))) (bc_query c)"
    and scanned: "node_scanned catalog (PlanNode (BoundQueryPlan node ctes body order_by limit offset clauses schema))"
  shows "plan_all (covered catalog (plan_features_from_bound catalog
      (BoundQueryPlan node ctes body order_by limit offset clauses schema)))
      (BoundQueryPlan node ctes body order_by limit offset clauses schema)"
proof -
  let ?start = "query_level_features (ctes \<noteq> []) False clauses (limit \<noteq> None \<or> offset \<noteq> None)"
  let ?final = "plan_features_from_bound catalog (BoundQueryPlan node ctes body order_by limit offset clauses schema)"
  have "covers (fold (\<lambda>cte features. merge_plan_features (plan_features_from_bound catalog (bc_query cte)) features) ctes)
      (\<lambda>f. list_all (\<lambda>c. plan_all (covered catalog f) (bc_query c)) ctes)"
    by (rule covers_fold[OF covers_merge[OF ctes]]) simp_all
  from covers_conj[OF body _ this]
  have fin: "features_le ?start ?final" "set_expr_all (covered catalog ?final) body"
      "list_all (\<lambda>c. plan_all (covered catalog ?final) (bc_query c)) ctes"
    by (simp_all add: covers_def)
  have "recorded catalog ?final CapabilityRequirement.CommonTableExpressions" if "ctes \<noteq> []"
    by (rule recorded_mono[OF fin(1)]) (simp add: query_level_features_def recorded.simps that)
  moreover have "recorded catalog ?final CapabilityRequirement.LimitOffset" if "limit \<noteq> None \<or> offset \<noteq> None"
    by (rule recorded_mono[OF fin(1)]) (use that in \<open>simp add: query_level_features_def recorded.simps\<close>)
  moreover have "list_all (\<lambda>k. expr_all (covered catalog ?final) (bo_expr k)) order_by"
      "pred_option (expr_all (covered catalog ?final)) limit" "pred_option (expr_all (covered catalog ?final)) offset"
    using scanned by (auto simp: list_all_iff option.pred_set)
  ultimately show ?thesis
    using fin(2,3) by (simp add: list_all_iff del: plan_features_from_bound.simps)
qed

lemma select_covers:
  assumes "\<And>d. d \<in> set (List.map_filter BoundProjectionItem_as_expr projection) \<Longrightarrow>
      covers (visit_bound_expr catalog (bpe_expr d)) (\<lambda>f. expr_all (covered catalog f) (bpe_expr d))"
    and "\<And>t. t \<in> set tables \<Longrightarrow> covers (visit_bound_relation catalog (btj_relation t))
      (\<lambda>f. relation_all (covered catalog f) (btj_relation t))"
    and "\<And>t j. t \<in> set tables \<Longrightarrow> j \<in> set (btj_joins t) \<Longrightarrow>
      covers (visit_bound_relation catalog (bj_relation j)) (\<lambda>f. relation_all (covered catalog f) (bj_relation j))"
    and "\<And>t j e. t \<in> set tables \<Longrightarrow> j \<in> set (btj_joins t) \<Longrightarrow> bj_on j = Some e \<Longrightarrow>
      covers (visit_bound_expr catalog e) (\<lambda>f. expr_all (covered catalog f) e)"
    and "\<And>e. selection = Some e \<Longrightarrow> covers (visit_bound_expr catalog e) (\<lambda>f. expr_all (covered catalog f) e)"
    and "\<And>e. e \<in> set group_by \<Longrightarrow> covers (visit_bound_expr catalog e) (\<lambda>f. expr_all (covered catalog f) e)"
    and "\<And>e. having = Some e \<Longrightarrow> covers (visit_bound_expr catalog e) (\<lambda>f. expr_all (covered catalog f) e)"
  shows "covers (visit_bound_select catalog (BoundSelect d projection tables selection group_by having schema node))
     (\<lambda>f. set_expr_all (covered catalog f)
        (BoundSetExpr.Select (BoundSelect d projection tables selection group_by having schema node)))"
proof -
  have items: "covers (fold (\<lambda>d. visit_bound_expr catalog (bpe_expr d)) (List.map_filter BoundProjectionItem_as_expr projection))
      (\<lambda>f. list_all (\<lambda>d. expr_all (covered catalog f) (bpe_expr d)) (List.map_filter BoundProjectionItem_as_expr projection))"
    by (rule covers_fold) (simp_all add: assms(1))
  have tables: "covers (fold (\<lambda>table f.
        fold (\<lambda>join f. visit_option (visit_bound_expr catalog) (bj_on join) (visit_bound_relation catalog (bj_relation join) f))
          (btj_joins table)
          (visit_bound_relation catalog (btj_relation table) (note_joins (btj_joins table \<noteq> []) f))) tables)
     (\<lambda>f. list_all (\<lambda>t. ((btj_joins t \<noteq> [] \<longrightarrow> recorded catalog f CapabilityRequirement.Joins) \<and>
            relation_all (covered catalog f) (btj_relation t)) \<and>
          list_all (\<lambda>j. relation_all (covered catalog f) (bj_relation j) \<and> pred_option (expr_all (covered catalog f)) (bj_on j))
            (btj_joins t)) tables)"
    by (rule tables_covers) (erule (2) assms(2-4) | erule (1) assms(3) | erule assms(2))+
  have selection: "covers (visit_option (visit_bound_expr catalog) selection) (\<lambda>f. pred_option (expr_all (covered catalog f)) selection)"
    by (rule covers_option[OF assms(5)])
  have groups: "covers (fold (visit_bound_expr catalog) group_by) (\<lambda>f. list_all (expr_all (covered catalog f)) group_by)"
    by (rule covers_fold[OF assms(6)]) simp_all
  have having: "covers (visit_option (visit_bound_expr catalog) having) (\<lambda>f. pred_option (expr_all (covered catalog f)) having)"
    by (rule covers_option[OF assms(7)])
  show ?thesis
    by (rule covers_eq[OF covers_conj[OF covers_conj[OF covers_conj[OF covers_conj[OF items _ tables] _ selection] _
            groups] _ having]])
     (simp_all, auto simp: table_all_iff list_all_iff list_ex_iff item_all_iff[unfolded list_all_iff])
qed

lemma visit_covers:
  fixes f2 f3 f4 f5 :: PlanFeatures
  shows
  "plan_all (node_scanned catalog) plan \<Longrightarrow> plan_all (covered catalog (plan_features_from_bound catalog plan)) plan"
  "set_expr_all (node_scanned catalog) body \<Longrightarrow>
     covers (visit_bound_set_expr catalog body) (\<lambda>f. set_expr_all (covered catalog f) body)"
  "set_expr_all (node_scanned catalog) (BoundSetExpr.Select select) \<Longrightarrow>
     covers (visit_bound_select catalog select) (\<lambda>f. set_expr_all (covered catalog f) (BoundSetExpr.Select select))"
  "relation_all (node_scanned catalog) relation \<Longrightarrow>
     covers (visit_bound_relation catalog relation) (\<lambda>f. relation_all (covered catalog f) relation)"
  "expr_all (node_scanned catalog) expr \<Longrightarrow>
     covers (visit_bound_expr catalog expr) (\<lambda>f. expr_all (covered catalog f) expr)"
proof (induction catalog plan and catalog body f2 and catalog select f3 and catalog relation f4 and catalog expr f5
    rule: plan_features_from_bound_visit_bound_set_expr_visit_bound_select_visit_bound_relation_visit_bound_expr.induct)
  case (1 catalog node ctes body order_by limit offset clauses schema)
  then show ?case by (intro plan_covers) (simp_all add: list_all_iff)
next
  case (3 catalog left right node schema)
  show ?case
    by (rule covers_eq[OF covers_conj[OF covers_conj[OF covers_note(1) _ "3.IH"(1)] _ "3.IH"(2)]])
      (use 3 in simp_all)
next
  case (5 catalog d projection tables selection group_by having schema node)
  have scanned:
    "list_all (\<lambda>d. expr_all (node_scanned catalog) (bpe_expr d)) (List.map_filter BoundProjectionItem_as_expr projection)"
    "list_all (pred_BoundTableWithJoins (expr_all (node_scanned catalog)) (relation_all (node_scanned catalog))) tables"
    "pred_option (expr_all (node_scanned catalog)) selection" "list_all (expr_all (node_scanned catalog)) group_by"
    "pred_option (expr_all (node_scanned catalog)) having"
    using 5(8) by (simp_all add: item_all_iff)
  have parts: "table \<in> set tables \<Longrightarrow> relation_all (node_scanned catalog) (btj_relation table)"
    "table \<in> set tables \<Longrightarrow> join \<in> set (btj_joins table) \<Longrightarrow> relation_all (node_scanned catalog) (bj_relation join)"
    "table \<in> set tables \<Longrightarrow> join \<in> set (btj_joins table) \<Longrightarrow> bj_on join = Some e \<Longrightarrow> expr_all (node_scanned catalog) e"
    for table join e
    using scanned(2) by (auto simp: table_all_iff list_all_iff option.pred_set)
  show ?case
  proof (rule select_covers)
    fix t j e assume "t \<in> set tables" "j \<in> set (btj_joins t)" "bj_on j = Some e"
    then show "covers (visit_bound_expr catalog e) (\<lambda>f. expr_all (covered catalog f) e)"
      by (blast intro: 5(4) parts(3))
  next
    fix t j assume "t \<in> set tables" "j \<in> set (btj_joins t)"
    then show "covers (visit_bound_relation catalog (bj_relation j)) (\<lambda>f. relation_all (covered catalog f) (bj_relation j))"
      by (blast intro: 5(3) parts(2))
  qed (use 5(1,2,5,6,7) parts(1) scanned in \<open>simp_all add: list_all_iff\<close>)
next
  case (7 catalog binding query node)
  show ?case
    by (rule covers_eq[OF covers_conj[OF covers_note(2) _ covers_merge[OF "7.IH"]]])
      (use 7 in simp_all)
next
  case (8 catalog binding relation joins table_node node)
  show ?case
    by (rule covers_eq[OF covers_conj[OF covers_conj[OF covers_note(2) _ "8.IH"(1)] _ covers_fold[OF "8.IH"(2)]]])
     (use 8(3) in \<open>auto simp: table_all_iff list_all_iff option.pred_set\<close>)
next
  case (10 catalog op left right t n node)
  show ?case
    by (rule covers_eq[OF covers_conj[OF "10.IH"(1) _ "10.IH"(2)]]) (use 10 in \<open>simp_all add: needs_capability_def\<close>)
next
  case (14 catalog f t n node)
  have resolved: "resolve_signature catalog (bf_function f) =
      cat_resolve_function catalog (fr_namespace (bf_function f)) (fr_name (bf_function f))"
    using 14(2) by simp
  show ?case
    by (rule covers_eq[OF covers_conj[OF covers_function[OF resolved, where t = t and n = n and node = node] _ covers_fold[OF "14.IH"]]])
     (use 14(2) in \<open>auto simp: function_all_iff option.pred_set list_all_iff\<close>)
next
  case (15 catalog operand when_then else_result t n node)
  have scanned: "pred_option (expr_all (node_scanned catalog)) operand" "pred_option (expr_all (node_scanned catalog)) else_result"
    "pair \<in> set when_then \<Longrightarrow> expr_all (node_scanned catalog) (bwt_condition pair) \<and> expr_all (node_scanned catalog) (bwt_result pair)" for pair
    using 15(5) by (simp_all add: when_then_all_iff list_all_iff)
  have pairs: "covers (fold (\<lambda>pair f. visit_bound_expr catalog (bwt_result pair) (visit_bound_expr catalog (bwt_condition pair) f)) when_then)
      (\<lambda>f. list_all (\<lambda>pair. expr_all (covered catalog f) (bwt_condition pair) \<and> expr_all (covered catalog f) (bwt_result pair)) when_then)"
    by (rule covers_fold[OF covers_conj[OF 15(2) _ 15(3)]]) (simp_all add: scanned)
  have operand: "covers (visit_option (visit_bound_expr catalog) operand) (\<lambda>f. pred_option (expr_all (covered catalog f)) operand)"
    by (rule covers_option[OF 15(1)]) (use scanned(1) in simp_all)
  have otherwise: "covers (visit_option (visit_bound_expr catalog) else_result) (\<lambda>f. pred_option (expr_all (covered catalog f)) else_result)"
    by (rule covers_option[OF 15(4)]) (use scanned(2) in simp_all)
  show ?case
    by (rule covers_eq[OF covers_conj[OF covers_conj[OF operand _ pairs] _ otherwise]])
      (simp_all, simp add: when_then_all_iff needs_capability_def list_all_iff)
next
  case (16 catalog e low high negated)
  show ?case
    by (rule covers_eq[OF covers_conj[OF covers_conj[OF "16.IH"(1) _ "16.IH"(2)] _ "16.IH"(3)]])
      (use 16 in \<open>simp_all add: needs_capability_def\<close>)
next
  case (17 catalog e items negated)
  show ?case
    by (rule covers_eq[OF covers_conj[OF "17.IH"(1) _ covers_fold[OF "17.IH"(2)]]])
     (use 17(3) in \<open>simp_all add: list_all_iff needs_capability_def\<close>)
next
  case (18 catalog e subquery)
  show ?case
    by (rule covers_eq[OF covers_conj[OF covers_conj[OF covers_note(3) _ "18.IH"(2)] _ covers_merge[OF "18.IH"(1)]]])
      (use 18 in simp_all)
next
  case (19 catalog subquery)
  show ?case
    by (rule covers_eq[OF covers_conj[OF covers_note(4) _ covers_merge[OF "19.IH"]]])
      (use 19 in simp_all)
next
  case (20 catalog subquery)
  show ?case
    by (rule covers_eq[OF covers_conj[OF covers_note(4) _ covers_merge[OF "20.IH"]]])
      (use 20 in simp_all)
next
  case (21 catalog e pattern negated)
  show ?case
    by (rule covers_eq[OF covers_conj[OF "21.IH"(1) _ "21.IH"(2)]]) (use 21 in \<open>simp_all add: needs_capability_def\<close>)
next
  case (22 catalog items)
  show ?case
    by (rule covers_eq[OF covers_fold[OF "22.IH"]]) (use 22 in \<open>simp_all add: needs_capability_def list_all_iff\<close>)
next
  case (23 catalog items)
  show ?case
    by (rule covers_eq[OF covers_fold[OF "23.IH"]]) (use 23 in \<open>simp_all add: needs_capability_def list_all_iff\<close>)
qed (simp_all add: covers_def needs_capability_def)

section \<open>Completeness\<close>

text \<open>
  C4. Capability analysis is complete on the plans it sees in full. Let ORDER BY, LIMIT, OFFSET, FILTER and OVER
  hold only columns, literals and parameters, let no parenthesised join hold a join, and let the catalog know
  the functions called. Then every capability that any node of the plan needs (CTEs, derived tables, joins,
  set operations, LIMIT/OFFSET, aggregates, windows, DISTINCT aggregates, subqueries, namespaced and approximate
  functions) is among the requirements computed for the plan, and EXPLAIN is required exactly when requested.
\<close>

theorem requirements_complete:
  assumes "plan_all (node_scanned catalog) plan"
  shows "plan_all (\<lambda>n. set (node_needs catalog n) \<subseteq>
           set (cr_required (capability_requirements_from_plan plan explain catalog))) plan \<and>
         (CapabilityRequirement.Explain \<in> set (cr_required (capability_requirements_from_plan plan explain catalog)) \<longleftrightarrow> explain)"
proof
  have "plan_all (covered catalog (plan_features_from_bound catalog plan)) plan"
    by (rule visit_covers(1)[OF assms])
  then show "plan_all (\<lambda>n. set (node_needs catalog n) \<subseteq>
           set (cr_required (capability_requirements_from_plan plan explain catalog))) plan"
    by (rule all_nodes_mono(1)) (auto simp: covered_def list_all_iff requirements_iff)
qed (simp add: requirements_iff recorded.simps)

text \<open>An in-memory catalog knows the builtin functions.\<close>

lemma memory_catalog_knows_builtins:
  "resolve_signature (memory_catalog c) f = cat_resolve_function (memory_catalog c) (fr_namespace f) (fr_name f)"
  by (simp add: resolve_signature_def memory_catalog_def MemoryCatalog_resolve_function_def split: option.split)

definition example_count :: BoundExpr where
  "example_count =
     BoundExpr (BoundExprKind.Function (BoundFunctionCall (FunctionRef None ''count'') None
        [BoundExpr (BoundExprKind.Column (BoundColumnRef None ''id'')) DataType.Int64 False (SyntaxNode None ''column'')]
        True None None None)) DataType.Int64 False (SyntaxNode None ''function'')"

definition example_plan :: "BoundExpr \<Rightarrow> BoundExpr BoundOrderByExpr list \<Rightarrow> BoundQueryPlan" where
  "example_plan e order_by =
     BoundQueryPlan (SyntaxNode None ''query'') []
       (BoundSetExpr.Select (BoundSelect False
          [BoundProjectionItem.Expr (BoundProjectionExpr e None
             (ResultField_new ''c'' DataType.Int64 False) (SyntaxNode None ''projection''))]
          [] None [] None ResultSchema_default (SyntaxNode None ''select'')))
       order_by None None [] ResultSchema_default"

lemmas example_plan_defs = example_plan_def example_count_def

theorem requirements_complete_witness:
  "CapabilityRequirement.DistinctAggregates
     \<in> set (cr_required (capability_requirements_from_plan (example_plan example_count []) False
          (memory_catalog MemoryCatalog_default)))"
proof -
  have "plan_all (node_scanned (memory_catalog MemoryCatalog_default)) (example_plan example_count [])"
    by (simp add: example_plan_defs memory_catalog_knows_builtins is_leaf_def)
  from requirements_complete[OF this, of False] show ?thesis by (simp add: example_plan_defs)
qed

text \<open>
  The analysis does not look into ORDER BY: sorting by \<^verbatim>\<open>count(DISTINCT id)\<close> needs the DISTINCT
  aggregate capability, yet, whatever the catalog says, it is not among the requirements.
\<close>

theorem order_by_capability_missed:
  "let plan = example_plan (BoundExpr (BoundExprKind.Literal (LiteralValue.Int64 1)) DataType.Int64 False (SyntaxNode None ''literal''))
         [BoundOrderByExpr example_count None None (SyntaxNode None ''order'')]
   in \<not> plan_all (\<lambda>n. set (node_needs catalog n) \<subseteq> set (cr_required (capability_requirements_from_plan plan explain catalog))) plan \<and>
      CapabilityRequirement.DistinctAggregates \<notin> set (cr_required (capability_requirements_from_plan plan explain catalog))"
  by (simp add: example_plan_defs requirements_iff recorded.simps query_level_features_def PlanFeatures_default_def
      List.map_filter_simps BoundProjectionItem_as_expr_def)

end
