(* ===== verification/QF_Compile.thy ===== *)
theory QF_Compile
  imports QF_Plan_Sound QF_Requirements
begin

text \<open>
  The entry points of \<^verbatim>\<open>crates/queryfabric-catalog/src/bind/mod.rs\<close>: \<open>bind_and_validate\<close> runs the binder on
  a parsed query, collects the diagnostics of lowering and binding, computes the capability requirements
  and finalises the parameters. The BLAKE3 digest of the receipt is the parameter \<open>blake3_hex\<close>.
\<close>

section \<open>Entry points\<close>

definition query_provenance ::
  "(string \<Rightarrow> string) \<Rightarrow> ParsedQuery \<Rightarrow> Catalog \<Rightarrow> ProvenanceReceipt" where
  "query_provenance blake3_hex parsed catalog =
     receipt_with_catalog_snapshot (cat_snapshot_id catalog)
       (ProvenanceReceipt_for_query blake3_hex (pq_canonical_sql parsed) (pq_dialect parsed))"

definition bind_and_validate ::
  "(string \<Rightarrow> string) \<Rightarrow> ParsedQuery \<Rightarrow> Catalog \<Rightarrow> QueryParameters \<Rightarrow> BoundQuery result" where
  "bind_and_validate blake3_hex parsed catalog parameters =
     (let provenance = query_provenance blake3_hex parsed catalog;
          (plan, s) = run_state (bind_query catalog (pq_syntax parsed) None) (Binder_new parameters);
          diagnostics = pq_lowering_diagnostics parsed @ b_diagnostics s;
          requirements = capability_requirements_from_plan plan (pq_explain parsed) catalog
      in if list_ex is_error diagnostics
         then Inl (QueryFabricError_bind (first_error_message diagnostics ''binding failed'')
                (Some parsed) diagnostics (Some provenance))
         else case fst (run_state (finalize_parameters parameters) s) of
             Inl e \<Rightarrow> Inl e
           | Inr bindings \<Rightarrow> Inr
               (with_provenance
                 (receipt_with_capability_decision
                   (if CapabilityRequirements_is_empty requirements
                    then ''portable-v1:trivial'' else ''portable-v1:checked'') provenance)
               (with_result_schema (bp_result_schema plan)
               (with_capability_requirements requirements
               (with_diagnostics diagnostics
               (with_parameters bindings
               (with_plan plan
               (with_catalog_snapshot (cat_snapshot_id catalog)
                 (BoundQuery_new blake3_hex parsed)))))))))"

definition infer_result_schema ::
  "(string \<Rightarrow> string) \<Rightarrow> ParsedQuery \<Rightarrow> Catalog \<Rightarrow> ResultSchema result" where
  "infer_result_schema blake3_hex query catalog =
     map_sum id bq_result_schema (bind_and_validate blake3_hex query catalog QueryParameters_default)"

definition unsupported :: "string \<Rightarrow> string \<Rightarrow> QueryFabricError" where
  "unsupported feature detail = UnsupportedFeature feature detail"

section \<open>An example\<close>

text \<open>\<^verbatim>\<open>SELECT record_id FROM records WHERE record_id = ?1\<close> over the catalog that holds one relation.\<close>

definition example_node :: SyntaxNode where
  "example_node = SyntaxNode None ''n''"

text \<open>A SELECT of one column of one relation.\<close>

definition example_select ::
  "SyntaxQuery SyntaxCte list \<Rightarrow> string \<Rightarrow> SyntaxExpr option \<Rightarrow> SyntaxQuery" where
  "example_select ctes relation selection =
     SyntaxQuery example_node ctes False
       (SyntaxSetExpr.Select (SyntaxSelect False
          [SyntaxProjectionItem_expr (SyntaxExpr (SyntaxExprKind.Column None ''record_id'') example_node) None example_node]
          [SyntaxTableWithJoins (SyntaxRelation.Table (NameRef None relation) None example_node) [] example_node]
          selection [] None example_node)) [] None None []"

definition example_syntax :: "ParameterRef \<Rightarrow> SyntaxQuery" where
  "example_syntax reference =
     example_select [] ''records''
       (Some (SyntaxExpr (SyntaxExprKind.Binary BinaryOperator.Eq
          (SyntaxExpr (SyntaxExprKind.Column None ''record_id'') example_node)
          (SyntaxExpr (SyntaxExprKind.Parameter reference) example_node)) example_node))"

definition chained_cte_syntax :: SyntaxQuery where
  "chained_cte_syntax =
     example_select
       [SyntaxCte ''a'' [] (example_select [] ''records'' None) example_node,
        SyntaxCte ''b'' [] (example_select [] ''a'' None) example_node] ''b'' None"

definition example_query :: "SyntaxQuery \<Rightarrow> ParsedQuery" where
  "example_query syntax = with_syntax syntax (ParsedQuery_new ''sql'' ''SELECT'' ''SELECT'')"

definition example_catalog :: Catalog where
  "example_catalog = memory_catalog (register_relation example_relation MemoryCatalog_default)"

definition example_parameters :: "ParameterValue \<Rightarrow> QueryParameters" where
  "example_parameters v = \<lparr>qp_positional = [(1, v)], qp_named = []\<rparr>"

definition example_binding :: "ParameterValue \<Rightarrow> BoundQuery result" where
  "example_binding v =
     bind_and_validate id (example_query (example_syntax (Positional 1))) example_catalog (example_parameters v)"

lemma example_binds:
  "bind_and_validate id (example_query (example_syntax (Positional 1))) example_catalog
     (example_parameters (ParameterValue.Uuid ''u'')) = Inr (projr (example_binding (ParameterValue.Uuid ''u'')))"
proof -
  have "\<not> isl (example_binding (ParameterValue.Uuid ''u''))" by code_simp
  then show ?thesis by (simp add: example_binding_def)
qed

lemma example_fails:
  "bind_and_validate id (example_query (example_syntax (Positional 1))) example_catalog
     (example_parameters (ParameterValue.Boolean True)) = Inl (projl (example_binding (ParameterValue.Boolean True)))"
proof -
  have "isl (example_binding (ParameterValue.Boolean True))" by code_simp
  then show ?thesis by (simp add: example_binding_def)
qed

section \<open>What binding establishes\<close>

lemma bind_query_run:
  assumes "run_state (bind_query catalog query outer) s = (plan, t)"
  shows "binder_le s t" and "plan_all (node_ok catalog t) plan"
  using bind_ok(1)[of catalog query outer] assms by (auto simp: post_def dest: spec[of _ s])

lemma bind_and_validate_cases:
  obtains plan s where
    "run_state (bind_query catalog (pq_syntax parsed) None) (Binder_new parameters) = (plan, s)"
    "bt_wf (b_parameter_constraints s)" "plan_all (node_ok catalog s) plan"
proof -
  obtain plan s where run: "run_state (bind_query catalog (pq_syntax parsed) None) (Binder_new parameters) = (plan, s)"
    by fastforce
  from bind_query_run[OF run] have "bt_wf (b_parameter_constraints s)"
    by (simp add: binder_le_def Binder_new_def)
  then show thesis by (rule that[OF run _ bind_query_run(2)[OF run]])
qed

lemma bind_and_validate_Inr:
  assumes "bind_and_validate blake3_hex parsed catalog parameters = Inr q"
  obtains s t where
    "run_state (bind_query catalog (pq_syntax parsed) None) (Binder_new parameters) = (bq_plan q, s)"
    "run_state (finalize_parameters parameters) s = (Inr (bq_parameters q), t)"
    "bt_wf (b_parameter_constraints s)" "plan_all (node_ok catalog s) (bq_plan q)"
    "bq_diagnostics q = pq_lowering_diagnostics parsed @ b_diagnostics s"
    "\<not> list_ex is_error (bq_diagnostics q)" "bq_parsed q = parsed"
    "bq_result_schema q = bp_result_schema (bq_plan q)"
    "bq_capability_requirements q = capability_requirements_from_plan (bq_plan q) (pq_explain parsed) catalog"
    "bq_catalog_snapshot q = Some (cat_snapshot_id catalog)"
proof -
  obtain plan s where s: "run_state (bind_query catalog (pq_syntax parsed) None) (Binder_new parameters) = (plan, s)"
      "bt_wf (b_parameter_constraints s)" "plan_all (node_ok catalog s) plan"
    by (rule bind_and_validate_cases)
  obtain r t where r: "run_state (finalize_parameters parameters) s = (r, t)" by fastforce
  have errors: "\<not> list_ex is_error (pq_lowering_diagnostics parsed @ b_diagnostics s)"
    using assms s(1) unfolding bind_and_validate_def by (auto simp: Let_def split: if_splits)
  obtain bindings where bindings: "r = Inr bindings"
    using assms s(1) r errors unfolding bind_and_validate_def by (cases r) (auto simp: Let_def)
  have q: "q = with_provenance
                 (receipt_with_capability_decision
                   (if CapabilityRequirements_is_empty (capability_requirements_from_plan plan (pq_explain parsed) catalog)
                    then ''portable-v1:trivial'' else ''portable-v1:checked'') (query_provenance blake3_hex parsed catalog))
               (with_result_schema (bp_result_schema plan)
               (with_capability_requirements (capability_requirements_from_plan plan (pq_explain parsed) catalog)
               (with_diagnostics (pq_lowering_diagnostics parsed @ b_diagnostics s)
               (with_parameters bindings
               (with_plan plan
               (with_catalog_snapshot (cat_snapshot_id catalog)
                 (BoundQuery_new blake3_hex parsed)))))))"
    using assms s(1) r errors bindings unfolding bind_and_validate_def by (simp add: Let_def)
  show thesis
    by (rule that[of s t]) (use s r errors bindings in \<open>simp_all add: q with_provenance_def with_result_schema_def
      with_capability_requirements_def with_diagnostics_def with_parameters_def with_plan_def
      with_catalog_snapshot_def BoundQuery_new_def\<close>)
qed

text \<open>
  C2. Type soundness of binding. When binding succeeds, no node of the plan, at any depth, is an
  unsupported placeholder; every node's type, nullability and schema annotations agree with those of its
  children under the catalog's signatures; the reported result schema is that of the plan's body; and no
  diagnostic of lowering or binding is an error.
\<close>

theorem bind_and_validate_sound:
  assumes "bind_and_validate blake3_hex parsed catalog parameters = Inr q"
  shows "plan_all (\<lambda>n. node_supported n \<and> node_typed catalog n) (bq_plan q) \<and>
    bq_result_schema q = BoundSetExpr_result_schema (bp_body (bq_plan q)) \<and>
    \<not> list_ex is_error (bq_diagnostics q) \<and>
    bq_parsed q = parsed \<and> bq_catalog_snapshot q = Some (cat_snapshot_id catalog)"
proof -
  obtain s t where s: "plan_all (node_ok catalog s) (bq_plan q)"
      "bq_diagnostics q = pq_lowering_diagnostics parsed @ b_diagnostics s"
      "\<not> list_ex is_error (bq_diagnostics q)" "bq_result_schema q = bp_result_schema (bq_plan q)"
      "bq_parsed q = parsed" "bq_catalog_snapshot q = Some (cat_snapshot_id catalog)"
    by (rule bind_and_validate_Inr[OF assms]) blast
  then have "\<not> has_error s" by (simp add: has_error_def)
  then have all: "plan_all (\<lambda>n. node_supported n \<and> node_typed catalog n) (bq_plan q)"
    by (intro all_nodes_mono(1)[OF s(1)]) (simp add: node_ok_def)
  then have "bp_result_schema (bq_plan q) = BoundSetExpr_result_schema (bp_body (bq_plan q))"
    by (cases "bq_plan q") simp
  with all s show ?thesis by simp
qed

lemma list_all2_mem2: "list_all2 P xs ys \<Longrightarrow> y \<in> set ys \<Longrightarrow> \<exists>x \<in> set xs. P x y"
  by (induction rule: list_all2_induct) auto

lemma list_all2_mem1: "list_all2 P xs ys \<Longrightarrow> x \<in> set xs \<Longrightarrow> \<exists>y \<in> set ys. P x y"
  by (induction rule: list_all2_induct) auto

theorem bind_and_validate_sound_witness:
  "plan_all (\<lambda>n. node_supported n \<and> node_typed example_catalog n)
     (bq_plan (projr (example_binding (ParameterValue.Uuid ''u''))))"
  using bind_and_validate_sound[OF example_binds] by blast

text \<open>A parameter node is bound when a binding of its reference exists that is not laxer than the node.\<close>

fun node_bound :: "ParameterBinding list \<Rightarrow> BoundNode \<Rightarrow> bool" where
  "node_bound bindings (ExprNode (BoundExpr (BoundExprKind.Parameter r) data_type nullable node)) \<longleftrightarrow>
     list_ex (\<lambda>b. ps_reference (pb_schema b) = r \<and> (nullable \<or> \<not> ps_nullable (pb_schema b))) bindings"
| "node_bound bindings _ = True"

lemma node_bound_declared:
  assumes "node_declared s n" and "list_all2 (binding_ok parameters) (b_parameter_constraints s) bindings"
  shows "node_bound bindings n"
proof (cases "(bindings, n)" rule: node_bound.cases)
  case (1 bs r data_type nullable node)
  with assms(1) obtain c where c: "bt_get (b_parameter_constraints s) r = Some c" "\<not> nullable \<longrightarrow> pc_nullable c = NonNull"
    by (auto simp: parameter_recorded_def)
  from c(1) have "(r, c) \<in> set (b_parameter_constraints s)" by (rule bt_get_mem)
  then obtain b where "b \<in> set bindings" "binding_ok parameters (r, c) b"
    using list_all2_mem1[OF assms(2)] by blast
  with 1 c(2) show ?thesis by (auto simp: list_ex_iff binding_ok_def split: if_splits)
qed (use assms in auto)

lemma bind_and_validate_parameters:
  assumes "bind_and_validate blake3_hex parsed catalog parameters = Inr q"
  shows "plan_all (node_bound (bq_parameters q)) (bq_plan q)"
    and "sorted_wrt (<) (map (ps_reference \<circ> pb_schema) (bq_parameters q))"
    and "b \<in> set (bq_parameters q) \<Longrightarrow> ps_data_type (pb_schema b) \<noteq> DataType.Unknown \<and>
      pb_value b = QueryParameters_lookup parameters (ps_reference (pb_schema b)) \<and>
      pred_option (\<lambda>v. parameter_value_matches_schema v (pb_schema b)) (pb_value b)"
proof -
  obtain s t where s: "run_state (finalize_parameters parameters) s = (Inr (bq_parameters q), t)"
      "bt_wf (b_parameter_constraints s)" "plan_all (node_ok catalog s) (bq_plan q)"
    by (rule bind_and_validate_Inr[OF assms]) blast
  note final = finalize_parameters_bindings[OF s(2,1)]
  show "plan_all (node_bound (bq_parameters q)) (bq_plan q)"
    by (rule all_nodes_mono(1)[OF s(3)]) (auto simp: node_ok_def intro: node_bound_declared[OF _ final(1)])
  show "sorted_wrt (<) (map (ps_reference \<circ> pb_schema) (bq_parameters q))"
    unfolding final(2) using s(2) by (simp add: bt_wf_def)
  show "ps_data_type (pb_schema b) \<noteq> DataType.Unknown \<and>
      pb_value b = QueryParameters_lookup parameters (ps_reference (pb_schema b)) \<and>
      pred_option (\<lambda>v. parameter_value_matches_schema v (pb_schema b)) (pb_value b)" if "b \<in> set (bq_parameters q)"
    using list_all2_mem2[OF final(1) that] by (auto simp: binding_ok_def split: option.splits)
qed

text \<open>
  C3. Parameter soundness. When binding succeeds, every parameter of the plan, at any depth, has a
  binding, non-nullable wherever the plan relies on it; bindings are strictly ordered by reference, so
  there is exactly one each; each has a resolved type, carries exactly the value the caller supplied for
  its reference, and that value matches the inferred type and nullability.
\<close>

theorem bind_parameters_sound:
  assumes "bind_and_validate blake3_hex parsed catalog parameters = Inr q"
  shows "plan_all (node_bound (bq_parameters q)) (bq_plan q) \<and>
    sorted_wrt (<) (map (ps_reference \<circ> pb_schema) (bq_parameters q)) \<and>
    list_all (\<lambda>b. ps_data_type (pb_schema b) \<noteq> DataType.Unknown \<and>
      pb_value b = QueryParameters_lookup parameters (ps_reference (pb_schema b)) \<and>
      pred_option (\<lambda>v. parameter_value_matches_schema v (pb_schema b)) (pb_value b)) (bq_parameters q)"
  using bind_and_validate_parameters[OF assms] unfolding list_all_iff by blast

theorem bind_parameters_sound_witness:
  "plan_all (node_bound (bq_parameters (projr (example_binding (ParameterValue.Uuid ''u'')))))
     (bq_plan (projr (example_binding (ParameterValue.Uuid ''u''))))"
  using bind_parameters_sound[OF example_binds] by blast

lemma first_error_message_find:
  "list_ex is_error ds \<Longrightarrow> \<exists>d \<in> set ds. is_error d \<and> List.find is_error ds = Some d \<and> first_error_message ds m = qd_message d"
  by (induction ds) (auto simp: first_error_message_def)

text \<open>
  C5. Error behaviour of binding. A failed binding is always a Bind error; it carries at least one error
  diagnostic and its message is that of the first one. It succeeds only without lowering errors: when
  lowering reported an error, the failure names the source query and keeps lowering's diagnostics first.
\<close>

theorem bind_and_validate_error:
  assumes "bind_and_validate blake3_hex parsed catalog parameters = Inl e"
  shows "\<exists>details. e = QueryFabricError.Bind details \<and>
    list_ex is_error (be_diagnostics details) \<and>
    List.find is_error (be_diagnostics details) \<noteq> None \<and>
    be_message details = qd_message (the (List.find is_error (be_diagnostics details))) \<and>
    (list_ex is_error (pq_lowering_diagnostics parsed) \<longrightarrow>
       be_source_sql details = Some (pq_source_sql parsed) \<and>
       (\<exists>rest. be_diagnostics details = pq_lowering_diagnostics parsed @ rest))"
proof -
  obtain plan s where run: "run_state (bind_query catalog (pq_syntax parsed) None) (Binder_new parameters) = (plan, s)"
    by fastforce
  let ?ds = "pq_lowering_diagnostics parsed @ b_diagnostics s"
  show ?thesis
  proof (cases "list_ex is_error ?ds")
    case True
    with assms run have "e = QueryFabricError_bind (first_error_message ?ds ''binding failed'') (Some parsed) ?ds
        (Some (query_provenance blake3_hex parsed catalog))"
      unfolding bind_and_validate_def by (auto simp: Let_def)
    with True first_error_message_find[OF True, of "''binding failed''"] show ?thesis
      by (auto simp: QueryFabricError_bind_def)
  next
    case False
    with assms run have "fst (run_state (finalize_parameters parameters) s) = Inl e"
      unfolding bind_and_validate_def by (auto simp: Let_def split: sum.splits)
    then obtain ds where ds: "list_ex is_error ds"
        "e = QueryFabricError_bind (first_error_message ds ''parameter binding failed'') None ds None"
      unfolding finalize_parameters_def by (auto simp: Let_def split: if_splits prod.splits)
    with False first_error_message_find[OF ds(1), of "''parameter binding failed''"] show ?thesis
      by (auto simp: QueryFabricError_bind_def)
  qed
qed

theorem bind_and_validate_error_witness:
  "\<exists>details. projl (example_binding (ParameterValue.Boolean True)) = QueryFabricError.Bind details \<and>
     list_ex is_error (be_diagnostics details)"
  using bind_and_validate_error[OF example_fails] by blast

text \<open>
  A common table expression is not in scope of the ones after it: binding
  \<^verbatim>\<open>WITH a AS (SELECT ... FROM records), b AS (SELECT ... FROM a) SELECT ... FROM b\<close> fails although
  each relation is defined.
\<close>

theorem chained_cte_rejected:
  "isl (bind_and_validate id (example_query chained_cte_syntax) example_catalog QueryParameters_default)"
  by code_simp

section \<open>Anonymous parameters\<close>

lemma foldl_max:
  fixes m :: "'a::linorder"
  shows "m \<le> foldl max m xs \<and> (\<forall>x \<in> set xs. x \<le> foldl max m xs) \<and> foldl max m xs \<in> set (m # xs)"
proof (induction xs arbitrary: m)
  case (Cons a xs)
  from Cons.IH[of "max m a"] show ?case by (auto simp: max_def split: if_splits)
qed simp

lemma next_auto_position_fresh:
  assumes "k \<in> set (bt_keys (qp_positional ps))" and "- 1 \<notin> set (bt_keys (qp_positional ps))"
  shows "k < next_auto_position_seed ps"
proof -
  obtain m xs where keys: "bt_keys (qp_positional ps) = m # xs"
    using assms(1) by (cases "bt_keys (qp_positional ps)") auto
  note bound = foldl_max[of m xs]
  have "k \<le> foldl max m xs" and "foldl max m xs \<noteq> - 1" using assms bound by (auto simp: keys)
  then show ?thesis using word_less_Suc by (fastforce simp: next_auto_position_seed_def keys)
qed

text \<open>
  An anonymous placeholder is allocated a position after every supplied one, so no supplied
  positional value ever reaches it.
\<close>

theorem anonymous_parameter_unsupplied:
  assumes "- 1 \<notin> set (bt_keys (qp_positional parameters))"
  shows "QueryParameters_lookup parameters
    (fst (run_state (allocate_parameter (Positional 0)) (Binder_new parameters))) = None"
proof -
  have "next_auto_position_seed parameters \<notin> set (bt_keys (qp_positional parameters))"
    using next_auto_position_fresh[OF _ assms] by blast
  then show ?thesis
    by (simp add: allocate_parameter_def State_Monad.update_def Binder_new_def bt_get_None_iff)
qed

theorem anonymous_parameter_unsupplied_witness:
  "QueryParameters_lookup (example_parameters (ParameterValue.Uuid ''u''))
     (fst (run_state (allocate_parameter (Positional 0)) (Binder_new (example_parameters (ParameterValue.Uuid ''u''))))) = None"
  by (rule anonymous_parameter_unsupplied) (simp add: example_parameters_def)

end
