(* ===== verification/QF_Priority.thy ===== *)
theory QF_Priority
  imports QF_Prelude "HOL-Library.Multiset" "HOL-Library.Product_Lexorder"
begin

text \<open>
  The priority dispatcher of \<^verbatim>\<open>crates/queryfabric-job-queue/src/priority.rs\<close>: a heap of pending entries
  with first-in-first-out tie breaking, a semaphore of worker permits and a cancellation token per running
  job. The heap of the standard library is the list of its elements, and popping takes a greatest one; a
  token is an index into the list of cancellation flags, so that the copy in the running map and the copy
  the worker holds are the same token.
\<close>

section \<open>Entries\<close>

type_synonym Uuid = "128 word"
type_synonym i16 = "16 word"
type_synonym CancellationToken = nat

record 'k Entry =
  e_job_id :: Uuid
  e_priority :: i16
  e_seq :: u64
  e_kind :: 'k

datatype Ordering = Less | Equal | Greater

definition cmp :: "'a::linorder \<Rightarrow> 'a \<Rightarrow> Ordering" where
  "cmp a b = (if a < b then Less else if a = b then Equal else Greater)"

fun then_with :: "Ordering \<Rightarrow> Ordering \<Rightarrow> Ordering" where
  "then_with Equal o2 = o2"
| "then_with o1 _ = o1"

definition Entry_cmp :: "'k Entry \<Rightarrow> 'k Entry \<Rightarrow> Ordering" where
  "Entry_cmp self other =
     then_with (cmp (sint (e_priority other)) (sint (e_priority self))) (cmp (e_seq other) (e_seq self))"

definition heap_push :: "'k Entry \<Rightarrow> 'k Entry list \<Rightarrow> 'k Entry list" where
  "heap_push e h = h @ [e]"

definition heap_pop :: "'k Entry list \<Rightarrow> ('k Entry \<times> 'k Entry list) option" where
  "heap_pop h =
     map_option (\<lambda>e. (e, remove1 e h)) (reduce (\<lambda>a b. if Entry_cmp b a = Greater then b else a) h)"

section \<open>The runner\<close>

datatype CancelOutcome = RemovedFromQueue | SignalledRunning | NotFound

record 'k Dispatch =
  d_job_id :: Uuid
  d_kind :: 'k
  d_cancel :: CancellationToken

record 'k PriorityRunner =
  pr_permits :: nat
  pr_pending :: "'k Entry list"
  pr_seq :: u64
  pr_running :: "(Uuid, CancellationToken \<times> 'k) btree_map"
  pr_tokens :: "bool list"

definition PriorityRunner_new :: "nat \<Rightarrow> 'k PriorityRunner" where
  "PriorityRunner_new permits =
     \<lparr>pr_permits = permits, pr_pending = [], pr_seq = 0, pr_running = [], pr_tokens = []\<rparr>"

definition submit :: "Uuid \<Rightarrow> i16 \<Rightarrow> 'k \<Rightarrow> 'k PriorityRunner \<Rightarrow> 'k PriorityRunner" where
  "submit job_id priority kind r =
     (let s = pr_seq r + 1
      in r\<lparr>pr_seq := s,
           pr_pending := heap_push \<lparr>e_job_id = job_id, e_priority = priority, e_seq = s, e_kind = kind\<rparr> (pr_pending r)\<rparr>)"

text \<open>A permit taken before the queue turns out to be empty is dropped again.\<close>

definition try_dispatch :: "'k PriorityRunner \<Rightarrow> 'k Dispatch option \<times> 'k PriorityRunner" where
  "try_dispatch r =
     (if pr_permits r = 0 then (None, r)
      else case heap_pop (pr_pending r) of
          None \<Rightarrow> (None, r)
        | Some (entry, rest) \<Rightarrow>
            (let token = length (pr_tokens r)
             in (Some \<lparr>d_job_id = e_job_id entry, d_kind = e_kind entry, d_cancel = token\<rparr>,
                 r\<lparr>pr_permits := pr_permits r - 1, pr_pending := rest,
                   pr_running := bt_insert (e_job_id entry) (token, e_kind entry) (pr_running r),
                   pr_tokens := pr_tokens r @ [False]\<rparr>)))"

definition cancel :: "Uuid \<Rightarrow> 'k PriorityRunner \<Rightarrow> CancelOutcome \<times> 'k PriorityRunner" where
  "cancel job_id r =
     (case bt_get (pr_running r) job_id of
        Some (token, _) \<Rightarrow>
          (SignalledRunning,
           r\<lparr>pr_running := bt_remove job_id (pr_running r), pr_tokens := (pr_tokens r)[token := True]\<rparr>)
      | None \<Rightarrow>
          (if list_ex (\<lambda>e. e_job_id e = job_id) (pr_pending r) then RemovedFromQueue else NotFound,
           r\<lparr>pr_pending := filter (\<lambda>e. e_job_id e \<noteq> job_id) (pr_pending r)\<rparr>))"

definition finish :: "Uuid \<Rightarrow> 'k PriorityRunner \<Rightarrow> 'k PriorityRunner" where
  "finish job_id r = r\<lparr>pr_running := bt_remove job_id (pr_running r)\<rparr>"

text \<open>Dropping the permit of a dispatch.\<close>

definition release_permit :: "'k PriorityRunner \<Rightarrow> 'k PriorityRunner" where
  "release_permit r = r\<lparr>pr_permits := pr_permits r + 1\<rparr>"

definition pending_count :: "'k \<Rightarrow> 'k PriorityRunner \<Rightarrow> nat" where
  "pending_count kind r = length (filter (\<lambda>e. e_kind e = kind) (pr_pending r))"

definition running_count :: "'k \<Rightarrow> 'k PriorityRunner \<Rightarrow> nat" where
  "running_count kind r = length (filter (\<lambda>e. snd (snd e) = kind) (pr_running r))"

definition total_pending :: "'k PriorityRunner \<Rightarrow> nat" where
  "total_pending r = length (pr_pending r)"

definition total_running :: "'k PriorityRunner \<Rightarrow> nat" where
  "total_running r = length (pr_running r)"

section \<open>Dispatch order\<close>

definition entry_key :: "'k Entry \<Rightarrow> int \<times> u64" where
  "entry_key e = (sint (e_priority e), e_seq e)"

lemma Entry_cmp_Greater: "Entry_cmp b a = Greater \<longleftrightarrow> entry_key b < entry_key a"
  by (auto simp: Entry_cmp_def entry_key_def cmp_def split: if_splits)

text \<open>The abstract queue: the pending entries in dispatch order.\<close>

definition dispatch_queue :: "'k PriorityRunner \<Rightarrow> 'k Entry list" where
  "dispatch_queue r = sort_key entry_key (pr_pending r)"

definition runner_wf :: "'k PriorityRunner \<Rightarrow> bool" where
  "runner_wf r \<longleftrightarrow> sorted_wrt (<) (map e_seq (pr_pending r)) \<and> list_all (\<lambda>e. e_seq e \<le> pr_seq r) (pr_pending r)"

lemma reduce_greatest:
  assumes "reduce (\<lambda>a b. if Entry_cmp b a = Greater then b else a) h = Some e"
  shows "e \<in> set h \<and> (\<forall>x \<in> set h. entry_key e \<le> entry_key x)"
proof -
  have "foldl (\<lambda>a b. if Entry_cmp b a = Greater then b else a) a xs \<in> set (a # xs) \<and>
      (\<forall>x \<in> set (a # xs). entry_key (foldl (\<lambda>a b. if Entry_cmp b a = Greater then b else a) a xs) \<le> entry_key x)"
    for a :: "'a Entry" and xs
  proof (induction xs arbitrary: a)
    case (Cons b xs)
    from Cons.IH[of b] Cons.IH[of a] show ?case
      by (cases "entry_key b < entry_key a") (auto simp: Entry_cmp_Greater intro: order_trans)
  qed simp
  then show ?thesis using assms by (cases h) auto
qed

lemma heap_pop_None [simp]: "heap_pop h = None \<longleftrightarrow> h = []"
  by (simp add: heap_pop_def)

lemma heap_pop_Some:
  assumes "heap_pop h = Some (e, rest)"
  shows "e \<in> set h" and "rest = remove1 e h" and "\<And>x. x \<in> set h \<Longrightarrow> entry_key e \<le> entry_key x"
  using assms reduce_greatest unfolding heap_pop_def by auto

lemma heap_pop_sort:
  assumes "heap_pop h = Some (e, rest)" and "inj_on entry_key (set h)"
  shows "sort_key entry_key h = e # sort_key entry_key rest"
proof (rule sort_key_inj_key_eq)
  note pop = heap_pop_Some[OF assms(1)]
  show "mset h = mset (e # sort_key entry_key rest)" using pop(1,2) by simp
  have "set rest \<subseteq> set h" using pop(2) by (simp add: set_remove1_subset)
  then show "sorted (map entry_key (e # sort_key entry_key rest))" using pop(3) by auto
qed (rule assms(2))

lemma wf_inj: "runner_wf r \<Longrightarrow> inj_on entry_key (set (pr_pending r))"
proof -
  assume "runner_wf r"
  then have "distinct (map e_seq (pr_pending r))" by (simp add: runner_wf_def strict_sorted_iff)
  then show ?thesis by (auto simp: distinct_map inj_on_def entry_key_def)
qed

lemma try_dispatch_queue:
  assumes "runner_wf r" and "pr_permits r > 0"
  shows "case dispatch_queue r of
      [] \<Rightarrow> try_dispatch r = (None, r)
    | e # queue \<Rightarrow> \<exists>t. try_dispatch r = (Some \<lparr>d_job_id = e_job_id e, d_kind = e_kind e, d_cancel = length (pr_tokens r)\<rparr>, t) \<and>
        dispatch_queue t = queue \<and> runner_wf t \<and> pr_permits t = pr_permits r - 1"
proof (cases "heap_pop (pr_pending r)")
  case None
  then show ?thesis by (simp add: dispatch_queue_def try_dispatch_def heap_pop_def)
next
  case (Some er)
  obtain e rest where er: "heap_pop (pr_pending r) = Some (e, rest)" using Some by (cases er) simp
  note pop = heap_pop_Some[OF er]
  have wf: "sorted_wrt (<) (map e_seq rest) \<and> list_all (\<lambda>e. e_seq e \<le> pr_seq r) rest"
    using assms(1) pop(2) unfolding runner_wf_def
    by (auto simp: list_all_iff sorted_wrt_map intro: sorted_wrt_remove1 dest: notin_set_remove1)
  then show ?thesis
    using assms(2) er heap_pop_sort[OF er wf_inj[OF assms(1)]]
    by (simp add: dispatch_queue_def try_dispatch_def runner_wf_def Let_def)
qed

text \<open>Dispatching as long as it succeeds, at most \<open>n\<close> times.\<close>

fun dispatch_many :: "nat \<Rightarrow> 'k PriorityRunner \<Rightarrow> Uuid list" where
  "dispatch_many 0 r = []"
| "dispatch_many (Suc n) r =
     (case try_dispatch r of
        (None, _) \<Rightarrow> []
      | (Some d, r') \<Rightarrow> d_job_id d # dispatch_many n r')"

definition submit_all :: "(Uuid \<times> i16 \<times> 'k) list \<Rightarrow> 'k PriorityRunner \<Rightarrow> 'k PriorityRunner" where
  "submit_all jobs r = fold (\<lambda>(job_id, priority, kind). submit job_id priority kind) jobs r"

lemma dispatch_many_queue:
  assumes "runner_wf r"
  shows "dispatch_many n r = map e_job_id (take (min n (pr_permits r)) (dispatch_queue r))"
  using assms
proof (induction n arbitrary: r)
  case (Suc n)
  show ?case
  proof (cases "pr_permits r = 0")
    case True
    then show ?thesis by (simp add: try_dispatch_def)
  next
    case False
    then have permits: "min (Suc n) (pr_permits r) = Suc (min n (pr_permits r - 1))" by simp
    show ?thesis
    proof (cases "dispatch_queue r")
      case Nil
      then show ?thesis using try_dispatch_queue[OF Suc.prems] False by simp
    next
      case (Cons e queue)
      then obtain t where t: "try_dispatch r = (Some \<lparr>d_job_id = e_job_id e, d_kind = e_kind e, d_cancel = length (pr_tokens r)\<rparr>, t)"
          "dispatch_queue t = queue" "runner_wf t" "pr_permits t = pr_permits r - 1"
        using try_dispatch_queue[OF Suc.prems] False by auto
      then show ?thesis unfolding permits using Suc.IH[OF t(3)] Cons by simp
    qed
  qed
qed simp

lemma submit_wf:
  assumes "runner_wf r" and "pr_seq r \<noteq> - 1"
  shows "runner_wf (submit job_id priority kind r)"
proof -
  have "pr_seq r < pr_seq r + 1"
    using assms(2) by (rule word_less_Suc)
  then show ?thesis using assms(1)
    by (auto simp: runner_wf_def submit_def heap_push_def Let_def sorted_wrt_append list_all_iff)
qed

lemma submit_all_pending:
  assumes "runner_wf r" and "unat (pr_seq r) + length jobs < 2 ^ 64"
  shows "runner_wf (submit_all jobs r) \<and> pr_permits (submit_all jobs r) = pr_permits r \<and>
    (\<exists>es. pr_pending (submit_all jobs r) = pr_pending r @ es \<and>
       map (\<lambda>e. (e_job_id e, e_priority e, e_kind e)) es = jobs)"
  using assms
proof (induction jobs arbitrary: r)
  case (Cons job jobs)
  obtain i p k where job: "job = (i, p, k)" by (cases job)
  let ?t = "submit i p k r"
  have not_max: "pr_seq r \<noteq> - 1" using Cons.prems(2) by (auto simp: unsigned_minus_1_eq_mask mask_eq_exp_minus_1)
  then have "unat (pr_seq r + 1) = Suc (unat (pr_seq r))"
    by (metis add.commute add_eq_0_iff unatSuc)
  then have "unat (pr_seq ?t) + length jobs < 2 ^ 64" using Cons.prems(2) by (simp add: submit_def Let_def)
  from Cons.IH[OF submit_wf[OF Cons.prems(1) not_max] this]
  obtain es where "runner_wf (submit_all jobs ?t)" "pr_permits (submit_all jobs ?t) = pr_permits ?t"
      "pr_pending (submit_all jobs ?t) = pr_pending ?t @ es" "map (\<lambda>e. (e_job_id e, e_priority e, e_kind e)) es = jobs"
    by blast
  then show ?case
    by (auto simp: submit_all_def job submit_def Let_def heap_push_def)
qed (simp add: submit_all_def)

lemma dispatch_queue_stable:
  assumes "runner_wf r"
  shows "dispatch_queue r = sort_key (\<lambda>e. sint (e_priority e)) (pr_pending r)"
proof -
  have "sorted (map e_seq (pr_pending r))" using assms by (simp add: runner_wf_def strict_sorted_iff)
  from sort_key_pair_stable[OF this, of "\<lambda>e. sint (e_priority e)"]
  show ?thesis by (simp add: dispatch_queue_def entry_key_def[abs_def])
qed

lemma sort_key_map_key: "sort_key f (map h xs) = map h (sort_key (\<lambda>x. f (h x)) xs)"
proof (induction xs)
  case (Cons x xs)
  have "insort_key f (h x) (map h ys) = map h (insort_key (\<lambda>x. f (h x)) x ys)" for ys
    by (induction ys) simp_all
  with Cons show ?case by simp
qed simp

text \<open>
  C20. Jobs leave the queue by priority, and first in first out among equal priorities: dispatching
  everything that was submitted to a fresh runner, permits allowing, yields the submissions stably sorted
  by their signed priority. The hypothesis excludes a wrap-around of the 64-bit sequence number.
\<close>

theorem dispatch_order_stable:
  assumes "length jobs < 2 ^ 64" and "length jobs \<le> permits"
  shows "dispatch_many (length jobs) (submit_all jobs (PriorityRunner_new permits)) =
    map fst (sort_key (\<lambda>(job_id, priority, kind). sint priority) jobs)"
proof -
  have "runner_wf (PriorityRunner_new permits)" by (simp add: runner_wf_def PriorityRunner_new_def)
  from submit_all_pending[OF this, of jobs] assms(1)
  obtain es where es: "runner_wf (submit_all jobs (PriorityRunner_new permits))"
      "pr_permits (submit_all jobs (PriorityRunner_new permits)) = permits"
      "pr_pending (submit_all jobs (PriorityRunner_new permits)) = es"
      "map (\<lambda>e. (e_job_id e, e_priority e, e_kind e)) es = jobs"
    by (auto simp: PriorityRunner_new_def)
  have "length jobs = length es" using arg_cong[OF es(4), of length] by simp
  then have "dispatch_many (length jobs) (submit_all jobs (PriorityRunner_new permits)) =
      map e_job_id (sort_key (\<lambda>e. sint (e_priority e)) es)"
    using assms(2) dispatch_many_queue[OF es(1), of "length jobs"]
    unfolding dispatch_queue_stable[OF es(1)] es(2,3) by simp
  also have "\<dots> = map fst (sort_key (\<lambda>(job_id, priority, kind). sint priority) jobs)"
    unfolding es(4)[symmetric] by (subst sort_key_map_key) (simp add: comp_def)
  finally show ?thesis .
qed

theorem dispatch_order_stable_witness:
  "dispatch_many 3 (submit_all [(1, 5, ''a''), (2, - 1, ''b''), (3, 5, ''c'')] (PriorityRunner_new 4)) = [2, 1, 3]"
  using dispatch_order_stable[of "[(1, 5, ''a''), (2, - 1, ''b''), (3, 5, ''c'')]" 4]
  by (simp add: numeral_3_eq_3 del: dispatch_many.simps)

text \<open>
  Cancelling is exact. A running job's token is signalled, a pending job is removed, and in both cases
  the runner no longer knows the job as running; every other pending job keeps its place in the dispatch
  order, every other token its state, and no permit changes hands.
\<close>

theorem cancel_exact:
  assumes "bt_wf (pr_running r)" and "cancel job_id r = (outcome, t)"
  shows "(outcome = SignalledRunning \<longleftrightarrow> bt_get (pr_running r) job_id \<noteq> None) \<and>
    (outcome = RemovedFromQueue \<longleftrightarrow>
       bt_get (pr_running r) job_id = None \<and> job_id \<in> set (map e_job_id (pr_pending r))) \<and>
    bt_get (pr_running t) job_id = None \<and>
    (outcome \<noteq> SignalledRunning \<longrightarrow> job_id \<notin> set (map e_job_id (pr_pending t)) \<and> pr_tokens t = pr_tokens r \<and>
       dispatch_queue t = filter (\<lambda>e. e_job_id e \<noteq> job_id) (dispatch_queue r)) \<and>
    (\<forall>token kind. bt_get (pr_running r) job_id = Some (token, kind) \<longrightarrow>
       pr_tokens t = (pr_tokens r)[token := True] \<and> dispatch_queue t = dispatch_queue r) \<and>
    pr_permits t = pr_permits r"
  using assms
  by (auto simp: cancel_def dispatch_queue_def bt_get_remove filter_sort list_ex_iff split: option.splits if_splits)

theorem cancel_exact_witness:
  "let r = submit 7 0 ''a'' (PriorityRunner_new 1) in
     fst (cancel 7 r) = RemovedFromQueue \<and> pr_permits (snd (cancel 7 r)) = pr_permits r"
proof -
  have wf: "bt_wf (pr_running (submit 7 0 ''a'' (PriorityRunner_new 1)))"
    by (simp add: submit_def Let_def PriorityRunner_new_def)
  have "fst (cancel 7 (submit 7 0 ''a'' (PriorityRunner_new 1))) = RemovedFromQueue" by code_simp
  then show ?thesis
    using cancel_exact[OF wf prod.collapse[symmetric], of 7] by (simp add: Let_def)
qed

end
