(* ===== verification/QF_Queue.thy ===== *)
theory QF_Queue
  imports QF_Priority
begin

text \<open>
  The job-queue actor of \<^verbatim>\<open>crates/queryfabric-job-queue/src/actor.rs\<close> as a state machine: the runner, the
  mailbox, and the spawned workers, each of which holds a permit and walks through the awaits of its task.
  The host's storage and executor answer as the event says; the calls made to them are recorded in order.
  An event is one handled message or one resumption of a worker, so every interleaving is a sequence of
  events.
\<close>

section \<open>State\<close>

datatype 'k QueueMessage = SubmitJob Uuid i16 'k | DispatchNext | CancelJob Uuid | CleanupExpired

datatype StorageCall =
    MarkStaleRunningFailed
  | PendingJobs
  | MarkRunning Uuid
  | LoadJob Uuid
  | CompleteJob Uuid
  | FailJob Uuid
  | CancelStored Uuid
  | ExpiredJobs
  | DeleteResult string
  | DeleteJob Uuid

text \<open>
  The points at which a worker task is suspended: before \<^verbatim>\<open>mark_running\<close>, \<^verbatim>\<open>load_job\<close>, \<^verbatim>\<open>execute\<close> and
  \<^verbatim>\<open>complete_job\<close>; with the result of these; before it tells the actor to dispatch; and at its end, where
  the permit is dropped.
\<close>

datatype WorkerPhase = Starting | Loading | Executing | Completing | Returned bool | Notifying | Exiting

record 'k Worker =
  w_job_id :: Uuid
  w_kind :: 'k
  w_cancel :: CancellationToken
  w_phase :: WorkerPhase

record 'k JobQueue =
  jq_runner :: "'k PriorityRunner"
  jq_mailbox :: "'k QueueMessage list"
  jq_workers :: "'k Worker list"
  jq_calls :: "StorageCall list"

definition tell :: "'k QueueMessage \<Rightarrow> 'k JobQueue \<Rightarrow> 'k JobQueue" where
  "tell m q = q\<lparr>jq_mailbox := jq_mailbox q @ [m]\<rparr>"

definition storage_call :: "StorageCall \<Rightarrow> 'k JobQueue \<Rightarrow> 'k JobQueue" where
  "storage_call c q = q\<lparr>jq_calls := jq_calls q @ [c]\<rparr>"

section \<open>Handlers\<close>

text \<open>Start-up: stale running jobs are failed and the pending ones, when they can be read, resubmitted.\<close>

definition on_start :: "nat \<Rightarrow> (Uuid \<times> i16 \<times> 'k) list option \<Rightarrow> 'k JobQueue" where
  "on_start permits pending_jobs =
     \<lparr>jq_runner = PriorityRunner_new permits,
      jq_mailbox =
        (case pending_jobs of
           Some jobs \<Rightarrow> map (\<lambda>(job_id, priority, kind). SubmitJob job_id priority kind) jobs
         | None \<Rightarrow> []),
      jq_workers = [],
      jq_calls = [MarkStaleRunningFailed, PendingJobs]\<rparr>"

definition handle_submit :: "Uuid \<Rightarrow> i16 \<Rightarrow> 'k \<Rightarrow> 'k JobQueue \<Rightarrow> 'k JobQueue" where
  "handle_submit job_id priority kind q =
     tell DispatchNext (q\<lparr>jq_runner := submit job_id priority kind (jq_runner q)\<rparr>)"

definition handle_dispatch :: "'k JobQueue \<Rightarrow> 'k JobQueue" where
  "handle_dispatch q =
     (case try_dispatch (jq_runner q) of
        (None, r) \<Rightarrow> q\<lparr>jq_runner := r\<rparr>
      | (Some d, r) \<Rightarrow>
          q\<lparr>jq_runner := r,
            jq_workers := jq_workers q @
              [\<lparr>w_job_id = d_job_id d, w_kind = d_kind d, w_cancel = d_cancel d, w_phase = Starting\<rparr>]\<rparr>)"

definition handle_cancel :: "bool \<Rightarrow> Uuid \<Rightarrow> 'k JobQueue \<Rightarrow> 'k JobQueue" where
  "handle_cancel load_ok job_id q =
     (let q = storage_call (LoadJob job_id) (q\<lparr>jq_runner := snd (cancel job_id (jq_runner q))\<rparr>)
      in if load_ok then storage_call (CancelStored job_id) q else q)"

definition handle_cleanup :: "(Uuid \<times> string option) list option \<Rightarrow> 'k JobQueue \<Rightarrow> 'k JobQueue" where
  "handle_cleanup expired q =
     fold (\<lambda>(job_id, result_path) q.
         storage_call (DeleteJob job_id)
           (case result_path of Some path \<Rightarrow> storage_call (DeleteResult path) q | None \<Rightarrow> q))
       (case expired of Some jobs \<Rightarrow> jobs | None \<Rightarrow> []) (storage_call ExpiredJobs q)"

text \<open>What the host answers while a message is handled.\<close>

record Host =
  h_load_ok :: bool
  h_expired :: "(Uuid \<times> string option) list option"

fun handle_message :: "Host \<Rightarrow> 'k QueueMessage \<Rightarrow> 'k JobQueue \<Rightarrow> 'k JobQueue" where
  "handle_message h (SubmitJob job_id priority kind) q = handle_submit job_id priority kind q"
| "handle_message h DispatchNext q = handle_dispatch q"
| "handle_message h (CancelJob job_id) q = handle_cancel (h_load_ok h) job_id q"
| "handle_message h CleanupExpired q = handle_cleanup (h_expired h) q"

section \<open>Workers\<close>

definition set_phase :: "nat \<Rightarrow> WorkerPhase \<Rightarrow> 'k JobQueue \<Rightarrow> 'k JobQueue" where
  "set_phase i p q = q\<lparr>jq_workers := (jq_workers q)[i := (jq_workers q ! i)\<lparr>w_phase := p\<rparr>]\<rparr>"

text \<open>The task ends: its permit is dropped.\<close>

definition drop_worker :: "nat \<Rightarrow> 'k JobQueue \<Rightarrow> 'k JobQueue" where
  "drop_worker i q =
     q\<lparr>jq_workers := take i (jq_workers q) @ drop (Suc i) (jq_workers q),
       jq_runner := release_permit (jq_runner q)\<rparr>"

definition continue_or_fail :: "nat \<Rightarrow> bool \<Rightarrow> WorkerPhase \<Rightarrow> 'k JobQueue \<Rightarrow> 'k JobQueue" where
  "continue_or_fail i ok p q = set_phase i (if ok then p else Returned False) q"

text \<open>One resumption of worker \<open>i\<close>; the awaited call succeeded if \<open>ok\<close>.\<close>

definition worker_step :: "nat \<Rightarrow> bool \<Rightarrow> 'k JobQueue \<Rightarrow> 'k JobQueue" where
  "worker_step i ok q =
     (let w = jq_workers q ! i; job_id = w_job_id w
      in case w_phase w of
          Starting \<Rightarrow> continue_or_fail i ok Loading (storage_call (MarkRunning job_id) q)
        | Loading \<Rightarrow> continue_or_fail i ok Executing (storage_call (LoadJob job_id) q)
        | Executing \<Rightarrow> continue_or_fail i ok Completing q
        | Completing \<Rightarrow> continue_or_fail i ok (Returned True) (storage_call (CompleteJob job_id) q)
        | Returned done_ok \<Rightarrow>
            (let q = set_phase i Notifying (q\<lparr>jq_runner := finish job_id (jq_runner q)\<rparr>)
             in if done_ok then q else storage_call (FailJob job_id) q)
        | Notifying \<Rightarrow> tell DispatchNext (set_phase i Exiting q)
        | Exiting \<Rightarrow> drop_worker i q)"

definition may_panic :: "WorkerPhase \<Rightarrow> bool" where
  "may_panic p \<longleftrightarrow> p = Starting \<or> p = Loading \<or> p = Executing \<or> p = Completing"

section \<open>Events\<close>

datatype 'k QueueEvent = Send "'k QueueMessage" | Handle Host | Work nat bool | Panic nat

text \<open>
  \<open>Send\<close> is a message from outside. A panic of the host's code unwinds the task: the permit is dropped,
  and what the task would have done afterwards is not done.
\<close>

fun queue_event :: "'k QueueEvent \<Rightarrow> 'k JobQueue \<Rightarrow> 'k JobQueue option" where
  "queue_event (Send m) q = Some (tell m q)"
| "queue_event (Handle h) q =
     (case jq_mailbox q of [] \<Rightarrow> None | m # ms \<Rightarrow> Some (handle_message h m (q\<lparr>jq_mailbox := ms\<rparr>)))"
| "queue_event (Work i ok) q = (if i < length (jq_workers q) then Some (worker_step i ok q) else None)"
| "queue_event (Panic i) q =
     (if i < length (jq_workers q) \<and> may_panic (w_phase (jq_workers q ! i)) then Some (drop_worker i q) else None)"

inductive queue_step :: "'k JobQueue \<Rightarrow> 'k JobQueue \<Rightarrow> bool" where
  event: "queue_event e q = Some q' \<Longrightarrow> queue_step q q'"

inductive queue_reachable :: "nat \<Rightarrow> 'k JobQueue \<Rightarrow> bool" for permits where
  start: "queue_reachable permits (on_start permits jobs)"
| step: "queue_reachable permits q \<Longrightarrow> queue_step q q' \<Longrightarrow> queue_reachable permits q'"

inductive_cases queue_stepE: "queue_step q q'"

fun run_events :: "'k QueueEvent list \<Rightarrow> 'k JobQueue \<Rightarrow> 'k JobQueue option" where
  "run_events [] q = Some q"
| "run_events (e # es) q = (case queue_event e q of Some q' \<Rightarrow> run_events es q' | None \<Rightarrow> None)"

lemma run_events_reachable:
  assumes "run_events es q = Some q'" and "queue_reachable permits q"
  shows "queue_reachable permits q'"
  using assms
proof (induction es arbitrary: q)
  case (Cons e es)
  then obtain p where p: "queue_event e q = Some p" "run_events es p = Some q'" by (auto split: option.splits)
  from Cons.prems(2) have "queue_reachable permits p" by (rule queue_reachable.step) (rule queue_step.event[OF p(1)])
  then show ?case by (rule Cons.IH[OF p(2)])
qed simp

section \<open>Permits and tokens\<close>

definition queue_inv :: "nat \<Rightarrow> 'k JobQueue \<Rightarrow> bool" where
  "queue_inv permits q \<longleftrightarrow>
     pr_permits (jq_runner q) + length (jq_workers q) = permits \<and>
     distinct (map w_cancel (jq_workers q)) \<and>
     (\<forall>t \<in> set (map w_cancel (jq_workers q)). t < length (pr_tokens (jq_runner q)))"

lemma queue_inv_cong:
  assumes "queue_inv permits q" and "pr_permits (jq_runner q') = pr_permits (jq_runner q)"
    and "map w_cancel (jq_workers q') = map w_cancel (jq_workers q)"
    and "length (pr_tokens (jq_runner q')) = length (pr_tokens (jq_runner q))"
  shows "queue_inv permits q'"
proof -
  have "length (jq_workers q') = length (jq_workers q)" using arg_cong[OF assms(3), of length] by simp
  then show ?thesis using assms unfolding queue_inv_def by (simp del: set_map)
qed

lemma queue_simps [simp]:
  "jq_runner (tell m q) = jq_runner q" "jq_workers (tell m q) = jq_workers q"
  "jq_runner (storage_call c q) = jq_runner q" "jq_workers (storage_call c q) = jq_workers q"
  "jq_runner (set_phase i p q) = jq_runner q"
  "i < length (jq_workers q) \<Longrightarrow> map w_cancel (jq_workers (set_phase i p q)) = map w_cancel (jq_workers q)"
  by (simp_all add: tell_def storage_call_def set_phase_def map_update list_update_same_conv)

lemma runner_simps [simp]:
  "pr_permits (submit i p k r) = pr_permits r" "pr_tokens (submit i p k r) = pr_tokens r"
  "pr_permits (finish i r) = pr_permits r" "pr_tokens (finish i r) = pr_tokens r"
  "pr_permits (snd (cancel i r)) = pr_permits r" "length (pr_tokens (snd (cancel i r))) = length (pr_tokens r)"
  by (simp_all add: submit_def finish_def cancel_def Let_def split: option.split)

lemma handle_cleanup_simps [simp]:
  "jq_runner (handle_cleanup expired q) = jq_runner q" "jq_workers (handle_cleanup expired q) = jq_workers q"
proof -
  have "jq_runner (fold (\<lambda>(job_id, result_path) q.
         storage_call (DeleteJob job_id)
           (case result_path of Some path \<Rightarrow> storage_call (DeleteResult path) q | None \<Rightarrow> q)) jobs q) = jq_runner q \<and>
      jq_workers (fold (\<lambda>(job_id, result_path) q.
         storage_call (DeleteJob job_id)
           (case result_path of Some path \<Rightarrow> storage_call (DeleteResult path) q | None \<Rightarrow> q)) jobs q) = jq_workers q"
    for jobs and q :: "'a JobQueue"
    by (induction jobs arbitrary: q) (auto split: option.split)
  then show "jq_runner (handle_cleanup expired q) = jq_runner q" "jq_workers (handle_cleanup expired q) = jq_workers q"
    by (simp_all add: handle_cleanup_def)
qed

lemma try_dispatch_effect:
  assumes "try_dispatch r = (d, t)"
  shows "(d = None \<and> t = r) \<or>
    (\<exists>x. d = Some x \<and> pr_permits r = Suc (pr_permits t) \<and> d_cancel x = length (pr_tokens r) \<and>
       length (pr_tokens t) = Suc (length (pr_tokens r)))"
  using assms by (auto simp: try_dispatch_def Let_def split: if_splits option.splits)

lemma handle_message_inv:
  assumes "queue_inv permits q"
  shows "queue_inv permits (handle_message h m q)"
proof (cases m)
  case DispatchNext
  obtain d t where dt: "try_dispatch (jq_runner q) = (d, t)" by fastforce
  with try_dispatch_effect[OF dt] assms show ?thesis
    by (fastforce simp: DispatchNext handle_dispatch_def queue_inv_def)
qed (use assms in \<open>auto intro: queue_inv_cong simp: handle_submit_def handle_cancel_def Let_def\<close>)

lemma drop_worker_inv:
  assumes "queue_inv permits q" and "i < length (jq_workers q)"
  shows "queue_inv permits (drop_worker i q)"
proof -
  have "jq_workers q = take i (jq_workers q) @ jq_workers q ! i # drop (Suc i) (jq_workers q)"
    using assms(2) by (rule id_take_nth_drop)
  then obtain xs w ys where q: "jq_workers q = xs @ w # ys" "take i (jq_workers q) = xs" "drop (Suc i) (jq_workers q) = ys"
    by blast
  show ?thesis using assms(1) unfolding queue_inv_def drop_worker_def q(2,3)
    by (auto simp: q(1) release_permit_def)
qed

lemma worker_step_inv:
  assumes "queue_inv permits q" and "i < length (jq_workers q)"
  shows "queue_inv permits (worker_step i ok q)"
proof (cases "w_phase (jq_workers q ! i)")
  case Exiting
  then show ?thesis using drop_worker_inv[OF assms] by (simp add: worker_step_def Let_def)
qed (use assms in \<open>auto intro!: queue_inv_cong[OF assms(1)] simp: worker_step_def continue_or_fail_def Let_def\<close>)

lemma queue_step_inv: "queue_step q q' \<Longrightarrow> queue_inv permits q \<Longrightarrow> queue_inv permits q'"
proof (erule queue_stepE)
  fix e assume inv: "queue_inv permits q" and e: "queue_event e q = Some q'"
  show "queue_inv permits q'"
  proof (cases e)
    case (Send m)
    with e inv show ?thesis by (auto intro: queue_inv_cong)
  next
    case (Handle h)
    with e obtain m ms where "jq_mailbox q = m # ms" "q' = handle_message h m (q\<lparr>jq_mailbox := ms\<rparr>)"
      by (auto split: list.splits)
    moreover have "queue_inv permits (q\<lparr>jq_mailbox := ms\<rparr>)" using inv by (rule queue_inv_cong) simp_all
    ultimately show ?thesis using handle_message_inv by blast
  qed (use e inv worker_step_inv drop_worker_inv in \<open>auto split: if_splits\<close>)
qed

text \<open>
  C19. Concurrency is capped and permits are conserved: in every reachable state, whatever the host answers
  and however messages, workers and panics interleave, the free permits and the workers add up to the
  configured number of permits, and no two workers share a cancellation token.
\<close>

theorem queue_permits_conserved:
  assumes "queue_reachable permits q"
  shows "pr_permits (jq_runner q) + length (jq_workers q) = permits \<and> distinct (map w_cancel (jq_workers q))"
proof -
  from assms have "queue_inv permits q"
  proof induction
    case (start jobs)
    then show ?case by (simp add: queue_inv_def on_start_def PriorityRunner_new_def)
  qed (rule queue_step_inv)
  then show ?thesis by (simp add: queue_inv_def)
qed

section \<open>A lost wake-up\<close>

definition lost_wakeup_events :: "string QueueEvent list" where
  "lost_wakeup_events =
     (let host = \<lparr>h_load_ok = True, h_expired = None\<rparr>
      in [Send (SubmitJob 1 0 ''query''), Send (SubmitJob 2 0 ''query''),
          Handle host, Handle host, Handle host, Handle host,
          Work 0 True, Work 0 True, Work 0 True, Work 0 True, Work 0 True, Work 0 True,
          Handle host, Work 0 True])"

definition lost_wakeup_state :: "string JobQueue" where
  "lost_wakeup_state = the (run_events lost_wakeup_events (on_start 1 None))"

lemma lost_wakeup_reachable: "queue_reachable 1 lost_wakeup_state"
proof -
  have "run_events lost_wakeup_events (on_start 1 None) \<noteq> None" by code_simp
  then have "run_events lost_wakeup_events (on_start 1 None) = Some lost_wakeup_state"
    by (auto simp: lost_wakeup_state_def)
  then show ?thesis by (rule run_events_reachable) (rule queue_reachable.start)
qed

theorem queue_permits_conserved_witness:
  "pr_permits (jq_runner lost_wakeup_state) + length (jq_workers lost_wakeup_state) = 1"
  using queue_permits_conserved[OF lost_wakeup_reachable] by simp

text \<open>
  C37. A finished worker tells the actor to dispatch before it drops its permit. With one permit this is a
  lost wake-up: a state is reachable in which a job is pending, the permit is free, no worker runs and no
  message is waiting, so nothing happens until another client sends a message.
\<close>

theorem dispatch_lost_wakeup:
  "queue_reachable 1 lost_wakeup_state \<and> total_pending (jq_runner lost_wakeup_state) = 1 \<and>
   pr_permits (jq_runner lost_wakeup_state) = 1 \<and>
   (\<forall>host i ok. queue_event (Handle host) lost_wakeup_state = None \<and>
      queue_event (Work i ok) lost_wakeup_state = None \<and> queue_event (Panic i) lost_wakeup_state = None)"
proof (intro conjI allI)
  show "total_pending (jq_runner lost_wakeup_state) = 1" by code_simp
  show "pr_permits (jq_runner lost_wakeup_state) = 1" by code_simp
  have quiet: "jq_mailbox lost_wakeup_state = []" "jq_workers lost_wakeup_state = []" by code_simp+
  then show "queue_event (Handle host) lost_wakeup_state = None" "queue_event (Work i ok) lost_wakeup_state = None"
    "queue_event (Panic i) lost_wakeup_state = None" for host i ok
    by simp_all
qed (rule lost_wakeup_reachable)

definition executor_panic_events :: "string QueueEvent list" where
  "executor_panic_events =
     (let host = \<lparr>h_load_ok = True, h_expired = None\<rparr>
      in [Send (SubmitJob 1 0 ''query''), Handle host, Handle host, Work 0 True, Work 0 True, Panic 0])"

definition executor_panic_state :: "string JobQueue" where
  "executor_panic_state = the (run_events executor_panic_events (on_start 1 None))"

lemma executor_panic_reachable: "queue_reachable 1 executor_panic_state"
proof -
  have "run_events executor_panic_events (on_start 1 None) \<noteq> None" by code_simp
  then have "run_events executor_panic_events (on_start 1 None) = Some executor_panic_state"
    by (auto simp: executor_panic_state_def)
  then show ?thesis by (rule run_events_reachable) (rule queue_reachable.start)
qed

text \<open>
  A panic of the host's executor is caught around the whole task, so the steps after the execution are
  skipped: a state is reachable in which a job is still counted as running although no worker holds it and no
  message is waiting.
\<close>

theorem executor_panic_leaks_running:
  "queue_reachable 1 executor_panic_state \<and> total_running (jq_runner executor_panic_state) = 1 \<and>
   jq_workers executor_panic_state = [] \<and> jq_mailbox executor_panic_state = []"
proof (intro conjI)
  show "total_running (jq_runner executor_panic_state) = 1" by code_simp
  show "jq_workers executor_panic_state = []" by code_simp
  show "jq_mailbox executor_panic_state = []" by code_simp
qed (rule executor_panic_reachable)

end
