(* ===== verification/QF_Governance.thy ===== *)
theory QF_Governance
  imports QF_Priority
begin

text \<open>
  Data governance: the contract vocabulary (\<^verbatim>\<open>crates/queryfabric-contract\<close>), access decisions and data
  rights (\<^verbatim>\<open>queryfabric-access\<close>), the in-memory ownership registry (\<^verbatim>\<open>queryfabric-tenancy\<close>) and the
  append-only provenance log (\<^verbatim>\<open>queryfabric-provenance\<close>). The traits a host implements are records of
  functions; what their documentation promises is stated by the locales, which the in-memory
  implementations interpret. JSON payloads are opaque strings.
\<close>

section \<open>Contract vocabulary\<close>

record ResourceRef =
  rr_namespace :: Uuid
  rr_id :: Uuid

datatype NodeId = NodeId Uuid

record Subject =
  s_id :: Uuid
  s_registered :: bool
  s_attributes :: "(string, string) btree_map"

datatype AccessPolicy = Open | Registered | Restricted "string list"

datatype AccessOutcome = Allow | Deny string

definition is_allowed :: "AccessOutcome \<Rightarrow> bool" where
  "is_allowed outcome \<longleftrightarrow> outcome = Allow"

datatype Activity =
    Created
  | Deleted string
  | Restored
  | Accessed u64
  | Modified string
  | OwnershipTransferred Uuid Uuid
  | ContentHashRecorded string string
  | FederationFlow "NodeId list" "u32 list"
  | BackupAnchor string string

fun Activity_tag :: "Activity \<Rightarrow> string" where
  "Activity_tag Created = ''created''"
| "Activity_tag (Deleted _) = ''deleted''"
| "Activity_tag Restored = ''restored''"
| "Activity_tag (Accessed _) = ''accessed''"
| "Activity_tag (Modified _) = ''modified''"
| "Activity_tag (OwnershipTransferred _ _) = ''ownership_transferred''"
| "Activity_tag (ContentHashRecorded _ _) = ''content_hash_recorded''"
| "Activity_tag (FederationFlow _ _) = ''federation_flow''"
| "Activity_tag (BackupAnchor _ _) = ''backup_anchor''"

section \<open>Access decisions\<close>

datatype GroupId = GroupId Uuid

record OwnershipSource =
  os_owner :: "ResourceRef \<Rightarrow> Subject option"
  os_groups_for :: "Subject \<Rightarrow> GroupId list"
  os_resource_groups :: "ResourceRef \<Rightarrow> GroupId list"
  os_has_accepted_agreement :: "Subject \<Rightarrow> ResourceRef \<Rightarrow> bool"

definition member_of :: "OwnershipSource \<Rightarrow> Subject \<Rightarrow> GroupId \<Rightarrow> bool" where
  "member_of ownership subject g \<longleftrightarrow> List.member (os_groups_for ownership subject) g"

record OwnershipSnapshot =
  is_owner :: bool
  in_authorized_group :: bool
  has_accepted_agreement :: bool

definition OwnershipSnapshot_none :: OwnershipSnapshot where
  "OwnershipSnapshot_none =
     \<lparr>is_owner = False, in_authorized_group = False, has_accepted_agreement = False\<rparr>"

definition evaluate_with_snapshot :: "Subject \<Rightarrow> AccessPolicy \<Rightarrow> OwnershipSnapshot \<Rightarrow> AccessOutcome" where
  "evaluate_with_snapshot subject policy ownership =
     (case policy of
        Open \<Rightarrow> Allow
      | Registered \<Rightarrow>
          if s_registered subject then Allow else Deny ''resource requires a registered account''
      | Restricted _ \<Rightarrow>
          if is_owner ownership \<or> in_authorized_group ownership \<or> has_accepted_agreement ownership then Allow
          else Deny ''restricted resource: no ownership, group membership, or accepted agreement'')"

definition snapshot_for :: "Subject \<Rightarrow> ResourceRef \<Rightarrow> OwnershipSource \<Rightarrow> OwnershipSnapshot" where
  "snapshot_for subject resource ownership =
     (let owns = (case os_owner ownership resource of Some owner \<Rightarrow> s_id owner = s_id subject | None \<Rightarrow> False)
      in if owns then OwnershipSnapshot_none\<lparr>is_owner := True\<rparr>
         else let subject_groups = os_groups_for ownership subject;
                  authorized =
                    (if subject_groups = [] then False
                     else list_ex (List.member subject_groups) (os_resource_groups ownership resource))
           in if authorized then OwnershipSnapshot_none\<lparr>in_authorized_group := True\<rparr>
              else OwnershipSnapshot_none\<lparr>has_accepted_agreement := os_has_accepted_agreement ownership subject resource\<rparr>)"

definition evaluate_access ::
  "Subject \<Rightarrow> ResourceRef \<Rightarrow> AccessPolicy \<Rightarrow> OwnershipSource \<Rightarrow> AccessOutcome" where
  "evaluate_access subject resource policy ownership =
     evaluate_with_snapshot subject policy
       (case policy of Restricted _ \<Rightarrow> snapshot_for subject resource ownership | _ \<Rightarrow> OwnershipSnapshot_none)"

definition SnapshotAccessDecision_evaluate :: "OwnershipSnapshot \<Rightarrow> Subject \<Rightarrow> AccessPolicy \<Rightarrow> AccessOutcome" where
  "SnapshotAccessDecision_evaluate ownership subject policy = evaluate_with_snapshot subject policy ownership"

text \<open>The documented rule.\<close>

definition access_granted :: "Subject \<Rightarrow> ResourceRef \<Rightarrow> AccessPolicy \<Rightarrow> OwnershipSource \<Rightarrow> bool" where
  "access_granted subject resource policy ownership \<longleftrightarrow>
     policy = Open \<or>
     policy = Registered \<and> s_registered subject \<or>
     (\<exists>codes. policy = Restricted codes) \<and>
       ((\<exists>owner. os_owner ownership resource = Some owner \<and> s_id owner = s_id subject) \<or>
        (\<exists>g. member_of ownership subject g \<and> g \<in> set (os_resource_groups ownership resource)) \<or>
        os_has_accepted_agreement ownership subject resource)"

lemma snapshot_for_grants:
  "is_owner (snapshot_for subject resource ownership) \<or> in_authorized_group (snapshot_for subject resource ownership) \<or>
     has_accepted_agreement (snapshot_for subject resource ownership) \<longleftrightarrow>
   (\<exists>owner. os_owner ownership resource = Some owner \<and> s_id owner = s_id subject) \<or>
   (\<exists>g. member_of ownership subject g \<and> g \<in> set (os_resource_groups ownership resource)) \<or>
   os_has_accepted_agreement ownership subject resource"
  by (auto simp: snapshot_for_def OwnershipSnapshot_none_def member_of_def list_ex_iff Let_def split: option.split)

lemma evaluate_access_granted:
  "is_allowed (evaluate_access subject resource policy ownership) \<longleftrightarrow> access_granted subject resource policy ownership"
  using snapshot_for_grants[of subject resource ownership]
  by (cases policy) (simp_all add: evaluate_access_def evaluate_with_snapshot_def is_allowed_def access_granted_def)

text \<open>
  C27. Access is decided by the documented three-tier rule and denied otherwise: an open resource is for
  everyone, a registered one for registered subjects, and a restricted one exactly for its owner, the
  members of an authorized group, and the holders of an accepted agreement. The lookups that the code skips
  once an earlier one has granted access never change the outcome.
\<close>

theorem access_decision_correct:
  "is_allowed (evaluate_access subject resource policy ownership) \<longleftrightarrow> access_granted subject resource policy ownership"
  by (rule evaluate_access_granted)

section \<open>The ownership registry\<close>

datatype AccountKind = Human | Service

record Account =
  ac_id :: Uuid
  ac_email :: string
  ac_active :: bool
  ac_verified :: bool
  ac_kind :: AccountKind

definition Account_subject :: "Account \<Rightarrow> Subject" where
  "Account_subject a = \<lparr>s_id = ac_id a, s_registered = ac_verified a, s_attributes = []\<rparr>"

record Collection =
  co_id :: Uuid
  co_name :: string
  co_owner :: Uuid
  co_notes :: "string option"

record Group =
  gr_id :: GroupId
  gr_name :: string
  gr_admin :: Uuid
  gr_institution :: "string option"
  gr_members :: "Uuid list"

text \<open>The groups are iterated over, so they are the list of their entries; the order is not observable.\<close>

record OwnershipState =
  st_accounts :: "Uuid \<rightharpoonup> Account"
  st_groups :: "(GroupId \<times> Group) list"
  st_resource_owner :: "ResourceRef \<rightharpoonup> Uuid"
  st_resource_groups :: "ResourceRef \<rightharpoonup> GroupId list"
  st_agreements :: "(Uuid \<times> ResourceRef) set"

definition OwnershipState_new :: OwnershipState where
  "OwnershipState_new =
     \<lparr>st_accounts = (\<lambda>_. None), st_groups = [], st_resource_owner = (\<lambda>_. None),
      st_resource_groups = (\<lambda>_. None), st_agreements = {}\<rparr>"

definition add_account :: "Account \<Rightarrow> OwnershipState \<Rightarrow> OwnershipState" where
  "add_account account s = s\<lparr>st_accounts := (st_accounts s)(ac_id account \<mapsto> account)\<rparr>"

definition add_group :: "Group \<Rightarrow> OwnershipState \<Rightarrow> OwnershipState" where
  "add_group g s =
     s\<lparr>st_groups := (gr_id g, g) # filter (\<lambda>e. fst e \<noteq> gr_id g) (st_groups s)\<rparr>"

definition set_owner :: "ResourceRef \<Rightarrow> Uuid \<Rightarrow> OwnershipState \<Rightarrow> OwnershipState" where
  "set_owner resource owner s = s\<lparr>st_resource_owner := (st_resource_owner s)(resource \<mapsto> owner)\<rparr>"

definition authorize_group :: "ResourceRef \<Rightarrow> GroupId \<Rightarrow> OwnershipState \<Rightarrow> OwnershipState" where
  "authorize_group resource g s =
     s\<lparr>st_resource_groups := (st_resource_groups s)
        (resource \<mapsto> (case st_resource_groups s resource of Some gs \<Rightarrow> gs | None \<Rightarrow> []) @ [g])\<rparr>"

definition accept_agreement :: "Uuid \<Rightarrow> ResourceRef \<Rightarrow> OwnershipState \<Rightarrow> OwnershipState" where
  "accept_agreement account resource s = s\<lparr>st_agreements := insert (account, resource) (st_agreements s)\<rparr>"

definition InMemoryOwnership :: "OwnershipState \<Rightarrow> OwnershipSource" where
  "InMemoryOwnership s =
     \<lparr>os_owner = (\<lambda>resource.
        case st_resource_owner s resource of
          Some owner \<Rightarrow> map_option Account_subject (st_accounts s owner)
        | None \<Rightarrow> None),
      os_groups_for = (\<lambda>subject.
        map gr_id (filter (\<lambda>g. List.member (gr_members g) (s_id subject)) (map snd (st_groups s)))),
      os_resource_groups = (\<lambda>resource.
        case st_resource_groups s resource of Some gs \<Rightarrow> gs | None \<Rightarrow> []),
      os_has_accepted_agreement = (\<lambda>subject resource. (s_id subject, resource) \<in> st_agreements s)\<rparr>"

text \<open>
  What an access decision may rely on: recording an agreement or authorizing a group adds exactly that
  fact and keeps all others.
\<close>

locale ownership_registry =
  fixes source :: "'s \<Rightarrow> OwnershipSource"
    and accept :: "Uuid \<Rightarrow> ResourceRef \<Rightarrow> 's \<Rightarrow> 's"
    and authorize :: "ResourceRef \<Rightarrow> GroupId \<Rightarrow> 's \<Rightarrow> 's"
  assumes accept_agreements:
      "os_has_accepted_agreement (source (accept account resource s)) subject resource' \<longleftrightarrow>
         (s_id subject = account \<and> resource' = resource) \<or> os_has_accepted_agreement (source s) subject resource'"
    and accept_keeps: "os_owner (source (accept account resource s)) = os_owner (source s)"
      "os_groups_for (source (accept account resource s)) = os_groups_for (source s)"
      "os_resource_groups (source (accept account resource s)) = os_resource_groups (source s)"
    and authorize_groups:
      "set (os_resource_groups (source (authorize resource g s)) resource') =
         (if resource' = resource then {g} else {}) \<union> set (os_resource_groups (source s) resource')"
    and authorize_keeps: "os_owner (source (authorize resource g s)) = os_owner (source s)"
      "os_groups_for (source (authorize resource g s)) = os_groups_for (source s)"
      "os_has_accepted_agreement (source (authorize resource g s)) = os_has_accepted_agreement (source s)"
begin

lemma accept_granted:
  "access_granted subject resource' policy (source (accept account resource s)) \<longleftrightarrow>
     access_granted subject resource' policy (source s) \<or>
     (\<exists>codes. policy = Restricted codes) \<and> s_id subject = account \<and> resource' = resource"
  by (auto simp: access_granted_def member_of_def accept_agreements accept_keeps)

lemma authorize_granted:
  "access_granted subject resource' policy (source (authorize resource g s)) \<longleftrightarrow>
     access_granted subject resource' policy (source s) \<or>
     (\<exists>codes. policy = Restricted codes) \<and> member_of (source s) subject g \<and> resource' = resource"
  by (auto simp: access_granted_def member_of_def authorize_groups authorize_keeps)

end

interpretation in_memory: ownership_registry InMemoryOwnership accept_agreement authorize_group
  by unfold_locales
    (auto simp: InMemoryOwnership_def accept_agreement_def authorize_group_def split: option.split)

text \<open>
  C36. Grants are exact. On the in-memory registry, accepting an agreement gives the account access to that
  restricted resource, and authorizing a group gives it to the group's members; neither changes any other
  decision, for any subject, resource or policy.
\<close>

theorem grants_exact:
  "(is_allowed (evaluate_access subject resource' policy (InMemoryOwnership (accept_agreement account resource s))) \<longleftrightarrow>
      is_allowed (evaluate_access subject resource' policy (InMemoryOwnership s)) \<or>
      (\<exists>codes. policy = Restricted codes) \<and> s_id subject = account \<and> resource' = resource) \<and>
   (is_allowed (evaluate_access subject resource' policy (InMemoryOwnership (authorize_group resource g s))) \<longleftrightarrow>
      is_allowed (evaluate_access subject resource' policy (InMemoryOwnership s)) \<or>
      (\<exists>codes. policy = Restricted codes) \<and> member_of (InMemoryOwnership s) subject g \<and> resource' = resource)"
  unfolding evaluate_access_granted
  by (intro conjI in_memory.accept_granted in_memory.authorize_granted)

end
