(* ===== verification/QF_Provenance.thy ===== *)
theory QF_Provenance
  imports QF_Governance
begin

text \<open>
  The provenance log of \<^verbatim>\<open>crates/queryfabric-provenance\<close> and the data-rights operations of
  \<^verbatim>\<open>crates/queryfabric-access/src/rights.rs\<close> that record into it. The log interface is a record of
  functions on a store state; the locale \<open>provenance_log\<close> states what the trait documents (append-only,
  ordered history), the in-memory store interprets it, and the data-rights lemmas are proved in it. The
  entry ids that the code draws from the clock are arguments.
\<close>

section \<open>Entries and histories\<close>

datatype RecordedActivity = Core Activity | Domain string string

definition from_domain :: "('a \<Rightarrow> string) \<Rightarrow> ('a \<Rightarrow> string option) \<Rightarrow> 'a \<Rightarrow> RecordedActivity option" where
  "from_domain activity_kind to_value activity = map_option (Domain (activity_kind activity)) (to_value activity)"

fun RecordedActivity_tag :: "RecordedActivity \<Rightarrow> string" where
  "RecordedActivity_tag (Core activity) = Activity_tag activity"
| "RecordedActivity_tag (Domain kind _) = kind"

type_synonym unix_ms = "64 word"

record ProvenanceEntry =
  pe_id :: Uuid
  pe_resource :: ResourceRef
  pe_actor :: "Subject option"
  pe_activity :: RecordedActivity
  pe_description :: "string option"
  pe_occurred_at :: unix_ms

record ProvenanceHistory =
  ph_resource :: ResourceRef
  ph_entries :: "ProvenanceEntry list"

datatype ProvenanceError = Storage string | Serialization string

record HistoryFilter =
  hf_activity_tag :: "string option"
  hf_actor :: "Uuid option"
  hf_from :: "unix_ms option"
  hf_until :: "unix_ms option"

definition HistoryFilter_default :: HistoryFilter where
  "HistoryFilter_default = \<lparr>hf_activity_tag = None, hf_actor = None, hf_from = None, hf_until = None\<rparr>"

definition HistoryFilter_matches :: "HistoryFilter \<Rightarrow> ProvenanceEntry \<Rightarrow> bool" where
  "HistoryFilter_matches f entry \<longleftrightarrow>
     pred_option (\<lambda>tag. RecordedActivity_tag (pe_activity entry) = tag) (hf_activity_tag f) \<and>
     pred_option (\<lambda>actor. map_option s_id (pe_actor entry) = Some actor) (hf_actor f) \<and>
     pred_option (\<lambda>start. sint start \<le> sint (pe_occurred_at entry)) (hf_from f) \<and>
     pred_option (\<lambda>stop. sint (pe_occurred_at entry) < sint stop) (hf_until f)"

section \<open>The in-memory store\<close>

text \<open>A poisoned mutex makes every later operation fail.\<close>

record VecProvenanceStore =
  vs_entries :: "ProvenanceEntry list"
  vs_poisoned :: bool

definition VecProvenanceStore_new :: VecProvenanceStore where
  "VecProvenanceStore_new = \<lparr>vs_entries = [], vs_poisoned = False\<rparr>"

definition poisoned_error :: ProvenanceError where
  "poisoned_error = Storage ''provenance store mutex poisoned''"

definition vec_append ::
  "ProvenanceEntry \<Rightarrow> VecProvenanceStore \<Rightarrow> (ProvenanceError + unit) \<times> VecProvenanceStore" where
  "vec_append entry s =
     (if vs_poisoned s then (Inl poisoned_error, s)
      else (Inr (), s\<lparr>vs_entries := vs_entries s @ [entry]\<rparr>))"

definition vec_history ::
  "ResourceRef \<Rightarrow> HistoryFilter \<Rightarrow> VecProvenanceStore \<Rightarrow> ProvenanceError + ProvenanceHistory" where
  "vec_history resource f s =
     (if vs_poisoned s then Inl poisoned_error
      else Inr \<lparr>ph_resource = resource,
                ph_entries = sort_key (\<lambda>e. sint (pe_occurred_at e))
                  (filter (\<lambda>e. pe_resource e = resource \<and> HistoryFilter_matches f e) (vs_entries s))\<rparr>)"

section \<open>Data rights\<close>

datatype DataLicense = Cc0 | CcBy | CcBySa | CcByNc | CcByNcSa | Pddl | OdcBy | OdcOdbl

record DataUseRestriction =
  du_kind :: string
  du_summary :: "string option"
  du_source_url :: "string option"

record ResourcePolicy =
  rp_policy :: AccessPolicy
  rp_license :: "DataLicense option"
  rp_restriction :: "DataUseRestriction option"

definition ResourcePolicy_open :: ResourcePolicy where
  "ResourcePolicy_open = \<lparr>rp_policy = Open, rp_license = None, rp_restriction = None\<rparr>"

record AccessExportRecord =
  ax_resource :: ResourceRef
  ax_subject_id :: Uuid
  ax_policy :: ResourcePolicy
  ax_history :: ProvenanceHistory
  ax_exported_at :: unix_ms

record RectifyReceipt =
  rc_resource :: ResourceRef
  rc_field :: string
  rc_rectified_at :: unix_ms

record SoftDeletion =
  sd_resource :: ResourceRef
  sd_reason :: string
  sd_deleted_at :: unix_ms

record 's ProvenanceStore =
  ps_append :: "ProvenanceEntry \<Rightarrow> 's \<Rightarrow> (ProvenanceError + unit) \<times> 's"
  ps_history :: "ResourceRef \<Rightarrow> HistoryFilter \<Rightarrow> 's \<Rightarrow> ProvenanceError + ProvenanceHistory"

definition record_activity ::
  "'s ProvenanceStore \<Rightarrow> Uuid \<Rightarrow> ResourceRef \<Rightarrow> Subject option \<Rightarrow> Activity \<Rightarrow> unix_ms \<Rightarrow> 's \<Rightarrow>
     (ProvenanceError + unit) \<times> 's" where
  "record_activity store entry_id resource actor activity now =
     ps_append store \<lparr>pe_id = entry_id, pe_resource = resource, pe_actor = actor, pe_activity = Core activity,
       pe_description = None, pe_occurred_at = now\<rparr>"

text \<open>The rest of an operation after \<^verbatim>\<open>record(...).await?\<close>.\<close>

definition recorded_then :: "'a \<Rightarrow> (ProvenanceError + unit) \<times> 's \<Rightarrow> (ProvenanceError + 'a) \<times> 's" where
  "recorded_then x outcome = (map_sum id (\<lambda>_. x) (fst outcome), snd outcome)"

definition access_export ::
  "'s ProvenanceStore \<Rightarrow> Uuid \<Rightarrow> ResourceRef \<Rightarrow> Subject \<Rightarrow> ResourcePolicy \<Rightarrow> unix_ms \<Rightarrow> 's \<Rightarrow>
     (ProvenanceError + AccessExportRecord) \<times> 's" where
  "access_export store entry_id resource subject policy now s =
     (case ps_history store resource HistoryFilter_default s of
        Inl e \<Rightarrow> (Inl e, s)
      | Inr history \<Rightarrow>
          recorded_then
            \<lparr>ax_resource = resource, ax_subject_id = s_id subject, ax_policy = policy, ax_history = history,
             ax_exported_at = now\<rparr>
            (record_activity store entry_id resource (Some subject)
               (Accessed (of_nat (length (ph_entries history)))) now s))"

definition rectify ::
  "'s ProvenanceStore \<Rightarrow> Uuid \<Rightarrow> ResourceRef \<Rightarrow> Subject option \<Rightarrow> string \<Rightarrow> unix_ms \<Rightarrow> 's \<Rightarrow>
     (ProvenanceError + RectifyReceipt) \<times> 's" where
  "rectify store entry_id resource actor field now s =
     recorded_then \<lparr>rc_resource = resource, rc_field = field, rc_rectified_at = now\<rparr>
       (record_activity store entry_id resource actor (Modified field) now s)"

definition soft_delete ::
  "'s ProvenanceStore \<Rightarrow> Uuid \<Rightarrow> ResourceRef \<Rightarrow> Subject option \<Rightarrow> string \<Rightarrow> unix_ms \<Rightarrow> 's \<Rightarrow>
     (ProvenanceError + SoftDeletion) \<times> 's" where
  "soft_delete store entry_id resource actor reason now s =
     recorded_then \<lparr>sd_resource = resource, sd_reason = reason, sd_deleted_at = now\<rparr>
       (record_activity store entry_id resource actor (Deleted reason) now s)"

definition restore ::
  "'s ProvenanceStore \<Rightarrow> Uuid \<Rightarrow> ResourceRef \<Rightarrow> Subject option \<Rightarrow> unix_ms \<Rightarrow> 's \<Rightarrow>
     (ProvenanceError + unit) \<times> 's" where
  "restore store entry_id resource actor now s = record_activity store entry_id resource actor Restored now s"

section \<open>The log interface\<close>

definition ordered_history ::
  "ResourceRef \<Rightarrow> HistoryFilter \<Rightarrow> ProvenanceEntry list \<Rightarrow> ProvenanceHistory" where
  "ordered_history resource f entries =
     \<lparr>ph_resource = resource,
      ph_entries = sort_key (\<lambda>e. sint (pe_occurred_at e))
        (filter (\<lambda>e. pe_resource e = resource \<and> HistoryFilter_matches f e) entries)\<rparr>"

text \<open>An entry appended to the log appears in the history after every entry that is not later.\<close>

lemma sort_key_append_last:
  "sort_key f (xs @ [e]) = takeWhile (\<lambda>x. f x \<le> f e) (sort_key f xs) @ e # dropWhile (\<lambda>x. f x \<le> f e) (sort_key f xs)"
proof (induction xs)
  case (Cons x xs)
  let ?P = "\<lambda>x. f x \<le> f e"
  have "insort_key f x (takeWhile ?P ys @ e # dropWhile ?P ys) =
      takeWhile ?P (insort_key f x ys) @ e # dropWhile ?P (insort_key f x ys)" if "sorted (map f ys)" for ys
    using that
  proof (induction ys)
    case (Cons y ys)
    then show ?case by (cases "f x \<le> f y"; cases "f y \<le> f e"; cases "f x \<le> f e") auto
  qed auto
  with Cons show ?case by simp
qed simp

locale provenance_log =
  fixes store :: "'s ProvenanceStore"
    and healthy :: "'s \<Rightarrow> bool"
    and log :: "'s \<Rightarrow> ProvenanceEntry list"
  assumes append_log: "healthy s \<Longrightarrow> \<exists>t. ps_append store entry s = (Inr (), t) \<and> healthy t \<and> log t = log s @ [entry]"
    and history_log: "healthy s \<Longrightarrow> ps_history store resource f s = Inr (ordered_history resource f (log s))"
begin

lemma record_activity_log:
  assumes "healthy s"
  shows "\<exists>t. record_activity store i r a act now s = (Inr (), t) \<and> healthy t \<and>
    log t = log s @ [\<lparr>pe_id = i, pe_resource = r, pe_actor = a, pe_activity = Core act, pe_description = None, pe_occurred_at = now\<rparr>]"
  unfolding record_activity_def by (rule append_log[OF assms])

lemma access_export_log:
  assumes "healthy s"
  shows "\<exists>t. access_export store i r subject policy now s =
      (Inr \<lparr>ax_resource = r, ax_subject_id = s_id subject, ax_policy = policy,
            ax_history = ordered_history r HistoryFilter_default (log s), ax_exported_at = now\<rparr>, t) \<and>
    healthy t \<and> (\<exists>e. log t = log s @ [e] \<and> pe_resource e = r \<and> pe_actor e = Some subject \<and>
       pe_activity e = Core (Accessed (of_nat (length (ph_entries (ordered_history r HistoryFilter_default (log s)))))))"
proof -
  let ?act = "Accessed (of_nat (length (ph_entries (ordered_history r HistoryFilter_default (log s)))))"
  obtain t where "record_activity store i r (Some subject) ?act now s = (Inr (), t)" "healthy t"
      "log t = log s @ [\<lparr>pe_id = i, pe_resource = r, pe_actor = Some subject, pe_activity = Core ?act,
         pe_description = None, pe_occurred_at = now\<rparr>]"
    using record_activity_log[OF assms, of i r "Some subject" ?act now] by blast
  then show ?thesis by (simp add: access_export_def history_log[OF assms] recorded_then_def)
qed

lemma soft_delete_log:
  assumes "healthy s"
  shows "\<exists>t e. soft_delete store i r actor reason now s =
      (Inr \<lparr>sd_resource = r, sd_reason = reason, sd_deleted_at = now\<rparr>, t) \<and> healthy t \<and>
    log t = log s @ [e] \<and> pe_resource e = r \<and> pe_activity e = Core (Deleted reason)"
  using record_activity_log[OF assms, of i r actor "Deleted reason" now]
  by (fastforce simp: soft_delete_def recorded_then_def)

lemma history_after_append:
  assumes "healthy t" and "log t = log s @ [e]" and "pe_resource e = r" and "HistoryFilter_matches f e"
  shows "\<exists>before after. ph_entries (ordered_history r f (log s)) = before @ after \<and>
    ps_history store r f t = Inr \<lparr>ph_resource = r, ph_entries = before @ e # after\<rparr> \<and>
    (\<forall>x \<in> set before. sint (pe_occurred_at x) \<le> sint (pe_occurred_at e))"
proof -
  let ?key = "\<lambda>e. sint (pe_occurred_at e)"
  let ?old = "sort_key ?key (filter (\<lambda>e. pe_resource e = r \<and> HistoryFilter_matches f e) (log s))"
  have "ph_entries (ordered_history r f (log s)) = takeWhile (\<lambda>x. ?key x \<le> ?key e) ?old @ dropWhile (\<lambda>x. ?key x \<le> ?key e) ?old"
    by (simp add: ordered_history_def)
  moreover have "ps_history store r f t =
      Inr \<lparr>ph_resource = r, ph_entries = takeWhile (\<lambda>x. ?key x \<le> ?key e) ?old @ e # dropWhile (\<lambda>x. ?key x \<le> ?key e) ?old\<rparr>"
    using assms(3,4) by (simp add: history_log[OF assms(1)] assms(2) ordered_history_def sort_key_append_last)
  ultimately show ?thesis by (blast dest: set_takeWhileD)
qed

end

definition vec_store :: "VecProvenanceStore ProvenanceStore" where
  "vec_store = \<lparr>ps_append = vec_append, ps_history = vec_history\<rparr>"

interpretation vec: provenance_log vec_store "\<lambda>s. \<not> vs_poisoned s" vs_entries
  by unfold_locales (simp_all add: vec_store_def vec_append_def vec_history_def ordered_history_def)

lemma default_matches [simp]: "HistoryFilter_matches HistoryFilter_default e"
  by (simp add: HistoryFilter_matches_def HistoryFilter_default_def)

text \<open>
  Erasure keeps the audit trail. A soft deletion succeeds on a healthy store; afterwards the history of
  the resource is the earlier history, with every entry and in the same order, plus exactly one deletion
  entry with the given reason, placed after all entries that are not later.
\<close>

theorem soft_delete_keeps_history:
  assumes "\<not> vs_poisoned s"
  shows "\<exists>t before e after.
    soft_delete vec_store entry_id resource actor reason now s =
      (Inr \<lparr>sd_resource = resource, sd_reason = reason, sd_deleted_at = now\<rparr>, t) \<and>
    ph_entries (ordered_history resource HistoryFilter_default (vs_entries s)) = before @ after \<and>
    vec_history resource HistoryFilter_default t = Inr \<lparr>ph_resource = resource, ph_entries = before @ e # after\<rparr> \<and>
    pe_activity e = Core (Deleted reason) \<and>
    list_all (\<lambda>x. sint (pe_occurred_at x) \<le> sint (pe_occurred_at e)) before"
proof -
  obtain t e where t: "soft_delete vec_store entry_id resource actor reason now s =
      (Inr \<lparr>sd_resource = resource, sd_reason = reason, sd_deleted_at = now\<rparr>, t)" "\<not> vs_poisoned t"
    "vs_entries t = vs_entries s @ [e]" "pe_resource e = resource" "pe_activity e = Core (Deleted reason)"
    using vec.soft_delete_log[OF assms] by blast
  from vec.history_after_append[OF t(2-4) default_matches] t(1,5) show ?thesis
    unfolding vec_store_def ProvenanceStore.simps list_all_iff by blast
qed

theorem soft_delete_keeps_history_witness:
  "\<exists>t e. soft_delete vec_store 1 \<lparr>rr_namespace = 1, rr_id = 2\<rparr> None ''gdpr'' 5 VecProvenanceStore_new =
     (Inr \<lparr>sd_resource = \<lparr>rr_namespace = 1, rr_id = 2\<rparr>, sd_reason = ''gdpr'', sd_deleted_at = 5\<rparr>, t) \<and>
     vec_history \<lparr>rr_namespace = 1, rr_id = 2\<rparr> HistoryFilter_default t =
       Inr \<lparr>ph_resource = \<lparr>rr_namespace = 1, rr_id = 2\<rparr>, ph_entries = [e]\<rparr>"
proof -
  have "\<not> vs_poisoned VecProvenanceStore_new" by (simp add: VecProvenanceStore_new_def)
  from soft_delete_keeps_history[OF this, of 1 "\<lparr>rr_namespace = 1, rr_id = 2\<rparr>" None "''gdpr''" 5]
  show ?thesis by (auto simp: VecProvenanceStore_new_def ordered_history_def)
qed

text \<open>
  C28. An access export reports the complete history up to the request, for any resource, and records the
  request itself afterwards with the number of entries disclosed, so it is not part of its own report.
\<close>

theorem access_export_complete:
  assumes "\<not> vs_poisoned s"
  shows "\<exists>t e. access_export vec_store entry_id resource subject policy now s =
      (Inr \<lparr>ax_resource = resource, ax_subject_id = s_id subject, ax_policy = policy,
            ax_history = ordered_history resource HistoryFilter_default (vs_entries s), ax_exported_at = now\<rparr>, t) \<and>
    mset (ph_entries (ordered_history resource HistoryFilter_default (vs_entries s))) =
      filter_mset (\<lambda>x. pe_resource x = resource) (mset (vs_entries s)) \<and>
    vs_entries t = vs_entries s @ [e] \<and> pe_actor e = Some subject \<and>
    pe_activity e = Core (Accessed (of_nat (size (filter_mset (\<lambda>x. pe_resource x = resource) (mset (vs_entries s))))))"
proof -
  have all: "mset (ph_entries (ordered_history resource HistoryFilter_default (vs_entries s))) =
      filter_mset (\<lambda>x. pe_resource x = resource) (mset (vs_entries s))"
    by (simp add: ordered_history_def mset_filter)
  then have size: "length (ph_entries (ordered_history resource HistoryFilter_default (vs_entries s))) =
      size (filter_mset (\<lambda>x. pe_resource x = resource) (mset (vs_entries s)))"
    by (metis size_mset)
  show ?thesis
    using vec.access_export_log[OF assms, of entry_id resource subject policy now] all unfolding size by blast
qed

theorem access_export_complete_witness:
  "\<exists>t e. access_export vec_store 1 \<lparr>rr_namespace = 1, rr_id = 2\<rparr>
       \<lparr>s_id = 3, s_registered = True, s_attributes = []\<rparr> ResourcePolicy_open 5 VecProvenanceStore_new =
     (Inr \<lparr>ax_resource = \<lparr>rr_namespace = 1, rr_id = 2\<rparr>, ax_subject_id = 3, ax_policy = ResourcePolicy_open,
           ax_history = \<lparr>ph_resource = \<lparr>rr_namespace = 1, rr_id = 2\<rparr>, ph_entries = []\<rparr>, ax_exported_at = 5\<rparr>, t) \<and>
     vs_entries t = [e] \<and> pe_activity e = Core (Accessed 0)"
proof -
  have "\<not> vs_poisoned VecProvenanceStore_new" by (simp add: VecProvenanceStore_new_def)
  from access_export_complete[OF this, of 1 "\<lparr>rr_namespace = 1, rr_id = 2\<rparr>"
      "\<lparr>s_id = 3, s_registered = True, s_attributes = []\<rparr>" ResourcePolicy_open 5]
  show ?thesis by (auto simp: VecProvenanceStore_new_def ordered_history_def)
qed

end
