(* ===== verification/QF_Rewrite.thy ===== *)
theory QF_Rewrite
  imports QF_Syntax QF_Prelude
begin

text \<open>
  The syntax rewriting of \<^verbatim>\<open>crates/queryfabric-opt/src/syntax.rs\<close>. A transformer is the record of its
  methods; a method may change the transformer (the state) and fail. Each \<^verbatim>\<open>transform_*_children\<close> function
  rebuilds one node from the results of the transformer's methods on its children. A transformer that
  overrides some methods is tied by \<open>transformer\<close>, whose methods call themselves to the given depth, below which
  they are those of a base. The base of the rewriting is \<open>out_of_depth\<close>, which fails on every node, so a recursion
  that does not end on the tree shows as an error; the depth used is the size of the query, which is enough.
\<close>

section \<open>Fallible state\<close>

type_synonym ('t, 'e, 'a) fallible = "('t, 'e + 'a) state"

definition ok :: "'a \<Rightarrow> ('t, 'e, 'a) fallible" where
  "ok x = State_Monad.return (Inr x)"

text \<open>The operator \<^verbatim>\<open>?\<close>.\<close>

definition try_bind :: "('t, 'e, 'a) fallible \<Rightarrow> ('a \<Rightarrow> ('t, 'e, 'b) fallible) \<Rightarrow> ('t, 'e, 'b) fallible" where
  "try_bind m f =
     do {
       r \<leftarrow> m;
       case r of Inl e \<Rightarrow> State_Monad.return (Inl e) | Inr x \<Rightarrow> f x
     }"

fun collect :: "('a \<Rightarrow> ('t, 'e, 'b) fallible) \<Rightarrow> 'a list \<Rightarrow> ('t, 'e, 'b list) fallible" where
  "collect f [] = ok []"
| "collect f (x # xs) = try_bind (f x) (\<lambda>y. try_bind (collect f xs) (\<lambda>ys. ok (y # ys)))"

fun transpose_option :: "('a \<Rightarrow> ('t, 'e, 'b) fallible) \<Rightarrow> 'a option \<Rightarrow> ('t, 'e, 'b option) fallible" where
  "transpose_option f None = ok None"
| "transpose_option f (Some x) = try_bind (f x) (\<lambda>y. ok (Some y))"

lemma try_bind_ok [simp]: "try_bind (ok x) f = f x"
  by (simp add: try_bind_def ok_def)

lemma collect_ok: "(\<And>x. x \<in> set xs \<Longrightarrow> f x = ok x) \<Longrightarrow> collect f xs = ok xs"
  by (induction xs) simp_all

lemma transpose_option_ok: "(\<And>x. v = Some x \<Longrightarrow> f x = ok x) \<Longrightarrow> transpose_option f v = ok v"
  by (cases v) simp_all

section \<open>Transformers\<close>

type_synonym SyntaxSel = "(SyntaxExpr, SyntaxRelation) SyntaxSelect"
type_synonym SyntaxTab = "(SyntaxExpr, SyntaxRelation) SyntaxTableWithJoins"
type_synonym SyntaxJn = "(SyntaxExpr, SyntaxRelation) SyntaxJoin"

record ('t, 'e) SyntaxTransformer =
  transform_query :: "SyntaxQuery \<Rightarrow> ('t, 'e, SyntaxQuery) fallible"
  transform_set_expr :: "SyntaxSetExpr \<Rightarrow> ('t, 'e, SyntaxSetExpr) fallible"
  transform_select :: "SyntaxSel \<Rightarrow> ('t, 'e, SyntaxSel) fallible"
  transform_projection_item ::
    "SyntaxExpr SyntaxProjectionItem \<Rightarrow> ('t, 'e, SyntaxExpr SyntaxProjectionItem) fallible"
  transform_table_with_joins :: "SyntaxTab \<Rightarrow> ('t, 'e, SyntaxTab) fallible"
  transform_join :: "SyntaxJn \<Rightarrow> ('t, 'e, SyntaxJn) fallible"
  transform_relation :: "SyntaxRelation \<Rightarrow> ('t, 'e, SyntaxRelation) fallible"
  transform_order_by_expr ::
    "SyntaxExpr SyntaxOrderByExpr \<Rightarrow> ('t, 'e, SyntaxExpr SyntaxOrderByExpr) fallible"
  transform_expr :: "SyntaxExpr \<Rightarrow> ('t, 'e, SyntaxExpr) fallible"
  transform_when_then :: "SyntaxExpr SyntaxWhenThen \<Rightarrow> ('t, 'e, SyntaxExpr SyntaxWhenThen) fallible"

definition transform_cte ::
  "('t, 'e) SyntaxTransformer \<Rightarrow> SyntaxQuery SyntaxCte \<Rightarrow> ('t, 'e, SyntaxQuery SyntaxCte) fallible" where
  "transform_cte t cte =
     try_bind (transform_query t (sc_query cte)) (\<lambda>query.
     ok (SyntaxCte (sc_name cte) (sc_columns cte) query (sc_node cte)))"

definition transform_query_children ::
  "('t, 'e) SyntaxTransformer \<Rightarrow> SyntaxQuery \<Rightarrow> ('t, 'e, SyntaxQuery) fallible" where
  "transform_query_children t query =
     try_bind (collect (transform_cte t) (sq_ctes query)) (\<lambda>ctes.
     try_bind (transform_set_expr t (sq_body query)) (\<lambda>body.
     try_bind (collect (transform_order_by_expr t) (sq_order_by query)) (\<lambda>order_by.
     try_bind (transpose_option (transform_expr t) (sq_limit query)) (\<lambda>limit.
     try_bind (transpose_option (transform_expr t) (sq_offset query)) (\<lambda>offset.
     ok (SyntaxQuery (sq_node query) ctes (sq_with_recursive query) body order_by limit offset
           (sq_backend_clauses query)))))))"

fun transform_set_expr_children ::
  "('t, 'e) SyntaxTransformer \<Rightarrow> SyntaxSetExpr \<Rightarrow> ('t, 'e, SyntaxSetExpr) fallible" where
  "transform_set_expr_children t (SyntaxSetExpr.Select select) =
     try_bind (transform_select t select) (\<lambda>select. ok (SyntaxSetExpr.Select select))"
| "transform_set_expr_children t (SyntaxSetExpr.UnionAll left right node) =
     try_bind (transform_set_expr t left) (\<lambda>left.
     try_bind (transform_set_expr t right) (\<lambda>right. ok (SyntaxSetExpr.UnionAll left right node)))"
| "transform_set_expr_children t (SyntaxSetExpr.Unsupported description node) =
     ok (SyntaxSetExpr.Unsupported description node)"

definition transform_select_children ::
  "('t, 'e) SyntaxTransformer \<Rightarrow> SyntaxSel \<Rightarrow> ('t, 'e, SyntaxSel) fallible" where
  "transform_select_children t select =
     try_bind (collect (transform_projection_item t) (ss_projection select)) (\<lambda>projection.
     try_bind (collect (transform_table_with_joins t) (ss_from select)) (\<lambda>tables.
     try_bind (transpose_option (transform_expr t) (ss_selection select)) (\<lambda>selection.
     try_bind (collect (transform_expr t) (ss_group_by select)) (\<lambda>group_by.
     try_bind (transpose_option (transform_expr t) (ss_having select)) (\<lambda>having.
     ok (SyntaxSelect (ss_distinct select) projection tables selection group_by having (ss_node select)))))))"

fun transform_projection_item_children ::
  "('t, 'e) SyntaxTransformer \<Rightarrow> SyntaxExpr SyntaxProjectionItem \<Rightarrow>
     ('t, 'e, SyntaxExpr SyntaxProjectionItem) fallible" where
  "transform_projection_item_children t (SyntaxProjectionItem.Wildcard qualifier node) =
     ok (SyntaxProjectionItem.Wildcard qualifier node)"
| "transform_projection_item_children t (SyntaxProjectionItem.Expr details) =
     try_bind (transform_expr t (sp_expr details)) (\<lambda>expr.
     ok (SyntaxProjectionItem_expr expr (sp_alias details) (sp_node details)))"
| "transform_projection_item_children t (SyntaxProjectionItem.Unsupported description node) =
     ok (SyntaxProjectionItem.Unsupported description node)"

definition transform_table_with_joins_children ::
  "('t, 'e) SyntaxTransformer \<Rightarrow> SyntaxTab \<Rightarrow> ('t, 'e, SyntaxTab) fallible" where
  "transform_table_with_joins_children t table =
     try_bind (transform_relation t (st_relation table)) (\<lambda>relation.
     try_bind (collect (transform_join t) (st_joins table)) (\<lambda>joins.
     ok (SyntaxTableWithJoins relation joins (st_node table))))"

definition transform_join_children ::
  "('t, 'e) SyntaxTransformer \<Rightarrow> SyntaxJn \<Rightarrow> ('t, 'e, SyntaxJn) fallible" where
  "transform_join_children t join =
     try_bind (transform_relation t (sj_relation join)) (\<lambda>relation.
     try_bind (transpose_option (transform_expr t) (sj_on join)) (\<lambda>on.
     ok (SyntaxJoin (sj_kind join) relation on (sj_node join))))"

fun transform_relation_children ::
  "('t, 'e) SyntaxTransformer \<Rightarrow> SyntaxRelation \<Rightarrow> ('t, 'e, SyntaxRelation) fallible" where
  "transform_relation_children t (SyntaxRelation.Table name alias node) = ok (SyntaxRelation.Table name alias node)"
| "transform_relation_children t (SyntaxRelation.Derived query alias node) =
     try_bind (transform_query t query) (\<lambda>query. ok (SyntaxRelation.Derived query alias node))"
| "transform_relation_children t (SyntaxRelation.NestedJoin table alias node) =
     try_bind (transform_table_with_joins t table) (\<lambda>table. ok (SyntaxRelation.NestedJoin table alias node))"
| "transform_relation_children t (SyntaxRelation.Unsupported description node) =
     ok (SyntaxRelation.Unsupported description node)"

definition transform_order_by_expr_children ::
  "('t, 'e) SyntaxTransformer \<Rightarrow> SyntaxExpr SyntaxOrderByExpr \<Rightarrow> ('t, 'e, SyntaxExpr SyntaxOrderByExpr) fallible" where
  "transform_order_by_expr_children t e =
     try_bind (transform_expr t (so_expr e)) (\<lambda>expr.
     ok (SyntaxOrderByExpr expr (so_asc e) (so_nulls_first e) (so_node e)))"

definition transform_window ::
  "('t, 'e) SyntaxTransformer \<Rightarrow> SyntaxExpr WindowSpec \<Rightarrow> ('t, 'e, SyntaxExpr WindowSpec) fallible" where
  "transform_window t window =
     try_bind (collect (transform_expr t) (ws_partition_by window)) (\<lambda>partition_by.
     try_bind (collect (transform_order_by_expr t) (ws_order_by window)) (\<lambda>order_by.
     ok (WindowSpec partition_by order_by (ws_node window))))"

definition transform_function ::
  "('t, 'e) SyntaxTransformer \<Rightarrow> SyntaxExpr SyntaxFunctionCall \<Rightarrow> ('t, 'e, SyntaxExpr SyntaxFunctionCall) fallible" where
  "transform_function t f =
     try_bind (collect (transform_expr t) (sf_args f)) (\<lambda>args.
     try_bind (transpose_option (transform_expr t) (sf_filter f)) (\<lambda>filter'.
     try_bind (transpose_option (transform_window t) (sf_over f)) (\<lambda>over.
     ok (SyntaxFunctionCall (sf_function f) args (sf_distinct f) filter' over))))"

fun transform_expr_kind ::
  "('t, 'e) SyntaxTransformer \<Rightarrow> (SyntaxExpr, SyntaxQuery) SyntaxExprKind \<Rightarrow>
     ('t, 'e, (SyntaxExpr, SyntaxQuery) SyntaxExprKind) fallible" where
  "transform_expr_kind t (SyntaxExprKind.Column relation name) = ok (SyntaxExprKind.Column relation name)"
| "transform_expr_kind t (SyntaxExprKind.Literal value) = ok (SyntaxExprKind.Literal value)"
| "transform_expr_kind t (SyntaxExprKind.Parameter reference) = ok (SyntaxExprKind.Parameter reference)"
| "transform_expr_kind t (SyntaxExprKind.Unary op inner) =
     try_bind (transform_expr t inner) (\<lambda>inner. ok (SyntaxExprKind.Unary op inner))"
| "transform_expr_kind t (SyntaxExprKind.Binary op left right) =
     try_bind (transform_expr t left) (\<lambda>left.
     try_bind (transform_expr t right) (\<lambda>right. ok (SyntaxExprKind.Binary op left right)))"
| "transform_expr_kind t (SyntaxExprKind.Function f) =
     try_bind (transform_function t f) (\<lambda>f. ok (SyntaxExprKind.Function f))"
| "transform_expr_kind t (SyntaxExprKind.Case operand when_then else_result) =
     try_bind (transpose_option (transform_expr t) operand) (\<lambda>operand.
     try_bind (collect (transform_when_then t) when_then) (\<lambda>when_then.
     try_bind (transpose_option (transform_expr t) else_result) (\<lambda>else_result.
     ok (SyntaxExprKind.Case operand when_then else_result))))"
| "transform_expr_kind t (SyntaxExprKind.Cast inner data_type) =
     try_bind (transform_expr t inner) (\<lambda>inner. ok (SyntaxExprKind.Cast inner data_type))"
| "transform_expr_kind t (SyntaxExprKind.Between inner low high negated) =
     try_bind (transform_expr t inner) (\<lambda>inner.
     try_bind (transform_expr t low) (\<lambda>low.
     try_bind (transform_expr t high) (\<lambda>high. ok (SyntaxExprKind.Between inner low high negated))))"
| "transform_expr_kind t (SyntaxExprKind.InList inner items negated) =
     try_bind (transform_expr t inner) (\<lambda>inner.
     try_bind (collect (transform_expr t) items) (\<lambda>items. ok (SyntaxExprKind.InList inner items negated)))"
| "transform_expr_kind t (SyntaxExprKind.InSubquery inner subquery negated) =
     try_bind (transform_expr t inner) (\<lambda>inner.
     try_bind (transform_query t subquery) (\<lambda>subquery. ok (SyntaxExprKind.InSubquery inner subquery negated)))"
| "transform_expr_kind t (SyntaxExprKind.ScalarSubquery subquery) =
     try_bind (transform_query t subquery) (\<lambda>subquery. ok (SyntaxExprKind.ScalarSubquery subquery))"
| "transform_expr_kind t (SyntaxExprKind.Exists subquery) =
     try_bind (transform_query t subquery) (\<lambda>subquery. ok (SyntaxExprKind.Exists subquery))"
| "transform_expr_kind t (SyntaxExprKind.Like inner pattern negated case_insensitive) =
     try_bind (transform_expr t inner) (\<lambda>inner.
     try_bind (transform_expr t pattern) (\<lambda>pattern. ok (SyntaxExprKind.Like inner pattern negated case_insensitive)))"
| "transform_expr_kind t (SyntaxExprKind.IsNull inner negated) =
     try_bind (transform_expr t inner) (\<lambda>inner. ok (SyntaxExprKind.IsNull inner negated))"
| "transform_expr_kind t (SyntaxExprKind.Tuple items) =
     try_bind (collect (transform_expr t) items) (\<lambda>items. ok (SyntaxExprKind.Tuple items))"
| "transform_expr_kind t (SyntaxExprKind.Array items) =
     try_bind (collect (transform_expr t) items) (\<lambda>items. ok (SyntaxExprKind.Array items))"
| "transform_expr_kind t (SyntaxExprKind.Unsupported description) = ok (SyntaxExprKind.Unsupported description)"

definition transform_expr_children ::
  "('t, 'e) SyntaxTransformer \<Rightarrow> SyntaxExpr \<Rightarrow> ('t, 'e, SyntaxExpr) fallible" where
  "transform_expr_children t e =
     try_bind (transform_expr_kind t (se_kind e)) (\<lambda>kind. ok (SyntaxExpr kind (se_node e)))"

definition transform_when_then_children ::
  "('t, 'e) SyntaxTransformer \<Rightarrow> SyntaxExpr SyntaxWhenThen \<Rightarrow> ('t, 'e, SyntaxExpr SyntaxWhenThen) fallible" where
  "transform_when_then_children t branch =
     try_bind (transform_expr t (sw_condition branch)) (\<lambda>condition.
     try_bind (transform_expr t (sw_result branch)) (\<lambda>result. ok (SyntaxWhenThen condition result)))"

text \<open>The default methods of the trait.\<close>

definition default_methods :: "('t, 'e) SyntaxTransformer \<Rightarrow> ('t, 'e) SyntaxTransformer" where
  "default_methods t =
     \<lparr>transform_query = transform_query_children t,
      transform_set_expr = transform_set_expr_children t,
      transform_select = transform_select_children t,
      transform_projection_item = transform_projection_item_children t,
      transform_table_with_joins = transform_table_with_joins_children t,
      transform_join = transform_join_children t,
      transform_relation = transform_relation_children t,
      transform_order_by_expr = transform_order_by_expr_children t,
      transform_expr = transform_expr_children t,
      transform_when_then = transform_when_then_children t\<rparr>"

definition failing :: "'e \<Rightarrow> 'a \<Rightarrow> ('t, 'e, 'b) fallible" where
  "failing e x = State_Monad.return (Inl e)"

definition out_of_depth :: "'e \<Rightarrow> ('t, 'e) SyntaxTransformer" where
  "out_of_depth e =
     \<lparr>transform_query = failing e, transform_set_expr = failing e, transform_select = failing e,
      transform_projection_item = failing e, transform_table_with_joins = failing e, transform_join = failing e,
      transform_relation = failing e, transform_order_by_expr = failing e, transform_expr = failing e,
      transform_when_then = failing e\<rparr>"

primrec transformer ::
  "('t, 'e) SyntaxTransformer \<Rightarrow> (('t, 'e) SyntaxTransformer \<Rightarrow> ('t, 'e) SyntaxTransformer) \<Rightarrow> nat \<Rightarrow> ('t, 'e) SyntaxTransformer" where
  "transformer base methods 0 = base"
| "transformer base methods (Suc depth) = methods (transformer base methods depth)"

section \<open>Selection overrides\<close>

type_synonym overrides = "(string, SyntaxExpr option) btree_map"

definition override_select ::
  "overrides \<Rightarrow> ('t, 'e) SyntaxTransformer \<Rightarrow> SyntaxSel \<Rightarrow> ('t, 'e, SyntaxSel) fallible" where
  "override_select selection_overrides t select =
     try_bind (collect (transform_projection_item t) (ss_projection select)) (\<lambda>projection.
     try_bind (collect (transform_table_with_joins t) (ss_from select)) (\<lambda>tables.
     try_bind (collect (transform_expr t) (ss_group_by select)) (\<lambda>group_by.
     try_bind (transpose_option (transform_expr t) (ss_having select)) (\<lambda>having.
     ok (SyntaxSelect (ss_distinct select) projection tables
           (case bt_get selection_overrides (sn_node_id (ss_node select)) of
              Some selection \<Rightarrow> selection | None \<Rightarrow> ss_selection select)
           group_by having (ss_node select))))))"

definition SelectionOverrideTransformer ::
  "overrides \<Rightarrow> ('t, 'e) SyntaxTransformer \<Rightarrow> ('t, 'e) SyntaxTransformer" where
  "SelectionOverrideTransformer selection_overrides t =
     (default_methods t)\<lparr>transform_select := override_select selection_overrides t\<rparr>"

text \<open>The error type is uninhabited in the source; here its one value stands for running out of depth.\<close>

definition apply_selection_overrides :: "SyntaxQuery \<Rightarrow> overrides \<Rightarrow> SyntaxQuery" where
  "apply_selection_overrides query selection_overrides =
     projr (fst (run_state
       (transform_query_children
          (transformer (out_of_depth ()) (SelectionOverrideTransformer selection_overrides) (size query) :: (unit, unit) SyntaxTransformer)
          query) ()))"

section \<open>Conjunctions\<close>

function flatten_boolean_and :: "SyntaxExpr \<Rightarrow> SyntaxExpr list" where
  "flatten_boolean_and (SyntaxExpr kind node) =
     (case kind of
        SyntaxExprKind.Binary BinaryOperator.And left right \<Rightarrow> flatten_boolean_and left @ flatten_boolean_and right
      | _ \<Rightarrow> [SyntaxExpr kind node])"
  by pat_completeness auto
termination
  by (relation "measure size") auto

definition and_node :: "SyntaxNode \<Rightarrow> nat \<Rightarrow> SyntaxNode" where
  "and_node node index = SyntaxNode (sn_span node) (sn_node_id node @ ''.and['' @ nat_to_string index @ '']'')"

definition rebuild_boolean_and :: "SyntaxExpr list \<Rightarrow> SyntaxNode \<Rightarrow> SyntaxExpr option" where
  "rebuild_boolean_and items node =
     (case items of
        [] \<Rightarrow> None
      | first # rest \<Rightarrow>
          Some (foldl (\<lambda>current (index, item).
              SyntaxExpr (SyntaxExprKind.Binary BinaryOperator.And current item) (and_node node index))
            first (enumerate 0 rest)))"

section \<open>Depth\<close>

text \<open>Two transformers that agree on the nodes below a size.\<close>

definition agree_below :: "nat \<Rightarrow> ('t, 'e) SyntaxTransformer \<Rightarrow> ('t, 'e) SyntaxTransformer \<Rightarrow> bool" where
  "agree_below n t u \<longleftrightarrow>
     (\<forall>x. size x < n \<longrightarrow> transform_query t x = transform_query u x) \<and>
     (\<forall>x. size x < n \<longrightarrow> transform_set_expr t x = transform_set_expr u x) \<and>
     (\<forall>x. size_SyntaxSelect size size x < n \<longrightarrow> transform_select t x = transform_select u x) \<and>
     (\<forall>x. size_SyntaxProjectionItem size x < n \<longrightarrow>
        transform_projection_item t x = transform_projection_item u x) \<and>
     (\<forall>x. size_SyntaxTableWithJoins size size x < n \<longrightarrow>
        transform_table_with_joins t x = transform_table_with_joins u x) \<and>
     (\<forall>x. size_SyntaxJoin size size x < n \<longrightarrow> transform_join t x = transform_join u x) \<and>
     (\<forall>x. size x < n \<longrightarrow> transform_relation t x = transform_relation u x) \<and>
     (\<forall>x. size_SyntaxOrderByExpr size x < n \<longrightarrow> transform_order_by_expr t x = transform_order_by_expr u x) \<and>
     (\<forall>x. size x < n \<longrightarrow> transform_expr t x = transform_expr u x) \<and>
     (\<forall>x. size_SyntaxWhenThen size x < n \<longrightarrow> transform_when_then t x = transform_when_then u x)"

lemma collect_agree:
  assumes "size_list s xs < n" and "\<And>x. s x < n \<Longrightarrow> f x = g x"
  shows "collect f xs = collect g xs"
  using assms(1) by (induction xs) (simp_all add: assms(2))

lemma transpose_option_agree:
  assumes "size_option s v < n" and "\<And>x. s x < n \<Longrightarrow> f x = g x"
  shows "transpose_option f v = transpose_option g v"
  using assms(1) by (cases v) (simp_all add: assms(2))

lemma transform_cte_agree:
  "agree_below n t u \<Longrightarrow> size_SyntaxCte size x < n \<Longrightarrow> transform_cte t x = transform_cte u x"
  by (cases x) (simp add: transform_cte_def agree_below_def)

lemma agree_belowD:
  assumes "agree_below n t u"
  shows "size q < n \<Longrightarrow> transform_query t q = transform_query u q"
    and "size b < n \<Longrightarrow> transform_set_expr t b = transform_set_expr u b"
    and "size_SyntaxSelect size size s < n \<Longrightarrow> transform_select t s = transform_select u s"
    and "size_SyntaxTableWithJoins size size w < n \<Longrightarrow>
           transform_table_with_joins t w = transform_table_with_joins u w"
    and "size r < n \<Longrightarrow> transform_relation t r = transform_relation u r"
    and "size e < n \<Longrightarrow> transform_expr t e = transform_expr u e"
    and "size_list size es < n \<Longrightarrow> collect (transform_expr t) es = collect (transform_expr u) es"
    and "size_option size v < n \<Longrightarrow>
           transpose_option (transform_expr t) v = transpose_option (transform_expr u) v"
    and "size_list (size_SyntaxOrderByExpr size) os < n \<Longrightarrow>
           collect (transform_order_by_expr t) os = collect (transform_order_by_expr u) os"
    and "size_list (size_SyntaxCte size) cs < n \<Longrightarrow> collect (transform_cte t) cs = collect (transform_cte u) cs"
    and "size_list (size_SyntaxWhenThen size) ws < n \<Longrightarrow>
           collect (transform_when_then t) ws = collect (transform_when_then u) ws"
    and "size_list (size_SyntaxProjectionItem size) ps < n \<Longrightarrow>
           collect (transform_projection_item t) ps = collect (transform_projection_item u) ps"
    and "size_list (size_SyntaxJoin size size) js < n \<Longrightarrow>
           collect (transform_join t) js = collect (transform_join u) js"
    and "size_list (size_SyntaxTableWithJoins size size) ts < n \<Longrightarrow>
           collect (transform_table_with_joins t) ts = collect (transform_table_with_joins u) ts"
  using assms transform_cte_agree[OF assms]
  by (auto simp: agree_below_def intro: collect_agree transpose_option_agree)

lemma transform_window_agree:
  assumes "agree_below n t u" and "size_WindowSpec size w < n"
  shows "transform_window t w = transform_window u w"
  using assms(2) by (cases w) (simp add: transform_window_def agree_belowD[OF assms(1)])

lemma transform_function_agree:
  assumes "agree_below n t u" and "size_SyntaxFunctionCall size f < n"
  shows "transform_function t f = transform_function u f"
proof (cases f)
  case (SyntaxFunctionCall r args d filt over)
  have "transpose_option (transform_window t) over = transpose_option (transform_window u) over"
    by (rule transpose_option_agree[where s = "size_WindowSpec size" and n = n])
      (use assms SyntaxFunctionCall in \<open>simp_all add: transform_window_agree\<close>)
  then show ?thesis
    using assms(2) SyntaxFunctionCall by (simp add: transform_function_def agree_belowD[OF assms(1)])
qed

lemma transform_expr_kind_agree:
  assumes "agree_below n t u" and "size_SyntaxExprKind size size k \<le> n"
  shows "transform_expr_kind t k = transform_expr_kind u k"
  using assms(2)
  by (cases k) (simp_all add: agree_belowD[OF assms(1)] transform_function_agree[OF assms(1)])

lemma default_methods_agree:
  assumes "agree_below n t u"
  shows "agree_below (Suc n) (default_methods t) (default_methods u)"
proof -
  note agree = agree_belowD[OF assms]
  have "transform_query_children t x = transform_query_children u x" if "size x < Suc n" for x
    using that by (cases x) (simp add: transform_query_children_def agree)
  moreover have "transform_set_expr_children t x = transform_set_expr_children u x" if "size x < Suc n" for x
    using that by (cases x) (simp_all add: agree)
  moreover have "transform_select_children t x = transform_select_children u x"
    if "size_SyntaxSelect size size x < Suc n" for x
    using that by (cases x) (simp add: transform_select_children_def agree)
  moreover have "transform_projection_item_children t x = transform_projection_item_children u x"
    if "size_SyntaxProjectionItem size x < Suc n" for x
  proof (cases x)
    case (Expr d)
    then show ?thesis using that by (cases d) (simp add: agree)
  qed simp_all
  moreover have "transform_table_with_joins_children t x = transform_table_with_joins_children u x"
    if "size_SyntaxTableWithJoins size size x < Suc n" for x
    using that by (cases x) (simp add: transform_table_with_joins_children_def agree)
  moreover have "transform_join_children t x = transform_join_children u x"
    if "size_SyntaxJoin size size x < Suc n" for x
    using that by (cases x) (simp add: transform_join_children_def agree)
  moreover have "transform_relation_children t x = transform_relation_children u x" if "size x < Suc n" for x
    using that by (cases x) (simp_all add: agree)
  moreover have "transform_order_by_expr_children t x = transform_order_by_expr_children u x"
    if "size_SyntaxOrderByExpr size x < Suc n" for x
    using that by (cases x) (simp add: transform_order_by_expr_children_def agree)
  moreover have "transform_expr_children t x = transform_expr_children u x" if "size x < Suc n" for x
    using that by (cases x) (simp add: transform_expr_children_def transform_expr_kind_agree[OF assms])
  moreover have "transform_when_then_children t x = transform_when_then_children u x"
    if "size_SyntaxWhenThen size x < Suc n" for x
    using that by (cases x) (simp add: transform_when_then_children_def agree)
  ultimately show ?thesis by (simp add: agree_below_def default_methods_def)
qed

lemma override_select_agree:
  assumes "agree_below n t u" and "size_SyntaxSelect size size x < Suc n"
  shows "override_select m t x = override_select m u x"
  using assms(2) by (cases x) (simp add: override_select_def agree_belowD[OF assms(1)])

lemma SelectionOverrideTransformer_agree:
  assumes "agree_below n t u"
  shows "agree_below (Suc n) (SelectionOverrideTransformer m t) (SelectionOverrideTransformer m u)"
  using default_methods_agree[OF assms] override_select_agree[OF assms]
  by (simp add: agree_below_def SelectionOverrideTransformer_def)

text \<open>At a depth above the size of a node, neither the depth nor the base makes a difference.\<close>

lemma transformer_depth:
  assumes "\<And>n t u. agree_below n t u \<Longrightarrow> agree_below (Suc n) (methods t) (methods u)"
  shows "n \<le> i \<Longrightarrow> n \<le> j \<Longrightarrow> agree_below n (transformer base methods i) (transformer base' methods j)"
proof (induction n arbitrary: i j)
  case 0
  then show ?case by (simp add: agree_below_def)
next
  case (Suc n)
  then obtain i' j' where "i = Suc i'" "j = Suc j'" "n \<le> i'" "n \<le> j'"
    by (metis Suc_le_D Suc_le_mono)
  then show ?case using Suc.IH assms by simp
qed

lemma transform_query_children_depth:
  assumes "\<And>n t u. agree_below n t u \<Longrightarrow> agree_below (Suc n) (methods t) (methods u)"
    and "size q \<le> i" "size q \<le> j"
  shows "transform_query_children (transformer base methods i) q = transform_query_children (transformer base' methods j) q"
proof -
  have "agree_below (Suc (size q)) (default_methods (transformer base methods i)) (default_methods (transformer base' methods j))"
    by (rule default_methods_agree, rule transformer_depth[OF assms])
  then show ?thesis by (simp add: agree_below_def default_methods_def)
qed

section \<open>Rewriting twice\<close>

text \<open>Methods that succeed, keep the state and leave their own results alone.\<close>

definition settles :: "('a \<Rightarrow> ('t, 'e, 'a) fallible) \<Rightarrow> bool" where
  "settles f \<longleftrightarrow> (\<forall>x. \<exists>y. f x = ok y \<and> f y = ok y)"

lemma ok_inject [simp]: "(ok x :: ('t, 'e, 'a) fallible) = ok y \<longleftrightarrow> x = y"
  by (auto simp: ok_def State_Monad.return_def dest: fun_cong)

lemma settlesE:
  assumes "settles f"
  obtains g where "\<And>x. f x = ok (g x)" "\<And>x. g (g x) = g x"
proof -
  obtain g where "\<forall>x. f x = ok (g x) \<and> f (g x) = ok (g x)"
    using assms unfolding settles_def by metis
  then show thesis by (intro that[of g]) (metis ok_inject)+
qed

lemma collect_fun: "(\<And>x. f x = ok (g x)) \<Longrightarrow> collect f xs = ok (map g xs)"
  by (induction xs) simp_all

lemma transpose_option_fun: "(\<And>x. f x = ok (g x)) \<Longrightarrow> transpose_option f v = ok (map_option g v)"
  by (cases v) simp_all

lemma settles_collect: "settles f \<Longrightarrow> settles (collect f)"
  by (elim settlesE) (simp add: settles_def collect_fun comp_def)

lemma settles_transpose_option: "settles f \<Longrightarrow> settles (transpose_option f)"
  by (elim settlesE) (simp add: settles_def transpose_option_fun option.map_comp comp_def)

definition settled :: "('t, 'e) SyntaxTransformer \<Rightarrow> bool" where
  "settled t \<longleftrightarrow>
     settles (transform_query t) \<and> settles (transform_set_expr t) \<and> settles (transform_select t) \<and>
     settles (transform_projection_item t) \<and> settles (transform_table_with_joins t) \<and>
     settles (transform_join t) \<and> settles (transform_relation t) \<and>
     settles (transform_order_by_expr t) \<and> settles (transform_expr t) \<and> settles (transform_when_then t)"

lemma settledE:
  assumes "settled t"
  obtains q b s p w j r d e c where
    "\<And>x. transform_query t x = ok (q x)" "\<And>x. q (q x) = q x"
    "\<And>x. transform_set_expr t x = ok (b x)" "\<And>x. b (b x) = b x"
    "\<And>x. transform_select t x = ok (s x)" "\<And>x. s (s x) = s x"
    "\<And>x. transform_projection_item t x = ok (p x)" "\<And>x. p (p x) = p x"
    "\<And>x. transform_table_with_joins t x = ok (w x)" "\<And>x. w (w x) = w x"
    "\<And>x. transform_join t x = ok (j x)" "\<And>x. j (j x) = j x"
    "\<And>x. transform_relation t x = ok (r x)" "\<And>x. r (r x) = r x"
    "\<And>x. transform_order_by_expr t x = ok (d x)" "\<And>x. d (d x) = d x"
    "\<And>x. transform_expr t x = ok (e x)" "\<And>x. e (e x) = e x"
    "\<And>x. transform_when_then t x = ok (c x)" "\<And>x. c (c x) = c x"
  using assms unfolding settled_def by (elim conjE settlesE) (rule that)

lemmas fallible_fun = collect_fun transpose_option_fun option.map_comp comp_def

lemma settles_transform_cte: "settled t \<Longrightarrow> settles (transform_cte t)"
  by (elim settledE) (simp add: settles_def transform_cte_def)

lemma settles_transform_window: "settled t \<Longrightarrow> settles (transform_window t)"
  by (elim settledE) (simp add: settles_def transform_window_def fallible_fun)

lemma settles_transform_function:
  assumes "settled t"
  shows "settles (transform_function t)"
  using assms settles_transform_window[OF assms]
  by (elim settledE settlesE) (simp add: settles_def transform_function_def fallible_fun)

lemma settles_transform_expr_kind:
  assumes "settled t"
  shows "settles (transform_expr_kind t)"
  unfolding settles_def
proof
  fix k
  show "\<exists>y. transform_expr_kind t k = ok y \<and> transform_expr_kind t y = ok y"
    using assms settles_transform_function[OF assms]
    by (elim settledE settlesE) (cases k; simp add: fallible_fun)
qed

lemma settles_transform_query_children:
  assumes "settled t"
  shows "settles (transform_query_children t)"
  using assms settles_transform_cte[OF assms]
  by (elim settledE settlesE) (simp add: settles_def transform_query_children_def fallible_fun)

lemma settles_transform_select_children: "settled t \<Longrightarrow> settles (transform_select_children t)"
  by (elim settledE) (simp add: settles_def transform_select_children_def fallible_fun)

lemma settles_override_select: "settled t \<Longrightarrow> settles (override_select m t)"
  by (elim settledE)
    (simp add: settles_def override_select_def fallible_fun split: option.split)

lemma settles_set_expr_relation_children:
  assumes "settled t"
  shows "settles (transform_set_expr_children t)" "settles (transform_relation_children t)"
proof -
  have "\<exists>y. transform_set_expr_children t x = ok y \<and> transform_set_expr_children t y = ok y" for x
    using assms by (elim settledE) (cases x; simp)
  moreover have "\<exists>y. transform_relation_children t x = ok y \<and> transform_relation_children t y = ok y" for x
    using assms by (elim settledE) (cases x; simp)
  ultimately show "settles (transform_set_expr_children t)" "settles (transform_relation_children t)"
    by (simp_all add: settles_def)
qed

lemma settles_projection_item_children:
  assumes "settled t"
  shows "settles (transform_projection_item_children t)"
proof -
  have "\<exists>y. transform_projection_item_children t x = ok y \<and> transform_projection_item_children t y = ok y" for x
    using assms by (elim settledE) (cases x; simp add: SyntaxProjectionItem_expr_def)
  then show ?thesis by (simp add: settles_def)
qed

lemma settles_other_children:
  assumes "settled t"
  shows "settles (transform_table_with_joins_children t)" "settles (transform_join_children t)"
    "settles (transform_order_by_expr_children t)" "settles (transform_expr_children t)"
    "settles (transform_when_then_children t)"
  using assms settles_transform_expr_kind[OF assms]
  by (elim settledE settlesE, simp add: settles_def fallible_fun transform_table_with_joins_children_def
        transform_join_children_def transform_order_by_expr_children_def transform_expr_children_def
        transform_when_then_children_def)+

lemmas settles_children =
  settles_transform_query_children settles_transform_select_children settles_set_expr_relation_children
  settles_projection_item_children settles_other_children

lemma settled_SelectionOverrideTransformer: "settled t \<Longrightarrow> settled (SelectionOverrideTransformer m t)"
  using settles_children[of t] settles_override_select[of t m]
  by (simp add: SelectionOverrideTransformer_def default_methods_def, simp add: settled_def)

text \<open>The identity at every node: a base for the proofs, which no depth distinguishes from the one that fails.\<close>

definition no_methods :: "('t, 'e) SyntaxTransformer" where
  "no_methods =
     \<lparr>transform_query = ok, transform_set_expr = ok, transform_select = ok, transform_projection_item = ok,
      transform_table_with_joins = ok, transform_join = ok, transform_relation = ok,
      transform_order_by_expr = ok, transform_expr = ok, transform_when_then = ok\<rparr>"

lemma settled_transformer: "settled (transformer no_methods (SelectionOverrideTransformer m) n)"
proof (induction n)
  case 0
  show ?case by (simp add: settled_def no_methods_def settles_def)
qed (simp add: settled_SelectionOverrideTransformer)

lemma apply_selection_overrides_eq:
  fixes base :: "(unit, unit) SyntaxTransformer"
  assumes "size q \<le> n"
  shows "transform_query_children (transformer base (SelectionOverrideTransformer m) n) q = ok (apply_selection_overrides q m)"
proof -
  have any: "transform_query_children (transformer b (SelectionOverrideTransformer m) k) q =
      transform_query_children (transformer no_methods (SelectionOverrideTransformer m) (size q)) q"
    if "size q \<le> k" for k and b :: "(unit, unit) SyntaxTransformer"
    by (rule transform_query_children_depth[OF SelectionOverrideTransformer_agree]) (use that in simp_all)
  obtain r where "transform_query_children (transformer no_methods (SelectionOverrideTransformer m) (size q)) q = (ok r :: (unit, unit, SyntaxQuery) fallible)"
    using settles_transform_query_children[OF settled_transformer, of m "size q"]
    unfolding settles_def by blast
  with any[OF assms, of base] any[OF order_refl, of "out_of_depth ()"] show ?thesis
    by (simp add: apply_selection_overrides_def ok_def State_Monad.return_def)
qed

text \<open>
  C35. The rewriting returns. From the size of the query on, at every depth and whatever the methods do beyond it (fail,
  for the rewriting itself), the result is a query, the same one: the recursion of the overriding methods ends on
  the tree, and no error arises.
\<close>

theorem override_rewrite_returns:
  fixes base :: "(unit, unit) SyntaxTransformer"
  shows "transform_query_children (transformer base (SelectionOverrideTransformer m) (size q + extra)) q =
    ok (apply_selection_overrides q m)"
  by (rule apply_selection_overrides_eq) simp

section \<open>Rewriting with the default methods\<close>

lemma no_methods_sel [simp]:
  "transform_query no_methods = ok" "transform_set_expr no_methods = ok" "transform_select no_methods = ok"
  "transform_projection_item no_methods = ok" "transform_table_with_joins no_methods = ok"
  "transform_join no_methods = ok" "transform_relation no_methods = ok"
  "transform_order_by_expr no_methods = ok" "transform_expr no_methods = ok" "transform_when_then no_methods = ok"
  by (simp_all add: no_methods_def)

lemma collect_id [simp]: "collect ok xs = ok xs"
  by (simp add: collect_ok)

lemma transpose_option_id [simp]: "transpose_option ok v = ok v"
  by (simp add: transpose_option_ok)

lemma no_methods_parts [simp]: "transform_cte no_methods = ok" "transform_window no_methods = ok"
  by (auto simp: transform_cte_def transform_window_def)

lemma no_methods_function [simp]: "transform_function no_methods = ok"
  by (auto simp: transform_function_def)

lemma no_methods_expr_kind [simp]: "transform_expr_kind no_methods k = ok k"
  by (cases k) simp_all

lemma no_methods_children:
  "transform_query_children no_methods = ok" "transform_select_children no_methods = ok"
  "transform_table_with_joins_children no_methods = ok" "transform_join_children no_methods = ok"
  "transform_order_by_expr_children no_methods = ok" "transform_expr_children no_methods = ok"
  "transform_when_then_children no_methods = ok"
  by (auto simp: transform_query_children_def transform_select_children_def transform_table_with_joins_children_def
      transform_join_children_def transform_order_by_expr_children_def transform_expr_children_def
      transform_when_then_children_def)

lemma no_methods_cases:
  "transform_set_expr_children no_methods = ok" "transform_relation_children no_methods = ok"
  "transform_projection_item_children no_methods = ok"
proof -
  show "transform_set_expr_children no_methods = ok"
  proof
    fix x show "transform_set_expr_children no_methods x = ok x" by (cases x) simp_all
  qed
  show "transform_relation_children no_methods = ok"
  proof
    fix x show "transform_relation_children no_methods x = ok x" by (cases x) simp_all
  qed
  show "transform_projection_item_children no_methods = ok"
  proof
    fix x show "transform_projection_item_children no_methods x = ok x"
      by (cases x) (simp_all add: SyntaxProjectionItem_expr_def)
  qed
qed

lemma transformer_default_methods: "transformer no_methods default_methods depth = no_methods"
proof (induction depth)
  case (Suc depth)
  then show ?case
    by (simp add: default_methods_def no_methods_children no_methods_cases no_methods_def[symmetric])
qed simp

lemma transformer_override_sel:
  "transform_set_expr (transformer base (SelectionOverrideTransformer m) (Suc n)) =
     transform_set_expr_children (transformer base (SelectionOverrideTransformer m) n)"
  "transform_select (transformer base (SelectionOverrideTransformer m) (Suc n)) =
     override_select m (transformer base (SelectionOverrideTransformer m) n)"
  by (simp_all add: SelectionOverrideTransformer_def default_methods_def)

lemma overridden_select:
  assumes "settled t"
  obtains s' where "override_select m t s = ok s'"
    "ss_selection s' = (case bt_get m (sn_node_id (ss_node s)) of Some v \<Rightarrow> v | None \<Rightarrow> ss_selection s)"
  using assms by (elim settledE) (simp add: override_select_def fallible_fun that)

lemma overridden_body:
  assumes "settled t" and "t' = SelectionOverrideTransformer m t"
  obtains b where "transform_set_expr_children t' body = ok b"
    "map_option ss_selection (SyntaxSetExpr_as_select b) =
       map_option (\<lambda>s. case bt_get m (sn_node_id (ss_node s)) of Some v \<Rightarrow> v | None \<Rightarrow> ss_selection s)
         (SyntaxSetExpr_as_select body)"
proof (cases body)
  case (Select s)
  obtain s' where "override_select m t s = ok s'"
    "ss_selection s' = (case bt_get m (sn_node_id (ss_node s)) of Some v \<Rightarrow> v | None \<Rightarrow> ss_selection s)"
    using overridden_select[OF assms(1)] .
  then show thesis
    using Select by (intro that[of "SyntaxSetExpr.Select s'"])
      (simp_all add: assms(2) SyntaxSetExpr_as_select_def SelectionOverrideTransformer_def)
next
  case (UnionAll l r node)
  have "settled t'" using assms settled_SelectionOverrideTransformer by blast
  then obtain b where b: "\<And>x. transform_set_expr t' x = ok (b x)" by (elim settledE) blast
  show thesis
    using UnionAll b by (intro that[of "SyntaxSetExpr.UnionAll (b l) (b r) node"])
      (simp_all add: SyntaxSetExpr_as_select_def)
next
  case (Unsupported d node)
  then show thesis by (intro that[of "SyntaxSetExpr.Unsupported d node"]) (simp_all add: SyntaxSetExpr_as_select_def)
qed

lemma transform_query_children_body:
  assumes "settled t" and "transform_set_expr t (sq_body q) = ok b" and "transform_query_children t q = ok q'"
  shows "sq_body q' = b"
  using assms settles_transform_cte[OF assms(1)]
  by (elim settledE settlesE) (auto simp: transform_query_children_def fallible_fun)

text \<open>
  A transformer that overrides no method returns every query unchanged, whatever its state, and never
  fails.
\<close>

theorem default_transformer_identity:
  "transform_query_children (transformer base default_methods (size query + extra)) query = ok query"
proof -
  have "transform_query_children (transformer base default_methods (size query + extra)) query =
      transform_query_children (transformer no_methods default_methods (size query)) query"
    by (rule transform_query_children_depth[OF default_methods_agree]) simp_all
  then show ?thesis by (simp add: transformer_default_methods no_methods_children)
qed

text \<open>
  Applying the same selection overrides to a query a second time changes nothing: the first rewrite has
  replaced every selection it reaches, keeps the node ids the overrides are keyed by, and does not look into
  the replacements.
\<close>

theorem selection_overrides_idempotent:
  "apply_selection_overrides (apply_selection_overrides query selection_overrides) selection_overrides =
     apply_selection_overrides query selection_overrides"
proof -
  let ?q = "apply_selection_overrides query selection_overrides"
  let ?n = "size query + size ?q"
  let ?t = "transformer no_methods (SelectionOverrideTransformer selection_overrides) ?n :: (unit, unit) SyntaxTransformer"
  have "transform_query_children ?t query = ok ?q"
    by (rule apply_selection_overrides_eq) simp
  then have "transform_query_children ?t ?q = ok ?q"
    using settles_transform_query_children[OF settled_transformer, of selection_overrides ?n]
    unfolding settles_def by (metis ok_inject)
  moreover have "transform_query_children ?t ?q = ok (apply_selection_overrides ?q selection_overrides)"
    by (rule apply_selection_overrides_eq) simp
  ultimately show ?thesis by simp
qed

text \<open>
  The select at the top of a query gets its overriding selection (which may be none), or keeps its own
  when no override has its node id.
\<close>

theorem selection_override_applied:
  "map_option ss_selection (SyntaxSetExpr_as_select (sq_body (apply_selection_overrides query selection_overrides))) =
     map_option (\<lambda>select. case bt_get selection_overrides (sn_node_id (ss_node select)) of
         Some selection \<Rightarrow> selection | None \<Rightarrow> ss_selection select)
       (SyntaxSetExpr_as_select (sq_body query))"
proof -
  let ?m = selection_overrides and ?q = "apply_selection_overrides query selection_overrides"
  let ?t = "\<lambda>n. transformer no_methods (SelectionOverrideTransformer ?m) n :: (unit, unit) SyntaxTransformer"
  obtain b where b: "transform_set_expr_children (?t (Suc (size query))) (sq_body query) = ok b"
    "map_option ss_selection (SyntaxSetExpr_as_select b) =
       map_option (\<lambda>s. case bt_get ?m (sn_node_id (ss_node s)) of Some v \<Rightarrow> v | None \<Rightarrow> ss_selection s)
         (SyntaxSetExpr_as_select (sq_body query))"
    by (rule overridden_body[OF settled_transformer, where t' = "?t (Suc (size query))" and m = ?m]) auto
  have "transform_query_children (?t (Suc (Suc (size query)))) query = ok ?q"
    by (rule apply_selection_overrides_eq) simp
  then have "sq_body ?q = b"
    using b(1) by (intro transform_query_children_body[OF settled_transformer])
      (simp_all only: transformer_override_sel)
  then show ?thesis using b(2) by simp
qed

lemma flatten_rebuild_fold:
  "flatten_boolean_and (foldl (\<lambda>current (index, item).
       SyntaxExpr (SyntaxExprKind.Binary BinaryOperator.And current item) (and_node node index)) e (enumerate k items)) =
     flatten_boolean_and e @ concat (map flatten_boolean_and items)"
  by (induction items arbitrary: e k) simp_all

text \<open>
  Rebuilding a conjunction from a list of expressions and flattening it again yields the conjuncts of
  those expressions in order; in particular, rebuilding the conjuncts of an expression gives an expression with
  the same conjuncts. Only the empty list has no conjunction.
\<close>

theorem rebuild_flatten_conjuncts:
  "map_option flatten_boolean_and (rebuild_boolean_and items node) =
     (if items = [] then None else Some (concat (map flatten_boolean_and items)))"
  by (cases items) (simp_all add: rebuild_boolean_and_def flatten_rebuild_fold)

text \<open>Queries with one subquery, whose select is the node \<^verbatim>\<open>inner\<close>.\<close>

definition example_inner :: "SyntaxExpr option \<Rightarrow> SyntaxQuery" where
  "example_inner selection =
     SyntaxQuery (SyntaxNode None ''query'') [] False
       (SyntaxSetExpr.Select (SyntaxSelect False [] [] selection [] None (SyntaxNode None ''inner''))) [] None None []"

definition example_exists :: "SyntaxQuery \<Rightarrow> SyntaxExpr" where
  "example_exists query = SyntaxExpr (SyntaxExprKind.Exists query) (SyntaxNode None ''exists'')"

definition example_outer :: "SyntaxQuery option \<Rightarrow> SyntaxQuery option \<Rightarrow> SyntaxQuery" where
  "example_outer selection having =
     SyntaxQuery (SyntaxNode None ''query'') [] False
       (SyntaxSetExpr.Select (SyntaxSelect False [] [] (map_option example_exists selection) []
          (map_option example_exists having) (SyntaxNode None ''outer''))) [] None None []"

definition example_true :: SyntaxExpr where
  "example_true = SyntaxExpr (SyntaxExprKind.Literal (LiteralValue.Boolean True)) (SyntaxNode None ''true'')"

lemmas rewrite_example_defs = example_inner_def example_exists_def example_outer_def example_true_def

lemma SelectionOverrideTransformer_sel:
  "transform_query (SelectionOverrideTransformer m t) = transform_query_children t"
  "transform_set_expr (SelectionOverrideTransformer m t) = transform_set_expr_children t"
  "transform_select (SelectionOverrideTransformer m t) = override_select m t"
  "transform_expr (SelectionOverrideTransformer m t) = transform_expr_children t"
  by (simp_all add: SelectionOverrideTransformer_def default_methods_def)

lemma apply_selection_overrides_eval:
  assumes "\<And>n. transform_query_children (transformer (out_of_depth ()) (SelectionOverrideTransformer m)
      (Suc (Suc (Suc (Suc (Suc (Suc (Suc n)))))))) q = (ok q' :: (unit, unit, SyntaxQuery) fallible)"
  shows "apply_selection_overrides q m = q'"
  using assms[of "size q"] apply_selection_overrides_eq[of q "Suc (Suc (Suc (Suc (Suc (Suc (Suc (size q)))))))" "out_of_depth ()" m]
  by (metis le_SucI ok_inject order_refl)

text \<open>
  An override for the select of a subquery is applied when the subquery stands in a HAVING clause, and is
  silently dropped when it stands in a WHERE clause: the overriding transformer copies selections without
  visiting them.
\<close>

theorem selection_override_misses_where_subquery:
  "apply_selection_overrides (example_outer None (Some (example_inner None)))
       [(''inner'', Some example_true)] =
     example_outer None (Some (example_inner (Some example_true))) \<and>
   apply_selection_overrides (example_outer (Some (example_inner None)) None)
       [(''inner'', Some example_true)] =
     example_outer (Some (example_inner None)) None"
  by (intro conjI apply_selection_overrides_eval)
    (simp_all add: rewrite_example_defs SelectionOverrideTransformer_sel transform_query_children_def
      transform_expr_children_def override_select_def)

end
