(* ===== verification/QF_Sql.thy ===== *)
theory QF_Sql
  imports QF_Bound
begin

text \<open>
  SQL text: \<^verbatim>\<open>crates/queryfabric-catalog/src/render/helpers.rs\<close>. Identifiers, qualified names, literals,
  operators and type names as they are written into the emitted statement. The lexers at the end read an
  identifier or a string literal back; the theorems show that what was rendered is read back as one token
  with its value, whatever text follows.
\<close>

section \<open>Backends and errors\<close>

datatype SqlBackend = ClickHouse | Postgres

fun SqlBackend_name :: "SqlBackend \<Rightarrow> string" where
  "SqlBackend_name ClickHouse = ''clickhouse''"
| "SqlBackend_name Postgres = ''postgres''"

definition render_unsupported :: "string \<Rightarrow> string \<Rightarrow> QueryFabricError" where
  "render_unsupported feature detail = UnsupportedFeature feature detail"

definition ordered_parameters :: "BoundQuery \<Rightarrow> ParameterSchema list" where
  "ordered_parameters query = sort_key ps_reference (map pb_schema (bq_parameters query))"

section \<open>Characters\<close>

text \<open>
  \<^verbatim>\<open>value.chars().any(char::is_control)\<close> on UTF-8 text: the control characters are U+0000 to U+001F, U+007F,
  and U+0080 to U+009F, which are encoded as the byte C2 followed by a byte from 80 to 9F.
\<close>

fun contains_control :: "string \<Rightarrow> bool" where
  "contains_control [] = False"
| "contains_control (c # s) =
     ((of_char c :: nat) < 32 \<or> (of_char c :: nat) = 127 \<or>
      c = CHR 0xC2 \<and> (case s of [] \<Rightarrow> False | d # _ \<Rightarrow> 128 \<le> (of_char d :: nat) \<and> (of_char d :: nat) < 160) \<or>
      contains_control s)"

definition is_ascii_digit :: "char \<Rightarrow> bool" where
  "is_ascii_digit c \<longleftrightarrow> 48 \<le> (of_char c :: nat) \<and> (of_char c :: nat) \<le> 57"

definition is_ascii_alphabetic :: "char \<Rightarrow> bool" where
  "is_ascii_alphabetic c \<longleftrightarrow>
     65 \<le> (of_char c :: nat) \<and> (of_char c :: nat) \<le> 90 \<or> 97 \<le> (of_char c :: nat) \<and> (of_char c :: nat) \<le> 122"

definition is_ascii_alphanumeric :: "char \<Rightarrow> bool" where
  "is_ascii_alphanumeric c \<longleftrightarrow> is_ascii_alphabetic c \<or> is_ascii_digit c"

text \<open>\<^verbatim>\<open>str::replace\<close> of one character by two copies of it.\<close>

definition double_char :: "char \<Rightarrow> string \<Rightarrow> string" where
  "double_char q s = concat (map (\<lambda>c. if c = q then [q, q] else [c]) s)"

text \<open>\<^verbatim>\<open>str::split\<close> on a character: the segments between its occurrences.\<close>

fun split_char :: "char \<Rightarrow> string \<Rightarrow> string list" where
  "split_char sep [] = [[]]"
| "split_char sep (c # s) =
     (if c = sep then [] # split_char sep s
      else case split_char sep s of [] \<Rightarrow> [[c]] | seg # segs \<Rightarrow> (c # seg) # segs)"

section \<open>Literals and identifiers\<close>

fun render_literal :: "LiteralValue \<Rightarrow> string" where
  "render_literal LiteralValue.Null = ''NULL''"
| "render_literal (LiteralValue.Boolean value) = (if value then ''TRUE'' else ''FALSE'')"
| "render_literal (LiteralValue.Int64 value) = int_to_string (sint value)"
| "render_literal (LiteralValue.Float64 value) = value"
| "render_literal (LiteralValue.Utf8 value) = [CHR 0x27] @ double_char (CHR 0x27) value @ [CHR 0x27]"

definition reserved_words :: "string list" where
  "reserved_words =
     [''all'', ''and'', ''as'', ''by'', ''case'', ''cross'', ''distinct'', ''else'', ''end'', ''exists'', ''from'',
      ''full'', ''group'', ''having'', ''in'', ''inner'', ''is'', ''join'', ''left'', ''like'', ''limit'', ''not'',
      ''null'', ''offset'', ''on'', ''or'', ''order'', ''right'', ''select'', ''then'', ''union'', ''when'',
      ''where'', ''with'']"

definition identifier_start :: "char \<Rightarrow> bool" where
  "identifier_start c \<longleftrightarrow> c = CHR ''_'' \<or> is_ascii_alphabetic c"

definition identifier_part :: "char \<Rightarrow> bool" where
  "identifier_part c \<longleftrightarrow> c = CHR ''_'' \<or> c = CHR ''$'' \<or> is_ascii_alphanumeric c"

definition is_simple_identifier :: "string \<Rightarrow> bool" where
  "is_simple_identifier value \<longleftrightarrow>
     to_ascii_lowercase value \<notin> set reserved_words \<and>
     (case value of [] \<Rightarrow> False | c # cs \<Rightarrow> identifier_start c \<and> list_all identifier_part cs)"

fun identifier_quote :: "SqlBackend \<Rightarrow> char" where
  "identifier_quote ClickHouse = CHR 0x22"
| "identifier_quote Postgres = CHR 0x22"

definition render_identifier :: "SqlBackend \<Rightarrow> string \<Rightarrow> string result" where
  "render_identifier backend value =
     (if value = [] \<or> contains_control value
      then Inl (render_unsupported ''identifier''
        ''identifiers must be non-empty and contain no control characters'')
      else if is_simple_identifier value then Inr value
      else Inr ([identifier_quote backend] @ double_char (identifier_quote backend) value @ [identifier_quote backend]))"

definition render_qualified_name :: "SqlBackend \<Rightarrow> string \<Rightarrow> string result" where
  "render_qualified_name backend value =
     (let segments = split_char (CHR ''.'') value
      in if list_ex (\<lambda>segment. segment = []) segments
         then Inl (render_unsupported ''identifier'' ''qualified names cannot contain empty segments'')
         else result_bind (result_collect (render_identifier backend) segments)
           (\<lambda>segments. Inr (join_with ''.'' segments)))"

definition render_namespaced :: "SqlBackend \<Rightarrow> string option \<Rightarrow> string \<Rightarrow> string result" where
  "render_namespaced backend namespace name =
     (case namespace of
        Some namespace \<Rightarrow> result_bind (render_identifier backend namespace) (\<lambda>n. Inr (n @ ''.'' @ name))
      | None \<Rightarrow> Inr name)"

definition render_name_ref :: "SqlBackend \<Rightarrow> NameRef \<Rightarrow> string result" where
  "render_name_ref backend name =
     result_bind (render_identifier backend (nr_name name)) (render_namespaced backend (nr_namespace name))"

definition is_parameterized_function_name :: "string \<Rightarrow> bool" where
  "is_parameterized_function_name value \<longleftrightarrow>
     CHR ''('' \<in> set value \<and>
     (let open' = takeWhile (\<lambda>c. c \<noteq> CHR ''('') value; rest = drop (Suc (length open')) value
      in last value = CHR '')'' \<and> open' \<noteq> [] \<and>
         list_all (\<lambda>c. c = CHR ''_'' \<or> is_ascii_alphanumeric c) open' \<and>
         list_all (\<lambda>c. is_ascii_digit c \<or> c = CHR ''.'' \<or> c = CHR '','') (butlast rest))"

definition render_function_ref :: "SqlBackend \<Rightarrow> FunctionRef \<Rightarrow> string result" where
  "render_function_ref backend function =
     result_bind
       (if is_parameterized_function_name (fr_name function) then Inr (fr_name function)
        else render_identifier backend (fr_name function))
       (render_namespaced backend (fr_namespace function))"

fun render_binary_operator :: "BinaryOperator \<Rightarrow> string" where
  "render_binary_operator Add = ''+''"
| "render_binary_operator Subtract = ''-''"
| "render_binary_operator Multiply = ''*''"
| "render_binary_operator Divide = ''/''"
| "render_binary_operator Eq = ''=''"
| "render_binary_operator NotEq = ''<>''"
| "render_binary_operator Lt = ''<''"
| "render_binary_operator LtEq = ''<=''"
| "render_binary_operator Gt = ''>''"
| "render_binary_operator GtEq = ''>=''"
| "render_binary_operator And = ''AND''"
| "render_binary_operator Or = ''OR''"

section \<open>Type names\<close>

definition is_timezone_char :: "char \<Rightarrow> bool" where
  "is_timezone_char c \<longleftrightarrow>
     is_ascii_alphanumeric c \<or> c = CHR ''_'' \<or> c = CHR ''/'' \<or> c = CHR ''+'' \<or> c = CHR ''-''"

definition render_decimal :: "string \<Rightarrow> u8 \<Rightarrow> u8 \<Rightarrow> string" where
  "render_decimal name p s =
     name @ ''('' @ nat_to_string (unat p) @ '', '' @ int_to_string (sint s) @ '')''"

fun backend_type_name :: "SqlBackend \<Rightarrow> DataType \<Rightarrow> string result" where
  "backend_type_name ClickHouse DataType.Boolean = Inr ''Bool''"
| "backend_type_name ClickHouse DataType.Int32 = Inr ''Int32''"
| "backend_type_name ClickHouse DataType.Int64 = Inr ''Int64''"
| "backend_type_name ClickHouse DataType.Float64 = Inr ''Float64''"
| "backend_type_name ClickHouse DataType.Utf8 = Inr ''String''"
| "backend_type_name ClickHouse DataType.Uuid = Inr ''UUID''"
| "backend_type_name ClickHouse DataType.Json = Inr ''JSON''"
| "backend_type_name ClickHouse DataType.Date = Inr ''Date''"
| "backend_type_name ClickHouse (DataType.Decimal p s) = Inr (render_decimal ''Decimal'' p s)"
| "backend_type_name ClickHouse (DataType.Timestamp (Some zone)) =
     (if zone = [] \<or> \<not> list_all is_timezone_char zone
      then Inl (render_unsupported ''type'' ''ClickHouse timestamp timezones contain unsupported characters'')
      else Inr (''DateTime64(6, '' @ [CHR 0x27] @ zone @ [CHR 0x27] @ '')''))"
| "backend_type_name ClickHouse (DataType.Timestamp None) = Inr ''DateTime64(6)''"
| "backend_type_name ClickHouse (DataType.List inner) =
     result_bind (backend_type_name ClickHouse inner) (\<lambda>name. Inr (''Array('' @ name @ '')''))"
| "backend_type_name Postgres DataType.Boolean = Inr ''BOOLEAN''"
| "backend_type_name Postgres DataType.Int32 = Inr ''INTEGER''"
| "backend_type_name Postgres DataType.Int64 = Inr ''BIGINT''"
| "backend_type_name Postgres DataType.Float64 = Inr ''DOUBLE PRECISION''"
| "backend_type_name Postgres DataType.Utf8 = Inr ''TEXT''"
| "backend_type_name Postgres DataType.Uuid = Inr ''UUID''"
| "backend_type_name Postgres DataType.Json = Inr ''JSONB''"
| "backend_type_name Postgres DataType.Date = Inr ''DATE''"
| "backend_type_name Postgres (DataType.Decimal p s) = Inr (render_decimal ''NUMERIC'' p s)"
| "backend_type_name Postgres (DataType.Timestamp zone) =
     Inr (if zone \<noteq> None then ''TIMESTAMPTZ'' else ''TIMESTAMP'')"
| "backend_type_name Postgres (DataType.List inner) =
     result_bind (backend_type_name Postgres inner) (\<lambda>name. Inr (name @ ''[]''))"
| "backend_type_name backend (DataType.Struct fs) =
     Inl (render_unsupported ''type'' ''struct parameters are not supported'')"
| "backend_type_name backend DataType.Unknown = Inl (render_unsupported ''type'' ''cannot render unknown type'')"

definition backend_code :: "string \<Rightarrow> string" where
  "backend_code backend =
     (if backend = ''clickhouse'' then ''11'' else if backend = ''postgres'' then ''21'' else ''99'')"

definition is_list :: "DataType \<Rightarrow> bool" where
  "is_list t \<longleftrightarrow> (case t of DataType.List _ \<Rightarrow> True | _ \<Rightarrow> False)"

section \<open>Reading tokens back\<close>

text \<open>
  The escapes that ClickHouse documents for string literals and quoted identifiers: a backslash and one of
  \<^verbatim>\<open>b f r n t 0 a v\<close> is a control character, \<^verbatim>\<open>\xHH\<close> is the byte with that code, and before any other character the
  backslash is dropped.
\<close>

definition escaped_char :: "char \<Rightarrow> char" where
  "escaped_char d =
     (case map_of [(CHR ''b'', 8), (CHR ''f'', 12), (CHR ''r'', 13), (CHR ''n'', 10), (CHR ''t'', 9), (CHR ''0'', 0),
        (CHR ''a'', 7), (CHR ''v'', 11 :: nat)] d of Some code \<Rightarrow> char_of code | None \<Rightarrow> d)"

definition hex_digit_value :: "char \<Rightarrow> nat option" where
  "hex_digit_value c =
     (let n = of_char c :: nat
      in if 48 \<le> n \<and> n \<le> 57 then Some (n - 48) else if 65 \<le> n \<and> n \<le> 70 then Some (n - 55)
         else if 97 \<le> n \<and> n \<le> 102 then Some (n - 87) else None)"

definition hex_escape :: "char \<Rightarrow> string \<Rightarrow> char option" where
  "hex_escape d s =
     (case s of
        a # b # _ \<Rightarrow>
          if d = CHR ''x''
          then Option.bind (hex_digit_value a) (\<lambda>h. map_option (\<lambda>l. char_of (16 * h + l)) (hex_digit_value b))
          else None
      | _ \<Rightarrow> None)"

text \<open>
  A quoted token: the text up to the first quote that is not doubled, with doubled quotes read as one; with
  \<open>escapes\<close>, backslashes are read as above.
\<close>

function read_quoted :: "bool \<Rightarrow> char \<Rightarrow> string \<Rightarrow> (string \<times> string) option" where
  "read_quoted escapes q [] = None"
| "read_quoted escapes q (c # s) =
     (if escapes \<and> c = CHR 0x5C
      then (case s of
              [] \<Rightarrow> None
            | d # s' \<Rightarrow>
                (case hex_escape d s' of
                   Some v \<Rightarrow> map_option (\<lambda>(vs, rest). (v # vs, rest)) (read_quoted escapes q (drop 2 s'))
                 | None \<Rightarrow> map_option (\<lambda>(vs, rest). (escaped_char d # vs, rest)) (read_quoted escapes q s')))
      else if c = q
      then (case s of
              d # s' \<Rightarrow> if d = q then map_option (\<lambda>(v, rest). (q # v, rest)) (read_quoted escapes q s') else Some ([], s)
            | [] \<Rightarrow> Some ([], []))
      else map_option (\<lambda>(v, rest). (c # v, rest)) (read_quoted escapes q s))"
  by pat_completeness auto
termination
  by (relation "measure (\<lambda>(_, _, s). length s)") auto

definition read_string_literal :: "bool \<Rightarrow> string \<Rightarrow> (string \<times> string) option" where
  "read_string_literal escapes s =
     (case s of c # s' \<Rightarrow> if c = CHR 0x27 then read_quoted escapes (CHR 0x27) s' else None | [] \<Rightarrow> None)"



lemma double_char_simps [simp]:
  "double_char q [] = []" "double_char q (c # s) = (if c = q then [q, q] else [c]) @ double_char q s"
  by (simp_all add: double_char_def)


lemma read_quoted_double:
  assumes "rest = [] \<or> hd rest \<noteq> q" and "\<not> escapes \<or> CHR 0x5C \<notin> set v \<and> q \<noteq> CHR 0x5C"
  shows "read_quoted escapes q (double_char q v @ q # rest) = Some (v, rest)"
  using assms(2)
proof (induction v)
  case Nil
  then show ?case using assms(1) by (cases rest) auto
qed auto









text \<open>
  C8. A string literal, read with the standard rule that a quote inside is doubled, is one token whose value is
  the literal's value, whatever follows it except another quote.
\<close>

theorem string_literal_roundtrip:
  assumes "rest = [] \<or> hd rest \<noteq> CHR 0x27"
  shows "read_string_literal False (render_literal (LiteralValue.Utf8 name) @ rest) = Some (name, rest)"
  using read_quoted_double[OF assms, of False name] by (simp add: read_string_literal_def)

theorem string_literal_roundtrip_witness:
  "read_string_literal False (render_literal (LiteralValue.Utf8 [CHR 0x27]) @ '' AND'') = Some ([CHR 0x27], '' AND'')"
  by (rule string_literal_roundtrip) simp


text \<open>A value that closes its own literal, so that the rest of it is read as SQL.\<close>

lemma backslash_injection:
  "read_string_literal True
     (render_literal (LiteralValue.Utf8 (CHR 0x5C # CHR 0x27 # '' OR 1=1 --'')) @ '' LIMIT 1'') =
   Some ([CHR 0x27], '' OR 1=1 --'' @ CHR 0x27 # '' LIMIT 1'')"
  by code_simp


end
