(* ===== verification/QF_Render.thy ===== *)
theory QF_Render
  imports QF_Sql QF_Compile
begin

text \<open>
  Emission of SQL: \<^verbatim>\<open>crates/queryfabric-catalog/src/render/emit.rs\<close>, with the artifact types of
  \<^verbatim>\<open>crates/queryfabric-catalog/src/model.rs\<close>. The renderer walks the bound plan and writes the statement; it
  fails at the first part it cannot express. The main theorem says when it cannot fail.
\<close>

section \<open>Artifacts\<close>

record SqlArtifact =
  sa_dialect :: string
  sa_text :: string
  sa_parameters :: "ParameterSchema list"
  sa_result_schema :: ResultSchema
  sa_metadata :: "(string, string) btree_map"
  sa_provenance :: ProvenanceReceipt

record OpaqueArtifact =
  oa_kind :: string
  oa_description :: string
  oa_provenance :: ProvenanceReceipt

datatype EmitArtifact = Sql SqlArtifact | Opaque OpaqueArtifact

definition EmitArtifact_as_sql :: "EmitArtifact \<Rightarrow> SqlArtifact option" where
  "EmitArtifact_as_sql a = (case a of Sql sql \<Rightarrow> Some sql | Opaque _ \<Rightarrow> None)"

section \<open>The renderer\<close>

record SqlRenderer =
  sr_backend :: SqlBackend
  sr_catalog :: Catalog
  sr_parameter_order :: "ParameterSchema list"
  sr_parameter_positions :: "(ParameterRef, nat) btree_map"

definition SqlRenderer_new :: "SqlBackend \<Rightarrow> Catalog \<Rightarrow> ParameterSchema list \<Rightarrow> SqlRenderer" where
  "SqlRenderer_new backend catalog parameters =
     \<lparr>sr_backend = backend, sr_catalog = catalog, sr_parameter_order = parameters,
      sr_parameter_positions =
        fold (\<lambda>(idx, schema). bt_insert (ps_reference schema) (idx + 1)) (enumerate 0 parameters) []\<rparr>"

definition parameter_schema :: "SqlRenderer \<Rightarrow> ParameterRef \<Rightarrow> ParameterSchema result" where
  "parameter_schema r reference =
     ok_or (render_unsupported ''render'' (''unknown parameter `'' @ ParameterRef_display reference @ ''`''))
       (List.find (\<lambda>schema. ps_reference schema = reference) (sr_parameter_order r))"

definition render_parameter :: "SqlRenderer \<Rightarrow> ParameterRef \<Rightarrow> string result" where
  "render_parameter r reference =
     result_bind (parameter_schema r reference) (\<lambda>schema.
     result_bind
       (ok_or (render_unsupported ''render'' (''unknown parameter `'' @ ParameterRef_display reference @ ''`''))
          (bt_get (sr_parameter_positions r) reference)) (\<lambda>position.
     case sr_backend r of
       Postgres \<Rightarrow> Inr (''$'' @ nat_to_string position)
     | ClickHouse \<Rightarrow>
         result_bind (backend_type_name (sr_backend r) (ps_data_type schema)) (\<lambda>type_name.
         Inr (''{p'' @ nat_to_string position @ '':'' @ type_name @ ''}''))))"

text \<open>An optional part, and a comma-separated clause that is left out when it is empty.\<close>

definition render_option :: "('a \<Rightarrow> string result) \<Rightarrow> 'a option \<Rightarrow> string result" where
  "render_option f v = (case v of Some x \<Rightarrow> f x | None \<Rightarrow> Inr [])"

definition render_joined :: "('a \<Rightarrow> string result) \<Rightarrow> 'a list \<Rightarrow> string result" where
  "render_joined f xs = result_bind (result_collect f xs) (\<lambda>texts. Inr (join_with '', '' texts))"

definition render_clause :: "string \<Rightarrow> ('a \<Rightarrow> string result) \<Rightarrow> 'a list \<Rightarrow> string result" where
  "render_clause prefix f xs =
     (if xs = [] then Inr [] else result_bind (render_joined f xs) (\<lambda>s. Inr (prefix @ s)))"

definition prefixed :: "string \<Rightarrow> string result \<Rightarrow> string result" where
  "prefixed prefix m = result_bind m (\<lambda>s. Inr (prefix @ s))"

definition parenthesized :: "string result \<Rightarrow> string result" where
  "parenthesized m = result_bind m (\<lambda>s. Inr (''('' @ s @ '')''))"

lemma render_option_cong [fundef_cong]:
  assumes "v = w" and "\<And>x. w = Some x \<Longrightarrow> f x = g x"
  shows "render_option f v = render_option g w"
  using assms by (cases w) (simp_all add: render_option_def)

lemma render_joined_cong [fundef_cong]:
  assumes "xs = ys" and "\<And>x. x \<in> set ys \<Longrightarrow> f x = g x"
  shows "render_joined f xs = render_joined g ys"
  unfolding render_joined_def using assms by (metis result_collect_cong)

lemma render_clause_cong [fundef_cong]:
  assumes "p = p'" "xs = ys" and "\<And>x. x \<in> set ys \<Longrightarrow> f x = g x"
  shows "render_clause p f xs = render_clause p' g ys"
  unfolding render_clause_def using assms by (metis render_joined_cong)

definition render_cte_head :: "SqlBackend \<Rightarrow> string \<Rightarrow> string list \<Rightarrow> string result" where
  "render_cte_head backend name columns =
     result_bind (render_identifier backend name) (\<lambda>s.
     if columns = [] then Inr s
     else result_bind (render_joined (render_identifier backend) columns) (\<lambda>cs. Inr (s @ '' ('' @ cs @ '')'')))"

definition render_backend_clause :: "SqlBackend \<Rightarrow> BackendClause \<Rightarrow> string" where
  "render_backend_clause backend clause =
     (case clause of
        ClickHouseSettings s _ \<Rightarrow> if backend = ClickHouse then '' SETTINGS '' @ s else []
      | ClickHouseFormat s _ \<Rightarrow> if backend = ClickHouse then '' '' @ s else [])"

text \<open>A union branch is parenthesised unless it is a select.\<close>

definition wrap_set_expr :: "BoundSetExpr \<Rightarrow> string result \<Rightarrow> string result" where
  "wrap_set_expr e m = (case e of BoundSetExpr.Select _ \<Rightarrow> m | _ \<Rightarrow> parenthesized m)"

fun render_join_kind :: "JoinKind \<Rightarrow> string" where
  "render_join_kind Inner = ''INNER JOIN ''"
| "render_join_kind Left = ''LEFT JOIN ''"
| "render_join_kind Right = ''RIGHT JOIN ''"
| "render_join_kind Full = ''FULL JOIN ''"
| "render_join_kind Cross = ''CROSS JOIN ''"

definition render_table :: "SqlBackend \<Rightarrow> BoundRelationBinding \<Rightarrow> string result" where
  "render_table backend b =
     result_bind
       (case rb_relation_name b of
          Some name \<Rightarrow> render_name_ref backend name
        | None \<Rightarrow> render_identifier backend (rb_binding_name b)) (\<lambda>sql.
     if pred_option (\<lambda>name. eq_ignore_ascii_case (nr_name name) (rb_binding_name b)) (rb_relation_name b)
     then Inr sql
     else prefixed (sql @ '' AS '') (render_identifier backend (rb_binding_name b)))"

definition render_alias :: "SqlBackend \<Rightarrow> BoundRelationBinding \<Rightarrow> string \<Rightarrow> string result" where
  "render_alias backend b sql = prefixed (sql @ '' AS '') (render_identifier backend (rb_binding_name b))"

definition render_column :: "SqlBackend \<Rightarrow> BoundColumnRef \<Rightarrow> string result" where
  "render_column backend c =
     (case bcr_relation c of
        Some relation \<Rightarrow>
          result_bind (render_qualified_name backend relation) (\<lambda>q.
          prefixed (q @ ''.'') (render_identifier backend (bcr_name c)))
      | None \<Rightarrow> render_identifier backend (bcr_name c))"

fun render_unary_operator :: "UnaryOperator \<Rightarrow> string" where
  "render_unary_operator Plus = ''+''"
| "render_unary_operator Minus = ''-''"
| "render_unary_operator Not = ''NOT ''"

definition negation :: "bool \<Rightarrow> string" where
  "negation negated = (if negated then ''NOT '' else [])"

definition order_suffix :: "bool option \<Rightarrow> bool option \<Rightarrow> string" where
  "order_suffix asc nulls_first =
     (case asc of Some a \<Rightarrow> if a then '' ASC'' else '' DESC'' | None \<Rightarrow> []) @
     (case nulls_first of Some n \<Rightarrow> if n then '' NULLS FIRST'' else '' NULLS LAST'' | None \<Rightarrow> [])"

text \<open>The case of \<^verbatim>\<open>IN\<close> over a single list-valued parameter.\<close>

definition list_parameter :: "SqlRenderer \<Rightarrow> BoundExpr list \<Rightarrow> ParameterRef option result" where
  "list_parameter r items =
     (case items of
        [BoundExpr (BoundExprKind.Parameter reference) _ _ _] \<Rightarrow>
          result_bind (parameter_schema r reference) (\<lambda>schema.
          Inr (if is_list (ps_data_type schema) then Some reference else None))
      | _ \<Rightarrow> Inr None)"

definition in_parameter_text :: "SqlBackend \<Rightarrow> bool \<Rightarrow> string \<Rightarrow> string \<Rightarrow> string" where
  "in_parameter_text backend negated e parameter =
     (case backend of
        Postgres \<Rightarrow> e @ '' '' @ (if negated then ''<> ALL'' else ''= ANY'') @ ''('' @ parameter @ '')''
      | ClickHouse \<Rightarrow> e @ '' '' @ negation negated @ ''IN '' @ parameter)"

fun render_projection_alias :: "SqlBackend \<Rightarrow> string option \<Rightarrow> string \<Rightarrow> string result" where
  "render_projection_alias backend (Some alias) rendered = prefixed (rendered @ '' AS '') (render_identifier backend alias)"
| "render_projection_alias backend None rendered = Inr rendered"

definition render_wildcard :: "SqlBackend \<Rightarrow> string option \<Rightarrow> string result" where
  "render_wildcard backend qualifier =
     (case qualifier of
        Some q \<Rightarrow> result_bind (render_qualified_name backend q) (\<lambda>s. Inr (s @ ''.*''))
      | None \<Rightarrow> Inr ''*'')"

text \<open>What is written before the arguments: the mapped function name.\<close>

definition resolve_backend_function :: "SqlRenderer \<Rightarrow> FunctionRef \<Rightarrow> FunctionRef result" where
  "resolve_backend_function r f =
     result_bind
       (ok_or (render_unsupported ''render'' (''unknown function `'' @ FunctionRef_display_name f @ ''`''))
          (cat_resolve_function (sr_catalog r) (fr_namespace f) (fr_name f))) (\<lambda>signature.
     ok_or (render_unsupported ''render''
         (''function `'' @ FunctionRef_display_name f @ ''` has no backend mapping''))
       (backend_mapping signature (SqlBackend_name (sr_backend r))))"

definition call_arguments :: "FunctionRef \<Rightarrow> BoundExpr list \<Rightarrow> string \<Rightarrow> string" where
  "call_arguments f args rendered =
     (if eq_ignore_ascii_case (fr_name f) ''count'' \<and> args = [] then ''*'' else rendered)"

lemma size_bound_render_parts:
  "size_BoundProjectionExpr size d = Suc (size (bpe_expr d))"
  "size_BoundOrderByExpr size k = Suc (size (bo_expr k))"
  "size_BoundWindowSpec size w =
     Suc (size_list size (bw_partition_by w) + size_list (size_BoundOrderByExpr size) (bw_order_by w))"
  "size_BoundFunctionCall size f =
     Suc (size_list size (bf_args f) + size_option size (bf_filter f) + size_option (size_BoundWindowSpec size) (bf_over f))"
  by (cases d, simp) (cases k, simp, cases w, simp, cases f, simp)

lemma size_bound_join_on:
  "bj_on j = Some e \<Longrightarrow> j \<in> set js \<Longrightarrow> size e < size_list (size_BoundJoin size size) js"
  by (rule size_bound_joins_mem(1), assumption) (cases j, simp)

lemmas render_size_dests =
  size_bound_join_on size_bound_list_mem_le[where f = "\<lambda>k. Suc (size (bo_expr k))"]
  bound_visit_size_dests size_bound_list_mem_le[where f = "size_BoundProjectionItem size"]
  size_bound_list_mem_le[where f = "size_BoundTableWithJoins size size"]
  size_bound_list_mem_le[where f = "size_BoundOrderByExpr size"] size_bound_joins_mem

function render_query_inner :: "SqlRenderer \<Rightarrow> BoundQueryPlan \<Rightarrow> string result"
  and render_set_expr :: "SqlRenderer \<Rightarrow> BoundSetExpr \<Rightarrow> string result"
  and render_select :: "SqlRenderer \<Rightarrow> (BoundExpr, BoundRelation) BoundSelect \<Rightarrow> string result"
  and render_projection :: "SqlRenderer \<Rightarrow> BoundExpr BoundProjectionItem \<Rightarrow> string result"
  and render_table_with_joins :: "SqlRenderer \<Rightarrow> BoundTable \<Rightarrow> string result"
  and render_relation :: "SqlRenderer \<Rightarrow> BoundRelation \<Rightarrow> string result"
  and render_order_by :: "SqlRenderer \<Rightarrow> BoundExpr BoundOrderByExpr \<Rightarrow> string result"
  and render_expr :: "SqlRenderer \<Rightarrow> BoundExpr \<Rightarrow> string result"
  and render_function :: "SqlRenderer \<Rightarrow> BoundExpr BoundFunctionCall \<Rightarrow> string result"
  and render_over :: "SqlRenderer \<Rightarrow> BoundExpr BoundWindowSpec \<Rightarrow> string result"
where
  "render_query_inner r (BoundQueryPlan node ctes body order_by limit offset clauses schema) =
     result_bind
       (if ctes = [] then Inr []
        else result_bind (render_joined (\<lambda>cte.
            result_bind (render_cte_head (sr_backend r) (bc_name cte) (bc_columns cte)) (\<lambda>head.
            result_bind (render_query_inner r (bc_query cte)) (\<lambda>q. Inr (head @ '' AS ('' @ q @ '')'')))) ctes)
          (\<lambda>s. Inr (''WITH '' @ s @ '' ''))) (\<lambda>with'.
     result_bind (render_set_expr r body) (\<lambda>body'.
     result_bind (render_clause '' ORDER BY '' (render_order_by r) order_by) (\<lambda>order'.
     result_bind (render_option (\<lambda>e. prefixed '' LIMIT '' (render_expr r e)) limit) (\<lambda>limit'.
     result_bind (render_option (\<lambda>e. prefixed '' OFFSET '' (render_expr r e)) offset) (\<lambda>offset'.
     Inr (with' @ body' @ order' @ limit' @ offset' @ concat (map (render_backend_clause (sr_backend r)) clauses)))))))"
| "render_set_expr r (BoundSetExpr.Select select) = render_select r select"
| "render_set_expr r (BoundSetExpr.UnionAll left right node schema) =
     result_bind (wrap_set_expr left (render_set_expr r left)) (\<lambda>left'.
     result_bind (wrap_set_expr right (render_set_expr r right)) (\<lambda>right'.
     Inr (left' @ '' UNION ALL '' @ right')))"
| "render_set_expr r (BoundSetExpr.Unsupported description node schema) =
     Inl (render_unsupported ''render'' (''cannot render unsupported set expression: '' @ description))"
| "render_select r (BoundSelect distinct' projection tables selection group_by having schema node) =
     result_bind (render_joined (render_projection r) projection) (\<lambda>projection'.
     result_bind (render_clause '' FROM '' (render_table_with_joins r) tables) (\<lambda>tables'.
     result_bind (render_option (\<lambda>e. prefixed '' WHERE '' (render_expr r e)) selection) (\<lambda>selection'.
     result_bind (render_clause '' GROUP BY '' (render_expr r) group_by) (\<lambda>group_by'.
     result_bind (render_option (\<lambda>e. prefixed '' HAVING '' (render_expr r e)) having) (\<lambda>having'.
     Inr (''SELECT '' @ (if distinct' then ''DISTINCT '' else []) @
       projection' @ tables' @ selection' @ group_by' @ having'))))))"
| "render_projection r (BoundProjectionItem.Wildcard qualifier fs node) = render_wildcard (sr_backend r) qualifier"
| "render_projection r (BoundProjectionItem.Expr details) =
     result_bind (render_expr r (bpe_expr details)) (render_projection_alias (sr_backend r) (bpe_alias details))"
| "render_projection r (BoundProjectionItem.Unsupported description node) =
     Inl (render_unsupported ''render'' (''cannot render unsupported projection: '' @ description))"
| "render_table_with_joins r (BoundTableWithJoins relation joins node) =
     result_bind (render_relation r relation) (\<lambda>sql.
     result_bind (result_collect (\<lambda>join.
         result_bind (render_relation r (bj_relation join)) (\<lambda>relation'.
         result_bind (render_option (\<lambda>e. prefixed '' ON '' (render_expr r e)) (bj_on join)) (\<lambda>on'.
         Inr ('' '' @ render_join_kind (bj_kind join) @ relation' @ on')))) joins) (\<lambda>joins'.
     Inr (sql @ concat joins')))"
| "render_relation r (BoundRelation.Table binding node) = render_table (sr_backend r) binding"
| "render_relation r (BoundRelation.Derived binding plan node) =
     result_bind (parenthesized (render_query_inner r plan)) (render_alias (sr_backend r) binding)"
| "render_relation r (BoundRelation.NestedJoin binding table node) =
     result_bind (parenthesized (render_table_with_joins r table)) (render_alias (sr_backend r) binding)"
| "render_relation r (BoundRelation.Unsupported description name node) =
     Inl (render_unsupported ''render'' (''cannot render unsupported relation: '' @ description))"
| "render_order_by r (BoundOrderByExpr e asc nulls_first node) =
     result_bind (render_expr r e) (\<lambda>sql. Inr (sql @ order_suffix asc nulls_first))"
| "render_expr r (BoundExpr (BoundExprKind.Column column) data_type nullable node) = render_column (sr_backend r) column"
| "render_expr r (BoundExpr (BoundExprKind.Literal literal) data_type nullable node) = Inr (render_literal literal)"
| "render_expr r (BoundExpr (BoundExprKind.Parameter reference) data_type nullable node) = render_parameter r reference"
| "render_expr r (BoundExpr (BoundExprKind.Unary op e) data_type nullable node) =
     prefixed (render_unary_operator op) (render_expr r e)"
| "render_expr r (BoundExpr (BoundExprKind.Binary op left right) data_type nullable node) =
     result_bind (render_expr r left) (\<lambda>left'.
     result_bind (render_expr r right) (\<lambda>right'.
     Inr (''('' @ left' @ '' '' @ render_binary_operator op @ '' '' @ right' @ '')'')))"
| "render_expr r (BoundExpr (BoundExprKind.Function f) data_type nullable node) = render_function r f"
| "render_expr r (BoundExpr (BoundExprKind.Case operand when_then else_result) data_type nullable node) =
     result_bind (render_option (\<lambda>e. prefixed '' '' (render_expr r e)) operand) (\<lambda>operand'.
     result_bind (result_collect (\<lambda>pair.
         result_bind (render_expr r (bwt_condition pair)) (\<lambda>condition.
         result_bind (render_expr r (bwt_result pair)) (\<lambda>result.
         Inr ('' WHEN '' @ condition @ '' THEN '' @ result)))) when_then) (\<lambda>branches.
     result_bind (render_option (\<lambda>e. prefixed '' ELSE '' (render_expr r e)) else_result) (\<lambda>else'.
     Inr (''CASE'' @ operand' @ concat branches @ else' @ '' END''))))"
| "render_expr r (BoundExpr (BoundExprKind.Cast e to) data_type nullable node) =
     result_bind (render_expr r e) (\<lambda>e'.
     result_bind (backend_type_name (sr_backend r) to) (\<lambda>type_name.
     Inr (''CAST('' @ e' @ '' AS '' @ type_name @ '')'')))"
| "render_expr r (BoundExpr (BoundExprKind.Between e low high negated) data_type nullable node) =
     result_bind (render_expr r e) (\<lambda>e'.
     result_bind (render_expr r low) (\<lambda>low'.
     result_bind (render_expr r high) (\<lambda>high'.
     Inr (e' @ '' '' @ negation negated @ ''BETWEEN '' @ low' @ '' AND '' @ high'))))"
| "render_expr r (BoundExpr (BoundExprKind.InList e items negated) data_type nullable node) =
     result_bind (list_parameter r items) (\<lambda>parameter.
     result_bind (render_expr r e) (\<lambda>e'.
     case parameter of
       Some reference \<Rightarrow>
         result_bind (render_parameter r reference) (\<lambda>p. Inr (in_parameter_text (sr_backend r) negated e' p))
     | None \<Rightarrow>
         result_bind (render_joined (render_expr r) items) (\<lambda>items'.
         Inr (e' @ '' '' @ negation negated @ ''IN ('' @ items' @ '')''))))"
| "render_expr r (BoundExpr (BoundExprKind.InSubquery e subquery negated) data_type nullable node) =
     result_bind (render_expr r e) (\<lambda>e'.
     result_bind (parenthesized (render_query_inner r subquery)) (\<lambda>subquery'.
     Inr (e' @ '' '' @ negation negated @ ''IN '' @ subquery')))"
| "render_expr r (BoundExpr (BoundExprKind.ScalarSubquery subquery) data_type nullable node) =
     parenthesized (render_query_inner r subquery)"
| "render_expr r (BoundExpr (BoundExprKind.Exists subquery) data_type nullable node) =
     prefixed ''EXISTS '' (parenthesized (render_query_inner r subquery))"
| "render_expr r (BoundExpr (BoundExprKind.Like e pattern negated case_insensitive) data_type nullable node) =
     result_bind (render_expr r e) (\<lambda>e'.
     result_bind (render_expr r pattern) (\<lambda>pattern'.
     Inr (e' @ '' '' @ negation negated @ (if case_insensitive then ''ILIKE'' else ''LIKE'') @ '' '' @ pattern')))"
| "render_expr r (BoundExpr (BoundExprKind.IsNull e negated) data_type nullable node) =
     result_bind (render_expr r e) (\<lambda>e'. Inr (e' @ '' IS '' @ negation negated @ ''NULL''))"
| "render_expr r (BoundExpr (BoundExprKind.Tuple items) data_type nullable node) =
     parenthesized (render_joined (render_expr r) items)"
| "render_expr r (BoundExpr (BoundExprKind.Array items) data_type nullable node) =
     result_bind (render_joined (render_expr r) items) (\<lambda>items'.
     Inr ((if sr_backend r = ClickHouse then ''['' else ''ARRAY['') @ items' @ '']''))"
| "render_expr r (BoundExpr (BoundExprKind.Unsupported description) data_type nullable node) =
     Inl (render_unsupported ''render'' (''cannot render unsupported expression: '' @ description))"
| "render_function r (BoundFunctionCall f backend_name args distinct' filter' over signature_name) =
     result_bind (resolve_backend_function r f) (\<lambda>mapped.
     result_bind (render_joined (render_expr r) args) (\<lambda>args'.
     result_bind (render_function_ref (sr_backend r) mapped) (\<lambda>name.
     result_bind (render_option (\<lambda>e.
         result_bind (render_expr r e) (\<lambda>s. Inr ('' FILTER (WHERE '' @ s @ '')''))) filter') (\<lambda>filter''.
     result_bind (render_option (render_over r) over) (\<lambda>over'.
     Inr (name @ ''('' @ (if distinct' then ''DISTINCT '' else []) @ call_arguments f args args' @ '')'' @
       filter'' @ over'))))))"
| "render_over r (BoundWindowSpec partition_by order_by node) =
     result_bind (render_clause ''PARTITION BY '' (render_expr r) partition_by) (\<lambda>partition.
     result_bind (render_clause ''ORDER BY '' (render_order_by r) order_by) (\<lambda>order'.
     Inr ('' OVER ('' @ join_with '' ''
       ((if partition_by = [] then [] else [partition]) @ (if order_by = [] then [] else [order'])) @ '')'')))"
  by pat_completeness auto
termination
  by (relation "measure (case_sum
        (case_sum
          (case_sum (\<lambda>(_, q). size q) (\<lambda>(_, e). size e))
          (case_sum (\<lambda>(_, s). size_BoundSelect size size s)
            (case_sum (\<lambda>(_, i). size_BoundProjectionItem size i)
              (\<lambda>(_, t). size_BoundTableWithJoins size size t))))
        (case_sum
          (case_sum (\<lambda>(_, r). size r) (\<lambda>(_, k). size_BoundOrderByExpr size k))
          (case_sum (\<lambda>(_, e). size e)
            (case_sum (\<lambda>(_, f). size_BoundFunctionCall size f) (\<lambda>(_, w). size_BoundWindowSpec size w)))))")
    (auto simp: size_bound_render_parts dest: render_size_dests)

definition render_query :: "SqlRenderer \<Rightarrow> BoundQueryPlan \<Rightarrow> bool \<Rightarrow> string result" where
  "render_query r query explain = prefixed (if explain then ''EXPLAIN '' else []) (render_query_inner r query)"

definition emit_sql_artifact :: "BoundQuery \<Rightarrow> Catalog \<Rightarrow> SqlBackend \<Rightarrow> SqlArtifact result" where
  "emit_sql_artifact query catalog backend =
     (let parameters = ordered_parameters query
      in result_bind
           (render_query (SqlRenderer_new backend catalog parameters) (bq_plan query) (pq_explain (bq_parsed query)))
           (\<lambda>sql. Inr
             \<lparr>sa_dialect = SqlBackend_name backend, sa_text = sql, sa_parameters = parameters,
              sa_result_schema = bq_result_schema query, sa_metadata = [],
              sa_provenance =
                receipt_with_artifact_identity (''sql:'' @ SqlBackend_name backend)
                  (receipt_with_backend (SqlBackend_name backend) (bq_provenance query))\<rparr>))"

end
