(* ===== verification/QF_Emit.thy ===== *)
theory QF_Emit
  imports QF_Render QF_Requirements
begin

text \<open>
  When emission succeeds. A plan that the binder has accepted can be emitted whenever each of its names, types
  and functions can be written for the backend; the conditions are local to the nodes of the plan.
\<close>

section \<open>Errors of rendering come from the leaves\<close>

text \<open>The parts of a node that are rendered without recursion, all failing only with errors of \<open>B\<close>.\<close>

fun node_fails :: "(QueryFabricError \<Rightarrow> bool) \<Rightarrow> SqlRenderer \<Rightarrow> BoundNode \<Rightarrow> bool" where
  "node_fails B r (PlanNode p) \<longleftrightarrow> True"
| "node_fails B r (CteNode c) \<longleftrightarrow> fails_only B (render_cte_head (sr_backend r) (bc_name c) (bc_columns c))"
| "node_fails B r (SetNode (BoundSetExpr.Unsupported d node schema)) \<longleftrightarrow> False"
| "node_fails B r (SetNode _) \<longleftrightarrow> True"
| "node_fails B r (ItemNode (BoundProjectionItem.Wildcard q fs node)) \<longleftrightarrow>
     fails_only B (render_wildcard (sr_backend r) q)"
| "node_fails B r (ItemNode (BoundProjectionItem.Expr d)) \<longleftrightarrow>
     (\<forall>s. fails_only B (render_projection_alias (sr_backend r) (bpe_alias d) s))"
| "node_fails B r (ItemNode (BoundProjectionItem.Unsupported d node)) \<longleftrightarrow> False"
| "node_fails B r (RelationNode (BoundRelation.Table b node)) \<longleftrightarrow> fails_only B (render_table (sr_backend r) b)"
| "node_fails B r (RelationNode (BoundRelation.Derived b p node)) \<longleftrightarrow>
     (\<forall>s. fails_only B (render_alias (sr_backend r) b s))"
| "node_fails B r (RelationNode (BoundRelation.NestedJoin b t node)) \<longleftrightarrow>
     (\<forall>s. fails_only B (render_alias (sr_backend r) b s))"
| "node_fails B r (RelationNode (BoundRelation.Unsupported d name node)) \<longleftrightarrow> False"
| "node_fails B r (ExprNode (BoundExpr kind data_type nullable node)) \<longleftrightarrow>
     (case kind of
        BoundExprKind.Column c \<Rightarrow> fails_only B (render_column (sr_backend r) c)
      | BoundExprKind.Parameter p \<Rightarrow> fails_only B (parameter_schema r p) \<and> fails_only B (render_parameter r p)
      | BoundExprKind.Function f \<Rightarrow>
          fails_only B (resolve_backend_function r (bf_function f)) \<and>
          (\<forall>m. resolve_backend_function r (bf_function f) = Inr m \<longrightarrow> fails_only B (render_function_ref (sr_backend r) m))
      | BoundExprKind.Cast e t \<Rightarrow> fails_only B (backend_type_name (sr_backend r) t)
      | BoundExprKind.Unsupported d \<Rightarrow> False
      | _ \<Rightarrow> True)"

lemma fails_only_prefixed: "fails_only B m \<Longrightarrow> fails_only B (prefixed p m)"
  by (cases m) (simp_all add: prefixed_def)

lemma fails_only_parenthesized: "fails_only B m \<Longrightarrow> fails_only B (parenthesized m)"
  by (cases m) (simp_all add: parenthesized_def)

lemma fails_only_wrap: "fails_only B m \<Longrightarrow> fails_only B (wrap_set_expr e m)"
  by (cases e) (simp_all add: wrap_set_expr_def fails_only_parenthesized)

lemma fails_only_option: "(\<And>x. v = Some x \<Longrightarrow> fails_only B (f x)) \<Longrightarrow> fails_only B (render_option f v)"
  by (cases v) (simp_all add: render_option_def)

lemma fails_only_joined: "(\<And>x. x \<in> set xs \<Longrightarrow> fails_only B (f x)) \<Longrightarrow> fails_only B (render_joined f xs)"
  unfolding render_joined_def by (blast intro: fails_only_bind fails_only_collect fails_only_simps)

lemma fails_only_clause: "(\<And>x. x \<in> set xs \<Longrightarrow> fails_only B (f x)) \<Longrightarrow> fails_only B (render_clause p f xs)"
  unfolding render_clause_def by (auto intro!: fails_only_bind fails_only_joined)

lemmas fails_only_intros =
  fails_only_bind fails_only_collect fails_only_prefixed fails_only_parenthesized fails_only_wrap
  fails_only_option fails_only_joined fails_only_clause

lemma fails_only_list_parameter:
  "list_all (expr_all (node_fails B r)) items \<Longrightarrow> fails_only B (list_parameter r items)"
  unfolding list_parameter_def
  by (auto split: list.split BoundExpr.split BoundExprKind.split intro!: fails_only_bind)

lemma list_parameter_Some:
  "list_parameter r items = Inr (Some p) \<Longrightarrow> list_all (expr_all (node_fails B r)) items \<Longrightarrow>
     fails_only B (render_parameter r p)"
  unfolding list_parameter_def
  by (auto simp: result_bind_Inr_iff split: list.splits BoundExpr.splits BoundExprKind.splits if_splits)

lemma pred_BoundProjectionExpr_sel: "pred_BoundProjectionExpr P d \<longleftrightarrow> P (bpe_expr d)"
  by (cases d) simp

lemma render_fails_only:
  fixes B r defines "P \<equiv> node_fails B r"
  shows "plan_all P q \<Longrightarrow> fails_only B (render_query_inner r q)"
    and "set_expr_all P body \<Longrightarrow> fails_only B (render_set_expr r body)"
    and "set_expr_all P (BoundSetExpr.Select select) \<Longrightarrow> fails_only B (render_select r select)"
    and "item_ok P item \<Longrightarrow> fails_only B (render_projection r item)"
    and "pred_BoundTableWithJoins (expr_all P) (relation_all P) table \<Longrightarrow> fails_only B (render_table_with_joins r table)"
    and "relation_all P rel \<Longrightarrow> fails_only B (render_relation r rel)"
    and "expr_all P (bo_expr key) \<Longrightarrow> fails_only B (render_order_by r key)"
    and "expr_all P e \<Longrightarrow> fails_only B (render_expr r e)"
    and "pred_BoundFunctionCall (expr_all P) call \<Longrightarrow>
      fails_only B (resolve_backend_function r (bf_function call)) \<Longrightarrow>
      (\<forall>m. resolve_backend_function r (bf_function call) = Inr m \<longrightarrow> fails_only B (render_function_ref (sr_backend r) m)) \<Longrightarrow>
      fails_only B (render_function r call)"
    and "pred_BoundWindowSpec (expr_all P) window \<Longrightarrow> fails_only B (render_over r window)"
  unfolding P_def
proof (induction r q and r body and r select and r item and r table and r rel and r key and r e and r call and r window
    rule: render_query_inner_render_set_expr_render_select_render_projection_render_table_with_joins_render_relation_render_order_by_render_expr_render_function_render_over.induct)
  case (1 r node ctes body order_by limit offset clauses schema)
  then show ?case by (auto simp: list_all_iff option.pred_set intro!: fails_only_intros)
next
  case (5 r distinct' projection tables selection group_by having schema node)
  then show ?case by (auto simp: list_all_iff option.pred_set intro!: fails_only_intros)
next
  case (9 r relation joins node)
  then show ?case by (auto simp: table_all_iff list_all_iff option.pred_set intro!: fails_only_intros)
next
  case (24 r e items negated data_type nullable node)
  then show ?case
    by (auto simp: list_all_iff fails_only_list_parameter intro!: fails_only_intros
        intro: list_parameter_Some[unfolded list_all_iff] split: option.split)
next
  case (33 r f backend_name args distinct' filter' over signature_name)
  then show ?case by (auto simp: list_all_iff option.pred_set intro!: fails_only_intros)
next
  case (34 r partition_by order_by node)
  then show ?case by (auto simp: list_all_iff pred_BoundOrderByExpr_sel intro!: fails_only_intros)
qed (auto simp: list_all_iff option.pred_set pred_BoundWhenThen_sel pred_BoundProjectionExpr_sel
    intro!: fails_only_intros)

section \<open>Names, types and functions a backend can write\<close>

definition is_identifier :: "string \<Rightarrow> bool" where
  "is_identifier name \<longleftrightarrow> name \<noteq> [] \<and> \<not> contains_control name"

definition is_qualified_name :: "string \<Rightarrow> bool" where
  "is_qualified_name name \<longleftrightarrow> list_all is_identifier (split_char (CHR ''.'') name)"

fun expressible_type :: "SqlBackend \<Rightarrow> DataType \<Rightarrow> bool" where
  "expressible_type backend (DataType.List t) = expressible_type backend t"
| "expressible_type backend (DataType.Struct _) = False"
| "expressible_type backend DataType.Unknown = False"
| "expressible_type ClickHouse (DataType.Timestamp (Some zone)) = (zone \<noteq> [] \<and> list_all is_timezone_char zone)"
| "expressible_type backend _ = True"

definition is_function_name :: "FunctionRef \<Rightarrow> bool" where
  "is_function_name f \<longleftrightarrow>
     (is_parameterized_function_name (fr_name f) \<or> is_identifier (fr_name f)) \<and>
     pred_option is_identifier (fr_namespace f)"

definition function_mapped :: "SqlBackend \<Rightarrow> Catalog \<Rightarrow> FunctionRef \<Rightarrow> bool" where
  "function_mapped backend catalog f \<longleftrightarrow>
     (case cat_resolve_function catalog (fr_namespace f) (fr_name f) of
        Some signature \<Rightarrow>
          (case backend_mapping signature (SqlBackend_name backend) of
             Some mapped \<Rightarrow> is_function_name mapped | None \<Rightarrow> False)
      | None \<Rightarrow> False)"

fun node_emittable :: "SqlBackend \<Rightarrow> Catalog \<Rightarrow> BoundNode \<Rightarrow> bool" where
  "node_emittable backend catalog (CteNode c) \<longleftrightarrow> is_identifier (bc_name c) \<and> list_all is_identifier (bc_columns c)"
| "node_emittable backend catalog (ItemNode (BoundProjectionItem.Wildcard q fs node)) \<longleftrightarrow> pred_option is_qualified_name q"
| "node_emittable backend catalog (ItemNode (BoundProjectionItem.Expr d)) \<longleftrightarrow> pred_option is_identifier (bpe_alias d)"
| "node_emittable backend catalog (RelationNode (BoundRelation.Table b node)) \<longleftrightarrow>
     is_identifier (rb_binding_name b) \<and>
     pred_option (\<lambda>name. is_identifier (nr_name name) \<and> pred_option is_identifier (nr_namespace name)) (rb_relation_name b)"
| "node_emittable backend catalog (RelationNode (BoundRelation.Derived b q node)) \<longleftrightarrow> is_identifier (rb_binding_name b)"
| "node_emittable backend catalog (RelationNode (BoundRelation.NestedJoin b t node)) \<longleftrightarrow> is_identifier (rb_binding_name b)"
| "node_emittable backend catalog (ExprNode (BoundExpr kind data_type nullable node)) \<longleftrightarrow>
     (case kind of
        BoundExprKind.Column c \<Rightarrow> pred_option is_qualified_name (bcr_relation c) \<and> is_identifier (bcr_name c)
      | BoundExprKind.Function f \<Rightarrow> function_mapped backend catalog (bf_function f)
      | BoundExprKind.Cast e t \<Rightarrow> expressible_type backend t
      | _ \<Rightarrow> True)"
| "node_emittable backend catalog _ \<longleftrightarrow> True"

abbreviation succeeds :: "'e + 'a \<Rightarrow> bool" where
  "succeeds m \<equiv> fails_only (\<lambda>_. False) m"

lemma succeeds_identifier [simp]: "is_identifier name \<Longrightarrow> succeeds (render_identifier backend name)"
  by (auto simp: is_identifier_def render_identifier_def)

lemma succeeds_qualified [simp]: "is_qualified_name name \<Longrightarrow> succeeds (render_qualified_name backend name)"
  by (auto simp: is_qualified_name_def render_qualified_name_def Let_def list_all_iff list_ex_iff is_identifier_def
      intro!: fails_only_bind fails_only_collect succeeds_identifier)

lemma succeeds_namespaced: "pred_option is_identifier ns \<Longrightarrow> succeeds (render_namespaced backend ns name)"
  by (cases ns) (auto simp: render_namespaced_def intro!: fails_only_bind)

lemma succeeds_type [simp]: "expressible_type backend t \<Longrightarrow> succeeds (backend_type_name backend t)"
  by (induction backend t rule: backend_type_name.induct) (auto intro!: fails_only_bind)

lemma succeeds_function_ref: "is_function_name m \<Longrightarrow> succeeds (render_function_ref backend m)"
  by (auto simp: is_function_name_def render_function_ref_def intro!: fails_only_bind succeeds_namespaced)

lemma succeeds_function:
  assumes "function_mapped (sr_backend r) (sr_catalog r) f"
  shows "succeeds (resolve_backend_function r f)"
    and "resolve_backend_function r f = Inr m \<Longrightarrow> succeeds (render_function_ref (sr_backend r) m)"
  using assms
  by (auto simp: function_mapped_def resolve_backend_function_def split: option.splits intro: succeeds_function_ref)

lemma succeeds_names:
  "is_identifier name \<Longrightarrow> list_all is_identifier columns \<Longrightarrow> succeeds (render_cte_head backend name columns)"
  "pred_option is_qualified_name q \<Longrightarrow> succeeds (render_wildcard backend q)"
  "pred_option is_identifier a \<Longrightarrow> succeeds (render_projection_alias backend a s)"
  "is_identifier (rb_binding_name b) \<Longrightarrow> succeeds (render_alias backend b s)"
  "pred_option is_qualified_name (bcr_relation c) \<Longrightarrow> is_identifier (bcr_name c) \<Longrightarrow> succeeds (render_column backend c)"
  by (auto simp: render_cte_head_def render_wildcard_def render_alias_def render_column_def list_all_iff
      split: option.split intro!: fails_only_intros) (cases a; auto intro!: fails_only_intros)+

lemma succeeds_table:
  assumes "is_identifier (rb_binding_name b)"
    and "pred_option (\<lambda>name. is_identifier (nr_name name) \<and> pred_option is_identifier (nr_namespace name)) (rb_relation_name b)"
  shows "succeeds (render_table backend b)"
  using assms
  by (auto simp: render_table_def render_name_ref_def split: option.split
      intro!: fails_only_intros succeeds_namespaced)

lemma emittable_node_succeeds:
  assumes "node_emittable (sr_backend r) (sr_catalog r) n" and "node_supported n"
    and "\<And>p data_type nullable node. n = ExprNode (BoundExpr (BoundExprKind.Parameter p) data_type nullable node) \<Longrightarrow>
      succeeds (parameter_schema r p) \<and> succeeds (render_parameter r p)"
  shows "node_fails (\<lambda>_. False) r n"
proof (cases n)
  case (SetNode b)
  then show ?thesis using assms by (cases b) simp_all
next
  case (ItemNode i)
  then show ?thesis using assms by (cases i) (simp_all add: succeeds_names)
next
  case (RelationNode b)
  then show ?thesis using assms by (cases b) (simp_all add: succeeds_names succeeds_table)
next
  case (ExprNode e)
  then show ?thesis
    using assms by (cases e; cases "bx_kind e") (auto simp: succeeds_names intro: succeeds_function)
qed (use assms in \<open>simp_all add: succeeds_names\<close>)

section \<open>Parameters\<close>

abbreviation position_parameters :: "nat \<Rightarrow> ParameterSchema list \<Rightarrow> (ParameterRef, nat) btree_map \<Rightarrow> (ParameterRef, nat) btree_map" where
  "position_parameters k ps \<equiv> fold (\<lambda>(idx, schema). bt_insert (ps_reference schema) (idx + 1)) (enumerate k ps)"

lemma position_parameters_other:
  "p \<notin> set (map ps_reference ps) \<Longrightarrow> bt_get (position_parameters k ps m) p = bt_get m p"
  by (induction ps arbitrary: k m) (auto simp: bt_get_insert)

lemma position_parameters_get:
  assumes "distinct (map ps_reference ps)" and "i < length ps"
  shows "bt_get (position_parameters k ps m) (ps_reference (ps ! i)) = Some (k + i + 1)"
  using assms
proof (induction ps arbitrary: k m i)
  case (Cons p ps)
  then show ?case
    using position_parameters_other[of "ps_reference p" ps "Suc k" "bt_insert (ps_reference p) (Suc k) m"]
    by (cases i) (simp_all add: bt_get_insert)
qed simp

lemma find_distinct_reference:
  assumes "distinct (map ps_reference ps)" and "i < length ps"
  shows "List.find (\<lambda>s. ps_reference s = ps_reference (ps ! i)) ps = Some (ps ! i)"
  using assms by (induction ps arbitrary: i) (auto simp: nth_Cons split: nat.split)

text \<open>The renderer of a bound query: the ordered parameters are the bindings in order.\<close>

lemma ordered_parameters_bound:
  assumes "bind_and_validate blake3_hex parsed catalog parameters = Inr q"
  shows "ordered_parameters q = map pb_schema (bq_parameters q)"
    and "distinct (map ps_reference (ordered_parameters q))"
proof -
  have sorted: "sorted_wrt (<) (map ps_reference (map pb_schema (bq_parameters q)))"
    using bind_and_validate_parameters(2)[OF assms] by simp
  then have "sorted (map ps_reference (map pb_schema (bq_parameters q)))"
    by (rule strict_sorted_imp_sorted)
  then show eq: "ordered_parameters q = map pb_schema (bq_parameters q)"
    unfolding ordered_parameters_def by (rule sort_key_id_if_sorted)
  show "distinct (map ps_reference (ordered_parameters q))"
    unfolding eq using sorted by (simp add: strict_sorted_iff)
qed

lemma render_parameter_at:
  assumes "distinct (map ps_reference ps)" and "i < length ps"
  shows "parameter_schema (SqlRenderer_new backend catalog ps) (ps_reference (ps ! i)) = Inr (ps ! i)"
    and "render_parameter (SqlRenderer_new Postgres catalog ps) (ps_reference (ps ! i)) = Inr (''$'' @ nat_to_string (Suc i))"
    and "backend = Postgres \<or> expressible_type backend (ps_data_type (ps ! i)) \<Longrightarrow>
      succeeds (render_parameter (SqlRenderer_new backend catalog ps) (ps_reference (ps ! i)))"
proof -
  show schema: "parameter_schema (SqlRenderer_new backend catalog ps) (ps_reference (ps ! i)) = Inr (ps ! i)" for backend
    by (simp add: parameter_schema_def SqlRenderer_new_def find_distinct_reference[OF assms])
  have position: "bt_get (sr_parameter_positions (SqlRenderer_new backend catalog ps)) (ps_reference (ps ! i)) = Some (Suc i)" for backend
    using position_parameters_get[OF assms, of 0 "[]"] by (simp add: SqlRenderer_new_def)
  show "render_parameter (SqlRenderer_new Postgres catalog ps) (ps_reference (ps ! i)) = Inr (''$'' @ nat_to_string (Suc i))"
    by (simp add: render_parameter_def schema position) (simp add: SqlRenderer_new_def)
  show "succeeds (render_parameter (SqlRenderer_new backend catalog ps) (ps_reference (ps ! i)))"
    if "backend = Postgres \<or> expressible_type backend (ps_data_type (ps ! i))"
    using that by (cases backend) (auto simp: render_parameter_def schema position, auto simp: SqlRenderer_new_def intro!: fails_only_bind)
qed

text \<open>A renderer writes the parameter nodes of a plan as the placeholders of their positions.\<close>

fun writes_position :: "SqlRenderer \<Rightarrow> ParameterSchema list \<Rightarrow> BoundNode \<Rightarrow> bool" where
  "writes_position r ps (ExprNode (BoundExpr (BoundExprKind.Parameter p) data_type nullable node)) \<longleftrightarrow>
     list_ex (\<lambda>(i, schema). ps_reference schema = p \<and>
       render_parameter r p = Inr (''$'' @ nat_to_string (Suc i))) (enumerate 0 ps)"
| "writes_position r ps _ \<longleftrightarrow> True"

text \<open>
  C10. The placeholders of a PostgreSQL statement refer to the right values. The artifact of a bound query lists the
  schemas of the query's bindings in order, and its text is the rendering of the plan by a renderer that writes
  every parameter of the plan as \<open>$\<close>\<open>i + 1\<close>, where \<open>i\<close> is the index of that parameter in the list.
\<close>

theorem emitted_parameter_positions:
  assumes "bind_and_validate blake3_hex parsed catalog parameters = Inr q"
    and "emit_sql_artifact q catalog' Postgres = Inr artifact"
  shows "sa_parameters artifact = map pb_schema (bq_parameters q) \<and>
    (\<exists>r. render_query r (bq_plan q) (pq_explain (bq_parsed q)) = Inr (sa_text artifact) \<and>
      plan_all (writes_position r (sa_parameters artifact)) (bq_plan q))"
proof
  note ps = ordered_parameters_bound[OF assms(1)]
  let ?r = "SqlRenderer_new Postgres catalog' (ordered_parameters q)"
  have artifact: "sa_parameters artifact = ordered_parameters q"
    "render_query ?r (bq_plan q) (pq_explain (bq_parsed q)) = Inr (sa_text artifact)"
    using assms(2) by (auto simp: emit_sql_artifact_def Let_def result_bind_Inr_iff)
  then show "sa_parameters artifact = map pb_schema (bq_parameters q)" using ps(1) by simp
  have "writes_position ?r (ordered_parameters q) n" if "node_bound (bq_parameters q) n" for n
  proof (cases "(?r, ordered_parameters q, n)" rule: writes_position.cases)
    case (1 r qs p data_type nullable node)
    with that obtain i where i: "i < length (bq_parameters q)" "ps_reference (pb_schema (bq_parameters q ! i)) = p"
      by (auto simp: list_ex_iff in_set_conv_nth)
    then have "render_parameter ?r p = Inr (''$'' @ nat_to_string (Suc i))"
      using render_parameter_at(2)[OF ps(2), of i catalog'] ps(1) by simp
    moreover have "i < length (ordered_parameters q)" "ordered_parameters q ! i = pb_schema (bq_parameters q ! i)"
      using i(1) by (simp_all add: ps(1))
    ultimately show ?thesis using i(2) 1
      by (auto simp: list_ex_iff in_set_enumerate_eq intro!: bexI[of _ "(i, pb_schema (bq_parameters q ! i))"])
  qed auto
  then have "plan_all (writes_position ?r (ordered_parameters q)) (bq_plan q)"
    by (rule all_nodes_mono(1)[OF bind_and_validate_parameters(1)[OF assms(1)]])
  with artifact show "\<exists>r. render_query r (bq_plan q) (pq_explain (bq_parsed q)) = Inr (sa_text artifact) \<and>
      plan_all (writes_position r (sa_parameters artifact)) (bq_plan q)" by metis
qed

text \<open>
  C7. Emission is total on expressible plans. If binding succeeded and every name in the plan is a valid
  identifier, every function has a mapping for the backend, every cast names a type of the backend, and, on
  ClickHouse, so does every parameter, then emission returns an artifact; it is labelled with the backend and
  carries the plan's result schema.
\<close>

theorem emit_total:
  assumes "bind_and_validate blake3_hex parsed catalog parameters = Inr q"
    and "plan_all (node_emittable backend catalog) (bq_plan q)"
    and "list_all (\<lambda>b. backend = Postgres \<or> expressible_type backend (ps_data_type (pb_schema b))) (bq_parameters q)"
  shows "\<exists>artifact. emit_sql_artifact q catalog backend = Inr artifact \<and>
    sa_dialect artifact = SqlBackend_name backend \<and> sa_result_schema artifact = bp_result_schema (bq_plan q)"
proof -
  obtain s where s: "plan_all (node_ok catalog s) (bq_plan q)" "\<not> has_error s" "bq_result_schema q = bp_result_schema (bq_plan q)"
    by (rule bind_and_validate_Inr[OF assms(1)]) (auto simp: has_error_def)
  note bound = bind_and_validate_parameters(1)[OF assms(1)] and ps = ordered_parameters_bound[OF assms(1)]
  let ?r = "SqlRenderer_new backend catalog (ordered_parameters q)"
  have "node_fails (\<lambda>_. False) ?r n"
    if "node_ok catalog s n" "node_emittable backend catalog n" "node_bound (bq_parameters q) n" for n
  proof (rule emittable_node_succeeds)
    show "node_supported n" using that(1) s(2) by (simp add: node_ok_def)
    show "node_emittable (sr_backend ?r) (sr_catalog ?r) n" using that(2) by (simp add: SqlRenderer_new_def)
    fix p data_type nullable node
    assume "n = ExprNode (BoundExpr (BoundExprKind.Parameter p) data_type nullable node)"
    with that(3) obtain i where "i < length (bq_parameters q)" "ps_reference (pb_schema (bq_parameters q ! i)) = p"
      by (auto simp: list_ex_iff in_set_conv_nth)
    with ps assms(3) render_parameter_at(1,3)[of "ordered_parameters q" i backend catalog]
    show "succeeds (parameter_schema ?r p) \<and> succeeds (render_parameter ?r p)"
      by (auto simp: list_all_length)
  qed
  then have "plan_all (node_fails (\<lambda>_. False) ?r) (bq_plan q)"
    by (rule all_nodes_mono(1)[OF all_nodes_conj(1)[OF s(1) all_nodes_conj(1)[OF assms(2) bound]]]) blast+
  then have "succeeds (render_query_inner ?r (bq_plan q))" by (rule render_fails_only(1))
  then show ?thesis
    using s(3) by (auto simp: fails_never emit_sql_artifact_def render_query_def prefixed_def Let_def)
qed

definition example_bound :: BoundQuery where
  "example_bound = projr (example_binding (ParameterValue.Uuid ''u''))"

theorem emit_total_witness:
  "\<exists>artifact. emit_sql_artifact example_bound example_catalog Postgres = Inr artifact \<and>
     sa_dialect artifact = ''postgres'' \<and> sa_result_schema artifact = bp_result_schema (bq_plan example_bound)"
proof -
  have "plan_all (node_emittable Postgres example_catalog) (bq_plan example_bound)"
    by code_simp (simp add: is_identifier_def is_qualified_name_def)
  then show ?thesis
    using emit_total[OF example_binds, of Postgres] by (simp add: example_bound_def list_all_iff)
qed

theorem emitted_parameter_positions_witness:
  "\<exists>artifact. emit_sql_artifact example_bound example_catalog Postgres = Inr artifact \<and>
     sa_parameters artifact = map pb_schema (bq_parameters example_bound) \<and>
     (\<exists>r. render_query r (bq_plan example_bound) (pq_explain (bq_parsed example_bound)) = Inr (sa_text artifact) \<and>
       plan_all (writes_position r (sa_parameters artifact)) (bq_plan example_bound))"
proof -
  have "\<not> isl (emit_sql_artifact example_bound example_catalog Postgres)" by code_simp
  then obtain artifact where artifact: "emit_sql_artifact example_bound example_catalog Postgres = Inr artifact"
    by (cases "emit_sql_artifact example_bound example_catalog Postgres") simp_all
  with emitted_parameter_positions[OF example_binds, folded example_bound_def, OF artifact] show ?thesis by blast
qed

section \<open>Text that does not determine the plan\<close>

definition example_expr :: "(BoundExpr, BoundQueryPlan) BoundExprKind \<Rightarrow> BoundExpr" where
  "example_expr kind = BoundExpr kind DataType.Boolean False example_node"

definition example_column :: BoundExpr where
  "example_column = example_expr (BoundExprKind.Column (BoundColumnRef None ''a''))"

definition example_renderer :: SqlRenderer where
  "example_renderer = SqlRenderer_new Postgres example_catalog []"

text \<open>
  Only binary operators are parenthesised. \<^verbatim>\<open>NOT (a IS NULL)\<close> and \<^verbatim>\<open>(NOT a) IS NULL\<close>, two expressions with
  different values, are written as the same text; and a double negation is written as the start of an SQL
  comment.
\<close>

theorem rendered_text_ambiguous:
  "render_expr example_renderer
     (example_expr (BoundExprKind.Unary Not (example_expr (BoundExprKind.IsNull example_column False)))) =
     Inr ''NOT a IS NULL'' \<and>
   render_expr example_renderer
     (example_expr (BoundExprKind.IsNull (example_expr (BoundExprKind.Unary Not example_column)) False)) =
     Inr ''NOT a IS NULL'' \<and>
   render_expr example_renderer
     (example_expr (BoundExprKind.Unary Minus (example_expr (BoundExprKind.Unary Minus example_column)))) =
     Inr ''--a''"
  by (intro conjI; code_simp)

section \<open>Backend analysis\<close>

record BackendAnalysis =
  ba_supported :: bool
  ba_diagnostics :: "QueryDiagnostic list"
  ba_estimated_cost_class :: EstimatedCostClass
  ba_result_schema :: ResultSchema
  ba_provenance :: ProvenanceReceipt

definition BackendAnalysis_errors :: "BackendAnalysis \<Rightarrow> QueryDiagnostic list" where
  "BackendAnalysis_errors a = filter (\<lambda>d. qd_severity d = DiagnosticSeverity.Error) (ba_diagnostics a)"

definition BackendAnalysis_warnings :: "BackendAnalysis \<Rightarrow> QueryDiagnostic list" where
  "BackendAnalysis_warnings a = filter (\<lambda>d. qd_severity d = DiagnosticSeverity.Warning) (ba_diagnostics a)"

definition backend_error :: "string \<Rightarrow> string \<Rightarrow> string \<Rightarrow> QueryDiagnostic" where
  "backend_error backend number message =
     QF_Types.with_backend backend (QueryDiagnostic_error (''QF'' @ backend_code backend @ number) message)"

definition clause_diagnostics :: "PlanFeatures \<Rightarrow> string \<Rightarrow> bool \<Rightarrow> QueryDiagnostic list" where
  "clause_diagnostics features backend allow_clickhouse_clauses =
     (if has_clickhouse_settings features \<and> \<not> allow_clickhouse_clauses
      then [backend_error backend ''101'' ''ClickHouse SETTINGS are not supported on this backend.''] else []) @
     (if has_clickhouse_format features \<and> \<not> allow_clickhouse_clauses
      then [backend_error backend ''102'' ''ClickHouse FORMAT is not supported on this backend.''] else [])"

definition function_diagnostics :: "Catalog \<Rightarrow> string \<Rightarrow> CapabilitySet \<Rightarrow> FunctionRef \<Rightarrow> QueryDiagnostic list" where
  "function_diagnostics catalog backend capabilities function =
     (case cat_resolve_function catalog (fr_namespace function) (fr_name function) of
        None \<Rightarrow>
          [backend_error backend ''103''
             (''Function `'' @ FunctionRef_display_name function @ ''` is not registered in the catalog.'')]
      | Some signature \<Rightarrow>
          (if backend_mapping signature backend = None
           then [backend_error backend ''104''
             (''Function `'' @ FunctionRef_display_name function @ ''` has no `'' @ backend @ ''` backend mapping.'')]
           else []) @
          (if \<not> supports capabilities BackendFeature.ApproximateAggregates \<and> metadata_flag signature ''approximate''
           then [backend_error backend ''105''
             (''Approximate aggregate `'' @ FunctionRef_display_name function @ ''` is not in the verified `'' @ backend @ ''` subset.'')]
           else []) @
          (if \<not> supports capabilities BackendFeature.NamespacedFunctions \<and> fr_namespace function \<noteq> None
           then [backend_error backend ''106''
             (''Namespaced function `'' @ FunctionRef_display_name function @ ''` is not in the verified `'' @ backend @ ''` subset.'')]
           else []))"

definition analysis_cost_class :: "CapabilityRequirement list \<Rightarrow> EstimatedCostClass" where
  "analysis_cost_class required =
     (if CapabilityRequirement.Windows \<in> set required \<or> CapabilityRequirement.Joins \<in> set required then EstimatedCostClass.High
      else if CapabilityRequirement.SetOperations \<in> set required \<or>
              CapabilityRequirement.CommonTableExpressions \<in> set required then EstimatedCostClass.Medium
      else EstimatedCostClass.Low)"

definition analyze_backend_support ::
  "BoundQuery \<Rightarrow> Catalog \<Rightarrow> string \<Rightarrow> CapabilitySet \<Rightarrow> bool \<Rightarrow> BackendAnalysis" where
  "analyze_backend_support query catalog backend capabilities allow_clickhouse_clauses =
     (let features = plan_features_from_bound catalog (bq_plan query);
          diagnostics = bq_diagnostics query @ clause_diagnostics features backend allow_clickhouse_clauses @
            concat (map (function_diagnostics catalog backend capabilities) (pf_functions features))
      in \<lparr>ba_supported = \<not> list_ex is_error diagnostics, ba_diagnostics = diagnostics,
          ba_estimated_cost_class = analysis_cost_class (cr_required (bq_capability_requirements query)),
          ba_result_schema = bq_result_schema query,
          ba_provenance = receipt_with_capability_decision (backend @ '':checked'')
            (receipt_with_backend backend (bq_provenance query))\<rparr>)"

section \<open>The PostgreSQL adapter\<close>

definition Postgres_capabilities :: CapabilitySet where
  "Postgres_capabilities =
     with_federated_execution False (with_async_export False
       (with_result_formats [ResultDeliveryFormat.Csv, ResultDeliveryFormat.Json]
         (with_limits
           \<lparr>bl_max_rows = None, bl_max_bytes_scanned = None, bl_max_result_bytes = None,
            bl_max_concurrent_queries = None, bl_interactive_byte_limit = 128 * 1024 * 1024,
            bl_batch_byte_limit = 4 * 1024 * 1024 * 1024\<rparr>
           (from_features
             [BackendFeature.CommonTableExpressions, BackendFeature.DerivedTables, BackendFeature.Joins,
              BackendFeature.Windows, BackendFeature.SetOperations, BackendFeature.Aggregates,
              BackendFeature.DistinctAggregates, BackendFeature.ScalarSubqueries, BackendFeature.InSubqueries,
              BackendFeature.Explain, BackendFeature.LimitOffset]))))"

definition Postgres_analyze :: "BoundQuery \<Rightarrow> Catalog \<Rightarrow> BackendAnalysis" where
  "Postgres_analyze query catalog =
     analyze_backend_support query catalog ''postgres'' Postgres_capabilities False"

definition diagnostic_summary :: "QueryDiagnostic list \<Rightarrow> string" where
  "diagnostic_summary diagnostics = join_with ''; '' (map qd_message diagnostics)"

definition Postgres_emit :: "BoundQuery \<Rightarrow> Catalog \<Rightarrow> EmitArtifact result" where
  "Postgres_emit query catalog =
     (let analysis = Postgres_analyze query catalog
      in if \<not> ba_supported analysis
         then Inl (unsupported ''postgres-emission'' (diagnostic_summary (ba_diagnostics analysis)))
         else result_bind (emit_sql_artifact query catalog Postgres) (\<lambda>sql. Inr (Sql sql)))"

text \<open>The functions a statement may use on PostgreSQL.\<close>

definition postgres_function :: "Catalog \<Rightarrow> FunctionRef \<Rightarrow> bool" where
  "postgres_function catalog f \<longleftrightarrow>
     fr_namespace f = None \<and>
     (case cat_resolve_function catalog None (fr_name f) of
        Some signature \<Rightarrow> backend_mapping signature ''postgres'' \<noteq> None \<and> \<not> metadata_flag signature ''approximate''
      | None \<Rightarrow> False)"

lemma is_error_backend_error [simp]: "is_error (backend_error backend number message)"
  by (simp add: backend_error_def)

lemma postgres_unsupported:
  "\<not> supports Postgres_capabilities BackendFeature.ApproximateAggregates"
  "\<not> supports Postgres_capabilities BackendFeature.NamespacedFunctions"
  by code_simp+

lemma function_diagnostics_postgres:
  "list_ex is_error (function_diagnostics catalog ''postgres'' Postgres_capabilities f) \<longleftrightarrow> \<not> postgres_function catalog f"
  by (auto simp: function_diagnostics_def postgres_function_def postgres_unsupported split: option.split)

text \<open>
  What the PostgreSQL adapter accepts. It emits a statement exactly for queries with no error diagnostic,
  no ClickHouse clause and only functions of the portable subset (not namespaced, registered, mapped and exact)
  whose plan can be rendered; every other query is refused, and a query refused by the analysis is reported with
  the messages of all its diagnostics.
\<close>

theorem postgres_emit_iff:
  "(let features = plan_features_from_bound catalog (bq_plan query);
        portable = (\<not> list_ex is_error (bq_diagnostics query) \<and> \<not> has_clickhouse_settings features \<and>
          \<not> has_clickhouse_format features \<and> list_all (postgres_function catalog) (pf_functions features))
    in Postgres_emit query catalog =
      (if portable then map_sum id Sql (emit_sql_artifact query catalog Postgres)
       else Inl (UnsupportedFeature ''postgres-emission'' (diagnostic_summary (ba_diagnostics (Postgres_analyze query catalog))))))"
proof -
  let ?features = "plan_features_from_bound catalog (bq_plan query)"
  have "list_ex is_error (concat (map (function_diagnostics catalog ''postgres'' Postgres_capabilities) fs)) \<longleftrightarrow>
      \<not> list_all (postgres_function catalog) fs" for fs
    by (induction fs) (simp_all add: function_diagnostics_postgres)
  then have "ba_supported (Postgres_analyze query catalog) \<longleftrightarrow>
      \<not> list_ex is_error (bq_diagnostics query) \<and> \<not> has_clickhouse_settings ?features \<and>
      \<not> has_clickhouse_format ?features \<and> list_all (postgres_function catalog) (pf_functions ?features)"
    by (auto simp: Postgres_analyze_def analyze_backend_support_def Let_def clause_diagnostics_def)
  moreover have "result_bind m (\<lambda>sql. Inr (Sql sql)) = map_sum id Sql m" for m :: "SqlArtifact result"
    by (cases m) simp_all
  ultimately show ?thesis by (simp add: Postgres_emit_def Let_def unsupported_def)
qed

end
