(* ===== verification/QF_Federation.thy ===== *)
theory QF_Federation
  imports QF_Emit
begin

text \<open>
  Scatter-gather planning: \<^verbatim>\<open>crates/queryfabric-opt/src/federation/\<close>, with the pass pipeline of
  \<^verbatim>\<open>crates/queryfabric-opt/src/lib.rs\<close> and the worker sizing of \<^verbatim>\<open>jobs.rs\<close>. A federated query runs a scatter
  statement on every node and a gather statement over the collected partial results; aggregates are split
  into node-local partials and their merge.
\<close>

section \<open>Adapters and errors\<close>

record BackendAdapter =
  ad_name :: string
  ad_capabilities :: CapabilitySet
  ad_analyze :: "BoundQuery \<Rightarrow> Catalog \<Rightarrow> BackendAnalysis"
  ad_emit :: "BoundQuery \<Rightarrow> Catalog \<Rightarrow> EmitArtifact result"

definition PostgresAdapter :: BackendAdapter where
  "PostgresAdapter =
     \<lparr>ad_name = ''postgres'', ad_capabilities = Postgres_capabilities, ad_analyze = Postgres_analyze,
      ad_emit = Postgres_emit\<rparr>"

datatype FederationError = Unsupported string | Compile QueryFabricError

type_synonym 'a federated = "FederationError + 'a"

definition lift_compile :: "'a result \<Rightarrow> 'a federated" where
  "lift_compile r = map_sum Compile id r"

definition PARTIALS_PLACEHOLDER :: string where
  "PARTIALS_PLACEHOLDER = ''{partials}''"

definition PARTIALS_RELATION :: string where
  "PARTIALS_RELATION = ''partials''"

record ScatterGatherPlan =
  sg_scatter_sql :: string
  sg_gather_sql :: string
  sg_from_target :: string
  sg_result_schema :: ResultSchema

definition passthrough_gather_sql :: string where
  "passthrough_gather_sql = ''SELECT * FROM ('' @ PARTIALS_PLACEHOLDER @ '')''"

section \<open>Relations\<close>

definition top_level_select :: "BoundQuery \<Rightarrow> (BoundExpr, BoundRelation) BoundSelect federated" where
  "top_level_select bound =
     ok_or (FederationError.Unsupported ''distributed execution requires a single SELECT'')
       (BoundSetExpr_as_select (bp_body (bq_plan bound)))"

definition primary_relation_binding :: "BoundQuery \<Rightarrow> BoundRelationBinding federated" where
  "primary_relation_binding bound =
     result_bind (top_level_select bound) (\<lambda>select.
     case bsel_from select of
       [table] \<Rightarrow>
         if btj_joins table \<noteq> [] then Inl (FederationError.Unsupported ''distributed execution does not support JOIN'')
         else (case btj_relation table of
             BoundRelation.Table binding _ \<Rightarrow> Inr binding
           | _ \<Rightarrow> Inl (FederationError.Unsupported ''distributed execution requires a base table relation''))
     | _ \<Rightarrow> Inl (FederationError.Unsupported ''distributed execution requires a single FROM relation''))"

definition unsupported_shapes :: "PlanFeatures \<Rightarrow> string list" where
  "unsupported_shapes features =
     (if has_ctes features then [''WITH (CTE)''] else []) @
     (if has_derived_tables features then [''FROM subquery''] else []) @
     (if has_joins features then [''JOIN''] else []) @
     (if has_windows features then [''window functions''] else []) @
     (if has_set_operations features then [''set operations''] else []) @
     (if has_scalar_subqueries features then [''scalar subqueries''] else []) @
     (if has_in_subqueries features then [''WHERE ... IN (SELECT ...)''] else []) @
     (if has_clickhouse_settings features then [''SETTINGS''] else []) @
     (if has_clickhouse_format features then [''FORMAT''] else [])"

definition validate_federation_shape :: "PlanFeatures \<Rightarrow> BoundQuery \<Rightarrow> unit federated" where
  "validate_federation_shape features bound =
     (if unsupported_shapes features \<noteq> []
      then Inl (FederationError.Unsupported
        (''distributed execution does not support '' @ join_with '', '' (unsupported_shapes features)))
      else result_bind (primary_relation_binding bound) (\<lambda>binding.
        if rb_relation_name binding = None
        then Inl (FederationError.Unsupported ''distributed execution requires a primary base relation'')
        else Inr ()))"

definition from_target :: "BoundRelationBinding \<Rightarrow> string federated" where
  "from_target binding =
     ok_or (FederationError.Unsupported ''distributed execution requires a named base relation'')
       (map_option NameRef_display_name (rb_relation_name binding))"

definition federation_render_relation :: "BoundRelationBinding \<Rightarrow> string" where
  "federation_render_relation binding =
     (case rb_relation_name binding of
        Some name \<Rightarrow>
          NameRef_display_name name @
          (if eq_ignore_ascii_case (nr_name name) (rb_binding_name binding) then [] else '' AS '' @ rb_binding_name binding)
      | None \<Rightarrow> rb_binding_name binding)"

text \<open>\<^verbatim>\<open>str::replacen\<close> of the first occurrence of a pattern; nothing when it does not occur.\<close>

fun replace_first :: "string \<Rightarrow> string \<Rightarrow> string \<Rightarrow> string option" where
  "replace_first pat new [] = (if pat = [] then Some new else None)"
| "replace_first pat new (c # s) =
     (if take (length pat) (c # s) = pat then Some (new @ drop (length pat) (c # s))
      else map_option ((#) c) (replace_first pat new s))"

definition wrap_relation_source :: "string \<Rightarrow> BoundRelationBinding \<Rightarrow> string \<Rightarrow> string federated" where
  "wrap_relation_source sql binding replacement =
     (let target = ''FROM '' @ federation_render_relation binding
      in ok_or (FederationError.Unsupported
           (''could not identify distributed source relation in emitted SQL: expected `'' @ target @ ''`''))
         (replace_first target (''FROM '' @ replacement) sql))"

definition wrap_query_over_partials :: "string \<Rightarrow> BoundRelationBinding \<Rightarrow> string federated" where
  "wrap_query_over_partials sql binding =
     wrap_relation_source sql binding (''('' @ PARTIALS_PLACEHOLDER @ '') AS '' @ rb_binding_name binding)"

definition wrap_placeholder_relation :: "string \<Rightarrow> BoundRelationBinding \<Rightarrow> string federated" where
  "wrap_placeholder_relation sql binding =
     wrap_relation_source sql binding (''('' @ PARTIALS_PLACEHOLDER @ '') AS '' @ rb_binding_name binding)"

section \<open>Aggregates\<close>

record AggregateRewrite =
  ar_scatter_projection :: "BoundExpr BoundProjectionItem list"
  ar_gather_projection :: "BoundExpr BoundProjectionItem"

definition column_expr :: "string \<Rightarrow> DataType \<Rightarrow> bool \<Rightarrow> SyntaxNode \<Rightarrow> BoundExpr" where
  "column_expr name data_type nullable node =
     BoundExpr (BoundExprKind.Column (BoundColumnRef None name)) data_type nullable node"

definition column_projection :: "string \<Rightarrow> ResultField \<Rightarrow> SyntaxNode \<Rightarrow> BoundExpr BoundProjectionItem" where
  "column_projection name field node =
     BoundProjectionItem_expr (column_expr name (rf_data_type field) (rf_nullable field) node) None field node"

text \<open>A call of an aggregate with one argument, as the planner builds it.\<close>

definition aggregate_call :: "string \<Rightarrow> BoundExpr \<Rightarrow> DataType \<Rightarrow> bool \<Rightarrow> SyntaxNode \<Rightarrow> BoundExpr" where
  "aggregate_call name arg data_type nullable node =
     BoundExpr (BoundExprKind.Function (BoundFunctionCall (FunctionRef None name) None [arg] False None None None))
       data_type nullable node"

definition simple_expr_name :: "BoundExpr \<Rightarrow> string option" where
  "simple_expr_name e =
     (case bx_kind e of
        BoundExprKind.Column column \<Rightarrow> Some (bcr_name column)
      | BoundExprKind.Literal _ \<Rightarrow> Some ''literal''
      | _ \<Rightarrow> None)"

definition auto_aggregate_alias :: "BoundExpr BoundFunctionCall \<Rightarrow> nat \<Rightarrow> string" where
  "auto_aggregate_alias f index =
     to_ascii_lowercase (fr_name (bf_function f)) @ ''_'' @
     (case bf_args f of
        arg # _ \<Rightarrow> (case simple_expr_name arg of Some name \<Rightarrow> name | None \<Rightarrow> ''value'')
      | [] \<Rightarrow> ''value'') @ ''_'' @ nat_to_string index"

definition projection_output_name :: "BoundExpr BoundProjectionExpr \<Rightarrow> string option" where
  "projection_output_name details =
     (case bpe_alias details of Some a \<Rightarrow> Some a | None \<Rightarrow> simple_expr_name (bpe_expr details))"

definition field_for_projection :: "BoundExpr BoundProjectionItem \<Rightarrow> ResultField federated" where
  "field_for_projection item =
     (case item of
        BoundProjectionItem.Expr details \<Rightarrow> Inr (bpe_field details)
      | _ \<Rightarrow> Inl (FederationError.Unsupported ''federation aggregate planning requires expression projections''))"

text \<open>SUM, MIN and MAX merge with themselves.\<close>

definition rewrite_self_merging :: "string \<Rightarrow> string \<Rightarrow> BoundExpr BoundProjectionExpr \<Rightarrow> nat \<Rightarrow> AggregateRewrite" where
  "rewrite_self_merging function_name user_alias details index =
     (let node = bpe_node details; field = bpe_field details;
          scatter_alias = ''__fed_'' @ user_alias @ ''_'' @ nat_to_string index;
          scatter_field = ResultField_new scatter_alias (rf_data_type field) (rf_nullable field)
      in \<lparr>ar_scatter_projection = [BoundProjectionItem_expr (bpe_expr details) (Some scatter_alias) scatter_field node],
          ar_gather_projection =
            BoundProjectionItem_expr
              (aggregate_call function_name
                (column_expr scatter_alias (rf_data_type scatter_field) (rf_nullable scatter_field) node)
                (rf_data_type field) (rf_nullable field) node)
              (Some user_alias) field node\<rparr>)"

text \<open>Node-local counts merge with SUM.\<close>

definition rewrite_count :: "string \<Rightarrow> BoundExpr BoundProjectionExpr \<Rightarrow> nat \<Rightarrow> AggregateRewrite" where
  "rewrite_count user_alias details index =
     (let node = bpe_node details; field = bpe_field details;
          scatter_alias = ''__fed_'' @ user_alias @ ''_'' @ nat_to_string index;
          scatter_field = ResultField_new scatter_alias DataType.Int64 False
      in \<lparr>ar_scatter_projection = [BoundProjectionItem_expr (bpe_expr details) (Some scatter_alias) scatter_field node],
          ar_gather_projection =
            BoundProjectionItem_expr
              (aggregate_call ''sum''
                (column_expr scatter_alias (rf_data_type scatter_field) (rf_nullable scatter_field) node)
                (rf_data_type field) (rf_nullable field) node)
              (Some user_alias) field node\<rparr>)"

text \<open>AVG is split into a sum and a count.\<close>

definition rewrite_avg :: "BoundExpr \<Rightarrow> string \<Rightarrow> BoundExpr BoundProjectionExpr \<Rightarrow> nat \<Rightarrow> AggregateRewrite" where
  "rewrite_avg arg user_alias details index =
     (let node = bpe_node details; field = bpe_field details;
          sum_alias = ''__fed_'' @ user_alias @ ''_sum_'' @ nat_to_string index;
          cnt_alias = ''__fed_'' @ user_alias @ ''_cnt_'' @ nat_to_string index
      in \<lparr>ar_scatter_projection =
            [BoundProjectionItem_expr (aggregate_call ''sum'' arg DataType.Float64 True node) (Some sum_alias)
               (ResultField_new sum_alias DataType.Float64 True) node,
             BoundProjectionItem_expr (aggregate_call ''count'' arg DataType.Int64 False node) (Some cnt_alias)
               (ResultField_new cnt_alias DataType.Int64 False) node],
          ar_gather_projection =
            BoundProjectionItem_expr
              (BoundExpr
                (BoundExprKind.Binary BinaryOperator.Divide
                  (aggregate_call ''sum'' (column_expr sum_alias DataType.Float64 True node) DataType.Float64 True node)
                  (aggregate_call ''sum'' (column_expr cnt_alias DataType.Int64 False node) DataType.Float64 True node))
                (rf_data_type field) (rf_nullable field) node)
              (Some user_alias) field node\<rparr>)"

definition classify_supported_aggregate ::
  "BoundExpr BoundProjectionExpr \<Rightarrow> nat \<Rightarrow> AggregateRewrite option federated" where
  "classify_supported_aggregate details index =
     (case bx_kind (bpe_expr details) of
        BoundExprKind.Function f \<Rightarrow>
          if bf_over f \<noteq> None \<or> bf_filter f \<noteq> None \<or> bf_distinct f
          then Inl (FederationError.Unsupported
            ''federation aggregate planning does not support DISTINCT, FILTER, or windowed aggregates'')
          else (let function_name = to_ascii_lowercase (fr_name (bf_function f));
                    user_alias = (case bpe_alias details of Some a \<Rightarrow> a | None \<Rightarrow> auto_aggregate_alias f index)
            in if function_name \<in> set [''sum'', ''min'', ''max'']
               then Inr (Some (rewrite_self_merging function_name user_alias details index))
               else if function_name = ''count'' then Inr (Some (rewrite_count user_alias details index))
               else if function_name = ''avg''
               then (case bf_args f of
                   arg # _ \<Rightarrow> Inr (Some (rewrite_avg arg user_alias details index))
                 | [] \<Rightarrow> Inl (FederationError.Unsupported ''AVG federation decomposition requires a single argument''))
               else Inl (FederationError.Unsupported
                 (''federation aggregate planning does not support `'' @ FunctionRef_display_name (bf_function f) @ ''`'')))
      | _ \<Rightarrow> Inr None)"

definition aggregate_names :: "string list" where
  "aggregate_names = [''count'', ''sum'', ''avg'', ''min'', ''max'', ''count_distinct'']"

fun any_option :: "('a \<Rightarrow> bool) \<Rightarrow> 'a option \<Rightarrow> bool" where
  "any_option f None = False"
| "any_option f (Some x) = f x"

lemma any_option_cong [fundef_cong]:
  "v = w \<Longrightarrow> (\<And>x. w = Some x \<Longrightarrow> f x = g x) \<Longrightarrow> any_option f v = any_option g w"
  by (cases w) auto

function expr_contains_aggregate :: "BoundExpr \<Rightarrow> bool" where
  "expr_contains_aggregate (BoundExpr kind data_type nullable node) =
     (case kind of
        BoundExprKind.Function f \<Rightarrow>
          to_ascii_lowercase (fr_name (bf_function f)) \<in> set aggregate_names \<or>
          list_ex expr_contains_aggregate (bf_args f) \<or> any_option expr_contains_aggregate (bf_filter f)
      | BoundExprKind.Unary op e \<Rightarrow> expr_contains_aggregate e
      | BoundExprKind.Cast e t \<Rightarrow> expr_contains_aggregate e
      | BoundExprKind.IsNull e negated \<Rightarrow> expr_contains_aggregate e
      | BoundExprKind.Binary op left right \<Rightarrow> expr_contains_aggregate left \<or> expr_contains_aggregate right
      | BoundExprKind.Case operand when_then else_result \<Rightarrow>
          any_option expr_contains_aggregate operand \<or>
          list_ex (\<lambda>branch. expr_contains_aggregate (bwt_condition branch) \<or> expr_contains_aggregate (bwt_result branch)) when_then \<or>
          any_option expr_contains_aggregate else_result
      | BoundExprKind.Between e low high negated \<Rightarrow>
          expr_contains_aggregate e \<or> expr_contains_aggregate low \<or> expr_contains_aggregate high
      | BoundExprKind.InList e items negated \<Rightarrow> expr_contains_aggregate e \<or> list_ex expr_contains_aggregate items
      | BoundExprKind.Like e pattern negated case_insensitive \<Rightarrow> expr_contains_aggregate e \<or> expr_contains_aggregate pattern
      | BoundExprKind.Tuple items \<Rightarrow> list_ex expr_contains_aggregate items
      | BoundExprKind.Array items \<Rightarrow> list_ex expr_contains_aggregate items
      | _ \<Rightarrow> False)"
  by pat_completeness auto
termination
  by (relation "measure size") (auto simp: size_bound_render_parts dest: render_size_dests)

section \<open>Plans\<close>

definition emit_sql :: "BackendAdapter \<Rightarrow> BoundQuery \<Rightarrow> Catalog \<Rightarrow> SqlArtifact federated" where
  "emit_sql adapter bound catalog =
     result_bind (lift_compile (ad_emit adapter bound catalog)) (\<lambda>artifact.
     ok_or (FederationError.Unsupported
         (''backend `'' @ ad_name adapter @ ''` did not produce a SQL artifact for distributed planning''))
       (EmitArtifact_as_sql artifact))"

definition strip_order_and_limit :: "BoundQueryPlan \<Rightarrow> BoundQueryPlan" where
  "strip_order_and_limit p =
     BoundQueryPlan (bp_node p) (bp_ctes p) (bp_body p) [] None None (bp_backend_clauses p) (bp_result_schema p)"

definition build_federated_passthrough_plan ::
  "BackendAdapter \<Rightarrow> Catalog \<Rightarrow> BoundQuery \<Rightarrow> SqlArtifact \<Rightarrow> ScatterGatherPlan federated" where
  "build_federated_passthrough_plan adapter catalog bound artifact =
     result_bind (primary_relation_binding bound) (\<lambda>base_relation.
     result_bind (from_target base_relation) (\<lambda>target.
     result_bind (emit_sql adapter (with_plan (strip_order_and_limit (bq_plan bound)) bound) catalog) (\<lambda>scatter_artifact.
     result_bind (wrap_query_over_partials (sa_text artifact) base_relation) (\<lambda>gather_sql.
     Inr \<lparr>sg_scatter_sql = sa_text scatter_artifact, sg_gather_sql = gather_sql, sg_from_target = target,
           sg_result_schema = sa_result_schema artifact\<rparr>))))"

text \<open>What one projection item contributes to the two stages.\<close>

record StagePart =
  sp_scatter :: "BoundExpr BoundProjectionItem list"
  sp_scatter_fields :: "ResultField list"
  sp_gather :: "BoundExpr BoundProjectionItem"
  sp_group_by :: "BoundExpr list"
  sp_is_aggregate :: bool

definition plan_projection_item :: "nat \<times> BoundExpr BoundProjectionItem \<Rightarrow> StagePart federated" where
  "plan_projection_item = (\<lambda>(index, item).
     result_bind (ok_or (FederationError.Unsupported
         ''federation aggregate planning requires explicit projection expressions'')
       (BoundProjectionItem_as_expr item)) (\<lambda>details.
     result_bind (classify_supported_aggregate details index) (\<lambda>rewrite.
     case rewrite of
       Some aggregate \<Rightarrow>
         result_bind (result_collect field_for_projection (ar_scatter_projection aggregate)) (\<lambda>scatter_fields.
         Inr \<lparr>sp_scatter = ar_scatter_projection aggregate, sp_scatter_fields = scatter_fields,
               sp_gather = ar_gather_projection aggregate, sp_group_by = [], sp_is_aggregate = True\<rparr>)
     | None \<Rightarrow>
         if expr_contains_aggregate (bpe_expr details)
         then Inl (FederationError.Unsupported
           ''federation aggregate planning only supports top-level SUM/COUNT/AVG/MIN/MAX projections'')
         else result_bind (ok_or (FederationError.Unsupported
             ''federation aggregate planning requires aliases for computed non-aggregate projections'')
           (projection_output_name details)) (\<lambda>output_name.
         let field = bpe_field details; node = bpe_node details
         in Inr \<lparr>sp_scatter = [item], sp_scatter_fields = [field],
               sp_gather = column_projection output_name field node,
               sp_group_by = [column_expr output_name (rf_data_type field) (rf_nullable field) node],
               sp_is_aggregate = False\<rparr>))))"

definition scatter_select ::
  "(BoundExpr, BoundRelation) BoundSelect \<Rightarrow> StagePart list \<Rightarrow> (BoundExpr, BoundRelation) BoundSelect" where
  "scatter_select s parts =
     BoundSelect (bsel_distinct s) (concat (map sp_scatter parts)) (bsel_from s) (bsel_selection s) (bsel_group_by s)
       None (ResultSchema_new (concat (map sp_scatter_fields parts))) (bsel_node s)"

definition gather_select ::
  "(BoundExpr, BoundRelation) BoundSelect \<Rightarrow> StagePart list \<Rightarrow> BoundRelationBinding \<Rightarrow> ResultSchema \<Rightarrow>
     (BoundExpr, BoundRelation) BoundSelect" where
  "gather_select s parts placeholder_binding result_schema =
     BoundSelect False (map sp_gather parts)
       [BoundTableWithJoins (BoundRelation.Table placeholder_binding (bsel_node s)) [] (bsel_node s)]
       None (concat (map sp_group_by parts)) None result_schema (bsel_node s)"

definition with_body :: "BoundSetExpr \<Rightarrow> ResultSchema \<Rightarrow> BoundQueryPlan \<Rightarrow> BoundQueryPlan" where
  "with_body body schema p =
     BoundQueryPlan (bp_node p) (bp_ctes p) body (bp_order_by p) (bp_limit p) (bp_offset p) (bp_backend_clauses p) schema"

definition reject_if :: "bool \<Rightarrow> string \<Rightarrow> unit federated" where
  "reject_if b message = (if b then Inl (FederationError.Unsupported message) else Inr ())"

definition build_federated_aggregate_plan ::
  "BackendAdapter \<Rightarrow> Catalog \<Rightarrow> BoundQuery \<Rightarrow> SqlArtifact \<Rightarrow> ScatterGatherPlan federated" where
  "build_federated_aggregate_plan adapter catalog bound artifact =
     result_bind (top_level_select bound) (\<lambda>original.
     result_bind (reject_if (bsel_distinct original)
       ''federation aggregate planning does not support SELECT DISTINCT'') (\<lambda>_.
     result_bind (reject_if (bsel_having original \<noteq> None)
       ''federation aggregate planning does not yet support HAVING'') (\<lambda>_.
     result_bind (reject_if (bp_offset (bq_plan bound) \<noteq> None)
       ''federation aggregate planning does not yet support OFFSET'') (\<lambda>_.
     result_bind (primary_relation_binding bound) (\<lambda>base_relation.
     result_bind (from_target base_relation) (\<lambda>target.
     result_bind (result_collect plan_projection_item (enumerate 0 (bsel_projection original))) (\<lambda>parts.
     result_bind (reject_if (\<not> list_ex sp_is_aggregate parts)
       ''expected aggregate projections for federation aggregate planning'') (\<lambda>_.
     result_bind (reject_if (list_ex (\<lambda>k. expr_contains_aggregate (bo_expr k)) (bp_order_by (bq_plan bound)))
       ''federation aggregate ORDER BY must reference projected aliases, not aggregate expressions'') (\<lambda>_.
     let scatter = scatter_select original parts;
         scatter_plan = strip_order_and_limit
           (with_body (BoundSetExpr.Select scatter) (bsel_result_schema scatter) (bq_plan bound))
     in result_bind (emit_sql adapter (with_plan scatter_plan bound) catalog) (\<lambda>scatter_artifact.
     let placeholder_binding =
           \<lparr>rb_binding_name = rb_binding_name base_relation,
            rb_relation_name = Some (NameRef None PARTIALS_RELATION),
            rb_schema = sa_result_schema scatter_artifact\<rparr>;
         gather_plan = with_body
           (BoundSetExpr.Select (gather_select original parts placeholder_binding (sa_result_schema artifact)))
           (sa_result_schema artifact) (bq_plan bound)
     in result_bind (emit_sql adapter (with_plan gather_plan bound) catalog) (\<lambda>gather_artifact.
     result_bind (wrap_placeholder_relation (sa_text gather_artifact) placeholder_binding) (\<lambda>gather_sql.
     Inr \<lparr>sg_scatter_sql = sa_text scatter_artifact, sg_gather_sql = gather_sql, sg_from_target = target,
           sg_result_schema = sa_result_schema artifact\<rparr>))))))))))))"

definition build_scatter_gather_plan ::
  "BackendAdapter \<Rightarrow> Catalog \<Rightarrow> BoundQuery \<Rightarrow> PlanFeatures \<Rightarrow> SqlArtifact \<Rightarrow> ScatterGatherPlan federated" where
  "build_scatter_gather_plan adapter catalog bound features artifact =
     result_bind (validate_federation_shape features bound) (\<lambda>_.
     if has_aggregates features then build_federated_aggregate_plan adapter catalog bound artifact
     else build_federated_passthrough_plan adapter catalog bound artifact)"

section \<open>The pass pipeline\<close>

record OptimizationPass =
  op_name :: string
  op_apply :: "BoundQuery \<Rightarrow> Catalog \<Rightarrow> BoundQuery result"

definition IdentityPass :: OptimizationPass where
  "IdentityPass = \<lparr>op_name = ''identity'', op_apply = \<lambda>query catalog. Inr query\<rparr>"

type_synonym OptimizationPipeline = "OptimizationPass list"

definition with_pass :: "OptimizationPass \<Rightarrow> OptimizationPipeline \<Rightarrow> OptimizationPipeline" where
  "with_pass pass passes = passes @ [pass]"

record RewriteAdvisory =
  ra_code :: string
  ra_message :: string

definition pass_advisory :: "OptimizationPass \<Rightarrow> RewriteAdvisory" where
  "pass_advisory pass =
     \<lparr>ra_code = ''QFNORM:'' @ op_name pass,
      ra_message = ''Applied normalization pass `'' @ op_name pass @ ''`.''\<rparr>"

fun apply_passes :: "OptimizationPipeline \<Rightarrow> Catalog \<Rightarrow> BoundQuery \<Rightarrow> BoundQuery result" where
  "apply_passes [] catalog query = Inr query"
| "apply_passes (pass # passes) catalog query = result_bind (op_apply pass query catalog) (apply_passes passes catalog)"

definition normalize :: "OptimizationPipeline \<Rightarrow> BoundQuery \<Rightarrow> Catalog \<Rightarrow> BoundQuery result" where
  "normalize passes query catalog =
     result_bind (apply_passes passes catalog query) (\<lambda>query.
     let advisories = map pass_advisory passes
     in if advisories = [] then Inr query
        else Inr (with_diagnostics
          (bq_diagnostics query @ map (\<lambda>a. QueryDiagnostic_note (ra_code a) (ra_message a)) advisories) query))"

section \<open>Worker sizing\<close>

record EstimatedCost =
  ec_memory_bytes :: u64
  ec_rows_scanned :: u64
  ec_partitions_touched :: u32
  ec_wallclock_estimate_ms :: u64

definition MI :: u64 where
  "MI = 1024 * 1024"

definition div_ceil :: "u64 \<Rightarrow> u64 \<Rightarrow> u64" where
  "div_ceil a b = a div b + (if a mod b = 0 then 0 else 1)"

definition memory_mib :: "u64 \<Rightarrow> u64 \<Rightarrow> u64" where
  "memory_mib bytes floor_bytes = div_ceil (max bytes floor_bytes) MI"

definition memory_quantity :: "u64 \<Rightarrow> u64 \<Rightarrow> string" where
  "memory_quantity bytes floor_bytes = nat_to_string (unat (memory_mib bytes floor_bytes)) @ ''Mi''"

definition memory_quantity_from_estimate :: "EstimatedCost \<Rightarrow> u64 \<Rightarrow> string" where
  "memory_quantity_from_estimate estimated floor_bytes = memory_quantity (ec_memory_bytes estimated) floor_bytes"

text \<open>Durations in milliseconds.\<close>

definition timeout_from_estimate :: "EstimatedCost \<Rightarrow> nat \<Rightarrow> nat" where
  "timeout_from_estimate estimated floor_ms = max (unat (ec_wallclock_estimate_ms estimated)) floor_ms"

end
