(* ===== verification/QF_Federation_Sound.thy ===== *)
theory QF_Federation_Sound
  imports Complex_Main QF_Federation
begin

text \<open>
  Correctness of the aggregate decomposition: merging the partial aggregates of the nodes gives the aggregate
  over all their rows. The meaning of a select is standard SQL over exact numbers: NULL is \<open>None\<close>,
  aggregates skip NULLs, SUM, MIN, MAX and AVG of nothing are NULL. How an expression is evaluated on a row of
  the base table is a parameter.
\<close>

section \<open>SQL aggregates\<close>

type_synonym sql_value = "rat option"

definition non_null :: "sql_value list \<Rightarrow> rat list" where
  "non_null vs = List.map_filter id vs"

definition sql_sum :: "sql_value list \<Rightarrow> sql_value" where
  "sql_sum vs = (if non_null vs = [] then None else Some (sum_list (non_null vs)))"

definition sql_min :: "sql_value list \<Rightarrow> sql_value" where
  "sql_min vs = (if non_null vs = [] then None else Some (Min (set (non_null vs))))"

definition sql_max :: "sql_value list \<Rightarrow> sql_value" where
  "sql_max vs = (if non_null vs = [] then None else Some (Max (set (non_null vs))))"

definition sql_count :: "sql_value list \<Rightarrow> sql_value" where
  "sql_count vs = Some (of_nat (length (non_null vs)))"

definition sql_div :: "sql_value \<Rightarrow> sql_value \<Rightarrow> sql_value" where
  "sql_div a b =
     (case a of None \<Rightarrow> None | Some x \<Rightarrow> (case b of None \<Rightarrow> None | Some y \<Rightarrow> if y = 0 then None else Some (x / y)))"

lemma non_null_append [simp]: "non_null (xs @ ys) = non_null xs @ non_null ys"
  by (simp add: non_null_def List.map_filter_def)

lemma non_null_simps [simp]:
  "non_null [] = []" "non_null (None # vs) = non_null vs" "non_null (Some x # vs) = x # non_null vs"
  by (simp_all add: non_null_def List.map_filter_def)

lemma non_null_concat: "non_null (concat vss) = concat (map non_null vss)"
  by (induction vss) simp_all

text \<open>Merging partial aggregates.\<close>

lemma non_null_partial:
  "non_null (map (\<lambda>vs. if non_null vs = [] then None else Some (f vs)) vss) =
     map f (filter (\<lambda>vs. non_null vs \<noteq> []) vss)"
  by (induction vss) simp_all

lemma sum_list_skip: "sum_list (map (sum_list \<circ> non_null) (filter (\<lambda>vs. non_null vs \<noteq> []) vss)) = sum_list (concat (map non_null vss))"
  by (induction vss) simp_all

lemma sql_sum_merge: "sql_sum (map sql_sum vss) = sql_sum (concat vss)"
proof -
  have "non_null (map sql_sum vss) = map (sum_list \<circ> non_null) (filter (\<lambda>vs. non_null vs \<noteq> []) vss)"
    unfolding sql_sum_def using non_null_partial[of "\<lambda>vs. sum_list (non_null vs)" vss] by (simp add: comp_def)
  moreover have "filter (\<lambda>vs. non_null vs \<noteq> []) vss = [] \<longleftrightarrow> concat (map non_null vss) = []"
    by (induction vss) auto
  ultimately show ?thesis
    by (simp add: sql_sum_def[of "map sql_sum vss"] sql_sum_def[of "concat vss"] non_null_concat sum_list_skip)
qed

lemma sql_extremum_merge:
  fixes M :: "rat set \<Rightarrow> rat"
  assumes union: "\<And>A B. finite A \<Longrightarrow> A \<noteq> {} \<Longrightarrow> finite B \<Longrightarrow> B \<noteq> {} \<Longrightarrow> M (A \<union> B) = f (M A) (M B)"
    and insert: "\<And>x A. finite A \<Longrightarrow> A \<noteq> {} \<Longrightarrow> M (insert x A) = f x (M A)" and single: "\<And>x. M {x} = x"
  defines "agg \<equiv> \<lambda>vs. if non_null vs = [] then None else Some (M (set (non_null vs)))"
  shows "agg (map agg vss) = agg (concat vss)"
proof -
  have parts: "non_null (map agg vss) = map (\<lambda>vs. M (set (non_null vs))) (filter (\<lambda>vs. non_null vs \<noteq> []) vss)"
    unfolding agg_def by (rule non_null_partial)
  have empty: "filter (\<lambda>vs. non_null vs \<noteq> []) vss = [] \<longleftrightarrow> concat (map non_null vss) = []"
    by (induction vss) auto
  have "M (set (map (\<lambda>vs. M (set (non_null vs))) (filter (\<lambda>vs. non_null vs \<noteq> []) vss))) = M (set (concat (map non_null vss)))"
    if "concat (map non_null vss) \<noteq> []"
    using that
  proof (induction vss)
    case (Cons vs vss)
    show ?case
    proof (cases "concat (map non_null vss) = []")
      case True
      then have "filter (\<lambda>vs. non_null vs \<noteq> []) vss = []" by (induction vss) auto
      with True Cons.prems show ?thesis by (simp add: single)
    next
      case False
      then have ne: "filter (\<lambda>vs. non_null vs \<noteq> []) vss \<noteq> []" by (induction vss) auto
      show ?thesis
      proof (cases "non_null vs = []")
        case False
        have "(\<lambda>x. M (set (non_null x))) ` {x \<in> set vss. non_null x \<noteq> []} \<noteq> {}"
          using ne by (auto simp: filter_empty_conv)
        with False \<open>concat (map non_null vss) \<noteq> []\<close> Cons.IH show ?thesis
          by (simp add: insert union)
      qed (use False Cons.IH in simp)
    qed
  qed simp
  moreover have agg: "agg vs = (if non_null vs = [] then None else Some (M (set (non_null vs))))" for vs
    by (simp add: agg_def)
  ultimately show ?thesis
    using empty unfolding agg[of "map agg vss"] agg[of "concat vss"] parts non_null_concat by auto
qed

lemma sql_min_merge: "sql_min (map sql_min vss) = sql_min (concat vss)"
  using sql_extremum_merge[of Min min vss] unfolding sql_min_def[abs_def] by (simp add: Min_Un)

lemma sql_max_merge: "sql_max (map sql_max vss) = sql_max (concat vss)"
  using sql_extremum_merge[of Max max vss] unfolding sql_max_def[abs_def] by (simp add: Max_Un)

lemma sql_count_merge: "vss \<noteq> [] \<Longrightarrow> sql_sum (map sql_count vss) = sql_count (concat vss)"
proof -
  assume "vss \<noteq> []"
  have "non_null (map sql_count vss) = map (\<lambda>vs. of_nat (length (non_null vs))) vss" for vss
    by (induction vss) (simp_all add: sql_count_def)
  moreover have "sum_list (map (\<lambda>vs. of_nat (length (non_null vs))) vss) = (of_nat (length (non_null (concat vss))) :: rat)" for vss
    by (induction vss) simp_all
  ultimately show ?thesis using \<open>vss \<noteq> []\<close> by (simp add: sql_sum_def) (simp add: sql_count_def)
qed

section \<open>Selects\<close>

text \<open>An aggregate call over the rows of a group; COUNT without argument counts rows.\<close>

definition call_values :: "(BoundExpr \<Rightarrow> 'r \<Rightarrow> sql_value) \<Rightarrow> BoundExpr BoundFunctionCall \<Rightarrow> 'r list \<Rightarrow> sql_value list" where
  "call_values ev f rows = map (case bf_args f of arg # _ \<Rightarrow> ev arg | [] \<Rightarrow> (\<lambda>_. Some 1)) rows"

definition eval_call :: "(BoundExpr \<Rightarrow> 'r \<Rightarrow> sql_value) \<Rightarrow> BoundExpr BoundFunctionCall \<Rightarrow> 'r list \<Rightarrow> sql_value" where
  "eval_call ev f rows =
     (let name = to_ascii_lowercase (fr_name (bf_function f)); vs = call_values ev f rows
      in if name = ''sum'' then sql_sum vs else if name = ''min'' then sql_min vs
         else if name = ''max'' then sql_max vs else if name = ''count'' then sql_count vs
         else if name = ''avg'' then sql_div (sql_sum vs) (sql_count vs) else None)"

definition first_row :: "('r \<Rightarrow> sql_value) \<Rightarrow> 'r list \<Rightarrow> sql_value" where
  "first_row f rows = (case rows of r # _ \<Rightarrow> f r | [] \<Rightarrow> None)"

text \<open>A projected expression over a group: a call, a quotient of two calls, or the value all rows share.\<close>

definition aggregate_call_of :: "BoundExpr \<Rightarrow> BoundExpr BoundFunctionCall option" where
  "aggregate_call_of e =
     (case bx_kind e of
        BoundExprKind.Function f \<Rightarrow> if to_ascii_lowercase (fr_name (bf_function f)) \<in> set aggregate_names then Some f else None
      | _ \<Rightarrow> None)"

definition quotient_of :: "BoundExpr \<Rightarrow> (BoundExpr BoundFunctionCall \<times> BoundExpr BoundFunctionCall) option" where
  "quotient_of e =
     (case bx_kind e of
        BoundExprKind.Binary op l r \<Rightarrow>
          if op = BinaryOperator.Divide
          then Option.bind (aggregate_call_of l) (\<lambda>f. map_option (\<lambda>g. (f, g)) (aggregate_call_of r))
          else None
      | _ \<Rightarrow> None)"

definition eval_projection :: "(BoundExpr \<Rightarrow> 'r \<Rightarrow> sql_value) \<Rightarrow> BoundExpr \<Rightarrow> 'r list \<Rightarrow> sql_value" where
  "eval_projection ev e rows =
     (case aggregate_call_of e of
        Some f \<Rightarrow> eval_call ev f rows
      | None \<Rightarrow>
          (case quotient_of e of
             Some (f, g) \<Rightarrow> sql_div (eval_call ev f rows) (eval_call ev g rows)
           | None \<Rightarrow> first_row (ev e) rows))"

definition item_exprs :: "BoundExpr BoundProjectionItem list \<Rightarrow> BoundExpr list" where
  "item_exprs items = map bpe_expr (List.map_filter BoundProjectionItem_as_expr items)"

definition item_names :: "BoundExpr BoundProjectionItem list \<Rightarrow> string list" where
  "item_names items =
     map (\<lambda>d. case projection_output_name d of Some n \<Rightarrow> n | None \<Rightarrow> []) (List.map_filter BoundProjectionItem_as_expr items)"

text \<open>The groups of the rows: one group of all rows without GROUP BY.\<close>

definition row_groups :: "('r \<Rightarrow> 'k list) \<Rightarrow> bool \<Rightarrow> 'r list \<Rightarrow> 'r list list" where
  "row_groups key grouped rows =
     (if grouped then map (\<lambda>k. filter (\<lambda>r. key r = k) rows) (remdups (map key rows)) else [rows])"

definition eval_select ::
  "(BoundExpr \<Rightarrow> 'r \<Rightarrow> sql_value) \<Rightarrow> (BoundExpr, BoundRelation) BoundSelect \<Rightarrow> 'r list \<Rightarrow> sql_value list list" where
  "eval_select ev s rows =
     map (\<lambda>g. map (\<lambda>e. eval_projection ev e g) (item_exprs (bsel_projection s)))
       (row_groups (\<lambda>r. map (\<lambda>e. ev e r) (bsel_group_by s)) (bsel_group_by s \<noteq> [])
         (filter (\<lambda>r. case bsel_selection s of Some e \<Rightarrow> ev e r = Some 1 | None \<Rightarrow> True) rows))"

text \<open>A row of partial results: its columns by name.\<close>

definition eval_column :: "BoundExpr \<Rightarrow> (string \<times> sql_value) list \<Rightarrow> sql_value" where
  "eval_column e row =
     (case bx_kind e of
        BoundExprKind.Column c \<Rightarrow> (case map_of row (bcr_name c) of Some v \<Rightarrow> v | None \<Rightarrow> None)
      | _ \<Rightarrow> None)"

definition partial_rows ::
  "(BoundExpr \<Rightarrow> 'r \<Rightarrow> sql_value) \<Rightarrow> (BoundExpr, BoundRelation) BoundSelect \<Rightarrow> 'r list \<Rightarrow> (string \<times> sql_value) list list" where
  "partial_rows ev s rows = map (zip (item_names (bsel_projection s))) (eval_select ev s rows)"

section \<open>One projection item\<close>

abbreviation item_details :: "BoundExpr BoundProjectionItem list \<Rightarrow> BoundExpr BoundProjectionExpr list" where
  "item_details items \<equiv> List.map_filter BoundProjectionItem_as_expr items"

abbreviation detail_name :: "BoundExpr BoundProjectionExpr \<Rightarrow> string" where
  "detail_name d \<equiv> (case projection_output_name d of Some n \<Rightarrow> n | None \<Rightarrow> [])"

lemma item_details_simps [simp]:
  "item_details [] = []" "item_details (BoundProjectionItem.Expr d # items) = d # item_details items"
  "item_details (xs @ ys) = item_details xs @ item_details ys"
  by (simp_all add: List.map_filter_def BoundProjectionItem_as_expr_def)

lemma item_exprs_single [simp]: "item_exprs [BoundProjectionItem.Expr d] = [bpe_expr d]"
  by (simp add: item_exprs_def BoundProjectionItem_as_expr_def)

lemma item_details_concat: "item_details (concat xss) = concat (map item_details xss)"
  by (induction xss) simp_all

text \<open>The two ways in which a projection item is planned.\<close>

definition plain_part :: "BoundExpr BoundProjectionExpr \<Rightarrow> string \<Rightarrow> StagePart \<Rightarrow> bool" where
  "plain_part d n p \<longleftrightarrow>
     (\<forall>f. bx_kind (bpe_expr d) \<noteq> BoundExprKind.Function f) \<and> \<not> expr_contains_aggregate (bpe_expr d) \<and>
     projection_output_name d = Some n \<and>
     sp_scatter p = [BoundProjectionItem.Expr d] \<and> sp_gather p = column_projection n (bpe_field d) (bpe_node d) \<and>
     sp_group_by p = [column_expr n (rf_data_type (bpe_field d)) (rf_nullable (bpe_field d)) (bpe_node d)] \<and>
     \<not> sp_is_aggregate p"

definition aggregate_part :: "nat \<Rightarrow> BoundExpr BoundProjectionExpr \<Rightarrow> StagePart \<Rightarrow> bool" where
  "aggregate_part i d p \<longleftrightarrow>
     (\<exists>f rewrite. bx_kind (bpe_expr d) = BoundExprKind.Function f \<and>
        classify_supported_aggregate d i = Inr (Some rewrite) \<and>
        sp_scatter p = ar_scatter_projection rewrite \<and> sp_gather p = ar_gather_projection rewrite \<and>
        sp_group_by p = [] \<and> sp_is_aggregate p)"

lemma plan_projection_item_cases:
  assumes "plan_projection_item (i, item) = Inr p"
  obtains d n where "item = BoundProjectionItem.Expr d" "plain_part d n p"
    | d where "item = BoundProjectionItem.Expr d" "aggregate_part i d p"
proof -
  obtain d where d: "item = BoundProjectionItem.Expr d"
    using assms by (cases item) (auto simp: plan_projection_item_def BoundProjectionItem_as_expr_def)
  then obtain r where r: "classify_supported_aggregate d i = Inr r"
    using assms by (auto simp: plan_projection_item_def BoundProjectionItem_as_expr_def result_bind_Inr_iff)
  show thesis
  proof (cases r)
    case None
    with r have "bx_kind (bpe_expr d) \<noteq> BoundExprKind.Function f" for f
      by (auto simp: classify_supported_aggregate_def Let_def split: if_splits list.splits)
    with None r d assms show thesis
      by (auto simp: plan_projection_item_def BoundProjectionItem_as_expr_def result_bind_Inr_iff Let_def plain_part_def
          ok_or_def split: if_splits option.splits intro!: that(1))
  next
    case (Some rewrite)
    moreover obtain f where "bx_kind (bpe_expr d) = BoundExprKind.Function f"
      using r Some by (auto simp: classify_supported_aggregate_def split: BoundExprKind.splits)
    ultimately show thesis
      using r d assms
      by (auto simp: plan_projection_item_def BoundProjectionItem_as_expr_def result_bind_Inr_iff aggregate_part_def
          intro!: that(2))
  qed
qed

lemma call_values_concat: "call_values ev f (concat gs) = concat (map (call_values ev f) gs)"
  by (simp add: call_values_def[abs_def] map_concat)

lemma lowercase_names [simp]:
  "to_ascii_lowercase ''sum'' = ''sum''" "to_ascii_lowercase ''min'' = ''min''" "to_ascii_lowercase ''max'' = ''max''"
  "to_ascii_lowercase ''count'' = ''count''"
  by code_simp+

definition merge_with :: "string \<Rightarrow> sql_value list \<Rightarrow> sql_value" where
  "merge_with name = (if name = ''sum'' then sql_sum else if name = ''min'' then sql_min else sql_max)"

lemma merge_with_merge: "merge_with name (map (merge_with name) vss) = merge_with name (concat vss)"
  by (simp add: merge_with_def sql_sum_merge sql_min_merge sql_max_merge)

lemma eval_call_merge_with:
  assumes "to_ascii_lowercase (fr_name (bf_function f)) = name" "name \<in> set [''sum'', ''min'', ''max'']"
  shows "eval_call ev f rows = merge_with name (call_values ev f rows)"
  using assms(2) by (auto simp: eval_call_def merge_with_def assms(1))

text \<open>A merge call over the column of partial values of \<open>e\<close>.\<close>

lemma eval_projection_call:
  "bx_kind e = BoundExprKind.Function f \<Longrightarrow> to_ascii_lowercase (fr_name (bf_function f)) \<in> set aggregate_names \<Longrightarrow>
     eval_projection ev e = eval_call ev f"
  by (auto simp: eval_projection_def aggregate_call_of_def)

lemma eval_merge_call:
  assumes lookup: "\<And>g. map_of (row g) n = Some (eval_projection ev e g)" and name: "name \<in> set [''sum'', ''min'', ''max'']"
  shows "eval_projection eval_column (aggregate_call name (column_expr n t b node) t' b' node') (map row gs) =
    merge_with name (map (eval_projection ev e) gs)"
proof -
  let ?call = "BoundFunctionCall (FunctionRef None name) None [column_expr n t b node] False None None None"
  have "bx_kind (aggregate_call name (column_expr n t b node) t' b' node') = BoundExprKind.Function ?call"
    by (simp add: aggregate_call_def)
  moreover have "to_ascii_lowercase (fr_name (bf_function ?call)) = name" using name by auto
  moreover have "call_values eval_column ?call (map row gs) = map (eval_projection ev e) gs"
    using lookup by (simp add: call_values_def eval_column_def column_expr_def)
  moreover have "name \<in> set aggregate_names" using name by (auto simp: aggregate_names_def)
  ultimately show ?thesis by (metis eval_projection_call eval_call_merge_with name)
qed

lemma self_merging_part:
  assumes f: "bx_kind e = BoundExprKind.Function f"
    and name: "to_ascii_lowercase (fr_name (bf_function f)) = name" "name \<in> set [''sum'', ''min'', ''max'']"
    and lookup: "\<And>g. map_of (row g) n = Some (eval_projection ev e g)"
  shows "eval_projection eval_column (aggregate_call name (column_expr n t b node) t' b' node') (map row gs) =
    eval_projection ev e (concat gs)"
proof -
  have "to_ascii_lowercase (fr_name (bf_function f)) \<in> set aggregate_names"
    using name by (auto simp: aggregate_names_def)
  then have "eval_projection ev e = (\<lambda>g. merge_with name (call_values ev f g))"
    by (simp add: eval_projection_call[OF f] eval_call_merge_with[OF name] fun_eq_iff)
  then show ?thesis
    using merge_with_merge[of name "map (call_values ev f) gs"]
    by (simp add: eval_merge_call[OF lookup name(2)] call_values_concat comp_def)
qed

lemma count_part:
  assumes f: "bx_kind e = BoundExprKind.Function f"
    and name: "to_ascii_lowercase (fr_name (bf_function f)) = ''count''" and "gs \<noteq> []"
    and lookup: "\<And>g. map_of (row g) n = Some (eval_projection ev e g)"
  shows "eval_projection eval_column (aggregate_call ''sum'' (column_expr n t b node) t' b' node') (map row gs) =
    eval_projection ev e (concat gs)"
proof -
  have call: "eval_projection ev e = (\<lambda>g. sql_count (call_values ev f g))"
    using name by (subst eval_projection_call[OF f]) (auto simp: eval_call_def Let_def aggregate_names_def)
  have "eval_projection eval_column (aggregate_call ''sum'' (column_expr n t b node) t' b' node') (map row gs) =
      sql_sum (map sql_count (map (call_values ev f) gs))"
    using eval_merge_call[OF lookup, of "''sum''"] by (simp add: call comp_def merge_with_def)
  also have "\<dots> = sql_count (concat (map (call_values ev f) gs))"
    by (rule sql_count_merge) (use assms(3) in simp)
  finally show ?thesis by (simp add: call call_values_concat)
qed

lemma eval_quotient:
  "k1 \<in> {''sum'', ''count''} \<Longrightarrow> k2 \<in> {''sum'', ''count''} \<Longrightarrow>
    eval_projection ev (BoundExpr (BoundExprKind.Binary BinaryOperator.Divide
      (aggregate_call k1 x1 t1 b1 n1) (aggregate_call k2 x2 t2 b2 n2)) t b node) rows =
    sql_div (eval_projection ev (aggregate_call k1 x1 t1 b1 n1) rows) (eval_projection ev (aggregate_call k2 x2 t2 b2 n2) rows)"
  by (auto simp: eval_projection_def aggregate_call_def aggregate_call_of_def quotient_of_def aggregate_names_def)

lemma avg_part:
  assumes f: "bx_kind e = BoundExprKind.Function f"
    and name: "to_ascii_lowercase (fr_name (bf_function f)) = ''avg''" "bf_args f = arg # args" and gs: "gs \<noteq> []"
    and sum: "\<And>g. map_of (row g) n = Some (eval_projection ev (aggregate_call ''sum'' arg t1 b1 node1) g)"
    and cnt: "\<And>g. map_of (row g) m = Some (eval_projection ev (aggregate_call ''count'' arg t2 b2 node2) g)"
  shows "eval_projection eval_column
      (BoundExpr (BoundExprKind.Binary BinaryOperator.Divide
         (aggregate_call ''sum'' (column_expr n t3 b3 node3) t4 b4 node4)
         (aggregate_call ''sum'' (column_expr m t5 b5 node5) t6 b6 node6)) t b node) (map row gs) =
    eval_projection ev e (concat gs)"
proof -
  let ?s = "aggregate_call ''sum'' arg t1 b1 node1" and ?c = "aggregate_call ''count'' arg t2 b2 node2"
  have kinds: "bx_kind ?s = BoundExprKind.Function (BoundFunctionCall (FunctionRef None ''sum'') None [arg] False None None None)"
    "bx_kind ?c = BoundExprKind.Function (BoundFunctionCall (FunctionRef None ''count'') None [arg] False None None None)"
    by (simp_all add: aggregate_call_def)
  have "eval_projection eval_column (aggregate_call ''sum'' (column_expr n t3 b3 node3) t4 b4 node4) (map row gs) =
      eval_projection ev ?s (concat gs)"
    by (rule self_merging_part[OF kinds(1) _ _ sum]) simp_all
  moreover have "eval_projection eval_column (aggregate_call ''sum'' (column_expr m t5 b5 node5) t6 b6 node6) (map row gs) =
      eval_projection ev ?c (concat gs)"
    by (rule count_part[OF kinds(2) _ gs cnt]) simp
  moreover have "eval_projection ev e (concat gs) = sql_div (eval_projection ev ?s (concat gs)) (eval_projection ev ?c (concat gs))"
    using name by (simp add: eval_projection_call[OF f] eval_projection_call[OF kinds(1)] eval_projection_call[OF kinds(2)]
        eval_call_def call_values_def Let_def aggregate_names_def)
  ultimately show ?thesis by (simp add: eval_quotient)
qed

lemma aggregate_part_merge:
  assumes part: "aggregate_part i d p" and gs: "gs \<noteq> []"
    and lookup: "\<And>d' g. d' \<in> set (item_details (sp_scatter p)) \<Longrightarrow>
      map_of (row g) (detail_name d') = Some (eval_projection ev (bpe_expr d') g)"
  shows "map (\<lambda>e. eval_projection eval_column e (map row gs)) (item_exprs [sp_gather p]) = [eval_projection ev (bpe_expr d) (concat gs)]"
proof -
  obtain f rw where f: "bx_kind (bpe_expr d) = BoundExprKind.Function f"
      and rw: "classify_supported_aggregate d i = Inr (Some rw)"
      and p: "sp_scatter p = ar_scatter_projection rw" "sp_gather p = ar_gather_projection rw"
    using part by (auto simp: aggregate_part_def)
  let ?name = "to_ascii_lowercase (fr_name (bf_function f))"
  define a where "a = (case bpe_alias d of Some a \<Rightarrow> a | None \<Rightarrow> auto_aggregate_alias f i)"
  consider (self) "?name \<in> set [''sum'', ''min'', ''max'']" "rw = rewrite_self_merging ?name a d i"
    | (count) "?name = ''count''" "rw = rewrite_count a d i"
    | (avg) arg args where "?name = ''avg''" "bf_args f = arg # args" "rw = rewrite_avg arg a d i"
    using rw f by (auto simp: classify_supported_aggregate_def a_def Let_def split: if_splits list.splits)
  then show ?thesis
  proof cases
    case self
    then show ?thesis
      using lookup p by (auto simp: rewrite_self_merging_def Let_def BoundProjectionItem_expr_def
          BoundProjectionItem_as_expr_def item_exprs_def
          projection_output_name_def intro!: self_merging_part[OF f])
  next
    case count
    then show ?thesis
      using lookup p gs by (auto simp: rewrite_count_def Let_def BoundProjectionItem_expr_def
          BoundProjectionItem_as_expr_def item_exprs_def
          projection_output_name_def intro!: count_part[OF f])
  next
    case avg
    let ?n = "''__fed_'' @ a @ ''_sum_'' @ nat_to_string i" and ?m = "''__fed_'' @ a @ ''_cnt_'' @ nat_to_string i"
    let ?s = "aggregate_call ''sum'' arg DataType.Float64 True (bpe_node d)"
      and ?c = "aggregate_call ''count'' arg DataType.Int64 False (bpe_node d)"
    have scatter: "item_details (sp_scatter p) =
        [BoundProjectionExpr ?s (Some ?n) (ResultField_new ?n DataType.Float64 True) (bpe_node d),
         BoundProjectionExpr ?c (Some ?m) (ResultField_new ?m DataType.Int64 False) (bpe_node d)]"
      using avg(3) p by (simp add: rewrite_avg_def Let_def BoundProjectionItem_expr_def BoundProjectionItem_as_expr_def)
    have "map_of (row g) ?n = Some (eval_projection ev ?s g)" "map_of (row g) ?m = Some (eval_projection ev ?c g)" for g
      using lookup[unfolded scatter, OF list.set_intros(1), of g]
        lookup[unfolded scatter, OF list.set_intros(2)[OF list.set_intros(1)], of g]
      by (simp_all add: projection_output_name_def)
    note merge = avg_part[OF f avg(1,2) gs this]
    show ?thesis
      using avg(3) p by (simp add: rewrite_avg_def Let_def BoundProjectionItem_expr_def
          BoundProjectionItem_as_expr_def item_exprs_def merge[simplified])
  qed
qed

lemma aggregate_call_of_contains: "aggregate_call_of e = Some f \<Longrightarrow> expr_contains_aggregate e"
  by (cases e rule: expr_contains_aggregate.cases) (auto simp: aggregate_call_of_def split: BoundExprKind.splits if_splits)

lemma quotient_of_contains: "quotient_of e = Some q \<Longrightarrow> expr_contains_aggregate e"
proof (cases e)
  case (BoundExpr kind data_type nullable node)
  moreover assume "quotient_of e = Some q"
  ultimately obtain op l r f where "kind = BoundExprKind.Binary op l r" "aggregate_call_of l = Some f"
    by (auto simp: quotient_of_def bind_eq_Some_conv split: BoundExprKind.splits if_splits)
  then show ?thesis using BoundExpr aggregate_call_of_contains by simp
qed

lemma plain_part_merge:
  assumes part: "plain_part d n p" and g: "g \<noteq> []"
    and lookup: "\<And>d' g. d' \<in> set (item_details (sp_scatter p)) \<Longrightarrow>
      map_of (row g) (detail_name d') = Some (eval_projection ev (bpe_expr d') g)"
  shows "map (\<lambda>e. eval_projection eval_column e (map row (g # gs))) (item_exprs [sp_gather p]) =
      [eval_projection ev (bpe_expr d) (concat (g # gs))]"
    and "map (\<lambda>e. eval_column e (row g)) (sp_group_by p) = [ev (bpe_expr d) (hd g)]"
proof -
  have plain: "eval_projection ev (bpe_expr d) rows = first_row (ev (bpe_expr d)) rows" for rows
  proof -
    have "aggregate_call_of (bpe_expr d) = None" "quotient_of (bpe_expr d) = None"
      using part aggregate_call_of_contains quotient_of_contains unfolding plain_part_def
      by (metis option.exhaust)+
    then show ?thesis by (simp add: eval_projection_def)
  qed
  have col: "eval_column (column_expr n t b node) (row g) = first_row (ev (bpe_expr d)) g" for t b node
    using part lookup[of d g] by (auto simp: plain_part_def eval_column_def column_expr_def plain BoundProjectionItem_as_expr_def)
  show "map (\<lambda>e. eval_column e (row g)) (sp_group_by p) = [ev (bpe_expr d) (hd g)]"
    using part g col by (cases g) (auto simp: plain_part_def first_row_def)
  have "eval_projection eval_column (column_expr n t b node) (map row (g # gs)) = first_row (ev (bpe_expr d)) g" for t b node
    using col by (simp add: eval_projection_def aggregate_call_of_def quotient_of_def column_expr_def first_row_def)
  then show "map (\<lambda>e. eval_projection eval_column e (map row (g # gs))) (item_exprs [sp_gather p]) =
      [eval_projection ev (bpe_expr d) (concat (g # gs))]"
    using part g plain by (cases g) (auto simp: plain_part_def item_exprs_def column_projection_def
        BoundProjectionItem_expr_def BoundProjectionItem_as_expr_def first_row_def)
qed

section \<open>The whole select\<close>

lemma map_of_named:
  assumes "distinct (map name ds)" and "d \<in> set ds"
  shows "map_of (zip (map name ds) (map f ds)) (name d) = Some (f d)"
  using assms by (induction ds) (auto, metis image_eqI)

lemma item_names_exprs:
  "item_names items = map detail_name (item_details items)" "item_exprs items = map bpe_expr (item_details items)"
  by (simp_all add: item_names_def item_exprs_def)

lemma item_exprs_Cons: "item_exprs (x # xs) = item_exprs [x] @ item_exprs xs"
  by (simp add: item_exprs_def List.map_filter_def)

text \<open>Groups of a concatenation.\<close>

lemma filter_remdups_eq: "filter (\<lambda>k. k = k0) (remdups ks) = (if k0 \<in> set ks then [k0] else [])"
  by (induction ks) auto

lemma set_row_groups:
  "set (row_groups key grouped rows) = (if grouped then (\<lambda>r. filter (\<lambda>r'. key r' = key r) rows) ` set rows else {rows})"
  by (auto simp: row_groups_def image_image)

lemma concat_nonempty: "concat (filter (\<lambda>g. g \<noteq> []) gs) = concat gs"
  by (induction gs) auto

text \<open>The partial rows of a key: one from each node that has it.\<close>

lemma filter_partials:
  assumes same: "\<And>g. g \<noteq> [] \<Longrightarrow> gk (row g) = pk (hd g)" and inj: "\<And>a b. pk a = pk b \<longleftrightarrow> key a = key b"
  shows "filter (\<lambda>q. gk q = pk r0) (concat (map (\<lambda>r. map row (row_groups key True r)) rs)) =
    map row (filter (\<lambda>g. g \<noteq> []) (map (filter (\<lambda>r. key r = key r0)) rs))"
proof (induction rs)
  case (Cons r rs)
  have group: "gk (row (filter (\<lambda>r'. key r' = k) r)) = pk r0 \<longleftrightarrow> k = key r0" if k: "k \<in> set (remdups (map key r))" for k
  proof -
    from k have ne: "filter (\<lambda>r'. key r' = k) r \<noteq> []" by (auto simp: filter_empty_conv)
    then have "hd (filter (\<lambda>r'. key r' = k) r) \<in> set (filter (\<lambda>r'. key r' = k) r)" by (rule hd_in_set)
    then have "key (hd (filter (\<lambda>r'. key r' = k) r)) = k" by simp
    with same[OF ne] inj show ?thesis by metis
  qed
  have "filter (\<lambda>k. gk (row (filter (\<lambda>r'. key r' = k) r)) = pk r0) (remdups (map key r)) =
      filter (\<lambda>k. k = key r0) (remdups (map key r))"
    by (rule filter_cong[OF refl]) (rule group)
  also have "\<dots> = (if key r0 \<in> set (map key r) then [key r0] else [])" by (rule filter_remdups_eq)
  finally have "filter (\<lambda>q. gk q = pk r0) (map row (row_groups key True r)) =
      map row (filter (\<lambda>g. g \<noteq> []) [filter (\<lambda>r'. key r' = key r0) r])"
    by (auto simp: row_groups_def filter_map comp_def filter_empty_conv) (metis image_eqI)
  with Cons show ?case by simp
qed simp

text \<open>Grouping partial rows gives, for every group of all rows, its parts on the nodes.\<close>

lemma grouped_gather:
  assumes same: "\<And>g. g \<noteq> [] \<Longrightarrow> gk (row g) = pk (hd g)" and inj: "\<And>a b. pk a = pk b \<longleftrightarrow> key a = key b"
    and out: "\<And>gs. gs \<noteq> [] \<Longrightarrow> hd gs \<noteq> [] \<Longrightarrow> out' (map row gs) = out (concat gs)"
  shows "out' ` set (row_groups gk True (concat (map (\<lambda>r. map row (row_groups key True r)) rs))) =
    out ` set (row_groups key True (concat rs))"
proof -
  let ?Q = "concat (map (\<lambda>r. map row (row_groups key True r)) rs)"
  have out_eq: "out' (filter (\<lambda>q. gk q = pk r0) ?Q) = out (filter (\<lambda>r. key r = key r0) (concat rs))" if "r0 \<in> set (concat rs)" for r0
  proof -
    let ?gs = "filter (\<lambda>g. g \<noteq> []) (map (filter (\<lambda>r. key r = key r0)) rs)"
    from that obtain r where r: "r \<in> set rs" "r0 \<in> set r" by auto
    then have "filter (\<lambda>r. key r = key r0) r \<noteq> []" by (auto simp: filter_empty_conv)
    then have "filter (\<lambda>r. key r = key r0) r \<in> set ?gs" using r(1) by simp
    then have "?gs \<noteq> []" by (metis empty_iff empty_set)
    moreover from hd_in_set[OF this] have "hd ?gs \<noteq> []" by simp
    ultimately have "out' (map row ?gs) = out (concat ?gs)" by (rule out)
    also have "concat ?gs = filter (\<lambda>r. key r = key r0) (concat rs)"
      by (simp only: concat_nonempty filter_concat)
    finally show ?thesis
      using filter_partials[where gk = gk and row = row and pk = pk and key = key and rs = rs and ?r0.0 = r0, OF same inj]
      by simp
  qed
  have partial: "\<exists>r0 \<in> set (concat rs). gk q = pk r0" if "q \<in> set ?Q" for q
  proof -
    from that obtain r g where g: "r \<in> set rs" "q = row g" "g \<in> set (row_groups key True r)" by auto
    then obtain r0 where r0: "r0 \<in> set r" "g = filter (\<lambda>r'. key r' = key r0) r" by (auto simp: set_row_groups)
    then have ne: "g \<noteq> []" by (auto simp: filter_empty_conv)
    then have "hd g \<in> set g" by (rule hd_in_set)
    with r0 g(1) have "hd g \<in> set (concat rs)" by auto
    with same[OF ne] g(2) show ?thesis by blast
  qed
  have whole: "\<exists>q \<in> set ?Q. gk q = pk r0" if "r0 \<in> set (concat rs)" for r0
  proof -
    from that obtain r where r: "r \<in> set rs" "r0 \<in> set r" by auto
    let ?g = "filter (\<lambda>r'. key r' = key r0) r"
    have ne: "?g \<noteq> []" using r(2) by (auto simp: filter_empty_conv)
    then have "hd ?g \<in> set ?g" by (rule hd_in_set)
    then have "key (hd ?g) = key r0" by simp
    then have "gk (row ?g) = pk r0" using same[OF ne] inj by metis
    moreover have "row ?g \<in> set ?Q" using r by (auto simp: set_row_groups)
    ultimately show ?thesis by blast
  qed
  show ?thesis (is "?L = ?R")
  proof
    show "?L \<subseteq> ?R"
    proof
      fix x assume "x \<in> ?L"
      then obtain q where q: "q \<in> set ?Q" "x = out' (filter (\<lambda>q'. gk q' = gk q) ?Q)"
        unfolding set_row_groups by (auto simp only: if_True)
      from partial[OF q(1)] obtain r0 where "r0 \<in> set (concat rs)" "gk q = pk r0" by blast
      with q(2) out_eq have "x = out (filter (\<lambda>r. key r = key r0) (concat rs))" by simp
      with \<open>r0 \<in> set (concat rs)\<close> show "x \<in> ?R" unfolding set_row_groups if_True by blast
    qed
    show "?R \<subseteq> ?L"
    proof
      fix x assume "x \<in> ?R"
      then obtain r0 where r0: "r0 \<in> set (concat rs)" "x = out (filter (\<lambda>r. key r = key r0) (concat rs))"
        unfolding set_row_groups by (auto simp only: if_True)
      from whole[OF r0(1)] obtain q where "q \<in> set ?Q" "gk q = pk r0" by blast
      with r0 out_eq have "x = out' (filter (\<lambda>q'. gk q' = gk q) ?Q)" by simp
      with \<open>q \<in> set ?Q\<close> show "x \<in> ?L" unfolding set_row_groups if_True by blast
    qed
  qed
qed

definition plain_exprs :: "BoundExpr BoundProjectionItem list \<Rightarrow> BoundExpr list" where
  "plain_exprs items = filter (\<lambda>e. case bx_kind e of BoundExprKind.Function _ \<Rightarrow> False | _ \<Rightarrow> True) (item_exprs items)"

definition planned :: "nat \<Rightarrow> BoundExpr BoundProjectionItem list \<Rightarrow> StagePart list \<Rightarrow> bool" where
  "planned k items parts \<longleftrightarrow> list_all2 (\<lambda>x p. plan_projection_item x = Inr p) (enumerate k items) parts"

lemma planned_simps [simp]:
  "planned k [] parts \<longleftrightarrow> parts = []"
  "planned k (item # items) parts \<longleftrightarrow>
     (\<exists>p ps. parts = p # ps \<and> plan_projection_item (k, item) = Inr p \<and> planned (Suc k) items ps)"
  by (auto simp: planned_def list_all2_Cons1)

text \<open>What the gather stage groups by, on a partial row.\<close>

lemma gather_key:
  assumes "planned k items parts" and "g \<noteq> []"
    and lookup: "\<And>p d' g. p \<in> set parts \<Longrightarrow> d' \<in> set (item_details (sp_scatter p)) \<Longrightarrow>
      map_of (row g) (detail_name d') = Some (eval_projection ev (bpe_expr d') g)"
  shows "map (\<lambda>e. eval_column e (row g)) (concat (map sp_group_by parts)) = map (\<lambda>e. ev e (hd g)) (plain_exprs items)"
  using assms(1) lookup
proof (induction items arbitrary: k parts)
  case (Cons item items)
  then obtain p ps where p: "parts = p # ps" "plan_projection_item (k, item) = Inr p" "planned (Suc k) items ps" by auto
  have IH: "map (\<lambda>e. eval_column e (row g)) (concat (map sp_group_by ps)) = map (\<lambda>e. ev e (hd g)) (plain_exprs items)"
    by (rule Cons.IH[OF p(3)]) (use Cons.prems(2) p(1) in auto)
  from p(2) show ?case
  proof (cases rule: plan_projection_item_cases)
    case (1 d n)
    have "map (\<lambda>e. eval_column e (row g)) (sp_group_by p) = [ev (bpe_expr d) (hd g)]"
      by (rule plain_part_merge(2)[OF 1(2) assms(2)]) (use Cons.prems(2) p(1) in auto)
    with 1 IH p(1) show ?thesis
      by (auto simp: plain_exprs_def item_exprs_def plain_part_def BoundProjectionItem_as_expr_def split: BoundExprKind.splits)
  next
    case (2 d)
    with IH p(1) show ?thesis
      by (auto simp: plain_exprs_def item_exprs_def aggregate_part_def BoundProjectionItem_as_expr_def)
  qed
qed (simp add: plain_exprs_def item_exprs_def)

text \<open>What the gather stage projects, on the partial rows of a group.\<close>

lemma gather_projection:
  assumes "planned k items parts" and gs: "gs \<noteq> []" and "plain_exprs items \<noteq> [] \<Longrightarrow> hd gs \<noteq> []"
    and lookup: "\<And>p d' g. p \<in> set parts \<Longrightarrow> d' \<in> set (item_details (sp_scatter p)) \<Longrightarrow>
      map_of (row g) (detail_name d') = Some (eval_projection ev (bpe_expr d') g)"
  shows "map (\<lambda>e. eval_projection eval_column e (map row gs)) (item_exprs (map sp_gather parts)) =
    map (\<lambda>e. eval_projection ev e (concat gs)) (item_exprs items)"
  using assms(1,3) lookup
proof (induction items arbitrary: k parts)
  case (Cons item items)
  then obtain p ps where p: "parts = p # ps" "plan_projection_item (k, item) = Inr p" "planned (Suc k) items ps" by auto
  have more: "plain_exprs items \<noteq> [] \<Longrightarrow> plain_exprs (item # items) \<noteq> []"
    by (auto simp: plain_exprs_def item_exprs_def List.map_filter_def)
  have IH: "map (\<lambda>e. eval_projection eval_column e (map row gs)) (item_exprs (map sp_gather ps)) =
      map (\<lambda>e. eval_projection ev e (concat gs)) (item_exprs items)"
    by (rule Cons.IH[OF p(3)]) (use Cons.prems(2,3) more p(1) in auto)
  obtain g gs' where g: "gs = g # gs'" using gs by (cases gs) auto
  have "map (\<lambda>e. eval_projection eval_column e (map row gs)) (item_exprs [sp_gather p]) =
      map (\<lambda>e. eval_projection ev e (concat gs)) (item_exprs [item])"
    using p(2)
  proof (cases rule: plan_projection_item_cases)
    case (1 d n)
    then have "plain_exprs (item # items) \<noteq> []"
      by (auto simp: plain_exprs_def item_exprs_def plain_part_def BoundProjectionItem_as_expr_def split: BoundExprKind.splits)
    with Cons.prems(2) g have "g \<noteq> []" by simp
    then show ?thesis
      unfolding g by (subst plain_part_merge(1)[OF 1(2)]) (use Cons.prems(3) p(1) 1(1) in auto)
  next
    case (2 d)
    then show ?thesis
      by (subst aggregate_part_merge[OF 2(2) gs]) (use Cons.prems(3) p(1) in auto)
  qed
  with IH p(1) show ?case
    using item_exprs_Cons[of "sp_gather p" "map sp_gather ps"] item_exprs_Cons[of item items] by simp
qed (simp add: item_exprs_def)

text \<open>
  A select that groups by the values of its non-aggregate projections. The expressions of GROUP BY and of the
  projection are different nodes of the tree, so what has to agree is what they evaluate to.
\<close>

definition groups_by_projected ::
  "(BoundExpr \<Rightarrow> 'r \<Rightarrow> sql_value) \<Rightarrow> (BoundExpr, BoundRelation) BoundSelect \<Rightarrow> bool" where
  "groups_by_projected ev s \<longleftrightarrow> ev ` set (bsel_group_by s) = ev ` set (plain_exprs (bsel_projection s))"

lemma groups_by_projected_empty: "groups_by_projected ev s \<Longrightarrow> bsel_group_by s = [] \<longleftrightarrow> plain_exprs (bsel_projection s) = []"
  by (auto simp: groups_by_projected_def)

lemma groups_by_projected_key:
  assumes "groups_by_projected ev s"
  shows "map (\<lambda>e. ev e a) (plain_exprs (bsel_projection s)) = map (\<lambda>e. ev e b) (plain_exprs (bsel_projection s)) \<longleftrightarrow>
    map (\<lambda>e. ev e a) (bsel_group_by s) = map (\<lambda>e. ev e b) (bsel_group_by s)"
proof -
  have key: "map (\<lambda>e. ev e a) es = map (\<lambda>e. ev e b) es \<longleftrightarrow> (\<forall>f \<in> ev ` set es. f a = f b)" for es by auto
  show ?thesis using assms unfolding key groups_by_projected_def by (simp only:)
qed

text \<open>
  Running the scatter select on each node and the gather select over all partial rows gives the result rows of
  the original select over all rows of all nodes.
\<close>

lemma decomposed_select_correct:
  fixes ev :: "BoundExpr \<Rightarrow> 'r \<Rightarrow> sql_value"
  assumes "result_collect plan_projection_item (enumerate 0 (bsel_projection s)) = Inr parts"
    and "groups_by_projected ev s"
    and "distinct (item_names (concat (map sp_scatter parts)))"
    and "nodes \<noteq> []"
  shows "set (eval_select eval_column (gather_select s parts binding schema)
      (concat (map (partial_rows ev (scatter_select s parts)) nodes))) = set (eval_select ev s (concat nodes))"
proof -
  let ?items = "bsel_projection s" and ?G = "bsel_group_by s"
  let ?ds = "item_details (concat (map sp_scatter parts))" and ?gather = "concat (map sp_group_by parts)"
  let ?row = "\<lambda>g. zip (map detail_name ?ds) (map (\<lambda>d. eval_projection ev (bpe_expr d) g) ?ds)"
  let ?key = "\<lambda>r. map (\<lambda>e. ev e r) ?G" and ?pk = "\<lambda>r. map (\<lambda>e. ev e r) (plain_exprs ?items)"
  let ?gk = "\<lambda>q. map (\<lambda>e. eval_column e q) ?gather"
  define rs where "rs = map (filter (\<lambda>r. case bsel_selection s of Some e \<Rightarrow> ev e r = Some 1 | None \<Rightarrow> True)) nodes"
  have planned: "planned 0 ?items parts" using assms(1) by (simp add: planned_def result_collect_Inr_iff)
  have lookup: "map_of (?row g) (detail_name d) = Some (eval_projection ev (bpe_expr d) g)"
    if "p \<in> set parts" "d \<in> set (item_details (sp_scatter p))" for p d g
    by (rule map_of_named) (use assms(3) that in \<open>auto simp: item_names_exprs item_details_concat\<close>)
  have gather: "eval_select eval_column (gather_select s parts binding schema) q =
      map (\<lambda>g. map (\<lambda>e. eval_projection eval_column e g) (item_exprs (map sp_gather parts))) (row_groups ?gk (?gather \<noteq> []) q)" for q
    by (simp add: eval_select_def gather_select_def)
  have scatter: "concat (map (partial_rows ev (scatter_select s parts)) nodes) =
      concat (map (\<lambda>r. map ?row (row_groups ?key (?G \<noteq> []) r)) rs)"
    by (simp add: partial_rows_def[abs_def] eval_select_def scatter_select_def rs_def item_names_exprs comp_def)
  have original: "eval_select ev s (concat nodes) =
      map (\<lambda>g. map (\<lambda>e. eval_projection ev e g) (item_exprs ?items)) (row_groups ?key (?G \<noteq> []) (concat rs))"
    by (simp add: eval_select_def rs_def filter_concat)
  have out: "map (\<lambda>e. eval_projection eval_column e (map ?row gs)) (item_exprs (map sp_gather parts)) =
      map (\<lambda>e. eval_projection ev e (concat gs)) (item_exprs ?items)"
    if "gs \<noteq> []" "plain_exprs ?items \<noteq> [] \<Longrightarrow> hd gs \<noteq> []" for gs
    by (rule gather_projection[OF planned that(1) that(2) lookup])
  have same: "?gk (?row g) = ?pk (hd g)" if "g \<noteq> []" for g
    by (rule gather_key[OF planned that lookup])
  have length: "length ?gather = length (plain_exprs ?items)"
    using arg_cong[OF same[of "[undefined]"], of length] by simp
  show ?thesis
  proof (cases "?G = []")
    case True
    then have "plain_exprs ?items = []" using groups_by_projected_empty[OF assms(2)] by simp
    moreover from this length have "?gather = []" by simp
    moreover have "rs \<noteq> []" using assms(4) by (simp add: rs_def)
    moreover have "concat (map (\<lambda>r. map ?row (row_groups ?key False r)) rs) = map ?row rs"
      by (induction rs) (simp_all add: row_groups_def)
    ultimately show ?thesis
      using out[of rs] unfolding gather scatter original True by (simp add: row_groups_def)
  next
    case False
    then have plain: "plain_exprs ?items \<noteq> []" using groups_by_projected_empty[OF assms(2)] by simp
    then have nonempty: "(?gather \<noteq> []) = True" using length by (metis length_0_conv)
    have inj: "?pk a = ?pk b \<longleftrightarrow> ?key a = ?key b" for a b
      by (rule groups_by_projected_key[OF assms(2)])
    have "(\<lambda>g. map (\<lambda>e. eval_projection eval_column e g) (item_exprs (map sp_gather parts))) `
          set (row_groups ?gk True (concat (map (\<lambda>r. map ?row (row_groups ?key True r)) rs))) =
        (\<lambda>g. map (\<lambda>e. eval_projection ev e g) (item_exprs ?items)) ` set (row_groups ?key True (concat rs))"
      by (rule grouped_gather[where pk = ?pk]) (use same inj out in auto)
    with False show ?thesis unfolding gather scatter original nonempty set_map by simp
  qed
qed

text \<open>The two statements of a successful plan are those of the two selects.\<close>

definition scatter_query :: "BoundQuery \<Rightarrow> (BoundExpr, BoundRelation) BoundSelect \<Rightarrow> BoundQuery" where
  "scatter_query bound scatter =
     with_plan (strip_order_and_limit (with_body (BoundSetExpr.Select scatter) (bsel_result_schema scatter) (bq_plan bound))) bound"

definition gather_query :: "BoundQuery \<Rightarrow> (BoundExpr, BoundRelation) BoundSelect \<Rightarrow> BoundQuery" where
  "gather_query bound gather =
     with_plan (with_body (BoundSetExpr.Select gather) (bsel_result_schema gather) (bq_plan bound)) bound"

lemma aggregate_plan_stages:
  assumes "build_federated_aggregate_plan adapter catalog bound artifact = Inr plan"
    and "BoundSetExpr_as_select (bp_body (bq_plan bound)) = Some s"
    and "result_collect plan_projection_item (enumerate 0 (bsel_projection s)) = Inr parts"
  shows "\<exists>binding scatter_sql gather_sql.
    emit_sql adapter (scatter_query bound (scatter_select s parts)) catalog = Inr scatter_sql \<and>
    emit_sql adapter (gather_query bound (gather_select s parts binding (sa_result_schema artifact))) catalog = Inr gather_sql \<and>
    sg_scatter_sql plan = sa_text scatter_sql \<and>
    wrap_placeholder_relation (sa_text gather_sql) binding = Inr (sg_gather_sql plan)"
  using assms
  by (auto simp: build_federated_aggregate_plan_def top_level_select_def ok_or_def Let_def
      result_bind_Inr_iff scatter_query_def gather_query_def gather_select_def scatter_select_def) blast

text \<open>
  C1. The aggregate plan is correct. Let a plan be built for a select whose GROUP BY expressions have the values of
  its non-aggregate projections, and let the columns of the scatter select have distinct names. Then the plan's statements are the
  emissions of a scatter select and of a gather select such that, for rows spread in any way over one or more
  nodes, collecting the partial rows of every node and running the gather select over them yields the result
  rows of the original select over all rows: COUNT merges by SUM, AVG as a quotient of sums, NULLs and empty
  nodes included.
\<close>

theorem federated_aggregate_correct:
  fixes ev :: "BoundExpr \<Rightarrow> 'r \<Rightarrow> sql_value"
  assumes "build_federated_aggregate_plan adapter catalog bound artifact = Inr plan"
    and "BoundSetExpr_as_select (bp_body (bq_plan bound)) = Some s"
    and "result_collect plan_projection_item (enumerate 0 (bsel_projection s)) = Inr parts"
    and "groups_by_projected ev s"
    and "distinct (item_names (bsel_projection (scatter_select s parts)))"
    and "nodes \<noteq> []"
  shows "\<exists>gather binding scatter_sql gather_sql.
    emit_sql adapter (scatter_query bound (scatter_select s parts)) catalog = Inr scatter_sql \<and>
    sg_scatter_sql plan = sa_text scatter_sql \<and>
    emit_sql adapter (gather_query bound gather) catalog = Inr gather_sql \<and>
    wrap_placeholder_relation (sa_text gather_sql) binding = Inr (sg_gather_sql plan) \<and>
    set (eval_select eval_column gather (concat (map (partial_rows ev (scatter_select s parts)) nodes))) =
      set (eval_select ev s (concat nodes))"
proof -
  have "set (eval_select eval_column (gather_select s parts binding (sa_result_schema artifact))
      (concat (map (partial_rows ev (scatter_select s parts)) nodes))) = set (eval_select ev s (concat nodes))" for binding
    by (rule decomposed_select_correct[OF assms(3,4)]) (use assms(5,6) in \<open>simp_all add: scatter_select_def\<close>)
  with aggregate_plan_stages[OF assms(1-3)] show ?thesis by blast
qed

text \<open>
  \<^verbatim>\<open>SELECT region, avg(amount) AS mean FROM sales GROUP BY region\<close>, with the node identifiers that lowering gives
  its parts and without the first projection, bound over a catalog that holds the relation, and rows that are
  named values, on two nodes.
\<close>

definition sales_relation :: RelationSchema where
  "sales_relation =
     \<lparr>rel_namespace = None, rel_name = ''sales'', rel_aliases = [], rel_kind = RelationKind.Table,
      rel_columns =
        [\<lparr>cs_name = ''region'', cs_data_type = DataType.Int64, cs_nullable = False, cs_metadata = FieldMetadata_default\<rparr>,
         \<lparr>cs_name = ''amount'', cs_data_type = DataType.Float64, cs_nullable = True, cs_metadata = FieldMetadata_default\<rparr>],
      rel_metadata = []\<rparr>"

definition sales_catalog :: Catalog where
  "sales_catalog = memory_catalog (register_relation sales_relation MemoryCatalog_default)"

definition sales_column :: "string \<Rightarrow> string \<Rightarrow> SyntaxExpr" where
  "sales_column name path = SyntaxExpr (SyntaxExprKind.Column None name) (SyntaxNode None path)"

definition sales_syntax :: "bool \<Rightarrow> SyntaxQuery" where
  "sales_syntax projected =
     SyntaxQuery (SyntaxNode None ''query'') [] False
       (SyntaxSetExpr.Select (SyntaxSelect False
          ((if projected
            then [SyntaxProjectionItem_expr (sales_column ''region'' ''query.body.projection[0].expr'') None
                    (SyntaxNode None ''query.body.projection[0]'')]
            else []) @
           [SyntaxProjectionItem_expr
              (SyntaxExpr (SyntaxExprKind.Function (SyntaxFunctionCall (FunctionRef None ''avg'')
                 [sales_column ''amount'' ''query.body.projection[1].expr.args[0]''] False None None))
                 (SyntaxNode None ''query.body.projection[1].expr''))
              (Some ''mean'') (SyntaxNode None ''query.body.projection[1]'')])
          [SyntaxTableWithJoins (SyntaxRelation.Table (NameRef None ''sales'') None (SyntaxNode None ''query.body.from[0].relation'')) []
             (SyntaxNode None ''query.body.from[0]'')]
          None [sales_column ''region'' ''query.body.group_by[0]''] None (SyntaxNode None ''query.body''))) [] None None []"

definition sales_bound :: "bool \<Rightarrow> BoundQuery" where
  "sales_bound projected =
     projr (bind_and_validate id (example_query (sales_syntax projected)) sales_catalog QueryParameters_default)"

definition sales_select :: "bool \<Rightarrow> (BoundExpr, BoundRelation) BoundSelect" where
  "sales_select projected = the (BoundSetExpr_as_select (bp_body (bq_plan (sales_bound projected))))"

definition sales_binding :: BoundRelationBinding where
  "sales_binding = \<lparr>rb_binding_name = ''sales'', rb_relation_name = Some (NameRef None ''sales''), rb_schema = ResultSchema_new []\<rparr>"

definition sales_nodes :: "(string \<times> sql_value) list list list" where
  "sales_nodes =
     [[[(''region'', Some 1), (''amount'', Some 10)], [(''region'', Some 2), (''amount'', Some 7)]],
      [[(''region'', Some 1), (''amount'', Some 2)], [(''region'', Some 1), (''amount'', None)], [(''region'', Some 1), (''amount'', Some 3)]]]"

definition sales_parts :: "bool \<Rightarrow> StagePart list" where
  "sales_parts projected =
     (case result_collect plan_projection_item (enumerate 0 (bsel_projection (sales_select projected))) of
        Inr parts \<Rightarrow> parts | Inl _ \<Rightarrow> [])"

definition federated_rows :: "bool \<Rightarrow> sql_value list list" where
  "federated_rows projected =
     eval_select eval_column (gather_select (sales_select projected) (sales_parts projected) sales_binding (ResultSchema_new []))
       (concat (map (partial_rows eval_column (scatter_select (sales_select projected) (sales_parts projected))) sales_nodes))"

definition sales_artifact :: SqlArtifact where
  "sales_artifact = projr (emit_sql_artifact (sales_bound True) sales_catalog Postgres)"

definition sales_plan :: ScatterGatherPlan where
  "sales_plan = projr (build_federated_aggregate_plan PostgresAdapter sales_catalog (sales_bound True) sales_artifact)"

lemma sales_planned:
  "build_federated_aggregate_plan PostgresAdapter sales_catalog (sales_bound True) sales_artifact = Inr sales_plan"
proof -
  have "\<not> isl (build_federated_aggregate_plan PostgresAdapter sales_catalog (sales_bound True) sales_artifact)" by code_simp
  then show ?thesis by (simp add: sales_plan_def)
qed

text \<open>The grouping expression and the projected one are different nodes with the same column.\<close>

lemma sales_groups: "groups_by_projected eval_column (sales_select True)"
proof -
  have "map bx_kind (bsel_group_by (sales_select True)) = map bx_kind (plain_exprs (bsel_projection (sales_select True)))"
    by code_simp
  then have kinds: "bx_kind ` set (bsel_group_by (sales_select True)) = bx_kind ` set (plain_exprs (bsel_projection (sales_select True)))"
    by (metis set_map)
  have column: "eval_column = (\<lambda>k row. case k of
      BoundExprKind.Column c \<Rightarrow> (case map_of row (bcr_name c) of Some v \<Rightarrow> v | None \<Rightarrow> None) | _ \<Rightarrow> None) \<circ> bx_kind"
    by (simp add: fun_eq_iff eval_column_def)
  show ?thesis unfolding groups_by_projected_def column image_comp[symmetric] by (simp only: kinds)
qed

theorem federated_aggregate_correct_witness:
  "\<exists>gather binding scatter_sql gather_sql.
    emit_sql PostgresAdapter (scatter_query (sales_bound True) (scatter_select (sales_select True) (sales_parts True))) sales_catalog =
      Inr scatter_sql \<and> sg_scatter_sql sales_plan = sa_text scatter_sql \<and>
    emit_sql PostgresAdapter (gather_query (sales_bound True) gather) sales_catalog = Inr gather_sql \<and>
    wrap_placeholder_relation (sa_text gather_sql) binding = Inr (sg_gather_sql sales_plan) \<and>
    set (eval_select eval_column gather
      (concat (map (partial_rows eval_column (scatter_select (sales_select True) (sales_parts True))) sales_nodes))) =
      {[Some 1, Some 5], [Some 2, Some 7]}"
proof -
  have "BoundSetExpr_as_select (bp_body (bq_plan (sales_bound True))) \<noteq> None" by code_simp
  then have "BoundSetExpr_as_select (bp_body (bq_plan (sales_bound True))) = Some (sales_select True)"
    by (simp add: sales_select_def)
  moreover have "result_collect plan_projection_item (enumerate 0 (bsel_projection (sales_select True))) = Inr (sales_parts True)"
    by code_simp
  moreover have "distinct (item_names (bsel_projection (scatter_select (sales_select True) (sales_parts True))))" by code_simp
  moreover have "sales_nodes \<noteq> []" by (simp add: sales_nodes_def)
  moreover have "set (eval_select eval_column (sales_select True) (concat sales_nodes)) = {[Some 1, Some 5], [Some 2, Some 7]}"
    by code_simp
  ultimately show ?thesis
    using federated_aggregate_correct[OF sales_planned, of "sales_select True" "sales_parts True" eval_column sales_nodes] sales_groups by simp
qed

text \<open>
  The condition on the grouping expressions matters. A select that groups by a column it does not project is
  planned without an error, but the gather statement does not group by it, so the groups are merged: two rows
  of averages become one.
\<close>

theorem unprojected_group_merged:
  "result_collect plan_projection_item (enumerate 0 (bsel_projection (sales_select False))) = Inr (sales_parts False) \<and>
   set (eval_select eval_column (sales_select False) (concat sales_nodes)) = {[Some 5], [Some 7]} \<and>
   federated_rows False = [[Some (11 / 2)]]"
  by (intro conjI; code_simp)

end
