(* ===== verification/QF_ClickHouse.thy ===== *)
theory QF_ClickHouse
  imports QF_Federation
begin

text \<open>
  The ClickHouse adapter: \<^verbatim>\<open>crates/queryfabric-adapter-clickhouse/src/lib.rs\<close> and its \<^verbatim>\<open>rewrite\<close> modules. Before
  emission a bound plan is rewritten: columns of materialized views that hold aggregate states are wrapped in
  their merge function where the select aggregates, and UUID outputs are converted to strings. The mutable
  summary the source threads through the rewriter is only appended to, so every function returns its result
  with the events it appends, in order.
\<close>

section \<open>Results with events\<close>

type_synonym ('a, 'ev) logged = "'a \<times> 'ev list"

definition quiet :: "'a \<Rightarrow> ('a, 'ev) logged" where
  "quiet x = (x, [])"

definition log_bind :: "('a, 'ev) logged \<Rightarrow> ('a \<Rightarrow> ('b, 'ev) logged) \<Rightarrow> ('b, 'ev) logged" where
  "log_bind m f = (fst (f (fst m)), snd m @ snd (f (fst m)))"

definition log_list :: "('a \<Rightarrow> ('b, 'ev) logged) \<Rightarrow> 'a list \<Rightarrow> ('b list, 'ev) logged" where
  "log_list f xs = (map (\<lambda>x. fst (f x)) xs, concat (map (\<lambda>x. snd (f x)) xs))"

definition log_option :: "('a \<Rightarrow> ('b, 'ev) logged) \<Rightarrow> 'a option \<Rightarrow> ('b option, 'ev) logged" where
  "log_option f v = (case v of Some x \<Rightarrow> (Some (fst (f x)), snd (f x)) | None \<Rightarrow> (None, []))"

lemma log_simps [simp]:
  "fst (quiet x) = x" "snd (quiet x) = []"
  "fst (log_bind m f) = fst (f (fst m))" "snd (log_bind m f) = snd m @ snd (f (fst m))"
  "fst (log_list g xs) = map (\<lambda>x. fst (g x)) xs" "snd (log_list g xs) = concat (map (\<lambda>x. snd (g x)) xs)"
  by (simp_all add: quiet_def log_bind_def log_list_def)

lemma log_option_simps [simp]:
  "fst (log_option g v) = map_option (\<lambda>x. fst (g x)) v" "log_option g None = (None, [])"
  "log_option g (Some y) = (Some (fst (g y)), snd (g y))"
  by (simp_all add: log_option_def split: option.split)

lemma log_bind_cong [fundef_cong]:
  "m = m' \<Longrightarrow> (\<And>x. fst m' = x \<Longrightarrow> f x = g x) \<Longrightarrow> log_bind m f = log_bind m' g"
  by (simp add: log_bind_def)

lemma log_list_cong [fundef_cong]:
  "xs = ys \<Longrightarrow> (\<And>x. x \<in> set ys \<Longrightarrow> f x = g x) \<Longrightarrow> log_list f xs = log_list g ys"
  unfolding log_list_def by (metis (mono_tags, lifting) map_eq_conv)

lemma log_option_cong [fundef_cong]:
  "v = w \<Longrightarrow> (\<And>x. w = Some x \<Longrightarrow> f x = g x) \<Longrightarrow> log_option f v = log_option g w"
  by (cases w) simp_all

section \<open>Wrappers of materialized-view columns\<close>

datatype WrapperSpec = WrapperSpec (wr_namespace: "string option") (wr_name: string)

definition from_merge_fn :: "string \<Rightarrow> WrapperSpec option" where
  "from_merge_fn name =
     map_of
       [(''summerge'', WrapperSpec (Some ''ch'') ''sum_merge''), (''countmerge'', WrapperSpec (Some ''ch'') ''count_merge''),
        (''avgmerge'', WrapperSpec (Some ''ch'') ''avg_merge''),
        (''stddevpopmerge'', WrapperSpec (Some ''ch'') ''stddevpop_merge''),
        (''sum'', WrapperSpec None ''sum''), (''count'', WrapperSpec None ''count''), (''min'', WrapperSpec None ''min''),
        (''max'', WrapperSpec None ''max''), (''avg'', WrapperSpec None ''avg'')]
       (to_ascii_lowercase name)"

definition from_function :: "FunctionRef \<Rightarrow> WrapperSpec option" where
  "from_function function =
     (let name = to_ascii_lowercase (fr_name function)
      in case fr_namespace function of
           Some namespace \<Rightarrow>
             if to_ascii_lowercase namespace = ''ch'' \<and>
                name \<in> set [''avg_merge'', ''count_merge'', ''sum_merge'', ''stddevpop_merge'', ''varpop_merge'']
             then Some (WrapperSpec (Some ''ch'') name) else None
         | None \<Rightarrow> if name \<in> set [''min'', ''max''] then Some (WrapperSpec None name) else None)"

definition wrapper_function_ref :: "WrapperSpec \<Rightarrow> FunctionRef" where
  "wrapper_function_ref w = FunctionRef (wr_namespace w) (wr_name w)"

definition wrapper_matches :: "WrapperSpec \<Rightarrow> FunctionRef \<Rightarrow> bool" where
  "wrapper_matches w function \<longleftrightarrow>
     eq_ignore_ascii_case (fr_name function) (wr_name w) \<and>
     (case (wr_namespace w, fr_namespace function) of
        (None, None) \<Rightarrow> True
      | (Some left, Some right) \<Rightarrow> eq_ignore_ascii_case left right
      | _ \<Rightarrow> False)"

record ScopeBinding =
  sb_binding_name :: string
  sb_relation_display :: string
  sb_relation :: RelationSchema

type_synonym SelectScope = "ScopeBinding list"

definition SelectScope_push :: "string \<Rightarrow> string \<Rightarrow> RelationSchema \<Rightarrow> SelectScope \<Rightarrow> SelectScope" where
  "SelectScope_push binding_name relation_display relation scope =
     scope @ [\<lparr>sb_binding_name = binding_name, sb_relation_display = relation_display, sb_relation = relation\<rparr>]"

definition target_binding_name :: "SelectScope \<Rightarrow> string option \<Rightarrow> string option" where
  "target_binding_name scope qualifier =
     (case qualifier of
        Some q \<Rightarrow> map_option sb_binding_name (List.find (\<lambda>b. eq_ignore_ascii_case (sb_binding_name b) q) scope)
      | None \<Rightarrow> (case scope of [b] \<Rightarrow> Some (sb_binding_name b) | _ \<Rightarrow> None))"

record ResolvedWrapper =
  rw_relation_display :: string
  rw_binding_name :: string
  rw_column_name :: string
  rw_wrapper :: WrapperSpec

definition binding_wrapper :: "string \<Rightarrow> ScopeBinding \<Rightarrow> ResolvedWrapper option" where
  "binding_wrapper name binding =
     Option.bind (List.find (\<lambda>c. eq_ignore_ascii_case (cs_name c) name) (rel_columns (sb_relation binding))) (\<lambda>column.
       if rel_kind (sb_relation binding) = RelationKind.MaterializedView
       then Option.bind (bt_get (fm_extensions (cs_metadata column)) ''clickhouse.mv.merge_fn'') (\<lambda>merge_fn.
         map_option (\<lambda>wrapper.
             \<lparr>rw_relation_display = sb_relation_display binding, rw_binding_name = sb_binding_name binding,
              rw_column_name = cs_name column, rw_wrapper = wrapper\<rparr>)
           (from_merge_fn merge_fn))
       else None)"

definition resolve_wrapper :: "SelectScope \<Rightarrow> string option \<Rightarrow> string \<Rightarrow> ResolvedWrapper option" where
  "resolve_wrapper scope relation name =
     find_map (binding_wrapper name)
       (filter (\<lambda>b. case relation of None \<Rightarrow> True | Some want \<Rightarrow> eq_ignore_ascii_case (sb_binding_name b) want) scope)"

record WrapperNearMiss =
  nm_relation_display :: string
  nm_binding_name :: string
  nm_column_name :: string
  nm_current_wrapper :: WrapperSpec
  nm_expected_wrapper :: WrapperSpec

text \<open>A plain call of one column.\<close>

definition plain_column_call :: "BoundExpr BoundFunctionCall \<Rightarrow> BoundColumnRef option" where
  "plain_column_call function =
     (if bf_distinct function \<or> bf_filter function \<noteq> None \<or> bf_over function \<noteq> None then None
      else (case bf_args function of
          [arg] \<Rightarrow> (case bx_kind arg of BoundExprKind.Column column \<Rightarrow> Some column | _ \<Rightarrow> None)
        | _ \<Rightarrow> None))"

definition detect_wrapper_near_miss :: "SelectScope \<Rightarrow> BoundExpr BoundFunctionCall \<Rightarrow> WrapperNearMiss option" where
  "detect_wrapper_near_miss scope function =
     Option.bind (plain_column_call function) (\<lambda>column.
     Option.bind (from_function (bf_function function)) (\<lambda>actual.
     Option.bind (resolve_wrapper scope (bcr_relation column) (bcr_name column)) (\<lambda>expected.
       if actual \<noteq> rw_wrapper expected
       then Some \<lparr>nm_relation_display = rw_relation_display expected, nm_binding_name = rw_binding_name expected,
              nm_column_name = rw_column_name expected, nm_current_wrapper = actual,
              nm_expected_wrapper = rw_wrapper expected\<rparr>
       else None)))"

definition is_existing_wrapper :: "BoundExpr BoundFunctionCall \<Rightarrow> SelectScope \<Rightarrow> bool" where
  "is_existing_wrapper function scope \<longleftrightarrow>
     (case plain_column_call function of
        Some column \<Rightarrow>
          (case resolve_wrapper scope (bcr_relation column) (bcr_name column) of
             Some resolved \<Rightarrow> wrapper_matches (rw_wrapper resolved) (bf_function function)
           | None \<Rightarrow> False)
      | None \<Rightarrow> False)"

section \<open>The summary\<close>

datatype MvEvent = Wrap ResolvedWrapper | NearMiss WrapperNearMiss SyntaxNode

record ClickHouseMvSummary =
  mv_rewritten_relations :: "string list"
  mv_wrap_events :: "ResolvedWrapper list"
  mv_near_misses :: "(WrapperNearMiss \<times> string \<times> SyntaxNode) list"

definition ClickHouseMvSummary_default :: ClickHouseMvSummary where
  "ClickHouseMvSummary_default = \<lparr>mv_rewritten_relations = [], mv_wrap_events = [], mv_near_misses = []\<rparr>"

definition record_wrap :: "ResolvedWrapper \<Rightarrow> ClickHouseMvSummary \<Rightarrow> ClickHouseMvSummary" where
  "record_wrap resolved s =
     s\<lparr>mv_rewritten_relations := bs_insert (rw_relation_display resolved) (mv_rewritten_relations s),
       mv_wrap_events := mv_wrap_events s @ [resolved]\<rparr>"

definition record_near_miss :: "WrapperNearMiss \<Rightarrow> SyntaxNode \<Rightarrow> ClickHouseMvSummary \<Rightarrow> ClickHouseMvSummary" where
  "record_near_miss mismatch node s =
     s\<lparr>mv_near_misses := mv_near_misses s @ [(mismatch, nm_column_name mismatch, node)]\<rparr>"

fun record_event :: "MvEvent \<Rightarrow> ClickHouseMvSummary \<Rightarrow> ClickHouseMvSummary" where
  "record_event (Wrap resolved) s = record_wrap resolved s"
| "record_event (NearMiss mismatch node) s = record_near_miss mismatch node s"

definition rewritten_to_metadata :: "ClickHouseMvSummary \<Rightarrow> string option" where
  "rewritten_to_metadata s =
     (if mv_rewritten_relations s = [] then None else Some (join_with '','' (mv_rewritten_relations s)))"

definition wrap_key :: "ResolvedWrapper \<Rightarrow> string" where
  "wrap_key e =
     rw_relation_display e @ ''|'' @ rw_binding_name e @ ''|'' @ rw_column_name e @ ''|'' @
     wr_name (rw_wrapper e) @ ''|'' @ wr_name (rw_wrapper e)"

definition wrap_diagnostic :: "ResolvedWrapper \<Rightarrow> QueryDiagnostic" where
  "wrap_diagnostic e =
     with_node_id [] (QueryDiagnostic_note ''QFCH201''
       (''ClickHouse emission will wrap materialized-view column `'' @ rw_binding_name e @ ''.'' @ rw_column_name e @
        ''` from `'' @ rw_relation_display e @ ''` with `'' @ wr_name (rw_wrapper e) @ ''`.''))"

fun wrap_diagnostics :: "string list \<Rightarrow> ResolvedWrapper list \<Rightarrow> QueryDiagnostic list" where
  "wrap_diagnostics seen [] = []"
| "wrap_diagnostics seen (e # es) =
     (if wrap_key e \<in> set seen then wrap_diagnostics seen es
      else wrap_diagnostic e # wrap_diagnostics (bs_insert (wrap_key e) seen) es)"

text \<open>The debug format of a wrapper name: these names need no escapes.\<close>

definition quoted_name :: "WrapperSpec \<Rightarrow> string" where
  "quoted_name w = CHR 0x22 # wr_name w @ [CHR 0x22]"

definition near_miss_diagnostic :: "WrapperNearMiss \<times> string \<times> SyntaxNode \<Rightarrow> QueryDiagnostic" where
  "near_miss_diagnostic = (\<lambda>(miss, column_name, node).
     with_node_id (sn_node_id node) (QueryDiagnostic_warning ''QFCH202''
       (if nm_relation_display miss = [] then ''MV relation not found for column '' @ column_name
        else ''column '' @ nm_binding_name miss @ ''.'' @ column_name @ '' expects wrapper '' @
          quoted_name (nm_expected_wrapper miss) @ '' but found '' @ quoted_name (nm_current_wrapper miss))))"

definition analysis_diagnostics :: "ClickHouseMvSummary \<Rightarrow> QueryDiagnostic list" where
  "analysis_diagnostics s = wrap_diagnostics [] (mv_wrap_events s) @ map near_miss_diagnostic (mv_near_misses s)"

section \<open>UUID outputs\<close>

definition is_to_string_call :: "BoundExpr \<Rightarrow> bool" where
  "is_to_string_call e \<longleftrightarrow>
     (case bx_kind e of
        BoundExprKind.Function f \<Rightarrow>
          fr_namespace (bf_function f) = None \<and> eq_ignore_ascii_case (fr_name (bf_function f)) ''toString'' \<and>
          length (bf_args f) = 1 \<and> \<not> bf_distinct f \<and> bf_filter f = None \<and> bf_over f = None
      | _ \<Rightarrow> False)"

definition to_string_call :: "BoundExpr \<Rightarrow> BoundExpr" where
  "to_string_call e =
     BoundExpr
       (BoundExprKind.Function
         (BoundFunctionCall (FunctionRef None ''toString'') None [e] False None None (Some ''toString'')))
       DataType.Utf8 (bx_nullable e) (bx_node e)"

definition rewrite_uuid_arrow_expr :: "BoundExpr \<Rightarrow> bool \<Rightarrow> BoundExpr \<times> bool" where
  "rewrite_uuid_arrow_expr e enabled =
     (if \<not> enabled \<or> bx_data_type e \<noteq> DataType.Uuid \<or> is_to_string_call e then (e, False)
      else (to_string_call e, True))"

definition string_result_field :: "ResultField \<Rightarrow> ResultField" where
  "string_result_field f = ResultField (rf_name f) DataType.Utf8 (rf_nullable f) (rf_metadata f)"

definition arrow_item :: "bool \<Rightarrow> BoundExpr \<Rightarrow> string option \<Rightarrow> ResultField \<Rightarrow> SyntaxNode \<Rightarrow> BoundExpr BoundProjectionItem" where
  "arrow_item uuid rewritten alias' field node =
     (let (expr, wrapped_for_arrow) = rewrite_uuid_arrow_expr rewritten uuid
      in BoundProjectionItem_expr expr
           (case alias' of Some a \<Rightarrow> Some a | None \<Rightarrow> if wrapped_for_arrow then Some (rf_name field) else None)
           (if wrapped_for_arrow then string_result_field field else field) node)"

definition expand_wildcard_projection ::
  "string option \<Rightarrow> ResultField list \<Rightarrow> SyntaxNode \<Rightarrow> SelectScope \<Rightarrow> bool \<Rightarrow> BoundExpr BoundProjectionItem list option" where
  "expand_wildcard_projection qualifier fs node scope uuid =
     map_option (\<lambda>binding_name.
         map (\<lambda>field.
           arrow_item uuid
             (BoundExpr (BoundExprKind.Column (BoundColumnRef (Some binding_name) (rf_name field)))
               (rf_data_type field) (rf_nullable field) node)
             (Some (rf_name field)) field node) fs)
       (target_binding_name scope qualifier)"

definition rewrite_wildcard ::
  "string option \<Rightarrow> ResultField list \<Rightarrow> SyntaxNode \<Rightarrow> SelectScope \<Rightarrow> bool \<Rightarrow> BoundExpr BoundProjectionItem list" where
  "rewrite_wildcard qualifier fs node scope uuid =
     (case expand_wildcard_projection qualifier fs node scope uuid of
        Some items \<Rightarrow> items
      | None \<Rightarrow> [BoundProjectionItem.Wildcard qualifier fs node])"

definition projection_fields :: "BoundExpr BoundProjectionItem list \<Rightarrow> ResultField list" where
  "projection_fields items =
     concat (map (\<lambda>item. case item of
         BoundProjectionItem.Expr details \<Rightarrow> [bpe_field details]
       | BoundProjectionItem.Wildcard _ fs _ \<Rightarrow> fs
       | BoundProjectionItem.Unsupported _ _ \<Rightarrow> []) items)"

section \<open>The relations in scope\<close>

function collect_relation_bindings :: "Catalog \<Rightarrow> BoundRelation \<Rightarrow> SelectScope \<Rightarrow> SelectScope" where
  "collect_relation_bindings catalog (BoundRelation.Table binding node) scope =
     (case rb_relation_name binding of
        None \<Rightarrow> scope
      | Some name \<Rightarrow>
          (case cat_resolve_relation catalog (nr_namespace name) (nr_name name) of
             None \<Rightarrow> scope
           | Some schema \<Rightarrow> SelectScope_push (rb_binding_name binding) (NameRef_display_name name) schema scope))"
| "collect_relation_bindings catalog (BoundRelation.NestedJoin binding (BoundTableWithJoins relation joins n) node) scope =
     fold (\<lambda>join. collect_relation_bindings catalog (bj_relation join)) joins
       (collect_relation_bindings catalog relation scope)"
| "collect_relation_bindings catalog (BoundRelation.Derived binding query node) scope = scope"
| "collect_relation_bindings catalog (BoundRelation.Unsupported description name node) scope = scope"
  by pat_completeness auto
termination
  by (relation "measure (\<lambda>(_, r, _). size r)") (auto simp: size_bound_render_parts dest: render_size_dests)

definition scope_from_from_clause :: "BoundTable list \<Rightarrow> Catalog \<Rightarrow> SelectScope" where
  "scope_from_from_clause tables catalog =
     fold (\<lambda>table scope.
         fold (\<lambda>join. collect_relation_bindings catalog (bj_relation join)) (btj_joins table)
           (collect_relation_bindings catalog (btj_relation table) scope)) tables []"

section \<open>The rewriter\<close>

text \<open>A column that may be wrapped, and what a call records about its own name.\<close>

definition rewrite_column :: "SelectScope option \<Rightarrow> bool \<Rightarrow> BoundExpr \<Rightarrow> BoundColumnRef \<Rightarrow> ((BoundExpr, BoundQueryPlan) BoundExprKind, MvEvent) logged" where
  "rewrite_column scope allow_column_wrap e column =
     (case (if allow_column_wrap then Option.bind scope (\<lambda>s. resolve_wrapper s (bcr_relation column) (bcr_name column)) else None) of
        Some resolved \<Rightarrow>
          (BoundExprKind.Function
             (BoundFunctionCall (wrapper_function_ref (rw_wrapper resolved)) None [e] False None None
               (Some (wr_name (rw_wrapper resolved)))),
           [Wrap resolved])
      | None \<Rightarrow> quiet (bx_kind e))"

definition keeps_args :: "SelectScope option \<Rightarrow> bool \<Rightarrow> BoundExpr BoundFunctionCall \<Rightarrow> bool" where
  "keeps_args scope allow_column_wrap f \<longleftrightarrow>
     allow_column_wrap \<and> (case scope of Some s \<Rightarrow> is_existing_wrapper f s | None \<Rightarrow> False)"

definition near_miss_events :: "SelectScope option \<Rightarrow> bool \<Rightarrow> BoundExpr BoundFunctionCall \<Rightarrow> SyntaxNode \<Rightarrow> MvEvent list" where
  "near_miss_events scope allow_column_wrap f node =
     (if allow_column_wrap \<and> \<not> keeps_args scope allow_column_wrap f
      then (case Option.bind scope (\<lambda>s. detect_wrapper_near_miss s f) of Some mismatch \<Rightarrow> [NearMiss mismatch node] | None \<Rightarrow> [])
      else [])"

function rewrite_query_plan :: "Catalog \<Rightarrow> bool \<Rightarrow> BoundQueryPlan \<Rightarrow> (BoundQueryPlan, MvEvent) logged"
  and rewrite_set_expr :: "Catalog \<Rightarrow> bool \<Rightarrow> BoundSetExpr \<Rightarrow> (BoundSetExpr, MvEvent) logged"
  and rewrite_select :: "Catalog \<Rightarrow> bool \<Rightarrow> (BoundExpr, BoundRelation) BoundSelect \<Rightarrow> ((BoundExpr, BoundRelation) BoundSelect, MvEvent) logged"
  and rewrite_projection_item ::
    "Catalog \<Rightarrow> bool \<Rightarrow> SelectScope \<Rightarrow> BoundExpr BoundProjectionItem \<Rightarrow> (BoundExpr BoundProjectionItem list, MvEvent) logged"
  and rewrite_table_with_joins :: "Catalog \<Rightarrow> bool \<Rightarrow> BoundTable \<Rightarrow> (BoundTable, MvEvent) logged"
  and rewrite_relation :: "Catalog \<Rightarrow> bool \<Rightarrow> BoundRelation \<Rightarrow> (BoundRelation, MvEvent) logged"
  and rewrite_order_by_expr ::
    "Catalog \<Rightarrow> bool \<Rightarrow> SelectScope option \<Rightarrow> bool \<Rightarrow> BoundExpr BoundOrderByExpr \<Rightarrow> (BoundExpr BoundOrderByExpr, MvEvent) logged"
  and rewrite_expr :: "Catalog \<Rightarrow> bool \<Rightarrow> SelectScope option \<Rightarrow> bool \<Rightarrow> BoundExpr \<Rightarrow> (BoundExpr, MvEvent) logged"
  and rewrite_function ::
    "Catalog \<Rightarrow> bool \<Rightarrow> SelectScope option \<Rightarrow> bool \<Rightarrow> SyntaxNode \<Rightarrow> BoundExpr BoundFunctionCall \<Rightarrow> (BoundExpr BoundFunctionCall, MvEvent) logged"
  and rewrite_window ::
    "Catalog \<Rightarrow> bool \<Rightarrow> SelectScope option \<Rightarrow> BoundExpr BoundWindowSpec \<Rightarrow> (BoundExpr BoundWindowSpec, MvEvent) logged"
where
  "rewrite_query_plan c u (BoundQueryPlan node ctes body order_by limit offset clauses schema) =
     log_bind (rewrite_set_expr c u body) (\<lambda>body'.
     log_bind (log_list (\<lambda>cte. log_bind (rewrite_query_plan c u (bc_query cte)) (\<lambda>q.
         quiet (BoundCte (bc_name cte) (bc_columns cte) q (bp_result_schema q) (bc_node cte)))) ctes) (\<lambda>ctes'.
     log_bind (log_list (rewrite_order_by_expr c u None False) order_by) (\<lambda>order_by'.
     log_bind (log_option (rewrite_expr c u None False) limit) (\<lambda>limit'.
     log_bind (log_option (rewrite_expr c u None False) offset) (\<lambda>offset'.
     quiet (BoundQueryPlan node ctes' body' order_by' limit' offset' clauses (BoundSetExpr_result_schema body')))))))"
| "rewrite_set_expr c u (BoundSetExpr.Select select) =
     log_bind (rewrite_select c u select) (\<lambda>select'. quiet (BoundSetExpr.Select select'))"
| "rewrite_set_expr c u (BoundSetExpr.UnionAll left right node schema) =
     log_bind (rewrite_set_expr c u left) (\<lambda>left'.
     log_bind (rewrite_set_expr c u right) (\<lambda>right'.
     quiet (BoundSetExpr.UnionAll left' right' node (BoundSetExpr_result_schema left'))))"
| "rewrite_set_expr c u (BoundSetExpr.Unsupported description node schema) =
     quiet (BoundSetExpr.Unsupported description node schema)"
| "rewrite_select c u (BoundSelect distinct' projection tables selection group_by having schema node) =
     log_bind (log_list (rewrite_table_with_joins c u) tables) (\<lambda>tables'.
     log_bind (log_list (rewrite_projection_item c u (scope_from_from_clause tables' c)) projection) (\<lambda>projection'.
     log_bind (log_option (rewrite_expr c u (Some (scope_from_from_clause tables' c)) False) selection) (\<lambda>selection'.
     log_bind (log_list (\<lambda>e. log_bind (rewrite_expr c u (Some (scope_from_from_clause tables' c)) False e)
         (\<lambda>e'. quiet (fst (rewrite_uuid_arrow_expr e' u)))) group_by) (\<lambda>group_by'.
     log_bind (log_option (rewrite_expr c u (Some (scope_from_from_clause tables' c)) True) having) (\<lambda>having'.
     quiet (BoundSelect distinct' (concat projection') tables' selection' group_by' having'
       \<lparr>rs_fields = projection_fields (concat projection'), rs_metadata = rs_metadata schema\<rparr> node))))))"
| "rewrite_projection_item c u scope (BoundProjectionItem.Expr details) =
     log_bind (rewrite_expr c u (Some scope) True (bpe_expr details)) (\<lambda>rewritten.
     quiet [arrow_item u rewritten (bpe_alias details) (bpe_field details) (bpe_node details)])"
| "rewrite_projection_item c u scope (BoundProjectionItem.Wildcard qualifier fs node) =
     quiet (rewrite_wildcard qualifier fs node scope u)"
| "rewrite_projection_item c u scope (BoundProjectionItem.Unsupported description node) =
     quiet [BoundProjectionItem.Unsupported description node]"
| "rewrite_table_with_joins c u (BoundTableWithJoins relation joins node) =
     log_bind (rewrite_relation c u relation) (\<lambda>relation'.
     log_bind (log_list (\<lambda>join.
         log_bind (rewrite_relation c u (bj_relation join)) (\<lambda>joined.
         log_bind (log_option (rewrite_expr c u None False) (bj_on join)) (\<lambda>on'.
         quiet (BoundJoin (bj_kind join) joined on' (bj_node join))))) joins) (\<lambda>joins'.
     quiet (BoundTableWithJoins relation' joins' node)))"
| "rewrite_relation c u (BoundRelation.Table binding node) = quiet (BoundRelation.Table binding node)"
| "rewrite_relation c u (BoundRelation.Derived binding query node) =
     log_bind (rewrite_query_plan c u query) (\<lambda>query'. quiet (BoundRelation.Derived binding query' node))"
| "rewrite_relation c u (BoundRelation.NestedJoin binding table node) =
     log_bind (rewrite_table_with_joins c u table) (\<lambda>table'. quiet (BoundRelation.NestedJoin binding table' node))"
| "rewrite_relation c u (BoundRelation.Unsupported description name node) =
     quiet (BoundRelation.Unsupported description name node)"
| "rewrite_order_by_expr c u scope allow (BoundOrderByExpr e asc nulls_first node) =
     log_bind (rewrite_expr c u scope allow e) (\<lambda>e'. quiet (BoundOrderByExpr e' asc nulls_first node))"
| "rewrite_expr c u scope allow (BoundExpr (BoundExprKind.Column column) data_type nullable node) =
     log_bind (rewrite_column scope allow (BoundExpr (BoundExprKind.Column column) data_type nullable node) column) (\<lambda>kind.
     quiet (BoundExpr kind data_type nullable node))"
| "rewrite_expr c u scope allow (BoundExpr (BoundExprKind.Literal literal) data_type nullable node) =
     quiet (BoundExpr (BoundExprKind.Literal literal) data_type nullable node)"
| "rewrite_expr c u scope allow (BoundExpr (BoundExprKind.Parameter reference) data_type nullable node) =
     quiet (BoundExpr (BoundExprKind.Parameter reference) data_type nullable node)"
| "rewrite_expr c u scope allow (BoundExpr (BoundExprKind.Unary op e) data_type nullable node) =
     log_bind (rewrite_expr c u scope allow e) (\<lambda>e'. quiet (BoundExpr (BoundExprKind.Unary op e') data_type nullable node))"
| "rewrite_expr c u scope allow (BoundExpr (BoundExprKind.Binary op left right) data_type nullable node) =
     log_bind (rewrite_expr c u scope allow left) (\<lambda>left'.
     log_bind (rewrite_expr c u scope allow right) (\<lambda>right'.
     quiet (BoundExpr (BoundExprKind.Binary op left' right') data_type nullable node)))"
| "rewrite_expr c u scope allow (BoundExpr (BoundExprKind.Function f) data_type nullable node) =
     log_bind (rewrite_function c u scope allow node f) (\<lambda>f'.
     quiet (BoundExpr (BoundExprKind.Function f') data_type nullable node))"
| "rewrite_expr c u scope allow (BoundExpr (BoundExprKind.Case operand when_then else_result) data_type nullable node) =
     log_bind (log_option (rewrite_expr c u scope allow) operand) (\<lambda>operand'.
     log_bind (log_list (\<lambda>branch.
         log_bind (rewrite_expr c u scope allow (bwt_condition branch)) (\<lambda>condition.
         log_bind (rewrite_expr c u scope allow (bwt_result branch)) (\<lambda>result.
         quiet (BoundWhenThen condition result)))) when_then) (\<lambda>when_then'.
     log_bind (log_option (rewrite_expr c u scope allow) else_result) (\<lambda>else_result'.
     quiet (BoundExpr (BoundExprKind.Case operand' when_then' else_result') data_type nullable node))))"
| "rewrite_expr c u scope allow (BoundExpr (BoundExprKind.Cast e to) data_type nullable node) =
     log_bind (rewrite_expr c u scope allow e) (\<lambda>e'. quiet (BoundExpr (BoundExprKind.Cast e' to) data_type nullable node))"
| "rewrite_expr c u scope allow (BoundExpr (BoundExprKind.Between e low high negated) data_type nullable node) =
     log_bind (rewrite_expr c u scope allow e) (\<lambda>e'.
     log_bind (rewrite_expr c u scope allow low) (\<lambda>low'.
     log_bind (rewrite_expr c u scope allow high) (\<lambda>high'.
     quiet (BoundExpr (BoundExprKind.Between e' low' high' negated) data_type nullable node))))"
| "rewrite_expr c u scope allow (BoundExpr (BoundExprKind.InList e items negated) data_type nullable node) =
     log_bind (rewrite_expr c u scope allow e) (\<lambda>e'.
     log_bind (log_list (rewrite_expr c u scope allow) items) (\<lambda>items'.
     quiet (BoundExpr (BoundExprKind.InList e' items' negated) data_type nullable node)))"
| "rewrite_expr c u scope allow (BoundExpr (BoundExprKind.InSubquery e subquery negated) data_type nullable node) =
     log_bind (rewrite_expr c u scope allow e) (\<lambda>e'.
     log_bind (rewrite_query_plan c u subquery) (\<lambda>subquery'.
     quiet (BoundExpr (BoundExprKind.InSubquery e' subquery' negated) data_type nullable node)))"
| "rewrite_expr c u scope allow (BoundExpr (BoundExprKind.ScalarSubquery subquery) data_type nullable node) =
     log_bind (rewrite_query_plan c u subquery) (\<lambda>subquery'.
     quiet (BoundExpr (BoundExprKind.ScalarSubquery subquery') data_type nullable node))"
| "rewrite_expr c u scope allow (BoundExpr (BoundExprKind.Exists subquery) data_type nullable node) =
     log_bind (rewrite_query_plan c u subquery) (\<lambda>subquery'.
     quiet (BoundExpr (BoundExprKind.Exists subquery') data_type nullable node))"
| "rewrite_expr c u scope allow (BoundExpr (BoundExprKind.Like e pattern negated case_insensitive) data_type nullable node) =
     log_bind (rewrite_expr c u scope allow e) (\<lambda>e'.
     log_bind (rewrite_expr c u scope allow pattern) (\<lambda>pattern'.
     quiet (BoundExpr (BoundExprKind.Like e' pattern' negated case_insensitive) data_type nullable node)))"
| "rewrite_expr c u scope allow (BoundExpr (BoundExprKind.IsNull e negated) data_type nullable node) =
     log_bind (rewrite_expr c u scope allow e) (\<lambda>e'. quiet (BoundExpr (BoundExprKind.IsNull e' negated) data_type nullable node))"
| "rewrite_expr c u scope allow (BoundExpr (BoundExprKind.Tuple items) data_type nullable node) =
     log_bind (log_list (rewrite_expr c u scope allow) items) (\<lambda>items'.
     quiet (BoundExpr (BoundExprKind.Tuple items') data_type nullable node))"
| "rewrite_expr c u scope allow (BoundExpr (BoundExprKind.Array items) data_type nullable node) =
     log_bind (log_list (rewrite_expr c u scope allow) items) (\<lambda>items'.
     quiet (BoundExpr (BoundExprKind.Array items') data_type nullable node))"
| "rewrite_expr c u scope allow (BoundExpr (BoundExprKind.Unsupported description) data_type nullable node) =
     quiet (BoundExpr (BoundExprKind.Unsupported description) data_type nullable node)"
| "rewrite_function c u scope allow node (BoundFunctionCall f backend_name args distinct' filter' over signature_name) =
     log_bind ((), near_miss_events scope allow (BoundFunctionCall f backend_name args distinct' filter' over signature_name) node) (\<lambda>_.
     log_bind
       (if keeps_args scope allow (BoundFunctionCall f backend_name args distinct' filter' over signature_name) then quiet args
        else log_list (rewrite_expr c u scope allow) args) (\<lambda>args'.
     log_bind (log_option (rewrite_expr c u scope False) filter') (\<lambda>filter''.
     log_bind (log_option (rewrite_window c u scope) over) (\<lambda>over'.
     quiet (BoundFunctionCall f backend_name args' distinct' filter'' over' signature_name)))))"
| "rewrite_window c u scope (BoundWindowSpec partition_by order_by node) =
     log_bind (log_list (rewrite_expr c u scope False) partition_by) (\<lambda>partition_by'.
     log_bind (log_list (rewrite_order_by_expr c u scope False) order_by) (\<lambda>order_by'.
     quiet (BoundWindowSpec partition_by' order_by' node)))"
  by pat_completeness auto
termination
  by (relation "measure (case_sum
        (case_sum
          (case_sum (\<lambda>(_, _, q). size q) (\<lambda>(_, _, e). size e))
          (case_sum (\<lambda>(_, _, s). size_BoundSelect size size s)
            (case_sum (\<lambda>(_, _, _, i). size_BoundProjectionItem size i)
              (\<lambda>(_, _, t). size_BoundTableWithJoins size size t))))
        (case_sum
          (case_sum (\<lambda>(_, _, r). size r) (\<lambda>(_, _, _, _, k). size_BoundOrderByExpr size k))
          (case_sum (\<lambda>(_, _, _, _, e). size e)
            (case_sum (\<lambda>(_, _, _, _, _, f). size_BoundFunctionCall size f) (\<lambda>(_, _, _, w). size_BoundWindowSpec size w)))))")
    (auto simp: size_bound_render_parts dest: render_size_dests)

definition rewrite_query_for_clickhouse :: "BoundQuery \<Rightarrow> Catalog \<Rightarrow> bool \<Rightarrow> BoundQuery \<times> ClickHouseMvSummary" where
  "rewrite_query_for_clickhouse query catalog uuid =
     (let (plan, events) = rewrite_query_plan catalog uuid (bq_plan query)
      in (with_plan plan query, fold record_event events ClickHouseMvSummary_default))"

section \<open>The adapter\<close>

definition ClickHouse_capabilities :: CapabilitySet where
  "ClickHouse_capabilities =
     with_federated_execution True (with_async_export True
       (with_result_formats
         [ResultDeliveryFormat.ArrowIpc, ResultDeliveryFormat.Parquet, ResultDeliveryFormat.Csv, ResultDeliveryFormat.Json]
         (with_limits
           \<lparr>bl_max_rows = None, bl_max_bytes_scanned = None, bl_max_result_bytes = None,
            bl_max_concurrent_queries = None, bl_interactive_byte_limit = 512 * 1024 * 1024,
            bl_batch_byte_limit = 4 * 1024 * 1024 * 1024\<rparr>
           (from_features
             [BackendFeature.CommonTableExpressions, BackendFeature.DerivedTables, BackendFeature.Joins,
              BackendFeature.Windows, BackendFeature.SetOperations, BackendFeature.Aggregates,
              BackendFeature.DistinctAggregates, BackendFeature.ScalarSubqueries, BackendFeature.InSubqueries,
              BackendFeature.NamespacedFunctions, BackendFeature.ApproximateAggregates, BackendFeature.Explain,
              BackendFeature.LimitOffset, BackendFeature.IsolatedExecution, BackendFeature.UuidToStringInArrowOutput]))))"

definition uuid_arrow_workaround_enabled :: bool where
  "uuid_arrow_workaround_enabled = supports ClickHouse_capabilities BackendFeature.UuidToStringInArrowOutput"

definition ClickHouse_analyze :: "BoundQuery \<Rightarrow> Catalog \<Rightarrow> BackendAnalysis" where
  "ClickHouse_analyze query catalog =
     (let analysis = analyze_backend_support query catalog ''clickhouse'' ClickHouse_capabilities True;
          mv_summary = snd (rewrite_query_for_clickhouse query catalog uuid_arrow_workaround_enabled);
          diagnostics = ba_diagnostics analysis @ analysis_diagnostics mv_summary
      in analysis\<lparr>ba_diagnostics := diagnostics, ba_supported := \<not> list_ex is_error diagnostics\<rparr>)"

definition ClickHouse_emit :: "BoundQuery \<Rightarrow> Catalog \<Rightarrow> EmitArtifact result" where
  "ClickHouse_emit query catalog =
     (let analysis = ClickHouse_analyze query catalog
      in if \<not> ba_supported analysis
         then Inl (unsupported ''clickhouse-emission'' (diagnostic_summary (ba_diagnostics analysis)))
         else (let (rewritten_query, mv_summary) = rewrite_query_for_clickhouse query catalog uuid_arrow_workaround_enabled
           in result_bind (emit_sql_artifact rewritten_query catalog ClickHouse) (\<lambda>artifact.
              Inr (Sql (case rewritten_to_metadata mv_summary of
                  Some rewritten_to \<Rightarrow> artifact\<lparr>sa_metadata := bt_insert ''clickhouse.rewritten_to'' rewritten_to (sa_metadata artifact)\<rparr>
                | None \<Rightarrow> artifact)))))"

definition ClickHouseAdapter :: BackendAdapter where
  "ClickHouseAdapter =
     \<lparr>ad_name = ''clickhouse'', ad_capabilities = ClickHouse_capabilities, ad_analyze = ClickHouse_analyze,
      ad_emit = ClickHouse_emit\<rparr>"

end
