(* ===== verification/QF_ClickHouse_Sound.thy ===== *)
theory QF_ClickHouse_Sound
  imports QF_ClickHouse QF_Federation_Sound
begin

text \<open>
  What the ClickHouse rewriting guarantees: a rewritten plan is not rewritten again, projections and HAVING read
  aggregate states through their merge functions, and the result schema keeps its shape. Where it falls short:
  wildcards, unions and subqueries.
\<close>

section \<open>Idempotence\<close>

fun no_wildcard :: "BoundNode \<Rightarrow> bool" where
  "no_wildcard (ItemNode (BoundProjectionItem.Wildcard _ _ _)) = False"
| "no_wildcard _ = True"

lemma wrapper_matches_own [simp]: "wrapper_matches w (wrapper_function_ref w)"
  by (auto simp: wrapper_matches_def wrapper_function_ref_def eq_ignore_ascii_case_def split: option.split)

lemma concat_map_settled:
  "(\<And>x. x \<in> set xs \<Longrightarrow> \<exists>y. f x = [y] \<and> f y = [y]) \<Longrightarrow> concat (map f (concat (map f xs))) = concat (map f xs)"
proof (induction xs)
  case (Cons x xs)
  then obtain y where "f x = [y]" "f y = [y]" by force
  with Cons show ?case by simp
qed simp

lemma find_map_Some: "find_map f xs = Some y \<Longrightarrow> \<exists>x \<in> set xs. f x = Some y"
  by (induction xs) (auto split: option.splits)

lemma from_merge_fn_lowercase: "from_merge_fn name = Some w \<Longrightarrow> \<not> eq_ignore_ascii_case (wr_name w) ''toString''"
proof -
  assume "from_merge_fn name = Some w"
  then have "wr_name w \<in> set [''sum_merge'', ''count_merge'', ''avg_merge'', ''stddevpop_merge'', ''sum'', ''count'', ''min'', ''max'', ''avg'']"
    by (auto simp: from_merge_fn_def split: if_splits)
  moreover have "list_all (\<lambda>n. \<not> eq_ignore_ascii_case n ''toString'')
      [''sum_merge'', ''count_merge'', ''avg_merge'', ''stddevpop_merge'', ''sum'', ''count'', ''min'', ''max'', ''avg'']"
    by code_simp
  ultimately show ?thesis by (auto simp: list_all_iff)
qed

lemma resolve_wrapper_not_to_string:
  "resolve_wrapper scope relation name = Some w \<Longrightarrow> \<not> eq_ignore_ascii_case (wr_name (rw_wrapper w)) ''toString''"
  unfolding resolve_wrapper_def
  by (drule find_map_Some)
    (auto simp: binding_wrapper_def bind_eq_Some_conv split: if_splits dest: from_merge_fn_lowercase)

lemma to_string_not_wrapper: "\<not> is_existing_wrapper (BoundFunctionCall (FunctionRef None ''toString'') b args False None None r) scope"
  by (auto simp: is_existing_wrapper_def wrapper_matches_def eq_ignore_ascii_case_def split: option.split
      dest!: resolve_wrapper_not_to_string)

text \<open>The types of expressions are kept, and a settled expression stays settled when it is made a string.\<close>

lemma rewrite_expr_attributes [simp]:
  "bx_data_type (fst (rewrite_expr c u scope allow e)) = bx_data_type e"
  "bx_nullable (fst (rewrite_expr c u scope allow e)) = bx_nullable e"
  "bx_node (fst (rewrite_expr c u scope allow e)) = bx_node e"
  by (cases e; cases "bx_kind e"; simp)+

lemma rewrite_to_string_call:
  assumes "fst (rewrite_expr c u scope allow e) = e"
  shows "fst (rewrite_expr c u scope allow (to_string_call e)) = to_string_call e"
  using assms to_string_not_wrapper
  by (auto simp: to_string_call_def keeps_args_def split: option.split)

lemma uuid_arrow_twice [simp]:
  "rewrite_uuid_arrow_expr (fst (rewrite_uuid_arrow_expr e u)) u = (fst (rewrite_uuid_arrow_expr e u), False)"
  by (auto simp: rewrite_uuid_arrow_expr_def) (simp add: to_string_call_def)

lemma settled_arrow:
  assumes "fst (rewrite_expr c u scope allow e) = e"
  shows "fst (rewrite_expr c u scope allow (fst (rewrite_uuid_arrow_expr e u))) = fst (rewrite_uuid_arrow_expr e u)"
  using assms rewrite_to_string_call[OF assms] by (auto simp: rewrite_uuid_arrow_expr_def)

lemma settled_arrow_item:
  assumes "fst (rewrite_expr c u (Some scope) True e) = e"
  shows "fst (rewrite_projection_item c u scope (arrow_item u e alias' field node)) = [arrow_item u e alias' field node]"
  using settled_arrow[OF assms] uuid_arrow_twice[of e u]
  by (cases "rewrite_uuid_arrow_expr e u")
    (auto simp: arrow_item_def BoundProjectionItem_expr_def split: option.split)

lemma map_settled: "(\<And>x. x \<in> set xs \<Longrightarrow> f (f x) = f x) \<Longrightarrow> map f (map f xs) = map f xs"
  by simp

lemma map_option_settled: "(\<And>x. v = Some x \<Longrightarrow> f (f x) = f x) \<Longrightarrow> map_option f (map_option f v) = map_option f v"
  by (cases v) simp_all

lemma rewrite_column_settled:
  "fst (rewrite_expr c u scope allow (fst (rewrite_expr c u scope allow (BoundExpr (BoundExprKind.Column column) data_type nullable node)))) =
     fst (rewrite_expr c u scope allow (BoundExpr (BoundExprKind.Column column) data_type nullable node))"
  by (auto simp: rewrite_column_def keeps_args_def is_existing_wrapper_def plain_column_call_def bind_eq_Some_conv split: option.splits)

lemma keeps_args_plain: "keeps_args scope allow f \<Longrightarrow> bf_filter f = None \<and> bf_over f = None"
  by (auto simp: keeps_args_def is_existing_wrapper_def plain_column_call_def split: option.splits if_splits)

lemma rewrite_settled:
  "plan_all no_wildcard p \<Longrightarrow> fst (rewrite_query_plan c u (fst (rewrite_query_plan c u p))) = fst (rewrite_query_plan c u p)"
  "set_expr_all no_wildcard b \<Longrightarrow> fst (rewrite_set_expr c u (fst (rewrite_set_expr c u b))) = fst (rewrite_set_expr c u b)"
  "set_expr_all no_wildcard (BoundSetExpr.Select s) \<Longrightarrow> fst (rewrite_select c u (fst (rewrite_select c u s))) = fst (rewrite_select c u s)"
  "item_ok no_wildcard i \<Longrightarrow> \<exists>j. fst (rewrite_projection_item c u sc i) = [j] \<and> fst (rewrite_projection_item c u sc j) = [j]"
  "table_ok no_wildcard t \<Longrightarrow>
     fst (rewrite_table_with_joins c u (fst (rewrite_table_with_joins c u t))) = fst (rewrite_table_with_joins c u t)"
  "relation_all no_wildcard r \<Longrightarrow> fst (rewrite_relation c u (fst (rewrite_relation c u r))) = fst (rewrite_relation c u r)"
  "order_ok no_wildcard k \<Longrightarrow>
     fst (rewrite_order_by_expr c u scope allow (fst (rewrite_order_by_expr c u scope allow k))) = fst (rewrite_order_by_expr c u scope allow k)"
  "expr_all no_wildcard e \<Longrightarrow> fst (rewrite_expr c u scope allow (fst (rewrite_expr c u scope allow e))) = fst (rewrite_expr c u scope allow e)"
  "pred_BoundFunctionCall (expr_all no_wildcard) f \<Longrightarrow>
     fst (rewrite_function c u scope allow node (fst (rewrite_function c u scope allow node f))) = fst (rewrite_function c u scope allow node f)"
  "pred_BoundWindowSpec (expr_all no_wildcard) w \<Longrightarrow>
     fst (rewrite_window c u scope (fst (rewrite_window c u scope w))) = fst (rewrite_window c u scope w)"
proof (induction c u p and c u b and c u s and c u sc i and c u t and c u r and c u scope allow k and c u scope allow e
    and c u scope allow node f and c u scope w
    rule: rewrite_query_plan_rewrite_set_expr_rewrite_select_rewrite_projection_item_rewrite_table_with_joins_rewrite_relation_rewrite_order_by_expr_rewrite_expr_rewrite_function_rewrite_window.induct)
  case (1 c u node ctes body order_by limit offset clauses schema)
  then show ?case
    by (auto simp: list_all_iff option.pred_set intro!: map_option_settled)
next
  case (5 c u distinct' projection tables selection group_by having schema node)
  then have tables: "map (\<lambda>x. fst (rewrite_table_with_joins c u (fst (rewrite_table_with_joins c u x)))) tables =
      map (\<lambda>x. fst (rewrite_table_with_joins c u x)) tables"
    by (simp add: list_all_iff)
  have items: "concat (map (\<lambda>x. fst (rewrite_projection_item c u sc x)) (concat (map (\<lambda>x. fst (rewrite_projection_item c u sc x)) projection))) =
      concat (map (\<lambda>x. fst (rewrite_projection_item c u sc x)) projection)"
    if "sc = scope_from_from_clause (map (\<lambda>x. fst (rewrite_table_with_joins c u x)) tables) c" for sc
    by (rule concat_map_settled) (use 5 that in \<open>simp add: list_all_iff\<close>)
  show ?case
    using 5 by (auto simp: list_all_iff option.pred_set tables items comp_def settled_arrow intro!: map_option_settled)
next
  case (6 c u scope details)
  then show ?case by (simp add: pred_BoundProjectionExpr_sel settled_arrow_item)
next
  case (9 c u relation joins node)
  then show ?case by (auto simp: table_all_iff list_all_iff option.pred_set intro!: map_option_settled)
next
  case (15 c u scope allow column data_type nullable node)
  show ?case by (rule rewrite_column_settled)
next
  case (33 c u scope allow node f backend_name args distinct' filter' over signature_name)
  let ?f = "BoundFunctionCall f backend_name args distinct' filter' over signature_name"
  show ?case
  proof (cases "keeps_args scope allow ?f")
    case True
    with keeps_args_plain[OF True] show ?thesis by simp
  next
    case False
    have "map (\<lambda>x. fst (rewrite_expr c u scope allow (fst (rewrite_expr c u scope allow x)))) args = map (\<lambda>x. fst (rewrite_expr c u scope allow x)) args"
      "map_option (\<lambda>x. fst (rewrite_expr c u scope False x)) (map_option (\<lambda>x. fst (rewrite_expr c u scope False x)) filter') =
        map_option (\<lambda>x. fst (rewrite_expr c u scope False x)) filter'"
      "map_option (\<lambda>x. fst (rewrite_window c u scope x)) (map_option (\<lambda>x. fst (rewrite_window c u scope x)) over) =
        map_option (\<lambda>x. fst (rewrite_window c u scope x)) over"
      using 33 False by (auto simp: list_all_iff option.pred_set intro!: map_option_settled)
    with False show ?thesis by (simp add: comp_def)
  qed
qed (auto simp: list_all_iff option.pred_set intro!: map_option_settled)

section \<open>Merged states\<close>

text \<open>
  Whether an expression reads an aggregate state of the select's relations outside its merge function, in
  arguments, FILTER conditions and windows. A subquery has a scope of its own and is looked at as a select.
\<close>

function leaves_state :: "SelectScope \<Rightarrow> BoundExpr \<Rightarrow> bool" where
  "leaves_state scope (BoundExpr kind data_type nullable node) =
     (case kind of
        BoundExprKind.Column column \<Rightarrow> resolve_wrapper scope (bcr_relation column) (bcr_name column) \<noteq> None
      | BoundExprKind.Function f \<Rightarrow>
          \<not> is_existing_wrapper f scope \<and>
          (list_ex (leaves_state scope) (bf_args f) \<or> any_option (leaves_state scope) (bf_filter f) \<or>
           any_option (\<lambda>w. list_ex (leaves_state scope) (bw_partition_by w) \<or>
             list_ex (\<lambda>k. leaves_state scope (bo_expr k)) (bw_order_by w)) (bf_over f))
      | BoundExprKind.Unary op e \<Rightarrow> leaves_state scope e
      | BoundExprKind.Cast e t \<Rightarrow> leaves_state scope e
      | BoundExprKind.IsNull e negated \<Rightarrow> leaves_state scope e
      | BoundExprKind.InSubquery e q negated \<Rightarrow> leaves_state scope e
      | BoundExprKind.Binary op left right \<Rightarrow> leaves_state scope left \<or> leaves_state scope right
      | BoundExprKind.Case operand when_then else_result \<Rightarrow>
          any_option (leaves_state scope) operand \<or>
          list_ex (\<lambda>branch. leaves_state scope (bwt_condition branch) \<or> leaves_state scope (bwt_result branch)) when_then \<or>
          any_option (leaves_state scope) else_result
      | BoundExprKind.Between e low high negated \<Rightarrow> leaves_state scope e \<or> leaves_state scope low \<or> leaves_state scope high
      | BoundExprKind.InList e items negated \<Rightarrow> leaves_state scope e \<or> list_ex (leaves_state scope) items
      | BoundExprKind.Like e pattern negated case_insensitive \<Rightarrow> leaves_state scope e \<or> leaves_state scope pattern
      | BoundExprKind.Tuple items \<Rightarrow> list_ex (leaves_state scope) items
      | BoundExprKind.Array items \<Rightarrow> list_ex (leaves_state scope) items
      | _ \<Rightarrow> False)"
  by pat_completeness auto
termination
  by (relation "measure (\<lambda>(_, e). size e)") (auto simp: size_bound_render_parts dest: render_size_dests)

text \<open>Function calls with neither FILTER nor OVER: there columns are rewritten without merge functions.\<close>

fun plain_call :: "BoundNode \<Rightarrow> bool" where
  "plain_call (ExprNode (BoundExpr (BoundExprKind.Function f) _ _ _)) \<longleftrightarrow> bf_filter f = None \<and> bf_over f = None"
| "plain_call _ = True"

lemma rewrite_expr_merges:
  "expr_all plain_call e \<Longrightarrow> \<not> leaves_state scope (fst (rewrite_expr c u (Some scope) True e))"
proof (induction scope e rule: leaves_state.induct)
  case (1 scope kind data_type nullable node)
  show ?case
  proof (cases kind)
    case (Column column)
    then show ?thesis
      by (auto simp: rewrite_column_def is_existing_wrapper_def plain_column_call_def split: option.splits)
  next
    case (Function f)
    with "1.prems" have plain: "bf_filter f = None" "bf_over f = None" and args: "\<And>a. a \<in> set (bf_args f) \<Longrightarrow> expr_all plain_call a"
      by (cases f; simp add: list_all_iff)+
    show ?thesis
    proof (cases "is_existing_wrapper f scope")
      case True
      with plain Function show ?thesis by (cases f) (simp add: keeps_args_def)
    next
      case False
      with Function 1 plain args show ?thesis by (cases f) (auto simp: keeps_args_def list_ex_iff)
    qed
  next
    case (Case operand when_then else_result)
    with 1 show ?thesis
      by (cases operand; cases else_result; fastforce simp: list_ex_iff list_all_iff BoundWhenThen.pred_set)
  qed (use 1 in \<open>auto simp: list_ex_iff list_all_iff\<close>)
qed

lemma leaves_state_to_string [simp]: "leaves_state scope (to_string_call e) \<longleftrightarrow> leaves_state scope e"
  using to_string_not_wrapper by (simp add: to_string_call_def)

definition clickhouse_function :: "Catalog \<Rightarrow> FunctionRef \<Rightarrow> bool" where
  "clickhouse_function catalog f \<longleftrightarrow>
     (case cat_resolve_function catalog (fr_namespace f) (fr_name f) of
        Some signature \<Rightarrow> backend_mapping signature ''clickhouse'' \<noteq> None
      | None \<Rightarrow> False)"

lemma clickhouse_supported:
  "supports ClickHouse_capabilities BackendFeature.ApproximateAggregates"
  "supports ClickHouse_capabilities BackendFeature.NamespacedFunctions"
  "uuid_arrow_workaround_enabled"
  by code_simp+

lemma function_diagnostics_clickhouse:
  "list_ex is_error (concat (map (function_diagnostics catalog ''clickhouse'' ClickHouse_capabilities) fs)) \<longleftrightarrow>
     \<not> list_all (clickhouse_function catalog) fs"
proof -
  have "list_ex is_error (function_diagnostics catalog ''clickhouse'' ClickHouse_capabilities f) \<longleftrightarrow> \<not> clickhouse_function catalog f" for f
    by (auto simp: function_diagnostics_def clickhouse_function_def clickhouse_supported split: option.split)
  then show ?thesis by (induction fs) simp_all
qed

lemma analysis_diagnostics_advisory: "\<not> list_ex is_error (analysis_diagnostics s)"
proof -
  have "\<not> list_ex is_error (wrap_diagnostics seen es)" for seen es
    by (induction es arbitrary: seen)
      (auto simp: wrap_diagnostic_def is_error_def with_node_id_def QueryDiagnostic_note_def)
  then show ?thesis
    by (auto simp: analysis_diagnostics_def list_ex_iff near_miss_diagnostic_def is_error_def with_node_id_def QueryDiagnostic_warning_def)
qed

text \<open>A select whose projections and HAVING condition read aggregate states only through their merge functions.\<close>

definition states_merged :: "Catalog \<Rightarrow> (BoundExpr, BoundRelation) BoundSelect \<Rightarrow> bool" where
  "states_merged catalog s \<longleftrightarrow>
     (let scope = scope_from_from_clause (bsel_from s) catalog
      in list_all (\<lambda>d. \<not> leaves_state scope (bpe_expr d)) (item_details (bsel_projection s)) \<and>
         pred_option (\<lambda>e. \<not> leaves_state scope e) (bsel_having s))"

fun merged_node :: "Catalog \<Rightarrow> BoundNode \<Rightarrow> bool" where
  "merged_node catalog (SetNode (BoundSetExpr.Select s)) = states_merged catalog s"
| "merged_node catalog _ = True"

definition mergeable :: "BoundNode \<Rightarrow> bool" where
  "mergeable n \<longleftrightarrow> no_wildcard n \<and> plain_call n"

lemma mergeable_simps [simp]:
  "mergeable (PlanNode p)" "mergeable (CteNode cte)" "mergeable (SetNode b)" "mergeable (RelationNode r)"
  "mergeable (ItemNode i) \<longleftrightarrow> no_wildcard (ItemNode i)" "mergeable (ExprNode e) \<longleftrightarrow> plain_call (ExprNode e)"
  by (simp_all add: mergeable_def)

lemma rewrite_select_merges:
  assumes "set_expr_all mergeable (BoundSetExpr.Select s)"
  shows "states_merged c (fst (rewrite_select c u s))"
proof -
  obtain distinct' projection tables selection group_by having schema node
    where s: "s = BoundSelect distinct' projection tables selection group_by having schema node" by (cases s)
  let ?scope = "scope_from_from_clause (map (\<lambda>t. fst (rewrite_table_with_joins c u t)) tables) c"
  have plain: "expr_all plain_call e" if "expr_all mergeable e" for e
    using that by (rule all_nodes_mono(4)) (simp add: mergeable_def)
  have "list_all (\<lambda>d. \<not> leaves_state ?scope (bpe_expr d)) (item_details (fst (rewrite_projection_item c u ?scope i)))"
    if "item_ok mergeable i" for i
    using that
    by (cases i) (auto simp: rewrite_expr_merges plain pred_BoundProjectionExpr_sel arrow_item_def BoundProjectionItem_expr_def
        BoundProjectionItem_as_expr_def rewrite_uuid_arrow_expr_def List.map_filter_def)
  with assms show ?thesis
    by (auto simp: states_merged_def Let_def s list_all_iff item_details_concat option.pred_set rewrite_expr_merges plain)
qed

lemma merged_arrow: "expr_all (merged_node c) (fst (rewrite_uuid_arrow_expr e u)) \<longleftrightarrow> expr_all (merged_node c) e"
  by (simp add: rewrite_uuid_arrow_expr_def to_string_call_def)

lemma merged_arrow_item:
  "pred_BoundProjectionItem (expr_all (merged_node c)) (arrow_item u e alias' field node) \<longleftrightarrow> expr_all (merged_node c) e"
  using merged_arrow[of c e u]
  by (cases "rewrite_uuid_arrow_expr e u") (simp add: arrow_item_def BoundProjectionItem_expr_def pred_BoundProjectionExpr_sel)

lemma keeps_args_merged: "keeps_args scope allow f \<Longrightarrow> list_all (expr_all (merged_node c)) (bf_args f)"
proof -
  assume "keeps_args scope allow f"
  then obtain a column where "bf_args f = [a]" "bx_kind a = BoundExprKind.Column column"
    by (auto simp: keeps_args_def is_existing_wrapper_def plain_column_call_def
        split: option.splits list.splits BoundExprKind.splits if_splits)
  then show ?thesis by (cases a) simp
qed

lemma rewrite_merges:
  "plan_all mergeable p \<Longrightarrow> plan_all (merged_node c) (fst (rewrite_query_plan c u p))"
  "set_expr_all mergeable b \<Longrightarrow> set_expr_all (merged_node c) (fst (rewrite_set_expr c u b))"
  "set_expr_all mergeable (BoundSetExpr.Select s) \<Longrightarrow> set_expr_all (merged_node c) (BoundSetExpr.Select (fst (rewrite_select c u s)))"
  "item_ok mergeable i \<Longrightarrow> list_all (item_ok (merged_node c)) (fst (rewrite_projection_item c u sc i))"
  "table_ok mergeable t \<Longrightarrow> table_ok (merged_node c) (fst (rewrite_table_with_joins c u t))"
  "relation_all mergeable r \<Longrightarrow> relation_all (merged_node c) (fst (rewrite_relation c u r))"
  "order_ok mergeable k \<Longrightarrow> order_ok (merged_node c) (fst (rewrite_order_by_expr c u scope allow k))"
  "expr_all mergeable e \<Longrightarrow> expr_all (merged_node c) (fst (rewrite_expr c u scope allow e))"
  "pred_BoundFunctionCall (expr_all mergeable) f \<Longrightarrow>
     pred_BoundFunctionCall (expr_all (merged_node c)) (fst (rewrite_function c u scope allow node f))"
  "pred_BoundWindowSpec (expr_all mergeable) w \<Longrightarrow> pred_BoundWindowSpec (expr_all (merged_node c)) (fst (rewrite_window c u scope w))"
proof (induction c u p and c u b and c u s and c u sc i and c u t and c u r and c u scope allow k and c u scope allow e
    and c u scope allow node f and c u scope w
    rule: rewrite_query_plan_rewrite_set_expr_rewrite_select_rewrite_projection_item_rewrite_table_with_joins_rewrite_relation_rewrite_order_by_expr_rewrite_expr_rewrite_function_rewrite_window.induct)
  case (5 c u distinct' projection tables selection group_by having schema node)
  from rewrite_select_merges[OF "5.prems", of c u] 5 show ?case
    by (auto simp: list_all_iff option.pred_set merged_arrow)
next
  case (6 c u scope details)
  then show ?case by (simp add: pred_BoundProjectionExpr_sel merged_arrow_item)
next
  case (9 c u relation joins node)
  then show ?case by (auto simp: table_all_iff list_all_iff option.pred_set)
next
  case (15 c u scope allow column data_type nullable node)
  then show ?case by (auto simp: rewrite_column_def split: option.split)
next
  case (33 c u scope allow node f backend_name args distinct' filter' over signature_name)
  then show ?case
    using keeps_args_merged[of scope allow "BoundFunctionCall f backend_name args distinct' filter' over signature_name" c]
    by (cases "keeps_args scope allow (BoundFunctionCall f backend_name args distinct' filter' over signature_name)")
      (auto simp: list_all_iff option.pred_set)
qed (auto simp: list_all_iff option.pred_set)

text \<open>
  C11. Aggregate states are merged. Rewrite a plan that has no wildcards and no function calls with FILTER or OVER:
  in every select of the result, those of subqueries, CTEs and derived tables included, no projected expression and
  no HAVING condition reads a column of a materialized view in the FROM clause that holds aggregate states, except
  as the argument of its own merge function. WHERE, GROUP BY and ON conditions, which ClickHouse evaluates before
  it aggregates, are rewritten without merge functions and are not covered.
\<close>

theorem clickhouse_states_merged:
  assumes "plan_all no_wildcard plan" and "plan_all plain_call plan"
  shows "plan_all (\<lambda>n. case n of
      SetNode (BoundSetExpr.Select s) \<Rightarrow>
        (let scope = scope_from_from_clause (bsel_from s) catalog
         in list_all (\<lambda>d. \<not> leaves_state scope (bpe_expr d)) (item_details (bsel_projection s)) \<and>
            pred_option (\<lambda>e. \<not> leaves_state scope e) (bsel_having s))
    | _ \<Rightarrow> True) (fst (rewrite_query_plan catalog uuid plan))"
proof -
  have "plan_all mergeable plan"
    using all_nodes_conj(1)[OF assms] by (rule all_nodes_mono(1)) (simp add: mergeable_def)
  then have "plan_all (merged_node catalog) (fst (rewrite_query_plan catalog uuid plan))" by (rule rewrite_merges)
  then show ?thesis
    by (rule all_nodes_mono(1)) (auto simp: states_merged_def split: BoundNode.split BoundSetExpr.split)
qed

text \<open>
  C12. What the ClickHouse adapter accepts. It emits a statement exactly for queries with no error diagnostic that
  use only functions registered with a ClickHouse mapping and whose rewriting can be rendered: advice about
  materialized views never refuses a query. The artifact is that of the rewritten query, with the merged
  relations in its metadata.
\<close>

theorem clickhouse_emit_iff:
  "(let (rewritten, summary) = rewrite_query_for_clickhouse query catalog True;
        supported = (\<not> list_ex is_error (bq_diagnostics query) \<and>
          list_all (clickhouse_function catalog) (pf_functions (plan_features_from_bound catalog (bq_plan query))))
    in ClickHouse_emit query catalog =
      (if supported
       then map_sum id (\<lambda>artifact. Sql (case rewritten_to_metadata summary of
            Some relations \<Rightarrow> artifact\<lparr>sa_metadata := bt_insert ''clickhouse.rewritten_to'' relations (sa_metadata artifact)\<rparr>
          | None \<Rightarrow> artifact)) (emit_sql_artifact rewritten catalog ClickHouse)
       else Inl (UnsupportedFeature ''clickhouse-emission'' (diagnostic_summary (ba_diagnostics (ClickHouse_analyze query catalog))))))"
proof -
  have supported: "ba_supported (ClickHouse_analyze query catalog) \<longleftrightarrow>
      \<not> list_ex is_error (bq_diagnostics query) \<and>
      list_all (clickhouse_function catalog) (pf_functions (plan_features_from_bound catalog (bq_plan query)))"
    by (auto simp: ClickHouse_analyze_def analyze_backend_support_def Let_def clause_diagnostics_def
        function_diagnostics_clickhouse analysis_diagnostics_advisory)
  obtain rewritten summary where r: "rewrite_query_for_clickhouse query catalog True = (rewritten, summary)" by fastforce
  have "result_bind m (\<lambda>a. Inr (f a)) = map_sum id f m" for m :: "SqlArtifact result" and f :: "SqlArtifact \<Rightarrow> EmitArtifact"
    by (cases m) simp_all
  then show ?thesis
    by (simp add: ClickHouse_emit_def Let_def unsupported_def supported r clickhouse_supported(3))
qed

section \<open>The result schema\<close>

definition arrow_field :: "ResultField \<Rightarrow> ResultField \<Rightarrow> bool" where
  "arrow_field f g \<longleftrightarrow>
     rf_name g = rf_name f \<and> rf_nullable g = rf_nullable f \<and> rf_metadata g = rf_metadata f \<and>
     (rf_data_type g = rf_data_type f \<or> rf_data_type f = DataType.Uuid \<and> rf_data_type g = DataType.Utf8)"

lemma arrow_field_refl [simp]: "arrow_field f f"
  by (simp add: arrow_field_def)

lemma projection_fields_iff: "projection_fields items = concat (map item_fields items)"
proof -
  have "(case item of BoundProjectionItem.Expr details \<Rightarrow> [bpe_field details] | BoundProjectionItem.Wildcard _ fs _ \<Rightarrow> fs
      | BoundProjectionItem.Unsupported _ _ \<Rightarrow> []) = item_fields item" for item
    by (cases item) simp_all
  then show ?thesis by (simp add: projection_fields_def)
qed

lemma item_fields_arrow_item:
  "bx_data_type e = rf_data_type field \<Longrightarrow> \<exists>g. item_fields (arrow_item u e alias' field node) = [g] \<and> arrow_field field g"
  by (auto simp: arrow_item_def BoundProjectionItem_expr_def rewrite_uuid_arrow_expr_def arrow_field_def string_result_field_def)

lemma rewritten_query: "fst (rewrite_query_for_clickhouse q c u) = with_plan (fst (rewrite_query_plan c u (bq_plan q))) q"
  by (simp add: rewrite_query_for_clickhouse_def case_prod_unfold Let_def)

lemma list_all2_concat:
  "(\<And>x. x \<in> set xs \<Longrightarrow> list_all2 P (f x) (g x)) \<Longrightarrow> list_all2 P (concat (map f xs)) (concat (map g xs))"
  by (induction xs) (auto intro: list_all2_appendI)

lemma item_fields_rewritten:
  assumes "node_typed catalog (ItemNode i)"
  shows "list_all2 arrow_field (item_fields i) (concat (map item_fields (fst (rewrite_projection_item c u scope i))))"
proof (cases i)
  case (Expr d)
  then obtain g where "item_fields (arrow_item u (fst (rewrite_expr c u (Some scope) True (bpe_expr d))) (bpe_alias d) (bpe_field d) (bpe_node d)) = [g]"
      "arrow_field (bpe_field d) g"
    using assms item_fields_arrow_item[of "fst (rewrite_expr c u (Some scope) True (bpe_expr d))" "bpe_field d"] by fastforce
  with Expr show ?thesis by simp
next
  case (Wildcard qualifier fs node)
  show ?thesis
  proof (cases "target_binding_name scope qualifier")
    case None
    then show ?thesis
      by (simp add: Wildcard rewrite_wildcard_def expand_wildcard_projection_def list_all2_refl)
  next
    case (Some b)
    let ?item = "\<lambda>field. arrow_item u (BoundExpr (BoundExprKind.Column (BoundColumnRef (Some b) (rf_name field)))
      (rf_data_type field) (rf_nullable field) node) (Some (rf_name field)) field node"
    have "list_all2 arrow_field (concat (map (\<lambda>f. [f]) fs)) (concat (map (\<lambda>f. item_fields (?item f)) fs))"
    proof (rule list_all2_concat)
      fix f show "list_all2 arrow_field [f] (item_fields (?item f))"
        using item_fields_arrow_item[of "BoundExpr (BoundExprKind.Column (BoundColumnRef (Some b) (rf_name f)))
            (rf_data_type f) (rf_nullable f) node" f u "Some (rf_name f)" node] by auto
    qed
    then show ?thesis
      by (simp add: Wildcard Some rewrite_wildcard_def expand_wildcard_projection_def comp_def)
  qed
qed simp

text \<open>The result fields of the first select of a union, which name the columns of the union.\<close>

fun leftmost_fields :: "BoundSetExpr \<Rightarrow> ResultField list" where
  "leftmost_fields (BoundSetExpr.Select s) = rs_fields (bsel_result_schema s)"
| "leftmost_fields (BoundSetExpr.UnionAll left right node schema) = leftmost_fields left"
| "leftmost_fields (BoundSetExpr.Unsupported description node schema) = rs_fields schema"

lemma select_fields_rewritten:
  assumes "set_expr_all (node_typed catalog) (BoundSetExpr.Select s)"
  shows "list_all2 arrow_field (rs_fields (bsel_result_schema s)) (rs_fields (bsel_result_schema (fst (rewrite_select c u s))))"
proof -
  obtain distinct' projection tables selection group_by having schema node
    where s: "s = BoundSelect distinct' projection tables selection group_by having schema node" by (cases s)
  have typed: "rs_fields schema = concat (map item_fields projection)" "\<And>i. i \<in> set projection \<Longrightarrow> node_typed catalog (ItemNode i)"
    using assms by (auto simp: s list_all_iff)
  have "list_all2 arrow_field (concat (map item_fields projection))
      (concat (map (\<lambda>i. concat (map item_fields (fst (rewrite_projection_item c u scope i)))) projection))" for scope
    by (rule list_all2_concat) (rule item_fields_rewritten, rule typed(2))
  moreover have "concat (map item_fields (concat (map f xs))) = concat (map (\<lambda>i. concat (map item_fields (f i))) xs)"
    for f :: "BoundExpr BoundProjectionItem \<Rightarrow> BoundExpr BoundProjectionItem list" and xs
    by (induction xs) simp_all
  ultimately show ?thesis by (simp add: typed(1) s projection_fields_iff)
qed

lemma leftmost_fields_rewritten:
  "set_expr_all (node_typed catalog) b \<Longrightarrow>
     list_all2 arrow_field (leftmost_fields b) (rs_fields (BoundSetExpr_result_schema (fst (rewrite_set_expr c u b))))"
  by (induction b rule: leftmost_fields.induct) (simp_all add: select_fields_rewritten list_all2_refl)

lemma leftmost_names:
  "set_expr_all (node_typed catalog) b \<Longrightarrow>
     list_all2 (\<lambda>f g. rf_name g = rf_name f \<and> rf_metadata g = rf_metadata f \<and> (rf_nullable g \<longrightarrow> rf_nullable f))
       (rs_fields (BoundSetExpr_result_schema b)) (leftmost_fields b)"
proof (induction b rule: leftmost_fields.induct)
  case (2 left right node schema)
  then show ?case by (auto simp: list_all2_conv_all_nth unify_field_def)
qed (simp_all add: list_all2_refl)

text \<open>
  C13. Rewriting keeps the shape of the result. The rewritten query has as many result fields as the bound query, with
  the same names and metadata in the same order, and none of them may be NULL that could not be before. If the
  query is a single select, nullability is the same too, and each type is the same or a UUID has become a string;
  for a union that holds relative to the fields of its first select, because the rewriting gives the union the
  schema of its left branch.
\<close>

theorem clickhouse_schema_preserved:
  assumes "bind_and_validate blake3_hex parsed catalog parameters = Inr q"
  shows "let before = rs_fields (bq_result_schema q);
      after = rs_fields (bq_result_schema (fst (rewrite_query_for_clickhouse q catalog uuid)))
    in list_all2 (\<lambda>f g. rf_name g = rf_name f \<and> rf_metadata g = rf_metadata f \<and> (rf_nullable g \<longrightarrow> rf_nullable f)) before after \<and>
       list_all2 arrow_field (leftmost_fields (bp_body (bq_plan q))) after \<and>
       (\<forall>s. bp_body (bq_plan q) = BoundSetExpr.Select s \<longrightarrow> list_all2 arrow_field before after)"
proof -
  obtain t where t: "plan_all (node_ok catalog t) (bq_plan q)" "\<not> has_error t" "bq_result_schema q = bp_result_schema (bq_plan q)"
    by (rule bind_and_validate_Inr[OF assms(1)]) (auto simp: has_error_def)
  then have "plan_all (node_typed catalog) (bq_plan q)" by (intro all_nodes_mono(1)[OF t(1)]) (simp add: node_ok_def)
  then have typed: "set_expr_all (node_typed catalog) (bp_body (bq_plan q))"
    and before: "bq_result_schema q = BoundSetExpr_result_schema (bp_body (bq_plan q))"
    using t(3) by (cases "bq_plan q"; simp)+
  have "bp_result_schema (fst (rewrite_query_plan catalog uuid p)) =
      BoundSetExpr_result_schema (fst (rewrite_set_expr catalog uuid (bp_body p)))" for p
    by (cases p) simp
  then have after: "list_all2 arrow_field (leftmost_fields (bp_body (bq_plan q)))
      (rs_fields (bq_result_schema (fst (rewrite_query_for_clickhouse q catalog uuid))))"
    using leftmost_fields_rewritten[OF typed] by (simp add: rewritten_query with_plan_def)
  have "list_all2 (\<lambda>f g. rf_name g = rf_name f \<and> rf_metadata g = rf_metadata f \<and> (rf_nullable g \<longrightarrow> rf_nullable f))
      (rs_fields (bq_result_schema q)) (rs_fields (bq_result_schema (fst (rewrite_query_for_clickhouse q catalog uuid))))"
    unfolding before by (rule list_all2_trans[OF _ leftmost_names[OF typed] after]) (simp add: arrow_field_def)
  with after show ?thesis by (auto simp: Let_def before)
qed

theorem clickhouse_schema_preserved_witness:
  "list_all2 arrow_field (rs_fields (bq_result_schema example_bound))
     (rs_fields (bq_result_schema (fst (rewrite_query_for_clickhouse example_bound example_catalog True))))"
proof -
  have "\<not> Option.is_none (BoundSetExpr_as_select (bp_body (bq_plan example_bound)))" by code_simp
  then obtain s where s: "bp_body (bq_plan example_bound) = BoundSetExpr.Select s"
    by (auto simp: Option.is_none_def BoundSetExpr_as_select_def split: BoundSetExpr.splits)
  show ?thesis
    using clickhouse_schema_preserved[OF example_binds, of True] s by (simp add: Let_def example_bound_def)
qed

section \<open>A materialized view\<close>

definition mv_relation :: RelationSchema where
  "mv_relation =
     \<lparr>rel_namespace = None, rel_name = ''mv'', rel_aliases = [], rel_kind = RelationKind.MaterializedView,
      rel_columns =
        [\<lparr>cs_name = ''id'', cs_data_type = DataType.Uuid, cs_nullable = False, cs_metadata = FieldMetadata_default\<rparr>,
         \<lparr>cs_name = ''n'', cs_data_type = DataType.Int64, cs_nullable = False,
          cs_metadata = FieldMetadata_default\<lparr>fm_extensions := [(''clickhouse.mv.merge_fn'', ''countMerge'')]\<rparr>\<rparr>],
      rel_metadata = []\<rparr>"

definition mv_catalog :: Catalog where
  "mv_catalog = memory_catalog (register_relation mv_relation MemoryCatalog_default)"

definition mv_items :: "SyntaxExpr SyntaxProjectionItem list \<Rightarrow> SyntaxQuery" where
  "mv_items items =
     SyntaxQuery example_node [] False
       (SyntaxSetExpr.Select (SyntaxSelect False items
          [SyntaxTableWithJoins (SyntaxRelation.Table (NameRef None ''mv'') None example_node) [] example_node]
          None [] None example_node)) [] None None []"

definition mv_column :: "string \<Rightarrow> SyntaxExpr SyntaxProjectionItem" where
  "mv_column name = SyntaxProjectionItem_expr (SyntaxExpr (SyntaxExprKind.Column None name) example_node) None example_node"

definition mv_bound :: "SyntaxExpr SyntaxProjectionItem list \<Rightarrow> BoundQuery" where
  "mv_bound items = projr (bind_and_validate id (example_query (mv_items items)) mv_catalog QueryParameters_default)"

definition emitted_text :: "BoundQuery \<Rightarrow> Catalog \<Rightarrow> string" where
  "emitted_text query catalog = sa_text (the (EmitArtifact_as_sql (projr (ClickHouse_emit query catalog))))"

lemma mv_emitted: "emitted_text (mv_bound [mv_column ''id'', mv_column ''n'']) mv_catalog = ''SELECT toString(mv.id) AS id, countMerge(mv.n) FROM mv''"
  by code_simp

text \<open>
  A rewritten query without wildcards is not rewritten again: merge functions and string conversions are
  recognised and never applied twice.
\<close>

theorem clickhouse_rewrite_idempotent:
  assumes "plan_all no_wildcard (bq_plan q)"
  shows "fst (rewrite_query_for_clickhouse (fst (rewrite_query_for_clickhouse q catalog uuid)) catalog uuid) =
    fst (rewrite_query_for_clickhouse q catalog uuid)"
  using rewrite_settled(1)[OF assms] by (simp add: rewritten_query with_plan_def)

theorem clickhouse_rewrite_idempotent_witness:
  "let q = mv_bound [mv_column ''id'', mv_column ''n'']; rewrite = \<lambda>q. fst (rewrite_query_for_clickhouse q mv_catalog True)
   in rewrite (rewrite q) = rewrite q"
proof -
  have "plan_all no_wildcard (bq_plan (mv_bound [mv_column ''id'', mv_column ''n'']))" by code_simp simp
  from clickhouse_rewrite_idempotent[OF this] show ?thesis by (simp add: Let_def)
qed

definition top_select :: "BoundQuery \<Rightarrow> (BoundExpr, BoundRelation) BoundSelect" where
  "top_select q = the (BoundSetExpr_as_select (bp_body (bq_plan q)))"

theorem clickhouse_states_merged_witness:
  "plan_all (merged_node mv_catalog) (fst (rewrite_query_plan mv_catalog True (bq_plan (mv_bound [mv_column ''id'', mv_column ''n'']))))"
proof -
  have "plan_all no_wildcard (bq_plan (mv_bound [mv_column ''id'', mv_column ''n'']))" by code_simp simp
  moreover have "plan_all plain_call (bq_plan (mv_bound [mv_column ''id'', mv_column ''n'']))" by code_simp simp
  ultimately show ?thesis
    by (rule all_nodes_mono(1)[OF clickhouse_states_merged[of _ mv_catalog True]])
      (auto simp: states_merged_def split: BoundNode.splits BoundSetExpr.splits)
qed

text \<open>
  C39. Wildcards are not merged. If a select has a wildcard that the rewriting expands and one of its fields is an
  aggregate state, then the rewritten select reads that state without its merge function, where the same column
  written out is merged.
\<close>

theorem clickhouse_wildcard_reads_state:
  assumes scope: "scope = scope_from_from_clause (bsel_from (fst (rewrite_select catalog uuid s))) catalog"
    and wildcard: "BoundProjectionItem.Wildcard qualifier fs n \<in> set (bsel_projection s)"
    and expanded: "target_binding_name scope qualifier = Some b"
    and state: "f \<in> set fs" "resolve_wrapper scope (Some b) (rf_name f) \<noteq> None"
  shows "\<exists>d \<in> set (item_details (bsel_projection (fst (rewrite_select catalog uuid s)))).
    bpe_alias d = Some (rf_name f) \<and> leaves_state scope (bpe_expr d)"
proof -
  let ?e = "BoundExpr (BoundExprKind.Column (BoundColumnRef (Some b) (rf_name f))) (rf_data_type f) (rf_nullable f) n"
  let ?item = "arrow_item uuid ?e (Some (rf_name f)) f n"
  have "?item \<in> set (fst (rewrite_projection_item catalog uuid scope (BoundProjectionItem.Wildcard qualifier fs n)))"
    using expanded state(1) by (simp add: rewrite_wildcard_def expand_wildcard_projection_def)
  then have item: "?item \<in> set (bsel_projection (fst (rewrite_select catalog uuid s)))"
    using wildcard scope by (cases s) (auto simp del: rewrite_projection_item.simps)
  obtain d where d: "?item = BoundProjectionItem.Expr d" "bpe_alias d = Some (rf_name f)" "leaves_state scope (bpe_expr d)"
    using state(2) that
    by (cases "rewrite_uuid_arrow_expr ?e uuid")
      (auto simp: arrow_item_def BoundProjectionItem_expr_def rewrite_uuid_arrow_expr_def split: if_splits)
  from item d(1) have "d \<in> set (item_details (bsel_projection (fst (rewrite_select catalog uuid s))))"
    by (force simp: List.map_filter_def BoundProjectionItem_as_expr_def)
  with d show ?thesis by blast
qed

text \<open>\<^verbatim>\<open>SELECT *\<close> and \<^verbatim>\<open>SELECT id, n\<close> over the materialized view, as they are emitted.\<close>

lemma mv_wildcard_emitted:
  "emitted_text (mv_bound [SyntaxProjectionItem.Wildcard None example_node]) mv_catalog = ''SELECT toString(mv.id) AS id, mv.n AS n FROM mv''"
  by code_simp

theorem clickhouse_wildcard_reads_state_witness:
  "list_ex (\<lambda>d. bpe_alias d = Some ''n'')
     (item_details (bsel_projection (fst (rewrite_select mv_catalog True (top_select (mv_bound [SyntaxProjectionItem.Wildcard None example_node]))))))"
proof -
  let ?s = "top_select (mv_bound [SyntaxProjectionItem.Wildcard None example_node])"
  let ?n = "ResultField ''n'' DataType.Int64 False (FieldMetadata_default\<lparr>fm_extensions := [(''clickhouse.mv.merge_fn'', ''countMerge'')]\<rparr>)"
  let ?fs = "[ResultField ''id'' DataType.Uuid False FieldMetadata_default, ?n]"
  let ?scope = "scope_from_from_clause (bsel_from (fst (rewrite_select mv_catalog True ?s))) mv_catalog"
  have "BoundProjectionItem.Wildcard None ?fs example_node \<in> set (bsel_projection ?s)" by code_simp
  moreover have "target_binding_name ?scope None = Some ''mv''" by code_simp
  moreover have "?n \<in> set ?fs" by simp
  moreover have "resolve_wrapper ?scope (Some ''mv'') (rf_name ?n) \<noteq> None" by code_simp
  ultimately have "\<exists>d \<in> set (item_details (bsel_projection (fst (rewrite_select mv_catalog True ?s)))).
      bpe_alias d = Some (rf_name ?n) \<and> leaves_state ?scope (bpe_expr d)"
    by (rule clickhouse_wildcard_reads_state[OF refl])
  then show ?thesis by (auto simp: list_ex_iff)
qed

section \<open>Unions and subqueries\<close>

definition literal_select :: "LiteralValue \<Rightarrow> SyntaxSetExpr" where
  "literal_select v =
     SyntaxSetExpr.Select (SyntaxSelect False
       [SyntaxProjectionItem_expr (SyntaxExpr (SyntaxExprKind.Literal v) example_node) (Some ''x'') example_node]
       [] None [] None example_node)"

definition union_bound :: BoundQuery where
  "union_bound =
     projr (bind_and_validate id
       (example_query (SyntaxQuery example_node [] False
          (SyntaxSetExpr.UnionAll (literal_select (LiteralValue.Int64 1)) (literal_select LiteralValue.Null) example_node) [] None None []))
       example_catalog QueryParameters_default)"

text \<open>
  The schema of a union is narrowed. The binder gives \<^verbatim>\<open>SELECT 1 AS x UNION ALL SELECT NULL AS x\<close> a nullable
  column, but the rewriting replaces the schema of the union by that of its left branch, so the artifact
  declares the column as never NULL.
\<close>

theorem clickhouse_union_schema_narrowed:
  "map rf_nullable (rs_fields (bq_result_schema union_bound)) = [True] \<and>
   map rf_nullable (rs_fields (bq_result_schema (fst (rewrite_query_for_clickhouse union_bound example_catalog True)))) = [False]"
  by (intro conjI; code_simp)

text \<open>\<^verbatim>\<open>SELECT record_id FROM records\<close>, alone and with a condition.\<close>

definition record_id_expr :: BoundExpr where
  "record_id_expr = BoundExpr (BoundExprKind.Column (BoundColumnRef (Some ''records'') ''record_id'')) DataType.Uuid False example_node"

definition record_ids :: "BoundExpr option \<Rightarrow> (BoundExpr, BoundRelation) BoundSelect" where
  "record_ids selection =
     BoundSelect False
       [BoundProjectionItem_expr record_id_expr None (ResultField_new ''record_id'' DataType.Uuid False) example_node]
       [BoundTableWithJoins (BoundRelation.Table
          \<lparr>rb_binding_name = ''records'', rb_relation_name = Some (NameRef None ''records''),
           rb_schema = to_result_schema example_relation\<rparr> example_node) [] example_node]
       selection [] None (ResultSchema_new [ResultField_new ''record_id'' DataType.Uuid False]) example_node"

definition in_subquery_select :: "(BoundExpr, BoundRelation) BoundSelect" where
  "in_subquery_select =
     record_ids (Some (BoundExpr (BoundExprKind.InSubquery record_id_expr
       (BoundQueryPlan example_node [] (BoundSetExpr.Select (record_ids None)) [] None None []
         (bsel_result_schema (record_ids None))) False) DataType.Boolean False example_node))"

definition subquery_types :: "(BoundExpr, BoundRelation) BoundSelect \<Rightarrow> (DataType \<times> DataType list) option" where
  "subquery_types s =
     (case bsel_selection s of
        Some (BoundExpr (BoundExprKind.InSubquery e q _) _ _ _) \<Rightarrow>
          Some (bx_data_type e, map rf_data_type (rs_fields (bp_result_schema q)))
      | _ \<Rightarrow> None)"

text \<open>
  Subqueries are converted too. The conversion of UUID outputs to strings is meant for results that leave the
  database, but it is applied to every select: in \<^verbatim>\<open>record_id IN (SELECT record_id FROM records)\<close> a UUID column is
  then compared with a subquery of strings.
\<close>

theorem clickhouse_uuid_subquery_mismatch:
  "subquery_types in_subquery_select = Some (DataType.Uuid, [DataType.Uuid]) \<and>
   subquery_types (fst (rewrite_select example_catalog True in_subquery_select)) = Some (DataType.Uuid, [DataType.Utf8])"
  by (intro conjI; code_simp)

end
