(* ===== verification/QF_ClickHouse_Cost.thy ===== *)
theory QF_ClickHouse_Cost
  imports QF_ClickHouse
begin

text \<open>
  The cost estimator of the ClickHouse adapter: \<^verbatim>\<open>crates/queryfabric-adapter-clickhouse/src/cost.rs\<close>. The
  statistics a catalog answers (its \<^verbatim>\<open>relation_statistics\<close> method) are a parameter.
\<close>

section \<open>Relations\<close>

datatype CostEstimateError = Unsupported | MissingStatistics string | Backend string

type_synonym statistics = "string option \<Rightarrow> string \<Rightarrow> RelationStatistics option"

record RelationCostContext =
  cc_namespace :: "string option"
  cc_name :: string
  cc_binding_name :: string
  cc_estimated_rows :: u64
  cc_average_row_bytes :: u64
  cc_partition_columns :: "string list"
  cc_partition_count :: u32

definition partition_columns :: "RelationSchema \<Rightarrow> string list" where
  "partition_columns relation =
     (case (case bt_get (rel_metadata relation) ''partition_columns'' of
              Some v \<Rightarrow> Some v
            | None \<Rightarrow> bt_get (rel_metadata relation) ''partition_column'') of
        Some v \<Rightarrow>
          bs_extend [] (map to_ascii_lowercase (filter (\<lambda>n. n \<noteq> []) (map trim (split_char (CHR '','') v))))
      | None \<Rightarrow> [])"

definition relation_partition_count :: "RelationSchema \<Rightarrow> u32" where
  "relation_partition_count relation =
     max (case metadata_u32 (rel_metadata relation) [''partition_count''] of Some n \<Rightarrow> n | None \<Rightarrow> 1) 1"

definition table_cost_context :: "Catalog \<Rightarrow> statistics \<Rightarrow> BoundRelationBinding \<Rightarrow> CostEstimateError + RelationCostContext" where
  "table_cost_context catalog statistics binding =
     result_bind
       (ok_or (MissingStatistics (''table binding '' @ rb_binding_name binding @ '' has no relation name''))
          (rb_relation_name binding)) (\<lambda>relation_name.
     result_bind
       (ok_or (MissingStatistics (NameRef_display_name relation_name))
          (statistics (nr_namespace relation_name) (nr_name relation_name))) (\<lambda>stats.
     result_bind
       (ok_or (MissingStatistics (NameRef_display_name relation_name))
          (cat_resolve_relation catalog (nr_namespace relation_name) (nr_name relation_name))) (\<lambda>schema.
     Inr \<lparr>cc_namespace = nr_namespace relation_name, cc_name = nr_name relation_name,
           cc_binding_name = rb_binding_name binding, cc_estimated_rows = st_estimated_rows stats,
           cc_average_row_bytes = st_average_row_bytes stats, cc_partition_columns = partition_columns schema,
           cc_partition_count = relation_partition_count schema\<rparr>)))"

text \<open>The lists of a sequence of visits, in order, up to the first failure.\<close>

definition collect_all :: "('a \<Rightarrow> 'e + 'b list) \<Rightarrow> 'a list \<Rightarrow> 'e + 'b list" where
  "collect_all f xs = result_bind (result_collect f xs) (\<lambda>yss. Inr (concat yss))"

definition collect_both :: "'e + 'b list \<Rightarrow> 'e + 'b list \<Rightarrow> 'e + 'b list" where
  "collect_both m n = result_bind m (\<lambda>xs. result_bind n (\<lambda>ys. Inr (xs @ ys)))"

lemma collect_all_cong [fundef_cong]:
  "xs = ys \<Longrightarrow> (\<And>x. x \<in> set ys \<Longrightarrow> f x = g x) \<Longrightarrow> collect_all f xs = collect_all g ys"
  unfolding collect_all_def by (metis result_collect_cong)

function collect_relation_cost_contexts :: "Catalog \<Rightarrow> statistics \<Rightarrow> BoundQueryPlan \<Rightarrow> CostEstimateError + RelationCostContext list"
  and collect_set_expr_relations :: "Catalog \<Rightarrow> statistics \<Rightarrow> BoundSetExpr \<Rightarrow> CostEstimateError + RelationCostContext list"
  and collect_table_relations :: "Catalog \<Rightarrow> statistics \<Rightarrow> BoundTable \<Rightarrow> CostEstimateError + RelationCostContext list"
  and collect_relation :: "Catalog \<Rightarrow> statistics \<Rightarrow> BoundRelation \<Rightarrow> CostEstimateError + RelationCostContext list"
where
  "collect_relation_cost_contexts c st (BoundQueryPlan node ctes body order_by limit offset clauses schema) =
     collect_both (collect_all (\<lambda>cte. collect_relation_cost_contexts c st (bc_query cte)) ctes)
       (collect_set_expr_relations c st body)"
| "collect_set_expr_relations c st (BoundSetExpr.Select (BoundSelect distinct' projection tables selection group_by having schema node)) =
     collect_all (collect_table_relations c st) tables"
| "collect_set_expr_relations c st (BoundSetExpr.UnionAll left right node schema) =
     collect_both (collect_set_expr_relations c st left) (collect_set_expr_relations c st right)"
| "collect_set_expr_relations c st (BoundSetExpr.Unsupported description node schema) =
     Inl (Backend (''unsupported bound set expression: '' @ description))"
| "collect_table_relations c st (BoundTableWithJoins relation joins node) =
     collect_both (collect_relation c st relation) (collect_all (\<lambda>join. collect_relation c st (bj_relation join)) joins)"
| "collect_relation c st (BoundRelation.Table binding node) =
     result_bind (table_cost_context c st binding) (\<lambda>context. Inr [context])"
| "collect_relation c st (BoundRelation.Derived binding query node) = collect_relation_cost_contexts c st query"
| "collect_relation c st (BoundRelation.NestedJoin binding table node) = collect_table_relations c st table"
| "collect_relation c st (BoundRelation.Unsupported description name node) =
     Inl (Backend (''unsupported bound relation: '' @ description))"
  by pat_completeness auto
termination
  by (relation "measure (case_sum
        (case_sum (\<lambda>(_, _, q). size q) (\<lambda>(_, _, e). size e))
        (case_sum (\<lambda>(_, _, t). size_BoundTableWithJoins size size t) (\<lambda>(_, _, r). size r)))")
    (auto simp: size_bound_render_parts dest: render_size_dests)

section \<open>Partitions\<close>

definition saturating_add32 :: "u32 \<Rightarrow> u32 \<Rightarrow> u32" where
  "saturating_add32 a b = (if unat a + unat b < 2 ^ 32 then a + b else - 1)"

definition is_literal_expr :: "BoundExpr \<Rightarrow> bool" where
  "is_literal_expr e \<longleftrightarrow> (case bx_kind e of BoundExprKind.Literal v \<Rightarrow> v \<noteq> LiteralValue.Null | _ \<Rightarrow> False)"

definition is_partition_column :: "BoundExpr \<Rightarrow> RelationCostContext \<Rightarrow> string \<Rightarrow> bool" where
  "is_partition_column e relation column \<longleftrightarrow>
     (case bx_kind e of
        BoundExprKind.Column ref \<Rightarrow>
          eq_ignore_ascii_case (bcr_name ref) column \<and>
          (case bcr_relation ref of
             None \<Rightarrow> True
           | Some qualifier \<Rightarrow>
               eq_ignore_ascii_case qualifier (cc_binding_name relation) \<or> eq_ignore_ascii_case qualifier (cc_name relation) \<or>
               (case cc_namespace relation of Some namespace \<Rightarrow> eq_ignore_ascii_case qualifier namespace | None \<Rightarrow> False))
      | _ \<Rightarrow> False)"

definition compares_partition_to_literal :: "BoundExpr \<Rightarrow> BoundExpr \<Rightarrow> RelationCostContext \<Rightarrow> string \<Rightarrow> bool" where
  "compares_partition_to_literal maybe_column maybe_literal relation column \<longleftrightarrow>
     is_partition_column maybe_column relation column \<and> is_literal_expr maybe_literal"

text \<open>Spans of both sides of AND, and of both branches of a union.\<close>

definition either_span :: "(u32 \<Rightarrow> u32 \<Rightarrow> u32) \<Rightarrow> u32 option \<Rightarrow> u32 option \<Rightarrow> u32 option" where
  "either_span f a b =
     (case (a, b) of (Some x, Some y) \<Rightarrow> Some (f x y) | (Some x, None) \<Rightarrow> Some x | (None, Some y) \<Rightarrow> Some y | (None, None) \<Rightarrow> None)"

fun partition_expr_span :: "RelationCostContext \<Rightarrow> string \<Rightarrow> BoundExpr \<Rightarrow> u32 option" where
  "partition_expr_span relation column (BoundExpr (BoundExprKind.Binary op left right) data_type nullable node) =
     (if op = BinaryOperator.And
      then either_span min (partition_expr_span relation column left) (partition_expr_span relation column right)
      else if op = BinaryOperator.Or
      then Option.bind (partition_expr_span relation column left) (\<lambda>l.
           map_option (saturating_add32 l) (partition_expr_span relation column right))
      else if op \<in> set [BinaryOperator.Eq, BinaryOperator.Lt, BinaryOperator.LtEq, BinaryOperator.Gt, BinaryOperator.GtEq] \<and>
           (compares_partition_to_literal left right relation column \<or> compares_partition_to_literal right left relation column)
      then Some 1 else None)"
| "partition_expr_span relation column (BoundExpr (BoundExprKind.Between e low high negated) data_type nullable node) =
     (if \<not> negated \<and> is_partition_column e relation column \<and> is_literal_expr low \<and> is_literal_expr high then Some 2 else None)"
| "partition_expr_span relation column (BoundExpr (BoundExprKind.InList e items negated) data_type nullable node) =
     (if \<not> negated \<and> is_partition_column e relation column
      then (let literal_count = length (filter is_literal_expr items)
        in if literal_count > 0 then Some (if literal_count < 2 ^ 32 then of_nat literal_count else - 1) else None)
      else None)"
| "partition_expr_span relation column _ = None"

fun partition_predicate_span :: "RelationCostContext \<Rightarrow> string \<Rightarrow> BoundSetExpr \<Rightarrow> u32 option" where
  "partition_predicate_span relation column (BoundSetExpr.Select select) =
     Option.bind (bsel_selection select) (partition_expr_span relation column)"
| "partition_predicate_span relation column (BoundSetExpr.UnionAll left right node schema) =
     either_span saturating_add32 (partition_predicate_span relation column left) (partition_predicate_span relation column right)"
| "partition_predicate_span relation column (BoundSetExpr.Unsupported description node schema) = None"

definition relation_partitions :: "BoundSetExpr \<Rightarrow> RelationCostContext \<Rightarrow> u32" where
  "relation_partitions body relation =
     (case reduce min (List.map_filter (\<lambda>column. partition_predicate_span relation column body) (cc_partition_columns relation)) of
        Some pruned \<Rightarrow> pruned
      | None \<Rightarrow> cc_partition_count relation)"

definition estimate_partitions_touched :: "BoundQueryPlan \<Rightarrow> RelationCostContext list \<Rightarrow> u32" where
  "estimate_partitions_touched plan relations =
     foldl (\<lambda>touched relation. saturating_add32 touched (relation_partitions (bp_body plan) relation)) 0 relations"

section \<open>Memory\<close>

definition saturating_add64 :: "u64 \<Rightarrow> u64 \<Rightarrow> u64" where
  "saturating_add64 a b = (if unat a + unat b < 2 ^ 64 then a + b else - 1)"

text \<open>Sums of machine integers wrap around.\<close>

lemma size_struct_field: "f \<in> set fs \<Longrightarrow> size (rf_data_type f) < size_list size fs"
  using size_bound_list_mem_le[of f fs size] by (cases f) simp

function data_type_size :: "DataType \<Rightarrow> u64" where
  "data_type_size DataType.Boolean = 1"
| "data_type_size DataType.Int32 = 4"
| "data_type_size DataType.Int64 = 8"
| "data_type_size DataType.Float64 = 8"
| "data_type_size DataType.Utf8 = 32"
| "data_type_size DataType.Uuid = 16"
| "data_type_size DataType.Json = 64"
| "data_type_size DataType.Date = 4"
| "data_type_size (DataType.Decimal _ _) = 16"
| "data_type_size (DataType.Timestamp _) = 8"
| "data_type_size (DataType.List inner) = 8 + data_type_size inner"
| "data_type_size (DataType.Struct fs) = sum_list (map (\<lambda>f. data_type_size (rf_data_type f)) fs)"
| "data_type_size DataType.Unknown = 8"
  by pat_completeness auto
termination
  by (relation "measure size") (auto dest: size_struct_field)

definition clickhouse_aggregate_names :: "string list" where
  "clickhouse_aggregate_names =
     [''avg'', ''count'', ''countmerge'', ''count_merge'', ''max'', ''min'', ''sum'', ''summerge'', ''sum_merge'', ''uniq'',
      ''uniqexact'', ''uniq_exact'']"

definition is_aggregate_function :: "BoundExpr BoundFunctionCall \<Rightarrow> bool" where
  "is_aggregate_function f \<longleftrightarrow>
     to_ascii_lowercase (fr_name (bf_function f)) \<in> set clickhouse_aggregate_names \<or> bf_distinct f"

definition option_count :: "('a \<Rightarrow> u32) \<Rightarrow> 'a option \<Rightarrow> u32" where
  "option_count f v = (case v of Some x \<Rightarrow> f x | None \<Rightarrow> 0)"

lemma option_count_cong [fundef_cong]:
  "v = w \<Longrightarrow> (\<And>x. w = Some x \<Longrightarrow> f x = g x) \<Longrightarrow> option_count f v = option_count g w"
  by (cases w) (simp_all add: option_count_def)

function expr_aggregate_count :: "BoundExpr \<Rightarrow> u32" where
  "expr_aggregate_count (BoundExpr kind data_type nullable node) =
     (case kind of
        BoundExprKind.Function f \<Rightarrow>
          saturating_add32
            (saturating_add32 (sum_list (map expr_aggregate_count (bf_args f))) (option_count expr_aggregate_count (bf_filter f)))
            (if is_aggregate_function f then 1 else 0)
      | BoundExprKind.Unary op e \<Rightarrow> expr_aggregate_count e
      | BoundExprKind.Cast e t \<Rightarrow> expr_aggregate_count e
      | BoundExprKind.Binary op left right \<Rightarrow> saturating_add32 (expr_aggregate_count left) (expr_aggregate_count right)
      | BoundExprKind.Case operand when_then else_result \<Rightarrow>
          saturating_add32
            (saturating_add32 (option_count expr_aggregate_count operand)
              (sum_list (map (\<lambda>branch. saturating_add32 (expr_aggregate_count (bwt_condition branch))
                 (expr_aggregate_count (bwt_result branch))) when_then)))
            (option_count expr_aggregate_count else_result)
      | BoundExprKind.Between e low high negated \<Rightarrow>
          saturating_add32 (saturating_add32 (expr_aggregate_count e) (expr_aggregate_count low)) (expr_aggregate_count high)
      | BoundExprKind.InList e items negated \<Rightarrow>
          saturating_add32 (expr_aggregate_count e) (sum_list (map expr_aggregate_count items))
      | BoundExprKind.Tuple items \<Rightarrow> sum_list (map expr_aggregate_count items)
      | BoundExprKind.Array items \<Rightarrow> sum_list (map expr_aggregate_count items)
      | BoundExprKind.Like e pattern negated case_insensitive \<Rightarrow>
          saturating_add32 (expr_aggregate_count e) (expr_aggregate_count pattern)
      | BoundExprKind.IsNull e negated \<Rightarrow> expr_aggregate_count e
      | BoundExprKind.InSubquery e q negated \<Rightarrow> expr_aggregate_count e
      | _ \<Rightarrow> 0)"
  by pat_completeness auto
termination
  by (relation "measure size") (auto simp: size_bound_render_parts dest: render_size_dests)

definition select_aggregate_count :: "(BoundExpr, BoundRelation) BoundSelect \<Rightarrow> u32" where
  "select_aggregate_count select =
     saturating_add32
       (foldl (\<lambda>count d. saturating_add32 count (expr_aggregate_count (bpe_expr d))) 0
         (List.map_filter BoundProjectionItem_as_expr (bsel_projection select)))
       (option_count expr_aggregate_count (bsel_having select))"

definition estimate_select_memory :: "(BoundExpr, BoundRelation) BoundSelect \<Rightarrow> u64 \<Rightarrow> u64 \<Rightarrow> u64" where
  "estimate_select_memory select rows_scanned bytes_scanned =
     (let aggregate_count = select_aggregate_count select
      in if bsel_group_by select = []
         then (if aggregate_count > 0 then saturating_add64 (saturating_mul (ucast aggregate_count) 64) 128 else bytes_scanned)
         else (let group_key_bytes = max (sum_list (map (\<lambda>e. data_type_size (bx_data_type e)) (bsel_group_by select))) 8;
                   groups = max (min (foldl (\<lambda>acc _. saturating_mul acc 1000) 1 (bsel_group_by select)) rows_scanned) 1;
                   aggregate_state_bytes = saturating_mul (ucast (max aggregate_count 1)) 64
           in saturating_mul groups (saturating_add64 (saturating_add64 group_key_bytes aggregate_state_bytes) 32)))"

fun estimate_set_expr_memory :: "u64 \<Rightarrow> u64 \<Rightarrow> BoundSetExpr \<Rightarrow> u64" where
  "estimate_set_expr_memory rows bytes (BoundSetExpr.Select select) = estimate_select_memory select rows bytes"
| "estimate_set_expr_memory rows bytes (BoundSetExpr.UnionAll left right node schema) =
     saturating_add64 (estimate_set_expr_memory rows bytes left) (estimate_set_expr_memory rows bytes right)"
| "estimate_set_expr_memory rows bytes (BoundSetExpr.Unsupported description node schema) = 1"

definition relations_cost :: "BoundQueryPlan \<Rightarrow> RelationCostContext list \<Rightarrow> EstimatedCost" where
  "relations_cost plan relations =
     (let rows_scanned = max (sum_list (map cc_estimated_rows relations)) 1;
          bytes_scanned =
            max (sum_list (map (\<lambda>r. saturating_mul (cc_estimated_rows r) (cc_average_row_bytes r)) relations)) 1
      in \<lparr>ec_memory_bytes = max (estimate_set_expr_memory rows_scanned bytes_scanned (bp_body plan)) 1,
          ec_rows_scanned = rows_scanned,
          ec_partitions_touched = max (estimate_partitions_touched plan relations) 1,
          ec_wallclock_estimate_ms = max (div_ceil rows_scanned 5000000) 1\<rparr>)"

definition estimate_clickhouse_cost :: "BoundQuery \<Rightarrow> Catalog \<Rightarrow> statistics \<Rightarrow> CostEstimateError + EstimatedCost" where
  "estimate_clickhouse_cost query catalog statistics =
     result_bind (collect_relation_cost_contexts catalog statistics (bq_plan query)) (\<lambda>relations.
     if relations = [] then Inl (MissingStatistics ''query does not reference a catalog relation'')
     else Inr (relations_cost (bq_plan query) relations))"

section \<open>What an estimate says\<close>

definition missing_statistics :: "CostEstimateError \<Rightarrow> bool" where
  "missing_statistics e \<longleftrightarrow> (\<exists>name. e = MissingStatistics name)"

lemma fails_only_collect_all: "(\<And>x. x \<in> set xs \<Longrightarrow> fails_only B (f x)) \<Longrightarrow> fails_only B (collect_all f xs)"
  unfolding collect_all_def by (intro fails_only_bind fails_only_collect) simp_all

lemma fails_only_collect_both: "fails_only B m \<Longrightarrow> fails_only B n \<Longrightarrow> fails_only B (collect_both m n)"
  unfolding collect_both_def by (intro fails_only_bind) simp_all

lemma fails_only_table: "fails_only missing_statistics (table_cost_context c st binding)"
  unfolding table_cost_context_def
  by (intro fails_only_bind; simp add: ok_or_def missing_statistics_def split: option.split)

lemma collect_fails_only:
  "plan_all node_supported q \<Longrightarrow> fails_only missing_statistics (collect_relation_cost_contexts c st q)"
  "set_expr_all node_supported b \<Longrightarrow> fails_only missing_statistics (collect_set_expr_relations c st b)"
  "table_ok node_supported t \<Longrightarrow> fails_only missing_statistics (collect_table_relations c st t)"
  "relation_all node_supported r \<Longrightarrow> fails_only missing_statistics (collect_relation c st r)"
proof (induction c st q and c st b and c st t and c st r
    rule: collect_relation_cost_contexts_collect_set_expr_relations_collect_table_relations_collect_relation.induct)
qed (auto simp: list_all_iff table_all_iff intro!: fails_only_collect_all fails_only_collect_both fails_only_bind fails_only_table)

lemma unat_div_ceil:
  assumes "2 \<le> unat b"
  shows "unat (div_ceil a b) = unat a div unat b + (if unat a mod unat b = 0 then 0 else 1)"
proof -
  have "unat a div unat b * 2 \<le> unat a"
    using assms by (metis div_times_less_eq_dividend le_trans mult_le_mono2)
  moreover have "unat a < 2 ^ 64" by (rule order_less_le_trans[OF unsigned_less]) simp
  ultimately have "unat a div unat b + 1 < 2 ^ 64" by simp
  then have "unat (a div b + 1) = unat a div unat b + 1" by (simp add: unat_word_ariths(1) unat_div)
  moreover have "a mod b = 0 \<longleftrightarrow> unat a mod unat b = 0" by (metis unat_eq_zero unat_mod)
  ultimately show ?thesis by (simp add: div_ceil_def unat_div)
qed

lemma ceil_bounds:
  assumes "1 \<le> rows" and "2 \<le> unat b"
  shows "1 \<le> div_ceil rows b" "(unat (div_ceil rows b) - 1) * unat b < unat rows" "unat rows \<le> unat (div_ceil rows b) * unat b"
proof -
  let ?n = "unat rows" and ?b = "unat b"
  have n: "0 < ?n" using assms(1) by (metis linorder_not_less unat_1 word_le_nat_alt zero_less_one gr0I le_zero_eq one_neq_zero)
  have split: "?n = ?n div ?b * ?b + ?n mod ?b" by simp
  have "?n mod ?b < ?b" by (rule mod_less_divisor) (use assms(2) in simp)
  then have next_up: "?n \<le> (?n div ?b + 1) * ?b" using split unfolding distrib_right by linarith
  show up: "?n \<le> unat (div_ceil rows b) * ?b"
  proof (cases "?n mod ?b = 0")
    case True
    then have "unat (div_ceil rows b) = ?n div ?b" by (simp add: unat_div_ceil[OF assms(2)])
    moreover have "?n = ?n div ?b * ?b" using split unfolding True by linarith
    ultimately show ?thesis by (metis order_refl)
  next
    case False
    with next_up show ?thesis by (simp add: unat_div_ceil[OF assms(2)])
  qed
  then have "0 < unat (div_ceil rows b)" using n by (metis le_zero_eq mult_0 not_gr_zero)
  then show "1 \<le> div_ceil rows b" by (simp add: word_le_nat_alt)
  show "(unat (div_ceil rows b) - 1) * ?b < ?n"
  proof (cases "?n mod ?b = 0")
    case True
    then have "?n div ?b \<noteq> 0" using split n by (metis add_0 mult_0 not_gr_zero)
    moreover have "?n div ?b * ?b = ?n" using True split by simp
    ultimately show ?thesis using True assms(2) by (cases "?n div ?b") (simp_all add: unat_div_ceil[OF assms(2)])
  next
    case False
    then have "?n div ?b * ?b < ?n" using split by linarith
    with False show ?thesis by (simp add: unat_div_ceil[OF assms(2)])
  qed
qed

text \<open>
  C14. The cost of a bound query. An estimate for a query that was bound fails only for missing statistics. A
  successful estimate is never zero in any dimension, and its time is the number of five-million-row steps the
  scan takes, rounded up.
\<close>

theorem clickhouse_cost_of_bound:
  assumes "bind_and_validate blake3_hex parsed catalog parameters = Inr q"
  shows "case estimate_clickhouse_cost q catalog statistics of
      Inl e \<Rightarrow> missing_statistics e
    | Inr cost \<Rightarrow> 1 \<le> ec_memory_bytes cost \<and> 1 \<le> ec_rows_scanned cost \<and> 1 \<le> ec_partitions_touched cost \<and>
        1 \<le> ec_wallclock_estimate_ms cost \<and>
        (unat (ec_wallclock_estimate_ms cost) - 1) * 5000000 < unat (ec_rows_scanned cost) \<and>
        unat (ec_rows_scanned cost) \<le> unat (ec_wallclock_estimate_ms cost) * 5000000"
proof -
  obtain t where t: "plan_all (node_ok catalog t) (bq_plan q)" "\<not> has_error t"
    by (rule bind_and_validate_Inr[OF assms]) (auto simp: has_error_def)
  have "plan_all node_supported (bq_plan q)"
    by (rule all_nodes_mono(1)[OF t(1)]) (use t(2) in \<open>simp add: node_ok_def\<close>)
  then have fails: "fails_only missing_statistics (collect_relation_cost_contexts catalog statistics (bq_plan q))"
    by (rule collect_fails_only(1))
  show ?thesis
  proof (cases "estimate_clickhouse_cost q catalog statistics")
    case (Inl e)
    then show ?thesis using fails
      by (cases "collect_relation_cost_contexts catalog statistics (bq_plan q)")
        (auto simp: estimate_clickhouse_cost_def missing_statistics_def Let_def split: if_splits)
  next
    case (Inr cost)
    then obtain relations where cost: "cost = relations_cost (bq_plan q) relations"
      by (cases "collect_relation_cost_contexts catalog statistics (bq_plan q)")
        (auto simp: estimate_clickhouse_cost_def split: if_splits)
    have rows: "ec_rows_scanned cost = max (sum_list (map cc_estimated_rows relations)) 1"
      and time: "ec_wallclock_estimate_ms cost = max (div_ceil (ec_rows_scanned cost) 5000000) 1"
      and ones: "1 \<le> ec_memory_bytes cost" "1 \<le> ec_partitions_touched cost"
      by (simp_all add: cost relations_cost_def Let_def)
    have "1 \<le> ec_rows_scanned cost" unfolding rows by simp
    from ceil_bounds[OF this, of 5000000] have "max (div_ceil (ec_rows_scanned cost) 5000000) 1 = div_ceil (ec_rows_scanned cost) 5000000"
      by (simp add: max_def)
    with ceil_bounds[OF \<open>1 \<le> ec_rows_scanned cost\<close>, of 5000000] ones show ?thesis
      using \<open>1 \<le> ec_rows_scanned cost\<close> by (simp add: Inr time)
  qed
qed

definition example_statistics :: statistics where
  "example_statistics namespace name =
     Some \<lparr>st_relation = name, st_estimated_rows = 12000000, st_average_row_bytes = 16, st_shard_count = None\<rparr>"

theorem clickhouse_cost_of_bound_witness:
  "\<exists>cost. estimate_clickhouse_cost (projr (example_binding (ParameterValue.Uuid ''u''))) example_catalog example_statistics = Inr cost \<and>
     ec_rows_scanned cost = 12000000 \<and> 1 \<le> ec_memory_bytes cost \<and> ec_wallclock_estimate_ms cost = 3"
proof -
  let ?q = "projr (example_binding (ParameterValue.Uuid ''u''))"
  have "collect_relation_cost_contexts example_catalog example_statistics (bq_plan ?q) =
      Inr [\<lparr>cc_namespace = None, cc_name = ''records'', cc_binding_name = ''records'', cc_estimated_rows = 12000000,
            cc_average_row_bytes = 16, cc_partition_columns = [], cc_partition_count = 1\<rparr>]"
    by code_simp
  then obtain cost where cost: "estimate_clickhouse_cost ?q example_catalog example_statistics = Inr cost" "ec_rows_scanned cost = 12000000"
    by (simp add: estimate_clickhouse_cost_def relations_cost_def Let_def)
  have bounds: "1 \<le> ec_memory_bytes cost" "(unat (ec_wallclock_estimate_ms cost) - 1) * 5000000 < 12000000"
    "12000000 \<le> unat (ec_wallclock_estimate_ms cost) * 5000000"
    using clickhouse_cost_of_bound[OF example_binds, of example_statistics] by (simp_all add: cost)
  then have "unat (ec_wallclock_estimate_ms cost) = unat (3 :: u64)" by simp
  then have "ec_wallclock_estimate_ms cost = 3" by (rule unsigned_word_eqI)
  with cost bounds(1) show ?thesis by blast
qed

definition partitioned_relation :: RelationCostContext where
  "partitioned_relation =
     \<lparr>cc_namespace = None, cc_name = ''t'', cc_binding_name = ''t'', cc_estimated_rows = 1, cc_average_row_bytes = 1,
      cc_partition_columns = [''p''], cc_partition_count = 2\<rparr>"

definition partition_list :: "BoundExpr" where
  "partition_list =
     (let column = BoundExpr (BoundExprKind.Column (BoundColumnRef None ''p'')) DataType.Int64 False example_node;
          literal = \<lambda>i. BoundExpr (BoundExprKind.Literal (LiteralValue.Int64 i)) DataType.Int64 False example_node
      in BoundExpr (BoundExprKind.InList column [literal 1, literal 2, literal 3] False) DataType.Boolean False example_node)"

text \<open>
  Partition pruning is not capped. A list of literals counts as one partition each, so a condition on the
  partition column can raise the estimate above the number of partitions the relation has.
\<close>

theorem clickhouse_pruning_exceeds_partitions:
  "partition_expr_span partitioned_relation ''p'' partition_list = Some 3 \<and> cc_partition_count partitioned_relation = 2"
  by (simp add: partition_list_def partitioned_relation_def is_partition_column_def is_literal_expr_def Let_def
      eq_ignore_ascii_case_def)

end
