(* ===== verification/QF_Cluster.thy ===== *)
theory QF_Cluster
  imports QF_Prelude "HOL-Library.AList"
begin

text \<open>
  The cluster substrate: \<^verbatim>\<open>crates/queryfabric-cluster/src\<close> (registry, routing, health cache, circuit breakers and
  the health monitor) with the health states of \<^verbatim>\<open>crates/queryfabric-contract/src/cluster.rs\<close>. The shared
  concurrent maps are association lists with one entry per key; their iteration order is unspecified in the
  source, and nothing proved here depends on it. Instants and durations are milliseconds of a monotone clock,
  given to every operation that reads it.
\<close>

section \<open>Health\<close>

datatype Health = Healthy | Degraded | Unreachable | Unknown

definition Health_is_delegatable :: "Health \<Rightarrow> bool" where
  "Health_is_delegatable h \<longleftrightarrow> h = Healthy \<or> h = Degraded"

type_synonym 'c HealthCache = "('c \<times> Health) list"

definition is_delegatable :: "'c HealthCache \<Rightarrow> 'c \<Rightarrow> bool" where
  "is_delegatable cache cluster_id \<longleftrightarrow>
     (case map_of cache cluster_id of Some h \<Rightarrow> Health_is_delegatable h | None \<Rightarrow> False)"

section \<open>Registry\<close>

record 'c ClusterRemoteHandle =
  ch_cluster_id :: 'c
  ch_cluster_name :: string
  ch_dht_name :: string
  ch_flight_endpoint :: "string option"
  ch_flight_tls :: bool

record 'c ResourceLocation =
  rl_cluster_id :: 'c
  rl_tables :: "string list"

type_synonym 'c ClusterRefs = "('c \<times> 'c ClusterRemoteHandle) list"

type_synonym ('r, 'c) resource_index = "('r \<times> 'c ResourceLocation) list"

record ('r, 'c) HubRegistryState =
  hr_cluster_refs :: "'c ClusterRefs"
  hr_resource_index :: "('r, 'c) resource_index"

definition upsert_cluster :: "'c ClusterRemoteHandle \<Rightarrow> ('r, 'c) HubRegistryState \<Rightarrow> ('r, 'c) HubRegistryState" where
  "upsert_cluster handle s =
     s\<lparr>hr_cluster_refs := AList.update (ch_cluster_id handle) handle (hr_cluster_refs s)\<rparr>"

definition upsert_resource :: "'r \<Rightarrow> 'c ResourceLocation \<Rightarrow> ('r, 'c) HubRegistryState \<Rightarrow> ('r, 'c) HubRegistryState" where
  "upsert_resource resource_id location s =
     s\<lparr>hr_resource_index := AList.update resource_id location (hr_resource_index s)\<rparr>"

definition remove_resource :: "'r \<Rightarrow> ('r, 'c) HubRegistryState \<Rightarrow> ('r, 'c) HubRegistryState" where
  "remove_resource resource_id s = s\<lparr>hr_resource_index := AList.delete resource_id (hr_resource_index s)\<rparr>"

record DhtNaming =
  dn_cluster_prefix :: string
  dn_hub_name :: string

definition dht_name :: "string \<Rightarrow> string \<Rightarrow> string" where
  "dht_name prefix cluster_name = prefix @ '':'' @ cluster_name"

definition DhtNaming_cluster_name :: "DhtNaming \<Rightarrow> string \<Rightarrow> string" where
  "DhtNaming_cluster_name naming cluster_name = dht_name (dn_cluster_prefix naming) cluster_name"

definition get_handle :: "'c ClusterRefs \<Rightarrow> 'c \<Rightarrow> 'c ClusterRemoteHandle option" where
  "get_handle cluster_refs cluster_id = map_of cluster_refs cluster_id"

section \<open>Routing\<close>

record ('r, 'c) RemoteGroup =
  rg_cluster_id :: 'c
  rg_resource_ids :: "'r list"

record ('r, 'c) RoutingDecision =
  rd_local_ids :: "'r list"
  rd_remote :: "('r, 'c) RemoteGroup list"

text \<open>The entry of a cluster in the map of remote groups, created empty when it is missing.\<close>

definition push_remote :: "'c \<Rightarrow> 'r \<Rightarrow> ('c \<times> 'r list) list \<Rightarrow> ('c \<times> 'r list) list" where
  "push_remote cluster_id resource_id remote_map =
     AList.update cluster_id
       ((case map_of remote_map cluster_id of Some ids \<Rightarrow> ids | None \<Rightarrow> []) @ [resource_id]) remote_map"

fun locality_loop ::
  "('r, 'c) resource_index \<Rightarrow> 'r list \<Rightarrow> 'r list \<times> ('c \<times> 'r list) list \<Rightarrow> 'r list \<times> ('c \<times> 'r list) list" where
  "locality_loop index [] acc = acc"
| "locality_loop index (resource_id # ids) (local_ids, remote_map) =
     (case map_of index resource_id of
        Some loc \<Rightarrow> locality_loop index ids (local_ids, push_remote (rl_cluster_id loc) resource_id remote_map)
      | None \<Rightarrow> locality_loop index ids (local_ids @ [resource_id], remote_map))"

definition resolve_locality :: "('r, 'c) resource_index \<Rightarrow> 'r list \<Rightarrow> ('r, 'c) RoutingDecision" where
  "resolve_locality index resource_ids =
     (let (local_ids, remote_map) = locality_loop index resource_ids ([], [])
      in \<lparr>rd_local_ids = local_ids,
          rd_remote = map (\<lambda>(cluster_id, ids). \<lparr>rg_cluster_id = cluster_id, rg_resource_ids = ids\<rparr>) remote_map\<rparr>)"

definition get_healthy_endpoint :: "'c ClusterRefs \<Rightarrow> 'c HealthCache \<Rightarrow> 'c \<Rightarrow> (string \<times> bool) option" where
  "get_healthy_endpoint cluster_refs health_cache cluster_id =
     (if \<not> is_delegatable health_cache cluster_id then None
      else Option.bind (get_handle cluster_refs cluster_id) (\<lambda>handle.
        map_option (\<lambda>endpoint. (endpoint, ch_flight_tls handle)) (ch_flight_endpoint handle)))"

section \<open>Circuit breakers\<close>

record CircuitConfig =
  cfg_open_threshold :: u32
  cfg_cooldown :: nat

definition CircuitConfig_default :: CircuitConfig where
  "CircuitConfig_default = \<lparr>cfg_open_threshold = 3, cfg_cooldown = 30000\<rparr>"

datatype CircuitPhase = Closed | Open | HalfOpen

record CircuitState =
  ci_phase :: CircuitPhase
  ci_consecutive_failures :: u32
  ci_opened_at :: "nat option"

definition CircuitState_new :: CircuitState where
  "CircuitState_new = \<lparr>ci_phase = Closed, ci_consecutive_failures = 0, ci_opened_at = None\<rparr>"

definition should_skip_probe :: "CircuitConfig \<Rightarrow> nat \<Rightarrow> CircuitState \<Rightarrow> bool" where
  "should_skip_probe config now c =
     (case ci_phase c of
        Closed \<Rightarrow> False
      | HalfOpen \<Rightarrow> False
      | Open \<Rightarrow> (case ci_opened_at c of Some opened \<Rightarrow> now - opened < cfg_cooldown config | None \<Rightarrow> False))"

definition maybe_transition_to_half_open :: "CircuitConfig \<Rightarrow> nat \<Rightarrow> CircuitState \<Rightarrow> CircuitState" where
  "maybe_transition_to_half_open config now c =
     (case ci_opened_at c of
        Some opened \<Rightarrow>
          if ci_phase c = Open \<and> now - opened \<ge> cfg_cooldown config then c\<lparr>ci_phase := HalfOpen\<rparr> else c
      | None \<Rightarrow> c)"

definition record_success :: "CircuitState \<Rightarrow> CircuitState" where
  "record_success c = c\<lparr>ci_consecutive_failures := 0, ci_opened_at := None, ci_phase := Closed\<rparr>"

definition record_failure :: "CircuitConfig \<Rightarrow> nat \<Rightarrow> CircuitState \<Rightarrow> CircuitState" where
  "record_failure config now c =
     (let c = c\<lparr>ci_consecutive_failures := ci_consecutive_failures c + 1\<rparr>
      in if ci_consecutive_failures c \<ge> cfg_open_threshold config
         then c\<lparr>ci_phase := Open, ci_opened_at := Some now\<rparr> else c)"

section \<open>The health monitor\<close>

record 'c HealthMonitor =
  hm_health_cache :: "'c HealthCache"
  hm_circuit_config :: CircuitConfig
  hm_circuits :: "('c \<times> CircuitState) list"

text \<open>A probe of a node: its answer, or a timeout.\<close>

record 'o ProbeResult =
  pb_health :: Health
  pb_output :: 'o

definition circuit_of :: "('c \<times> CircuitState) list \<Rightarrow> 'c \<Rightarrow> CircuitState" where
  "circuit_of circuits cluster_id =
     (case map_of circuits cluster_id of Some c \<Rightarrow> c | None \<Rightarrow> CircuitState_new)"

text \<open>
  The first loop of a sweep: each circuit may become half open, and its cluster is probed or skipped. The clock
  is read twice for a cluster.
\<close>

fun choose_probes ::
  "CircuitConfig \<Rightarrow> ('c \<Rightarrow> nat \<times> nat) \<Rightarrow> ('c \<times> 'h) list \<Rightarrow> ('c \<times> CircuitState) list \<Rightarrow>
     ('c \<times> CircuitState) list \<times> ('c \<times> 'h) list \<times> ('c \<times> 'h) list" where
  "choose_probes config clock [] circuits = (circuits, [], [])"
| "choose_probes config clock ((cluster_id, handle) # entries) circuits =
     (let (t1, t2) = clock cluster_id;
          circuit = maybe_transition_to_half_open config t1 (circuit_of circuits cluster_id);
          (circuits', to_probe, skipped) =
            choose_probes config clock entries (AList.update cluster_id circuit circuits)
      in if should_skip_probe config t2 circuit then (circuits', to_probe, (cluster_id, handle) # skipped)
         else (circuits', (cluster_id, handle) # to_probe, skipped))"

text \<open>The second loop: each answer is cached and moves its circuit.\<close>

definition note_result ::
  "CircuitConfig \<Rightarrow> nat \<Rightarrow> 'c \<times> 'o ProbeResult \<Rightarrow> 'c HealthCache \<times> ('c \<times> CircuitState) list \<times> 'o list \<Rightarrow>
     'c HealthCache \<times> ('c \<times> CircuitState) list \<times> 'o list" where
  "note_result config now = (\<lambda>(cluster_id, result) (cache, circuits, outputs).
     let cache = AList.update cluster_id (pb_health result) cache; circuit = circuit_of circuits cluster_id
     in if pb_health result = Unreachable
        then (cache, AList.update cluster_id (record_failure config now circuit) circuits, outputs)
        else (cache, AList.update cluster_id (record_success circuit) circuits, outputs @ [pb_output result]))"

definition answer :: "'o \<Rightarrow> 'o ProbeResult option \<Rightarrow> 'o ProbeResult" where
  "answer default_output r = (case r of Some result \<Rightarrow> result | None \<Rightarrow> \<lparr>pb_health = Unreachable, pb_output = default_output\<rparr>)"

text \<open>
  A sweep over a snapshot of the registry, with the answers of the probed nodes (\<open>None\<close> for a timeout). It
  returns the outputs handed to the sweep hook, and the clusters that were probed.
\<close>

definition handle_check_all ::
  "('c \<Rightarrow> nat \<times> nat) \<Rightarrow> nat \<Rightarrow> 'o \<Rightarrow> ('c \<Rightarrow> 'o ProbeResult option) \<Rightarrow> ('c \<times> 'h) list \<Rightarrow> 'c HealthMonitor \<Rightarrow>
     'c HealthMonitor \<times> 'o list \<times> 'c list" where
  "handle_check_all clock now default_output probe entries m =
     (if entries = [] then (m, [], [])
      else (let (circuits, to_probe, skipped) = choose_probes (hm_circuit_config m) clock entries (hm_circuits m);
                results = map (\<lambda>(cluster_id, handle). (cluster_id, answer default_output (probe cluster_id))) to_probe;
                (cache, circuits, outputs) =
                  fold (note_result (hm_circuit_config m) now) results (hm_health_cache m, circuits, []);
                cache = fold (\<lambda>(cluster_id, handle). AList.update cluster_id Unreachable) skipped cache
        in (m\<lparr>hm_health_cache := cache, hm_circuits := circuits\<rparr>, outputs, map fst to_probe)))"

definition handle_get_health :: "'c \<Rightarrow> 'c HealthMonitor \<Rightarrow> Health option" where
  "handle_get_health cluster_id m = map_of (hm_health_cache m) cluster_id"

definition handle_reset_circuit :: "'c \<Rightarrow> 'c HealthMonitor \<Rightarrow> 'c HealthMonitor" where
  "handle_reset_circuit cluster_id m =
     m\<lparr>hm_circuits :=
         (case map_of (hm_circuits m) cluster_id of
            Some circuit \<Rightarrow>
              if ci_phase circuit \<noteq> Closed then AList.update cluster_id CircuitState_new (hm_circuits m) else hm_circuits m
          | None \<Rightarrow> hm_circuits m),
       hm_health_cache := AList.delete cluster_id (hm_health_cache m)\<rparr>"

section \<open>Routing is a partition\<close>

definition owner :: "('r, 'c) resource_index \<Rightarrow> 'r \<Rightarrow> 'c option" where
  "owner index r = map_option rl_cluster_id (map_of index r)"

definition owned_by :: "('r, 'c) resource_index \<Rightarrow> 'c \<Rightarrow> 'r list \<Rightarrow> 'r list" where
  "owned_by index c ids = filter (\<lambda>r. owner index r = Some c) ids"

lemma push_remote_distinct: "distinct (map fst m) \<Longrightarrow> distinct (map fst (push_remote c r m))"
  by (simp add: push_remote_def distinct_update)

lemma push_remote_get:
  "map_of (push_remote c r m) c' =
     (if c' = c then Some ((case map_of m c of Some ids \<Rightarrow> ids | None \<Rightarrow> []) @ [r]) else map_of m c')"
  by (simp add: push_remote_def update_conv')

lemma locality_loop_spec:
  assumes "distinct (map fst m)" and "locality_loop index ids (l, m) = (l', m')"
  shows "l' = l @ filter (\<lambda>r. owner index r = None) ids \<and> distinct (map fst m') \<and>
    (\<forall>c. map_of m' c = (if owned_by index c ids = [] then map_of m c
       else Some ((case map_of m c of Some xs \<Rightarrow> xs | None \<Rightarrow> []) @ owned_by index c ids)))"
  using assms
proof (induction ids arbitrary: l m)
  case (Cons r ids)
  show ?case
  proof (cases "map_of index r")
    case None
    with Cons.prems Cons.IH[of m "l @ [r]"] show ?thesis by (simp add: owned_by_def owner_def)
  next
    case (Some loc)
    with Cons.prems Cons.IH[of "push_remote (rl_cluster_id loc) r m" l] show ?thesis
      by (auto simp: owned_by_def owner_def push_remote_distinct push_remote_get)
  qed
qed (simp add: owned_by_def)

lemma locality_partition:
  "rd_local_ids (resolve_locality index ids) = filter (\<lambda>r. owner index r = None) ids"
  "distinct (map rg_cluster_id (rd_remote (resolve_locality index ids)))"
  "set (rd_remote (resolve_locality index ids)) =
     (\<lambda>c. \<lparr>rg_cluster_id = c, rg_resource_ids = owned_by index c ids\<rparr>) ` {c. owned_by index c ids \<noteq> []}"
proof -
  obtain l m where loop: "locality_loop index ids ([], []) = (l, m)" by fastforce
  then have spec: "l = filter (\<lambda>r. owner index r = None) ids" "distinct (map fst m)"
    "\<And>c. map_of m c = (if owned_by index c ids = [] then None else Some (owned_by index c ids))"
    using locality_loop_spec[OF _ loop] by auto
  let ?group = "\<lambda>(c, ids). \<lparr>rg_cluster_id = c, rg_resource_ids = ids\<rparr> :: ('a, 'b) RemoteGroup"
  have "rg_cluster_id \<circ> ?group = fst" by (auto simp: fun_eq_iff)
  moreover have "set m = (\<lambda>c. (c, owned_by index c ids)) ` {c. owned_by index c ids \<noteq> []}"
  proof -
    have "(c, xs) \<in> set m \<longleftrightarrow> owned_by index c ids \<noteq> [] \<and> xs = owned_by index c ids" for c xs
      using map_of_eq_Some_iff[OF spec(2), of c xs] spec(3)[of c] by (auto split: if_splits)
    then show ?thesis by auto
  qed
  ultimately show "rd_local_ids (resolve_locality index ids) = filter (\<lambda>r. owner index r = None) ids"
    "distinct (map rg_cluster_id (rd_remote (resolve_locality index ids)))"
    "set (rd_remote (resolve_locality index ids)) =
       (\<lambda>c. \<lparr>rg_cluster_id = c, rg_resource_ids = owned_by index c ids\<rparr>) ` {c. owned_by index c ids \<noteq> []}"
    using spec(1,2) by (auto simp: resolve_locality_def Let_def loop image_image)
qed

text \<open>
  Routing partitions the requested resources. The local ones are exactly those without a known location, in
  request order; there is one remote group for every cluster that holds a requested resource, and it lists all
  of that cluster's resources in request order, repetitions included.
\<close>

theorem resolve_locality_partition:
  "let d = resolve_locality index ids
   in rd_local_ids d = filter (\<lambda>r. owner index r = None) ids \<and>
      distinct (map rg_cluster_id (rd_remote d)) \<and>
      set (rd_remote d) =
        (\<lambda>c. \<lparr>rg_cluster_id = c, rg_resource_ids = owned_by index c ids\<rparr>) ` {c. owned_by index c ids \<noteq> []}"
  by (simp only: Let_def locality_partition)

section \<open>What a sweep does to one cluster\<close>

definition probing_circuit :: "CircuitConfig \<Rightarrow> ('c \<Rightarrow> nat \<times> nat) \<Rightarrow> ('c \<times> CircuitState) list \<Rightarrow> 'c \<Rightarrow> CircuitState" where
  "probing_circuit config clock circuits c = maybe_transition_to_half_open config (fst (clock c)) (circuit_of circuits c)"

definition skips :: "CircuitConfig \<Rightarrow> ('c \<Rightarrow> nat \<times> nat) \<Rightarrow> ('c \<times> CircuitState) list \<Rightarrow> 'c \<Rightarrow> bool" where
  "skips config clock circuits c = should_skip_probe config (snd (clock c)) (probing_circuit config clock circuits c)"

lemma circuit_of_update: "circuit_of (AList.update c x circuits) c' = (if c' = c then x else circuit_of circuits c')"
  by (simp add: circuit_of_def update_conv')

lemma choose_probes_spec:
  assumes "distinct (map fst entries)"
  shows "case choose_probes config clock entries circuits of (circuits', to_probe, skipped) \<Rightarrow>
    (\<forall>c. map_of circuits' c =
       (if c \<in> fst ` set entries then Some (probing_circuit config clock circuits c) else map_of circuits c)) \<and>
    to_probe = filter (\<lambda>e. \<not> skips config clock circuits (fst e)) entries \<and>
    skipped = filter (\<lambda>e. skips config clock circuits (fst e)) entries"
  using assms
proof (induction entries arbitrary: circuits)
  case (Cons entry entries)
  obtain c h where entry: "entry = (c, h)" by (cases entry)
  let ?ci = "probing_circuit config clock circuits c"
  have same: "probing_circuit config clock (AList.update c ?ci circuits) d = probing_circuit config clock circuits d"
    "skips config clock (AList.update c ?ci circuits) d = skips config clock circuits d" if "d \<in> fst ` set entries" for d
    using that Cons.prems by (auto simp: entry probing_circuit_def skips_def circuit_of_update)
  obtain circuits' to_probe skipped where rest: "choose_probes config clock entries (AList.update c ?ci circuits) = (circuits', to_probe, skipped)"
    by (cases "choose_probes config clock entries (AList.update c ?ci circuits)")
  with Cons.IH[of "AList.update c ?ci circuits"] Cons.prems
  have IH: "\<And>d. map_of circuits' d = (if d \<in> fst ` set entries then Some (probing_circuit config clock (AList.update c ?ci circuits) d)
        else map_of (AList.update c ?ci circuits) d)"
    "to_probe = filter (\<lambda>e. \<not> skips config clock (AList.update c ?ci circuits) (fst e)) entries"
    "skipped = filter (\<lambda>e. skips config clock (AList.update c ?ci circuits) (fst e)) entries"
    by (simp_all add: entry)
  have "to_probe = filter (\<lambda>e. \<not> skips config clock circuits (fst e)) entries"
    "skipped = filter (\<lambda>e. skips config clock circuits (fst e)) entries"
    unfolding IH(2,3) by (rule filter_cong[OF refl], simp add: same(2))+
  moreover have "map_of circuits' d = (if d \<in> fst ` set (entry # entries) then Some (probing_circuit config clock circuits d) else map_of circuits d)" for d
    using IH(1)[of d] same(1)[of d] Cons.prems by (auto simp: entry update_conv')
  ultimately show ?case
    using rest unfolding entry choose_probes.simps Let_def
    by (simp only: case_prod_unfold fst_conv snd_conv probing_circuit_def[symmetric] skips_def[symmetric]) simp
qed simp

definition settle_circuit :: "CircuitConfig \<Rightarrow> nat \<Rightarrow> 'o ProbeResult \<Rightarrow> CircuitState \<Rightarrow> CircuitState" where
  "settle_circuit config now r circuit = (if pb_health r = Unreachable then record_failure config now circuit else record_success circuit)"

lemma fold_note_result:
  assumes "distinct (map fst results)"
  shows "case fold (note_result config now) results (cache, circuits, outputs) of (cache', circuits', outputs') \<Rightarrow>
    (\<forall>c. map_of cache' c = (case map_of results c of Some r \<Rightarrow> Some (pb_health r) | None \<Rightarrow> map_of cache c)) \<and>
    (\<forall>c. map_of circuits' c =
      (case map_of results c of Some r \<Rightarrow> Some (settle_circuit config now r (circuit_of circuits c)) | None \<Rightarrow> map_of circuits c)) \<and>
    outputs' = outputs @ map (pb_output \<circ> snd) (filter (\<lambda>r. pb_health (snd r) \<noteq> Unreachable) results)"
  using assms
proof (induction results arbitrary: cache circuits outputs)
  case (Cons x results)
  obtain d r where x: "x = (d, r)" by (cases x)
  have d: "map_of results d = None" using Cons.prems by (simp add: x map_of_eq_None_iff)
  let ?cache = "AList.update d (pb_health r) cache" and ?ci = "settle_circuit config now r (circuit_of circuits d)"
  let ?outputs = "outputs @ (if pb_health r = Unreachable then [] else [pb_output r])"
  have step: "note_result config now x (cache, circuits, outputs) = (?cache, AList.update d ?ci circuits, ?outputs)"
    by (simp add: x note_result_def Let_def settle_circuit_def)
  have "distinct (map fst results)" using Cons.prems by simp
  obtain cache' circuits' outputs' where rest: "fold (note_result config now) results (?cache, AList.update d ?ci circuits, ?outputs) = (cache', circuits', outputs')"
    by (cases "fold (note_result config now) results (?cache, AList.update d ?ci circuits, ?outputs)")
  from Cons.IH[OF \<open>distinct (map fst results)\<close>, of ?cache "AList.update d ?ci circuits" ?outputs] rest
  have IH: "map_of cache' c = (case map_of results c of Some r \<Rightarrow> Some (pb_health r) | None \<Rightarrow> map_of ?cache c)"
    "map_of circuits' c = (case map_of results c of Some r \<Rightarrow> Some (settle_circuit config now r (circuit_of (AList.update d ?ci circuits) c))
       | None \<Rightarrow> map_of (AList.update d ?ci circuits) c)"
    "outputs' = ?outputs @ map (pb_output \<circ> snd) (filter (\<lambda>r. pb_health (snd r) \<noteq> Unreachable) results)" for c
    by simp_all
  have "fold (note_result config now) (x # results) (cache, circuits, outputs) = (cache', circuits', outputs')"
    by (simp add: step rest)
  moreover have "map_of cache' c = (case map_of (x # results) c of Some r \<Rightarrow> Some (pb_health r) | None \<Rightarrow> map_of cache c)"
    "map_of circuits' c = (case map_of (x # results) c of Some r \<Rightarrow> Some (settle_circuit config now r (circuit_of circuits c))
       | None \<Rightarrow> map_of circuits c)" for c
    using IH(1,2)[of c] d by (simp_all add: x update_conv' circuit_of_update split: option.split)
  moreover have "outputs' = outputs @ map (pb_output \<circ> snd) (filter (\<lambda>r. pb_health (snd r) \<noteq> Unreachable) (x # results))"
    using IH(3) by (simp add: x)
  ultimately show ?case by simp
qed simp

lemma fold_unreachable:
  "map_of (fold (\<lambda>(cluster_id, handle). AList.update cluster_id Unreachable) skipped cache) c =
     (if c \<in> fst ` set skipped then Some Unreachable else map_of cache c)"
  by (induction skipped arbitrary: cache) (auto simp: update_conv')

lemma map_of_answers:
  "map_of (map (\<lambda>(cluster_id, handle). (cluster_id, f cluster_id)) xs) c = (if c \<in> fst ` set xs then Some (f c) else None)"
  by (induction xs) auto

lemma sweep_cluster:
  fixes m :: "'c HealthMonitor"
  assumes distinct: "distinct (map fst entries)"
    and sweep: "handle_check_all clock now default_output probe entries m = (m', outputs, probed)"
  shows "probed = map fst (filter (\<lambda>e. \<not> skips (hm_circuit_config m) clock (hm_circuits m) (fst e)) entries)"
    and "hm_circuit_config m' = hm_circuit_config m"
    and "map_of (hm_circuits m') c =
      (if c \<notin> fst ` set entries then map_of (hm_circuits m) c
       else Some ((if c \<in> set probed then settle_circuit (hm_circuit_config m) now (answer default_output (probe c)) else id)
         (probing_circuit (hm_circuit_config m) clock (hm_circuits m) c)))"
    and "map_of (hm_health_cache m') c =
      (if c \<notin> fst ` set entries then map_of (hm_health_cache m) c
       else Some (if c \<in> set probed then pb_health (answer default_output (probe c)) else Unreachable))"
proof -
  let ?config = "hm_circuit_config m" and ?ci = "probing_circuit (hm_circuit_config m) clock (hm_circuits m)"
  let ?probes = "filter (\<lambda>e. \<not> skips (hm_circuit_config m) clock (hm_circuits m) (fst e)) entries"
  let ?skipped = "filter (\<lambda>e. skips (hm_circuit_config m) clock (hm_circuits m) (fst e)) entries"
  let ?results = "map (\<lambda>(cluster_id, handle). (cluster_id, answer default_output (probe cluster_id))) ?probes"
  obtain circuits1 where choose: "choose_probes ?config clock entries (hm_circuits m) = (circuits1, ?probes, ?skipped)"
    and circuits1: "\<And>c. map_of circuits1 c = (if c \<in> fst ` set entries then Some (?ci c) else map_of (hm_circuits m) c)"
    using choose_probes_spec[OF distinct, of ?config clock "hm_circuits m"] by (auto split: prod.splits)
  obtain cache2 circuits2 outputs2 where fold: "fold (note_result ?config now) ?results (hm_health_cache m, circuits1, []) = (cache2, circuits2, outputs2)"
    by (cases "fold (note_result ?config now) ?results (hm_health_cache m, circuits1, [])")
  have "map fst ?results = map fst ?probes" by (simp add: case_prod_unfold comp_def)
  then have "distinct (map fst ?results)" using distinct by (simp only: distinct_map_filter)
  from fold_note_result[OF this, where config = ?config and now = now and cache = "hm_health_cache m" and circuits = circuits1 and outputs = "[]"] fold
  have maps: "\<And>c. map_of cache2 c = (if c \<in> fst ` set ?probes then Some (pb_health (answer default_output (probe c))) else map_of (hm_health_cache m) c)"
    "\<And>c. map_of circuits2 c = (if c \<in> fst ` set ?probes then Some (settle_circuit ?config now (answer default_output (probe c)) (circuit_of circuits1 c)) else map_of circuits1 c)"
    by (simp_all add: map_of_answers)
  have result: "(m', outputs, probed) =
      (m\<lparr>hm_health_cache := fold (\<lambda>(cluster_id, handle). AList.update cluster_id Unreachable) ?skipped cache2, hm_circuits := circuits2\<rparr>,
       outputs2, map fst ?probes)" if "entries \<noteq> []"
    using sweep that by (simp add: handle_check_all_def choose fold Let_def)
  have ci: "circuit_of circuits1 c = ?ci c" if "c \<in> fst ` set entries" for c
    using circuits1[of c] that by (simp add: circuit_of_def)
  have part: "c \<in> fst ` set ?probes \<longleftrightarrow> c \<in> fst ` set entries \<and> \<not> skips ?config clock (hm_circuits m) c"
    "c \<in> fst ` set ?skipped \<longleftrightarrow> c \<in> fst ` set entries \<and> skips ?config clock (hm_circuits m) c" for c
    by auto
  show probed: "probed = map fst ?probes" using result sweep by (cases "entries = []") (simp_all add: handle_check_all_def)
  show "hm_circuit_config m' = hm_circuit_config m" using result sweep by (cases "entries = []") (simp_all add: handle_check_all_def)
  show "map_of (hm_circuits m') c =
      (if c \<notin> fst ` set entries then map_of (hm_circuits m) c
       else Some ((if c \<in> set probed then settle_circuit ?config now (answer default_output (probe c)) else id) (?ci c)))"
  proof (cases "entries = []")
    case False
    with result have "hm_circuits m' = circuits2" by simp
    then show ?thesis using part[of c] ci[of c] by (simp add: probed maps circuits1 del: filter.simps set_filter)
  qed (use sweep in \<open>simp add: handle_check_all_def\<close>)
  show "map_of (hm_health_cache m') c =
      (if c \<notin> fst ` set entries then map_of (hm_health_cache m) c
       else Some (if c \<in> set probed then pb_health (answer default_output (probe c)) else Unreachable))"
  proof (cases "entries = []")
    case False
    with result have "hm_health_cache m' = fold (\<lambda>(cluster_id, handle). AList.update cluster_id Unreachable) ?skipped cache2" by simp
    then show ?thesis using part[of c] by (simp add: probed maps fold_unreachable del: set_filter)
  qed (use sweep in \<open>simp add: handle_check_all_def\<close>)
qed

section \<open>Circuits protect delegation\<close>

definition circuit_ok :: "CircuitConfig \<Rightarrow> CircuitState \<Rightarrow> bool" where
  "circuit_ok config ci \<longleftrightarrow>
     (ci_phase ci = Closed \<longleftrightarrow> ci_opened_at ci = None) \<and>
     (ci_phase ci = Closed \<and> 0 < cfg_open_threshold config \<longrightarrow> ci_consecutive_failures ci < cfg_open_threshold config)"

lemma circuit_ok_steps:
  "circuit_ok config CircuitState_new" "circuit_ok config (record_success ci)"
  "circuit_ok config ci \<Longrightarrow> circuit_ok config (record_failure config now ci)"
  "circuit_ok config ci \<Longrightarrow> circuit_ok config (maybe_transition_to_half_open config now ci)"
  by (auto simp: circuit_ok_def CircuitState_new_def record_success_def record_failure_def
      maybe_transition_to_half_open_def Let_def split: option.split)

definition monitor_ok :: "'c HealthMonitor \<Rightarrow> bool" where
  "monitor_ok m \<longleftrightarrow>
     (\<forall>c ci. map_of (hm_circuits m) c = Some ci \<longrightarrow>
        circuit_ok (hm_circuit_config m) ci \<and> (ci_phase ci \<noteq> Closed \<longrightarrow> \<not> is_delegatable (hm_health_cache m) c))"

text \<open>
  The states of a monitor: it starts without circuits and handles sweeps and resets in any order. The outputs of
  probes do not affect it.
\<close>

inductive monitor_reachable :: "CircuitConfig \<Rightarrow> 'c HealthMonitor \<Rightarrow> bool" for config where
  start: "monitor_reachable config \<lparr>hm_health_cache = cache, hm_circuit_config = config, hm_circuits = []\<rparr>"
| sweep: "monitor_reachable config m \<Longrightarrow> distinct (map fst entries) \<Longrightarrow>
    handle_check_all clock now () probe (entries :: ('c \<times> 'c ClusterRemoteHandle) list) m = (m', outputs, probed) \<Longrightarrow>
    monitor_reachable config m'"
| reset: "monitor_reachable config m \<Longrightarrow> monitor_reachable config (handle_reset_circuit c m)"

inductive_cases monitor_reachableE: "monitor_reachable config m"

lemma circuit_of_ok: "monitor_ok m \<Longrightarrow> circuit_ok (hm_circuit_config m) (circuit_of (hm_circuits m) c)"
  by (auto simp: circuit_of_def monitor_ok_def circuit_ok_steps(1) split: option.split)

lemma monitor_ok_sweep:
  assumes "monitor_ok m" and "distinct (map fst entries)"
    and "handle_check_all clock now default_output probe entries m = (m', outputs, probed)"
  shows "monitor_ok m'"
  unfolding monitor_ok_def
proof (intro allI impI)
  fix c ci assume ci: "map_of (hm_circuits m') c = Some ci"
  note sweep = sweep_cluster[OF assms(2,3)]
  let ?ci = "probing_circuit (hm_circuit_config m) clock (hm_circuits m) c"
  have ok: "circuit_ok (hm_circuit_config m) ?ci"
    unfolding probing_circuit_def by (rule circuit_ok_steps(4)[OF circuit_of_ok[OF assms(1)]])
  show "circuit_ok (hm_circuit_config m') ci \<and> (ci_phase ci \<noteq> Closed \<longrightarrow> \<not> is_delegatable (hm_health_cache m') c)"
  proof (cases "c \<in> fst ` set entries")
    case False
    with ci sweep(2,3,4) assms(1) show ?thesis by (auto simp: monitor_ok_def is_delegatable_def)
  next
    case True
    with ci sweep(3,4) have "ci = (if c \<in> set probed then settle_circuit (hm_circuit_config m) now (answer default_output (probe c)) else id) ?ci"
      "map_of (hm_health_cache m') c = Some (if c \<in> set probed then pb_health (answer default_output (probe c)) else Unreachable)"
      by auto
    with ok circuit_ok_steps(2,3) show ?thesis
      by (auto simp: sweep(2) is_delegatable_def Health_is_delegatable_def settle_circuit_def record_success_def)
  qed
qed

lemma monitor_ok_reset: "monitor_ok m \<Longrightarrow> monitor_ok (handle_reset_circuit c m)"
  by (auto simp: monitor_ok_def handle_reset_circuit_def is_delegatable_def circuit_ok_steps update_conv' delete_conv'
      CircuitState_new_def[THEN arg_cong, of ci_phase] split: option.split if_splits)

lemma reachable_ok: "monitor_reachable config m \<Longrightarrow> monitor_ok m \<and> hm_circuit_config m = config"
proof (induction rule: monitor_reachable.induct)
  case (sweep m entries clock now probe m' outputs probed)
  then show ?case
    using monitor_ok_sweep[OF _ sweep.hyps(2,3)] sweep_cluster(2)[OF sweep.hyps(2,3)] by simp
next
  case (reset m c)
  then show ?case using monitor_ok_reset by (auto simp: handle_reset_circuit_def)
qed (simp add: monitor_ok_def)

text \<open>
  C22. No work is delegated behind an open circuit. In every reachable state of the health monitor, a cluster whose
  circuit is not closed has no usable endpoint, whatever the registry says; a circuit is open or half open exactly
  when it remembers when it was opened; and a closed circuit has seen fewer consecutive failures than the
  threshold.
\<close>

theorem open_circuit_not_delegated:
  assumes "monitor_reachable config m" and "map_of (hm_circuits m) c = Some ci"
  shows "(ci_phase ci \<noteq> Closed \<longrightarrow> get_healthy_endpoint refs (hm_health_cache m) c = None) \<and>
    (ci_phase ci = Closed \<longleftrightarrow> ci_opened_at ci = None) \<and>
    (ci_phase ci = Closed \<and> 0 < cfg_open_threshold config \<longrightarrow> ci_consecutive_failures ci < cfg_open_threshold config)"
  using reachable_ok[OF assms(1)] assms(2) by (auto simp: monitor_ok_def circuit_ok_def get_healthy_endpoint_def)

text \<open>
  C23. What a sweep does to a registered cluster. It is probed unless its circuit is open and the cooldown has not
  passed; then it is reported unreachable without a probe. A probed cluster is reported with the health it
  answered, a timeout counting as unreachable, and any other answer closes its circuit.
\<close>

theorem sweep_exact:
  assumes "handle_check_all clock now default_output probe entries m = (m', outputs, probed)"
    and "distinct (map fst entries)" and "c \<in> fst ` set entries" and "fst (clock c) \<le> snd (clock c)"
  shows "(c \<in> set probed \<longleftrightarrow>
      \<not> (\<exists>ci t. map_of (hm_circuits m) c = Some ci \<and> ci_phase ci = Open \<and> ci_opened_at ci = Some t \<and>
          snd (clock c) - t < cfg_cooldown (hm_circuit_config m))) \<and>
    handle_get_health c m' =
      Some (if c \<in> set probed then (case probe c of Some r \<Rightarrow> pb_health r | None \<Rightarrow> Unreachable) else Unreachable) \<and>
    (c \<in> set probed \<and> handle_get_health c m' \<noteq> Some Unreachable \<longrightarrow> map_of (hm_circuits m') c = Some CircuitState_new)"
proof -
  note sweep = sweep_cluster[OF assms(2,1)]
  have skips: "skips (hm_circuit_config m) clock (hm_circuits m) c \<longleftrightarrow>
      (\<exists>ci t. map_of (hm_circuits m) c = Some ci \<and> ci_phase ci = Open \<and> ci_opened_at ci = Some t \<and>
        snd (clock c) - t < cfg_cooldown (hm_circuit_config m))"
    using assms(4)
    by (auto simp: skips_def probing_circuit_def should_skip_probe_def maybe_transition_to_half_open_def circuit_of_def
        CircuitState_new_def split: option.splits CircuitPhase.splits if_splits)
  moreover have "c \<in> set probed \<longleftrightarrow> \<not> skips (hm_circuit_config m) clock (hm_circuits m) c"
    unfolding sweep(1) using assms(3) by auto
  moreover have "record_success ci = CircuitState_new" for ci :: CircuitState
    by (simp add: record_success_def CircuitState_new_def)
  ultimately show ?thesis
    using assms(3) sweep(3,4)[of c]
    by (auto simp: handle_get_health_def answer_def settle_circuit_def split: option.split)
qed

text \<open>
  A circuit opens at the threshold. A fresh circuit that records only failures is closed before the threshold
  is reached and open from then on, up to the width of the counter.
\<close>

theorem failures_open_circuit:
  assumes "0 < cfg_open_threshold config" and "n < 2 ^ 32"
  shows "ci_phase ((record_failure config now ^^ n) CircuitState_new) =
    (if unat (cfg_open_threshold config) \<le> n then Open else Closed)"
proof -
  let ?after = "\<lambda>n. (record_failure config now ^^ n) CircuitState_new"
  have count: "ci_consecutive_failures (?after n) = of_nat n" for n
    by (induction n) (simp_all add: CircuitState_new_def record_failure_def Let_def)
  have phase: "ci_phase (record_failure config now c) =
      (if cfg_open_threshold config \<le> ci_consecutive_failures c + 1 then Open else ci_phase c)" for c :: CircuitState
    by (simp add: record_failure_def Let_def)
  have reached: "cfg_open_threshold config \<le> of_nat k + 1 \<longleftrightarrow> unat (cfg_open_threshold config) \<le> Suc k" if "Suc k < 2 ^ 32" for k
  proof -
    have "unat (of_nat (Suc k) :: u32) = Suc k"
      unfolding unsigned_of_nat of_nat_id by (rule take_bit_nat_eq_self) (use that in simp)
    then have "unat (of_nat k + 1 :: u32) = Suc k" by (simp only: of_nat_Suc add.commute)
    then show ?thesis by (simp only: word_le_nat_alt)
  qed
  have "0 < unat (cfg_open_threshold config)" using assms(1) by (simp add: word_less_nat_alt)
  then show ?thesis
    using assms(2)
  proof (induction n)
    case 0
    then show ?case by (simp add: CircuitState_new_def)
  next
    case (Suc n)
    then have IH: "ci_phase (?after n) = (if unat (cfg_open_threshold config) \<le> n then Open else Closed)" by simp
    have "ci_phase (?after (Suc n)) = (if cfg_open_threshold config \<le> of_nat n + 1 then Open else ci_phase (?after n))"
      using phase[of "?after n"] count[of n] by simp
    also have "\<dots> = (if unat (cfg_open_threshold config) \<le> Suc n then Open else Closed)"
      unfolding reached[OF Suc.prems(2)] IH by simp
    finally show ?case .
  qed
qed

text \<open>One cluster whose first probe times out under a threshold of one.\<close>

definition example_config :: CircuitConfig where
  "example_config = \<lparr>cfg_open_threshold = 1, cfg_cooldown = 30000\<rparr>"

definition example_entries :: "(nat \<times> nat ClusterRemoteHandle) list" where
  "example_entries =
     [(7, \<lparr>ch_cluster_id = 7, ch_cluster_name = ''a'', ch_dht_name = ''cluster:a'', ch_flight_endpoint = Some ''a:50052'', ch_flight_tls = True\<rparr>)]"

definition tripped_monitor :: "nat HealthMonitor" where
  "tripped_monitor =
     \<lparr>hm_health_cache = [(7, Unreachable)], hm_circuit_config = example_config,
      hm_circuits = [(7, \<lparr>ci_phase = Open, ci_consecutive_failures = 1, ci_opened_at = Some 100\<rparr>)]\<rparr>"

lemma tripped_monitor_reachable: "monitor_reachable example_config tripped_monitor"
proof (rule monitor_reachable.sweep[OF monitor_reachable.start])
  show "handle_check_all (\<lambda>_. (0, 0)) 100 () (\<lambda>_. None) example_entries
      \<lparr>hm_health_cache = [], hm_circuit_config = example_config, hm_circuits = []\<rparr> = (tripped_monitor, [], [7])"
    by (simp add: handle_check_all_def example_entries_def circuit_of_def maybe_transition_to_half_open_def
        should_skip_probe_def CircuitState_new_def note_result_def record_failure_def answer_def tripped_monitor_def example_config_def)
qed (simp add: example_entries_def)

theorem open_circuit_not_delegated_witness:
  "get_healthy_endpoint example_entries (hm_health_cache tripped_monitor) 7 = None"
  using open_circuit_not_delegated[OF tripped_monitor_reachable, of 7 _ example_entries] by (simp add: tripped_monitor_def)

theorem sweep_exact_witness:
  "\<exists>m'. handle_check_all (\<lambda>_. (30100, 30100)) 30105 () (\<lambda>_. Some \<lparr>pb_health = Degraded, pb_output = ()\<rparr>) example_entries tripped_monitor =
      (m', [()], [7]) \<and> handle_get_health 7 m' = Some Degraded \<and> map_of (hm_circuits m') 7 = Some CircuitState_new"
proof -
  let ?probe = "\<lambda>_ :: nat. Some \<lparr>pb_health = Degraded, pb_output = ()\<rparr>"
  obtain m' outputs probed where sweep: "handle_check_all (\<lambda>_. (30100, 30100)) 30105 () ?probe example_entries tripped_monitor = (m', outputs, probed)"
    by (cases "handle_check_all (\<lambda>_. (30100, 30100)) 30105 () ?probe example_entries tripped_monitor")
  then have "outputs = [()]" "probed = [7]"
    by (simp_all add: handle_check_all_def example_entries_def circuit_of_def maybe_transition_to_half_open_def
        should_skip_probe_def note_result_def answer_def tripped_monitor_def example_config_def Let_def)
  with sweep show ?thesis
    using sweep_exact[OF sweep, of 7] by (simp add: example_entries_def)
qed

theorem failures_open_circuit_witness:
  "ci_phase ((record_failure CircuitConfig_default 0 ^^ 2) CircuitState_new) = Closed \<and>
   ci_phase ((record_failure CircuitConfig_default 0 ^^ 3) CircuitState_new) = Open"
  using failures_open_circuit[of CircuitConfig_default 2 0] failures_open_circuit[of CircuitConfig_default 3 0]
  by (simp add: CircuitConfig_default_def)

end
