(* ===== verification/QF_Node.thy ===== *)
theory QF_Node
  imports QF_Cluster QF_Governance
begin

text \<open>
  The federation actors: \<^verbatim>\<open>crates/queryfabric-federation/src\<close> (host, hub actor, node actor, schema sync and
  transport). The host that the embedding application provides is a record of functions over its own state,
  as the trait has it, and 32-bit versions, which are only compared, are integers; a message handler takes the state of its actor and returns it updated with the reply.
\<close>

section \<open>Messages\<close>

record ClusterIdentity =
  id_name :: string
  id_endpoint :: string
  id_port :: int
  id_ca_certificate_pem :: "string option"
  id_description :: "string option"
  id_institution :: "string option"
  id_contact_email :: "string option"

record SchemaMigration =
  sm_version :: int
  sm_name :: string
  sm_sql :: string

record SchemaSync =
  ss_target_version :: int
  ss_migrations :: "SchemaMigration list"

record SchemaSyncReply =
  sr_success :: bool
  sr_applied_version :: int
  sr_errors :: "string list"

record RegisterCluster =
  rc_identity :: ClusterIdentity
  rc_federation_password :: string

record RegisterClusterReply =
  rp_cluster_id :: NodeId
  rp_api_key :: string
  rp_schema_version :: int
  rp_schema_ddl :: "SchemaMigration list"
  rp_accepted :: bool
  rp_message :: string

datatype CatalogAction = Added | Removed | Updated

record 't ResourceAnnouncement =
  an_cluster_id :: NodeId
  an_resource_id :: ResourceRef
  an_action :: CatalogAction
  an_facets :: "string list"
  an_catalog_entry :: "'t option"

record HealthPong =
  hp_status :: Health
  hp_schema_version :: int
  hp_resource_count :: u64
  hp_uptime_secs :: nat
  hp_storage_ok :: bool
  hp_host_revision :: int

record EndpointReply =
  er_endpoint :: string
  er_tls :: bool

record 't CatalogResponse =
  cp_resources :: "'t list"
  cp_as_of :: nat

section \<open>The host\<close>

record ClusterRegistration =
  cr_cluster_id :: NodeId
  cr_api_key :: string
  cr_message :: string

datatype FederationHostError =
    Unsupported string
  | Rejected string string
  | Failed string string

fun FederationHostError_display :: "FederationHostError \<Rightarrow> string" where
  "FederationHostError_display (Unsupported operation) = operation @ '' is not supported by this host''"
| "FederationHostError_display (Rejected operation reason) = operation @ '' rejected: '' @ reason"
| "FederationHostError_display (Failed operation reason) = operation @ '' failed: '' @ reason"

record ('h, 't) FederationHost =
  fh_register_cluster :: "ClusterIdentity \<Rightarrow> string \<Rightarrow> 'h \<Rightarrow> (FederationHostError + ClusterRegistration) \<times> 'h"
  fh_on_announce :: "'t ResourceAnnouncement \<Rightarrow> 'h \<Rightarrow> 'h"
  fh_schema_version :: "'h \<Rightarrow> int"
  fh_schema_migrations :: "int \<Rightarrow> 'h \<Rightarrow> SchemaMigration list"
  fh_storage_ok :: "'h \<Rightarrow> bool"
  fh_resource_count :: "'h \<Rightarrow> u64"
  fh_catalog :: "nat option \<Rightarrow> 'h \<Rightarrow> 't list"
  fh_apply_ddl :: "SchemaMigration \<Rightarrow> 'h \<Rightarrow> (FederationHostError + unit) \<times> 'h"
  fh_host_revision :: "'h \<Rightarrow> int"

text \<open>What a host does that implements nothing.\<close>

definition FederationHost_default :: "('h, 't) FederationHost" where
  "FederationHost_default =
     \<lparr>fh_register_cluster = (\<lambda>identity password h. (Inl (Unsupported ''cluster registration''), h)),
      fh_on_announce = (\<lambda>announcement h. h), fh_schema_version = (\<lambda>h. 0), fh_schema_migrations = (\<lambda>from_version h. []),
      fh_storage_ok = (\<lambda>h. True), fh_resource_count = (\<lambda>h. 0), fh_catalog = (\<lambda>since h. []), fh_apply_ddl = (\<lambda>migration h. (Inr (), h)),
      fh_host_revision = (\<lambda>h. 0)\<rparr>"

section \<open>Schema sync\<close>

definition ddl_allowed :: "string \<Rightarrow> bool" where
  "ddl_allowed sql =
     (let upper = to_ascii_uppercase (trim_start sql)
      in starts_with upper ''CREATE '' \<or> starts_with upper ''ALTER '')"

definition migration_label :: "SchemaMigration \<Rightarrow> string" where
  "migration_label m = ''Migration v'' @ int_to_string (sm_version m) @ '' '' @ [CHR 0x27] @ sm_name m @ [CHR 0x27]"

text \<open>The loop over the migrations: it ends with the applied version, the host and at most one error.\<close>

fun apply_migrations ::
  "('h, 't) FederationHost \<Rightarrow> SchemaMigration list \<Rightarrow> int \<Rightarrow> 'h \<Rightarrow> int \<times> 'h \<times> string list" where
  "apply_migrations host [] applied_version h = (applied_version, h, [])"
| "apply_migrations host (m # ms) applied_version h =
     (if sm_version m \<le> applied_version then apply_migrations host ms applied_version h
      else if \<not> ddl_allowed (sm_sql m)
      then (applied_version, h, [migration_label m @ '' rejected: only CREATE/ALTER DDL is allowed''])
      else (case fh_apply_ddl host m h of
          (Inr _, h') \<Rightarrow> apply_migrations host ms (sm_version m) h'
        | (Inl e, h') \<Rightarrow> (applied_version, h', [migration_label m @ '' failed: '' @ FederationHostError_display e])))"

definition apply_schema_sync ::
  "('h, 't) FederationHost \<Rightarrow> SchemaSync \<Rightarrow> int \<times> 'h \<Rightarrow> SchemaSyncReply \<times> int \<times> 'h" where
  "apply_schema_sync host sync = (\<lambda>(version, h).
     let (applied_version, h', errors) = apply_migrations host (ss_migrations sync) version h
     in (\<lparr>sr_success = (errors = []), sr_applied_version = applied_version, sr_errors = errors\<rparr>, applied_version, h'))"

section \<open>The node actor\<close>

record ClusterNodeActor =
  na_identity :: ClusterIdentity
  na_flight_endpoint :: "string option"
  na_flight_tls :: bool
  na_schema_version :: int
  na_started_at :: nat

definition node_health_ping :: "('h, 't) FederationHost \<Rightarrow> 'h \<Rightarrow> nat \<Rightarrow> ClusterNodeActor \<Rightarrow> HealthPong" where
  "node_health_ping host h now n =
     (let storage_ok = fh_storage_ok host h
      in \<lparr>hp_status = (if storage_ok then Healthy else Degraded), hp_schema_version = na_schema_version n,
          hp_resource_count = (if storage_ok then fh_resource_count host h else 0),
          hp_uptime_secs = (now - na_started_at n) div 1000, hp_storage_ok = storage_ok,
          hp_host_revision = fh_host_revision host h\<rparr>)"

definition node_schema_sync ::
  "('h, 't) FederationHost \<Rightarrow> SchemaSync \<Rightarrow> ClusterNodeActor \<times> 'h \<Rightarrow> SchemaSyncReply \<times> ClusterNodeActor \<times> 'h" where
  "node_schema_sync host sync = (\<lambda>(n, h).
     let (reply, version, h') = apply_schema_sync host sync (na_schema_version n, h)
     in (reply, n\<lparr>na_schema_version := version\<rparr>, h'))"

definition node_catalog :: "('h, 't) FederationHost \<Rightarrow> 'h \<Rightarrow> nat \<Rightarrow> nat option \<Rightarrow> 't CatalogResponse" where
  "node_catalog host h now since = \<lparr>cp_resources = fh_catalog host since h, cp_as_of = now\<rparr>"

definition node_flight_endpoint :: "ClusterNodeActor \<Rightarrow> EndpointReply" where
  "node_flight_endpoint n =
     \<lparr>er_endpoint = (case na_flight_endpoint n of Some e \<Rightarrow> e | None \<Rightarrow> []), er_tls = na_flight_tls n\<rparr>"

section \<open>The hub actor\<close>

record HubActor =
  ha_registry :: "(ResourceRef, NodeId) HubRegistryState"
  ha_naming :: DhtNaming
  ha_circuit_reset :: bool \<comment> \<open>whether a reset hook is installed\<close>

text \<open>A registration returns the reply and the node whose circuit the hook is asked to reset.\<close>

definition hub_register ::
  "('h, 't) FederationHost \<Rightarrow> RegisterCluster \<Rightarrow> HubActor \<times> 'h \<Rightarrow> RegisterClusterReply \<times> NodeId option \<times> HubActor \<times> 'h" where
  "hub_register host msg = (\<lambda>(hub, h).
     case fh_register_cluster host (rc_identity msg) (rc_federation_password msg) h of
       (Inr registration, h') \<Rightarrow>
         let handle = \<lparr>ch_cluster_id = cr_cluster_id registration, ch_cluster_name = id_name (rc_identity msg),
               ch_dht_name = DhtNaming_cluster_name (ha_naming hub) (id_name (rc_identity msg)),
               ch_flight_endpoint = None, ch_flight_tls = False\<rparr>
         in (\<lparr>rp_cluster_id = cr_cluster_id registration, rp_api_key = cr_api_key registration,
              rp_schema_version = fh_schema_version host h', rp_schema_ddl = fh_schema_migrations host 0 h',
              rp_accepted = True, rp_message = cr_message registration\<rparr>,
             if ha_circuit_reset hub then Some (cr_cluster_id registration) else None,
             hub\<lparr>ha_registry := upsert_cluster handle (ha_registry hub)\<rparr>, h')
     | (Inl e, h') \<Rightarrow>
         (\<lparr>rp_cluster_id = NodeId 0, rp_api_key = [], rp_schema_version = 0, rp_schema_ddl = [],
           rp_accepted = False, rp_message = ''Registration failed: '' @ FederationHostError_display e\<rparr>,
          None, hub, h'))"

definition hub_announce ::
  "('h, 't) FederationHost \<Rightarrow> 't ResourceAnnouncement \<Rightarrow> HubActor \<times> 'h \<Rightarrow> HubActor \<times> 'h" where
  "hub_announce host msg = (\<lambda>(hub, h).
     (hub\<lparr>ha_registry :=
         (if an_action msg = Removed then remove_resource (an_resource_id msg) (ha_registry hub)
          else upsert_resource (an_resource_id msg)
            \<lparr>rl_cluster_id = an_cluster_id msg, rl_tables = an_facets msg\<rparr> (ha_registry hub))\<rparr>,
      fh_on_announce host msg h))"

text \<open>
  Schema sync to every registered cluster. The transport is an operation on a state of its own, which the
  requests go through one after the other.
\<close>

datatype TransportError = NotFound string | Request string string

fun sync_clusters ::
  "(NodeId ClusterRemoteHandle \<Rightarrow> SchemaSync \<Rightarrow> 'n \<Rightarrow> (TransportError + SchemaSyncReply) \<times> 'n) \<Rightarrow> SchemaSync \<Rightarrow>
     NodeId ClusterRemoteHandle list \<Rightarrow> 'n \<Rightarrow> (string \<times> bool) list \<times> 'n" where
  "sync_clusters schema_sync sync [] transport = ([], transport)"
| "sync_clusters schema_sync sync (handle # entries) transport =
     (let (answer, transport) = schema_sync handle sync transport;
          (results, transport) = sync_clusters schema_sync sync entries transport
      in ((ch_cluster_name handle, case answer of Inr reply \<Rightarrow> sr_success reply | Inl e \<Rightarrow> False) # results, transport))"

definition hub_sync_all ::
  "('h, 't) FederationHost \<Rightarrow> (NodeId ClusterRemoteHandle \<Rightarrow> SchemaSync \<Rightarrow> 'n \<Rightarrow> (TransportError + SchemaSyncReply) \<times> 'n) \<Rightarrow>
     HubActor \<times> 'h \<Rightarrow> 'n \<Rightarrow> (string \<times> bool) list \<times> 'n" where
  "hub_sync_all host schema_sync = (\<lambda>(hub, h) transport.
     let migrations = fh_schema_migrations host 0 h; target_version = fh_schema_version host h
     in sync_clusters schema_sync \<lparr>ss_target_version = target_version, ss_migrations = migrations\<rparr>
          (map snd (hr_cluster_refs (ha_registry hub))) transport)"

section \<open>Transport\<close>

text \<open>
  The in-memory transport: node actors by their DHT name, each with the state of its host. An actor that has
  stopped (\<open>None\<close>) answers every request with the actor library's error, given as its text.
\<close>

type_synonym 'h transport = "(string \<times> (ClusterNodeActor \<times> 'h) option) list"

definition transport_register :: "string \<Rightarrow> (ClusterNodeActor \<times> 'h) option \<Rightarrow> 'h transport \<Rightarrow> 'h transport" where
  "transport_register name node nodes = AList.update name node nodes"

definition transport_lookup :: "'h transport \<Rightarrow> string \<Rightarrow> TransportError + (ClusterNodeActor \<times> 'h) option" where
  "transport_lookup nodes name = ok_or (NotFound name) (map_of nodes name)"

definition transport_schema_sync ::
  "string \<Rightarrow> ('h, 't) FederationHost \<Rightarrow> NodeId ClusterRemoteHandle \<Rightarrow> SchemaSync \<Rightarrow> 'h transport \<Rightarrow>
     (TransportError + SchemaSyncReply) \<times> 'h transport" where
  "transport_schema_sync stopped host handle sync nodes =
     (case transport_lookup nodes (ch_dht_name handle) of
        Inl e \<Rightarrow> (Inl e, nodes)
      | Inr None \<Rightarrow> (Inl (Request (ch_dht_name handle) stopped), nodes)
      | Inr (Some node) \<Rightarrow>
          let (reply, node') = node_schema_sync host sync node
          in (Inr reply, AList.update (ch_dht_name handle) (Some node') nodes))"

definition transport_health_ping ::
  "string \<Rightarrow> ('h, 't) FederationHost \<Rightarrow> nat \<Rightarrow> 'h transport \<Rightarrow> NodeId ClusterRemoteHandle \<Rightarrow> TransportError + HealthPong" where
  "transport_health_ping stopped host now nodes handle =
     result_bind (transport_lookup nodes (ch_dht_name handle)) (\<lambda>node.
       case node of
         None \<Rightarrow> Inl (Request (ch_dht_name handle) stopped)
       | Some (n, h) \<Rightarrow> Inr (node_health_ping host h now n))"

definition transport_get_flight_endpoint ::
  "string \<Rightarrow> 'h transport \<Rightarrow> NodeId ClusterRemoteHandle \<Rightarrow> TransportError + EndpointReply" where
  "transport_get_flight_endpoint stopped nodes handle =
     result_bind (transport_lookup nodes (ch_dht_name handle)) (\<lambda>node.
       case node of
         None \<Rightarrow> Inl (Request (ch_dht_name handle) stopped)
       | Some (n, h) \<Rightarrow> Inr (node_flight_endpoint n))"

text \<open>A probe pings the cluster and refreshes its endpoint in the registry.\<close>

definition transport_probe ::
  "(NodeId ClusterRemoteHandle \<Rightarrow> TransportError + HealthPong) \<Rightarrow> (NodeId ClusterRemoteHandle \<Rightarrow> TransportError + EndpointReply) \<Rightarrow>
     NodeId \<Rightarrow> NodeId ClusterRemoteHandle \<Rightarrow> NodeId ClusterRefs \<Rightarrow> HealthPong option ProbeResult \<times> NodeId ClusterRefs" where
  "transport_probe health_ping get_flight_endpoint node handle cluster_refs =
     (case health_ping handle of
        Inr pong \<Rightarrow>
          (\<lparr>pb_health = hp_status pong, pb_output = Some pong\<rparr>,
           case get_flight_endpoint handle of
             Inr reply \<Rightarrow>
               if er_endpoint reply \<noteq> []
               then AList.update node (handle\<lparr>ch_flight_endpoint := Some (er_endpoint reply), ch_flight_tls := er_tls reply\<rparr>) cluster_refs
               else cluster_refs
           | Inl _ \<Rightarrow> cluster_refs)
      | Inl _ \<Rightarrow> (\<lparr>pb_health = Unreachable, pb_output = None\<rparr>, cluster_refs))"


section \<open>Schema sync applies a prefix\<close>

text \<open>The host's state after a list of migrations that all succeed.\<close>

fun run_ddl :: "('h, 't) FederationHost \<Rightarrow> SchemaMigration list \<Rightarrow> 'h \<Rightarrow> 'h option" where
  "run_ddl host [] h = Some h"
| "run_ddl host (m # ms) h = (case fh_apply_ddl host m h of (Inr _, h') \<Rightarrow> run_ddl host ms h' | (Inl _, _) \<Rightarrow> None)"

definition pending :: "int \<Rightarrow> SchemaMigration list \<Rightarrow> SchemaMigration list" where
  "pending version ms = filter (\<lambda>m. version < sm_version m) ms"

text \<open>Where a sync may stop: after everything, at a rejected body, or at a migration the host fails.\<close>

definition stops_at ::
  "('h, 't) FederationHost \<Rightarrow> SchemaMigration list \<Rightarrow> 'h \<Rightarrow> 'h \<Rightarrow> string list \<Rightarrow> bool" where
  "stops_at host rest h h' errors \<longleftrightarrow>
     (case rest of
        [] \<Rightarrow> errors = [] \<and> h' = h
      | m # _ \<Rightarrow>
          if ddl_allowed (sm_sql m)
          then \<exists>e. fh_apply_ddl host m h = (Inl e, h') \<and> errors = [migration_label m @ '' failed: '' @ FederationHostError_display e]
          else h' = h \<and> errors = [migration_label m @ '' rejected: only CREATE/ALTER DDL is allowed''])"

lemma pending_all: "\<forall>m\<in>set ms. v < sm_version m \<Longrightarrow> pending v ms = ms"
  by (simp add: pending_def)

lemma apply_migrations_prefix:
  assumes "sorted_wrt (<) (map sm_version ms)" and "apply_migrations host ms v h = (v', h', errors)"
  shows "\<exists>applied rest h1. pending v ms = applied @ rest \<and> list_all (ddl_allowed \<circ> sm_sql) applied \<and>
    run_ddl host applied h = Some h1 \<and> v' = last (v # map sm_version applied) \<and> stops_at host rest h1 h' errors"
  using assms
proof (induction ms arbitrary: v h)
  case Nil
  then show ?case by (intro exI[of _ "[]"]) (simp add: pending_def stops_at_def)
next
  case (Cons m ms)
  consider (skip) "sm_version m \<le> v" | (reject) "v < sm_version m" "\<not> ddl_allowed (sm_sql m)"
    | (fail) e h2 where "v < sm_version m" "ddl_allowed (sm_sql m)" "fh_apply_ddl host m h = (Inl e, h2)"
    | (run) u h2 where "v < sm_version m" "ddl_allowed (sm_sql m)" "fh_apply_ddl host m h = (Inr u, h2)"
    by (metis linorder_not_le surj_pair sum.exhaust)
  then show ?case
  proof cases
    case skip
    with Cons show ?thesis by (simp add: pending_def)
  next
    case reject
    with Cons.prems show ?thesis
      by - (rule exI[of _ "[]"], rule exI[of _ "pending v (m # ms)"], rule exI[of _ h], simp add: pending_def stops_at_def)
  next
    case fail
    with Cons.prems show ?thesis
      by - (rule exI[of _ "[]"], rule exI[of _ "pending v (m # ms)"], rule exI[of _ h], simp add: pending_def stops_at_def)
  next
    case run
    with Cons.prems have "\<forall>x\<in>set ms. v < sm_version x" "\<forall>x\<in>set ms. sm_version m < sm_version x" by auto
    then have pend: "pending v (m # ms) = m # pending (sm_version m) ms"
      using run(1) by (simp add: pending_def)
    from run Cons.prems have "sorted_wrt (<) (map sm_version ms)"
      "apply_migrations host ms (sm_version m) h2 = (v', h', errors)" by auto
    from Cons.IH[OF this] obtain applied rest h1 where
      "pending (sm_version m) ms = applied @ rest" "list_all (ddl_allowed \<circ> sm_sql) applied"
      "run_ddl host applied h2 = Some h1" "v' = last (sm_version m # map sm_version applied)" "stops_at host rest h1 h' errors" by blast
    with run pend show ?thesis by - (rule exI[of _ "m # applied"], rule exI[of _ rest], rule exI[of _ h1], simp add: comp_def)
  qed
qed

lemma apply_migrations_version: "apply_migrations host ms v h = (v', h', errors) \<Longrightarrow> v \<le> v'"
  by (induction ms arbitrary: v h) (fastforce split: if_splits prod.splits sum.splits)+

lemma apply_migrations_covers:
  assumes "apply_migrations host ms v h = (v', h', [])" and "m \<in> set ms"
  shows "sm_version m \<le> v'"
  using assms
proof (induction ms arbitrary: v h)
  case (Cons x ms)
  then show ?case
    using apply_migrations_version[of host ms]
    by (fastforce split: if_splits prod.splits sum.splits)
qed simp

lemma apply_migrations_none: "\<forall>m\<in>set ms. sm_version m \<le> v \<Longrightarrow> apply_migrations host ms v h = (v, h, [])"
  by (induction ms) simp_all

text \<open>
  C25. What a schema sync does when the migrations come in strictly increasing order. The node applies a prefix of
  the migrations above its version, all of them allowed bodies that the host accepted, and ends on the version of
  the last one; it stops at the first body that is not allowed, without calling the host, or at the first that the
  host fails, and reports that one error. It reports success exactly when nothing pending was left.
\<close>

theorem schema_sync_correct:
  assumes "sorted_wrt (<) (map sm_version (ss_migrations sync))"
    and "apply_schema_sync host sync (v, h) = (reply, v', h')"
  shows "\<exists>applied rest h1. pending v (ss_migrations sync) = applied @ rest \<and>
    list_all (ddl_allowed \<circ> sm_sql) applied \<and> run_ddl host applied h = Some h1 \<and>
    v' = last (v # map sm_version applied) \<and> sr_applied_version reply = v' \<and>
    stops_at host rest h1 h' (sr_errors reply) \<and> (sr_success reply \<longleftrightarrow> rest = [])"
proof -
  obtain v1 h1 errors where loop: "apply_migrations host (ss_migrations sync) v h = (v1, h1, errors)" by (cases "apply_migrations host (ss_migrations sync) v h")
  with assms(2) have "reply = \<lparr>sr_success = (errors = []), sr_applied_version = v', sr_errors = errors\<rparr>" "v1 = v'" "h1 = h'"
    by (auto simp: apply_schema_sync_def)
  moreover have "stops_at host rest h1 h' errors \<Longrightarrow> errors = [] \<longleftrightarrow> rest = []" for rest h1
    by (auto simp: stops_at_def split: list.splits if_splits)
  ultimately show ?thesis using apply_migrations_prefix[OF assms(1) loop] by fastforce
qed

text \<open>
  Schema sync is idempotent, in whatever order the migrations come. The version of a node never decreases;
  after a sync that reported success it covers every migration of the message, and repeating the message changes
  neither the version nor the host and again reports success.
\<close>

theorem schema_sync_idempotent:
  assumes "apply_schema_sync host sync (v, h) = (reply, v', h')"
  shows "v \<le> v' \<and> (sr_success reply \<longrightarrow>
    (\<forall>m\<in>set (ss_migrations sync). sm_version m \<le> v') \<and>
    apply_schema_sync host sync (v', h') = (\<lparr>sr_success = True, sr_applied_version = v', sr_errors = []\<rparr>, v', h'))"
proof -
  obtain v1 h1 errors where loop: "apply_migrations host (ss_migrations sync) v h = (v1, h1, errors)" by (cases "apply_migrations host (ss_migrations sync) v h")
  with assms have "sr_success reply \<longleftrightarrow> errors = []" "v1 = v'" "h1 = h'" by (auto simp: apply_schema_sync_def)
  then show ?thesis
    using apply_migrations_version[OF loop] apply_migrations_covers[of host "ss_migrations sync" v h v' h'] loop
      apply_migrations_none[of "ss_migrations sync" v' host h'] by (auto simp: apply_schema_sync_def)
qed


section \<open>Sync over the transport\<close>

definition node_version :: "'h transport \<Rightarrow> string \<Rightarrow> int option" where
  "node_version nodes name =
     (case map_of nodes name of Some (Some (n, h)) \<Rightarrow> Some (na_schema_version n) | _ \<Rightarrow> None)"

definition covers :: "SchemaSync \<Rightarrow> int \<Rightarrow> bool" where
  "covers sync v \<longleftrightarrow> (\<forall>m\<in>set (ss_migrations sync). sm_version m \<le> v)"

lemma transport_schema_sync_version:
  assumes "transport_schema_sync stopped host handle sync nodes = (ans, nodes')"
  shows "node_version nodes name = Some v \<Longrightarrow> \<exists>v'\<ge>v. node_version nodes' name = Some v'"
    and "(\<exists>reply. ans = Inr reply \<and> sr_success reply) \<Longrightarrow> \<exists>v. node_version nodes' (ch_dht_name handle) = Some v \<and> covers sync v"
proof -
  consider (failed) e where "ans = Inl e" "nodes' = nodes"
    | (asked) n h reply v' h' where "map_of nodes (ch_dht_name handle) = Some (Some (n, h))" "ans = Inr reply"
        "apply_schema_sync host sync (na_schema_version n, h) = (reply, v', h')"
        "nodes' = AList.update (ch_dht_name handle) (Some (n\<lparr>na_schema_version := v'\<rparr>, h')) nodes"
    using assms
    by (fastforce simp: transport_schema_sync_def transport_lookup_def node_schema_sync_def ok_or_def
        split: option.splits sum.splits prod.splits)
  note step = this
  have version: "na_schema_version n \<le> v' \<and> (sr_success reply \<longrightarrow> covers sync v')"
    if "apply_schema_sync host sync (na_schema_version n, h) = (reply, v', h')" for n h reply v' h'
  proof -
    obtain v1 h1 errors where loop: "apply_migrations host (ss_migrations sync) (na_schema_version n) h = (v1, h1, errors)"
      by (cases "apply_migrations host (ss_migrations sync) (na_schema_version n) h")
    with that have "sr_success reply \<longleftrightarrow> errors = []" "v1 = v'" by (auto simp: apply_schema_sync_def)
    with apply_migrations_version[OF loop] apply_migrations_covers[of host "ss_migrations sync" "na_schema_version n" h v' h1] loop
    show ?thesis by (auto simp: covers_def)
  qed
  show "node_version nodes name = Some v \<Longrightarrow> \<exists>v'\<ge>v. node_version nodes' name = Some v'"
    using step
  proof cases
    case asked
    with version[OF asked(3)] show "node_version nodes name = Some v \<Longrightarrow> \<exists>v'\<ge>v. node_version nodes' name = Some v'"
      by (auto simp: node_version_def update_conv')
  qed simp
  show "(\<exists>reply. ans = Inr reply \<and> sr_success reply) \<Longrightarrow> \<exists>v. node_version nodes' (ch_dht_name handle) = Some v \<and> covers sync v"
    using step
  proof cases
    case asked
    with version[OF asked(3)]
    show "(\<exists>reply. ans = Inr reply \<and> sr_success reply) \<Longrightarrow> \<exists>v. node_version nodes' (ch_dht_name handle) = Some v \<and> covers sync v"
      by (auto simp: node_version_def update_conv')
  qed simp
qed

lemma sync_clusters_version:
  assumes "sync_clusters (transport_schema_sync stopped host) sync handles nodes = (results, nodes')"
    and "node_version nodes name = Some v"
  shows "\<exists>v'\<ge>v. node_version nodes' name = Some v'"
  using assms
proof (induction handles arbitrary: nodes results v)
  case (Cons handle handles)
  obtain a nodes1 where one: "transport_schema_sync stopped host handle sync nodes = (a, nodes1)" by fastforce
  obtain rs nodes2 where rest: "sync_clusters (transport_schema_sync stopped host) sync handles nodes1 = (rs, nodes2)" by fastforce
  from Cons.prems one rest have last: "nodes2 = nodes'" by simp
  from Cons.IH[OF rest[unfolded last]] transport_schema_sync_version(1)[OF one Cons.prems(2)] show ?case by (meson order_trans)
qed auto

lemma sync_clusters_spec:
  assumes "sync_clusters (transport_schema_sync stopped host) sync handles nodes = (results, nodes')"
  shows "map fst results = map ch_cluster_name handles \<and>
    (\<forall>i<length handles. snd (results ! i) \<longrightarrow> (\<exists>v. node_version nodes' (ch_dht_name (handles ! i)) = Some v \<and> covers sync v))"
  using assms
proof (induction handles arbitrary: nodes results)
  case (Cons handle handles)
  obtain a nodes1 where one: "transport_schema_sync stopped host handle sync nodes = (a, nodes1)" by fastforce
  obtain rs nodes2 where rest: "sync_clusters (transport_schema_sync stopped host) sync handles nodes1 = (rs, nodes2)" by fastforce
  from Cons.prems one rest have res: "nodes2 = nodes'"
    "results = (ch_cluster_name handle, case a of Inr reply \<Rightarrow> sr_success reply | Inl e \<Rightarrow> False) # rs" by auto
  have "\<exists>v. node_version nodes' (ch_dht_name handle) = Some v \<and> covers sync v" if "snd (hd results)"
  proof -
    from that res have "\<exists>reply. a = Inr reply \<and> sr_success reply" by (auto split: sum.splits)
    then obtain v where v: "node_version nodes1 (ch_dht_name handle) = Some v" "covers sync v"
      using transport_schema_sync_version(2)[OF one] by blast
    with sync_clusters_version[OF rest v(1)] res(1) show ?thesis by (fastforce simp: covers_def)
  qed
  with Cons.IH[OF rest[unfolded res(1)]] show ?case by (auto simp: res(2) nth_Cons split: nat.splits)
qed simp

text \<open>
  C26. A schema broadcast over the in-memory transport is truthful. The hub reports one result per registered
  cluster, in the order of the registry; for every cluster reported as synchronised, the node behind its name is
  running and, when the broadcast is over, its schema version is at least that of every migration of the hub,
  even when other clusters failed or several share a name.
\<close>

theorem sync_all_truthful:
  assumes "hub_sync_all host (transport_schema_sync stopped node_host) (hub, h) nodes = (results, nodes')"
  shows "map fst results = map (ch_cluster_name \<circ> snd) (hr_cluster_refs (ha_registry hub)) \<and>
    (\<forall>i<length results. snd (results ! i) \<longrightarrow>
       (\<exists>v. node_version nodes' (ch_dht_name (snd (hr_cluster_refs (ha_registry hub) ! i))) = Some v \<and>
            (\<forall>m\<in>set (fh_schema_migrations host 0 h). sm_version m \<le> v)))"
proof -
  note spec = sync_clusters_spec[OF assms[unfolded hub_sync_all_def Let_def prod.case]]
  have "length results = length (hr_cluster_refs (ha_registry hub))" using arg_cong[OF conjunct1[OF spec], of length] by simp
  with spec show ?thesis by (simp add: covers_def comp_def)
qed

section \<open>Announcements and registration\<close>

text \<open>Where the announcements so far place a resource: the last one about it decides.\<close>

fun announced :: "'t ResourceAnnouncement list \<Rightarrow> ResourceRef \<Rightarrow> NodeId ResourceLocation option \<Rightarrow> NodeId ResourceLocation option" where
  "announced [] r loc = loc"
| "announced (a # as) r loc =
     announced as r
       (if an_resource_id a \<noteq> r then loc
        else if an_action a = Removed then None
        else Some \<lparr>rl_cluster_id = an_cluster_id a, rl_tables = an_facets a\<rparr>)"

lemma announce_index:
  "map_of (hr_resource_index (ha_registry (fst (fold (hub_announce host) as (hub, h))))) r =
     announced as r (map_of (hr_resource_index (ha_registry hub)) r)"
proof (induction as arbitrary: hub h)
  case (Cons a as)
  obtain hub' h' where step: "hub_announce host a (hub, h) = (hub', h')" by fastforce
  then have "map_of (hr_resource_index (ha_registry hub')) r =
      (if an_resource_id a \<noteq> r then map_of (hr_resource_index (ha_registry hub)) r
       else if an_action a = Removed then None else Some \<lparr>rl_cluster_id = an_cluster_id a, rl_tables = an_facets a\<rparr>)"
    by (auto simp: hub_announce_def upsert_resource_def remove_resource_def update_conv' delete_conv' split: if_splits)
  with Cons.IH[of hub' h'] show ?case by (simp add: step)
qed simp

text \<open>
  C24. Routing follows the announcements. After any sequence of announcements, a requested resource is answered
  locally exactly when the last announcement about it removed it, or there is none and the hub did not know it;
  otherwise it is in the group of the cluster that announced it last, and in no other. The host's own handling of
  the announcements has no influence on this.
\<close>

theorem routing_follows_announcements:
  assumes "r \<in> set ids" and "fold (hub_announce host) as (hub, h) = (hub', h')"
  shows "let d = resolve_locality (hr_resource_index (ha_registry hub')) ids;
             loc = announced as r (map_of (hr_resource_index (ha_registry hub)) r)
    in (r \<in> set (rd_local_ids d) \<longleftrightarrow> loc = None) \<and>
       (\<forall>g. g \<in> set (rd_remote d) \<longrightarrow> (r \<in> set (rg_resource_ids g) \<longleftrightarrow> map_option rl_cluster_id loc = Some (rg_cluster_id g))) \<and>
       (\<forall>l. loc = Some l \<longrightarrow> (\<exists>g\<in>set (rd_remote d). rg_cluster_id g = rl_cluster_id l \<and> r \<in> set (rg_resource_ids g)))"
proof -
  let ?index = "hr_resource_index (ha_registry hub')"
  let ?loc = "announced as r (map_of (hr_resource_index (ha_registry hub)) r)"
  have owner: "owner ?index r = map_option rl_cluster_id ?loc"
    using announce_index[of host as hub h r] assms(2) by (simp add: owner_def)
  have local_ids: "rd_local_ids (resolve_locality ?index ids) = filter (\<lambda>r. owner ?index r = None) ids"
    and remote: "set (rd_remote (resolve_locality ?index ids)) =
      (\<lambda>c. \<lparr>rg_cluster_id = c, rg_resource_ids = owned_by ?index c ids\<rparr>) ` {c. owned_by ?index c ids \<noteq> []}"
    by (simp_all add: locality_partition)
  have "r \<in> set (owned_by ?index c ids) \<longleftrightarrow> owner ?index r = Some c" for c using assms(1) by (simp add: owned_by_def)
  moreover have "owner ?index r = Some c \<Longrightarrow> owned_by ?index c ids \<noteq> []" for c using assms(1) by (auto simp: owned_by_def filter_empty_conv)
  ultimately show ?thesis using assms(1) by (auto simp: Let_def local_ids remote owner)
qed


lemma reset_probed:
  assumes "distinct (map fst entries)" and "c \<in> fst ` set entries"
    and "handle_check_all clock now default_output probe entries (handle_reset_circuit c m) = (m', outputs, probed)"
  shows "c \<in> set probed"
proof -
  have "ci_phase (circuit_of (hm_circuits (handle_reset_circuit c m)) c) = Closed"
    by (auto simp: handle_reset_circuit_def circuit_of_def CircuitState_new_def update_conv' split: option.splits)
  then have "\<not> skips config clock (hm_circuits (handle_reset_circuit c m)) c" for config
    by (auto simp: skips_def probing_circuit_def maybe_transition_to_half_open_def should_skip_probe_def split: option.split)
  then show ?thesis unfolding sweep_cluster(1)[OF assms(1,3)] using assms(2) by force
qed

text \<open>
  Registration. A registration the host refuses changes nothing at the hub, and its reply carries neither an
  identity nor a key nor a schema. An accepted one leaves the cluster registered without an endpoint, so that
  nothing is delegated to it yet, and every other cluster and the resource index as they were.
\<close>

theorem registration_effect:
  assumes "hub_register host msg (hub, h) = (reply, reset, hub', h')"
  shows "if rp_accepted reply
    then get_healthy_endpoint (hr_cluster_refs (ha_registry hub')) cache (rp_cluster_id reply) = None \<and>
         map_option ch_dht_name (get_handle (hr_cluster_refs (ha_registry hub')) (rp_cluster_id reply)) =
           Some (DhtNaming_cluster_name (ha_naming hub) (id_name (rc_identity msg))) \<and>
         (\<forall>c. c \<noteq> rp_cluster_id reply \<longrightarrow>
            get_handle (hr_cluster_refs (ha_registry hub')) c = get_handle (hr_cluster_refs (ha_registry hub)) c) \<and>
         hr_resource_index (ha_registry hub') = hr_resource_index (ha_registry hub)
    else hub' = hub \<and> reset = None \<and>
         rp_cluster_id reply = NodeId 0 \<and> rp_api_key reply = [] \<and> rp_schema_ddl reply = []"
  using assms
  by (auto simp: hub_register_def get_handle_def get_healthy_endpoint_def upsert_cluster_def update_conv' Let_def
      split: prod.splits sum.splits)

text \<open>
  C21. A recovered cluster is used again. Whatever its circuit was, a cluster that registers again at a hub with a
  reset hook is probed by the next sweep over the registry; when it answers the ping as healthy or degraded and
  names an endpoint, that endpoint is what work is delegated to after the sweep.
\<close>

theorem recovered_cluster_used:
  assumes "hub_register host msg (hub, h) = (reply, Some c, hub', h')"
    and "distinct (map fst (hr_cluster_refs (ha_registry hub)))"
    and "get_handle (hr_cluster_refs (ha_registry hub')) c = Some handle"
    and "transport_probe ping endpoint c handle (hr_cluster_refs (ha_registry hub')) = (result, refs)"
    and "probe c = Some result"
    and "handle_check_all clock now None probe (hr_cluster_refs (ha_registry hub')) (handle_reset_circuit c m) = (m', outputs, probed)"
    and "ping handle = Inr pong" and "Health_is_delegatable (hp_status pong)"
    and "endpoint handle = Inr answered" and "er_endpoint answered \<noteq> []"
  shows "c = rp_cluster_id reply \<and> c \<in> set probed \<and>
    get_healthy_endpoint refs (hm_health_cache m') c = Some (er_endpoint answered, er_tls answered)"
proof -
  obtain registration h1 where accepted: "fh_register_cluster host (rc_identity msg) (rc_federation_password msg) h = (Inr registration, h1)"
    using assms(1) by (auto simp: hub_register_def split: prod.splits sum.splits)
  with assms(1) have refs: "c = rp_cluster_id reply" and "\<exists>x. hr_cluster_refs (ha_registry hub') = AList.update c x (hr_cluster_refs (ha_registry hub))"
    by (auto simp: hub_register_def upsert_cluster_def Let_def split: if_splits)
  then obtain x where "hr_cluster_refs (ha_registry hub') = AList.update c x (hr_cluster_refs (ha_registry hub))" by blast
  then have entries: "distinct (map fst (hr_cluster_refs (ha_registry hub')))" "c \<in> fst ` set (hr_cluster_refs (ha_registry hub'))"
    using distinct_update[OF assms(2)] by (simp_all add: dom_update)
  then have probed: "c \<in> set probed" by (rule reset_probed[OF _ _ assms(6)])
  have result: "result = \<lparr>pb_health = hp_status pong, pb_output = Some pong\<rparr>"
    "refs = AList.update c (handle\<lparr>ch_flight_endpoint := Some (er_endpoint answered), ch_flight_tls := er_tls answered\<rparr>)
       (hr_cluster_refs (ha_registry hub'))"
    using assms(4) by (simp_all add: transport_probe_def assms(7,9,10))
  have "map_of (hm_health_cache m') c = Some (hp_status pong)"
    using sweep_cluster(4)[OF entries(1) assms(6), of c] entries(2) probed by (simp add: answer_def assms(5) result(1))
  then show ?thesis
    using refs probed assms(8) by (simp add: get_healthy_endpoint_def is_delegatable_def get_handle_def result(2) update_conv')
qed

section \<open>Examples\<close>

text \<open>A host that logs the names of the migrations it applies and fails on one named \<open>bad\<close>.\<close>

definition logging_host :: "(string list, unit) FederationHost" where
  "logging_host = FederationHost_default
     \<lparr>fh_apply_ddl := (\<lambda>m log. if sm_name m = ''bad'' then (Inl (Failed ''ddl'' ''no''), log) else (Inr (), log @ [sm_name m])),
      fh_register_cluster := (\<lambda>identity password log.
        if password = ''pw'' then (Inr \<lparr>cr_cluster_id = NodeId 7, cr_api_key = ''k'', cr_message = ''ok''\<rparr>, log)
        else (Inl (Rejected ''cluster registration'' ''password''), log)),
      fh_schema_migrations := (\<lambda>v log. [\<lparr>sm_version = 1, sm_name = ''one'', sm_sql = ''CREATE TABLE t (id Int)''\<rparr>,
        \<lparr>sm_version = 2, sm_name = ''two'', sm_sql = '' ALTER TABLE t ADD COLUMN x Int''\<rparr>])\<rparr>"

definition example_sync :: SchemaSync where
  "example_sync =
     \<lparr>ss_target_version = 3,
      ss_migrations = [\<lparr>sm_version = 1, sm_name = ''one'', sm_sql = ''CREATE TABLE t (id Int)''\<rparr>,
        \<lparr>sm_version = 2, sm_name = ''two'', sm_sql = ''ALTER TABLE t ADD COLUMN x Int''\<rparr>,
        \<lparr>sm_version = 3, sm_name = ''bad'', sm_sql = ''CREATE TABLE u (id Int)''\<rparr>]\<rparr>"

lemmas node_eval = ddl_allowed_def starts_with_def is_ascii_space_def trim_start_def to_ascii_uppercase_def to_ascii_uppercase_char_def logging_host_def
  FederationHost_default_def example_sync_def apply_schema_sync_def

theorem schema_sync_correct_witness:
  "\<exists>reply. apply_schema_sync logging_host example_sync (1, []) = (reply, 2, [''two'']) \<and> \<not> sr_success reply \<and>
    (\<exists>applied rest h1. pending 1 (ss_migrations example_sync) = applied @ rest \<and>
       2 = last (1 # map sm_version applied) \<and> rest \<noteq> [] \<and> run_ddl logging_host applied [] = Some h1)"
proof -
  obtain reply v h where run: "apply_schema_sync logging_host example_sync (1, []) = (reply, v, h)"
    by (cases "apply_schema_sync logging_host example_sync (1, [])")
  then have "v = 2" "h = [''two'']" "\<not> sr_success reply" by (auto simp: node_eval migration_label_def)
  moreover have "sorted_wrt (<) (map sm_version (ss_migrations example_sync))" by (simp add: example_sync_def)
  ultimately show ?thesis using schema_sync_correct[OF _ run] run by blast
qed

theorem schema_sync_idempotent_witness:
  "let sync = \<lparr>ss_target_version = 2, ss_migrations = fh_schema_migrations logging_host 0 []\<rparr>
   in apply_schema_sync logging_host sync (2, [''one'', ''two'']) =
        (\<lparr>sr_success = True, sr_applied_version = 2, sr_errors = []\<rparr>, 2, [''one'', ''two''])"
  using schema_sync_idempotent[of logging_host
      "\<lparr>ss_target_version = 2, ss_migrations = fh_schema_migrations logging_host 0 []\<rparr>" 0 "[]"
      "\<lparr>sr_success = True, sr_applied_version = 2, sr_errors = []\<rparr>" 2 "[''one'', ''two'']"]
  by (simp add: node_eval)

definition example_hub :: HubActor where
  "example_hub = \<lparr>ha_registry = \<lparr>hr_cluster_refs = [], hr_resource_index = []\<rparr>,
     ha_naming = \<lparr>dn_cluster_prefix = ''cluster'', dn_hub_name = ''hub''\<rparr>, ha_circuit_reset = True\<rparr>"

definition example_identity :: ClusterIdentity where
  "example_identity = \<lparr>id_name = ''a'', id_endpoint = ''a'', id_port = 1, id_ca_certificate_pem = None,
     id_description = None, id_institution = None, id_contact_email = None\<rparr>"

definition example_handle :: "NodeId ClusterRemoteHandle" where
  "example_handle = \<lparr>ch_cluster_id = NodeId 7, ch_cluster_name = ''a'', ch_dht_name = ''cluster:a'',
     ch_flight_endpoint = None, ch_flight_tls = False\<rparr>"

definition example_node :: ClusterNodeActor where
  "example_node = \<lparr>na_identity = example_identity, na_flight_endpoint = Some ''a:1'', na_flight_tls = True,
     na_schema_version = 0, na_started_at = 0\<rparr>"

definition registered_hub :: HubActor where
  "registered_hub = example_hub\<lparr>ha_registry := upsert_cluster example_handle (ha_registry example_hub)\<rparr>"

definition example_register :: "string \<Rightarrow> RegisterCluster" where
  "example_register password = \<lparr>rc_identity = example_identity, rc_federation_password = password\<rparr>"

definition example_reply :: RegisterClusterReply where
  "example_reply = \<lparr>rp_cluster_id = NodeId 7, rp_api_key = ''k'', rp_schema_version = 0,
     rp_schema_ddl = fh_schema_migrations logging_host 0 [], rp_accepted = True, rp_message = ''ok''\<rparr>"

lemma register_example:
  "hub_register logging_host (example_register ''pw'') (example_hub, []) =
     (example_reply, Some (NodeId 7), registered_hub, [])"
  by (simp add: hub_register_def logging_host_def FederationHost_default_def example_hub_def registered_hub_def example_handle_def example_register_def
      example_reply_def DhtNaming_cluster_name_def dht_name_def example_identity_def upsert_cluster_def)

lemma registered_refs: "hr_cluster_refs (ha_registry registered_hub) = [(NodeId 7, example_handle)]"
  by (simp add: registered_hub_def upsert_cluster_def example_hub_def example_handle_def)

theorem registration_effect_witness:
  "get_healthy_endpoint (hr_cluster_refs (ha_registry registered_hub)) [(NodeId 7, Healthy)] (NodeId 7) = None"
  using registration_effect[OF register_example, of "[(NodeId 7, Healthy)]"] by (simp add: example_reply_def)

theorem recovered_cluster_used_witness:
  "get_healthy_endpoint [(NodeId 7, example_handle\<lparr>ch_flight_endpoint := Some ''a:1'', ch_flight_tls := True\<rparr>)] [(NodeId 7, Healthy)] (NodeId 7) =
     Some (''a:1'', True)"
proof -
  let ?nodes = "[(''cluster:a'', Some (example_node, []))] :: string list transport"
  let ?ping = "transport_health_ping [] logging_host 5000 ?nodes" and ?endpoint = "transport_get_flight_endpoint [] ?nodes"
  let ?m = "\<lparr>hm_health_cache = [], hm_circuit_config = CircuitConfig_default,
    hm_circuits = [(NodeId 7, \<lparr>ci_phase = CircuitPhase.Open, ci_consecutive_failures = 3, ci_opened_at = Some 4000\<rparr>)]\<rparr>"
  let ?refs = "[(NodeId 7, example_handle\<lparr>ch_flight_endpoint := Some ''a:1'', ch_flight_tls := True\<rparr>)]"
  let ?pong = "node_health_ping logging_host [] 5000 example_node"
  have ping: "?ping example_handle = Inr ?pong" "?endpoint example_handle = Inr \<lparr>er_endpoint = ''a:1'', er_tls = True\<rparr>"
    by (simp_all add: transport_health_ping_def transport_get_flight_endpoint_def transport_lookup_def ok_or_def example_handle_def
        node_flight_endpoint_def example_node_def)
  have probe: "transport_probe ?ping ?endpoint (NodeId 7) example_handle (hr_cluster_refs (ha_registry registered_hub)) =
      (\<lparr>pb_health = Healthy, pb_output = Some ?pong\<rparr>, ?refs)"
    by (simp add: transport_probe_def ping registered_refs) (simp add: node_health_ping_def logging_host_def FederationHost_default_def)
  obtain m' outputs probed where sweep: "handle_check_all (\<lambda>_. (5000, 5000)) 5000 None (\<lambda>_. Some \<lparr>pb_health = Healthy, pb_output = Some ?pong\<rparr>)
      (hr_cluster_refs (ha_registry registered_hub)) (handle_reset_circuit (NodeId 7) ?m) = (m', outputs, probed)"
    using prod_cases3 by blast
  have cache: "hm_health_cache m' = [(NodeId 7, Healthy)]"
    using sweep by (auto simp: handle_check_all_def registered_refs handle_reset_circuit_def circuit_of_def maybe_transition_to_half_open_def
        should_skip_probe_def CircuitState_new_def note_result_def answer_def Let_def)
  show ?thesis
    using recovered_cluster_used[OF register_example _ _ probe _ sweep ping(1) _ ping(2)]
    by (auto simp: registered_refs example_hub_def get_handle_def cache Health_is_delegatable_def node_health_ping_def logging_host_def
        FederationHost_default_def example_reply_def)
qed

theorem sync_all_truthful_witness:
  "\<exists>nodes' v. hub_sync_all logging_host (transport_schema_sync [] logging_host) (registered_hub, []) [(''cluster:a'', Some (example_node, []))] =
       ([(''a'', True)], nodes') \<and> node_version nodes' ''cluster:a'' = Some v \<and> 2 \<le> v"
proof -
  obtain results nodes' where run: "hub_sync_all logging_host (transport_schema_sync [] logging_host) (registered_hub, [])
      [(''cluster:a'', Some (example_node, []))] = (results, nodes')" by fastforce
  then have "results = [(''a'', True)]"
    by (auto simp: hub_sync_all_def registered_refs transport_schema_sync_def transport_lookup_def ok_or_def example_handle_def
        node_schema_sync_def node_eval example_node_def)
  with run sync_all_truthful[OF run] show ?thesis
    by (auto simp: registered_refs example_handle_def logging_host_def)
qed

theorem routing_follows_announcements_witness:
  "let r = \<lparr>rr_namespace = 1, rr_id = 2\<rparr>;
       a = \<lparr>an_cluster_id = NodeId 7, an_resource_id = r, an_action = Added, an_facets = [], an_catalog_entry = None :: unit option\<rparr>;
       (hub', h') = fold (hub_announce logging_host) [a, a\<lparr>an_action := Removed\<rparr>, a\<lparr>an_cluster_id := NodeId 8\<rparr>] (example_hub, [])
   in \<exists>g\<in>set (rd_remote (resolve_locality (hr_resource_index (ha_registry hub')) [r])).
        rg_cluster_id g = NodeId 8 \<and> r \<in> set (rg_resource_ids g)"
proof -
  let ?r = "\<lparr>rr_namespace = 1, rr_id = 2\<rparr> :: ResourceRef"
  let ?a = "\<lparr>an_cluster_id = NodeId 7, an_resource_id = ?r, an_action = Added, an_facets = [], an_catalog_entry = None :: unit option\<rparr>"
  obtain hub' h' where run: "fold (hub_announce logging_host) [?a, ?a\<lparr>an_action := Removed\<rparr>, ?a\<lparr>an_cluster_id := NodeId 8\<rparr>] (example_hub, []) = (hub', h')"
    by fastforce
  with routing_follows_announcements[OF _ run, of ?r "[?r]"] show ?thesis
    by (auto simp: Let_def example_hub_def)
qed

text \<open>
  The guard on migration bodies looks only at the first keyword. A body that begins with \<open>CREATE\<close> and goes on
  with a destructive statement passes it and is handed to the host, although the guard is documented to keep
  destructive statements away from the nodes.
\<close>

theorem ddl_guard_passes_drop:
  "\<exists>m. sm_sql m = ''CREATE TABLE t (id Int); DROP TABLE users'' \<and>
    apply_schema_sync logging_host \<lparr>ss_target_version = 1, ss_migrations = [m]\<rparr> (0, []) =
      (\<lparr>sr_success = True, sr_applied_version = 1, sr_errors = []\<rparr>, 1, [sm_name m])"
  by (rule exI[of _ "\<lparr>sm_version = 1, sm_name = ''one'', sm_sql = ''CREATE TABLE t (id Int); DROP TABLE users''\<rparr>"]) (simp add: node_eval)

end
