(* ===== verification/QF_Tabular.thy ===== *)
theory QF_Tabular
  imports QF_Prelude
begin

text \<open>
  The tabular CSV profile of \<^verbatim>\<open>crates/queryfabric-portability/src/import.rs\<close>: schemas, the lexical rules of the
  column types, the writer and the reader. A string is the list of its UTF-8 bytes. The reader looks for ASCII
  characters only, so stepping over bytes instead of characters is the same. The parsers of the uuid and chrono
  crates are the two functions of the record \<^verbatim>\<open>scalar_parsers\<close>.
\<close>

section \<open>Text\<close>

definition byte_of :: "char \<Rightarrow> nat" where
  "byte_of c = of_char c"

definition is_ascii_digit :: "char \<Rightarrow> bool" where
  "is_ascii_digit c \<longleftrightarrow> 48 \<le> byte_of c \<and> byte_of c \<le> 57"

definition utf8_tail :: "char \<Rightarrow> bool" where
  "utf8_tail c \<longleftrightarrow> 128 \<le> byte_of c \<and> byte_of c \<le> 191"

text \<open>Well-formed UTF-8, as \<^verbatim>\<open>std::str::from_utf8\<close> accepts it: no overlong forms, surrogates or values above U+10FFFF.\<close>

definition utf8_width :: "char \<Rightarrow> nat" where
  "utf8_width c =
     (if byte_of c < 128 then 1
      else if 194 \<le> byte_of c \<and> byte_of c \<le> 223 then 2
      else if 224 \<le> byte_of c \<and> byte_of c \<le> 239 then 3
      else if 240 \<le> byte_of c \<and> byte_of c \<le> 244 then 4
      else 0)"

definition utf8_char :: "string \<Rightarrow> bool" where
  "utf8_char s \<longleftrightarrow>
     (case s of
        c # cs \<Rightarrow>
          length s = utf8_width c \<and> list_all utf8_tail cs \<and>
          (byte_of c = 224 \<longrightarrow> 160 \<le> byte_of (hd cs)) \<and> (byte_of c = 237 \<longrightarrow> byte_of (hd cs) \<le> 159) \<and>
          (byte_of c = 240 \<longrightarrow> 144 \<le> byte_of (hd cs)) \<and> (byte_of c = 244 \<longrightarrow> byte_of (hd cs) \<le> 143)
      | [] \<Rightarrow> False)"

fun valid_utf8 :: "string \<Rightarrow> bool" where
  "valid_utf8 [] = True"
| "valid_utf8 (c # cs) \<longleftrightarrow>
     utf8_char (take (utf8_width c) (c # cs)) \<and> 0 < utf8_width c \<and> valid_utf8 (drop (utf8_width c - 1) cs)"

abbreviation crlf :: string where
  "crlf \<equiv> [CHR 0x0D, CHR 0x0A]"

section \<open>Schemas\<close>

record ImportLimits =
  max_bundle_bytes :: nat
  max_json_depth :: nat
  max_string_bytes :: nat
  max_artifacts :: nat
  max_artifact_bytes :: nat
  max_total_artifact_bytes :: nat
  max_rows :: nat
  max_columns :: nat
  max_extension_bytes :: nat

definition ImportLimits_default :: ImportLimits where
  "ImportLimits_default =
     \<lparr>max_bundle_bytes = 8 * 1024 * 1024, max_json_depth = 32, max_string_bytes = 256 * 1024, max_artifacts = 8,
      max_artifact_bytes = 512 * 1024 * 1024, max_total_artifact_bytes = 512 * 1024 * 1024, max_rows = 5000000,
      max_columns = 128, max_extension_bytes = 512 * 1024\<rparr>"

datatype TabularColumnType = Boolean | Int64 | Float64 | String | Uuid | Timestamp

record TabularColumn =
  tc_name :: string
  tc_column_type :: TabularColumnType

record TabularSchema =
  ts_profile :: string
  ts_columns :: "TabularColumn list"

definition TABULAR_CSV_PROFILE :: string where
  "TABULAR_CSV_PROFILE = ''queryfabric.tabular-csv/1''"

datatype ImportError =
    BundleTooLarge
  | ArtifactTooLarge
  | AggregateArtifactTooLarge
  | InvalidJson string
  | JsonLimits
  | UnsupportedVersion string
  | InvalidDigest
  | DigestMismatch
  | TooManyArtifacts
  | DuplicateArtifact
  | InvalidManifest string
  | InvalidProfile string
  | InvalidCsv string
  | InvalidTarget string
  | SchemaMismatch
  | ArtifactMismatch

fun column_type_name :: "TabularColumnType \<Rightarrow> string" where
  "column_type_name Boolean = ''Boolean''"
| "column_type_name Int64 = ''Int64''"
| "column_type_name Float64 = ''Float64''"
| "column_type_name String = ''String''"
| "column_type_name Uuid = ''Uuid''"
| "column_type_name Timestamp = ''Timestamp''"

text \<open>
  The names of the columns in order, with the names already seen. The length of a string is always a character
  boundary of it, so that test of the source never fails.
\<close>

fun validate_columns :: "string list \<Rightarrow> TabularColumn list \<Rightarrow> ImportError + unit" where
  "validate_columns names [] = Inr ()"
| "validate_columns names (column # columns) =
     (if tc_name column = [] \<or> 256 < length (tc_name column) \<or> tc_name column \<in> set names
      then Inl (InvalidProfile ''column names must be unique and bounded UTF-8'')
      else validate_columns (tc_name column # names) columns)"

definition validate_schema :: "TabularSchema \<Rightarrow> nat \<Rightarrow> ImportError + unit" where
  "validate_schema schema limit =
     (if ts_profile schema \<noteq> TABULAR_CSV_PROFILE \<or> ts_columns schema = []
      then Inl (InvalidProfile ''profile must be queryfabric.tabular-csv/1 with at least one column'')
      else if limit < length (ts_columns schema) then Inl (InvalidProfile ''too many columns'')
      else validate_columns [] (ts_columns schema))"

section \<open>Lexical rules\<close>

definition digits_value :: "string \<Rightarrow> nat" where
  "digits_value s = foldl (\<lambda>n c. 10 * n + (byte_of c - 48)) 0 s"

text \<open>\<^verbatim>\<open>str::parse::<i64>\<close>: an optional sign, at least one digit, and a value in range.\<close>

definition parse_i64 :: "string \<Rightarrow> int option" where
  "parse_i64 s =
     (let (negative, digits) =
            (case s of c # cs \<Rightarrow> (if c = CHR ''-'' then (True, cs) else if c = CHR ''+'' then (False, cs) else (False, s))
             | [] \<Rightarrow> (False, []));
          n = (if negative then - int (digits_value digits) else int (digits_value digits))
      in if digits \<noteq> [] \<and> list_all is_ascii_digit digits \<and> - (2 ^ 63) \<le> n \<and> n < 2 ^ 63 then Some n else None)"

definition starts_with_char :: "char \<Rightarrow> string \<Rightarrow> bool" where
  "starts_with_char c s \<longleftrightarrow> (case s of d # _ \<Rightarrow> d = c | [] \<Rightarrow> False)"

definition valid_integer :: "string \<Rightarrow> bool" where
  "valid_integer value \<longleftrightarrow>
     (if value = [] \<or> starts_with_char (CHR ''+'') value \<or> parse_i64 value = None then False
      else (let digits = (if starts_with_char (CHR ''-'') value then tl value else value)
            in (digits = ''0'' \<or> \<not> starts_with_char (CHR ''0'') digits) \<and> list_all is_ascii_digit digits))"

text \<open>
  What \<^verbatim>\<open>str::parse::<f64>\<close> makes of a text: nothing, an infinity or a NaN spelled out, or a decimal number, which
  rounds to an infinity from \<^verbatim>\<open>2^1024 - 2^970\<close> on.
\<close>

datatype F64 = Finite | Infinite | NotANumber

definition rounds_to_finite :: "nat \<Rightarrow> int \<Rightarrow> bool" where
  "rounds_to_finite mantissa exponent \<longleftrightarrow>
     (if 0 \<le> exponent then mantissa * 10 ^ nat exponent < 2 ^ 1024 - 2 ^ 970
      else mantissa < (2 ^ 1024 - 2 ^ 970) * 10 ^ nat (- exponent))"

definition parse_exponent :: "string \<Rightarrow> int option" where
  "parse_exponent s =
     (case s of
        [] \<Rightarrow> Some 0
      | e # cs \<Rightarrow>
          let (negative, digits) =
                (case cs of c # cs' \<Rightarrow> (if c = CHR ''-'' then (True, cs') else if c = CHR ''+'' then (False, cs') else (False, cs))
                 | [] \<Rightarrow> (False, []))
          in if e \<in> {CHR ''e'', CHR ''E''} \<and> digits \<noteq> [] \<and> list_all is_ascii_digit digits
             then Some (if negative then - int (digits_value digits) else int (digits_value digits)) else None)"

definition parse_f64 :: "string \<Rightarrow> F64 option" where
  "parse_f64 s =
     (let s = (if starts_with_char (CHR ''-'') s \<or> starts_with_char (CHR ''+'') s then tl s else s);
          lower = to_ascii_lowercase s;
          whole = takeWhile is_ascii_digit s; s1 = dropWhile is_ascii_digit s;
          (fraction, s2) =
            (if starts_with_char (CHR ''.'') s1 then (takeWhile is_ascii_digit (tl s1), dropWhile is_ascii_digit (tl s1)) else ([], s1))
      in if lower = ''inf'' \<or> lower = ''infinity'' then Some Infinite
         else if lower = ''nan'' then Some NotANumber
         else if whole = [] \<and> fraction = [] then None
         else (case parse_exponent s2 of
             None \<Rightarrow> None
           | Some e \<Rightarrow>
               Some (if rounds_to_finite (digits_value (whole @ fraction)) (e - int (length fraction)) then Finite else Infinite)))"

text \<open>The scan of a float: its integer part, an optional fraction and an optional exponent.\<close>

definition scan_fraction :: "string \<Rightarrow> string option" where
  "scan_fraction s =
     (if starts_with_char (CHR ''.'') s
      then (if takeWhile is_ascii_digit (tl s) = [] then None else Some (dropWhile is_ascii_digit (tl s)))
      else Some s)"

definition scan_exponent :: "string \<Rightarrow> string option" where
  "scan_exponent s =
     (if starts_with_char (CHR ''e'') s \<or> starts_with_char (CHR ''E'') s
      then (let s' = (if starts_with_char (CHR ''+'') (tl s) \<or> starts_with_char (CHR ''-'') (tl s) then tl (tl s) else tl s)
            in if takeWhile is_ascii_digit s' = [] then None else Some (dropWhile is_ascii_digit s'))
      else Some s)"

definition valid_float :: "string \<Rightarrow> bool" where
  "valid_float value \<longleftrightarrow>
     (if value = [] \<or> starts_with_char (CHR ''+'') value \<or> parse_f64 value = None then False
      else (let s = (if starts_with_char (CHR ''-'') value then tl value else value);
                whole = takeWhile is_ascii_digit s
            in if whole = [] \<or> (1 < length whole \<and> starts_with_char (CHR ''0'') whole) then False
               else (case Option.bind (scan_fraction (dropWhile is_ascii_digit s)) scan_exponent of
                   None \<Rightarrow> False
                 | Some rest \<Rightarrow> rest = [] \<and> parse_f64 value = Some Finite)))"

record scalar_parsers =
  parse_uuid_ok :: "string \<Rightarrow> bool"
  parse_rfc3339_ok :: "string \<Rightarrow> bool"

fun valid_value :: "scalar_parsers \<Rightarrow> TabularColumnType \<Rightarrow> string \<Rightarrow> bool" where
  "valid_value parsers Boolean value \<longleftrightarrow> value = ''true'' \<or> value = ''false''"
| "valid_value parsers Int64 value \<longleftrightarrow> valid_integer value"
| "valid_value parsers Float64 value \<longleftrightarrow> valid_float value"
| "valid_value parsers String value \<longleftrightarrow> True"
| "valid_value parsers Uuid value \<longleftrightarrow> parse_uuid_ok parsers value \<and> value = to_ascii_lowercase value"
| "valid_value parsers Timestamp value \<longleftrightarrow> value \<noteq> [] \<and> last value = CHR ''Z'' \<and> parse_rfc3339_ok parsers value"

fun validate_values :: "scalar_parsers \<Rightarrow> string list \<Rightarrow> TabularColumn list \<Rightarrow> ImportError + unit" where
  "validate_values parsers (value # row) (column # columns) =
     (if valid_value parsers (tc_column_type column) value then validate_values parsers row columns
      else Inl (InvalidCsv (''invalid '' @ column_type_name (tc_column_type column) @ '' value for column '' @ [CHR 0x27] @
             tc_name column @ [CHR 0x27])))"
| "validate_values parsers _ _ = Inr ()"

section \<open>JSON values\<close>

text \<open>
  A value of the serde_json crate. A number is an integer or a float, given by the text the crate prints for it;
  an object is a list of entries with distinct keys, in the order the crate's map iterates over them.
\<close>

datatype Number = Integer int | Float string

datatype Value = Null | Bool bool | Number Number | String string | Array "Value list" | Object "(string \<times> Value) list"

fun Number_to_string :: "Number \<Rightarrow> string" where
  "Number_to_string (Integer i) = int_to_string i"
| "Number_to_string (Float s) = s"

section \<open>The writer\<close>

definition encode_csv_field :: "string \<Rightarrow> string" where
  "encode_csv_field value =
     (if list_ex (\<lambda>c. c \<in> {CHR '','', CHR 0x22, CHR 0x0D, CHR 0x0A}) value
      then [CHR 0x22] @ concat (map (\<lambda>c. if c = CHR 0x22 then [CHR 0x22, CHR 0x22] else [c]) value) @ [CHR 0x22]
      else value)"

definition encode_record :: "string list \<Rightarrow> string" where
  "encode_record texts = join_with '','' (map encode_csv_field texts) @ crlf"

fun value_to_csv_text :: "Value \<Rightarrow> TabularColumnType \<Rightarrow> ImportError + string" where
  "value_to_csv_text (Value.String s) t = Inr s"
| "value_to_csv_text (Bool b) t =
     (if t = Boolean then Inr (if b then ''true'' else ''false'') else Inl (InvalidCsv ''row value type does not match schema''))"
| "value_to_csv_text (Value.Number n) t =
     (if t = Int64 \<or> t = Float64 then Inr (Number_to_string n) else Inl (InvalidCsv ''row value type does not match schema''))"
| "value_to_csv_text Null t = Inl (InvalidCsv ''nulls are not allowed'')"
| "value_to_csv_text _ t = Inl (InvalidCsv ''row value type does not match schema'')"

text \<open>The texts of one row in schema order; a row must be an object with exactly the columns of the schema.\<close>

definition row_texts :: "TabularSchema \<Rightarrow> Value \<Rightarrow> ImportError + string list" where
  "row_texts schema row =
     (case row of
        Object entries \<Rightarrow>
          if length entries \<noteq> length (ts_columns schema) \<or>
             list_ex (\<lambda>column. map_of entries (tc_name column) = None) (ts_columns schema) \<or>
             list_ex (\<lambda>(name, _). \<not> list_ex (\<lambda>column. tc_name column = name) (ts_columns schema)) entries
          then Inl (InvalidCsv ''row fields do not exactly match schema'')
          else result_collect (\<lambda>column. value_to_csv_text (the (map_of entries (tc_name column))) (tc_column_type column)) (ts_columns schema)
      | _ \<Rightarrow> Inl (InvalidCsv ''each row must be a JSON object''))"

definition write_row :: "scalar_parsers \<Rightarrow> TabularSchema \<Rightarrow> Value \<Rightarrow> ImportError + string" where
  "write_row parsers schema row =
     result_bind (row_texts schema row) (\<lambda>values.
     result_bind (validate_values parsers values (ts_columns schema)) (\<lambda>_.
     Inr (encode_record values)))"

definition write_tabular_csv :: "scalar_parsers \<Rightarrow> TabularSchema \<Rightarrow> Value list \<Rightarrow> ImportError + string" where
  "write_tabular_csv parsers schema rows =
     result_bind (validate_schema schema (max_columns ImportLimits_default)) (\<lambda>_.
     if max_rows ImportLimits_default < length rows then Inl (InvalidCsv ''row limit exceeded'')
     else result_bind (result_collect (write_row parsers schema) rows) (\<lambda>records.
       Inr (encode_record (map tc_name (ts_columns schema)) @ concat records)))"

section \<open>The reader\<close>

record CsvState =
  cs_rows :: "string list list"
  cs_row :: "string list"
  cs_field :: string
  cs_quoted :: bool
  cs_field_started :: bool
  cs_ended_record :: bool
  cs_header_seen :: bool

definition CsvState_new :: CsvState where
  "CsvState_new = \<lparr>cs_rows = [], cs_row = [], cs_field = [], cs_quoted = False, cs_field_started = False,
     cs_ended_record = False, cs_header_seen = False\<rparr>"

text \<open>The end of a record: the header is compared with the schema, any other record is checked and kept.\<close>

definition end_record :: "scalar_parsers \<Rightarrow> TabularSchema \<Rightarrow> nat \<Rightarrow> CsvState \<Rightarrow> ImportError + CsvState" where
  "end_record parsers schema row_limit s =
     (let row = cs_row s @ [cs_field s];
          next_record = s\<lparr>cs_field := [], cs_row := [], cs_field_started := False, cs_ended_record := True\<rparr>
      in if length row \<noteq> length (ts_columns schema) then Inl (InvalidCsv ''field count does not match schema'')
         else if \<not> cs_header_seen s
         then (if row \<noteq> map tc_name (ts_columns schema) then Inl (InvalidCsv ''header does not exactly match schema'')
               else Inr (next_record\<lparr>cs_header_seen := True\<rparr>))
         else result_bind (validate_values parsers row (ts_columns schema)) (\<lambda>_.
           if row_limit < length (cs_rows s @ [row]) then Inl (InvalidCsv ''row limit exceeded'')
           else Inr (next_record\<lparr>cs_rows := cs_rows s @ [row]\<rparr>)))"

function csv_loop :: "scalar_parsers \<Rightarrow> TabularSchema \<Rightarrow> nat \<Rightarrow> string \<Rightarrow> CsvState \<Rightarrow> ImportError + CsvState" where
  "csv_loop parsers schema row_limit [] s = Inr s"
| "csv_loop parsers schema row_limit (c # cs) s =
     (if cs_quoted s
      then (if c = CHR 0x22 \<and> starts_with_char (CHR 0x22) cs
            then csv_loop parsers schema row_limit (tl cs) (s\<lparr>cs_field := cs_field s @ [CHR 0x22]\<rparr>)
            else if c = CHR 0x22 then csv_loop parsers schema row_limit cs (s\<lparr>cs_quoted := False\<rparr>)
            else if c = CHR 0x0D \<or> c = CHR 0x0A
            then Inl (InvalidCsv ''embedded newlines are not supported by profile 1'')
            else csv_loop parsers schema row_limit cs (s\<lparr>cs_field := cs_field s @ [c]\<rparr>))
      else if c = CHR 0x22
      then (if \<not> cs_field_started s
            then csv_loop parsers schema row_limit cs (s\<lparr>cs_quoted := True, cs_field_started := True\<rparr>)
            else Inl (InvalidCsv ''quote must start a field''))
      else if c = CHR '',''
      then csv_loop parsers schema row_limit cs
             (s\<lparr>cs_row := cs_row s @ [cs_field s], cs_field := [], cs_field_started := False\<rparr>)
      else if c = CHR 0x0D \<and> starts_with_char (CHR 0x0A) cs
      then result_bind (end_record parsers schema row_limit s) (csv_loop parsers schema row_limit (tl cs))
      else if c = CHR 0x0A then Inl (InvalidCsv ''records must use CRLF'')
      else csv_loop parsers schema row_limit cs
             (s\<lparr>cs_field := cs_field s @ [c], cs_field_started := True, cs_ended_record := False\<rparr>))"
  by pat_completeness auto

termination
  by (relation "measure (\<lambda>(_, _, _, cs, _). length cs)") auto

definition parse_csv :: "scalar_parsers \<Rightarrow> string \<Rightarrow> TabularSchema \<Rightarrow> ImportLimits \<Rightarrow> ImportError + string list list" where
  "parse_csv parsers bytes schema limits =
     (if take 3 bytes = [CHR 0xEF, CHR 0xBB, CHR 0xBF] then Inl (InvalidCsv ''UTF-8 BOM is forbidden'')
      else if \<not> valid_utf8 bytes then Inl (InvalidCsv ''artifact is not UTF-8'')
      else result_bind (csv_loop parsers schema (max_rows limits) bytes CsvState_new) (\<lambda>s.
        if cs_quoted s \<or> \<not> cs_ended_record s \<or> cs_row s \<noteq> [] \<or> cs_field s \<noteq> []
        then Inl (InvalidCsv ''CSV must end with CRLF'') else Inr (cs_rows s)))"

definition decode_tabular_csv :: "scalar_parsers \<Rightarrow> string \<Rightarrow> TabularSchema \<Rightarrow> ImportLimits \<Rightarrow> ImportError + string list list" where
  "decode_tabular_csv parsers bytes schema limits =
     result_bind (validate_schema schema (max_columns limits)) (\<lambda>_. parse_csv parsers bytes schema limits)"

section \<open>Reading what was written\<close>

definition newline_free :: "string \<Rightarrow> bool" where
  "newline_free s \<longleftrightarrow> CHR 0x0D \<notin> set s \<and> CHR 0x0A \<notin> set s"

abbreviation escape :: "string \<Rightarrow> string" where
  "escape s \<equiv> concat (map (\<lambda>c. if c = CHR 0x22 then [CHR 0x22, CHR 0x22] else [c]) s)"

lemma starts_with_char_simps [simp]: "\<not> starts_with_char c []" "starts_with_char c (d # s) \<longleftrightarrow> d = c"
  by (simp_all add: starts_with_char_def)

lemma loop_quoted:
  assumes "cs_quoted s" and "newline_free f" and "\<not> starts_with_char (CHR 0x22) rest"
  shows "csv_loop parsers schema n (escape f @ CHR 0x22 # rest) s =
    csv_loop parsers schema n rest (s\<lparr>cs_field := cs_field s @ f, cs_quoted := False\<rparr>)"
  using assms(1,2)
proof (induction f arbitrary: s)
  case (Cons c f)
  then have "c \<noteq> CHR 0x0D" "c \<noteq> CHR 0x0A" "newline_free f" by (auto simp: newline_free_def)
  with Cons.IH[of "s\<lparr>cs_field := cs_field s @ [c]\<rparr>"] Cons.prems show ?case by (cases "c = CHR 0x22") auto
qed (use assms in simp)

lemma loop_plain:
  assumes "\<not> cs_quoted s" and "\<forall>c\<in>set f. c \<notin> {CHR '','', CHR 0x22, CHR 0x0D, CHR 0x0A}"
  shows "csv_loop parsers schema n (f @ rest) s =
    csv_loop parsers schema n rest
      (s\<lparr>cs_field := cs_field s @ f, cs_field_started := (cs_field_started s \<or> f \<noteq> []), cs_ended_record := (cs_ended_record s \<and> f = [])\<rparr>)"
  using assms
proof (induction f arbitrary: s)
  case (Cons c f)
  from Cons.IH[of "s\<lparr>cs_field := cs_field s @ [c], cs_field_started := True, cs_ended_record := False\<rparr>"] Cons.prems
  show ?case by simp
qed simp

lemma loop_field:
  assumes "\<not> cs_quoted s" and "\<not> cs_field_started s" and "cs_field s = []" and "newline_free f"
    and "\<not> starts_with_char (CHR 0x22) rest"
  shows "\<exists>started ended. csv_loop parsers schema n (encode_csv_field f @ rest) s =
    csv_loop parsers schema n rest (s\<lparr>cs_field := f, cs_field_started := started, cs_ended_record := ended\<rparr>)"
proof (cases "list_ex (\<lambda>c. c \<in> {CHR '','', CHR 0x22, CHR 0x0D, CHR 0x0A}) f")
  case True
  then have "csv_loop parsers schema n (encode_csv_field f @ rest) s =
      csv_loop parsers schema n (escape f @ CHR 0x22 # rest) (s\<lparr>cs_quoted := True, cs_field_started := True\<rparr>)"
    using assms(1,2) by (simp add: encode_csv_field_def)
  also have "\<dots> = csv_loop parsers schema n rest (s\<lparr>cs_field := f, cs_field_started := True, cs_ended_record := cs_ended_record s\<rparr>)"
    using loop_quoted[of "s\<lparr>cs_quoted := True, cs_field_started := True\<rparr>" f rest parsers schema n] assms by (cases s) simp
  finally show ?thesis by blast
next
  case False
  then have "encode_csv_field f = f" "\<forall>c\<in>set f. c \<notin> {CHR '','', CHR 0x22, CHR 0x0D, CHR 0x0A}"
    by (auto simp: encode_csv_field_def list_ex_iff)
  then show ?thesis using loop_plain[OF assms(1), of f parsers schema n rest] assms(3) by auto
qed

lemma end_record_flags:
  "end_record parsers schema n (s\<lparr>cs_field := f, cs_field_started := started, cs_ended_record := ended\<rparr>) =
     end_record parsers schema n (s\<lparr>cs_field := f\<rparr>)"
  by (simp add: end_record_def Let_def)

lemma loop_record:
  assumes "texts \<noteq> []" and "list_all newline_free texts"
    and "\<not> cs_quoted s" and "\<not> cs_field_started s" and "cs_field s = []"
  shows "csv_loop parsers schema n (encode_record texts @ rest) s =
    result_bind (end_record parsers schema n (s\<lparr>cs_row := cs_row s @ butlast texts, cs_field := last texts\<rparr>))
      (csv_loop parsers schema n rest)"
  using assms
proof (induction texts arbitrary: s)
  case (Cons f texts)
  show ?case
  proof (cases "texts = []")
    case True
    have enc: "encode_record (f # texts) @ rest = encode_csv_field f @ crlf @ rest" by (simp add: True encode_record_def)
    obtain started ended where "csv_loop parsers schema n (encode_record (f # texts) @ rest) s =
        csv_loop parsers schema n (crlf @ rest) (s\<lparr>cs_field := f, cs_field_started := started, cs_ended_record := ended\<rparr>)"
      unfolding enc using loop_field[of s f "crlf @ rest" parsers schema n] Cons.prems by auto
    then show ?thesis using Cons.prems by (simp add: True end_record_flags)
  next
    case False
    then obtain g texts' where texts: "texts = g # texts'" by (cases texts) auto
    have enc: "encode_record (f # texts) @ rest = encode_csv_field f @ CHR '','' # encode_record texts @ rest"
      by (simp add: texts encode_record_def)
    obtain started ended where "csv_loop parsers schema n (encode_record (f # texts) @ rest) s =
        csv_loop parsers schema n (CHR '','' # encode_record texts @ rest)
          (s\<lparr>cs_field := f, cs_field_started := started, cs_ended_record := ended\<rparr>)"
      unfolding enc using loop_field[of s f "CHR '','' # encode_record texts @ rest" parsers schema n] Cons.prems by auto
    also have "\<dots> = csv_loop parsers schema n (encode_record texts @ rest)
        (s\<lparr>cs_row := cs_row s @ [f], cs_field := [], cs_field_started := False, cs_ended_record := ended\<rparr>)"
      using Cons.prems by (cases s) simp
    also have "\<dots> = result_bind (end_record parsers schema n
        (s\<lparr>cs_row := cs_row s @ f # butlast texts, cs_field := last texts, cs_field_started := False, cs_ended_record := ended\<rparr>))
        (csv_loop parsers schema n rest)"
      using Cons.IH[of "s\<lparr>cs_row := cs_row s @ [f], cs_field := [], cs_field_started := False, cs_ended_record := ended\<rparr>"] False Cons.prems
      by (cases s) simp
    finally show ?thesis using False
      end_record_flags[where s = "s\<lparr>cs_row := cs_row s @ f # butlast texts\<rparr>" and f = "last texts" and started = False and ended = ended]
      by simp
  qed
qed simp

lemma valid_utf8_char: "utf8_char ch \<Longrightarrow> valid_utf8 (ch @ s) \<longleftrightarrow> valid_utf8 s"
proof (cases ch)
  case (Cons c cs)
  assume "utf8_char ch"
  then have width: "utf8_width c = Suc (length cs)" by (simp add: Cons utf8_char_def)
  then have "take (utf8_width c) (c # cs @ s) = ch" "drop (utf8_width c - 1) (cs @ s) = s" by (simp_all add: Cons)
  with \<open>utf8_char ch\<close> width show ?thesis by (simp add: Cons del: append_Cons) (simp add: Cons)
qed (simp add: utf8_char_def)

lemma valid_utf8_induct [consumes 1, case_names empty char]:
  assumes "valid_utf8 s" and "P []" and "\<And>ch s. utf8_char ch \<Longrightarrow> P s \<Longrightarrow> P (ch @ s)"
  shows "P s"
  using assms(1)
proof (induction s rule: valid_utf8.induct)
  case (2 c cs)
  have "c # cs = take (utf8_width c) (c # cs) @ drop (utf8_width c - 1) cs"
    using 2(2) by (cases "utf8_width c") simp_all
  moreover from 2 have "utf8_char (take (utf8_width c) (c # cs))" "P (drop (utf8_width c - 1) cs)" by auto
  ultimately show ?case using assms(3) by metis
qed (rule assms(2))

lemma valid_utf8_append: "valid_utf8 a \<Longrightarrow> valid_utf8 (a @ b) \<longleftrightarrow> valid_utf8 b"
  by (induction a rule: valid_utf8_induct) (simp_all add: valid_utf8_char)

lemma valid_utf8_ascii: "byte_of c < 128 \<Longrightarrow> valid_utf8 (c # s) \<longleftrightarrow> valid_utf8 s"
  using valid_utf8_char[of "[c]" s] by (simp add: utf8_char_def utf8_width_def)

lemma valid_utf8_concat: "list_all valid_utf8 ss \<Longrightarrow> valid_utf8 (concat ss)"
  by (induction ss) (simp_all add: valid_utf8_append)

lemma byte_of_simps [simp]: "byte_of (CHR 0x22) = 34" "byte_of (CHR '','') = 44" "byte_of (CHR 0x0D) = 13" "byte_of (CHR 0x0A) = 10"
  by (simp_all add: byte_of_def)

lemma escape_utf8_char: "utf8_char ch \<Longrightarrow> escape ch = ch \<or> ch = [CHR 0x22]"
proof (cases ch)
  case (Cons c cs)
  assume char: "utf8_char ch"
  have "CHR 0x22 \<notin> set cs" using char by (auto simp: Cons utf8_char_def utf8_tail_def list_all_iff)
  then have "escape cs = cs" by (induction cs) auto
  moreover have "c = CHR 0x22 \<Longrightarrow> cs = []" using char by (simp add: Cons utf8_char_def utf8_width_def)
  ultimately show ?thesis by (simp add: Cons)
qed simp

lemma valid_utf8_escape: "valid_utf8 s \<Longrightarrow> valid_utf8 (escape s)"
proof (induction s rule: valid_utf8_induct)
  case (char ch s)
  with escape_utf8_char[OF char(1)] show ?case by (auto simp: valid_utf8_char valid_utf8_ascii simp del: valid_utf8.simps(2))
qed simp

lemma valid_utf8_field: "valid_utf8 s \<Longrightarrow> valid_utf8 (encode_csv_field s)"
  using valid_utf8_append[OF valid_utf8_escape, of s "[CHR 0x22]"] by (simp add: encode_csv_field_def valid_utf8_ascii del: valid_utf8.simps(2))

lemma valid_utf8_record: "list_all valid_utf8 texts \<Longrightarrow> valid_utf8 (encode_record texts)"
proof -
  assume "list_all valid_utf8 texts"
  then have "valid_utf8 (join_with '','' (map encode_csv_field texts))"
    by (induction texts rule: induct_list012) (simp_all add: valid_utf8_field valid_utf8_append valid_utf8_ascii del: valid_utf8.simps(2))
  then show ?thesis by (simp add: encode_record_def valid_utf8_append valid_utf8_ascii del: valid_utf8.simps(2))
qed

definition fresh_record :: "CsvState \<Rightarrow> bool" where
  "fresh_record s \<longleftrightarrow> \<not> cs_quoted s \<and> \<not> cs_field_started s \<and> cs_field s = [] \<and> cs_row s = []"

text \<open>A row of texts that the writer may emit and the reader keeps.\<close>

definition row_ok :: "scalar_parsers \<Rightarrow> TabularSchema \<Rightarrow> string list \<Rightarrow> bool" where
  "row_ok parsers schema texts \<longleftrightarrow>
     length texts = length (ts_columns schema) \<and> validate_values parsers texts (ts_columns schema) = Inr ()"

lemma loop_header:
  assumes "fresh_record s" and "\<not> cs_header_seen s" and "ts_columns schema \<noteq> []"
    and "list_all newline_free (map tc_name (ts_columns schema))"
  shows "csv_loop parsers schema n (encode_record (map tc_name (ts_columns schema)) @ rest) s =
    csv_loop parsers schema n rest (s\<lparr>cs_ended_record := True, cs_header_seen := True\<rparr>)"
proof -
  have "end_record parsers schema n (s\<lparr>cs_row := butlast (map tc_name (ts_columns schema)), cs_field := last (map tc_name (ts_columns schema))\<rparr>) =
      Inr (s\<lparr>cs_ended_record := True, cs_header_seen := True\<rparr>)"
    using assms(1-3) by (cases s) (simp add: end_record_def fresh_record_def Let_def)
  then show ?thesis using loop_record[of "map tc_name (ts_columns schema)" s parsers schema n rest] assms by (simp add: fresh_record_def)
qed

lemma loop_rows:
  assumes "fresh_record s" and "cs_header_seen s" and "cs_ended_record s" and "ts_columns schema \<noteq> []"
    and "list_all (list_all newline_free) rows" and "list_all (row_ok parsers schema) rows"
    and "length (cs_rows s) + length rows \<le> n"
  shows "csv_loop parsers schema n (concat (map encode_record rows)) s = Inr (s\<lparr>cs_rows := cs_rows s @ rows\<rparr>)"
  using assms
proof (induction rows arbitrary: s)
  case (Cons row rows)
  let ?s = "s\<lparr>cs_rows := cs_rows s @ [row]\<rparr>"
  have row: "row \<noteq> []" "butlast row @ [last row] = row" using Cons.prems(4,6) by (cases row; simp add: row_ok_def)+
  have "end_record parsers schema n (s\<lparr>cs_row := butlast row, cs_field := last row\<rparr>) = Inr ?s"
    using Cons.prems row by (cases s) (simp add: end_record_def fresh_record_def row_ok_def Let_def)
  then have "csv_loop parsers schema n (concat (map encode_record (row # rows))) s =
      csv_loop parsers schema n (concat (map encode_record rows)) ?s"
    using loop_record[OF row(1), of s parsers schema n "concat (map encode_record rows)"] Cons.prems by (simp add: fresh_record_def)
  also have "\<dots> = Inr (s\<lparr>cs_rows := cs_rows s @ row # rows\<rparr>)"
    using Cons.IH[of ?s] Cons.prems by (simp add: fresh_record_def)
  finally show ?case .
qed simp

lemma write_row_iff:
  "write_row parsers schema row = Inr r \<longleftrightarrow>
     (\<exists>texts. row_texts schema row = Inr texts \<and> validate_values parsers texts (ts_columns schema) = Inr () \<and> r = encode_record texts)"
  by (auto simp: write_row_def result_bind_Inr_iff)

lemma row_texts_length: "row_texts schema row = Inr texts \<Longrightarrow> length texts = length (ts_columns schema)"
  by (auto simp: row_texts_def result_collect_Inr_iff list_all2_iff split: Value.splits if_splits)

lemma write_rows:
  assumes "result_collect (write_row parsers schema) rows = Inr records" and "result_collect (row_texts schema) rows = Inr texts"
  shows "records = map encode_record texts \<and> list_all (row_ok parsers schema) texts"
  using assms
proof (induction rows arbitrary: records texts)
  case (Cons row rows)
  then show ?case
    by (auto simp: result_bind_Inr_iff write_row_iff row_ok_def row_texts_length)
qed simp

text \<open>
  C29. A table survives the trip through CSV. When the writer accepts rows whose texts and column names are UTF-8
  without line breaks, and the first column name does not start with a byte order mark, the reader gives back
  exactly their texts, row by row and in schema order, under any limits that admit so many rows and columns; quotes
  and commas in the texts do no harm.
\<close>

theorem tabular_csv_roundtrip:
  assumes "write_tabular_csv parsers schema rows = Inr bytes" and "result_collect (row_texts schema) rows = Inr texts"
    and "list_all (list_all newline_free) texts" and "list_all newline_free (map tc_name (ts_columns schema))"
    and "list_all (list_all valid_utf8) texts" and "list_all valid_utf8 (map tc_name (ts_columns schema))"
    and "take 3 bytes \<noteq> [CHR 0xEF, CHR 0xBB, CHR 0xBF]"
    and "length (ts_columns schema) \<le> max_columns limits" and "length rows \<le> max_rows limits"
  shows "decode_tabular_csv parsers bytes schema limits = Inr texts"
proof -
  obtain records where schema: "validate_schema schema (max_columns ImportLimits_default) = Inr ()"
    and records: "result_collect (write_row parsers schema) rows = Inr records"
    and bytes: "bytes = encode_record (map tc_name (ts_columns schema)) @ concat records"
    using assms(1) by (auto simp: write_tabular_csv_def result_bind_Inr_iff split: if_splits)
  note rows = write_rows[OF records assms(2)]
  have columns: "ts_columns schema \<noteq> []" "validate_schema schema (max_columns limits) = Inr ()"
    using schema assms(8) by (auto simp: validate_schema_def split: if_splits)
  have "length texts = length rows" using assms(2) by (simp add: result_collect_Inr_iff list_all2_iff)
  have "fresh_record CsvState_new" "\<not> cs_header_seen CsvState_new" by (simp_all add: fresh_record_def CsvState_new_def)
  then have "csv_loop parsers schema (max_rows limits) bytes CsvState_new =
      csv_loop parsers schema (max_rows limits) (concat (map encode_record texts)) (CsvState_new\<lparr>cs_ended_record := True, cs_header_seen := True\<rparr>)"
    using loop_header[OF _ _ columns(1) assms(4)] rows by (simp add: bytes)
  also have "\<dots> = Inr (CsvState_new\<lparr>cs_ended_record := True, cs_header_seen := True, cs_rows := texts\<rparr>)"
    using loop_rows[of "CsvState_new\<lparr>cs_ended_record := True, cs_header_seen := True\<rparr>" schema texts parsers "max_rows limits"]
      columns(1) assms(3,9) rows \<open>length texts = length rows\<close> by (simp add: fresh_record_def CsvState_new_def)
  finally have loop: "csv_loop parsers schema (max_rows limits) bytes CsvState_new =
    Inr (CsvState_new\<lparr>cs_ended_record := True, cs_header_seen := True, cs_rows := texts\<rparr>)" .
  have "list_all valid_utf8 records" using assms(5) rows valid_utf8_record by (simp add: list_all_length)
  then have "valid_utf8 bytes"
    using valid_utf8_append[OF valid_utf8_record[OF assms(6)]] valid_utf8_concat by (simp add: bytes)
  then show ?thesis
    using assms(7) by (simp add: decode_tabular_csv_def columns(2) parse_csv_def loop) (simp add: CsvState_new_def)
qed

section \<open>What the reader accepts\<close>

definition csv_ok :: "scalar_parsers \<Rightarrow> TabularSchema \<Rightarrow> nat \<Rightarrow> CsvState \<Rightarrow> bool" where
  "csv_ok parsers schema n s \<longleftrightarrow> length (cs_rows s) \<le> n \<and> list_all (row_ok parsers schema) (cs_rows s)"

lemma end_record_ok: "csv_ok parsers schema n s \<Longrightarrow> end_record parsers schema n s = Inr s' \<Longrightarrow> csv_ok parsers schema n s'"
  by (auto simp: end_record_def csv_ok_def row_ok_def Let_def result_bind_Inr_iff split: if_splits)

lemma csv_loop_step:
  assumes "csv_loop parsers schema n (c # cs) s = Inr s'"
  shows "\<exists>cs' t. length cs' \<le> length cs \<and> csv_loop parsers schema n cs' t = Inr s' \<and>
    (cs_rows t = cs_rows s \<or> end_record parsers schema n s = Inr t)"
proof -
  have one: ?thesis if "csv_loop parsers schema n cs' t = Inr s'" "cs_rows t = cs_rows s" "cs' = cs \<or> cs' = tl cs" for cs' t
    using that by (intro exI[of _ cs'] exI[of _ t]) auto
  have ended: ?thesis if "result_bind (end_record parsers schema n s) (csv_loop parsers schema n (tl cs)) = Inr s'"
    using that by (auto simp: result_bind_Inr_iff intro!: exI[of _ "tl cs"])
  show ?thesis
    using assms one ended by (simp only: csv_loop.simps split: if_splits) simp_all
qed

lemma csv_loop_ok:
  "csv_loop parsers schema n cs s = Inr s' \<Longrightarrow> csv_ok parsers schema n s \<Longrightarrow> csv_ok parsers schema n s'"
proof (induction cs arbitrary: s rule: length_induct)
  case (1 cs)
  show ?case
  proof (cases cs)
    case (Cons c cs1)
    then obtain cs' t where step: "length cs' \<le> length cs1" "csv_loop parsers schema n cs' t = Inr s'"
      "cs_rows t = cs_rows s \<or> end_record parsers schema n s = Inr t"
      using csv_loop_step "1.prems"(1) by blast
    then have "csv_ok parsers schema n t" using end_record_ok[OF "1.prems"(2)] "1.prems"(2) by (auto simp: csv_ok_def)
    then show ?thesis using "1.IH"[rule_format, of cs' t] step(1,2) Cons by simp
  qed (use 1 in simp)
qed

text \<open>
  What the reader lets through. A decoded table has at most the permitted number of rows; every row has one text
  for each column of the schema, and every text follows the lexical rule of its column's type.
\<close>

theorem decoded_table_valid:
  assumes "decode_tabular_csv parsers bytes schema limits = Inr rows"
  shows "length rows \<le> max_rows limits \<and>
    list_all (\<lambda>row. list_all2 (\<lambda>value column. valid_value parsers (tc_column_type column) value) row (ts_columns schema)) rows"
proof -
  obtain s where loop: "csv_loop parsers schema (max_rows limits) bytes CsvState_new = Inr s" and rows: "rows = cs_rows s"
    using assms by (auto simp: decode_tabular_csv_def parse_csv_def result_bind_Inr_iff split: if_splits)
  have "csv_ok parsers schema (max_rows limits) CsvState_new" by (simp add: csv_ok_def CsvState_new_def)
  from csv_loop_ok[OF loop this] have ok: "length rows \<le> max_rows limits" "list_all (row_ok parsers schema) rows"
    by (simp_all add: csv_ok_def rows)
  have "list_all2 (\<lambda>value column. valid_value parsers (tc_column_type column) value) row columns"
    if "length row = length columns" "validate_values parsers row columns = Inr ()" for row columns
    using that by (induction row columns rule: list_induct2) (auto split: if_splits)
  with ok show ?thesis by (auto simp: row_ok_def list_all_iff)
qed

section \<open>Integers\<close>

lemma digit_char_digit: "d < 10 \<Longrightarrow> is_ascii_digit (digit_char d) \<and> byte_of (digit_char d) - 48 = d"
  by (simp add: is_ascii_digit_def byte_of_def digit_char_def)

lemma digits_value_append: "digits_value (s @ [c]) = 10 * digits_value s + (byte_of c - 48)"
  by (simp add: digits_value_def)

lemma nat_to_string_digits: "nat_to_string n \<noteq> [] \<and> list_all is_ascii_digit (nat_to_string n) \<and> digits_value (nat_to_string n) = n"
proof (induction n rule: nat_to_string.induct)
  case (1 n)
  show ?case
  proof (cases "n < 10")
    case True
    then show ?thesis using digit_char_digit[OF True] by (simp add: digits_value_def nat_to_string.simps)
  next
    case False
    have "digits_value (nat_to_string n) = 10 * (n div 10) + n mod 10"
      using 1[OF False] False digit_char_digit[of "n mod 10"]
      by (subst nat_to_string.simps) (simp add: digits_value_append)
    then show ?thesis using 1[OF False] False digit_char_digit[of "n mod 10"] by (subst (1 2) nat_to_string.simps) simp
  qed
qed

lemma nat_to_string_leading: "0 < n \<Longrightarrow> \<not> starts_with_char (CHR ''0'') (nat_to_string n)"
proof (induction n rule: nat_to_string.induct)
  case (1 n)
  have "digit_char d \<noteq> CHR ''0''" if "0 < d" "d < 10" for d
  proof
    assume "digit_char d = CHR ''0''"
    then have "byte_of (digit_char d) = 48" by (simp add: byte_of_def)
    with digit_char_digit[OF that(2)] that(1) show False by simp
  qed
  moreover have "starts_with_char c (s @ t) \<longleftrightarrow> starts_with_char c s" if "s \<noteq> []" for c s t using that by (cases s) simp_all
  ultimately show ?case using 1 nat_to_string_digits[of "n div 10"] by (subst nat_to_string.simps) auto
qed

text \<open>A digit string without leading zero is the decimal form of its value.\<close>

lemma digits_canonical:
  assumes "s \<noteq> []" and "list_all is_ascii_digit s" and "s = ''0'' \<or> \<not> starts_with_char (CHR ''0'') s"
  shows "s = nat_to_string (digits_value s)"
  using assms
proof (induction s rule: rev_induct)
  case (snoc c s)
  have digit: "digit_char (byte_of c - 48) = c" "byte_of c - 48 < 10"
    using snoc.prems(2) by (auto simp: is_ascii_digit_def byte_of_def digit_char_def)
  show ?case
  proof (cases "s = []")
    case True
    then show ?thesis using digit by (simp add: digits_value_def nat_to_string.simps)
  next
    case False
    then have no_zero: "\<not> starts_with_char (CHR ''0'') s" using snoc.prems(3) by (cases s) auto
    then have s: "s = nat_to_string (digits_value s)" using snoc.IH[OF False] snoc.prems(2) by simp
    have "nat_to_string 0 = ''0''" by code_simp
    with s no_zero have "0 < digits_value s" by (cases "digits_value s = 0") auto
    then show ?thesis using digit s by (subst nat_to_string.simps) (simp add: digits_value_append)
  qed
qed simp

text \<open>
  The integers of the profile. A text is accepted for an integer column exactly when it is the decimal form of a
  64-bit signed integer, or \<^verbatim>\<open>-0\<close>.
\<close>

theorem valid_integer_iff:
  "valid_integer s \<longleftrightarrow> s = ''-0'' \<or> (\<exists>i. - (2 ^ 63) \<le> i \<and> i < 2 ^ 63 \<and> s = int_to_string i)"
proof
  assume valid: "valid_integer s"
  define digits where "digits = (if starts_with_char (CHR ''-'') s then tl s else s)"
  have digits: "digits = ''0'' \<or> \<not> starts_with_char (CHR ''0'') digits" "list_all is_ascii_digit digits"
    and plus: "\<not> starts_with_char (CHR ''+'') s"
    using valid by (auto simp: valid_integer_def digits_def Let_def split: if_splits)
  obtain i where "parse_i64 s = Some i" using valid by (auto simp: valid_integer_def split: if_splits)
  then have i: "digits \<noteq> []" "- (2 ^ 63) \<le> i" "i < 2 ^ 63"
    "i = (if starts_with_char (CHR ''-'') s then - int (digits_value digits) else int (digits_value digits))"
    using plus by (cases s; auto simp: parse_i64_def digits_def Let_def split: if_splits)+
  have decimal: "digits = nat_to_string (digits_value digits)" by (rule digits_canonical[OF i(1) digits(2,1)])
  show "s = ''-0'' \<or> (\<exists>i. - (2 ^ 63) \<le> i \<and> i < 2 ^ 63 \<and> s = int_to_string i)"
  proof (cases "starts_with_char (CHR ''-'') s")
    case True
    then have s: "s = CHR ''-'' # digits" by (cases s) (simp_all add: digits_def)
    have zero: "nat_to_string 0 = ''0''" by code_simp
    show ?thesis
    proof (cases "digits_value digits = 0")
      case True
      then show ?thesis using decimal s zero by simp
    next
      case False
      then have "s = int_to_string i" using i(4) decimal s \<open>starts_with_char _ s\<close> by (simp add: int_to_string_def)
      with i(2,3) show ?thesis by blast
    qed
  next
    case False
    then have "s = int_to_string i" using i(4) decimal by (simp add: int_to_string_def digits_def)
    with i(2,3) show ?thesis by blast
  qed
next
  assume "s = ''-0'' \<or> (\<exists>i. - (2 ^ 63) \<le> i \<and> i < 2 ^ 63 \<and> s = int_to_string i)"
  then consider "s = ''-0''" | i where "- (2 ^ 63) \<le> i" "i < 2 ^ 63" "s = int_to_string i" by blast
  then show "valid_integer s"
  proof cases
    case 1
    then show ?thesis by (simp add: valid_integer_def parse_i64_def is_ascii_digit_def byte_of_def digits_value_def)
  next
    case (2 i)
    let ?d = "nat_to_string (nat \<bar>i\<bar>)"
    note d = nat_to_string_digits[of "nat \<bar>i\<bar>"]
    have first: "\<not> starts_with_char c ?d" if "\<not> is_ascii_digit c" for c using d that by (cases ?d) auto
    have sign: "\<not> is_ascii_digit (CHR ''-'')" "\<not> is_ascii_digit (CHR ''+'')" by (simp_all add: is_ascii_digit_def byte_of_def)
    have leading: "?d = ''0'' \<or> \<not> starts_with_char (CHR ''0'') ?d"
    proof (cases "i = 0")
      case True
      then have "?d = ''0''" by (simp add: nat_to_string.simps) code_simp
      then show ?thesis ..
    qed (use nat_to_string_leading[of "nat \<bar>i\<bar>"] in simp)
    have s: "s = (if i < 0 then CHR ''-'' # ?d else ?d)" using 2(3) by (simp add: int_to_string_def)
    have "parse_i64 s = Some i"
      using d 2(1,2) first[OF sign(1)] first[OF sign(2)] by (cases ?d) (auto simp: s parse_i64_def Let_def)
    then show ?thesis using d leading first[OF sign(1)] first[OF sign(2)] by (auto simp: valid_integer_def s Let_def)
  qed
qed

section \<open>Examples\<close>

definition no_parsers :: scalar_parsers where
  "no_parsers = \<lparr>parse_uuid_ok = (\<lambda>_. False), parse_rfc3339_ok = (\<lambda>_. False)\<rparr>"

definition labels_schema :: TabularSchema where
  "labels_schema = \<lparr>ts_profile = TABULAR_CSV_PROFILE,
     ts_columns = [\<lparr>tc_name = ''n'', tc_column_type = Int64\<rparr>, \<lparr>tc_name = ''label'', tc_column_type = TabularColumnType.String\<rparr>]\<rparr>"

definition label_row :: "string \<Rightarrow> Value" where
  "label_row label = Object [(''label'', Value.String label), (''n'', Value.Number (Integer (- 7)))]"

text \<open>The label of the example row is \<^verbatim>\<open>a,"b\<close>.\<close>

definition quoted_label :: string where
  "quoted_label = [CHR ''a'', CHR '','', CHR 0x22, CHR ''b'']"

definition labels_csv :: "string \<Rightarrow> string" where
  "labels_csv label = ''n,label'' @ crlf @ ''-7,'' @ encode_csv_field label @ crlf"

lemma labels_schema_valid: "2 \<le> limit \<Longrightarrow> validate_schema labels_schema limit = Inr ()"
  by (simp add: validate_schema_def labels_schema_def)

lemma label_texts: "result_collect (row_texts labels_schema) [label_row label] = Inr [[''-7'', label]]"
proof -
  have "int_to_string (- 7) = ''-7''" by code_simp
  then show ?thesis by (simp add: row_texts_def label_row_def labels_schema_def)
qed

lemma label_written: "write_tabular_csv no_parsers labels_schema [label_row label] = Inr (labels_csv label)"
proof -
  have valid: "valid_integer ''-7''" "encode_csv_field ''n'' = ''n''" "encode_csv_field ''label'' = ''label''" "encode_csv_field ''-7'' = ''-7''"
    by code_simp+
  have "row_texts labels_schema (label_row label) = Inr [''-7'', label]" using label_texts[of label] by (auto simp: result_bind_Inr_iff)
  moreover have "validate_values no_parsers [''-7'', label] (ts_columns labels_schema) = Inr ()"
    using valid(1) by (simp add: labels_schema_def)
  ultimately have "write_row no_parsers labels_schema (label_row label) = Inr (''-7,'' @ encode_csv_field label @ crlf)"
    by (simp add: write_row_def encode_record_def valid)
  then show ?thesis
    using labels_schema_valid[of 128]
    by (simp add: write_tabular_csv_def ImportLimits_default_def labels_csv_def encode_record_def valid labels_schema_def)
qed

theorem tabular_csv_roundtrip_witness:
  "decode_tabular_csv no_parsers (labels_csv quoted_label) labels_schema ImportLimits_default = Inr [[''-7'', quoted_label]]"
proof (rule tabular_csv_roundtrip[OF label_written label_texts])
  show "list_all (list_all newline_free) [[''-7'', quoted_label]]" "list_all newline_free (map tc_name (ts_columns labels_schema))"
    by (simp_all add: newline_free_def quoted_label_def labels_schema_def)
  show "list_all (list_all valid_utf8) [[''-7'', quoted_label]]" "list_all valid_utf8 (map tc_name (ts_columns labels_schema))" by code_simp+
  show "take 3 (labels_csv quoted_label) \<noteq> [CHR 0xEF, CHR 0xBB, CHR 0xBF]" by (simp add: labels_csv_def)
qed (simp_all add: ImportLimits_default_def labels_schema_def)

definition small_limits :: ImportLimits where
  "small_limits = \<lparr>max_bundle_bytes = 9, max_json_depth = 9, max_string_bytes = 9, max_artifacts = 9, max_artifact_bytes = 9,
     max_total_artifact_bytes = 9, max_rows = 1, max_columns = 2, max_extension_bytes = 9\<rparr>"

theorem decoded_table_valid_witness:
  "list_all2 (\<lambda>value column. valid_value no_parsers (tc_column_type column) value) [''-7'', ''x''] (ts_columns labels_schema)"
proof -
  have "decode_tabular_csv no_parsers (labels_csv ''x'') labels_schema small_limits = Inr [[''-7'', ''x'']]" by code_simp
  from decoded_table_valid[OF this] show ?thesis by simp
qed

text \<open>
  The writer emits what the reader refuses. A text with a line break is written in quotes, and the reader of the
  same profile rejects the file; a file that ends in an empty pair of quotes instead of a line end is accepted.
\<close>

theorem csv_profile_asymmetric:
  "write_tabular_csv no_parsers labels_schema [label_row [CHR ''a'', CHR 0x0A]] = Inr (labels_csv [CHR ''a'', CHR 0x0A]) \<and>
   parse_csv no_parsers (labels_csv [CHR ''a'', CHR 0x0A]) labels_schema limits =
     Inl (InvalidCsv ''embedded newlines are not supported by profile 1'') \<and>
   parse_csv no_parsers (''n,label'' @ crlf @ [CHR 0x22, CHR 0x22]) labels_schema limits = Inr []"
proof (intro conjI label_written)
  have utf8: "valid_utf8 (labels_csv [CHR ''a'', CHR 0x0A])" "valid_utf8 (''n,label'' @ crlf @ [CHR 0x22, CHR 0x22])" by code_simp+
  show "parse_csv no_parsers (labels_csv [CHR ''a'', CHR 0x0A]) labels_schema limits =
      Inl (InvalidCsv ''embedded newlines are not supported by profile 1'')"
    using utf8(1) by (simp add: parse_csv_def labels_csv_def encode_csv_field_def CsvState_new_def end_record_def labels_schema_def del: valid_utf8.simps)
  show "parse_csv no_parsers (''n,label'' @ crlf @ [CHR 0x22, CHR 0x22]) labels_schema limits = Inr []"
    using utf8(2) by (simp add: parse_csv_def CsvState_new_def end_record_def labels_schema_def del: valid_utf8.simps)
qed

end
