(* ===== verification/QF_Import.thy ===== *)
theory QF_Import
  imports QF_Provenance QF_Tabular
begin

text \<open>
  Portable bundles: \<^verbatim>\<open>crates/queryfabric-portability/src\<close> (canonical JSON, manifests, citations, bundles, validation
  and planning of imports). What the serde, serde_json, serde_jcs and blake3 crates do is a record of functions,
  \<^verbatim>\<open>codec\<close>: the JSON deserializer (which reports the entries of an object as they come, duplicates included), the
  conversions between values and the derived types, and the serializers.
\<close>

section \<open>Canonical JSON\<close>

text \<open>
  The sorted-key serializer of bundle 1.0; \<open>escape_string\<close> is the crate's text for a JSON string.
\<close>

fun write_canonical :: "(string \<Rightarrow> string) \<Rightarrow> Value \<Rightarrow> string" where
  "write_canonical escape_string Null = ''null''"
| "write_canonical escape_string (Bool b) = (if b then ''true'' else ''false'')"
| "write_canonical escape_string (Value.Number n) = Number_to_string n"
| "write_canonical escape_string (Value.String s) = escape_string s"
| "write_canonical escape_string (Array items) = ''['' @ join_with '','' (map (write_canonical escape_string) items) @ '']''"
| "write_canonical escape_string (Object entries) =
     ''{'' @ join_with '','' (map (\<lambda>(key, text). escape_string key @ '':'' @ text)
       (sort_key fst (map (\<lambda>(key, item). (key, write_canonical escape_string item)) entries))) @ ''}''"

section \<open>Manifests, citations and bundles\<close>

record ArtifactManifest =
  am_kind :: string
  am_storage_uri :: string
  am_format :: string
  am_schema_fingerprint :: string
  am_content_hash :: string
  am_row_count :: u64
  am_byte_count :: "u64 option"
  am_manifest_json :: Value

record CitationInput =
  ci_id :: string
  ci_title :: string
  ci_publisher :: string
  ci_year :: string
  ci_url :: string
  ci_doi :: "string option"
  ci_license_spdx :: "string option"
  ci_keywords :: "string list"
  ci_repository_url :: "string option"

datatype CitationFormat = BibTeX | Ris | Apa | CslJson | Cff

abbreviation newline :: string where
  "newline \<equiv> [CHR 0x0A]"

abbreviation quote :: string where
  "quote \<equiv> [CHR 0x22]"

definition optional :: "('a \<Rightarrow> string) \<Rightarrow> 'a option \<Rightarrow> string" where
  "optional f x = (case x of Some y \<Rightarrow> f y | None \<Rightarrow> [])"

definition bibtex :: "CitationInput \<Rightarrow> string" where
  "bibtex input =
     ''@misc{'' @ ci_id input @ '','' @ newline @ ''  title = {'' @ ci_title input @ ''},'' @ newline @
     ''  publisher = {'' @ ci_publisher input @ ''},'' @ newline @ ''  year = {'' @ ci_year input @ ''},'' @ newline @
     ''  url = {'' @ ci_url input @ ''}'' @
     optional (\<lambda>license. '','' @ newline @ ''  license = {'' @ license @ ''}'') (ci_license_spdx input) @
     optional (\<lambda>doi. '','' @ newline @ ''  doi = {'' @ doi @ ''}'') (ci_doi input) @ newline @ ''}''"

definition ris :: "CitationInput \<Rightarrow> string" where
  "ris input =
     ''TY  - DATA'' @ newline @ ''TI  - '' @ ci_title input @ newline @ ''PB  - '' @ ci_publisher input @ newline @
     ''PY  - '' @ ci_year input @ newline @ ''UR  - '' @ ci_url input @
     concat (map (\<lambda>keyword. newline @ ''KW  - '' @ keyword) (ci_keywords input)) @
     optional (\<lambda>doi. newline @ ''DO  - '' @ doi) (ci_doi input) @ newline @ ''ER  - ''"

definition apa :: "CitationInput \<Rightarrow> string" where
  "apa input =
     ci_publisher input @ ''. ('' @ ci_year input @ ''). '' @ ci_title input @ '' [Data set]. '' @ ci_publisher input @ ''.'' @
     optional (\<lambda>doi. '' https://doi.org/'' @ doi) (ci_doi input)"

definition cff :: "CitationInput \<Rightarrow> string" where
  "cff input =
     ''cff-version: 1.2.0'' @ newline @
     ''message: '' @ quote @ ''If you use this dataset, please cite it as below.'' @ quote @ newline @
     ''title: '' @ quote @ ci_title input @ quote @ newline @ ''type: dataset'' @ newline @
     optional (\<lambda>license. ''license: '' @ license @ newline) (ci_license_spdx input) @
     ''url: '' @ quote @ ci_url input @ quote @ newline @
     optional (\<lambda>repository. ''repository: '' @ quote @ repository @ quote @ newline) (ci_repository_url input) @
     (if ci_keywords input \<noteq> []
      then ''keywords:'' @ newline @ concat (map (\<lambda>keyword. ''  - '' @ keyword @ newline) (ci_keywords input)) else []) @
     ''date-released: '' @ quote @ ci_year input @ ''-01-01'' @ quote @ newline @
     optional (\<lambda>doi. ''identifiers:'' @ newline @ ''  - type: doi'' @ newline @ ''    value: '' @ quote @ doi @ quote @ newline) (ci_doi input)"

text \<open>The map of a JSON object is ordered by key.\<close>

definition set_entry :: "string \<Rightarrow> Value \<Rightarrow> Value \<Rightarrow> Value" where
  "set_entry key item v = (case v of Object entries \<Rightarrow> Object (bt_insert key item entries) | _ \<Rightarrow> v)"

definition csl_json_value :: "CitationInput \<Rightarrow> Value" where
  "csl_json_value input =
     (let item = Object (bt_insert ''type'' (Value.String ''dataset'') (bt_insert ''id'' (Value.String (ci_id input))
            (bt_insert ''title'' (Value.String (ci_title input)) (bt_insert ''publisher'' (Value.String (ci_publisher input))
            (bt_insert ''URL'' (Value.String (ci_url input))
            (bt_insert ''issued'' (Object [(''date-parts'', Array [Array [Value.String (ci_year input)]])]) []))))));
          item = (case ci_license_spdx input of Some license \<Rightarrow> set_entry ''license'' (Value.String license) item | None \<Rightarrow> item);
          item = (case ci_doi input of Some doi \<Rightarrow> set_entry ''DOI'' (Value.String doi) item | None \<Rightarrow> item)
      in Array [item])"

definition generate_citation :: "(Value \<Rightarrow> string) \<Rightarrow> CitationInput \<Rightarrow> CitationFormat \<Rightarrow> string" where
  "generate_citation to_string_pretty input citation_format =
     (case citation_format of
        BibTeX \<Rightarrow> bibtex input
      | Ris \<Rightarrow> ris input
      | Apa \<Rightarrow> apa input
      | CslJson \<Rightarrow> to_string_pretty (csl_json_value input)
      | Cff \<Rightarrow> cff input)"

record Citations =
  ct_bibtex :: string
  ct_ris :: string
  ct_csl_json :: Value
  ct_cff :: string
  ct_apa :: string
  ct_message :: string

record LicenseSection =
  ls_spdx_id :: string
  ls_rights_uri :: string

record BundleHeader =
  bh_version :: string
  bh_resource :: ResourceRef
  bh_exported_at_unix_ms :: unix_ms

record ExportBundle =
  eb_export_bundle :: BundleHeader
  eb_metadata_jsonld :: Value
  eb_citations :: Citations
  eb_provenance :: ProvenanceHistory
  eb_license :: "LicenseSection option"
  eb_data_use_restriction :: "DataUseRestriction option"
  eb_artifacts :: "ArtifactManifest list"

record BundleRequest =
  br_resource :: ResourceRef
  br_exported_at_unix_ms :: unix_ms
  br_metadata_jsonld :: Value
  br_citation :: CitationInput
  br_policy :: ResourcePolicy
  br_artifacts :: "ArtifactManifest list"

record SealedBundle =
  sb_bundle :: ExportBundle
  sb_canonical_json :: string
  sb_content_hash :: string

datatype BundleError = Provenance ProvenanceError | Serialization string

definition byte_count :: "SealedBundle \<Rightarrow> u64" where
  "byte_count b = of_nat (length (sb_canonical_json b))"

fun license_meta :: "DataLicense \<Rightarrow> string \<times> string \<times> string" where
  "license_meta Cc0 = (''CC0-1.0'', ''https://creativecommons.org/publicdomain/zero/1.0/'', ''Creative Commons Zero v1.0 Universal'')"
| "license_meta CcBy = (''CC-BY-4.0'', ''https://creativecommons.org/licenses/by/4.0/'', ''Creative Commons Attribution 4.0 International'')"
| "license_meta CcBySa =
     (''CC-BY-SA-4.0'', ''https://creativecommons.org/licenses/by-sa/4.0/'', ''Creative Commons Attribution-ShareAlike 4.0 International'')"
| "license_meta CcByNc =
     (''CC-BY-NC-4.0'', ''https://creativecommons.org/licenses/by-nc/4.0/'', ''Creative Commons Attribution-NonCommercial 4.0 International'')"
| "license_meta CcByNcSa =
     (''CC-BY-NC-SA-4.0'', ''https://creativecommons.org/licenses/by-nc-sa/4.0/'',
      ''Creative Commons Attribution-NonCommercial-ShareAlike 4.0 International'')"
| "license_meta Pddl =
     (''PDDL-1.0'', ''https://opendatacommons.org/licenses/pddl/1-0/'', ''Open Data Commons Public Domain Dedication and License v1.0'')"
| "license_meta OdcBy = (''ODC-By-1.0'', ''https://opendatacommons.org/licenses/by/1-0/'', ''Open Data Commons Attribution License v1.0'')"
| "license_meta OdcOdbl = (''ODbL-1.0'', ''https://opendatacommons.org/licenses/odbl/1-0/'', ''Open Data Commons Open Database License v1.0'')"

definition spdx_id :: "DataLicense \<Rightarrow> string" where
  "spdx_id license = fst (license_meta license)"

definition rights_uri :: "DataLicense \<Rightarrow> string" where
  "rights_uri license = fst (snd (license_meta license))"

definition display_name :: "DataLicense \<Rightarrow> string" where
  "display_name license = snd (snd (license_meta license))"

section \<open>Import plans\<close>

record PlanTarget =
  pt_target_resource :: ResourceRef
  pt_relation :: string
  pt_target_revision :: string
  pt_expected_schema :: TabularSchema
  pt_local_owner :: Uuid

record ValidatedBundle =
  vb_bundle :: ExportBundle
  vb_canonical_json :: string
  vb_bundle_digest :: string
  vb_artifacts :: "ArtifactManifest list"
  vb_source_resource :: ResourceRef

record ImportPlan =
  ip_bundle_digest :: string
  ip_artifact_digest :: string
  ip_source_resource :: ResourceRef
  ip_target :: PlanTarget
  ip_column_mapping :: "TabularColumn list"
  ip_row_count :: u64
  ip_byte_count :: u64
  ip_plan_digest :: string

record codec =
  cd_deserialize :: "string \<Rightarrow> string + Value"
  cd_bundle_from_value :: "Value \<Rightarrow> string + ExportBundle"
  cd_bundle_to_value :: "ExportBundle \<Rightarrow> string + Value"
  cd_schema_from_value :: "Value \<Rightarrow> string + TabularSchema"
  cd_schema_to_value :: "TabularSchema \<Rightarrow> Value"
  cd_plan_to_value :: "ImportPlan \<Rightarrow> string + Value"
  cd_to_vec :: "Value \<Rightarrow> string + string"
  cd_escape_string :: "string \<Rightarrow> string"
  cd_to_string_pretty :: "Value \<Rightarrow> string"
  cd_canonical_v2 :: "Value \<Rightarrow> string"
  cd_hash_hex :: "string \<Rightarrow> string"

definition map_err :: "('e \<Rightarrow> 'f) \<Rightarrow> 'e + 'a \<Rightarrow> 'f + 'a" where
  "map_err f m = map_sum f id m"

section \<open>Building a bundle\<close>

definition BUNDLE_VERSION :: string where
  "BUNDLE_VERSION = ''1.0''"

definition IMPORT_BUNDLE_VERSION :: string where
  "IMPORT_BUNDLE_VERSION = ''2.0''"

definition make_bundle :: "codec \<Rightarrow> BundleRequest \<Rightarrow> ProvenanceHistory \<Rightarrow> string \<Rightarrow> ExportBundle" where
  "make_bundle codec request provenance version =
     (let citation = br_citation request; cite = generate_citation (cd_to_string_pretty codec) citation
      in \<lparr>eb_export_bundle = \<lparr>bh_version = version, bh_resource = br_resource request, bh_exported_at_unix_ms = br_exported_at_unix_ms request\<rparr>,
          eb_metadata_jsonld = br_metadata_jsonld request,
          eb_citations = \<lparr>ct_bibtex = cite BibTeX, ct_ris = cite Ris, ct_csl_json = csl_json_value citation, ct_cff = cite Cff, ct_apa = cite Apa,
            ct_message = ''Please cite this resource in any publications that use it.''\<rparr>,
          eb_provenance = provenance,
          eb_license = map_option (\<lambda>license. \<lparr>ls_spdx_id = spdx_id license, ls_rights_uri = rights_uri license\<rparr>) (rp_license (br_policy request)),
          eb_data_use_restriction = rp_restriction (br_policy request),
          eb_artifacts = br_artifacts request\<rparr>)"

definition build_bundle_version ::
  "codec \<Rightarrow> 's ProvenanceStore \<Rightarrow> BundleRequest \<Rightarrow> string \<Rightarrow> bool \<Rightarrow> 's \<Rightarrow> BundleError + SealedBundle" where
  "build_bundle_version codec store request version jcs s =
     result_bind (map_err Provenance (ps_history store (br_resource request) HistoryFilter_default s)) (\<lambda>provenance.
     let bundle = make_bundle codec request provenance version
     in result_bind (map_err BundleError.Serialization (cd_bundle_to_value codec bundle)) (\<lambda>v.
       let canonical_json = (if jcs then cd_canonical_v2 codec v else write_canonical (cd_escape_string codec) v)
       in Inr \<lparr>sb_bundle = bundle, sb_canonical_json = canonical_json, sb_content_hash = cd_hash_hex codec canonical_json\<rparr>))"

definition build_bundle :: "codec \<Rightarrow> 's ProvenanceStore \<Rightarrow> BundleRequest \<Rightarrow> 's \<Rightarrow> BundleError + SealedBundle" where
  "build_bundle codec store request = build_bundle_version codec store request BUNDLE_VERSION False"

definition build_import_bundle :: "codec \<Rightarrow> 's ProvenanceStore \<Rightarrow> BundleRequest \<Rightarrow> 's \<Rightarrow> BundleError + SealedBundle" where
  "build_import_bundle codec store request s =
     result_bind (build_bundle_version codec store request IMPORT_BUNDLE_VERSION True s) (\<lambda>bundle.
     Inr \<lparr>sb_bundle = sb_bundle bundle, sb_canonical_json = sb_canonical_json bundle,
          sb_content_hash = ''blake3-256:'' @ sb_content_hash bundle\<rparr>)"

section \<open>Validation\<close>

text \<open>
  The visitor that rebuilds the value the deserializer reports, and refuses an object that repeats a key.
\<close>

fun strict_value :: "Value \<Rightarrow> string + Value" and strict_entries :: "(string \<times> Value) list \<Rightarrow> (string \<times> Value) list \<Rightarrow> string + (string \<times> Value) list" where
  "strict_value (Array items) = map_sum id Array (result_collect strict_value items)"
| "strict_value (Object entries) = map_sum id Object (strict_entries entries [])"
| "strict_value v = Inr v"
| "strict_entries [] values = Inr values"
| "strict_entries ((key, item) # entries) values =
     (if bt_get values key \<noteq> None then Inl (''duplicate JSON object key '' @ [CHR 0x27] @ key @ [CHR 0x27])
      else (case strict_value item of
          Inl e \<Rightarrow> Inl e
        | Inr v \<Rightarrow> strict_entries entries (bt_insert key v values)))"

definition parse_json_without_duplicate_keys :: "codec \<Rightarrow> string \<Rightarrow> ImportError + Value" where
  "parse_json_without_duplicate_keys codec bytes =
     map_err InvalidJson (result_bind (cd_deserialize codec bytes) strict_value)"

definition typed_digest :: "codec \<Rightarrow> string \<Rightarrow> string" where
  "typed_digest codec bytes = ''blake3-256:'' @ cd_hash_hex codec bytes"

definition is_lower_hexdigit :: "char \<Rightarrow> bool" where
  "is_lower_hexdigit c \<longleftrightarrow> is_ascii_digit c \<or> (97 \<le> byte_of c \<and> byte_of c \<le> 102)"

definition valid_typed_digest :: "string \<Rightarrow> bool" where
  "valid_typed_digest digest \<longleftrightarrow>
     take 11 digest = ''blake3-256:'' \<and> length (drop 11 digest) = 64 \<and> list_all is_lower_hexdigit (drop 11 digest)"

definition constant_time_eq :: "string \<Rightarrow> string \<Rightarrow> bool" where
  "constant_time_eq left right \<longleftrightarrow>
     (if length left \<noteq> length right then False
      else foldl (\<lambda>(difference :: u8) (a, b). or difference (xor (of_nat (byte_of a)) (of_nat (byte_of b)))) 0 (zip left right) = 0)"

fun enforce_json_limits :: "Value \<Rightarrow> nat \<Rightarrow> ImportLimits \<Rightarrow> ImportError + unit" where
  "enforce_json_limits v depth limits =
     (if max_json_depth limits < depth then Inl JsonLimits
      else (case v of
          Value.String s \<Rightarrow> if max_string_bytes limits < length s then Inl JsonLimits else Inr ()
        | Array items \<Rightarrow> map_sum id (\<lambda>_. ()) (result_collect (\<lambda>item. enforce_json_limits item (depth + 1) limits) items)
        | Object entries \<Rightarrow>
            map_sum id (\<lambda>_. ()) (result_collect (\<lambda>(key, item).
              if max_string_bytes limits < length key then Inl JsonLimits else enforce_json_limits item (depth + 1) limits) entries)
        | _ \<Rightarrow> Inr ()))"

declare enforce_json_limits.simps [simp del]

definition schema_bytes :: "codec \<Rightarrow> TabularSchema \<Rightarrow> string" where
  "schema_bytes codec schema = cd_canonical_v2 codec (cd_schema_to_value codec schema)"

definition tabular_schema_fingerprint :: "codec \<Rightarrow> TabularSchema \<Rightarrow> string" where
  "tabular_schema_fingerprint codec schema = typed_digest codec (schema_bytes codec schema)"

fun contains :: "string \<Rightarrow> string \<Rightarrow> bool" where
  "contains pat [] \<longleftrightarrow> pat = []"
| "contains pat (c # cs) \<longleftrightarrow> take (length pat) (c # cs) = pat \<or> contains pat cs"

definition bounded_relative_name :: "string \<Rightarrow> bool" where
  "bounded_relative_name uri \<longleftrightarrow>
     uri \<noteq> [] \<and> \<not> starts_with_char (CHR ''/'') uri \<and> \<not> contains ''..'' uri \<and> \<not> contains ''://'' uri"

text \<open>One artifact, with the bytes and the names of the artifacts before it.\<close>

definition validate_artifact ::
  "codec \<Rightarrow> ImportLimits \<Rightarrow> ArtifactManifest \<Rightarrow> nat \<times> (string \<times> string) list \<Rightarrow> ImportError + nat \<times> (string \<times> string) list" where
  "validate_artifact codec limits artifact = (\<lambda>(total_bytes, seen).
     if am_kind artifact \<noteq> ''table_export'' \<or> am_format artifact \<noteq> ''csv''
     then Inl (InvalidManifest ''2.0 accepts exactly one table_export CSV profile'')
     else result_bind (ok_or (InvalidManifest ''byteCount is required'') (am_byte_count artifact)) (\<lambda>declared.
     if max_artifact_bytes limits < unat declared then Inl ArtifactTooLarge
     else if 2 ^ 64 \<le> total_bytes + unat declared \<or> max_total_artifact_bytes limits < total_bytes + unat declared
     then Inl AggregateArtifactTooLarge
     else if \<not> valid_typed_digest (am_content_hash artifact) \<or> \<not> valid_typed_digest (am_schema_fingerprint artifact)
     then Inl (InvalidManifest ''contentHash and schemaFingerprint must be typed blake3-256 digests'')
     else if (am_kind artifact, am_storage_uri artifact) \<in> set seen then Inl DuplicateArtifact
     else if \<not> bounded_relative_name (am_storage_uri artifact)
     then Inl (InvalidManifest ''storageUri is metadata only and must be a bounded relative name'')
     else result_bind (map_err InvalidProfile (cd_schema_from_value codec (am_manifest_json artifact))) (\<lambda>schema.
     result_bind (map_err InvalidJson (cd_to_vec codec (am_manifest_json artifact))) (\<lambda>extension.
     if max_extension_bytes limits < length extension then Inl JsonLimits
     else result_bind (validate_schema schema (max_columns limits)) (\<lambda>_.
     if typed_digest codec (schema_bytes codec schema) \<noteq> am_schema_fingerprint artifact then Inl SchemaMismatch
     else Inr (total_bytes + unat declared, (am_kind artifact, am_storage_uri artifact) # seen))))))"

fun validate_artifacts ::
  "codec \<Rightarrow> ImportLimits \<Rightarrow> ArtifactManifest list \<Rightarrow> nat \<times> (string \<times> string) list \<Rightarrow> ImportError + nat \<times> (string \<times> string) list" where
  "validate_artifacts codec limits [] acc = Inr acc"
| "validate_artifacts codec limits (artifact # artifacts) acc =
     result_bind (validate_artifact codec limits artifact acc) (validate_artifacts codec limits artifacts)"

definition validate_import_bundle :: "codec \<Rightarrow> string \<Rightarrow> string \<Rightarrow> ImportLimits \<Rightarrow> ImportError + ValidatedBundle" where
  "validate_import_bundle codec bytes expected_digest limits =
     (if max_bundle_bytes limits < length bytes then Inl BundleTooLarge
      else result_bind (parse_json_without_duplicate_keys codec bytes) (\<lambda>v.
      result_bind (enforce_json_limits v 0 limits) (\<lambda>_.
      result_bind (map_err InvalidJson (cd_bundle_from_value codec v)) (\<lambda>bundle.
      if bh_version (eb_export_bundle bundle) \<noteq> IMPORT_BUNDLE_VERSION then Inl (UnsupportedVersion (bh_version (eb_export_bundle bundle)))
      else (let canonical_json = cd_canonical_v2 codec v
        in result_bind (map_err InvalidJson (cd_to_vec codec (eb_metadata_jsonld bundle))) (\<lambda>extension.
        if max_extension_bytes limits < length extension then Inl JsonLimits
        else (let digest = typed_digest codec canonical_json
          in if \<not> valid_typed_digest expected_digest then Inl InvalidDigest
             else if \<not> constant_time_eq digest expected_digest then Inl DigestMismatch
             else if eb_artifacts bundle = [] \<or> max_artifacts limits < length (eb_artifacts bundle) then Inl TooManyArtifacts
             else result_bind (validate_artifacts codec limits (eb_artifacts bundle) (0, [])) (\<lambda>_.
               Inr \<lparr>vb_bundle = bundle, vb_canonical_json = canonical_json, vb_bundle_digest = digest,
                    vb_artifacts = eb_artifacts bundle, vb_source_resource = bh_resource (eb_export_bundle bundle)\<rparr>))))))))"

definition plan_tabular_import ::
  "codec \<Rightarrow> scalar_parsers \<Rightarrow> ValidatedBundle \<Rightarrow> string \<Rightarrow> PlanTarget \<Rightarrow> ImportLimits \<Rightarrow> ImportError + ImportPlan" where
  "plan_tabular_import codec parsers bundle artifact_bytes target limits =
     (case vb_artifacts bundle of
        [manifest] \<Rightarrow>
          if max_artifact_bytes limits < length artifact_bytes then Inl ArtifactTooLarge
          else result_bind (validate_schema (pt_expected_schema target) (max_columns limits)) (\<lambda>_.
          result_bind (map_err InvalidProfile (cd_schema_from_value codec (am_manifest_json manifest))) (\<lambda>schema.
          if schema \<noteq> pt_expected_schema target then Inl (InvalidTarget ''target schema does not equal the portable schema'')
          else (let actual_digest = typed_digest codec artifact_bytes; actual_bytes = of_nat (length artifact_bytes)
            in if actual_digest \<noteq> am_content_hash manifest \<or> Some actual_bytes \<noteq> am_byte_count manifest then Inl ArtifactMismatch
               else result_bind (parse_csv parsers artifact_bytes schema limits) (\<lambda>rows.
               if of_nat (length rows) \<noteq> am_row_count manifest then Inl ArtifactMismatch
               else if list_all is_ascii_space (pt_relation target) \<or> list_all is_ascii_space (pt_target_revision target)
               then Inl (InvalidTarget ''relation and targetRevision are required'')
               else (let plan = \<lparr>ip_bundle_digest = vb_bundle_digest bundle, ip_artifact_digest = actual_digest,
                       ip_source_resource = vb_source_resource bundle, ip_target = target, ip_column_mapping = ts_columns schema,
                       ip_row_count = of_nat (length rows), ip_byte_count = actual_bytes, ip_plan_digest = []\<rparr>
                 in result_bind (map_err InvalidJson (cd_plan_to_value codec plan)) (\<lambda>plan_value.
                   Inr (plan\<lparr>ip_plan_digest := typed_digest codec (cd_canonical_v2 codec plan_value)\<rparr>)))))))
      | _ \<Rightarrow> Inl (InvalidManifest ''exactly one table artifact is required''))"

section \<open>Comparison in constant time\<close>

lemma byte_word_inj: "(of_nat (byte_of a) :: u8) = of_nat (byte_of b) \<longleftrightarrow> a = b"
proof
  assume eq: "(of_nat (byte_of a) :: u8) = of_nat (byte_of b)"
  have bound: "byte_of c < 2 ^ 8" for c using mod_less_divisor[of 256 "byte_of c"] by (simp add: byte_of_def)
  have "take_bit 8 (byte_of a) = take_bit 8 (byte_of b)"
    using arg_cong[OF eq, of unat] by (simp only: unsigned_of_nat of_nat_id len_num0 len_bit0 len_num1 semiring_norm mult_1_right)
  then have "byte_of a = byte_of b" unfolding take_bit_nat_eq_self[OF bound[of a]] take_bit_nat_eq_self[OF bound[of b]] .
  then show "a = b" by (simp add: byte_of_def)
qed simp

lemma or_xor_zero: "or d (xor a b) = 0 \<longleftrightarrow> d = 0 \<and> a = (b :: u8)"
  by (auto simp: bit_eq_iff bit_simps)

lemma digest_eq [simp]: "constant_time_eq left right \<longleftrightarrow> left = right"
proof -
  have "foldl (\<lambda>(difference :: u8) (a, b). or difference (xor (of_nat (byte_of a)) (of_nat (byte_of b)))) d (zip left right) = 0 \<longleftrightarrow>
      d = 0 \<and> left = right" if "length left = length right" for d
    using that by (induction left right arbitrary: d rule: list_induct2) (simp_all add: or_xor_zero byte_word_inj conj_assoc)
  then show ?thesis by (auto simp: constant_time_eq_def)
qed

text \<open>
  Comparing digests in constant time is comparing them: the test that accumulates the differences of all bytes
  accepts exactly equal texts.
\<close>

theorem constant_time_eq_iff: "constant_time_eq left right \<longleftrightarrow> left = right"
  by (rule digest_eq)

section \<open>Canonical JSON does not depend on the order of keys\<close>

inductive same_value :: "Value \<Rightarrow> Value \<Rightarrow> bool" where
  same_refl: "same_value v v"
| same_array: "list_all2 same_value xs ys \<Longrightarrow> same_value (Array xs) (Array ys)"
| same_object: "distinct (map fst xs) \<Longrightarrow> distinct (map fst ys) \<Longrightarrow> set (map fst xs) = set (map fst ys) \<Longrightarrow>
    (\<And>k v w. map_of xs k = Some v \<Longrightarrow> map_of ys k = Some w \<Longrightarrow> same_value v w) \<Longrightarrow> same_value (Object xs) (Object ys)"

lemma sort_key_fst_unique:
  assumes "distinct (map fst xs)" and "set xs = set ys" and "distinct (map fst ys)"
  shows "sort_key fst xs = sort_key fst (ys :: ('k :: linorder \<times> 'v) list)"
proof (rule map_sorted_distinct_set_unique[of fst])
  show "inj_on fst (set (sort_key fst xs) \<union> set (sort_key fst ys))"
    using assms by (simp add: distinct_map)
  show "distinct (map fst (sort_key fst xs))" "distinct (map fst (sort_key fst ys))"
    using assms by (simp_all add: distinct_map distinct_sort)
qed (use assms in simp_all)

text \<open>
  Bundle 1.0 documents are deterministic: two JSON values that differ only in the order of the keys of their
  objects, at any depth, have the same canonical text, and so the same content hash.
\<close>

theorem canonical_order_independent:
  "same_value v w \<Longrightarrow> write_canonical escape_string v = write_canonical escape_string w"
proof (induction rule: same_value.induct)
  case (same_array xs ys)
  then have "map (write_canonical escape_string) xs = map (write_canonical escape_string) ys"
    by (induction rule: list_all2_induct) simp_all
  then show ?case by simp
next
  case (same_object xs ys)
  let ?text = "\<lambda>(key, item). (key, write_canonical escape_string item)"
  have fst: "map fst (map ?text zs) = map fst zs" for zs :: "(string \<times> Value) list" by (induction zs) auto
  have eq: "write_canonical escape_string a = write_canonical escape_string b" if "(k, a) \<in> set xs" "(k, b) \<in> set ys" for k a b
    using same_object.hyps(1,2) same_object.IH that by simp
  have sub: "?text ` set as \<subseteq> ?text ` set bs"
    if "set (map fst as) \<subseteq> set (map fst bs)"
      "\<And>k a b. (k, a) \<in> set as \<Longrightarrow> (k, b) \<in> set bs \<Longrightarrow> write_canonical escape_string a = write_canonical escape_string b" for as bs
    using that by (force simp: image_subset_iff image_iff)
  have "set (map ?text xs) = set (map ?text ys)"
    using sub[of xs ys] sub[of ys xs] eq same_object(3) by (fastforce dest: sym)
  then have "sort_key fst (map ?text xs) = sort_key fst (map ?text ys)"
    by (intro sort_key_fst_unique) (simp_all only: fst same_object(1,2))
  then show ?case by (simp only: write_canonical.simps)
qed simp

theorem canonical_order_independent_witness:
  "write_canonical id (Object [(''b'', Null), (''a'', Bool True)]) = write_canonical id (Object [(''a'', Bool True), (''b'', Null)])"
  by (rule canonical_order_independent, rule same_object) (auto intro: same_refl split: if_splits)

section \<open>What validation guarantees\<close>

definition artifact_ok :: "codec \<Rightarrow> ImportLimits \<Rightarrow> ArtifactManifest \<Rightarrow> bool" where
  "artifact_ok codec limits artifact \<longleftrightarrow>
     am_kind artifact = ''table_export'' \<and> am_format artifact = ''csv'' \<and>
     (\<exists>declared. am_byte_count artifact = Some declared \<and> unat declared \<le> max_artifact_bytes limits) \<and>
     valid_typed_digest (am_content_hash artifact) \<and> valid_typed_digest (am_schema_fingerprint artifact) \<and>
     bounded_relative_name (am_storage_uri artifact) \<and>
     (\<exists>extension. cd_to_vec codec (am_manifest_json artifact) = Inr extension \<and> length extension \<le> max_extension_bytes limits) \<and>
     (\<exists>schema. cd_schema_from_value codec (am_manifest_json artifact) = Inr schema \<and>
        validate_schema schema (max_columns limits) = Inr () \<and>
        tabular_schema_fingerprint codec schema = am_schema_fingerprint artifact)"

definition artifact_bytes :: "ArtifactManifest \<Rightarrow> nat" where
  "artifact_bytes artifact = (case am_byte_count artifact of Some declared \<Rightarrow> unat declared | None \<Rightarrow> 0)"

lemma map_err_Inr [simp]: "map_err f m = Inr x \<longleftrightarrow> m = Inr x" "map_err f (Inr x) = Inr x" "map_err f (Inl e) = Inl (f e)"
  by (cases m; simp add: map_err_def)+

lemma validate_artifact_Inr:
  "validate_artifact codec limits artifact (t0, seen) = Inr (t', seen') \<Longrightarrow>
     artifact_ok codec limits artifact \<and> t' = t0 + artifact_bytes artifact \<and> t' \<le> max_total_artifact_bytes limits \<and>
     am_storage_uri artifact \<notin> snd ` {x \<in> set seen. fst x = ''table_export''} \<and>
     seen' = (''table_export'', am_storage_uri artifact) # seen"
  by (auto simp: validate_artifact_def artifact_ok_def artifact_bytes_def tabular_schema_fingerprint_def result_bind_Inr_iff ok_or_def
      split: if_splits option.splits)

lemma validate_artifacts_Inr:
  assumes "validate_artifacts codec limits artifacts (t0, seen) = Inr (t', seen')" and "\<forall>x\<in>set seen. fst x = ''table_export''"
    and "t0 \<le> max_total_artifact_bytes limits"
  shows "list_all (artifact_ok codec limits) artifacts \<and>
    t' = t0 + sum_list (map artifact_bytes artifacts) \<and> t' \<le> max_total_artifact_bytes limits \<and>
    distinct (map am_storage_uri artifacts) \<and> set (map am_storage_uri artifacts) \<inter> snd ` set seen = {}"
  using assms
proof (induction artifacts arbitrary: t0 seen)
  case (Cons artifact artifacts)
  obtain acc where one: "validate_artifact codec limits artifact (t0, seen) = Inr acc"
    and rest: "validate_artifacts codec limits artifacts acc = Inr (t', seen')"
    using Cons.prems(1) by (auto simp: result_bind_Inr_iff)
  obtain t1 seen1 where acc: "acc = (t1, seen1)" by (cases acc)
  have this: "artifact_ok codec limits artifact" "t1 = t0 + artifact_bytes artifact" "t1 \<le> max_total_artifact_bytes limits"
    "am_storage_uri artifact \<notin> snd ` set seen" "seen1 = (''table_export'', am_storage_uri artifact) # seen"
    using validate_artifact_Inr[OF one[unfolded acc]] Cons.prems(2) by auto
  with Cons.IH[OF rest[unfolded acc]] Cons.prems(2) show ?case by auto
qed auto

text \<open>
  C31. What an import plan is. It is made only for the exact bytes the bundle describes: their digest, their number
  and the number of rows they decode to are those of the manifest; the decoded rows obey the schema; that schema
  is the one of the target, whose relation and revision are named.
\<close>

theorem import_plan_sound:
  assumes "plan_tabular_import codec parsers bundle bytes target limits = Inr plan"
  shows "\<exists>manifest rows. vb_artifacts bundle = [manifest] \<and>
    decode_tabular_csv parsers bytes (pt_expected_schema target) limits = Inr rows \<and>
    ip_artifact_digest plan = typed_digest codec bytes \<and> am_content_hash manifest = typed_digest codec bytes \<and>
    am_row_count manifest = of_nat (length rows) \<and> ip_row_count plan = of_nat (length rows) \<and>
    am_byte_count manifest = Some (ip_byte_count plan) \<and> ip_byte_count plan = of_nat (length bytes) \<and>
    length bytes \<le> max_artifact_bytes limits \<and>
    ip_column_mapping plan = ts_columns (pt_expected_schema target) \<and> ip_target plan = target \<and>
    ip_bundle_digest plan = vb_bundle_digest bundle \<and> ip_source_resource plan = vb_source_resource bundle \<and>
    \<not> list_all is_ascii_space (pt_relation target) \<and> \<not> list_all is_ascii_space (pt_target_revision target)"
  using assms
  by (auto simp: plan_tabular_import_def Let_def result_bind_Inr_iff decode_tabular_csv_def not_less
      split: list.splits if_splits)

section \<open>Duplicate keys\<close>

fun distinct_keys :: "Value \<Rightarrow> bool" where
  "distinct_keys (Array items) \<longleftrightarrow> list_all distinct_keys items"
| "distinct_keys (Object entries) \<longleftrightarrow> distinct (map fst entries) \<and> list_all (\<lambda>(key, item). distinct_keys item) entries"
| "distinct_keys _ \<longleftrightarrow> True"

text \<open>A value as the crate holds it: the entries of every object are ordered by key.\<close>

fun json_wf :: "Value \<Rightarrow> bool" where
  "json_wf (Array items) \<longleftrightarrow> list_all json_wf items"
| "json_wf (Object entries) \<longleftrightarrow> bt_wf entries \<and> list_all (\<lambda>(key, item). json_wf item) entries"
| "json_wf _ \<longleftrightarrow> True"

lemma json_wf_distinct: "json_wf v \<Longrightarrow> distinct_keys v"
  by (induction v rule: json_wf.induct) (auto simp: list_all_iff bt_wf_distinct[unfolded bt_keys_def])

lemma set_bt_insert_cases: "x \<in> set (bt_insert k v m) \<Longrightarrow> x = (k, v) \<or> x \<in> set m"
  by (induction m) (auto split: if_splits)

lemma strict_value_spec:
  "(case strict_value v of Inr w \<Rightarrow> distinct_keys v \<and> json_wf w \<and> (json_wf v \<longrightarrow> w = v) | Inl e \<Rightarrow> \<not> distinct_keys v)"
  "bt_wf acc \<Longrightarrow> list_all (\<lambda>(key, item). json_wf item) acc \<Longrightarrow>
   (case strict_entries entries acc of
      Inr es \<Rightarrow> distinct (map fst entries) \<and> set (map fst entries) \<inter> set (bt_keys acc) = {} \<and>
        list_all (\<lambda>(key, item). distinct_keys item) entries \<and> bt_wf es \<and> list_all (\<lambda>(key, item). json_wf item) es \<and>
        (bt_wf (acc @ entries) \<longrightarrow> list_all (\<lambda>(key, item). json_wf item) entries \<longrightarrow> es = acc @ entries)
    | Inl e \<Rightarrow> \<not> (distinct (map fst entries) \<and> set (map fst entries) \<inter> set (bt_keys acc) = {} \<and>
        list_all (\<lambda>(key, item). distinct_keys item) entries))"
proof (induction v and entries acc rule: strict_value_strict_entries.induct)
  case (1 items)
  show ?case
  proof (cases "result_collect strict_value items")
    case (Inl e)
    have "\<exists>item\<in>set items. \<exists>e. strict_value item = Inl e"
      using Inl by (induction items arbitrary: e) (auto simp: result_bind_def split: sum.splits)
    with 1 Inl show ?thesis by (fastforce simp: list_all_iff split: sum.splits)
  next
    case (Inr ws)
    then have "list_all2 (\<lambda>x w. strict_value x = Inr w) items ws" by (simp add: result_collect_Inr_iff)
    moreover have "distinct_keys x \<and> json_wf w \<and> (json_wf x \<longrightarrow> w = x)" if "x \<in> set items" "strict_value x = Inr w" for x w
      using 1[OF that(1)] that(2) by simp
    ultimately have "list_all2 (\<lambda>x w. distinct_keys x \<and> json_wf w \<and> (json_wf x \<longrightarrow> w = x)) items ws"
      by (auto elim!: list.rel_mono_strong)
    then have "list_all distinct_keys items \<and> list_all json_wf ws \<and> (list_all json_wf items \<longrightarrow> ws = items)"
      by (induction rule: list_all2_induct) auto
    with Inr show ?thesis by simp
  qed
next
  case (2 entries)
  then show ?case by (auto split: sum.splits)
next
  case (5 key item entries acc)
  have absent: "bt_get acc key = None \<longleftrightarrow> key \<notin> set (bt_keys acc)" by (rule bt_get_None_iff)
  show ?case
  proof (cases "bt_get acc key \<noteq> None")
    case False
    show ?thesis
    proof (cases "strict_value item")
      case (Inl e)
      with 5(1)[OF False] False show ?thesis by simp
    next
      case (Inr w)
      let ?acc = "bt_insert key w acc"
      have item: "distinct_keys item" "json_wf w" "json_wf item \<longrightarrow> w = item" using 5(1)[OF False] Inr by simp_all
      have wf: "bt_wf ?acc" "list_all (\<lambda>(key, item). json_wf item) ?acc"
        using 5(3,4) item(2) by (auto simp: list_all_iff dest: set_bt_insert_cases)
      have last: "?acc = acc @ [(key, w)]" if "bt_wf (acc @ (key, item) # entries)"
        using that by (induction acc) (auto simp: bt_wf_def bt_keys_def)
      have wf_last: "bt_wf (?acc @ entries)" if "bt_wf (acc @ (key, item) # entries)"
        using that by (simp add: last[OF that] bt_wf_def bt_keys_def)
      note IH = 5(2)[OF False Inr wf]
      show ?thesis
      proof (cases "strict_entries entries ?acc")
        case (Inl e)
        with IH False item Inr absent show ?thesis by auto
      next
        case (Inr es)
        with IH \<open>strict_value item = Inr w\<close> False item absent last wf_last show ?thesis by auto
      qed
    qed
  next
    case True
    then show ?thesis using absent by simp
  qed
qed auto

text \<open>
  Duplicate keys are refused, at any depth. The strict reader accepts exactly the documents in which no object
  repeats a key, and leaves a value that is already in the crate's form as it is.
\<close>

theorem strict_value_iff:
  "(\<exists>w. strict_value v = Inr w) \<longleftrightarrow> distinct_keys v"
  using strict_value_spec(1)[of v] by (cases "strict_value v") auto

section \<open>A sealed bundle can be imported\<close>

text \<open>
  Export and import agree. When the JSON crates read a sealed 2.0 bundle back (its canonical text parses to a
  value with the same canonical text, from which the bundle is recovered) and the digest is 64 lowercase
  hexadecimal digits, a bundle that is built for acceptable artifacts and stays within the limits is validated
  under its own content hash, and validation returns that bundle with the full history of the resource.
\<close>

theorem sealed_bundle_validates:
  assumes "build_import_bundle codec store request s = Inr sealed"
    and "cd_deserialize codec (sb_canonical_json sealed) = Inr v" and "json_wf v"
    and "cd_canonical_v2 codec v = sb_canonical_json sealed" and "cd_bundle_from_value codec v = Inr (sb_bundle sealed)"
    and "length (cd_hash_hex codec (sb_canonical_json sealed)) = 64"
    and "list_all is_lower_hexdigit (cd_hash_hex codec (sb_canonical_json sealed))"
    and "length (sb_canonical_json sealed) \<le> max_bundle_bytes limits" and "enforce_json_limits v 0 limits = Inr ()"
    and "cd_to_vec codec (br_metadata_jsonld request) = Inr extension" and "length extension \<le> max_extension_bytes limits"
    and "br_artifacts request \<noteq> []" and "length (br_artifacts request) \<le> max_artifacts limits"
    and "validate_artifacts codec limits (br_artifacts request) (0, []) = Inr acc"
  shows "\<exists>vb. validate_import_bundle codec (sb_canonical_json sealed) (sb_content_hash sealed) limits = Inr vb \<and>
    vb_bundle vb = sb_bundle sealed \<and> vb_bundle_digest vb = sb_content_hash sealed \<and>
    vb_source_resource vb = br_resource request \<and>
    ps_history store (br_resource request) HistoryFilter_default s = Inr (eb_provenance (vb_bundle vb))"
proof -
  obtain history where built: "ps_history store (br_resource request) HistoryFilter_default s = Inr history"
    "sb_bundle sealed = make_bundle codec request history IMPORT_BUNDLE_VERSION"
    "sb_content_hash sealed = typed_digest codec (sb_canonical_json sealed)"
    using assms(1) by (auto simp: build_import_bundle_def build_bundle_version_def result_bind_Inr_iff Let_def typed_digest_def)
  have sealed: "bh_version (eb_export_bundle (sb_bundle sealed)) = IMPORT_BUNDLE_VERSION" "eb_artifacts (sb_bundle sealed) = br_artifacts request"
    "eb_metadata_jsonld (sb_bundle sealed) = br_metadata_jsonld request" "bh_resource (eb_export_bundle (sb_bundle sealed)) = br_resource request"
    "eb_provenance (sb_bundle sealed) = history"
    by (simp_all add: built(2) make_bundle_def Let_def)
  have "strict_value v = Inr v"
    using strict_value_spec(1)[of v] assms(3) by (cases "strict_value v") (auto dest: json_wf_distinct)
  then have parsed: "parse_json_without_duplicate_keys codec (sb_canonical_json sealed) = Inr v"
    by (simp add: parse_json_without_duplicate_keys_def assms(2))
  have digest: "valid_typed_digest (typed_digest codec (sb_canonical_json sealed))"
    using assms(6,7) by (simp add: valid_typed_digest_def typed_digest_def)
  show ?thesis
    using assms(8,11,12,13) digest
    by (simp add: validate_import_bundle_def parsed assms(4,5,9,10,14) sealed built(1,3) digest_eq Let_def not_less)
qed

section \<open>Limits on JSON documents\<close>

fun json_depth :: "Value \<Rightarrow> nat" where
  "json_depth (Array items) = (if items = [] then 0 else Suc (Max (set (map json_depth items))))"
| "json_depth (Object entries) = (if entries = [] then 0 else Suc (Max (set (map (\<lambda>(key, item). json_depth item) entries))))"
| "json_depth _ = 0"

fun json_strings :: "Value \<Rightarrow> string set" where
  "json_strings (Value.String s) = {s}"
| "json_strings (Array items) = \<Union> (set (map json_strings items))"
| "json_strings (Object entries) = set (map fst entries) \<union> \<Union> (set (map (\<lambda>(key, item). json_strings item) entries))"
| "json_strings _ = {}"

lemma collect_unit: "map_sum id (\<lambda>_. ()) (result_collect f xs) = Inr () \<longleftrightarrow> (\<forall>x\<in>set xs. \<exists>y. f x = Inr y)"
proof -
  have "(\<exists>ys. result_collect f xs = Inr ys) \<longleftrightarrow> (\<forall>x\<in>set xs. \<exists>y. f x = Inr y)"
    by (induction xs) (auto simp: result_bind_Inr_iff)
  then show ?thesis by (cases "result_collect f xs") auto
qed

lemma deeper_le:
  "(if xs = [] then d \<le> n else d + Suc (Max (set (map f xs))) \<le> n) \<longleftrightarrow> d \<le> n \<and> (\<forall>x\<in>set xs. d + 1 + f x \<le> (n :: nat))"
proof (cases "xs = []")
  case False
  then have "Max (set (map f xs)) \<le> n - Suc d \<longleftrightarrow> (\<forall>x\<in>set xs. f x \<le> n - Suc d)" by (auto simp: Max_le_iff)
  moreover have "d + Suc m \<le> n \<longleftrightarrow> Suc d \<le> n \<and> m \<le> n - Suc d" for m by auto
  moreover obtain x where "x \<in> set xs" using False by (cases xs) auto
  ultimately show ?thesis using False by (auto; force)
qed simp

lemma json_limits:
  "enforce_json_limits v depth limits = Inr () \<longleftrightarrow>
     depth + json_depth v \<le> max_json_depth limits \<and> (\<forall>s \<in> json_strings v. length s \<le> max_string_bytes limits)"
proof (induction v arbitrary: depth rule: json_depth.induct)
  case (1 items)
  have "enforce_json_limits (Array items) depth limits = Inr () \<longleftrightarrow>
      depth \<le> max_json_depth limits \<and> (\<forall>item\<in>set items. enforce_json_limits item (depth + 1) limits = Inr ())"
    by (subst enforce_json_limits.simps) (auto simp: collect_unit not_less)
  with 1 deeper_le[of items depth "max_json_depth limits" json_depth] show ?case by (auto split: if_splits)
next
  case (2 entries)
  have "enforce_json_limits (Object entries) depth limits = Inr () \<longleftrightarrow>
      depth \<le> max_json_depth limits \<and>
      (\<forall>(key, item)\<in>set entries. length key \<le> max_string_bytes limits \<and> enforce_json_limits item (depth + 1) limits = Inr ())"
    by (subst enforce_json_limits.simps) (auto simp: collect_unit not_less split: if_splits)
  moreover have "enforce_json_limits item (depth + 1) limits = Inr () \<longleftrightarrow>
      depth + 1 + json_depth item \<le> max_json_depth limits \<and> (\<forall>s\<in>json_strings item. length s \<le> max_string_bytes limits)"
    if "(key, item) \<in> set entries" for key item
    using 2[OF _ that refl] that by (cases "entries = []") simp_all
  moreover have "depth + json_depth (Object entries) \<le> max_json_depth limits \<longleftrightarrow>
      depth \<le> max_json_depth limits \<and> (\<forall>(key, item)\<in>set entries. depth + 1 + json_depth item \<le> max_json_depth limits)"
    using deeper_le[of entries depth "max_json_depth limits" "\<lambda>x. json_depth (snd x)"]
    by (cases "entries = []") (simp_all add: case_prod_unfold)
  moreover have "(\<forall>s\<in>json_strings (Object entries). length s \<le> max_string_bytes limits) \<longleftrightarrow>
      (\<forall>(key, item)\<in>set entries. length key \<le> max_string_bytes limits \<and> (\<forall>s\<in>json_strings item. length s \<le> max_string_bytes limits))"
    by (auto simp: case_prod_unfold)
  ultimately show ?case by blast
qed (subst enforce_json_limits.simps; auto simp: not_less split: if_splits)+

text \<open>
  The limits on a document are exact: it passes the check exactly when it is not nested deeper than permitted and
  none of its strings, keys included, is longer than permitted.
\<close>

theorem json_limits_iff:
  "enforce_json_limits v depth limits = Inr () \<longleftrightarrow>
     depth + json_depth v \<le> max_json_depth limits \<and> json_strings v \<subseteq> {s. length s \<le> max_string_bytes limits}"
  unfolding json_limits by auto

text \<open>
  C30. What a validated bundle is. The document repeats no key, is not nested deeper than permitted and has no string
  or key longer than permitted; the bundle has version 2.0 and its metadata is not longer than an extension may be.
  The digest the operator expected is the digest of the document's canonical text, which is what is reported. The
  bundle has between one and the permitted number of artifacts, each a CSV table with a well-formed schema whose
  fingerprint matches, a manifest within the extension limit and a relative name that cannot leave its directory;
  the names are pairwise different, and the declared sizes are within the limits, one by one and together.
\<close>

theorem validated_bundle_sound:
  assumes "validate_import_bundle codec bytes expected_digest limits = Inr vb"
  shows "length bytes \<le> max_bundle_bytes limits \<and>
    (\<exists>document v extension.
       cd_deserialize codec bytes = Inr document \<and> distinct_keys document \<and> strict_value document = Inr v \<and>
       json_depth v \<le> max_json_depth limits \<and> json_strings v \<subseteq> {s. length s \<le> max_string_bytes limits} \<and>
       cd_bundle_from_value codec v = Inr (vb_bundle vb) \<and> vb_canonical_json vb = cd_canonical_v2 codec v \<and>
       cd_to_vec codec (eb_metadata_jsonld (vb_bundle vb)) = Inr extension \<and> length extension \<le> max_extension_bytes limits) \<and>
    bh_version (eb_export_bundle (vb_bundle vb)) = ''2.0'' \<and>
    vb_bundle_digest vb = expected_digest \<and> expected_digest = typed_digest codec (vb_canonical_json vb) \<and>
    valid_typed_digest expected_digest \<and> vb_source_resource vb = bh_resource (eb_export_bundle (vb_bundle vb)) \<and>
    vb_artifacts vb = eb_artifacts (vb_bundle vb) \<and> vb_artifacts vb \<noteq> [] \<and> length (vb_artifacts vb) \<le> max_artifacts limits \<and>
    list_all (artifact_ok codec limits) (vb_artifacts vb) \<and> distinct (map am_storage_uri (vb_artifacts vb)) \<and>
    sum_list (map artifact_bytes (vb_artifacts vb)) \<le> max_total_artifact_bytes limits"
proof -
  obtain document v eb extension t0 seen where
    document: "cd_deserialize codec bytes = Inr document" "strict_value document = Inr v" "enforce_json_limits v 0 limits = Inr ()"
    and parts: "cd_bundle_from_value codec v = Inr eb"
    "bh_version (eb_export_bundle eb) = IMPORT_BUNDLE_VERSION" "length bytes \<le> max_bundle_bytes limits"
    "cd_to_vec codec (eb_metadata_jsonld eb) = Inr extension" "length extension \<le> max_extension_bytes limits"
    "valid_typed_digest expected_digest" "typed_digest codec (cd_canonical_v2 codec v) = expected_digest"
    "eb_artifacts eb \<noteq> []" "length (eb_artifacts eb) \<le> max_artifacts limits"
    "vb = \<lparr>vb_bundle = eb, vb_canonical_json = cd_canonical_v2 codec v, vb_bundle_digest = typed_digest codec (cd_canonical_v2 codec v),
       vb_artifacts = eb_artifacts eb, vb_source_resource = bh_resource (eb_export_bundle eb)\<rparr>"
    and artifacts: "validate_artifacts codec limits (eb_artifacts eb) (0, []) = Inr (t0, seen)"
    using assms
    by (auto simp: validate_import_bundle_def parse_json_without_duplicate_keys_def Let_def result_bind_Inr_iff digest_eq not_less
        split: if_splits)
  have "distinct_keys document" using strict_value_spec(1)[of document] document(2) by simp
  with document parts json_limits[of v 0 limits] validate_artifacts_Inr[OF artifacts] show ?thesis
    by (auto simp: IMPORT_BUNDLE_VERSION_def)
qed

section \<open>Examples\<close>

definition base_codec :: codec where
  "base_codec =
     \<lparr>cd_deserialize = (\<lambda>_. Inr Null), cd_bundle_from_value = (\<lambda>_. Inl ''none''), cd_bundle_to_value = (\<lambda>_. Inr Null),
      cd_schema_from_value = (\<lambda>_. Inr labels_schema), cd_schema_to_value = (\<lambda>_. Null), cd_plan_to_value = (\<lambda>_. Inr Null),
      cd_to_vec = (\<lambda>_. Inr ''null''), cd_escape_string = id, cd_to_string_pretty = (\<lambda>_. []), cd_canonical_v2 = (\<lambda>_. ''null''),
      cd_hash_hex = (\<lambda>_. replicate 64 (CHR ''a''))\<rparr>"

definition example_digest :: string where
  "example_digest = ''blake3-256:'' @ replicate 64 (CHR ''a'')"

definition example_request :: BundleRequest where
  "example_request =
     \<lparr>br_resource = \<lparr>rr_namespace = 1, rr_id = 2\<rparr>, br_exported_at_unix_ms = 0, br_metadata_jsonld = Null,
      br_citation = \<lparr>ci_id = [], ci_title = [], ci_publisher = [], ci_year = [], ci_url = [], ci_doi = None, ci_license_spdx = None,
        ci_keywords = [], ci_repository_url = None\<rparr>,
      br_policy = ResourcePolicy_open,
      br_artifacts = [\<lparr>am_kind = ''table_export'', am_storage_uri = ''t.csv'', am_format = ''csv'', am_schema_fingerprint = example_digest,
        am_content_hash = example_digest, am_row_count = 1, am_byte_count = Some (of_nat (length (labels_csv ''x''))), am_manifest_json = Null\<rparr>]\<rparr>"

definition example_export :: ExportBundle where
  "example_export =
     make_bundle base_codec example_request \<lparr>ph_resource = \<lparr>rr_namespace = 1, rr_id = 2\<rparr>, ph_entries = []\<rparr> IMPORT_BUNDLE_VERSION"

definition example_codec :: codec where
  "example_codec = base_codec\<lparr>cd_bundle_from_value := (\<lambda>_. Inr example_export)\<rparr>"

definition example_sealed :: SealedBundle where
  "example_sealed = \<lparr>sb_bundle = example_export, sb_canonical_json = ''null'', sb_content_hash = example_digest\<rparr>"

definition import_limits :: ImportLimits where
  "import_limits = \<lparr>max_bundle_bytes = 9, max_json_depth = 9, max_string_bytes = 9, max_artifacts = 1, max_artifact_bytes = 99,
     max_total_artifact_bytes = 99, max_rows = 1, max_columns = 2, max_extension_bytes = 9\<rparr>"

lemma example_built: "build_import_bundle example_codec vec_store example_request VecProvenanceStore_new = Inr example_sealed"
  by (simp add: build_import_bundle_def build_bundle_version_def vec_store_def vec_history_def VecProvenanceStore_new_def example_sealed_def
      example_codec_def example_export_def make_bundle_def base_codec_def example_request_def example_digest_def Let_def)

lemma example_digest_valid: "valid_typed_digest example_digest"
  by code_simp

lemma example_artifacts: "validate_artifacts example_codec import_limits (br_artifacts example_request) (0, []) =
    Inr (length (labels_csv ''x''), [(''table_export'', ''t.csv'')])"
proof -
  have "bounded_relative_name ''t.csv''" "unat (of_nat (length (labels_csv ''x'')) :: u64) = length (labels_csv ''x'')"
    "length (labels_csv ''x'') = 15"
    by code_simp+
  then show ?thesis
    using labels_schema_valid[of 2] example_digest_valid
    by (simp add: validate_artifact_def example_request_def example_codec_def base_codec_def import_limits_def typed_digest_def)
      (simp add: example_digest_def)
qed

definition example_validated :: ValidatedBundle where
  "example_validated = \<lparr>vb_bundle = example_export, vb_canonical_json = ''null'', vb_bundle_digest = example_digest,
     vb_artifacts = br_artifacts example_request, vb_source_resource = \<lparr>rr_namespace = 1, rr_id = 2\<rparr>\<rparr>"

lemma example_export_sel:
  "eb_artifacts example_export = br_artifacts example_request" "eb_metadata_jsonld example_export = Null"
  "eb_export_bundle example_export = \<lparr>bh_version = ''2.0'', bh_resource = \<lparr>rr_namespace = 1, rr_id = 2\<rparr>, bh_exported_at_unix_ms = 0\<rparr>"
  by (simp_all add: example_export_def make_bundle_def example_request_def Let_def IMPORT_BUNDLE_VERSION_def)

lemma example_validates: "validate_import_bundle example_codec ''null'' example_digest import_limits = Inr example_validated"
proof -
  have "br_artifacts example_request \<noteq> []" "length (br_artifacts example_request) = 1" by (simp_all add: example_request_def)
  moreover have "typed_digest example_codec ''null'' = example_digest" by (simp add: typed_digest_def example_codec_def base_codec_def example_digest_def)
  moreover have "enforce_json_limits Null 0 import_limits = Inr ()" by (simp add: json_limits)
  ultimately show ?thesis
    using example_artifacts example_digest_valid
    by (simp add: validate_import_bundle_def parse_json_without_duplicate_keys_def example_export_sel digest_eq Let_def
        example_validated_def IMPORT_BUNDLE_VERSION_def)
      (simp add: example_codec_def base_codec_def import_limits_def example_export_sel)
qed

theorem validated_bundle_sound_witness:
  "vb_bundle_digest example_validated = example_digest \<and> distinct (map am_storage_uri (vb_artifacts example_validated))"
  using validated_bundle_sound[OF example_validates] by blast

theorem sealed_bundle_validates_witness:
  "\<exists>vb. validate_import_bundle example_codec ''null'' example_digest import_limits = Inr vb \<and> vb_bundle vb = example_export"
proof -
  have "\<exists>vb. validate_import_bundle example_codec (sb_canonical_json example_sealed) (sb_content_hash example_sealed) import_limits = Inr vb \<and>
      vb_bundle vb = sb_bundle example_sealed \<and> vb_bundle_digest vb = sb_content_hash example_sealed \<and>
      vb_source_resource vb = br_resource example_request \<and>
      ps_history vec_store (br_resource example_request) HistoryFilter_default VecProvenanceStore_new = Inr (eb_provenance (vb_bundle vb))"
    by (rule sealed_bundle_validates[OF example_built, where v = Null and extension = "''null''", OF _ _ _ _ _ _ _ _ _ _ _ _ example_artifacts])
      (simp_all add: example_codec_def base_codec_def example_sealed_def import_limits_def json_limits is_lower_hexdigit_def byte_of_def
        example_request_def list_all_iff)
  then show ?thesis by (auto simp: example_sealed_def)
qed

definition example_target :: PlanTarget where
  "example_target = \<lparr>pt_target_resource = \<lparr>rr_namespace = 1, rr_id = 3\<rparr>, pt_relation = ''t'', pt_target_revision = ''1'',
     pt_expected_schema = labels_schema, pt_local_owner = 4\<rparr>"

theorem import_plan_sound_witness:
  "\<exists>plan. plan_tabular_import example_codec no_parsers example_validated (labels_csv ''x'') example_target import_limits = Inr plan \<and>
     ip_row_count plan = 1 \<and> ip_artifact_digest plan = example_digest"
proof -
  have csv: "parse_csv no_parsers (labels_csv ''x'') labels_schema import_limits = Inr [[''-7'', ''x'']]" "length (labels_csv ''x'') = 15" by code_simp+
  have digest: "typed_digest example_codec b = example_digest" for b by (simp add: typed_digest_def example_codec_def base_codec_def example_digest_def)
  have codec: "cd_schema_from_value example_codec v = Inr labels_schema" "cd_plan_to_value example_codec p = Inr Null" for v p
    by (simp_all add: example_codec_def base_codec_def)
  have limits: "max_artifact_bytes import_limits = 99" "max_columns import_limits = 2" by (simp_all add: import_limits_def)
  obtain manifest where manifest: "br_artifacts example_request = [manifest]" "am_content_hash manifest = example_digest"
    "am_row_count manifest = 1" "am_byte_count manifest = Some 15"
    using csv(2) by (simp add: example_request_def)
  have "\<exists>plan. plan_tabular_import example_codec no_parsers example_validated (labels_csv ''x'') example_target import_limits = Inr plan"
    using labels_schema_valid[of 2]
    by (simp add: plan_tabular_import_def example_validated_def manifest example_target_def digest csv codec limits is_ascii_space_def byte_of_def Let_def)
  then obtain plan where plan: "plan_tabular_import example_codec no_parsers example_validated (labels_csv ''x'') example_target import_limits = Inr plan" ..
  with import_plan_sound[OF plan] show ?thesis
    by (auto simp: example_target_def decode_tabular_csv_def result_bind_Inr_iff csv digest)
qed

text \<open>
  Citations are not escaped. A title with a line break is written verbatim into RIS, so two different citation
  records have the same text.
\<close>

theorem ris_not_injective:
  "\<exists>a b. ci_title a \<noteq> ci_title b \<and> ris a = ris b"
proof -
  let ?input = "\<lambda>title publisher. \<lparr>ci_id = [], ci_title = title, ci_publisher = publisher, ci_year = [], ci_url = [], ci_doi = None,
    ci_license_spdx = None, ci_keywords = [], ci_repository_url = None\<rparr>"
  show ?thesis
    by (rule exI[of _ "?input (''x'' @ newline @ ''PB  - y'') ''z''"], rule exI[of _ "?input ''x'' (''y'' @ newline @ ''PB  - z'')"])
      (simp add: ris_def)
qed

end
