(* ===== verification/QF_Doi.thy ===== *)
theory QF_Doi
  imports QF_Import
begin

text \<open>
  DOI minting: \<^verbatim>\<open>crates/queryfabric-portability/src/doi.rs\<close> and \<^verbatim>\<open>datacite.rs\<close>. The HTTP transport is a function from
  the request to its answer; the derived JSON forms of the DataCite lists are functions of the record \<^verbatim>\<open>datacite_json\<close>.
\<close>

section \<open>DataCite metadata\<close>

datatype IdentifierType = DOI | URL | URN

record DataCiteIdentifier =
  di_identifier :: string
  di_identifier_type :: IdentifierType

record NameIdentifier =
  ni_name_identifier :: string
  ni_name_identifier_scheme :: string
  ni_scheme_uri :: "string option"

record DataCiteCreator =
  dc_name :: string
  dc_given_name :: "string option"
  dc_family_name :: "string option"
  dc_name_identifier :: "NameIdentifier option"
  dc_affiliation :: "string list"

datatype TitleType = AlternativeTitle | Subtitle | TranslatedTitle | Other

record DataCiteTitle =
  dt_title :: string
  dt_title_type :: "TitleType option"

record DataCiteSubject =
  ds_subject :: string
  ds_subject_scheme :: "string option"
  ds_scheme_uri :: "string option"
  ds_value_uri :: "string option"

record DataCiteRights =
  dr_rights :: string
  dr_rights_uri :: "string option"
  dr_rights_identifier :: "string option"
  dr_rights_identifier_scheme :: "string option"

definition DataCiteRights_from_license :: "DataLicense \<Rightarrow> DataCiteRights" where
  "DataCiteRights_from_license license =
     \<lparr>dr_rights = display_name license, dr_rights_uri = Some (rights_uri license), dr_rights_identifier = Some (spdx_id license),
      dr_rights_identifier_scheme = Some ''SPDX''\<rparr>"

datatype RelationType =
    IsCitedBy | Cites | IsSupplementTo | IsSupplementedBy | IsPartOf | HasPart | IsReferencedBy | References | IsDerivedFrom
  | IsSourceOf | IsDescribedBy | Describes | IsVersionOf | HasVersion

record DataCiteRelatedIdentifier =
  dl_related_identifier :: string
  dl_related_identifier_type :: IdentifierType
  dl_relation_type :: RelationType

definition RelationType_ALL :: "RelationType list" where
  "RelationType_ALL =
     [IsCitedBy, Cites, IsSupplementTo, IsSupplementedBy, IsPartOf, HasPart, IsReferencedBy, References, IsDerivedFrom,
      IsSourceOf, IsDescribedBy, Describes, IsVersionOf, HasVersion]"

fun RelationType_as_str :: "RelationType \<Rightarrow> string" where
  "RelationType_as_str IsCitedBy = ''IsCitedBy''"
| "RelationType_as_str Cites = ''Cites''"
| "RelationType_as_str IsSupplementTo = ''IsSupplementTo''"
| "RelationType_as_str IsSupplementedBy = ''IsSupplementedBy''"
| "RelationType_as_str IsPartOf = ''IsPartOf''"
| "RelationType_as_str HasPart = ''HasPart''"
| "RelationType_as_str IsReferencedBy = ''IsReferencedBy''"
| "RelationType_as_str References = ''References''"
| "RelationType_as_str IsDerivedFrom = ''IsDerivedFrom''"
| "RelationType_as_str IsSourceOf = ''IsSourceOf''"
| "RelationType_as_str IsDescribedBy = ''IsDescribedBy''"
| "RelationType_as_str Describes = ''Describes''"
| "RelationType_as_str IsVersionOf = ''IsVersionOf''"
| "RelationType_as_str HasVersion = ''HasVersion''"

definition allowed_values :: "string list" where
  "allowed_values = map RelationType_as_str RelationType_ALL"

definition ALLOWED_DISPLAY :: string where
  "ALLOWED_DISPLAY =
     ''IsCitedBy, Cites, IsSupplementTo, IsSupplementedBy, IsPartOf, HasPart, IsReferencedBy, References, IsDerivedFrom, IsSourceOf, IsDescribedBy, Describes, IsVersionOf, HasVersion''"

datatype RelationTypeParseError = Invalid string string

definition RelationType_from_str :: "string \<Rightarrow> RelationTypeParseError + RelationType" where
  "RelationType_from_str s = ok_or (Invalid s ALLOWED_DISPLAY) (List.find (\<lambda>relation. RelationType_as_str relation = s) RelationType_ALL)"

datatype ResourceTypeGeneral =
    Audiovisual | Collection | DataPaper | Dataset | Event | Image | Model | PhysicalObject | Service | Software | Sound | Text
  | Workflow | Other

record DataCiteResourceType =
  dy_resource_type_general :: ResourceTypeGeneral
  dy_resource_type :: "string option"

datatype DescriptionType = Abstract | Methods | SeriesInformation | TableOfContents | TechnicalInfo | Other

record DataCiteDescription =
  de_description :: string
  de_description_type :: DescriptionType

datatype DateType =
  Accepted | Available | Collected | Copyrighted | Created | Issued | Submitted | Updated | Valid | Withdrawn | Other

record DataCiteDate =
  dd_date :: string
  dd_date_type :: DateType

record DataCiteMetadata =
  dm_identifier :: DataCiteIdentifier
  dm_creators :: "DataCiteCreator list"
  dm_titles :: "DataCiteTitle list"
  dm_publisher :: string
  dm_publication_year :: int
  dm_resource_type :: DataCiteResourceType
  dm_subjects :: "DataCiteSubject list"
  dm_rights_list :: "DataCiteRights list"
  dm_related_identifiers :: "DataCiteRelatedIdentifier list"
  dm_descriptions :: "DataCiteDescription list"
  dm_dates :: "DataCiteDate list"
  dm_schema_version :: string

section \<open>The DataCite provider\<close>

datatype DoiStatus = Pending | Registered | Failed

record DoiRecord =
  do_resource :: ResourceRef
  do_doi :: "string option"
  do_provider :: string
  do_status :: DoiStatus
  do_response :: "Value option"
  do_last_error :: "string option"

datatype DoiError = Transport string | MalformedResponse string

record DataCiteProvider =
  dp_api_base :: string
  dp_repository_id :: string
  dp_password :: string
  dp_doi_prefix :: string

record datacite_json =
  dj_creators :: "DataCiteCreator list \<Rightarrow> Value"
  dj_titles :: "DataCiteTitle list \<Rightarrow> Value"
  dj_resource_type_general :: "ResourceTypeGeneral \<Rightarrow> Value"
  dj_subjects :: "DataCiteSubject list \<Rightarrow> Value"
  dj_rights_list :: "DataCiteRights list \<Rightarrow> Value"
  dj_related_identifiers :: "DataCiteRelatedIdentifier list \<Rightarrow> Value"
  dj_descriptions :: "DataCiteDescription list \<Rightarrow> Value"
  dj_dates :: "DataCiteDate list \<Rightarrow> Value"

definition object :: "(string \<times> Value) list \<Rightarrow> Value" where
  "object entries = Object (foldl (\<lambda>m (key, item). bt_insert key item m) [] entries)"

definition request_body :: "datacite_json \<Rightarrow> DataCiteProvider \<Rightarrow> DataCiteMetadata \<Rightarrow> string \<Rightarrow> Value" where
  "request_body json p metadata landing_url =
     (let resource_type = dm_resource_type metadata;
          attributes = object
            [(''event'', Value.String ''publish''), (''url'', Value.String landing_url), (''creators'', dj_creators json (dm_creators metadata)),
             (''titles'', dj_titles json (dm_titles metadata)), (''publisher'', Value.String (dm_publisher metadata)),
             (''publicationYear'', Value.Number (Integer (dm_publication_year metadata))),
             (''types'', object
               [(''resourceTypeGeneral'', dj_resource_type_general json (dy_resource_type_general resource_type)),
                (''resourceType'', case dy_resource_type resource_type of Some t \<Rightarrow> Value.String t | None \<Rightarrow> Null)]),
             (''subjects'', dj_subjects json (dm_subjects metadata)), (''rightsList'', dj_rights_list json (dm_rights_list metadata)),
             (''relatedIdentifiers'', dj_related_identifiers json (dm_related_identifiers metadata)),
             (''descriptions'', dj_descriptions json (dm_descriptions metadata)), (''dates'', dj_dates json (dm_dates metadata)),
             (''schemaVersion'', Value.String (''http://datacite.org/schema/kernel-'' @ dm_schema_version metadata))];
          identifier = di_identifier (dm_identifier metadata);
          attributes = (if identifier = [] then set_entry ''prefix'' (Value.String (dp_doi_prefix p)) attributes
                        else set_entry ''doi'' (Value.String identifier) attributes)
      in object [(''data'', object [(''type'', Value.String ''dois''), (''attributes'', attributes)])])"

text \<open>Indexing a JSON value gives \<open>Null\<close> where the key or position does not exist.\<close>

definition index_key :: "Value \<Rightarrow> string \<Rightarrow> Value" where
  "index_key v key = (case v of Object entries \<Rightarrow> (case bt_get entries key of Some item \<Rightarrow> item | None \<Rightarrow> Null) | _ \<Rightarrow> Null)"

definition index_at :: "Value \<Rightarrow> nat \<Rightarrow> Value" where
  "index_at v i = (case v of Array items \<Rightarrow> (if i < length items then items ! i else Null) | _ \<Rightarrow> Null)"

definition as_str :: "Value \<Rightarrow> string option" where
  "as_str v = (case v of Value.String s \<Rightarrow> Some s | _ \<Rightarrow> None)"

definition trim_end_slashes :: "string \<Rightarrow> string" where
  "trim_end_slashes s = rev (dropWhile (\<lambda>c. c = CHR ''/'') (rev s))"

definition mint ::
  "datacite_json \<Rightarrow> (string \<Rightarrow> string \<times> string \<Rightarrow> Value \<Rightarrow> DoiError + nat \<times> Value) \<Rightarrow> DataCiteProvider \<Rightarrow> ResourceRef \<Rightarrow>
     DataCiteMetadata \<Rightarrow> string \<Rightarrow> DoiError + DoiRecord" where
  "mint json post_json p resource metadata landing_url =
     result_bind (post_json (trim_end_slashes (dp_api_base p) @ ''/dois'') (dp_repository_id p, dp_password p) (request_body json p metadata landing_url))
       (\<lambda>(status, response).
         if 200 \<le> status \<and> status < 300
         then result_bind
           (ok_or (MalformedResponse ''registrar accepted the DOI but the response carries no data.attributes.doi'')
             (as_str (index_key (index_key (index_key response ''data'') ''attributes'') ''doi'')))
           (\<lambda>doi. Inr \<lparr>do_resource = resource, do_doi = Some doi, do_provider = ''datacite'', do_status = Registered,
              do_response = Some response, do_last_error = None\<rparr>)
         else (let error = (case as_str (index_key (index_at (index_key response ''errors'') 0) ''title'') of
                 Some title \<Rightarrow> title | None \<Rightarrow> ''HTTP '' @ nat_to_string status)
           in Inr \<lparr>do_resource = resource, do_doi = None, do_provider = ''datacite'', do_status = Failed,
              do_response = Some response, do_last_error = Some error\<rparr>))"

section \<open>Properties\<close>

text \<open>
  Relation types and their spellings are in bijection: every relation type is read back from its spelling, and a text
  is read as a relation type only when it is its spelling.
\<close>

theorem relation_type_roundtrip: "RelationType_from_str s = Inr r \<longleftrightarrow> s = RelationType_as_str r"
proof
  assume "RelationType_from_str s = Inr r"
  then show "s = RelationType_as_str r"
    by (auto simp: RelationType_from_str_def ok_or_def find_Some_iff split: option.splits)
next
  assume "s = RelationType_as_str r"
  moreover have "RelationType_from_str (RelationType_as_str r) = Inr r" by (cases r) (simp_all add: RelationType_from_str_def RelationType_ALL_def)
  ultimately show "RelationType_from_str s = Inr r" by simp
qed

text \<open>
  The outcome of minting. The provider fails only when the transport does or when an accepted request is answered
  without a DOI; otherwise the record carries the registrar's answer, is registered with the DOI of that answer
  exactly for a success status, and failed with an explanation for any other; it is never left pending.
\<close>

theorem mint_outcome:
  assumes "post_json (trim_end_slashes (dp_api_base p) @ ''/dois'') (dp_repository_id p, dp_password p) (request_body json p metadata landing_url) =
    Inr (status, response)"
  shows "case mint json post_json p resource metadata landing_url of
      Inr r \<Rightarrow> do_resource r = resource \<and> do_response r = Some response \<and> do_status r \<noteq> Pending \<and>
        (do_status r = Registered \<longleftrightarrow> 200 \<le> status \<and> status < 300) \<and>
        (do_status r = Registered \<longleftrightarrow> do_doi r \<noteq> None) \<and> (do_status r = Failed \<longleftrightarrow> do_last_error r \<noteq> None) \<and>
        (do_status r = Registered \<longrightarrow> do_doi r = as_str (index_key (index_key (index_key response ''data'') ''attributes'') ''doi''))
    | Inl e \<Rightarrow> 200 \<le> status \<and> status < 300 \<and> (\<exists>reason. e = MalformedResponse reason) \<and>
        as_str (index_key (index_key (index_key response ''data'') ''attributes'') ''doi'') = None"
  by (auto simp: mint_def assms ok_or_def Let_def split: option.splits)

end
