(* ===== verification/QF_Ids.thy ===== *)
theory QF_Ids
  imports QF_Tabular QF_Priority
begin

text \<open>
  Deterministic identifiers and digests.

  \<^item> \<^verbatim>\<open>queryfabric-namespace-uuid/src/lib.rs\<close>: UUIDv5 keys from integers, strings, joined parts
    and coordinates, with the fixed stack buffers the crate writes into (256 bytes for joined
    parts, 128 for coordinates). \<^verbatim>\<open>Uuid::new_v5\<close> is a parameter, already applied to the
    namespace of the marker type.
  \<^item> \<^verbatim>\<open>queryfabric-content-hash/src/lib.rs\<close>: the digest of a directory and its sidecar file. A
    directory is the list of entries in the order the operating system returns them; BLAKE3 is
    a parameter, its incremental hasher the bytes it has been given so far.

  Shown: the buffered join is the plain join except where the buffer is exactly full, coordinate
  keys never overflow their buffer and are injective, the digest of a directory does not depend
  on the order of its entries or on its sidecar files, detects every change of contents, but is
  ambiguous between names and digests; a stored hash reads back.
\<close>

section \<open>Namespaced UUIDs\<close>

type_synonym i64 = "64 word"

definition from_u64 :: "(string \<Rightarrow> Uuid) \<Rightarrow> u64 \<Rightarrow> Uuid" where
  "from_u64 new_v5 key = new_v5 (nat_to_string (unat key))"

definition from_str_key :: "(string \<Rightarrow> Uuid) \<Rightarrow> string \<Rightarrow> Uuid" where
  "from_str_key new_v5 key = new_v5 key"

definition put_separator :: "nat \<Rightarrow> string \<Rightarrow> nat \<Rightarrow> string \<times> nat" where
  "put_separator i buf pos =
     (if 0 < i \<and> pos < length buf then (buf[pos := CHR '':''], pos + 1) else (buf, pos))"

text \<open>The \<^verbatim>\<open>for\<close> loop over the parts: position in the iteration, the buffer and its filled length.\<close>

fun join_loop :: "(string \<Rightarrow> Uuid) \<Rightarrow> string list \<Rightarrow> nat \<Rightarrow> string \<Rightarrow> nat \<Rightarrow> string list \<Rightarrow> Uuid" where
  "join_loop new_v5 parts i buf pos [] = new_v5 (take pos buf)"
| "join_loop new_v5 parts i buf pos (part # rest) =
     (let (buf, pos) = put_separator i buf pos; e = pos + length part
      in if e \<le> length buf
         then join_loop new_v5 parts (Suc i) (take pos buf @ part @ drop e buf) e rest
         else new_v5 (join_with '':'' parts))"

definition joined_uuid :: "(string \<Rightarrow> Uuid) \<Rightarrow> string list \<Rightarrow> Uuid" where
  "joined_uuid new_v5 parts = join_loop new_v5 parts 0 (replicate 256 (char_of (0::nat))) 0 parts"

definition from_parts :: "(string \<Rightarrow> Uuid) \<Rightarrow> string list \<Rightarrow> Uuid" where
  "from_parts new_v5 parts = joined_uuid new_v5 parts"

text \<open>
  \<^verbatim>\<open>write!\<close> into a byte slice: every piece of the format is copied as far as it fits, and a short
  write ends the formatting with an error, which the caller ignores.
\<close>

fun write_pieces :: "nat \<Rightarrow> string \<Rightarrow> string list \<Rightarrow> string" where
  "write_pieces cap written [] = written"
| "write_pieces cap written (piece # pieces) =
     (if length written + length piece \<le> cap then write_pieces cap (written @ piece) pieces
      else written @ take (cap - length written) piece)"

definition from_coords :: "(string \<Rightarrow> Uuid) \<Rightarrow> u64 \<Rightarrow> u64 \<Rightarrow> i64 \<Rightarrow> i64 \<Rightarrow> i64 \<Rightarrow> Uuid" where
  "from_coords new_v5 pre_id post_id x y z =
     new_v5 (write_pieces 128 []
       [nat_to_string (unat pre_id), '':'', nat_to_string (unat post_id), '':'',
        int_to_string (sint x), '':'', int_to_string (sint y), '':'', int_to_string (sint z)])"

section \<open>Content digests\<close>

datatype IoError = IoError string

datatype HashError = FileNotFound string IoError | Io IoError | EmptyDir

text \<open>
  A file is the error of opening it, or the results of the successive \<^verbatim>\<open>read\<close> calls on it. A
  directory entry is unreadable, not a regular file, or a file.
\<close>

type_synonym opened_file = "IoError + (IoError + string) list"

datatype DirEntry = Unreadable | NotAFile | DataFile opened_file

definition hash_bytes :: "(string \<Rightarrow> string) \<Rightarrow> (string \<Rightarrow> string) \<Rightarrow> string \<Rightarrow> string" where
  "hash_bytes blake3 to_hex bytes = to_hex (blake3 bytes)"

fun hash_reads :: "(string \<Rightarrow> string) \<Rightarrow> string \<Rightarrow> (IoError + string) list \<Rightarrow> HashError + string" where
  "hash_reads blake3 consumed [] = Inr (blake3 consumed)"
| "hash_reads blake3 consumed (Inl e # reads) = Inl (Io e)"
| "hash_reads blake3 consumed (Inr chunk # reads) =
     (if chunk = [] then Inr (blake3 consumed) else hash_reads blake3 (consumed @ chunk) reads)"

definition hash_file :: "(string \<Rightarrow> string) \<Rightarrow> string \<Rightarrow> opened_file \<Rightarrow> HashError + string" where
  "hash_file blake3 path f =
     (case f of Inl e \<Rightarrow> Inl (FileNotFound path e) | Inr reads \<Rightarrow> hash_reads blake3 [] reads)"

definition data_file :: "string \<Rightarrow> string \<times> DirEntry \<Rightarrow> (string \<times> opened_file) option" where
  "data_file metadata_prefix = (\<lambda>(name, entry).
     case entry of
       DataFile f \<Rightarrow> if starts_with name metadata_prefix then None else Some (name, f)
     | _ \<Rightarrow> None)"

text \<open>A directory that cannot be read is \<^const>\<open>Inl\<close>.\<close>

definition collect_data_files ::
  "string \<Rightarrow> IoError + (string \<times> DirEntry) list \<Rightarrow> string \<Rightarrow> HashError + (string \<times> opened_file) list" where
  "collect_data_files dir listing metadata_prefix =
     (case listing of
        Inl e \<Rightarrow> Inl (FileNotFound dir e)
      | Inr entries \<Rightarrow> Inr (sort_key fst (List.map_filter (data_file metadata_prefix) entries)))"

definition path_join :: "string \<Rightarrow> string \<Rightarrow> string" where
  "path_join dir name = (if dir = [] \<or> last dir = CHR ''/'' then dir @ name else dir @ ''/'' @ name)"

fun combine_files ::
  "(string \<Rightarrow> string) \<Rightarrow> string \<Rightarrow> string \<Rightarrow> (string \<times> opened_file) list \<Rightarrow> HashError + string" where
  "combine_files blake3 dir combined [] = Inr combined"
| "combine_files blake3 dir combined ((name, f) # files) =
     (case hash_file blake3 (path_join dir name) f of
        Inl e \<Rightarrow> Inl e
      | Inr file_hash \<Rightarrow> combine_files blake3 dir (combined @ name @ file_hash) files)"

definition hash_data_dir ::
  "(string \<Rightarrow> string) \<Rightarrow> (string \<Rightarrow> string) \<Rightarrow> string \<Rightarrow> IoError + (string \<times> DirEntry) list \<Rightarrow> string
    \<Rightarrow> HashError + string" where
  "hash_data_dir blake3 to_hex dir listing metadata_prefix =
     (case collect_data_files dir listing metadata_prefix of
        Inl e \<Rightarrow> Inl e
      | Inr files \<Rightarrow>
          if files = [] then Inl EmptyDir
          else (case combine_files blake3 dir [] files of
                  Inl e \<Rightarrow> Inl e
                | Inr combined \<Rightarrow> Inr (to_hex (blake3 combined))))"

text \<open>\<open>files\<close> maps the names of the directory to their contents.\<close>

definition read_stored_hash :: "(string \<rightharpoonup> string) \<Rightarrow> string \<Rightarrow> string \<Rightarrow> string option" where
  "read_stored_hash files hash_filename algo_prefix =
     (case files hash_filename of
        None \<Rightarrow> None
      | Some content \<Rightarrow>
          let trimmed = trim content
          in if starts_with trimmed algo_prefix then Some (drop (length algo_prefix) trimmed) else None)"

definition write_stored_hash ::
  "(string \<rightharpoonup> string) \<Rightarrow> string \<Rightarrow> string \<Rightarrow> string \<Rightarrow> string \<rightharpoonup> string" where
  "write_stored_hash files hash_filename algo_prefix hash =
     files(hash_filename \<mapsto> algo_prefix @ hash @ [char_of (10::nat)])"

section \<open>Joined keys\<close>

lemma join_with_snoc: "xs \<noteq> [] \<Longrightarrow> join_with sep (xs @ [y]) = join_with sep xs @ sep @ y"
  by (induction sep xs rule: join_with.induct) auto

text \<open>Once the buffer is exactly full, separators are skipped.\<close>

lemma join_loop_full:
  assumes "pos = length buf" and "0 < i"
  shows "join_loop f parts i buf pos rest =
    (if list_all (\<lambda>p. p = []) rest then f buf else f (join_with '':'' parts))"
  using assms by (induction f parts i buf pos rest rule: join_loop.induct) (auto simp: put_separator_def Let_def)

text \<open>No prefix of the parts fills the buffer and is followed by empty parts only.\<close>

definition never_exactly_full :: "nat \<Rightarrow> string list \<Rightarrow> bool" where
  "never_exactly_full n parts \<longleftrightarrow>
     (\<forall>k < length parts. 0 < k \<longrightarrow> length (join_with '':'' (take k parts)) = n \<longrightarrow>
        \<not> list_all (\<lambda>p. p = []) (drop k parts))"

lemma never_exactly_fullD:
  assumes "never_exactly_full n (before @ rest)" and "before \<noteq> []" and "rest \<noteq> []"
    and "length (join_with '':'' before) = n"
  shows "\<not> list_all (\<lambda>p. p = []) rest"
  using assms(1)[unfolded never_exactly_full_def, rule_format, of "length before"] assms(2-) by simp

lemma join_loop_join:
  assumes "parts = before @ rest" and "i = length before" and "take pos buf = join_with '':'' before"
    and "pos = length (join_with '':'' before)" and "pos \<le> length buf"
    and "never_exactly_full (length buf) parts"
  shows "join_loop f parts i buf pos rest = f (join_with '':'' parts)"
  using assms
proof (induction rest arbitrary: before i buf pos)
  case (Cons part rest)
  show ?case
  proof (cases "before = []")
    case True
    then show ?thesis
      using Cons.prems Cons.IH[of "[part]"] by (auto simp: put_separator_def Let_def)
  next
    case nonempty: False
    show ?thesis
    proof (cases "pos = length buf")
      case True
      have "\<not> list_all (\<lambda>p. p = []) (part # rest)"
        by (rule never_exactly_fullD[OF Cons.prems(6)[unfolded Cons.prems(1)] nonempty])
          (simp_all only: True Cons.prems(4)[symmetric] list.distinct not_False_eq_True)
      moreover have "0 < i" using Cons.prems(2) nonempty by simp
      ultimately show ?thesis by (simp only: join_loop_full[OF True] if_False)
    next
      case False
      then have take: "take (Suc pos) (buf[pos := CHR '':'']) = join_with '':'' before @ '':''"
        using Cons.prems by (simp add: take_Suc_conv_app_nth)
      have parts: "parts = (before @ [part]) @ rest" using Cons.prems(1) by simp
      have "Suc (length buf - Suc 0) = length buf" using False Cons.prems(5) by auto
      with take show ?thesis
        using False Cons.prems(2-) nonempty
        by (auto simp: put_separator_def Let_def join_with_snoc intro!: Cons.IH[OF parts])
    qed
  qed
qed simp

text \<open>
  The buffered join of \<^verbatim>\<open>joined_uuid\<close> hashes exactly the parts joined by colons, unless a prefix
  of the parts fills the 256-byte buffer exactly and only empty parts follow.
\<close>

theorem joined_uuid_is_join:
  assumes "never_exactly_full 256 parts"
  shows "joined_uuid new_v5 parts = new_v5 (join_with '':'' parts)"
  unfolding joined_uuid_def by (rule join_loop_join[where before = "[]"]) (use assms in auto)

theorem joined_uuid_is_join_witness:
  "joined_uuid (\<lambda>s. of_nat (length s)) [''tenant'', [], ''42''] = 10"
  using joined_uuid_is_join[of "[''tenant'', [], ''42'']" "\<lambda>s. of_nat (length s)"]
  by (simp add: never_exactly_full_def less_Suc_eq numeral_3_eq_3)

text \<open>
  Parts that follow an exactly full buffer are dropped with their separators when they are
  empty, so the key of such a list is that of its first part.
\<close>

theorem joined_uuid_drops_separator:
  "joined_uuid new_v5 (replicate 256 c # replicate n []) = joined_uuid new_v5 [replicate 256 c]"
proof -
  have "join_loop new_v5 parts (Suc 0) (replicate 256 c) 256 (replicate n []) = new_v5 (replicate 256 c)" for parts
    by (subst join_loop_full) (auto simp: list_all_iff)
  then show ?thesis by (simp add: joined_uuid_def put_separator_def)
qed

section \<open>Coordinate keys\<close>

definition coords_key :: "u64 \<Rightarrow> u64 \<Rightarrow> i64 \<Rightarrow> i64 \<Rightarrow> i64 \<Rightarrow> string" where
  "coords_key pre_id post_id x y z =
     join_with '':'' [nat_to_string (unat pre_id), nat_to_string (unat post_id),
       int_to_string (sint x), int_to_string (sint y), int_to_string (sint z)]"

lemma length_nat_to_string: "n < 10 ^ k \<Longrightarrow> 0 < k \<Longrightarrow> length (nat_to_string n) \<le> k"
proof (induction n arbitrary: k rule: nat_to_string.induct)
  case (1 n)
  show ?case
  proof (cases "n < 10")
    case True
    with 1 show ?thesis by (simp add: nat_to_string.simps)
  next
    case False
    with 1 obtain j where j: "k = Suc j" "0 < j" by (cases k; cases "k - 1") auto
    with 1 have "n div 10 < 10 ^ j" by (simp add: less_mult_imp_div_less mult.commute)
    from 1(1)[OF False this j(2)] j False show ?thesis by (subst nat_to_string.simps) simp
  qed
qed

lemma length_u64_to_string: "length (nat_to_string (unat (w :: u64))) \<le> 20"
proof (rule length_nat_to_string)
  have "unat w < 2 ^ 64" using unsigned_less[of w] by simp
  then show "unat w < 10 ^ 20" by simp
qed simp

lemma length_i64_to_string: "length (int_to_string (sint (w :: i64))) \<le> 20"
proof -
  have "- (2 ^ 63) \<le> sint w" "sint w < 2 ^ 63" using sint_range_size[of w] by (auto simp: word_size)
  then have "length (nat_to_string (nat (- sint w))) \<le> 19" if "sint w < 0"
    using that by (intro length_nat_to_string) (auto simp: nat_less_iff)
  moreover have "length (nat_to_string (nat (sint w))) \<le> 19" if "0 \<le> sint w"
    using that \<open>sint w < 2 ^ 63\<close> by (intro length_nat_to_string) (auto simp: nat_less_iff)
  ultimately show ?thesis by (auto simp: int_to_string_def)
qed

lemma write_pieces_fit:
  "length written + length (concat pieces) \<le> cap \<Longrightarrow> write_pieces cap written pieces = written @ concat pieces"
  by (induction cap written pieces rule: write_pieces.induct) auto

definition colon_free :: "string \<Rightarrow> bool" where
  "colon_free s \<longleftrightarrow> CHR '':'' \<notin> set s"

lemma colon_split:
  assumes "colon_free a" and "colon_free b"
  shows "a @ CHR '':'' # x = b @ CHR '':'' # y \<longleftrightarrow> a = b \<and> x = y"
proof
  assume eq: "a @ CHR '':'' # x = b @ CHR '':'' # y"
  then have "takeWhile ((\<noteq>) CHR '':'') (a @ CHR '':'' # x) = takeWhile ((\<noteq>) CHR '':'') (b @ CHR '':'' # y)"
    by simp
  then have "a = b" using assms by (subst (asm) (1 2) takeWhile_append2) (auto simp: colon_free_def)
  with eq show "a = b \<and> x = y" by simp
qed simp

lemma colon_free_nat_to_string: "colon_free (nat_to_string n)"
  using nat_to_string_digits[of n]
  by (auto simp: colon_free_def list_all_iff is_ascii_digit_def byte_of_def dest!: bspec)

lemma colon_free_int_to_string: "colon_free (int_to_string i)"
  using colon_free_nat_to_string by (auto simp: int_to_string_def colon_free_def)

lemma nat_to_string_inject: "nat_to_string m = nat_to_string n \<longleftrightarrow> m = n"
  using nat_to_string_digits[of m] nat_to_string_digits[of n] by metis

lemma nat_to_string_not_minus: "nat_to_string n \<noteq> CHR ''-'' # s"
  using nat_to_string_digits[of n] by (auto simp: is_ascii_digit_def byte_of_def)

lemma int_to_string_inject: "int_to_string i = int_to_string j \<longleftrightarrow> i = j"
  using nat_to_string_not_minus not_sym[OF nat_to_string_not_minus]
  by (auto simp: int_to_string_def nat_to_string_inject nat_eq_iff split: if_splits)

text \<open>
  C34. The coordinates of \<^verbatim>\<open>from_coords\<close> always fit into its 128-byte buffer, so that the key hashed
  is their complete text, and that text determines all five coordinates.
\<close>

theorem from_coords_complete:
  "from_coords new_v5 pre_id post_id x y z = new_v5 (coords_key pre_id post_id x y z) \<and>
   (coords_key pre_id post_id x y z = coords_key pre_id' post_id' x' y' z' \<longleftrightarrow>
      pre_id = pre_id' \<and> post_id = post_id' \<and> x = x' \<and> y = y' \<and> z = z')"
proof
  have "write_pieces 128 []
      [nat_to_string (unat pre_id), '':'', nat_to_string (unat post_id), '':'',
       int_to_string (sint x), '':'', int_to_string (sint y), '':'', int_to_string (sint z)] =
    coords_key pre_id post_id x y z"
    using length_u64_to_string[of pre_id] length_u64_to_string[of post_id]
      length_i64_to_string[of x] length_i64_to_string[of y] length_i64_to_string[of z]
    by (subst write_pieces_fit) (auto simp: coords_key_def)
  then show "from_coords new_v5 pre_id post_id x y z = new_v5 (coords_key pre_id post_id x y z)"
    by (simp add: from_coords_def)
  show "coords_key pre_id post_id x y z = coords_key pre_id' post_id' x' y' z' \<longleftrightarrow>
      pre_id = pre_id' \<and> post_id = post_id' \<and> x = x' \<and> y = y' \<and> z = z'"
    by (auto simp: coords_key_def colon_split colon_free_nat_to_string colon_free_int_to_string
        nat_to_string_inject int_to_string_inject unsigned_word_eqI signed_word_eqI)
qed

section \<open>Digest of a directory\<close>

text \<open>The bytes of a file, as the successive reads return them.\<close>

fun read_all :: "(IoError + string) list \<Rightarrow> IoError + string" where
  "read_all [] = Inr []"
| "read_all (Inl e # reads) = Inl e"
| "read_all (Inr chunk # reads) =
     (if chunk = [] then Inr [] else map_sum id ((@) chunk) (read_all reads))"

lemma hash_reads_streaming:
  "hash_reads blake3 consumed reads = map_sum Io (\<lambda>bytes. blake3 (consumed @ bytes)) (read_all reads)"
  by (induction blake3 consumed reads rule: hash_reads.induct) (auto simp: sum.map_comp comp_def)

lemma hash_file_streaming:
  "hash_file blake3 path (Inr reads) = map_sum Io blake3 (read_all reads)"
  by (simp add: hash_file_def hash_reads_streaming)

lemma sort_key_fst_mset:
  fixes xs ys :: "(string \<times> opened_file) list"
  assumes "mset xs = mset ys" and "distinct (map fst xs)"
  shows "sort_key fst xs = sort_key fst ys"
proof -
  have "distinct (map fst ys)" using assms by (metis mset_map mset_eq_imp_distinct_iff)
  then have "distinct (map fst (sort_key fst xs))" "distinct (map fst (sort_key fst ys))"
    using assms(2) by (simp_all add: distinct_map)
  moreover have "set xs = set ys" using assms(1) by (rule mset_eq_setD)
  moreover have "inj_on fst (set xs)" using assms(2) by (simp add: distinct_map)
  ultimately show ?thesis by (intro map_sorted_distinct_set_unique[where f = fst]) simp_all
qed

lemma map_filter_data_file_sidecars:
  "list_all (\<lambda>(name, _). starts_with name metadata_prefix) sidecars \<Longrightarrow>
   List.map_filter (data_file metadata_prefix) sidecars = []"
  by (induction sidecars) (auto simp: List.map_filter_simps data_file_def split: DirEntry.splits)

lemma mset_map_filter:
  "mset (List.map_filter f xs) = image_mset (the \<circ> f) (filter_mset (\<lambda>x. f x \<noteq> None) (mset xs))"
  by (simp add: List.map_filter_def)

lemma distinct_data_file_names:
  "distinct (map fst entries) \<Longrightarrow> distinct (map fst (List.map_filter (data_file p) entries))"
proof (induction entries)
  case (Cons e entries)
  have "fst ` set (List.map_filter (data_file p) entries) \<subseteq> fst ` set entries"
    by (auto simp: List.map_filter_def data_file_def split: DirEntry.splits if_splits) force
  moreover have "data_file p e = Some (n, f) \<Longrightarrow> n = fst e" for n f
    by (auto simp: data_file_def split: prod.splits DirEntry.splits if_splits)
  ultimately show ?case
    using Cons by (auto simp: List.map_filter_simps split: option.splits) (metis fst_conv image_eqI subsetD)
qed (simp add: List.map_filter_simps)

text \<open>
  The digest of a directory depends neither on the order in which the operating system lists
  its entries nor on files that carry the metadata prefix, so that storing the digest beside the
  data does not invalidate it.
\<close>

theorem dir_digest_stable:
  assumes "distinct (map fst entries)" and "mset listed = mset (entries @ sidecars)"
    and "list_all (\<lambda>(name, _). starts_with name metadata_prefix) sidecars"
  shows "hash_data_dir blake3 to_hex dir (Inr listed) metadata_prefix =
    hash_data_dir blake3 to_hex dir (Inr entries) metadata_prefix"
proof -
  have "mset (List.map_filter (data_file metadata_prefix) (entries @ sidecars)) =
      mset (List.map_filter (data_file metadata_prefix) entries)"
    using map_filter_data_file_sidecars[OF assms(3)] by (simp add: List.map_filter_def)
  then have "sort_key fst (List.map_filter (data_file metadata_prefix) entries) =
      sort_key fst (List.map_filter (data_file metadata_prefix) listed)"
    by (intro sort_key_fst_mset distinct_data_file_names[OF assms(1)])
      (simp only: mset_map_filter assms(2))
  then show ?thesis by (simp add: hash_data_dir_def collect_data_files_def)
qed

theorem dir_digest_stable_witness:
  "hash_data_dir id id ''d'' (Inr [(''.qf-hash'', DataFile (Inr [Inr ''x''])),
     (''b'', DataFile (Inr [Inr ''2''])), (''a'', DataFile (Inr [Inr ''1'']))]) ''.qf-'' =
   hash_data_dir id id ''d'' (Inr [(''a'', DataFile (Inr [Inr ''1''])), (''b'', DataFile (Inr [Inr ''2'']))]) ''.qf-''"
  by (rule dir_digest_stable[where sidecars = "[(''.qf-hash'', DataFile (Inr [Inr ''x'']))]"])
    (auto simp: starts_with_def)

subsection \<open>Changes of contents\<close>

definition plain_entries :: "(string \<times> opened_file) list \<Rightarrow> (string \<times> DirEntry) list" where
  "plain_entries files = map (\<lambda>(name, f). (name, DataFile f)) files"

definition file_contents :: "opened_file \<Rightarrow> IoError + string" where
  "file_contents f = (case f of Inl e \<Rightarrow> Inl e | Inr reads \<Rightarrow> read_all reads)"

lemma hash_file_contents:
  "hash_file blake3 path f = Inr h \<longleftrightarrow> (\<exists>bytes. file_contents f = Inr bytes \<and> h = blake3 bytes)"
  by (cases f; cases "read_all (projr f)") (auto simp: hash_file_def hash_reads_streaming file_contents_def)

lemma data_files_plain:
  "list_all (\<lambda>(name, _). \<not> starts_with name p) files \<Longrightarrow>
   List.map_filter (data_file p) (plain_entries files) = files"
  by (induction files) (auto simp: List.map_filter_simps plain_entries_def data_file_def)

lemma hash_data_dir_plain:
  assumes "sorted (map fst files)" and "list_all (\<lambda>(name, _). \<not> starts_with name p) files"
  shows "hash_data_dir blake3 to_hex dir (Inr (plain_entries files)) p =
    (if files = [] then Inl EmptyDir
     else map_sum id (\<lambda>combined. to_hex (blake3 combined)) (combine_files blake3 dir [] files))"
  using assms
  by (simp add: hash_data_dir_def collect_data_files_def data_files_plain sorted_sort_id
      sort_key_id_if_sorted map_sum_def split: sum.splits)

lemma combine_files_contents:
  assumes "combine_files blake3 dir acc xs = Inr combined" and "combine_files blake3 dir acc' ys = Inr combined"
    and "length acc = length acc'" and "map fst xs = map fst ys" and "\<And>s. length (blake3 s) = 32"
    and "inj_on blake3 {bytes. \<exists>f \<in> snd ` (set xs \<union> set ys). file_contents f = Inr bytes}"
  shows "acc = acc' \<and> map (file_contents \<circ> snd) xs = map (file_contents \<circ> snd) ys"
  using assms
proof (induction xs arbitrary: ys acc acc')
  case (Cons x xs)
  obtain n f where x: "x = (n, f)" by (cases x)
  obtain g ys' where ys: "ys = (n, g) # ys'" using Cons.prems(4) x by (cases ys) auto
  obtain a where a: "file_contents f = Inr a" "combine_files blake3 dir (acc @ n @ blake3 a) xs = Inr combined"
    using Cons.prems(1) x by (auto split: sum.splits simp: hash_file_contents)
  obtain b where b: "file_contents g = Inr b" "combine_files blake3 dir (acc' @ n @ blake3 b) ys' = Inr combined"
    using Cons.prems(2) ys by (auto split: sum.splits simp: hash_file_contents)
  have "acc @ n @ blake3 a = acc' @ n @ blake3 b \<and>
      map (file_contents \<circ> snd) xs = map (file_contents \<circ> snd) ys'"
    by (rule Cons.IH[OF a(2) b(2)])
      (use Cons.prems x ys in \<open>auto elim!: inj_on_subset\<close>)
  moreover from this have "acc = acc'" "blake3 a = blake3 b" using Cons.prems(3) by simp_all
  moreover have "a = b"
    by (rule inj_onD[OF Cons.prems(6) \<open>blake3 a = blake3 b\<close>]) (use a b x ys in force)+
  ultimately show ?case using a b x ys by (simp add: comp_def)
qed simp

text \<open>The byte strings whose digests make up the digest of a directory.\<close>

definition hashed_strings :: "(string \<Rightarrow> string) \<Rightarrow> string \<Rightarrow> (string \<times> opened_file) list \<Rightarrow> string set" where
  "hashed_strings blake3 dir files =
     {bytes. \<exists>f \<in> snd ` set files. file_contents f = Inr bytes} \<union>
     {combined. combine_files blake3 dir [] files = Inr combined}"

text \<open>
  C33. Two directories of the same file names have the same digest only if their files have the
  same contents, when BLAKE3 does not collide on the byte strings that are hashed.
\<close>

theorem dir_digest_detects_change:
  assumes "hash_data_dir blake3 to_hex dir (Inr (plain_entries xs)) p = Inr d"
    and "hash_data_dir blake3 to_hex dir (Inr (plain_entries ys)) p = Inr d"
    and "map fst xs = map fst ys" and "sorted (map fst xs)"
    and "list_all (\<lambda>name. \<not> starts_with name p) (map fst xs)"
    and "inj to_hex" and "\<And>s. length (blake3 s) = 32"
    and "inj_on blake3 (hashed_strings blake3 dir xs \<union> hashed_strings blake3 dir ys)"
  shows "map (file_contents \<circ> snd) xs = map (file_contents \<circ> snd) ys"
proof -
  have plain: "list_all (\<lambda>(name, _). \<not> starts_with name p) zs"
    if "list_all (\<lambda>name. \<not> starts_with name p) (map fst zs)" for zs :: "(string \<times> opened_file) list"
    using that by (auto simp: list_all_iff)
  obtain c where c: "combine_files blake3 dir [] xs = Inr c" "d = to_hex (blake3 c)"
    using assms(1) unfolding hash_data_dir_plain[OF assms(4) plain[OF assms(5)]]
    by (cases "combine_files blake3 dir [] xs") (auto split: if_splits)
  obtain c' where c': "combine_files blake3 dir [] ys = Inr c'" "d = to_hex (blake3 c')"
    using assms(2) unfolding hash_data_dir_plain[OF assms(4)[unfolded assms(3)] plain[OF assms(5)[unfolded assms(3)]]]
    by (cases "combine_files blake3 dir [] ys") (auto split: if_splits)
  have "blake3 c = blake3 c'" by (rule injD[OF assms(6)]) (simp add: c(2)[symmetric] c'(2)[symmetric])
  then have "c = c'"
    by (rule inj_onD[OF assms(8)]) (use c c' in \<open>auto simp: hashed_strings_def\<close>)
  then show ?thesis
    using combine_files_contents[OF c(1) c'(1)[folded \<open>c = c'\<close>] refl assms(3,7)
        inj_on_subset[OF assms(8)]]
    by (auto simp: hashed_strings_def)
qed

definition toy_digest :: "string \<Rightarrow> string" where
  "toy_digest s = take 32 (s @ replicate 32 CHR ''x'')"

theorem dir_digest_detects_change_witness:
  "map (file_contents \<circ> snd) [(''a'', Inr [Inr ''1'', Inr ''2''])] =
   map (file_contents \<circ> snd) [(''a'', Inr [Inr ''12''])]"
  by (rule dir_digest_detects_change[where ?blake3.0 = toy_digest and to_hex = id and dir = "''d''" and p = "''.''"
        and d = "toy_digest (''a'' @ toy_digest ''12'')"])
    (auto simp: hash_data_dir_plain starts_with_def hash_file_def toy_digest_def hashed_strings_def
      file_contents_def inj_on_def)

text \<open>
  Names and digests are hashed without a delimiter, so the digest of two files is that of a
  single file whose name runs over the first name, the first digest and the second name.
\<close>

theorem dir_digest_ambiguous:
  assumes "file_contents f = Inr bytes" and "n \<le> m"
    and "\<not> starts_with n p" and "\<not> starts_with m p" and "\<not> starts_with (n @ blake3 bytes @ m) p"
  shows "hash_data_dir blake3 to_hex dir (Inr (plain_entries [(n, f), (m, Inr g)])) p =
    hash_data_dir blake3 to_hex dir (Inr (plain_entries [(n @ blake3 bytes @ m, Inr g)])) p"
proof -
  have "hash_file blake3 path f = Inr (blake3 bytes)" for path
    using assms(1) by (auto simp: hash_file_contents)
  then show ?thesis using assms by (cases "read_all g") (simp_all add: hash_data_dir_plain hash_file_streaming)
qed

theorem dir_digest_ambiguous_witness:
  "hash_data_dir toy_digest id ''d'' (Inr (plain_entries [(''a'', Inr [Inr ''1'']), (''b'', Inr [Inr ''2''])])) ''.'' =
   hash_data_dir toy_digest id ''d'' (Inr (plain_entries [(''a'' @ toy_digest ''1'' @ ''b'', Inr [Inr ''2''])])) ''.''"
  by (rule dir_digest_ambiguous) (auto simp: file_contents_def starts_with_def)

section \<open>Stored digests\<close>

lemma dropWhile_hd: "s \<noteq> [] \<Longrightarrow> \<not> P (hd s) \<Longrightarrow> dropWhile P s = s"
  by (cases s) auto

lemma newline_space: "is_ascii_space (char_of (10::nat))"
  by (simp add: is_ascii_space_def)

text \<open>
  A digest that is written to the sidecar file reads back, when the prefixed digest neither
  begins nor ends with white space.
\<close>

theorem stored_hash_roundtrip:
  assumes "algo_prefix @ hash \<noteq> []" and "\<not> is_ascii_space (hd (algo_prefix @ hash))"
    and "\<not> is_ascii_space (last (algo_prefix @ hash))"
  shows "read_stored_hash (write_stored_hash files name algo_prefix hash) name algo_prefix = Some hash"
proof -
  have "dropWhile is_ascii_space (rev ((algo_prefix @ hash) @ [char_of (10::nat)])) = rev (algo_prefix @ hash)"
    using dropWhile_hd[of "rev (algo_prefix @ hash)" is_ascii_space] assms(1,3) newline_space
    by (simp only: rev_append rev.simps append_Nil append_Cons dropWhile.simps hd_rev) (simp add: hd_rev flip: rev_append)
  moreover have "dropWhile is_ascii_space ((algo_prefix @ hash) @ [char_of (10::nat)]) =
      (algo_prefix @ hash) @ [char_of (10::nat)]"
    using assms(1,2) by (intro dropWhile_hd) (auto simp: hd_append split: if_splits)
  ultimately have "trim (algo_prefix @ hash @ [char_of (10::nat)]) = algo_prefix @ hash"
    by (simp add: trim_def trim_start_def trim_end_def)
  then show ?thesis by (simp add: read_stored_hash_def write_stored_hash_def starts_with_def)
qed

theorem stored_hash_roundtrip_witness:
  "read_stored_hash (write_stored_hash Map.empty ''.qf-hash'' ''blake3:'' ''0af3'') ''.qf-hash'' ''blake3:'' = Some ''0af3''"
  by (rule stored_hash_roundtrip) (simp_all add: is_ascii_space_def)

end
