(* ===== verification/QF_Tokens.thy ===== *)
theory QF_Tokens
  imports QF_Import QF_Ids
begin

text \<open>
  Authentication tokens, session cookies and validated names.

  \<^item> \<^verbatim>\<open>queryfabric-paseto/src/lib.rs\<close> and \<^verbatim>\<open>typed.rs\<close>: bearer extraction, secrets and keys, user tokens
    and delegation tokens. The PASETO builder and parser, the UUID and JSON texts and the debug
    format of the standard library are fields of the record \<open>token_env\<close>.
  \<^item> \<^verbatim>\<open>queryfabric-session/src/lib.rs\<close>: the \<^verbatim>\<open>Set-Cookie\<close> values of a session.
  \<^item> \<^verbatim>\<open>queryfabric-types/src/lib.rs\<close>: the validated string types and the names of OAuth providers.

  Shown: a minted delegation token validates to what it was minted from, a user token yields the
  rights its claims state and no more, bearer extraction panics inside a multi-byte character, and
  a delegation token is accepted where a user token is expected.
\<close>

section \<open>Bearer tokens and keys\<close>

datatype AuthTokenError = SecretTooShort | TokenParse string | TokenBuild string

text \<open>Slicing a string panics when the index is not on a character boundary.\<close>

datatype 'a outcome = Returns 'a | Panics

definition is_char_boundary :: "string \<Rightarrow> nat \<Rightarrow> bool" where
  "is_char_boundary s i \<longleftrightarrow> i = 0 \<or> i = length s \<or> i < length s \<and> \<not> utf8_tail (s ! i)"

definition extract_bearer_token :: "string \<Rightarrow> string option outcome" where
  "extract_bearer_token header =
     (if 7 \<le> length header \<and> \<not> is_char_boundary header 7 then Panics
      else if 7 \<le> length header \<and> eq_ignore_ascii_case (take 7 header) ''bearer '' then Returns (Some (drop 7 header))
      else if 6 \<le> length header \<and> \<not> is_char_boundary header 6 then Panics
      else if 6 \<le> length header \<and> eq_ignore_ascii_case (take 6 header) ''token '' then Returns (Some (drop 6 header))
      else Returns None)"

definition validate_paseto_secret :: "string \<Rightarrow> AuthTokenError + unit" where
  "validate_paseto_secret secret = (if length secret < 32 then Inl SecretTooShort else Inr ())"

definition v4_local_key :: "string \<Rightarrow> AuthTokenError + string" where
  "v4_local_key secret = (if 32 \<le> length secret then Inr (take 32 secret) else Inl SecretTooShort)"

text \<open>What the tokens need of the external crates.\<close>

record token_env =
  te_parse :: "string \<Rightarrow> string \<Rightarrow> string + Value"
  te_build :: "(string \<times> string) list \<Rightarrow> string \<Rightarrow> string + string"
  te_custom_claim :: "string \<Rightarrow> string \<Rightarrow> string + unit"
  te_expiration_claim :: "string \<Rightarrow> string + unit"
  te_uuid_parse :: "string \<Rightarrow> string + Uuid"
  te_uuid_string :: "Uuid \<Rightarrow> string"
  te_strings_from_json :: "string \<Rightarrow> string + string list"
  te_strings_to_json :: "string list \<Rightarrow> string + string"
  te_rfc3339 :: "int \<Rightarrow> string"
  te_debug :: "string \<Rightarrow> string"

definition parse_paseto_v4_local :: "token_env \<Rightarrow> string \<Rightarrow> string \<Rightarrow> AuthTokenError + Value" where
  "parse_paseto_v4_local env token secret =
     result_bind (v4_local_key secret) (\<lambda>key. map_err TokenParse (te_parse env token key))"

section \<open>Users\<close>

datatype Email = Email string

datatype EmailParseError = InvalidEmailText string

definition email_ok :: "string \<Rightarrow> bool" where
  "email_ok s \<longleftrightarrow>
     3 \<le> length s \<and> CHR ''@'' \<in> set s \<and> \<not> starts_with_char (CHR ''@'') s \<and> \<not> starts_with_char (CHR ''@'') (rev s)"

definition Email_new :: "string \<Rightarrow> EmailParseError + Email" where
  "Email_new s = (if email_ok s then Inr (Email s) else Inl (InvalidEmailText s))"

definition Email_new_unchecked :: "string \<Rightarrow> Email" where
  "Email_new_unchecked s = Email s"

fun Email_as_str :: "Email \<Rightarrow> string" where
  "Email_as_str (Email s) = s"

datatype UserType = HumanUser | ServiceUser

datatype UserTypeParseError = InvalidUserType string

fun UserType_as_str :: "UserType \<Rightarrow> string" where
  "UserType_as_str HumanUser = ''human''"
| "UserType_as_str ServiceUser = ''service''"

definition UserType_is_service :: "UserType \<Rightarrow> bool" where
  "UserType_is_service t \<longleftrightarrow> t = ServiceUser"

text \<open>No character outside ASCII has a lower case inside it that occurs in these names.\<close>

definition UserType_from_str :: "string \<Rightarrow> UserTypeParseError + UserType" where
  "UserType_from_str s =
     (if to_ascii_lowercase s = ''human'' then Inr HumanUser
      else if to_ascii_lowercase s = ''service'' then Inr ServiceUser
      else Inl (InvalidUserType s))"

datatype AuthError =
    SecretTooShort
  | TokenParse string
  | MissingSub
  | MissingEmail
  | InvalidEmail string
  | InvalidUuid string
  | InvalidScope string string
  | MissingDelegationClaim string
  | InvalidDelegationClaim string string

fun AuthError_from :: "AuthTokenError \<Rightarrow> AuthError" where
  "AuthError_from AuthTokenError.SecretTooShort = AuthError.SecretTooShort"
| "AuthError_from (AuthTokenError.TokenParse s) = AuthError.TokenParse s"
| "AuthError_from (TokenBuild s) = AuthError.TokenParse s"

record AuthUser =
  au_id :: Uuid
  au_email :: Email
  au_is_active :: bool
  au_is_superuser :: bool
  au_is_verified :: bool
  au_user_type :: UserType
  au_roles :: "string list"

definition AuthUser_is_service :: "AuthUser \<Rightarrow> bool" where
  "AuthUser_is_service u \<longleftrightarrow> UserType_is_service (au_user_type u)"

definition has_role :: "string \<Rightarrow> AuthUser \<Rightarrow> bool" where
  "has_role role u \<longleftrightarrow> list_ex (\<lambda>candidate. candidate = role) (au_roles u)"

text \<open>Indexing a JSON value by a key, and the accessors of its kinds.\<close>

fun value_index :: "Value \<Rightarrow> string \<Rightarrow> Value" where
  "value_index (Object entries) key = (case map_of entries key of None \<Rightarrow> Null | Some v \<Rightarrow> v)"
| "value_index _ key = Null"

fun as_str :: "Value \<Rightarrow> string option" where
  "as_str (Value.String s) = Some s"
| "as_str _ = None"

fun as_bool :: "Value \<Rightarrow> bool option" where
  "as_bool (Bool b) = Some b"
| "as_bool _ = None"

fun as_array :: "Value \<Rightarrow> Value list option" where
  "as_array (Array vs) = Some vs"
| "as_array _ = None"

definition flag_claim :: "Value \<Rightarrow> string \<Rightarrow> bool \<Rightarrow> bool" where
  "flag_claim claims name otherwise =
     (case as_str (value_index claims name) of
        Some s \<Rightarrow> s = ''true''
      | None \<Rightarrow> (case as_bool (value_index claims name) of Some b \<Rightarrow> b | None \<Rightarrow> otherwise))"

definition roles_from_claim :: "token_env \<Rightarrow> Value \<Rightarrow> string list" where
  "roles_from_claim env value =
     (case as_array value of
        Some items \<Rightarrow> List.map_filter as_str items
      | None \<Rightarrow>
          (case as_str value of
             None \<Rightarrow> []
           | Some raw \<Rightarrow> (case te_strings_from_json env raw of Inl _ \<Rightarrow> [] | Inr roles \<Rightarrow> roles)))"

definition user_type_claim :: "Value \<Rightarrow> UserType" where
  "user_type_claim value =
     (case as_str value of
        None \<Rightarrow> HumanUser
      | Some s \<Rightarrow> (case UserType_from_str s of Inl _ \<Rightarrow> HumanUser | Inr t \<Rightarrow> t))"

definition validate_paseto_token :: "token_env \<Rightarrow> string \<Rightarrow> string \<Rightarrow> AuthError + AuthUser" where
  "validate_paseto_token env token secret =
     result_bind (map_err AuthError_from (parse_paseto_v4_local env token secret)) (\<lambda>claims.
     result_bind (ok_or MissingSub (as_str (value_index claims ''sub''))) (\<lambda>id_str.
     result_bind (map_err InvalidUuid (te_uuid_parse env id_str)) (\<lambda>user_id.
     result_bind (ok_or MissingEmail (as_str (value_index claims ''email''))) (\<lambda>email_str.
     Inr \<lparr>au_id = user_id, au_email = Email_new_unchecked email_str,
       au_is_active = flag_claim claims ''is_active'' True,
       au_is_superuser = flag_claim claims ''is_superuser'' False,
       au_is_verified = flag_claim claims ''is_verified'' False,
       au_user_type = user_type_claim (value_index claims ''user_type''),
       au_roles = roles_from_claim env (value_index claims ''roles'')\<rparr>))))"

section \<open>Delegation tokens\<close>

definition DELEGATION_TTL_SECS :: int where
  "DELEGATION_TTL_SECS = 30"

type_synonym i32 = "32 word"

record DelegationClaims =
  dg_sub :: Uuid
  dg_email :: Email
  dg_dataset_ids :: "Uuid list"
  dg_table_id :: i32

text \<open>\<^verbatim>\<open>str::parse::<i32>\<close> with the messages of its errors; the accumulator grows away from zero.\<close>

fun parse_digits_i32 :: "bool \<Rightarrow> int \<Rightarrow> string \<Rightarrow> string + int" where
  "parse_digits_i32 negative acc [] = Inr acc"
| "parse_digits_i32 negative acc (c # cs) =
     (if \<not> is_ascii_digit c then Inl ''invalid digit found in string''
      else let d = int (byte_of c - 48); n = (if negative then 10 * acc - d else 10 * acc + d)
           in if n < - (2 ^ 31) then Inl ''number too small to fit in target type''
              else if 2 ^ 31 \<le> n then Inl ''number too large to fit in target type''
              else parse_digits_i32 negative n cs)"

definition parse_i32 :: "string \<Rightarrow> string + i32" where
  "parse_i32 s =
     (case s of
        [] \<Rightarrow> Inl ''cannot parse integer from empty string''
      | c # cs \<Rightarrow>
          if (c = CHR ''+'' \<or> c = CHR ''-'') \<and> cs = [] then Inl ''invalid digit found in string''
          else map_sum id word_of_int
            (if c = CHR ''-'' then parse_digits_i32 True 0 cs
             else if c = CHR ''+'' then parse_digits_i32 False 0 cs
             else parse_digits_i32 False 0 s))"

definition delegation_claims :: "token_env \<Rightarrow> AuthUser \<Rightarrow> string \<Rightarrow> string \<Rightarrow> string \<Rightarrow> (string \<times> string) list" where
  "delegation_claims env user expiry_str dataset_ids_json table_id_str =
     [(''sub'', te_uuid_string env (au_id user)), (''exp'', expiry_str), (''email'', Email_as_str (au_email user)),
      (''scope'', ''delegation''), (''dataset_ids'', dataset_ids_json), (''table_id'', table_id_str)]"

definition quoted_text :: "string \<Rightarrow> string" where
  "quoted_text s = quote @ s @ quote"

definition mint_delegation_token ::
  "token_env \<Rightarrow> int \<Rightarrow> AuthUser \<Rightarrow> Uuid list \<Rightarrow> i32 \<Rightarrow> string \<Rightarrow> AuthError + string" where
  "mint_delegation_token env now user dataset_ids table_id secret =
     (let expiry_str = te_rfc3339 env (now + DELEGATION_TTL_SECS);
          table_id_str = int_to_string (sint table_id);
          email = Email_as_str (au_email user);
          n = nat_to_string (length dataset_ids)
      in result_bind (map_err AuthError_from (v4_local_key secret)) (\<lambda>key.
         result_bind (map_err (InvalidDelegationClaim ''dataset_ids'')
           (te_strings_to_json env (map (te_uuid_string env) dataset_ids))) (\<lambda>dataset_ids_json.
         result_bind (map_err (\<lambda>e. AuthError.TokenParse
           (''build delegation expiry claim from RFC3339 timestamp '' @ te_debug env expiry_str @ '': '' @ e))
           (te_expiration_claim env expiry_str)) (\<lambda>_.
         result_bind (map_err (\<lambda>e. AuthError.TokenParse
           (''build delegation claim 'email' from authenticated user '' @ email @ '': '' @ e))
           (te_custom_claim env ''email'' email)) (\<lambda>_.
         result_bind (map_err (\<lambda>e. AuthError.TokenParse
           (''build delegation claim 'scope' with value '' @ quoted_text ''delegation'' @ '': '' @ e))
           (te_custom_claim env ''scope'' ''delegation'')) (\<lambda>_.
         result_bind (map_err (\<lambda>e. AuthError.TokenParse
           (''build delegation claim 'dataset_ids' for '' @ n @ '' dataset ids: '' @ e))
           (te_custom_claim env ''dataset_ids'' dataset_ids_json)) (\<lambda>_.
         result_bind (map_err (\<lambda>e. AuthError.TokenParse
           (''build delegation claim 'table_id' from table discriminant '' @ table_id_str @ '': '' @ e))
           (te_custom_claim env ''table_id'' table_id_str)) (\<lambda>_.
         map_err (\<lambda>e. AuthError.TokenParse
           (''build delegation PASETO token for user '' @ te_uuid_string env (au_id user) @ '' and '' @ n @
            '' dataset ids: '' @ e))
           (te_build env (delegation_claims env user expiry_str dataset_ids_json table_id_str) key)))))))))"

fun parse_uuids :: "token_env \<Rightarrow> string list \<Rightarrow> string + Uuid list" where
  "parse_uuids env [] = Inr []"
| "parse_uuids env (s # ss) =
     result_bind (te_uuid_parse env s) (\<lambda>u. result_bind (parse_uuids env ss) (\<lambda>us. Inr (u # us)))"

definition validate_delegation_token :: "token_env \<Rightarrow> string \<Rightarrow> string \<Rightarrow> AuthError + DelegationClaims" where
  "validate_delegation_token env token secret =
     result_bind (map_err AuthError_from (parse_paseto_v4_local env token secret)) (\<lambda>claims.
     result_bind (ok_or (MissingDelegationClaim ''scope'') (as_str (value_index claims ''scope''))) (\<lambda>scope.
     if scope \<noteq> ''delegation'' then Inl (InvalidScope ''delegation'' scope)
     else
     result_bind (ok_or MissingSub (as_str (value_index claims ''sub''))) (\<lambda>id_str.
     result_bind (map_err InvalidUuid (te_uuid_parse env id_str)) (\<lambda>sub.
     result_bind (ok_or MissingEmail (as_str (value_index claims ''email''))) (\<lambda>email_str.
     result_bind (ok_or (MissingDelegationClaim ''dataset_ids'') (as_str (value_index claims ''dataset_ids''))) (\<lambda>ids_str.
     result_bind (map_err (InvalidDelegationClaim ''dataset_ids'') (te_strings_from_json env ids_str)) (\<lambda>id_strings.
     result_bind (map_err (InvalidDelegationClaim ''dataset_ids'') (parse_uuids env id_strings)) (\<lambda>dataset_ids.
     result_bind (ok_or (MissingDelegationClaim ''table_id'') (as_str (value_index claims ''table_id''))) (\<lambda>table_id_str.
     result_bind (map_err (InvalidDelegationClaim ''table_id'') (parse_i32 table_id_str)) (\<lambda>table_id.
     Inr \<lparr>dg_sub = sub, dg_email = Email_new_unchecked email_str, dg_dataset_ids = dataset_ids,
       dg_table_id = table_id\<rparr>))))))))))"

section \<open>Session cookies\<close>

datatype CookieSameSite = Strict | Lax | NoneSameSite

fun CookieSameSite_to_string :: "CookieSameSite \<Rightarrow> string" where
  "CookieSameSite_to_string Strict = ''strict''"
| "CookieSameSite_to_string Lax = ''lax''"
| "CookieSameSite_to_string NoneSameSite = ''none''"

definition session_cookie_value :: "string \<Rightarrow> string option \<Rightarrow> i64 \<Rightarrow> CookieSameSite \<Rightarrow> bool \<Rightarrow> string" where
  "session_cookie_value name session max_age same_site secure =
     join_with ''; ''
       ([name @ ''='' @ (case session of None \<Rightarrow> [] | Some s \<Rightarrow> s), ''Path=/'', ''HttpOnly'',
         ''SameSite='' @ CookieSameSite_to_string same_site, ''Max-Age='' @ int_to_string (sint max_age)] @
        (if secure then [''Secure''] else []))"

definition clear_session_cookie_value :: "string \<Rightarrow> CookieSameSite \<Rightarrow> bool \<Rightarrow> string" where
  "clear_session_cookie_value name same_site secure = session_cookie_value name None 0 same_site secure"

section \<open>Validated names\<close>

datatype ValidationError =
    InvalidEmail string
  | InvalidCountryCode string
  | InvalidDoi string
  | InvalidFormat string
  | EmptyValue

definition types_Email_new :: "string \<Rightarrow> ValidationError + string" where
  "types_Email_new s = (if email_ok s then Inr s else Inl (ValidationError.InvalidEmail s))"

definition CountryCode_new :: "string \<Rightarrow> ValidationError + string" where
  "CountryCode_new s =
     (if length s = 2 \<and> list_all (\<lambda>c. 65 \<le> byte_of c \<and> byte_of c \<le> 90) s then Inr s
      else Inl (InvalidCountryCode s))"

definition Doi_new :: "string \<Rightarrow> ValidationError + string" where
  "Doi_new s = (if starts_with s ''10.'' \<and> 4 < length s then Inr s else Inl (InvalidDoi s))"

definition ClusterName_new :: "string \<Rightarrow> ValidationError + string" where
  "ClusterName_new s = (if s = [] then Inl EmptyValue else Inr s)"

definition DatabaseName_new :: "string \<Rightarrow> ValidationError + string" where
  "DatabaseName_new s = (if s = [] then Inl EmptyValue else Inr s)"

definition DatasetLabel_new :: "string \<Rightarrow> ValidationError + string" where
  "DatasetLabel_new s = (if s = [] then Inl EmptyValue else Inr s)"

definition CollectionName_new :: "string \<Rightarrow> ValidationError + string" where
  "CollectionName_new s = (if s = [] then Inl EmptyValue else Inr s)"

datatype OAuthProviderName = Github | Google | GitLab | Orcid | CiLogon

definition OAuthProviderName_from_name :: "string \<Rightarrow> OAuthProviderName option" where
  "OAuthProviderName_from_name name =
     (let s = to_ascii_lowercase name
      in if s = ''github'' then Some Github
         else if s = ''google'' then Some Google
         else if s = ''gitlab'' then Some GitLab
         else if s = ''orcid'' then Some Orcid
         else if s = ''cilogon'' then Some CiLogon
         else None)"

definition OAuthProviderName_from_str :: "string \<Rightarrow> string + OAuthProviderName" where
  "OAuthProviderName_from_str s = ok_or (''Unknown OAuth provider: '' @ s) (OAuthProviderName_from_name s)"

fun OAuthProviderName_to_string :: "OAuthProviderName \<Rightarrow> string" where
  "OAuthProviderName_to_string Github = ''github''"
| "OAuthProviderName_to_string Google = ''google''"
| "OAuthProviderName_to_string GitLab = ''gitlab''"
| "OAuthProviderName_to_string Orcid = ''orcid''"
| "OAuthProviderName_to_string CiLogon = ''cilogon''"

section \<open>Table identifiers\<close>

lemma parse_digits_i32_snoc:
  "parse_digits_i32 negative acc (s @ [c]) =
   result_bind (parse_digits_i32 negative acc s) (\<lambda>n. parse_digits_i32 negative n [c])"
  by (induction negative acc s rule: parse_digits_i32.induct) (auto simp: Let_def)

lemma parse_digits_i32_nat:
  "int n < 2 ^ 31 \<or> negative \<and> int n \<le> 2 ^ 31 \<Longrightarrow>
   parse_digits_i32 negative 0 (nat_to_string n) = Inr (if negative then - int n else int n)"
proof (induction n rule: nat_to_string.induct)
  case (1 n)
  have digit: "is_ascii_digit (digit_char (n mod 10))" "byte_of (digit_char (n mod 10)) - 48 = n mod 10"
    using digit_char_digit[of "n mod 10"] by auto
  show ?case
  proof (cases "n < 10")
    case True
    with digit show ?thesis by (simp add: nat_to_string.simps)
  next
    case False
    have "parse_digits_i32 negative 0 (nat_to_string (n div 10)) =
        Inr (if negative then - int (n div 10) else int (n div 10))"
      by (rule 1(1)[OF False]) (use 1(2) in auto)
    moreover have "10 * int (n div 10) + int (n mod 10) = int n" by presburger
    ultimately show ?thesis
      using digit 1(2) False
      by (subst nat_to_string.simps) (auto simp: parse_digits_i32_snoc Let_def)
  qed
qed

lemma parse_i32_to_string: "parse_i32 (int_to_string (sint (t :: i32))) = Inr t"
proof -
  have range: "- (2 ^ 31) \<le> sint t" "sint t < 2 ^ 31" using sint_range_size[of t] by (auto simp: word_size)
  show ?thesis
  proof (cases "sint t < 0")
    case True
    have "parse_digits_i32 True 0 (nat_to_string (nat (- sint t))) = Inr (sint t)"
      using parse_digits_i32_nat[of "nat (- sint t)" True] range True by auto
    then show ?thesis
      using True nat_to_string_digits[of "nat (- sint t)"]
      by (auto simp: parse_i32_def int_to_string_def split: list.splits)
  next
    case False
    have "parse_digits_i32 False 0 (nat_to_string (nat (sint t))) = Inr (sint t)"
      using parse_digits_i32_nat[of "nat (sint t)" False] range False by auto
    moreover obtain c cs where "nat_to_string (nat (sint t)) = c # cs" "is_ascii_digit c"
      using nat_to_string_digits[of "nat (sint t)"] by (cases "nat_to_string (nat (sint t))") auto
    moreover from this(2) have "c \<noteq> CHR ''-''" "c \<noteq> CHR ''+''"
      by (auto simp: is_ascii_digit_def byte_of_def)
    ultimately show ?thesis using False by (simp add: parse_i32_def int_to_string_def)
  qed
qed

section \<open>Minting and validating\<close>

lemma parse_uuids_strings:
  "(\<And>u. u \<in> set us \<Longrightarrow> te_uuid_parse env (te_uuid_string env u) = Inr u) \<Longrightarrow>
   parse_uuids env (map (te_uuid_string env) us) = Inr us"
  by (induction us) auto

text \<open>
  What the crates document. A token that the PASETO builder made from claims with different names, read under the
  same key while its expiry has not passed (\<open>live\<close> at the parser's clock), parses to an object with those claims;
  the JSON text of a list of strings and the text of a UUID read back.
\<close>

definition paseto_law :: "token_env \<Rightarrow> (string \<Rightarrow> bool) \<Rightarrow> bool" where
  "paseto_law env live \<longleftrightarrow>
     (\<forall>claims key token.
        te_build env claims key = Inr token \<and> distinct (map fst claims) \<and> pred_option live (map_of claims ''exp'') \<longrightarrow>
        (\<exists>v. te_parse env token key = Inr v \<and> (\<forall>(name, x) \<in> set claims. value_index v name = Value.String x)))"

definition string_list_law :: "token_env \<Rightarrow> bool" where
  "string_list_law env \<longleftrightarrow>
     (\<forall>ss json. te_strings_to_json env ss = Inr json \<longrightarrow> te_strings_from_json env json = Inr ss)"

definition uuid_law :: "token_env \<Rightarrow> bool" where
  "uuid_law env \<longleftrightarrow> (\<forall>u. te_uuid_parse env (te_uuid_string env u) = Inr u)"

lemma minted_token:
  assumes "mint_delegation_token env now user ids table_id secret = Inr token"
  obtains json where "v4_local_key secret = Inr (take 32 secret)"
    and "te_strings_to_json env (map (te_uuid_string env) ids) = Inr json"
    and "te_build env (delegation_claims env user (te_rfc3339 env (now + DELEGATION_TTL_SECS)) json (int_to_string (sint table_id)))
      (take 32 secret) = Inr token"
  using assms
  by (auto simp: mint_delegation_token_def Let_def v4_local_key_def result_bind_Inr_iff split: if_splits)

lemma minted_claims:
  assumes "mint_delegation_token env now user ids table_id secret = Inr token"
    and "paseto_law env live" and "string_list_law env" and "live (te_rfc3339 env (now + DELEGATION_TTL_SECS))"
  obtains json claims where "parse_paseto_v4_local env token secret = Inr claims"
    and "te_strings_from_json env json = Inr (map (te_uuid_string env) ids)"
    and "value_index claims ''sub'' = Value.String (te_uuid_string env (au_id user))"
    and "value_index claims ''email'' = Value.String (Email_as_str (au_email user))"
    and "value_index claims ''scope'' = Value.String ''delegation''"
    and "value_index claims ''dataset_ids'' = Value.String json"
    and "value_index claims ''table_id'' = Value.String (int_to_string (sint table_id))"
proof (rule minted_token[OF assms(1)])
  fix json
  let ?claims = "delegation_claims env user (te_rfc3339 env (now + DELEGATION_TTL_SECS)) json (int_to_string (sint table_id))"
  assume key: "v4_local_key secret = Inr (take 32 secret)" and json: "te_strings_to_json env (map (te_uuid_string env) ids) = Inr json"
    and token: "te_build env ?claims (take 32 secret) = Inr token"
  have "distinct (map fst ?claims)" "pred_option live (map_of ?claims ''exp'')"
    using assms(4) by (simp_all add: delegation_claims_def)
  with assms(2) token obtain v where "te_parse env token (take 32 secret) = Inr v"
    "\<And>name x. (name, x) \<in> set ?claims \<Longrightarrow> value_index v name = Value.String x"
    unfolding paseto_law_def by blast
  moreover have "te_strings_from_json env json = Inr (map (te_uuid_string env) ids)"
    using assms(3) json by (simp add: string_list_law_def)
  ultimately show thesis
    using that[of v json] key by (simp add: delegation_claims_def parse_paseto_v4_local_def)
qed

lemma Email_unchecked_as_str [simp]: "Email_new_unchecked (Email_as_str e) = e"
  by (cases e) (simp add: Email_new_unchecked_def)

text \<open>
  A concrete environment that obeys the laws: tokens and lists are sequences of framed strings, a token starts with
  its key, and one expiry has passed.
\<close>

definition frame :: "string \<Rightarrow> string" where
  "frame s = concat (map (\<lambda>c. [CHR ''x'', c]) s) @ ''.''"

fun unframe :: "string \<Rightarrow> string \<Rightarrow> string list" where
  "unframe cur (m # c # cs) = (if m = CHR ''.'' then cur # unframe [] (c # cs) else unframe (cur @ [c]) cs)"
| "unframe cur [m] = (if m = CHR ''.'' then [cur] else [])"
| "unframe cur [] = []"

fun claim_pairs :: "string list \<Rightarrow> (string \<times> string) list" where
  "claim_pairs (name # x # rest) = (name, x) # claim_pairs rest"
| "claim_pairs _ = []"

definition sample_parse :: "string \<Rightarrow> string \<Rightarrow> string + Value" where
  "sample_parse token key =
     (case unframe [] token of
        [] \<Rightarrow> Inl ''empty''
      | k # rest \<Rightarrow>
          if k \<noteq> key then Inl ''wrong key''
          else if map_of (claim_pairs rest) ''exp'' = Some ''past'' then Inl ''expired''
          else Inr (Object (map (\<lambda>(name, x). (name, Value.String x)) (claim_pairs rest))))"

definition sample_env :: token_env where
  "sample_env = \<lparr>te_parse = sample_parse,
     te_build = \<lambda>claims key. Inr (concat (map frame (key # concat (map (\<lambda>(name, x). [name, x]) claims)))),
     te_custom_claim = \<lambda>_ _. Inr (), te_expiration_claim = \<lambda>_. Inr (), te_uuid_parse = \<lambda>s. Inr (of_nat (digits_value s)),
     te_uuid_string = \<lambda>u. nat_to_string (unat u), te_strings_from_json = \<lambda>s. Inr (unframe [] s),
     te_strings_to_json = \<lambda>ss. Inr (concat (map frame ss)), te_rfc3339 = \<lambda>t. if t < 0 then ''past'' else ''soon'', te_debug = id\<rparr>"

lemma unframe_frame: "unframe cur (frame s @ rest) = (cur @ s) # unframe [] rest"
proof (induction s arbitrary: cur)
  case Nil
  show ?case by (cases rest) (simp_all add: frame_def)
next
  case (Cons c s)
  have "frame (c # s) @ rest = CHR ''x'' # c # (frame s @ rest)" by (simp add: frame_def)
  then show ?case using Cons.IH by simp
qed

lemma unframe_frames: "unframe [] (concat (map frame ss)) = ss"
  by (induction ss) (simp_all add: unframe_frame)

lemma claim_pairs_concat: "claim_pairs (concat (map (\<lambda>(name, x). [name, x]) claims)) = claims"
  by (induction claims) auto

lemma sample_laws:
  "paseto_law sample_env (\<lambda>e. e \<noteq> ''past'')" "string_list_law sample_env" "uuid_law sample_env"
proof -
  have "\<exists>v. te_parse sample_env token key = Inr v \<and> (\<forall>(name, x)\<in>set claims. value_index v name = Value.String x)"
    if "te_build sample_env claims key = Inr token" "distinct (map fst claims)" "pred_option (\<lambda>e. e \<noteq> ''past'') (map_of claims ''exp'')"
    for claims key token
  proof -
    have "unframe [] token = key # concat (map (\<lambda>(name, x). [name, x]) claims)"
      using that(1) by (auto simp: sample_env_def unframe_frame unframe_frames)
    moreover have "map_of (map (\<lambda>(name, x). (name, Value.String x)) claims) name = Some (Value.String x)"
      if "(name, x) \<in> set claims" for name x
      using \<open>distinct (map fst claims)\<close> that by (simp add: map_of_map)
    ultimately show ?thesis
      using that(3) by (auto simp: sample_env_def sample_parse_def claim_pairs_concat)
  qed
  then show "paseto_law sample_env (\<lambda>e. e \<noteq> ''past'')" unfolding paseto_law_def by blast
  show "string_list_law sample_env" by (auto simp: string_list_law_def sample_env_def unframe_frames)
  show "uuid_law sample_env" by (simp add: uuid_law_def sample_env_def nat_to_string_digits)
qed

definition sample_user :: AuthUser where
  "sample_user = \<lparr>au_id = 7, au_email = Email ''a@b'', au_is_active = True, au_is_superuser = True,
     au_is_verified = True, au_user_type = HumanUser, au_roles = []\<rparr>"

definition sample_secret :: string where
  "sample_secret = replicate 32 CHR ''k''"

definition sample_token :: string where
  "sample_token = projr (mint_delegation_token sample_env 0 sample_user [9] (- 3) sample_secret)"

lemma sample_minted: "mint_delegation_token sample_env 0 sample_user [9] (- 3) sample_secret = Inr sample_token"
  by (simp add: sample_token_def sample_secret_def mint_delegation_token_def sample_env_def v4_local_key_def map_err_def)

lemma sample_live: "te_rfc3339 sample_env (0 + DELEGATION_TTL_SECS) \<noteq> ''past''"
  by (simp add: sample_env_def DELEGATION_TTL_SECS_def)

lemma sample_user_token:
  "validate_paseto_token sample_env sample_token sample_secret =
   Inr \<lparr>au_id = 7, au_email = Email ''a@b'', au_is_active = True, au_is_superuser = False,
     au_is_verified = False, au_user_type = HumanUser, au_roles = []\<rparr>"
  by code_simp

text \<open>
  C32. A minted delegation token validates, under the same secret and until it expires, to the user, the datasets and
  the table it was minted for, given what the crates document of tokens, JSON lists and UUIDs.
\<close>

theorem delegation_roundtrip:
  assumes "mint_delegation_token env now user ids table_id secret = Inr token"
    and "paseto_law env live" and "string_list_law env" and "uuid_law env"
    and "live (te_rfc3339 env (now + DELEGATION_TTL_SECS))"
  shows "validate_delegation_token env token secret =
    Inr \<lparr>dg_sub = au_id user, dg_email = au_email user, dg_dataset_ids = ids, dg_table_id = table_id\<rparr>"
  using assms(4)
  by (rule_tac minted_claims[OF assms(1,2,3,5)])
    (simp add: validate_delegation_token_def map_err_def parse_i32_to_string parse_uuids_strings uuid_law_def)

theorem delegation_roundtrip_witness:
  "validate_delegation_token sample_env sample_token sample_secret =
   Inr \<lparr>dg_sub = 7, dg_email = Email ''a@b'', dg_dataset_ids = [9], dg_table_id = - 3\<rparr>"
  using delegation_roundtrip[OF sample_minted sample_laws sample_live] by (simp add: sample_user_def)

text \<open>
  A delegation token is also accepted as a user token: its scope is not looked at, and its bearer
  is authenticated as the active user it was minted for.
\<close>

theorem delegation_accepted_as_user:
  assumes "mint_delegation_token env now user ids table_id secret = Inr token"
    and "paseto_law env live" and "string_list_law env" and "uuid_law env"
    and "live (te_rfc3339 env (now + DELEGATION_TTL_SECS))"
  shows "\<exists>u. validate_paseto_token env token secret = Inr u \<and> au_id u = au_id user \<and> au_email u = au_email user"
  using assms(4)
  by (rule_tac minted_claims[OF assms(1,2,3,5)]) (simp add: validate_paseto_token_def map_err_def uuid_law_def)

theorem delegation_accepted_as_user_witness:
  "\<exists>u. validate_paseto_token sample_env sample_token sample_secret = Inr u \<and> au_id u = 7 \<and> au_email u = Email ''a@b''"
  using delegation_accepted_as_user[OF sample_minted sample_laws sample_live] by (simp add: sample_user_def)

text \<open>
  A validated user is a superuser, or verified, only if the corresponding claim of the token is
  the string or the boolean true.
\<close>

theorem user_rights_from_claims:
  assumes "validate_paseto_token env token secret = Inr u"
  shows "\<exists>claims. parse_paseto_v4_local env token secret = Inr claims \<and>
    (au_is_superuser u \<longleftrightarrow> value_index claims ''is_superuser'' \<in> {Value.String ''true'', Bool True}) \<and>
    (au_is_verified u \<longleftrightarrow> value_index claims ''is_verified'' \<in> {Value.String ''true'', Bool True})"
proof -
  have "flag_claim claims name False \<longleftrightarrow> value_index claims name \<in> {Value.String ''true'', Bool True}" for claims name
    by (cases "value_index claims name") (auto simp: flag_claim_def)
  then show ?thesis
    using assms by (auto simp: validate_paseto_token_def result_bind_Inr_iff)
qed

theorem user_rights_from_claims_witness:
  "\<exists>claims. parse_paseto_v4_local sample_env sample_token sample_secret = Inr claims \<and>
    (False \<longleftrightarrow> value_index claims ''is_superuser'' \<in> {Value.String ''true'', Bool True}) \<and>
    (False \<longleftrightarrow> value_index claims ''is_verified'' \<in> {Value.String ''true'', Bool True})"
  using user_rights_from_claims[OF sample_user_token] by simp

section \<open>Bearer extraction\<close>

text \<open>
  Extraction panics on a well-formed UTF-8 header in which the seventh byte lies inside a
  character.
\<close>

theorem bearer_extraction_panics:
  "let header = ''bearer'' @ map char_of [195::nat, 169] in
     valid_utf8 header \<and> extract_bearer_token header = Panics"
  by code_simp

text \<open>The names of the OAuth providers read back.\<close>

theorem oauth_name_roundtrip:
  "OAuthProviderName_from_str (OAuthProviderName_to_string p) = Inr p"
  by (cases p) (simp_all add: OAuthProviderName_from_str_def OAuthProviderName_from_name_def
      to_ascii_lowercase_def to_ascii_lowercase_char_def)

end
