(* ===== verification/QF_Runtime.thy ===== *)
theory QF_Runtime
  imports QF_Federation QF_Governance
begin

text \<open>
  Runtime dispatch.

  \<^item> \<^verbatim>\<open>queryfabric-runtime/src/mode.rs\<close>: execution modes.
  \<^item> \<^verbatim>\<open>queryfabric-runtime/src/flight.rs\<close>: the Arrow Flight service. Authentication, the decoding of
    tickets, the access decision and the data plane of the host are functions; a handler of the
    host takes and returns the host's state, so that the state shows whether it ran.

  Shown: a hint only escalates the mode of an estimate, data is served only to a subject that was
  authenticated and allowed, and a denial reaches the caller with its reason.
\<close>

section \<open>Execution modes\<close>

datatype ExecutionRuntimeMode = InteractiveMode | BatchMode | IsolatedMode | FederatedMode

fun mode_of_delivery :: "ResultDeliveryMode \<Rightarrow> ExecutionRuntimeMode" where
  "mode_of_delivery InteractiveStream = InteractiveMode"
| "mode_of_delivery PagedResult = BatchMode"
| "mode_of_delivery AsyncMaterializedExport = IsolatedMode"
| "mode_of_delivery RejectedOverBudget = InteractiveMode"

definition runtime_mode_for_estimate :: "EstimatedCost \<Rightarrow> BackendExecutionLimits \<Rightarrow> ExecutionRuntimeMode" where
  "runtime_mode_for_estimate estimated limits =
     (if bl_batch_byte_limit limits < ec_memory_bytes estimated then IsolatedMode
      else if bl_interactive_byte_limit limits < ec_memory_bytes estimated then BatchMode
      else InteractiveMode)"

definition resolve_runtime_mode ::
  "EstimatedCost \<Rightarrow> BackendExecutionLimits \<Rightarrow> QueryTimeoutClass option \<Rightarrow> ExecutionRuntimeMode" where
  "resolve_runtime_mode estimated limits user_class_hint =
     (let estimated_mode = runtime_mode_for_estimate estimated limits
      in case user_class_hint of
           None \<Rightarrow> estimated_mode
         | Some QueryTimeoutClass.Interactive \<Rightarrow> estimated_mode
         | Some QueryTimeoutClass.Batch \<Rightarrow>
             (if estimated_mode = InteractiveMode \<or> estimated_mode = BatchMode then BatchMode else estimated_mode)
         | Some QueryTimeoutClass.Export \<Rightarrow> IsolatedMode)"

section \<open>The Flight service\<close>

datatype StatusCode = PermissionDenied | Unimplemented | OtherCode string

record Status =
  st_code :: StatusCode
  st_message :: string

record TicketGrant =
  tg_resource :: ResourceRef
  tg_policy :: AccessPolicy

record ('s, 'meta, 'descriptor, 'upload, 'batches, 'info, 'put) FlightSkeleton =
  fs_authenticate :: "'meta \<Rightarrow> Status + Subject"
  fs_evaluate :: "Subject \<Rightarrow> AccessPolicy \<Rightarrow> AccessOutcome"
  fs_interpret :: "string \<Rightarrow> Status + TicketGrant"
  fs_do_get :: "Subject \<Rightarrow> string \<Rightarrow> 's \<Rightarrow> (Status + 'batches) \<times> 's"
  fs_get_flight_info :: "Subject \<Rightarrow> 'descriptor \<Rightarrow> 's \<Rightarrow> (Status + 'info) \<times> 's"
  fs_list_flights :: "Subject \<Rightarrow> string \<Rightarrow> 's \<Rightarrow> (Status + 'info list) \<times> 's"
  fs_do_put :: "Subject \<Rightarrow> 'upload \<Rightarrow> 's \<Rightarrow> (Status + 'put list) \<times> 's"

definition permission_denied :: "string \<Rightarrow> Status" where
  "permission_denied reason = \<lparr>st_code = PermissionDenied, st_message = reason\<rparr>"

definition unimplemented :: "string \<Rightarrow> Status" where
  "unimplemented message = \<lparr>st_code = Unimplemented, st_message = message\<rparr>"

text \<open>The methods a host does not implement.\<close>

definition default_get_flight_info :: "Subject \<Rightarrow> 'descriptor \<Rightarrow> 's \<Rightarrow> (Status + 'info) \<times> 's" where
  "default_get_flight_info subject descriptor s = (Inl (unimplemented ''get_flight_info''), s)"

definition default_list_flights :: "Subject \<Rightarrow> string \<Rightarrow> 's \<Rightarrow> (Status + 'info list) \<times> 's" where
  "default_list_flights subject criteria s = (Inl (unimplemented ''list_flights''), s)"

definition default_do_put :: "Subject \<Rightarrow> 'upload \<Rightarrow> 's \<Rightarrow> (Status + 'put list) \<times> 's" where
  "default_do_put subject upload s = (Inl (unimplemented ''do_put''), s)"

definition authorize ::
  "('s, 'meta, 'descriptor, 'upload, 'batches, 'info, 'put) FlightSkeleton \<Rightarrow> 'meta \<Rightarrow> string \<Rightarrow> Status + Subject" where
  "authorize service metadata ticket =
     result_bind (fs_authenticate service metadata) (\<lambda>subject.
     result_bind (fs_interpret service ticket) (\<lambda>grant.
     case fs_evaluate service subject (tg_policy grant) of
       Allow \<Rightarrow> Inr subject
     | Deny reason \<Rightarrow> Inl (permission_denied reason)))"

text \<open>A handler that runs only when its subject is known.\<close>

definition run_for :: "Status + Subject \<Rightarrow> (Subject \<Rightarrow> 's \<Rightarrow> (Status + 'r) \<times> 's) \<Rightarrow> 's \<Rightarrow> (Status + 'r) \<times> 's" where
  "run_for subject handler s = (case subject of Inl status \<Rightarrow> (Inl status, s) | Inr subject \<Rightarrow> handler subject s)"

definition handshake :: "'s \<Rightarrow> (Status + 'r) \<times> 's" where
  "handshake s = (Inl (unimplemented ''authenticate via bearer token in request metadata instead of handshake''), s)"

definition list_flights ::
  "('s, 'meta, 'descriptor, 'upload, 'batches, 'info, 'put) FlightSkeleton \<Rightarrow> 'meta \<Rightarrow> string \<Rightarrow> 's \<Rightarrow> (Status + 'info list) \<times> 's" where
  "list_flights service metadata criteria =
     run_for (fs_authenticate service metadata) (\<lambda>subject. fs_list_flights service subject criteria)"

definition get_flight_info ::
  "('s, 'meta, 'descriptor, 'upload, 'batches, 'info, 'put) FlightSkeleton \<Rightarrow> 'meta \<Rightarrow> 'descriptor \<Rightarrow> 's \<Rightarrow> (Status + 'info) \<times> 's" where
  "get_flight_info service metadata descriptor =
     run_for (fs_authenticate service metadata) (\<lambda>subject. fs_get_flight_info service subject descriptor)"

definition do_get ::
  "('s, 'meta, 'descriptor, 'upload, 'batches, 'info, 'put) FlightSkeleton \<Rightarrow> 'meta \<Rightarrow> string \<Rightarrow> 's \<Rightarrow> (Status + 'batches) \<times> 's" where
  "do_get service metadata ticket =
     run_for (authorize service metadata ticket) (\<lambda>subject. fs_do_get service subject ticket)"

definition do_put ::
  "('s, 'meta, 'descriptor, 'upload, 'batches, 'info, 'put) FlightSkeleton \<Rightarrow> 'meta \<Rightarrow> 'upload \<Rightarrow> 's \<Rightarrow> (Status + 'put list) \<times> 's" where
  "do_put service metadata upload =
     run_for (fs_authenticate service metadata) (\<lambda>subject. fs_do_put service subject upload)"

definition poll_flight_info :: "'s \<Rightarrow> (Status + 'r) \<times> 's" where
  "poll_flight_info s = (Inl (unimplemented ''poll_flight_info''), s)"

definition get_schema :: "'s \<Rightarrow> (Status + 'r) \<times> 's" where
  "get_schema s = (Inl (unimplemented ''get_schema''), s)"

definition do_action :: "'s \<Rightarrow> (Status + 'r) \<times> 's" where
  "do_action s = (Inl (unimplemented ''do_action''), s)"

definition list_actions :: "'s \<Rightarrow> (Status + 'r) \<times> 's" where
  "list_actions s = (Inl (unimplemented ''list_actions''), s)"

definition do_exchange :: "'s \<Rightarrow> (Status + 'r) \<times> 's" where
  "do_exchange s = (Inl (unimplemented ''do_exchange''), s)"

section \<open>Modes escalate\<close>

fun mode_rank :: "ExecutionRuntimeMode \<Rightarrow> nat" where
  "mode_rank InteractiveMode = 0"
| "mode_rank BatchMode = 1"
| "mode_rank IsolatedMode = 2"
| "mode_rank FederatedMode = 3"

fun class_rank :: "QueryTimeoutClass \<Rightarrow> nat" where
  "class_rank QueryTimeoutClass.Interactive = 0"
| "class_rank QueryTimeoutClass.Batch = 1"
| "class_rank QueryTimeoutClass.Export = 2"

text \<open>
  The resolved mode is the higher of the mode of the estimate and the class of the hint; a missing
  hint leaves the estimate alone.
\<close>

theorem resolved_mode_is_maximum:
  "mode_rank (resolve_runtime_mode estimated limits hint) =
   max (mode_rank (runtime_mode_for_estimate estimated limits))
       (case hint of None \<Rightarrow> 0 | Some c \<Rightarrow> class_rank c)"
  by (auto simp: resolve_runtime_mode_def runtime_mode_for_estimate_def
      split: option.splits QueryTimeoutClass.splits)

section \<open>Data is served to allowed subjects\<close>

text \<open>
  A request for data either reaches the host's handler, for the authenticated subject that the
  access decision allowed under the policy of the ticket, or fails and leaves the host untouched,
  with the reason of the denial when the access decision refused.
\<close>

theorem flight_data_authorized:
  "(\<exists>subject grant.
      fs_authenticate service metadata = Inr subject \<and> fs_interpret service ticket = Inr grant \<and>
      fs_evaluate service subject (tg_policy grant) = Allow \<and>
      do_get service metadata ticket s = fs_do_get service subject ticket s) \<or>
   (\<exists>status. do_get service metadata ticket s = (Inl status, s) \<and>
      (fs_authenticate service metadata = Inl status \<or> fs_interpret service ticket = Inl status \<or>
       (\<exists>subject grant reason.
          fs_authenticate service metadata = Inr subject \<and> fs_interpret service ticket = Inr grant \<and>
          fs_evaluate service subject (tg_policy grant) = Deny reason \<and>
          status = permission_denied reason)))"
  by (cases "fs_authenticate service metadata"; cases "fs_interpret service ticket")
    (auto simp: do_get_def run_for_def authorize_def split: AccessOutcome.split)

end
