(* ===== verification/QF_K8s.thy ===== *)
theory QF_K8s
  imports QF_Runtime QF_Tabular
begin

text \<open>
  The Kubernetes runtime of isolated queries: \<^verbatim>\<open>queryfabric-runtime/src/driver.rs\<close> and \<^verbatim>\<open>error.rs\<close> (job
  specifications and errors) and \<^verbatim>\<open>queryfabric-runtime-k8s/src\<close> (\<^verbatim>\<open>storage.rs\<close>, \<^verbatim>\<open>job_spec.rs\<close>, \<^verbatim>\<open>stream.rs\<close>,
  \<^verbatim>\<open>cancel.rs\<close>, \<^verbatim>\<open>error.rs\<close>, \<^verbatim>\<open>lib.rs\<close>). The manifest types are those of the Kubernetes API, reduced to the
  fields the crate sets. The API server is a record of functions on the state of the cluster; the
  feature \<^verbatim>\<open>snapshot-clone\<close> is an argument; \<^verbatim>\<open>serde_json::to_string\<close> is a function.

  Shown: worker pods carry the labels the driver selects them by whatever labels are configured,
  the ClickHouse password reaches a worker only as a reference to a secret, the wait for a pod
  returns at the latest at the first look after its deadline and only a ready pod, a Job is left
  behind when its stream cannot be opened, and a late cancellation deletes the Job of another run
  of the same query.
\<close>

section \<open>Job specifications\<close>

datatype ObjectStoreFormat = Parquet | Arrow | Csv

datatype StorageAccessMode =
    ReplicatedReadOnly
  | SnapshotClone (sc_source_pvc: string) (sc_snapshot_class: string)
  | ObjectStore (os_uri: string) (os_format: ObjectStoreFormat)

record ResourceRequest =
  rq_cpu_request :: string
  rq_memory_request :: string
  rq_cpu_limit :: string
  rq_memory_limit :: string

record IsolatedJobSpec =
  is_query :: BoundQuery
  is_storage :: StorageAccessMode
  is_resources :: ResourceRequest
  is_timeout_secs :: nat

datatype DriverError = Spawn string | Timeout | Cancelled | WorkerFailure int string

datatype RuntimeError = NotImplemented | Driver DriverError | RuntimeCancelled | Adapter string

definition spawn_error :: "string \<Rightarrow> string \<Rightarrow> DriverError" where
  "spawn_error context error = Spawn (context @ '': '' @ error)"

definition spawn_message :: "string \<Rightarrow> DriverError" where
  "spawn_message message = Spawn message"

definition tonic_to_runtime :: "string \<Rightarrow> RuntimeError" where
  "tonic_to_runtime error = Driver (WorkerFailure 1 (''worker Flight stream failed: '' @ error))"

definition flight_to_runtime :: "string \<Rightarrow> RuntimeError" where
  "flight_to_runtime error = Driver (WorkerFailure 1 (''worker Flight decode failed: '' @ error))"

section \<open>Manifests\<close>

record SecretKeySelector =
  sk_name :: string
  sk_key :: string
  sk_optional :: "bool option"

record EnvVar =
  ev_name :: string
  ev_value :: "string option"
  ev_secret :: "SecretKeySelector option"

record Volume =
  vo_name :: string
  vo_claim :: "(string \<times> bool option) option"
  vo_empty_dir :: bool

record VolumeMount =
  vm_name :: string
  vm_mount_path :: string
  vm_read_only :: "bool option"

record StorageArtifacts =
  sa_env :: "EnvVar list"
  sa_volumes :: "Volume list"
  sa_mounts :: "VolumeMount list"

record Probe =
  pb_port :: nat
  pb_period_seconds :: int
  pb_failure_threshold :: int

record ResourceRequirements =
  rs_requests :: "(string, string) btree_map"
  rs_limits :: "(string, string) btree_map"

record ContainerPort =
  cp_name :: string
  cp_container_port :: nat
  cp_protocol :: string

record Container =
  co_name :: string
  co_image :: string
  co_image_pull_policy :: string
  co_command :: "string list option"
  co_env :: "EnvVar list"
  co_ports :: "ContainerPort list"
  co_readiness_probe :: Probe
  co_liveness_probe :: Probe
  co_resources :: ResourceRequirements
  co_volume_mounts :: "VolumeMount list"

record Toleration =
  to_key :: "string option"
  to_operator :: "string option"
  to_value :: "string option"
  to_effect :: "string option"
  to_seconds :: "int option"

record PodSpec =
  ps_service_account_name :: string
  ps_restart_policy :: string
  ps_containers :: "Container list"
  ps_tolerations :: "Toleration list option"
  ps_volumes :: "Volume list"

record ObjectMeta =
  om_name :: "string option"
  om_labels :: "(string, string) btree_map"
  om_annotations :: "(string, string) btree_map"

record JobSpec =
  js_ttl_seconds_after_finished :: int
  js_backoff_limit :: int
  js_active_deadline_seconds :: int
  js_selector :: "string option"
  js_template_metadata :: ObjectMeta
  js_template_spec :: PodSpec

record Job =
  jb_metadata :: ObjectMeta
  jb_spec :: JobSpec

record K8sDriverConfig =
  kc_worker_image :: string
  kc_service_account :: string
  kc_flight_port :: nat
  kc_job_ttl_seconds_after_finished :: int
  kc_pod_template_labels :: "(string, string) btree_map"
  kc_default_tolerations :: "Toleration list"
  kc_clickhouse_database :: string
  kc_clickhouse_username :: string
  kc_clickhouse_password_secret_name :: string
  kc_clickhouse_password_secret_key :: string
  kc_replicated_clickhouse_host :: string
  kc_replicated_clickhouse_native_port :: nat

section \<open>Storage of a worker\<close>

definition env_var :: "string \<Rightarrow> string \<Rightarrow> EnvVar" where
  "env_var name v = \<lparr>ev_name = name, ev_value = Some v, ev_secret = None\<rparr>"

fun object_store_format :: "ObjectStoreFormat \<Rightarrow> string" where
  "object_store_format Parquet = ''parquet''"
| "object_store_format Arrow = ''arrow''"
| "object_store_format Csv = ''csv''"

definition object_store_artifacts :: "string \<Rightarrow> ObjectStoreFormat \<Rightarrow> StorageArtifacts" where
  "object_store_artifacts uri format =
     \<lparr>sa_env = [env_var ''SYNDB_STORAGE_MODE'' ''object-store'', env_var ''SYNDB_OBJECT_STORE_URI'' uri,
        env_var ''SYNDB_OBJECT_STORE_FORMAT'' (object_store_format format)],
      sa_volumes = [], sa_mounts = []\<rparr>"

text \<open>The names of Kubernetes objects are ASCII, so that lower case is that of ASCII.\<close>

definition is_ascii_alphanumeric :: "char \<Rightarrow> bool" where
  "is_ascii_alphanumeric c \<longleftrightarrow>
     is_ascii_digit c \<or> 65 \<le> byte_of c \<and> byte_of c \<le> 90 \<or> 97 \<le> byte_of c \<and> byte_of c \<le> 122"

fun sanitize_loop :: "string \<Rightarrow> bool \<Rightarrow> string \<Rightarrow> string" where
  "sanitize_loop out last_dash [] = out"
| "sanitize_loop out last_dash (ch # chs) =
     (if is_ascii_alphanumeric ch then sanitize_loop (out @ [ch]) False chs
      else if \<not> last_dash then sanitize_loop (out @ ''-'') True chs
      else sanitize_loop out last_dash chs)"

definition trim_matches :: "char \<Rightarrow> string \<Rightarrow> string" where
  "trim_matches c s = rev (dropWhile ((=) c) (rev (dropWhile ((=) c) s)))"

definition sanitize_dns_label :: "string \<Rightarrow> string" where
  "sanitize_dns_label v =
     (let trimmed = trim_matches (CHR ''-'') (sanitize_loop [] False (to_ascii_lowercase v))
      in if trimmed = [] then ''volume'' else take 45 trimmed)"

definition snapshot_clone_pvc_name :: "string \<Rightarrow> string \<Rightarrow> string" where
  "snapshot_clone_pvc_name source_pvc snapshot_class =
     ''syndb-snapshot-'' @ sanitize_dns_label source_pvc @ ''-'' @ sanitize_dns_label snapshot_class"

definition snapshot_clone_artifacts :: "bool \<Rightarrow> string \<Rightarrow> string \<Rightarrow> DriverError + StorageArtifacts" where
  "snapshot_clone_artifacts snapshot_clone source_pvc snapshot_class =
     (if \<not> snapshot_clone
      then Inl (spawn_message ''SnapshotClone not enabled; install with feature `snapshot-clone`'')
      else let pvc_name = snapshot_clone_pvc_name source_pvc snapshot_class
           in Inr \<lparr>sa_env = [env_var ''SYNDB_STORAGE_MODE'' ''snapshot-clone'', env_var ''SYNDB_SOURCE_PVC'' source_pvc,
                env_var ''SYNDB_VOLUME_SNAPSHOT_CLASS'' snapshot_class, env_var ''SYNDB_SNAPSHOT_CLONE_PVC'' pvc_name],
              sa_volumes = [\<lparr>vo_name = ''clickhouse-data'', vo_claim = Some (pvc_name, Some True), vo_empty_dir = False\<rparr>],
              sa_mounts = [\<lparr>vm_name = ''clickhouse-data'', vm_mount_path = ''/var/lib/clickhouse'', vm_read_only = Some True\<rparr>]\<rparr>)"

fun storage_artifacts :: "bool \<Rightarrow> StorageAccessMode \<Rightarrow> DriverError + StorageArtifacts" where
  "storage_artifacts snapshot_clone ReplicatedReadOnly = Inr \<lparr>sa_env = [], sa_volumes = [], sa_mounts = []\<rparr>"
| "storage_artifacts snapshot_clone (ObjectStore uri format) = Inr (object_store_artifacts uri format)"
| "storage_artifacts snapshot_clone (SnapshotClone source_pvc snapshot_class) =
     snapshot_clone_artifacts snapshot_clone source_pvc snapshot_class"

section \<open>The Job manifest\<close>

definition MANAGED_BY :: string where
  "MANAGED_BY = ''queryfabric-runtime-k8s''"

definition LABEL_STORAGE_MODE :: string where
  "LABEL_STORAGE_MODE = ''queryfabric.io/storage-mode''"

definition LABEL_QUERY_HASH :: string where
  "LABEL_QUERY_HASH = ''queryfabric.io/query-hash''"

definition LABEL_ISOLATED_JOB :: string where
  "LABEL_ISOLATED_JOB = ''queryfabric.io/isolated-job''"

definition JOB_NAME_PREFIX :: string where
  "JOB_NAME_PREFIX = ''qf-isolated-''"

definition WORKER_CONTAINER :: string where
  "WORKER_CONTAINER = ''burst-worker''"

definition job_name_for :: "IsolatedJobSpec \<Rightarrow> string" where
  "job_name_for spec = JOB_NAME_PREFIX @ take 12 (pr_query_hash (bq_provenance (is_query spec)))"

definition job_label_selector :: "string \<Rightarrow> string" where
  "job_label_selector name =
     ''app.kubernetes.io/managed-by='' @ MANAGED_BY @ '','' @ LABEL_ISOLATED_JOB @ ''='' @ name"

definition labels_for_job :: "string \<Rightarrow> K8sDriverConfig \<Rightarrow> (string, string) btree_map" where
  "labels_for_job name config =
     bt_insert LABEL_ISOLATED_JOB name
       (bt_insert ''app.kubernetes.io/managed-by'' MANAGED_BY
         (bt_insert ''app.kubernetes.io/name'' WORKER_CONTAINER (kc_pod_template_labels config)))"

definition secret_env :: "string \<Rightarrow> string \<Rightarrow> string \<Rightarrow> EnvVar" where
  "secret_env name secret_name secret_key =
     \<lparr>ev_name = name, ev_value = None,
      ev_secret = Some \<lparr>sk_name = secret_name, sk_key = secret_key, sk_optional = Some False\<rparr>\<rparr>"

fun storage_mode :: "StorageAccessMode \<Rightarrow> string" where
  "storage_mode ReplicatedReadOnly = ''replicated-read-only''"
| "storage_mode (SnapshotClone _ _) = ''snapshot-clone''"
| "storage_mode (ObjectStore _ _) = ''object-store''"

definition base_env :: "(BoundQuery \<Rightarrow> string + string) \<Rightarrow> IsolatedJobSpec \<Rightarrow> K8sDriverConfig \<Rightarrow> DriverError + EnvVar list" where
  "base_env to_json spec config =
     (case to_json (is_query spec) of
        Inl error \<Rightarrow> Inl (Spawn (''serialize isolated query: '' @ error))
      | Inr query_json \<Rightarrow>
          Inr [env_var ''SYNDB_ISOLATED_QUERY_JSON'' query_json,
               env_var ''SYNDB_FLIGHT_PORT'' (nat_to_string (kc_flight_port config)),
               env_var ''SYNDB_STORAGE_MODE'' (storage_mode (is_storage spec)),
               env_var ''SYNDB_REPLICATED_CLICKHOUSE_DATABASE'' (kc_clickhouse_database config),
               env_var ''SYNDB_REPLICATED_CLICKHOUSE_USERNAME'' (kc_clickhouse_username config),
               secret_env ''SYNDB_REPLICATED_CLICKHOUSE_PASSWORD'' (kc_clickhouse_password_secret_name config)
                 (kc_clickhouse_password_secret_key config),
               env_var ''SYNDB_REPLICATED_CLICKHOUSE_HOST'' (kc_replicated_clickhouse_host config),
               env_var ''SYNDB_REPLICATED_CLICKHOUSE_NATIVE_PORT''
                 (nat_to_string (kc_replicated_clickhouse_native_port config))])"

definition resources :: "ResourceRequest \<Rightarrow> ResourceRequirements" where
  "resources request =
     \<lparr>rs_requests = [(''cpu'', rq_cpu_request request), (''memory'', rq_memory_request request)],
      rs_limits = [(''cpu'', rq_cpu_limit request), (''memory'', rq_memory_limit request)]\<rparr>"

definition flight_probe :: "nat \<Rightarrow> Probe" where
  "flight_probe port = \<lparr>pb_port = port, pb_period_seconds = 2, pb_failure_threshold = 30\<rparr>"

text \<open>\<^verbatim>\<open>as i64\<close> reads the low 64 bits as a signed number.\<close>

definition as_i64 :: "nat \<Rightarrow> int" where
  "as_i64 n = sint (of_nat n :: 64 word)"

definition build_job ::
  "(BoundQuery \<Rightarrow> string + string) \<Rightarrow> bool \<Rightarrow> string \<Rightarrow> IsolatedJobSpec \<Rightarrow> K8sDriverConfig \<Rightarrow> DriverError + Job" where
  "build_job to_json snapshot_clone name spec config =
     result_bind (storage_artifacts snapshot_clone (is_storage spec)) (\<lambda>storage.
     result_bind (base_env to_json spec config) (\<lambda>env_vars.
     let labels = labels_for_job name config;
         worker =
           \<lparr>co_name = WORKER_CONTAINER, co_image = kc_worker_image config, co_image_pull_policy = ''IfNotPresent'',
            co_command = None, co_env = env_vars @ sa_env storage,
            co_ports = [\<lparr>cp_name = ''flight'', cp_container_port = kc_flight_port config, cp_protocol = ''TCP''\<rparr>],
            co_readiness_probe = flight_probe (kc_flight_port config),
            co_liveness_probe = flight_probe (kc_flight_port config),
            co_resources = resources (is_resources spec),
            co_volume_mounts =
              [\<lparr>vm_name = ''tmp'', vm_mount_path = ''/tmp'', vm_read_only = None\<rparr>] @ sa_mounts storage\<rparr>
     in Inr \<lparr>jb_metadata =
          \<lparr>om_name = Some name, om_labels = labels,
           om_annotations = [(LABEL_STORAGE_MODE, storage_mode (is_storage spec))]\<rparr>,
        jb_spec =
          \<lparr>js_ttl_seconds_after_finished = kc_job_ttl_seconds_after_finished config, js_backoff_limit = 0,
           js_active_deadline_seconds = as_i64 (is_timeout_secs spec), js_selector = None,
           js_template_metadata =
             \<lparr>om_name = None, om_labels = labels,
              om_annotations = [(LABEL_QUERY_HASH, pr_query_hash (bq_provenance (is_query spec)))]\<rparr>,
           js_template_spec =
             \<lparr>ps_service_account_name = kc_service_account config, ps_restart_policy = ''Never'',
              ps_containers = [worker],
              ps_tolerations = (if kc_default_tolerations config = [] then None else Some (kc_default_tolerations config)),
              ps_volumes =
                [\<lparr>vo_name = ''tmp'', vo_claim = None, vo_empty_dir = True\<rparr>] @ sa_volumes storage\<rparr>\<rparr>\<rparr>))"

section \<open>Waiting for a worker\<close>

record PodStatus =
  pt_phase :: "string option"
  pt_pod_ip :: "string option"
  pt_conditions :: "(string \<times> string) list option"

record Pod =
  pd_name :: "string option"
  pd_status :: "PodStatus option"

definition pod_is_ready :: "Pod \<Rightarrow> bool" where
  "pod_is_ready pod \<longleftrightarrow>
     (case Option.bind (pd_status pod) pt_conditions of
        None \<Rightarrow> False
      | Some conditions \<Rightarrow> list_ex (\<lambda>(type, status). type = ''Ready'' \<and> status = ''True'') conditions)"

definition pod_is_failed :: "Pod \<Rightarrow> bool" where
  "pod_is_failed pod \<longleftrightarrow> Option.bind (pd_status pod) pt_phase = Some ''Failed''"

definition pod_failure_message :: "Pod \<Rightarrow> string" where
  "pod_failure_message pod =
     (case pd_name pod of None \<Rightarrow> ''<unknown isolated worker pod>'' | Some name \<Rightarrow> name) @ '' entered phase '' @
     (case Option.bind (pd_status pod) pt_phase of None \<Rightarrow> ''Failed'' | Some phase \<Rightarrow> phase)"

text \<open>One turn of the loop sees the cancellation token, the clock, the listed pods, and the token again while it sleeps.\<close>

record look =
  lk_cancelled :: bool
  lk_now :: nat
  lk_pods :: "string + Pod list"
  lk_cancelled_asleep :: bool

fun scan_pods :: "Pod list \<Rightarrow> (DriverError + Pod) option" where
  "scan_pods [] = None"
| "scan_pods (pod # pods) =
     (if pod_is_failed pod then Some (Inl (WorkerFailure 1 (pod_failure_message pod)))
      else if pod_is_ready pod then Some (Inr pod)
      else scan_pods pods)"

text \<open>The turns are those the loop takes until it returns; \<^const>\<open>None\<close> when it still waits after them.\<close>

fun wait_for_ready_pod :: "nat \<Rightarrow> look list \<Rightarrow> (DriverError + Pod) option" where
  "wait_for_ready_pod deadline [] = None"
| "wait_for_ready_pod deadline (l # ls) =
     (if lk_cancelled l then Some (Inl Cancelled)
      else if deadline \<le> lk_now l then Some (Inl Timeout)
      else case lk_pods l of
        Inl error \<Rightarrow> Some (Inl (spawn_error ''list isolated worker pods'' error))
      | Inr pods \<Rightarrow>
          (case scan_pods pods of
             Some r \<Rightarrow> Some r
           | None \<Rightarrow> if lk_cancelled_asleep l then Some (Inl Cancelled) else wait_for_ready_pod deadline ls))"

definition pod_flight_endpoint :: "Pod \<Rightarrow> nat \<Rightarrow> DriverError + string" where
  "pod_flight_endpoint pod flight_port =
     result_bind (ok_or (spawn_message ''Ready worker pod is missing status'') (pd_status pod)) (\<lambda>status.
     result_bind (ok_or (spawn_message ''Ready worker pod is missing pod IP'') (pt_pod_ip status)) (\<lambda>pod_ip.
     Inr (pod_ip @ '':'' @ nat_to_string flight_port)))"

text \<open>The gRPC client: building a channel, connecting it, and the answer to \<^verbatim>\<open>DoGet\<close> or a cancellation before it.\<close>

record 'stream flight_client =
  fc_from_shared :: "string \<Rightarrow> string + unit"
  fc_connect :: "string \<Rightarrow> string + unit"
  fc_do_get :: "string \<Rightarrow> string \<Rightarrow> string + 'stream"
  fc_cancelled :: bool

definition connect_flight :: "'stream flight_client \<Rightarrow> string \<Rightarrow> DriverError + unit" where
  "connect_flight client endpoint =
     (case fc_from_shared client (''http://'' @ endpoint) of
        Inl error \<Rightarrow> Inl (Spawn (''build tonic channel from isolated worker Flight endpoint '' @ endpoint @ '': '' @ error))
      | Inr _ \<Rightarrow>
          (case fc_connect client (''http://'' @ endpoint) of
             Inl error \<Rightarrow> Inl (Spawn (''connect to isolated worker Flight endpoint '' @ endpoint @ '': '' @ error))
           | Inr _ \<Rightarrow> Inr ()))"

definition open_flight_stream ::
  "(BoundQuery \<Rightarrow> string + string) \<Rightarrow> 'stream flight_client \<Rightarrow> IsolatedJobSpec \<Rightarrow> nat \<Rightarrow> Pod \<Rightarrow> DriverError + 'stream" where
  "open_flight_stream to_json client spec flight_port pod =
     result_bind (pod_flight_endpoint pod flight_port) (\<lambda>endpoint.
     result_bind (connect_flight client endpoint) (\<lambda>_.
     case to_json (is_query spec) of
       Inl error \<Rightarrow> Inl (Spawn (''serialize isolated worker Flight ticket from query spec: '' @ error))
     | Inr ticket \<Rightarrow>
         if fc_cancelled client then Inl Cancelled
         else (case fc_do_get client endpoint ticket of
                 Inl error \<Rightarrow> Inl (Spawn (''issue Flight DoGet to isolated worker endpoint '' @ endpoint @ '': '' @ error))
               | Inr stream \<Rightarrow> Inr stream)))"

definition connect_job_stream ::
  "(BoundQuery \<Rightarrow> string + string) \<Rightarrow> 'stream flight_client \<Rightarrow> nat \<Rightarrow> look list \<Rightarrow> IsolatedJobSpec \<Rightarrow> nat
    \<Rightarrow> (DriverError + 'stream) option" where
  "connect_job_stream to_json client started looks spec flight_port =
     map_option (\<lambda>r. result_bind r (open_flight_stream to_json client spec flight_port))
       (wait_for_ready_pod (started + 1000 * is_timeout_secs spec) looks)"

section \<open>The life cycle of a Job\<close>

datatype DeleteError = ApiError nat | OtherError string

record 's kube_api =
  ka_create :: "Job \<Rightarrow> 's \<Rightarrow> string + 's"
  ka_delete :: "string \<Rightarrow> 's \<Rightarrow> DeleteError + 's"

definition delete_job_background :: "'s kube_api \<Rightarrow> string \<Rightarrow> 's \<Rightarrow> (DeleteError + unit) \<times> 's" where
  "delete_job_background api job_name s =
     (case ka_delete api job_name s of
        Inr s' \<Rightarrow> (Inr (), s')
      | Inl (ApiError code) \<Rightarrow> (if code = 404 then Inr () else Inl (ApiError code), s)
      | Inl error \<Rightarrow> (Inl error, s))"

text \<open>
  A cancellation watcher waits for its token and deletes its Job; a cleanup stream deletes its Job
  once, when it ends or is dropped.
\<close>

record CleanupStream =
  cs_job_name :: string
  cs_jobs :: bool

record 's driver_state =
  dv_cluster :: 's
  dv_watchers :: "(nat \<times> string) list"
  dv_streams :: "CleanupStream list"

record K8sIsolatedDriver =
  kd_client :: bool
  kd_config :: K8sDriverConfig

definition spawn_cancel_delete_task :: "nat \<Rightarrow> string \<Rightarrow> 's driver_state \<Rightarrow> 's driver_state" where
  "spawn_cancel_delete_task token job_name s = s\<lparr>dv_watchers := dv_watchers s @ [(token, job_name)]\<rparr>"

text \<open>
  \<open>connected\<close> is the outcome of \<^const>\<open>connect_job_stream\<close> for the created Job; the position of the new
  stream is returned.
\<close>

definition spawn ::
  "(BoundQuery \<Rightarrow> string + string) \<Rightarrow> bool \<Rightarrow> 's kube_api \<Rightarrow> K8sIsolatedDriver \<Rightarrow> IsolatedJobSpec \<Rightarrow> nat \<Rightarrow> bool
    \<Rightarrow> DriverError + 'stream \<Rightarrow> 's driver_state \<Rightarrow> (DriverError + nat) \<times> 's driver_state" where
  "spawn to_json snapshot_clone api driver spec token cancelled connected s =
     (if cancelled then (Inl Cancelled, s)
      else if \<not> kd_client driver then (Inl (spawn_message ''Kubernetes client is not configured''), s)
      else let job_name = job_name_for spec
        in case build_job to_json snapshot_clone job_name spec (kd_config driver) of
             Inl e \<Rightarrow> (Inl e, s)
           | Inr job \<Rightarrow>
               (case ka_create api job (dv_cluster s) of
                  Inl error \<Rightarrow> (Inl (Spawn (''create isolated Job '' @ job_name @ '': '' @ error)), s)
                | Inr cluster \<Rightarrow>
                    let s = spawn_cancel_delete_task token job_name (s\<lparr>dv_cluster := cluster\<rparr>)
                    in case connected of
                         Inl e \<Rightarrow> (Inl e, s)
                       | Inr _ \<Rightarrow>
                           (Inr (length (dv_streams s)),
                            s\<lparr>dv_streams := dv_streams s @ [\<lparr>cs_job_name = job_name, cs_jobs = True\<rparr>]\<rparr>)))"

definition delete_in_cluster :: "'s kube_api \<Rightarrow> string \<Rightarrow> 's driver_state \<Rightarrow> 's driver_state" where
  "delete_in_cluster api job_name s = s\<lparr>dv_cluster := snd (delete_job_background api job_name (dv_cluster s))\<rparr>"

text \<open>Firing a token runs all watchers that wait for it.\<close>

definition cancel_token :: "'s kube_api \<Rightarrow> nat \<Rightarrow> 's driver_state \<Rightarrow> 's driver_state" where
  "cancel_token api token s =
     fold (\<lambda>(_, job_name). delete_in_cluster api job_name) (filter (\<lambda>(t, _). t = token) (dv_watchers s))
       (s\<lparr>dv_watchers := filter (\<lambda>(t, _). t \<noteq> token) (dv_watchers s)\<rparr>)"

definition schedule_cleanup :: "'s kube_api \<Rightarrow> nat \<Rightarrow> 's driver_state \<Rightarrow> 's driver_state" where
  "schedule_cleanup api i s =
     (let stream = dv_streams s ! i
      in if i < length (dv_streams s) \<and> cs_jobs stream
         then delete_in_cluster api (cs_job_name stream) (s\<lparr>dv_streams := (dv_streams s)[i := stream\<lparr>cs_jobs := False\<rparr>]\<rparr>)
         else s)"

text \<open>A poll of the stream: \<open>ready_none\<close> says that the inner stream has ended.\<close>

definition poll_next :: "'s kube_api \<Rightarrow> nat \<Rightarrow> bool \<Rightarrow> 's driver_state \<Rightarrow> 's driver_state" where
  "poll_next api i ready_none s = (if ready_none then schedule_cleanup api i s else s)"

definition drop_stream :: "'s kube_api \<Rightarrow> nat \<Rightarrow> 's driver_state \<Rightarrow> 's driver_state" where
  "drop_stream api i s = schedule_cleanup api i s"

section \<open>Manifests are found and keep their secret\<close>

text \<open>
  The pods of a Job carry, whatever labels are configured, the two labels the driver selects its
  worker by, and the selector is the text of exactly these two labels.
\<close>

theorem worker_found_by_selector:
  assumes "build_job to_json snapshot_clone name spec config = Inr job"
  shows "job_label_selector name =
    join_with '','' (map (\<lambda>k. k @ ''='' @ the (bt_get (om_labels (js_template_metadata (jb_spec job))) k))
      [''app.kubernetes.io/managed-by'', LABEL_ISOLATED_JOB])"
proof -
  have "om_labels (js_template_metadata (jb_spec job)) = labels_for_job name config"
    using assms by (auto simp: build_job_def result_bind_Inr_iff Let_def)
  then show ?thesis
    by (simp add: labels_for_job_def bt_get_insert job_label_selector_def LABEL_ISOLATED_JOB_def MANAGED_BY_def)
qed

lemma storage_env_names:
  "storage_artifacts f m = Inr storage \<Longrightarrow> e \<in> set (sa_env storage) \<Longrightarrow>
   ev_name e \<noteq> ''SYNDB_REPLICATED_CLICKHOUSE_PASSWORD''"
  by (cases m) (auto simp: object_store_artifacts_def snapshot_clone_artifacts_def env_var_def Let_def split: if_splits)

text \<open>
  In the environment of a worker the ClickHouse password is always the reference to the configured
  secret, never a literal value.
\<close>

theorem worker_password_by_reference:
  assumes "build_job to_json snapshot_clone name spec config = Inr job"
    and "c \<in> set (ps_containers (js_template_spec (jb_spec job)))" and "e \<in> set (co_env c)"
    and "ev_name e = ''SYNDB_REPLICATED_CLICKHOUSE_PASSWORD''"
  shows "e = secret_env ''SYNDB_REPLICATED_CLICKHOUSE_PASSWORD'' (kc_clickhouse_password_secret_name config)
    (kc_clickhouse_password_secret_key config)"
  using assms storage_env_names
  by (auto simp: build_job_def result_bind_Inr_iff Let_def base_env_def env_var_def split: sum.splits)

text \<open>A job and a driver for examples.\<close>

definition sample_spec :: IsolatedJobSpec where
  "sample_spec =
     \<lparr>is_query = BoundQuery_new (\<lambda>s. s) (ParsedQuery_new ''sql'' ''SELECT 1'' ''SELECT 1''), is_storage = ObjectStore ''s3://r'' Parquet,
      is_resources = \<lparr>rq_cpu_request = ''1'', rq_memory_request = ''1Gi'', rq_cpu_limit = ''1'', rq_memory_limit = ''1Gi''\<rparr>,
      is_timeout_secs = 300\<rparr>"

definition sample_config :: K8sDriverConfig where
  "sample_config =
     \<lparr>kc_worker_image = ''w'', kc_service_account = ''sa'', kc_flight_port = 8815, kc_job_ttl_seconds_after_finished = 60,
      kc_pod_template_labels = [(''team'', ''q'')], kc_default_tolerations = [], kc_clickhouse_database = ''db'',
      kc_clickhouse_username = ''user'', kc_clickhouse_password_secret_name = ''secrets'',
      kc_clickhouse_password_secret_key = ''password'', kc_replicated_clickhouse_host = ''host'',
      kc_replicated_clickhouse_native_port = 9000\<rparr>"

definition sample_job :: Job where
  "sample_job = projr (build_job (\<lambda>_. Inr ''{}'') False ''qf-isolated-1'' sample_spec sample_config)"

lemma sample_job_built:
  "build_job (\<lambda>_. Inr ''{}'') False ''qf-isolated-1'' sample_spec sample_config = Inr sample_job"
  by (simp add: sample_job_def build_job_def sample_spec_def base_env_def sample_config_def Let_def)

theorem worker_found_by_selector_witness:
  "job_label_selector ''qf-isolated-1'' =
    join_with '','' (map (\<lambda>k. k @ ''='' @ the (bt_get (om_labels (js_template_metadata (jb_spec sample_job))) k))
      [''app.kubernetes.io/managed-by'', LABEL_ISOLATED_JOB])"
  by (rule worker_found_by_selector[OF sample_job_built])

theorem worker_password_by_reference_witness:
  "co_env (hd (ps_containers (js_template_spec (jb_spec sample_job)))) ! 5 =
   secret_env ''SYNDB_REPLICATED_CLICKHOUSE_PASSWORD'' ''secrets'' ''password''"
proof -
  have "co_env (hd (ps_containers (js_template_spec (jb_spec sample_job)))) ! 5 =
      secret_env ''SYNDB_REPLICATED_CLICKHOUSE_PASSWORD'' (kc_clickhouse_password_secret_name sample_config)
        (kc_clickhouse_password_secret_key sample_config)"
    by (rule worker_password_by_reference[OF sample_job_built,
          where c = "hd (ps_containers (js_template_spec (jb_spec sample_job)))"])
      (simp_all add: sample_job_def build_job_def sample_spec_def base_env_def secret_env_def sample_config_def Let_def)
  then show ?thesis by (simp add: sample_config_def)
qed

section \<open>The wait for a worker\<close>

lemma scan_pods_SomeD:
  "scan_pods pods = Some (Inr pod) \<Longrightarrow> pod \<in> set pods \<and> pod_is_ready pod \<and> \<not> pod_is_failed pod"
  by (induction pods) (auto split: if_splits)

text \<open>
  The loop has returned by the first turn at or after its deadline.
\<close>

theorem pod_wait_ends:
  assumes "l \<in> set looks" and "deadline \<le> lk_now l"
  shows "\<exists>r. wait_for_ready_pod deadline looks = Some r"
  using assms by (induction deadline looks rule: wait_for_ready_pod.induct) (auto split: sum.splits option.splits)

text \<open>Two turns: no pod yet, then the deadline.\<close>

definition sample_look :: "nat \<Rightarrow> Pod list \<Rightarrow> look" where
  "sample_look now pods = \<lparr>lk_cancelled = False, lk_now = now, lk_pods = Inr pods, lk_cancelled_asleep = False\<rparr>"

theorem pod_wait_ends_witness:
  "\<exists>r. wait_for_ready_pod 500 [sample_look 0 [], sample_look 500 []] = Some r"
  by (rule pod_wait_ends[of "sample_look 500 []"]) (simp_all add: sample_look_def)

text \<open>
  A pod is returned only if one of the turns before the deadline listed it as ready and not failed,
  and no turn up to it saw the token cancelled.
\<close>

theorem pod_wait_sound:
  assumes "wait_for_ready_pod deadline looks = Some (Inr pod)"
  shows "\<exists>before l after pods. looks = before @ l # after \<and> lk_pods l = Inr pods \<and> pod \<in> set pods \<and>
    pod_is_ready pod \<and> \<not> pod_is_failed pod \<and> lk_now l < deadline \<and>
    list_all (\<lambda>l. \<not> lk_cancelled l \<and> \<not> lk_cancelled_asleep l \<and> lk_now l < deadline) before \<and> \<not> lk_cancelled l"
  using assms
proof (induction deadline looks rule: wait_for_ready_pod.induct)
  case (2 deadline l ls)
  then have l: "\<not> lk_cancelled l" "lk_now l < deadline" by (auto split: if_splits)
  obtain pods where pods: "lk_pods l = Inr pods" using 2(2) l by (cases "lk_pods l") auto
  show ?case
  proof (cases "scan_pods pods")
    case None
    then have asleep: "\<not> lk_cancelled_asleep l" "wait_for_ready_pod deadline ls = Some (Inr pod)"
      using 2(2) l pods by (auto split: if_splits)
    obtain before k after pods' where "ls = before @ k # after" "lk_pods k = Inr pods'" "pod \<in> set pods'"
      "pod_is_ready pod" "\<not> pod_is_failed pod" "lk_now k < deadline" "\<not> lk_cancelled k"
      "list_all (\<lambda>l. \<not> lk_cancelled l \<and> \<not> lk_cancelled_asleep l \<and> lk_now l < deadline) before"
      using 2(1) l pods None asleep by auto
    then show ?thesis
      using l asleep by - (rule exI[of _ "l # before"], rule exI[of _ k], rule exI[of _ after], simp)
  next
    case (Some r)
    then have "scan_pods pods = Some (Inr pod)" using 2(2) l pods by simp
    from scan_pods_SomeD[OF this] show ?thesis
      using l pods by - (rule exI[of _ "[]"], rule exI[of _ l], rule exI[of _ ls], simp)
  qed
qed simp

definition ready_pod :: Pod where
  "ready_pod = \<lparr>pd_name = Some ''w'',
     pd_status = Some \<lparr>pt_phase = Some ''Running'', pt_pod_ip = None, pt_conditions = Some [(''Ready'', ''True'')]\<rparr>\<rparr>"

theorem pod_wait_sound_witness:
  "\<exists>before l after pods. [sample_look 0 [], sample_look 1 [ready_pod]] = before @ l # after \<and> lk_pods l = Inr pods \<and>
    ready_pod \<in> set pods \<and> pod_is_ready ready_pod \<and> \<not> pod_is_failed ready_pod \<and> lk_now l < 9 \<and>
    list_all (\<lambda>l. \<not> lk_cancelled l \<and> \<not> lk_cancelled_asleep l \<and> lk_now l < 9) before \<and> \<not> lk_cancelled l"
  by (rule pod_wait_sound) (simp add: sample_look_def ready_pod_def pod_is_ready_def pod_is_failed_def)

section \<open>Volume names\<close>

lemma sanitize_loop_set:
  "set (sanitize_loop out d s) \<subseteq> set out \<union> {c \<in> set s. is_ascii_alphanumeric c} \<union> {CHR ''-''}"
  by (induction out d s rule: sanitize_loop.induct) auto

lemma trim_matches_set: "set (trim_matches c s) \<subseteq> set s"
  by (auto simp: trim_matches_def dest!: set_dropWhileD)

lemma dropWhile_hd_not: "dropWhile P s \<noteq> [] \<Longrightarrow> \<not> P (hd (dropWhile P s))"
  by (rule hd_dropWhile) (simp add: dropWhile_eq_Nil_conv)

lemma trim_matches_hd:
  assumes "trim_matches c s \<noteq> []"
  shows "hd (trim_matches c s) \<noteq> c"
proof -
  define t where "t = dropWhile ((=) c) s"
  have prefix: "\<exists>ys. t = trim_matches c s @ ys"
    unfolding trim_matches_def t_def[symmetric]
    by (metis rev_append rev_rev_ident takeWhile_dropWhile_id)
  then have "t \<noteq> []" "hd t = hd (trim_matches c s)" using assms by auto
  with dropWhile_hd_not[of "(=) c" s] show ?thesis by (auto simp: t_def)
qed

text \<open>
  A sanitized label has between one and 45 characters, all of them lower-case letters, digits or
  dashes, and does not start with a dash.
\<close>

theorem sanitized_label_shape:
  "sanitize_dns_label v \<noteq> [] \<and> length (sanitize_dns_label v) \<le> 45 \<and> hd (sanitize_dns_label v) \<noteq> CHR ''-'' \<and>
   set (sanitize_dns_label v) \<subseteq>
     {c. is_ascii_alphanumeric c \<and> to_ascii_lowercase_char c = c} \<union> {CHR ''-''}"
proof -
  define trimmed where "trimmed = trim_matches (CHR ''-'') (sanitize_loop [] False (to_ascii_lowercase v))"
  have chars: "set trimmed \<subseteq> {c. is_ascii_alphanumeric c \<and> to_ascii_lowercase_char c = c} \<union> {CHR ''-''}"
    using trim_matches_set[of "CHR ''-''" "sanitize_loop [] False (to_ascii_lowercase v)"]
      sanitize_loop_set[of "[]" False "to_ascii_lowercase v"]
    by (auto simp: trimmed_def to_ascii_lowercase_def)
  show ?thesis
  proof (cases "trimmed = []")
    case True
    then have "sanitize_dns_label v = ''volume''" by (simp add: sanitize_dns_label_def trimmed_def[symmetric])
    then show ?thesis
      by (simp add: is_ascii_alphanumeric_def is_ascii_digit_def byte_of_def to_ascii_lowercase_char_def)
  next
    case False
    then have label: "sanitize_dns_label v = take 45 trimmed"
      by (simp add: sanitize_dns_label_def trimmed_def[symmetric])
    have "hd trimmed \<noteq> CHR ''-''" using False trim_matches_hd by (simp add: trimmed_def)
    then show ?thesis using False chars set_take_subset[of 45 trimmed] unfolding label by (auto simp: hd_take)
  qed
qed

text \<open>
  A label is cut to 45 characters after its dashes were trimmed, so that the name of a snapshot
  volume can end with a dash, which Kubernetes does not accept.
\<close>

theorem volume_name_ends_with_dash:
  "last (snapshot_clone_pvc_name ''data'' (replicate 44 CHR ''a'' @ ''-b'')) = CHR ''-''"
  by code_simp

section \<open>Jobs that are deleted, and Jobs that are not\<close>

text \<open>
  What Kubernetes documents: a created Job exists; a deletion that is carried out removes the Job of that name and
  no other; one that is answered with 404 found no Job of that name. Any request may fail otherwise.
\<close>

definition kube_ok :: "'s kube_api \<Rightarrow> (string \<Rightarrow> 's \<Rightarrow> bool) \<Rightarrow> bool" where
  "kube_ok api job_exists \<longleftrightarrow>
     (\<forall>job s s' name. ka_create api job s = Inr s' \<longrightarrow> om_name (jb_metadata job) = Some name \<longrightarrow> job_exists name s') \<and>
     (\<forall>name s s'. ka_delete api name s = Inr s' \<longrightarrow>
        \<not> job_exists name s' \<and> (\<forall>other. other \<noteq> name \<longrightarrow> job_exists other s' = job_exists other s)) \<and>
     (\<forall>name s. ka_delete api name s = Inl (ApiError 404) \<longrightarrow> \<not> job_exists name s)"

lemma build_job_name: "build_job to_json f name spec config = Inr job \<Longrightarrow> om_name (jb_metadata job) = Some name"
  by (auto simp: build_job_def result_bind_Inr_iff Let_def)

lemma delete_in_cluster_cluster:
  "dv_cluster (delete_in_cluster api name s) = (case ka_delete api name (dv_cluster s) of Inr c \<Rightarrow> c | Inl _ \<Rightarrow> dv_cluster s)"
  by (auto simp: delete_in_cluster_def delete_job_background_def split: sum.splits DeleteError.splits)

lemma cleanup_watchers: "dv_watchers (schedule_cleanup api i s) = dv_watchers s"
  by (simp add: schedule_cleanup_def delete_in_cluster_def Let_def)

lemma spawn_effect:
  assumes "spawn to_json f api driver spec token cancelled connected s = (r, s')" and "s' \<noteq> s"
  obtains cluster job where "build_job to_json f (job_name_for spec) spec (kd_config driver) = Inr job"
    and "ka_create api job (dv_cluster s) = Inr cluster" and "dv_cluster s' = cluster"
    and "dv_watchers s' = dv_watchers s @ [(token, job_name_for spec)]"
    and "\<And>e. connected = Inl e \<Longrightarrow> r = Inl e \<and> dv_streams s' = dv_streams s"
    and "\<And>x. connected = Inr x \<Longrightarrow> r = Inr (length (dv_streams s)) \<and>
      dv_streams s' = dv_streams s @ [\<lparr>cs_job_name = job_name_for spec, cs_jobs = True\<rparr>]"
  using assms
  by (auto simp: spawn_def Let_def spawn_cancel_delete_task_def split: if_splits sum.splits)

lemma spawn_opened:
  assumes "spawn to_json f api driver spec token cancelled connected s = (Inr i, s')"
  shows "i = length (dv_streams s) \<and> (token, job_name_for spec) \<in> set (dv_watchers s') \<and>
    dv_streams s' = dv_streams s @ [\<lparr>cs_job_name = job_name_for spec, cs_jobs = True\<rparr>]"
  using assms by (auto simp: spawn_def Let_def spawn_cancel_delete_task_def split: if_splits sum.splits)

text \<open>
  A stream that is opened and later dropped, or polled to its end and then dropped, asks for its Job to be
  deleted once; if the API carries that out, the Job is gone.
\<close>

theorem stream_cleanup_deletes:
  assumes "kube_ok api job_exists"
    and "spawn to_json f api driver spec token cancelled connected s = (Inr i, s')"
    and "ka_delete api (job_name_for spec) (dv_cluster s') = Inr cluster"
  shows "dv_cluster (drop_stream api i s') = cluster \<and> \<not> job_exists (job_name_for spec) cluster \<and>
    drop_stream api i (poll_next api i True s') = drop_stream api i s'"
proof -
  have "i = length (dv_streams s)" "dv_streams s' = dv_streams s @ [\<lparr>cs_job_name = job_name_for spec, cs_jobs = True\<rparr>]"
    using spawn_opened[OF assms(2)] by simp_all
  then show ?thesis
    using assms(1,3)
    by (auto simp: drop_stream_def poll_next_def schedule_cleanup_def Let_def delete_in_cluster_def delete_job_background_def kube_ok_def)
qed

text \<open>
  When the Job was created but its stream cannot be opened, the driver returns the error and leaves
  the Job in the cluster, with no stream whose end would delete it.
\<close>

theorem job_left_behind:
  assumes "kube_ok api job_exists"
    and "spawn to_json f api driver spec token cancelled (Inl e) s = (r, s')" and "s' \<noteq> s"
  shows "r = Inl e \<and> job_exists (job_name_for spec) (dv_cluster s') \<and> dv_streams s' = dv_streams s"
proof -
  obtain cluster job where "build_job to_json f (job_name_for spec) spec (kd_config driver) = Inr job"
    "ka_create api job (dv_cluster s) = Inr cluster" "dv_cluster s' = cluster" "r = Inl e" "dv_streams s' = dv_streams s"
    using spawn_effect[OF assms(2,3)] by metis
  then show ?thesis using assms(1) build_job_name by (auto simp: kube_ok_def)
qed

text \<open>
  C38. The cancellation watcher of a finished run stays armed. After a run under one token has ended and its stream
  was dropped, let the same query run again under another token. Cancelling the token of the finished run then
  sends a delete request for the Job of the new run, which exists; if the API carries it out, that Job is gone.
\<close>

theorem late_cancel_deletes_other_run:
  assumes "kube_ok api job_exists"
    and "old \<notin> fst ` set (dv_watchers s)" and "new \<noteq> old"
    and "spawn to_json f api driver spec old False connected s = (Inr i, s1)"
    and "spawn to_json f api driver spec new False connected' (drop_stream api i s1) = (Inr j, s2)"
  shows "job_exists (job_name_for spec) (dv_cluster s2) \<and>
    dv_cluster (cancel_token api old s2) =
      (case ka_delete api (job_name_for spec) (dv_cluster s2) of Inr cluster \<Rightarrow> cluster | Inl _ \<Rightarrow> dv_cluster s2) \<and>
    (\<forall>cluster. ka_delete api (job_name_for spec) (dv_cluster s2) = Inr cluster \<longrightarrow> \<not> job_exists (job_name_for spec) cluster)"
proof -
  have "s1 \<noteq> s" "s2 \<noteq> drop_stream api i s1" using spawn_opened[OF assms(4)] spawn_opened[OF assms(5)] by auto
  then obtain cluster job where job: "build_job to_json f (job_name_for spec) spec (kd_config driver) = Inr job"
    "ka_create api job (dv_cluster (drop_stream api i s1)) = Inr cluster" "dv_cluster s2 = cluster"
    and watchers: "dv_watchers s1 = dv_watchers s @ [(old, job_name_for spec)]"
      "dv_watchers s2 = dv_watchers (drop_stream api i s1) @ [(new, job_name_for spec)]"
    using spawn_effect[OF assms(4)] spawn_effect[OF assms(5)] by metis
  have "filter (\<lambda>(t, _). t = old) (dv_watchers s) = []" using assms(2) by (force simp: filter_empty_conv)
  then have "filter (\<lambda>(t, _). t = old) (dv_watchers s2) = [(old, job_name_for spec)]"
    using watchers assms(3) by (simp add: drop_stream_def cleanup_watchers)
  then have "dv_cluster (cancel_token api old s2) =
      (case ka_delete api (job_name_for spec) (dv_cluster s2) of Inr cluster \<Rightarrow> cluster | Inl _ \<Rightarrow> dv_cluster s2)"
    by (simp add: cancel_token_def delete_in_cluster_cluster split: sum.split)
  with assms(1) job build_job_name[OF job(1)] show ?thesis by (simp add: kube_ok_def)
qed

subsection \<open>A cluster of job names\<close>

definition name_api :: "string set kube_api" where
  "name_api =
     \<lparr>ka_create = \<lambda>job names.
        (case om_name (jb_metadata job) of
           None \<Rightarrow> Inl ''name required''
         | Some name \<Rightarrow> if name \<in> names then Inl ''already exists'' else Inr (insert name names)),
      ka_delete = \<lambda>name names. if name \<in> names then Inr (names - {name}) else Inl (ApiError 404)\<rparr>"

lemma name_api_delete [simp]:
  "ka_delete name_api name names = (if name \<in> names then Inr (names - {name}) else Inl (ApiError 404))"
  by (simp add: name_api_def)

lemma name_api_ok: "kube_ok name_api (\<in>)"
  by (auto simp: kube_ok_def name_api_def split: option.splits if_splits)

definition sample_driver :: K8sIsolatedDriver where
  "sample_driver = \<lparr>kd_client = True, kd_config = sample_config\<rparr>"

definition no_jobs :: "string set driver_state" where
  "no_jobs = \<lparr>dv_cluster = {}, dv_watchers = [], dv_streams = []\<rparr>"

definition sample_spawn :: "nat \<Rightarrow> DriverError + unit \<Rightarrow> string set driver_state \<Rightarrow> (DriverError + nat) \<times> string set driver_state" where
  "sample_spawn token connected s =
     spawn (\<lambda>_. Inr ''{}'') False name_api sample_driver sample_spec token False connected s"

lemma sample_spawn_runs:
  assumes "job_name_for sample_spec \<notin> dv_cluster s"
  shows "sample_spawn token connected s =
    (let s' = s\<lparr>dv_cluster := insert (job_name_for sample_spec) (dv_cluster s),
                dv_watchers := dv_watchers s @ [(token, job_name_for sample_spec)]\<rparr>
     in case connected of
          Inl e \<Rightarrow> (Inl e, s')
        | Inr _ \<Rightarrow> (Inr (length (dv_streams s)),
            s'\<lparr>dv_streams := dv_streams s @ [\<lparr>cs_job_name = job_name_for sample_spec, cs_jobs = True\<rparr>]\<rparr>))"
proof -
  obtain job where "build_job (\<lambda>_. Inr ''{}'') False (job_name_for sample_spec) sample_spec sample_config = Inr job"
    by (simp add: build_job_def sample_spec_def base_env_def Let_def)
  then show ?thesis
    using assms build_job_name
    by (cases s) (fastforce simp: sample_spawn_def spawn_def sample_driver_def name_api_def Let_def
        spawn_cancel_delete_task_def split: sum.split)
qed

theorem stream_cleanup_deletes_witness:
  "job_name_for sample_spec \<notin> dv_cluster (drop_stream name_api 0 (snd (sample_spawn 1 (Inr ()) no_jobs)))"
  using stream_cleanup_deletes[OF name_api_ok, of "\<lambda>_. Inr ''{}''" False sample_driver sample_spec 1 False "Inr ()" no_jobs
      0 "snd (sample_spawn 1 (Inr ()) no_jobs)" "{}"] sample_spawn_runs[of no_jobs 1 "Inr ()"]
  by (simp add: sample_spawn_def[symmetric] no_jobs_def)

theorem job_left_behind_witness:
  "job_name_for sample_spec \<in> dv_cluster (snd (sample_spawn 1 (Inl Timeout) no_jobs))"
  using job_left_behind[OF name_api_ok, of "\<lambda>_. Inr ''{}''" False sample_driver sample_spec 1 False Timeout no_jobs
      "Inl Timeout" "snd (sample_spawn 1 (Inl Timeout) no_jobs)"] sample_spawn_runs[of no_jobs 1 "Inl Timeout"]
  by (simp add: sample_spawn_def[symmetric] no_jobs_def)

theorem late_cancel_deletes_other_run_witness:
  "let s1 = snd (sample_spawn 1 (Inr ()) no_jobs); s2 = snd (sample_spawn 2 (Inr ()) (drop_stream name_api 0 s1))
   in job_name_for sample_spec \<in> dv_cluster s2 \<and>
      job_name_for sample_spec \<notin> dv_cluster (cancel_token name_api 1 s2)"
proof -
  define s1 where "s1 = snd (sample_spawn 1 (Inr ()) no_jobs)"
  define s2 where "s2 = snd (sample_spawn 2 (Inr ()) (drop_stream name_api 0 s1))"
  have first: "sample_spawn 1 (Inr ()) no_jobs = (Inr 0, s1)"
    using sample_spawn_runs[of no_jobs 1 "Inr ()"] by (simp add: s1_def no_jobs_def Let_def)
  have "job_name_for sample_spec \<notin> dv_cluster (drop_stream name_api 0 s1)"
    using sample_spawn_runs[of no_jobs 1 "Inr ()"]
    by (simp add: s1_def no_jobs_def Let_def drop_stream_def schedule_cleanup_def delete_in_cluster_cluster)
  then obtain j where second: "sample_spawn 2 (Inr ()) (drop_stream name_api 0 s1) = (Inr j, s2)"
    using sample_spawn_runs[of "drop_stream name_api 0 s1" 2 "Inr ()"] by (simp add: s2_def Let_def)
  show ?thesis
    using late_cancel_deletes_other_run[OF name_api_ok _ _ first[unfolded sample_spawn_def] second[unfolded sample_spawn_def]]
    unfolding s1_def[symmetric] s2_def[symmetric] Let_def by (simp add: no_jobs_def)
qed

end
