(* ===== verification/QF_Pool.thy ===== *)
theory QF_Pool
  imports QF_ClickHouse_Cost QF_Governance QF_Tokens "HOL-Library.AList"
begin

text \<open>
  Sources of statistics and caches of connections and results.

  \<^item> \<^verbatim>\<open>queryfabric-contract/src/stats.rs\<close> and \<^verbatim>\<open>queryfabric-catalog/src/stats_source.rs\<close>: statistics
    that the host supplies for resources, and the catalog overlay that prefers them.
  \<^item> \<^verbatim>\<open>queryfabric-flight-pool/src/lib.rs\<close>: the pool of Flight channels; the lock-free map is an
    association list with distinct keys, the clock an argument, and connecting a function.
  \<^item> \<^verbatim>\<open>queryfabric-flight-cache/src/lib.rs\<close>: the path of a cached result. Writing Parquet files is I/O of
    external crates.

  Shown: the overlay answers from the source exactly for bound resources the source knows, also
  through the cost estimate; reaping removes exactly the idle channels and counts them; the pool
  panics on an endpoint that is no URI; a cache path can leave the cache directory.
\<close>

section \<open>Statistics of the host\<close>

record RelationStats =
  rs_estimated_rows :: u64
  rs_average_row_bytes :: u64

type_synonym StatisticsSource = "ResourceRef \<Rightarrow> RelationStats option"

definition relation_statistics_from_source :: "StatisticsSource \<Rightarrow> ResourceRef \<Rightarrow> string \<Rightarrow> RelationStatistics option" where
  "relation_statistics_from_source source resource relation =
     map_option (\<lambda>stats.
       \<lparr>st_relation = relation, st_estimated_rows = rs_estimated_rows stats,
        st_average_row_bytes = rs_average_row_bytes stats, st_shard_count = None\<rparr>) (source resource)"

record StatisticsOverlayCatalog =
  so_inner :: Catalog
  so_inner_statistics :: statistics
  so_source :: StatisticsSource
  so_bindings :: "(string option \<times> string, ResourceRef) btree_map"

definition StatisticsOverlayCatalog_new :: "Catalog \<Rightarrow> statistics \<Rightarrow> StatisticsSource \<Rightarrow> StatisticsOverlayCatalog" where
  "StatisticsOverlayCatalog_new inner statistics source =
     \<lparr>so_inner = inner, so_inner_statistics = statistics, so_source = source, so_bindings = []\<rparr>"

definition bind_resource :: "string option \<Rightarrow> string \<Rightarrow> ResourceRef \<Rightarrow> StatisticsOverlayCatalog \<Rightarrow> StatisticsOverlayCatalog" where
  "bind_resource namespace name resource layer =
     layer\<lparr>so_bindings := bt_insert (namespace, to_ascii_lowercase name) resource (so_bindings layer)\<rparr>"

text \<open>Resolution is that of the wrapped catalog.\<close>

definition overlay_catalog :: "StatisticsOverlayCatalog \<Rightarrow> Catalog" where
  "overlay_catalog layer =
     \<lparr>cat_snapshot_id = cat_snapshot_id (so_inner layer),
      cat_resolve_function = (\<lambda>namespace name. cat_resolve_function (so_inner layer) namespace name),
      cat_resolve_relation = (\<lambda>namespace name. cat_resolve_relation (so_inner layer) namespace name)\<rparr>"

definition overlay_statistics :: "StatisticsOverlayCatalog \<Rightarrow> statistics" where
  "overlay_statistics layer namespace name =
     (case Option.bind (bt_get (so_bindings layer) (namespace, to_ascii_lowercase name))
             (\<lambda>resource. relation_statistics_from_source (so_source layer) resource name) of
        Some stats \<Rightarrow> Some stats
      | None \<Rightarrow> so_inner_statistics layer namespace name)"

section \<open>Flight channels\<close>

record ('k, 'c) FlightChannelPool =
  fp_channels :: "('k \<times> 'c \<times> nat) list"
  fp_connect_timeout :: nat
  fp_request_timeout :: nat

definition FlightChannelPool_new :: "nat \<Rightarrow> ('k, 'c) FlightChannelPool" where
  "FlightChannelPool_new connect_timeout =
     \<lparr>fp_channels = [], fp_connect_timeout = connect_timeout, fp_request_timeout = 300\<rparr>"

definition with_request_timeout :: "nat \<Rightarrow> nat \<Rightarrow> ('k, 'c) FlightChannelPool" where
  "with_request_timeout connect_timeout request_timeout =
     \<lparr>fp_channels = [], fp_connect_timeout = connect_timeout, fp_request_timeout = request_timeout\<rparr>"

definition pool_is_empty :: "('k, 'c) FlightChannelPool \<Rightarrow> bool" where
  "pool_is_empty pool \<longleftrightarrow> fp_channels pool = []"

text \<open>\<open>from_shared\<close> says whether a text is a URI, \<open>connect\<close> connects with the two timeouts of the pool.\<close>

definition get_client ::
  "(string \<Rightarrow> bool) \<Rightarrow> (nat \<Rightarrow> nat \<Rightarrow> string \<Rightarrow> string + 'c) \<Rightarrow> 'k \<Rightarrow> string \<Rightarrow> bool \<Rightarrow> nat \<Rightarrow> ('k, 'c) FlightChannelPool
    \<Rightarrow> (string + 'c) outcome \<times> ('k, 'c) FlightChannelPool" where
  "get_client from_shared connect key endpoint tls now pool =
     (case map_of (fp_channels pool) key of
        Some (channel, _) \<Rightarrow>
          (Returns (Inr channel), pool\<lparr>fp_channels := AList.update key (channel, now) (fp_channels pool)\<rparr>)
      | None \<Rightarrow>
          let uri = (if tls then ''https'' else ''http'') @ ''://'' @ endpoint
          in if \<not> from_shared uri then (Panics, pool)
             else (case connect (fp_connect_timeout pool) (fp_request_timeout pool) uri of
                     Inl e \<Rightarrow> (Returns (Inl e), pool)
                   | Inr channel \<Rightarrow>
                       (Returns (Inr channel), pool\<lparr>fp_channels := AList.update key (channel, now) (fp_channels pool)\<rparr>)))"

definition remove_channel :: "'k \<Rightarrow> ('k, 'c) FlightChannelPool \<Rightarrow> ('k, 'c) FlightChannelPool" where
  "remove_channel key pool = pool\<lparr>fp_channels := AList.delete key (fp_channels pool)\<rparr>"

definition reap_stale_connections :: "nat \<Rightarrow> nat \<Rightarrow> ('k, 'c) FlightChannelPool \<Rightarrow> nat \<times> ('k, 'c) FlightChannelPool" where
  "reap_stale_connections max_idle now pool =
     (let stale = map fst (filter (\<lambda>(_, _, last_used). max_idle < now - last_used) (fp_channels pool))
      in (length stale, fold remove_channel stale pool))"

section \<open>Cached results\<close>

text \<open>\<^verbatim>\<open>Path::join\<close>: an absolute path replaces the directory. \<open>md5_hex\<close> is the hexadecimal MD5 digest.\<close>

definition join_path :: "string \<Rightarrow> string \<Rightarrow> string" where
  "join_path dir p = (if starts_with_char (CHR ''/'') p then p else path_join dir p)"

definition cache_path :: "(string \<Rightarrow> string) \<Rightarrow> string \<Rightarrow> string \<Rightarrow> string" where
  "cache_path md5_hex cache_dir query_key =
     join_path cache_dir (query_key @ ''_'' @ take 12 (md5_hex query_key) @ ''.parquet'')"

section \<open>The overlay\<close>

text \<open>
  After a resource is bound, the statistics of every spelling of the relation's name are those of the
  source when it has any, and every other answer of the catalog is unchanged.
\<close>

theorem overlay_answers:
  "overlay_statistics (bind_resource ns name resource layer) ns' name' =
     (if ns' = ns \<and> eq_ignore_ascii_case name' name
      then case relation_statistics_from_source (so_source layer) resource name' of
             Some stats \<Rightarrow> Some stats
           | None \<Rightarrow> so_inner_statistics layer ns' name'
      else overlay_statistics layer ns' name') \<and>
   overlay_catalog (bind_resource ns name resource layer) = overlay_catalog layer"
  by (auto simp: overlay_statistics_def bind_resource_def bt_get_insert eq_ignore_ascii_case_def
      overlay_catalog_def split: option.splits)

section \<open>Reaping\<close>

lemma fold_remove_channel:
  "fp_channels (fold remove_channel keys pool) = filter (\<lambda>(k, _). k \<notin> set keys) (fp_channels pool) \<and>
   fp_connect_timeout (fold remove_channel keys pool) = fp_connect_timeout pool \<and>
   fp_request_timeout (fold remove_channel keys pool) = fp_request_timeout pool"
  by (induction keys arbitrary: pool) (auto simp: remove_channel_def AList.delete_eq intro: filter_cong)

lemma distinct_get_client:
  "distinct (map fst (fp_channels pool)) \<Longrightarrow>
   distinct (map fst (fp_channels (snd (get_client from_shared connect key endpoint tls now pool))))"
  by (auto simp: get_client_def Let_def distinct_update split: option.splits sum.splits prod.splits)

text \<open>
  Reaping keeps exactly the channels that were used within the idle time, and reports how many it
  removed.
\<close>

theorem reap_exact:
  assumes "distinct (map fst (fp_channels pool))"
  shows "reap_stale_connections max_idle now pool =
    (length (fp_channels pool) - length (filter (\<lambda>(_, _, used). now - used \<le> max_idle) (fp_channels pool)),
     pool\<lparr>fp_channels := filter (\<lambda>(_, _, used). now - used \<le> max_idle) (fp_channels pool)\<rparr>)"
proof -
  define stale where "stale = map fst (filter (\<lambda>(_, _, used). max_idle < now - used) (fp_channels pool))"
  have keep: "(k \<notin> set stale) = (now - used \<le> max_idle)" if "(k, c, used) \<in> set (fp_channels pool)" for k c used
  proof
    assume "k \<notin> set stale"
    with that show "now - used \<le> max_idle" by (force simp: stale_def image_iff not_le)
  next
    assume "now - used \<le> max_idle"
    moreover have "c' = c \<and> used' = used" if "(k, c', used') \<in> set (fp_channels pool)" for c' used'
      using eq_key_imp_eq_value[OF assms that \<open>(k, c, used) \<in> set (fp_channels pool)\<close>] by simp
    ultimately show "k \<notin> set stale" by (auto simp: stale_def not_less)
  qed
  have "filter (\<lambda>(k, _). k \<notin> set stale) (fp_channels pool) = filter (\<lambda>(_, _, used). now - used \<le> max_idle) (fp_channels pool)"
    using keep by (intro filter_cong) auto
  moreover have "length stale = length (fp_channels pool) - length (filter (\<lambda>(_, _, used). now - used \<le> max_idle) (fp_channels pool))"
    using sum_length_filter_compl[of "\<lambda>(_, _, used). now - used \<le> max_idle" "fp_channels pool"]
    by (simp add: stale_def split_def not_le)
  ultimately show ?thesis
    using fold_remove_channel[of stale pool]
    unfolding reap_stale_connections_def stale_def[symmetric] Let_def by (cases pool) simp
qed

theorem reap_exact_witness:
  "reap_stale_connections 10 100 \<lparr>fp_channels = [(''a'', (), 95), (''b'', (), 80)], fp_connect_timeout = 5, fp_request_timeout = 300\<rparr> =
   (1, \<lparr>fp_channels = [(''a'', (), 95)], fp_connect_timeout = 5, fp_request_timeout = 300\<rparr>)"
  using reap_exact[of "\<lparr>fp_channels = [(''a'', (), 95), (''b'', (), 80)], fp_connect_timeout = 5, fp_request_timeout = 300\<rparr>" 10 100]
  by simp

text \<open>
  Asking for a client of an uncached key panics when its endpoint does not form a URI.
\<close>

theorem pool_panics_on_bad_endpoint:
  "get_client (\<lambda>uri. CHR '' '' \<notin> set uri) connect key ''bad host:1'' tls now (FlightChannelPool_new t) =
   (Panics, FlightChannelPool_new t)"
  by (simp add: get_client_def FlightChannelPool_new_def Let_def)

text \<open>
  The path of a cached result whose query key begins with a slash lies outside the cache directory.
\<close>

theorem cache_path_escapes:
  "cache_path md5_hex cache_dir (''/'' @ rest) = ''/'' @ rest @ ''_'' @ take 12 (md5_hex (''/'' @ rest)) @ ''.parquet''"
  by (simp add: cache_path_def join_path_def starts_with_char_def)

end
