(* ===== verification/QF_Syql.thy ===== *)
theory QF_Syql
  imports QF_Sql QF_Catalog QF_Types QF_Syntax
begin

text \<open>
  The text layer of the dialects: \<^verbatim>\<open>queryfabric-dialect-sql/src\<close> (\<^verbatim>\<open>source_map.rs\<close>, \<^verbatim>\<open>lib.rs\<close>, the entry of
  \<^verbatim>\<open>lower.rs\<close> and the text helpers of \<^verbatim>\<open>helpers.rs\<close>) and \<^verbatim>\<open>queryfabric-dialect-syql/src/lib.rs\<close>. The parser of
  the external sqlparser crate and the lowering of its syntax tree are functions of the record
  \<open>sql_parser\<close>; offsets and columns count bytes.

  Shown: every piece of the source map of a SyQL query maps to the text of the query it was made
  from, the stripped \<^verbatim>\<open>EXPLAIN\<close> leaves the offsets of the body right, the span of a node of plain SQL is
  always the whole body, statements after the first are dropped, and directives are recognised
  inside string literals.
\<close>

section \<open>Source maps\<close>

record SourcePiece =
  sp_rewritten_start :: nat
  sp_rewritten_len :: nat
  sp_origin :: "QuerySourceSpan option"

record SourceMap =
  sm_rewritten_sql :: string
  sm_pieces :: "SourcePiece list"
  sm_line_starts :: "nat list"

definition newline_char :: char where
  "newline_char = char_of (10::nat)"

definition compute_line_starts :: "string \<Rightarrow> nat list" where
  "compute_line_starts input =
     0 # map (\<lambda>(idx, _). idx + 1) (filter (\<lambda>(_, ch). ch = newline_char) (enumerate 0 input))"

definition SourceMap_new :: "string \<Rightarrow> SourcePiece list \<Rightarrow> SourceMap" where
  "SourceMap_new rewritten_sql pieces =
     \<lparr>sm_rewritten_sql = rewritten_sql, sm_pieces = pieces, sm_line_starts = compute_line_starts rewritten_sql\<rparr>"

definition SourceMap_identity :: "string \<Rightarrow> nat \<Rightarrow> SourceMap" where
  "SourceMap_identity body body_offset =
     SourceMap_new body
       [\<lparr>sp_rewritten_start = 0, sp_rewritten_len = length body,
         sp_origin = Some \<lparr>qs_offset = body_offset, qs_len = length body\<rparr>\<rparr>]"

record Location =
  lo_line :: nat
  lo_column :: nat

record SqlSpan =
  sn_start :: Location
  sn_end :: Location

definition SqlSpan_empty :: SqlSpan where
  "SqlSpan_empty = \<lparr>sn_start = \<lparr>lo_line = 0, lo_column = 0\<rparr>, sn_end = \<lparr>lo_line = 0, lo_column = 0\<rparr>\<rparr>"

definition location_to_offset :: "SourceMap \<Rightarrow> Location \<Rightarrow> nat option" where
  "location_to_offset m location =
     (if lo_line location = 0 \<or> lo_column location = 0 then None
      else if lo_line location - 1 < length (sm_line_starts m)
      then Some (sm_line_starts m ! (lo_line location - 1) + (lo_column location - 1))
      else None)"

definition span_to_rewritten :: "SourceMap \<Rightarrow> SqlSpan \<Rightarrow> QuerySourceSpan option" where
  "span_to_rewritten m span =
     (if span = SqlSpan_empty then None
      else Option.bind (location_to_offset m (sn_start span)) (\<lambda>start.
           Option.bind (location_to_offset m (sn_end span)) (\<lambda>stop.
           Some \<lparr>qs_offset = start, qs_len = max (stop - start) 1\<rparr>)))"

definition overlapping_origin :: "QuerySourceSpan \<Rightarrow> SourcePiece \<Rightarrow> QuerySourceSpan option" where
  "overlapping_origin rewritten piece =
     (if sp_rewritten_start piece < span_end rewritten \<and>
         qs_offset rewritten < sp_rewritten_start piece + sp_rewritten_len piece
      then sp_origin piece else None)"

definition map_sql_span :: "SourceMap \<Rightarrow> SqlSpan \<Rightarrow> QuerySourceSpan option" where
  "map_sql_span m span =
     Option.bind (span_to_rewritten m span) (\<lambda>rewritten.
       reduce span_union (List.map_filter (overlapping_origin rewritten) (sm_pieces m)))"

section \<open>Plain SQL\<close>

definition strip_leading_explain :: "string \<Rightarrow> bool \<times> string \<times> nat" where
  "strip_leading_explain input =
     (let trimmed_start = length input - length (trim_start input);
          trimmed = drop trimmed_start input;
          upper = to_ascii_uppercase trimmed
      in if upper = ''EXPLAIN'' then (True, [], length input)
         else if starts_with upper ''EXPLAIN'' \<and> (drop 7 trimmed = [] \<or> is_ascii_space (hd (drop 7 trimmed)))
         then let rest_trimmed = trim_start (drop 7 trimmed)
              in (True, rest_trimmed, length input - length rest_trimmed)
         else (False, trimmed, trimmed_start))"

text \<open>
  The external parser, the recognition of a query statement, the lowering of its syntax tree under a
  source map, with its diagnostics, and its canonical text.
\<close>

record ('statement, 'query) sql_parser =
  pa_parse_sql :: "string \<Rightarrow> string + 'statement list"
  pa_as_query :: "'statement \<Rightarrow> 'query option"
  pa_lower_query :: "SourceMap \<Rightarrow> 'query \<Rightarrow> SyntaxQuery \<times> QueryDiagnostic list"
  pa_to_string :: "'query \<Rightarrow> string"

definition parse_sql_with_source_map ::
  "('statement, 'query) sql_parser \<Rightarrow> string \<Rightarrow> string \<Rightarrow> SourceMap \<Rightarrow> bool \<Rightarrow> DialectMetadata \<Rightarrow> ParsedQuery result" where
  "parse_sql_with_source_map parser dialect_name source_sql source_map explain dialect_metadata =
     (if trim (sm_rewritten_sql source_map) = [] then Inl (Parse ''empty query body'')
      else case pa_parse_sql parser (sm_rewritten_sql source_map) of
        Inl error \<Rightarrow> Inl (Parse error)
      | Inr [] \<Rightarrow> Inl (Parse ''no statement found'')
      | Inr (statement # _) \<Rightarrow>
          (case pa_as_query parser statement of
             None \<Rightarrow> Inl (UnsupportedFeature ''non-query statement''
               ''QueryFabric currently accepts only SELECT/UNION query statements.'')
           | Some query \<Rightarrow>
               (case pa_lower_query parser source_map query of
                  (syntax, diagnostics) \<Rightarrow>
                    Inr (with_lowering_diagnostics diagnostics (with_syntax syntax
                      (with_dialect_metadata dialect_metadata (with_explain explain
                        (ParsedQuery_new dialect_name source_sql (pa_to_string parser query)))))))))"

definition parse_sql_query :: "('statement, 'query) sql_parser \<Rightarrow> string \<Rightarrow> ParsedQuery result" where
  "parse_sql_query parser input =
     (if trim input = [] then Inl (Parse ''empty query'')
      else case strip_leading_explain input of
        (explain, body, body_offset) \<Rightarrow>
          parse_sql_with_source_map parser ''sql'' input (SourceMap_identity body body_offset) explain DialectMetadata_default)"

definition emit_unsupported_span :: "QuerySourceSpan option \<Rightarrow> string \<Rightarrow> string \<Rightarrow> QueryDiagnostic list \<Rightarrow> QueryDiagnostic list" where
  "emit_unsupported_span span path description diagnostics =
     (let diagnostic = with_remediation ''Rewrite the query using the verified portable subset.''
            (with_node_id path (QueryDiagnostic_error ''QF0000'' description))
      in diagnostics @ [case span of Some s \<Rightarrow> with_span s diagnostic | None \<Rightarrow> diagnostic])"

text \<open>The parts of an object name are given by their texts.\<close>

fun lower_name_ref :: "string list \<Rightarrow> NameRef" where
  "lower_name_ref [name] = NameRef None name"
| "lower_name_ref [namespace, name] = NameRef (Some namespace) name"
| "lower_name_ref parts = NameRef None (join_with ''.'' parts)"

fun lower_function_ref :: "string list \<Rightarrow> FunctionRef" where
  "lower_function_ref [name] = FunctionRef None (to_ascii_lowercase name)"
| "lower_function_ref [namespace, name] =
     FunctionRef (Some (to_ascii_lowercase namespace)) (to_ascii_lowercase name)"
| "lower_function_ref parts = FunctionRef None (to_ascii_lowercase (join_with ''.'' parts))"

definition placeholder_to_parameter_ref :: "string \<Rightarrow> ParameterRef" where
  "placeholder_to_parameter_ref placeholder =
     (if placeholder = ''?'' then Positional 0
      else if starts_with placeholder ''$''
      then (case parse_unsigned 32 (tl placeholder) of
              Some n \<Rightarrow> Positional (of_nat n)
            | None \<Rightarrow> Named (tl placeholder))
      else Named (dropWhile (\<lambda>c. c = CHR '':'' \<or> c = CHR ''@'') placeholder))"

section \<open>SyQL\<close>

record Fragment =
  fg_text :: string
  fg_origin :: QuerySourceSpan

text \<open>The loop over the lines, with the offset of the next line.\<close>

fun syql_lines :: "nat \<Rightarrow> string list \<Rightarrow> DialectMetadata \<Rightarrow> Fragment list \<Rightarrow> DialectMetadata \<times> Fragment list" where
  "syql_lines line_offset [] metadata fragments = (metadata, fragments)"
| "syql_lines line_offset (line # lines) metadata fragments =
     (let next_offset = line_offset + length line + 1;
          trimmed_start = length line - length (trim_start line);
          trimmed = trim line;
          uppercase = to_ascii_uppercase trimmed
      in if trimmed = [] then syql_lines next_offset lines metadata fragments
         else if starts_with uppercase ''SCOPE ''
         then syql_lines next_offset lines
                (DialectMetadata_insert ''syql.scope'' (to_ascii_lowercase (drop 6 uppercase)) metadata) fragments
         else if starts_with uppercase ''DOWNLOAD ''
         then syql_lines next_offset lines
                (DialectMetadata_insert ''syql.download'' (to_ascii_lowercase (drop 9 uppercase)) metadata) fragments
         else syql_lines next_offset lines metadata
                (fragments @
                 [\<lparr>fg_text = trimmed,
                   fg_origin = \<lparr>qs_offset = line_offset + trimmed_start, qs_len = length trimmed\<rparr>\<rparr>]))"

definition rfind :: "string \<Rightarrow> string \<Rightarrow> nat option" where
  "rfind s needle = List.find (\<lambda>i. starts_with (drop i s) needle) (rev [0..<Suc (length s)])"

definition trailing_directive :: "string \<Rightarrow> string \<times> string \<Rightarrow> (string \<times> nat \<times> string \<times> string) option" where
  "trailing_directive input = (\<lambda>(needle, key).
     case rfind (to_ascii_uppercase input) needle of
       None \<Rightarrow> None
     | Some idx \<Rightarrow>
         let prefix = trim_end (take idx input); v = trim (drop (idx + length needle) input)
         in if v \<noteq> [] \<and> \<not> list_ex is_ascii_space v then Some (prefix, length prefix, v, key) else None)"

definition strip_trailing_directive :: "string \<Rightarrow> (string \<times> nat \<times> string \<times> string) option" where
  "strip_trailing_directive input =
     find_map (trailing_directive input) [('' DOWNLOAD '', ''syql.download''), ('' SCOPE '', ''syql.scope'')]"

function strip_directives :: "DialectMetadata \<Rightarrow> Fragment list \<Rightarrow> DialectMetadata \<times> Fragment list" where
  "strip_directives metadata fragments =
     (if fragments = [] then (metadata, fragments)
      else case strip_trailing_directive (fg_text (last fragments)) of
        None \<Rightarrow> (metadata, fragments)
      | Some (prefix, prefix_len, v, key) \<Rightarrow>
          strip_directives (DialectMetadata_insert key (to_ascii_lowercase v) metadata)
            (butlast fragments @
             (if prefix = [] then []
              else [\<lparr>fg_text = prefix, fg_origin = (fg_origin (last fragments))\<lparr>qs_len := prefix_len\<rparr>\<rparr>])))"
  by auto

lemma find_SomeD: "List.find P xs = Some x \<Longrightarrow> P x \<and> x \<in> set xs"
  by (induction xs) (auto split: if_splits)

lemma rfind_SomeD:
  assumes "rfind s needle = Some i"
  shows "starts_with (drop i s) needle \<and> i + length needle \<le> length s"
proof -
  have "starts_with (drop i s) needle" "i \<le> length s"
    using find_SomeD[OF assms[unfolded rfind_def]] by (auto simp del: upt_Suc)
  moreover from this(1) have "length needle \<le> length (drop i s)"
    unfolding starts_with_def by (metis length_take min.cobounded1)
  ultimately show ?thesis by simp
qed

lemma strip_trailing_directive_prefix:
  assumes "strip_trailing_directive s = Some (prefix, n, v, key)"
  shows "take n s = prefix \<and> length prefix = n \<and> n < length s"
proof -
  obtain needle k where "trailing_directive s (needle, k) = Some (prefix, n, v, key)" "0 < length needle"
    using assms by (fastforce simp: strip_trailing_directive_def split: option.splits)
  then obtain i where i: "rfind (to_ascii_uppercase s) needle = Some i" "prefix = trim_end (take i s)" "n = length prefix"
    by (auto simp: trailing_directive_def Let_def split: option.splits if_splits)
  have "i < length s" using rfind_SomeD[OF i(1)] \<open>0 < length needle\<close> by (cases needle) simp_all
  moreover have "prefix = take n (take i s)" using trim_end_take[of "take i s"] i by simp
  moreover have "n \<le> i" using length_trim_end[of "take i s"] i by simp
  ultimately show ?thesis using i(3) by (simp add: min_absorb1)
qed

termination strip_directives
proof (relation "measure (\<lambda>(_, fragments). sum_list (map (length \<circ> fg_text) fragments))")
  fix metadata :: DialectMetadata and fragments :: "Fragment list"
    and t x y z prefix prefix_len v key
  assume "fragments \<noteq> []" and "strip_trailing_directive (fg_text (last fragments)) = Some t"
    and "(prefix, x) = t" "(prefix_len, y) = x" "(v, key) = y"
  then have "length prefix < length (fg_text (last fragments))"
    using strip_trailing_directive_prefix[of "fg_text (last fragments)" prefix prefix_len v key] by auto
  moreover have "sum_list (map (length \<circ> fg_text) fragments) =
      sum_list (map (length \<circ> fg_text) (butlast fragments)) + length (fg_text (last fragments))"
    by (subst append_butlast_last_id[OF \<open>fragments \<noteq> []\<close>, symmetric]) (simp only: map_append sum_list_append, simp)
  ultimately show "((DialectMetadata_insert key (to_ascii_lowercase v) metadata,
      butlast fragments @ (if prefix = [] then []
        else [\<lparr>fg_text = prefix, fg_origin = (fg_origin (last fragments))\<lparr>qs_len := prefix_len\<rparr>\<rparr>])),
     (metadata, fragments)) \<in> measure (\<lambda>(_, fragments). sum_list (map (length \<circ> fg_text) fragments))"
    by auto
qed simp

declare strip_directives.simps [simp del]

definition push_piece :: "string \<Rightarrow> QuerySourceSpan option \<Rightarrow> string \<times> SourcePiece list \<Rightarrow> string \<times> SourcePiece list" where
  "push_piece s origin = (\<lambda>(rewritten, pieces).
     (rewritten @ s,
      pieces @ [\<lparr>sp_rewritten_start = length rewritten, sp_rewritten_len = length s, sp_origin = origin\<rparr>]))"

definition push_fragment :: "nat \<times> Fragment \<Rightarrow> string \<times> SourcePiece list \<Rightarrow> string \<times> SourcePiece list" where
  "push_fragment = (\<lambda>(idx, fragment) acc.
     push_piece (fg_text fragment) (Some (fg_origin fragment)) (if 0 < idx then push_piece '' '' None acc else acc))"

definition assemble :: "Fragment list \<Rightarrow> string \<times> SourcePiece list" where
  "assemble fragments =
     (let from_first = (case fragments of [] \<Rightarrow> False | f # _ \<Rightarrow> starts_with (to_ascii_uppercase (fg_text f)) ''FROM '')
      in fold push_fragment (enumerate 0 fragments)
           (if from_first then push_piece ''SELECT * '' None ([], []) else ([], [])))"

text \<open>The part of \<^verbatim>\<open>parse_syql\<close> before the SQL parser: explain, metadata and the source map.\<close>

definition syql_rewrite :: "string \<Rightarrow> bool \<times> DialectMetadata \<times> SourceMap" where
  "syql_rewrite input =
     (case strip_leading_explain input of
        (explain, rest, rest_offset) \<Rightarrow>
          (case syql_lines rest_offset (split_char newline_char rest) DialectMetadata_default [] of
             (metadata, fragments) \<Rightarrow>
               (case strip_directives metadata fragments of
                  (metadata, fragments) \<Rightarrow>
                    (case assemble fragments of
                       (rewritten, pieces) \<Rightarrow> (explain, metadata, SourceMap_new rewritten pieces)))))"

definition parse_syql :: "('statement, 'query) sql_parser \<Rightarrow> string \<Rightarrow> ParsedQuery result" where
  "parse_syql parser input =
     (case syql_rewrite input of
        (explain, metadata, source_map) \<Rightarrow>
          parse_sql_with_source_map parser ''syql'' input source_map explain metadata)"

section \<open>Offsets\<close>

lemma split_char_ne [simp]: "split_char sep s \<noteq> []"
  by (induction s) (auto split: list.splits)

lemma join_split: "join_with [sep] (split_char sep s) = s"
proof (induction s)
  case (Cons c s)
  obtain seg segs where "split_char sep s = seg # segs" by (meson neq_Nil_conv split_char_ne)
  then show ?case using Cons by (cases segs) auto
qed simp

lemma drop_suffix: "s = a @ b \<Longrightarrow> drop (length s - length b) s = b"
  by simp

lemma trim_start_suffix: "\<exists>a. s = a @ trim_start s"
  unfolding trim_start_def by (metis takeWhile_dropWhile_id)

lemma strip_leading_explain_offset:
  assumes "strip_leading_explain input = (explain, body, off)"
  shows "drop off input = body"
proof -
  obtain a where a: "input = a @ trim_start input" using trim_start_suffix by blast
  have trimmed: "drop (length input - length (trim_start input)) input = trim_start input"
    by (rule drop_suffix[OF a])
  define rest where "rest = trim_start (drop 7 (trim_start input))"
  obtain b where "drop 7 (trim_start input) = b @ rest"
    unfolding rest_def using trim_start_suffix by blast
  then have "input = (a @ take 7 (trim_start input) @ b) @ rest"
    using a by (metis append_assoc append_take_drop_id)
  then have "drop (length input - length rest) input = rest" by (rule drop_suffix)
  then show ?thesis
    using assms unfolding strip_leading_explain_def Let_def trimmed rest_def[symmetric] by (auto simp: trimmed split: if_splits)
qed

text \<open>A fragment is the text of the query at its origin.\<close>

definition fragment_ok :: "string \<Rightarrow> Fragment \<Rightarrow> bool" where
  "fragment_ok input f \<longleftrightarrow>
     qs_len (fg_origin f) = length (fg_text f) \<and>
     take (qs_len (fg_origin f)) (drop (qs_offset (fg_origin f)) input) = fg_text f"

lemma trim_at_offset:
  assumes "take (length line) (drop off input) = line"
  shows "take (length (trim line)) (drop (off + (length line - length (trim_start line))) input) = trim line"
proof -
  define ts where "ts = length line - length (trim_start line)"
  have start: "trim_start line = drop ts line" using trim_start_drop by (simp add: ts_def)
  have "length (trim line) \<le> length (trim_start line)" using length_trim_end by (simp add: trim_def)
  then have len: "length (trim line) \<le> length line - ts" by (simp add: start)
  have "trim line = take (length (trim line)) (drop ts line)"
    using trim_end_take[of "trim_start line"] by (simp add: trim_def start)
  also have "\<dots> = take (length (trim line)) (drop ts (take (length line) (drop off input)))"
    using assms by simp
  also have "\<dots> = take (length (trim line)) (drop (off + ts) input)"
    using len by (simp add: drop_take min_absorb1 add.commute)
  finally show ?thesis by (simp add: ts_def)
qed

lemma syql_lines_ok:
  assumes "lines = [] \<or> drop off input = join_with [newline_char] lines"
    and "list_all (fragment_ok input) fragments"
    and "syql_lines off lines metadata fragments = (metadata', fragments')"
  shows "list_all (fragment_ok input) fragments'"
  using assms
proof (induction off lines metadata fragments rule: syql_lines.induct)
  case (2 off line lines metadata fragments)
  have tail: "lines = [] \<or> drop (off + length line + 1) input = join_with [newline_char] lines"
  proof (cases lines)
    case (Cons l ls)
    then have "drop (Suc (length line)) (drop off input) = join_with [newline_char] lines"
      using 2(5) by simp
    then show ?thesis by (simp add: add.commute)
  qed simp
  have "take (length line) (drop off input) = line" using 2(5) by (cases lines) auto
  note trimmed = trim_at_offset[OF this]
  show ?case
    using 2(1-4)[OF refl refl refl refl _ ] 2(6,7) tail trimmed
    by (auto simp: Let_def fragment_ok_def split: if_splits)
qed simp

lemma take_shorter: "take m s = t \<Longrightarrow> n < m \<Longrightarrow> take n s = take n t"
  by (metis less_imp_le min.absorb1 take_take)

lemma strip_directives_ok:
  assumes "list_all (fragment_ok input) fragments"
    and "strip_directives metadata fragments = (metadata', fragments')"
  shows "list_all (fragment_ok input) fragments'"
  using assms
proof (induction metadata fragments rule: strip_directives.induct)
  case (1 metadata fragments)
  show ?case
  proof (cases "fragments = [] \<or> strip_trailing_directive (fg_text (last fragments)) = None")
    case True
    then show ?thesis using 1(2,3) by (auto simp: strip_directives.simps[of metadata fragments] split: if_splits)
  next
    case False
    then obtain prefix n v key where strip: "strip_trailing_directive (fg_text (last fragments)) = Some (prefix, n, v, key)"
      by (metis option.exhaust prod_cases4)
    note prefix = strip_trailing_directive_prefix[OF strip]
    have "fragment_ok input (last fragments)" using 1(2) False by (simp add: list_all_iff)
    then have "fragment_ok input \<lparr>fg_text = prefix, fg_origin = (fg_origin (last fragments))\<lparr>qs_len := n\<rparr>\<rparr>"
      using prefix take_shorter by (auto simp: fragment_ok_def)
    moreover have "list_all (fragment_ok input) (butlast fragments)"
      using 1(2) by (auto simp: list_all_iff dest: in_set_butlastD)
    ultimately show ?thesis
      using 1(1)[OF _ strip refl refl refl] 1(3) False strip
      by (auto simp: strip_directives.simps[of metadata fragments] split: if_splits)
  qed
qed

section \<open>Pieces\<close>

definition piece_ok :: "string \<Rightarrow> string \<Rightarrow> SourcePiece \<Rightarrow> bool" where
  "piece_ok input rewritten p \<longleftrightarrow>
     sp_rewritten_start p + sp_rewritten_len p \<le> length rewritten \<and>
     (case sp_origin p of
        None \<Rightarrow> True
      | Some origin \<Rightarrow>
          sp_rewritten_len p = qs_len origin \<and>
          take (sp_rewritten_len p) (drop (sp_rewritten_start p) rewritten) =
            take (qs_len origin) (drop (qs_offset origin) input))"

lemma piece_ok_append: "piece_ok input rewritten p \<Longrightarrow> piece_ok input (rewritten @ s) p"
  by (auto simp: piece_ok_def split: option.splits)

lemma push_piece_ok:
  assumes "list_all (piece_ok input (fst acc)) (snd acc)"
    and "origin = None \<or> (\<exists>f. fragment_ok input f \<and> origin = Some (fg_origin f) \<and> s = fg_text f)"
  shows "list_all (piece_ok input (fst (push_piece s origin acc))) (snd (push_piece s origin acc))"
  using assms piece_ok_append
  by (cases acc) (auto simp: push_piece_def list_all_iff piece_ok_def fragment_ok_def)

lemma push_fragments_ok:
  assumes "list_all (\<lambda>(_, f). fragment_ok input f) xs" and "list_all (piece_ok input (fst acc)) (snd acc)"
  shows "list_all (piece_ok input (fst (fold push_fragment xs acc))) (snd (fold push_fragment xs acc))"
  using assms
proof (induction xs arbitrary: acc)
  case (Cons x xs)
  obtain i f where x: "x = (i, f)" by (cases x)
  have "list_all (piece_ok input (fst (push_fragment x acc))) (snd (push_fragment x acc))"
    using Cons.prems x by (auto simp: push_fragment_def intro!: push_piece_ok)
  then show ?case using Cons.IH Cons.prems by simp
qed simp

lemma assemble_ok:
  assumes "list_all (fragment_ok input) fragments"
  shows "list_all (piece_ok input (fst (assemble fragments))) (snd (assemble fragments))"
proof -
  have "list_all (\<lambda>(_, f). fragment_ok input f) (enumerate 0 fragments)"
    using assms by (auto simp: list_all_iff in_set_enumerate_eq)
  then show ?thesis
    unfolding assemble_def Let_def
    by (intro push_fragments_ok) (auto intro!: push_piece_ok split: list.splits)
qed

text \<open>
  C16. Every piece of the rewritten text of a SyQL query that claims an origin is the text of the query at
  that origin.
\<close>

theorem syql_source_map_faithful:
  assumes "syql_rewrite input = (explain, metadata, m)" and "p \<in> set (sm_pieces m)" and "sp_origin p = Some origin"
  shows "take (sp_rewritten_len p) (drop (sp_rewritten_start p) (sm_rewritten_sql m)) =
      take (qs_len origin) (drop (qs_offset origin) input) \<and>
    sp_rewritten_len p = qs_len origin"
proof -
  obtain rest off where strip: "strip_leading_explain input = (explain, rest, off)"
    using assms(1) by (auto simp: syql_rewrite_def split: prod.splits)
  obtain md fs where ls: "syql_lines off (split_char newline_char rest) DialectMetadata_default [] = (md, fs)"
    by fastforce
  obtain md' fs' where ds: "strip_directives md fs = (md', fs')" by fastforce
  have "list_all (fragment_ok input) fs"
    by (rule syql_lines_ok[OF _ _ ls]) (simp_all add: join_split strip_leading_explain_offset[OF strip])
  then have "list_all (fragment_ok input) fs'" by (rule strip_directives_ok[OF _ ds])
  then have "list_all (piece_ok input (fst (assemble fs'))) (snd (assemble fs'))" by (rule assemble_ok)
  moreover have "m = SourceMap_new (fst (assemble fs')) (snd (assemble fs'))"
    using assms(1) by (auto simp: syql_rewrite_def strip ls ds split: prod.splits)
  ultimately show ?thesis using assms(2,3) by (auto simp: SourceMap_new_def list_all_iff piece_ok_def dest!: bspec)
qed

definition sample_syql :: string where
  "sample_syql = ''EXPLAIN FROM t'' @ [newline_char] @ ''  WHERE a'' @ [newline_char] @ ''SCOPE remote''"

theorem syql_source_map_faithful_witness:
  "sm_rewritten_sql (snd (snd (syql_rewrite sample_syql))) = ''SELECT * FROM t WHERE a'' \<and>
   take 7 (drop 16 ''SELECT * FROM t WHERE a'') = take 7 (drop 17 sample_syql)"
proof -
  define p where "p = sm_pieces (snd (snd (syql_rewrite sample_syql))) ! 3"
  have p: "p = \<lparr>sp_rewritten_start = 16, sp_rewritten_len = 7, sp_origin = Some \<lparr>qs_offset = 17, qs_len = 7\<rparr>\<rparr>"
    unfolding p_def by code_simp
  have len: "3 < length (sm_pieces (snd (snd (syql_rewrite sample_syql))))" by code_simp
  have sql: "sm_rewritten_sql (snd (snd (syql_rewrite sample_syql))) = ''SELECT * FROM t WHERE a''" by code_simp
  have "syql_rewrite sample_syql =
      (fst (syql_rewrite sample_syql), fst (snd (syql_rewrite sample_syql)), snd (snd (syql_rewrite sample_syql)))"
    by simp
  moreover have "p \<in> set (sm_pieces (snd (snd (syql_rewrite sample_syql))))"
    unfolding p_def by (rule nth_mem[OF len])
  moreover have "sp_origin p = Some \<lparr>qs_offset = 17, qs_len = 7\<rparr>" by (simp add: p)
  ultimately have "take (sp_rewritten_len p) (drop (sp_rewritten_start p) ''SELECT * FROM t WHERE a'') =
      take 7 (drop 17 sample_syql)"
    using syql_source_map_faithful[of sample_syql] unfolding sql[symmetric] by fastforce
  then show ?thesis using sql by (simp add: p)
qed

section \<open>Limits of the text layer\<close>

text \<open>
  The span of a node of a plain SQL query is missing or the whole body of the query, however small the
  node is.
\<close>

theorem plain_sql_span_is_whole_body:
  "map_sql_span (SourceMap_identity body off) span \<in> {None, Some \<lparr>qs_offset = off, qs_len = length body\<rparr>}"
  by (auto simp: map_sql_span_def SourceMap_identity_def SourceMap_new_def overlapping_origin_def
      List.map_filter_simps split: option.splits Option.bind_splits)

text \<open>
  Statements after the first are dropped: a text of several statements parses like its first one.
\<close>

theorem later_statements_dropped:
  "parse_sql_with_source_map (parser\<lparr>pa_parse_sql := \<lambda>_. Inr (statement # others)\<rparr>) dialect_name source_sql m explain metadata =
   parse_sql_with_source_map (parser\<lparr>pa_parse_sql := \<lambda>_. Inr [statement]\<rparr>) dialect_name source_sql m explain metadata"
  by (simp add: parse_sql_with_source_map_def split: option.split prod.split)

text \<open>
  A directive is recognised inside a string literal, whose text is cut there, and a line comment
  swallows the lines after it.
\<close>

theorem syql_breaks_literals_and_comments:
  "sm_rewritten_sql (snd (snd (syql_rewrite (''FROM t WHERE a = '' @ [CHR 0x27] @ ''the SCOPE big'' @ [CHR 0x27])))) =
     ''SELECT * FROM t WHERE a = '' @ [CHR 0x27] @ ''the'' \<and>
   sm_rewritten_sql (snd (snd (syql_rewrite (''FROM t -- all'' @ [newline_char] @ ''LIMIT 5'')))) =
     ''SELECT * FROM t -- all LIMIT 5''"
  by code_simp

end
