(* ===== verification/QF_Facade.thy ===== *)
theory QF_Facade
  imports QF_Compile QF_Budget QF_Federation QF_Rewrite QF_Tabular QF_Syql
begin

text \<open>
  The public facade, \<^verbatim>\<open>crates/queryfabric/src/lib.rs\<close> and \<^verbatim>\<open>inspect.rs\<close>: the compiler that composes a dialect, the
  budget, the binder, the optimization passes and a backend adapter, and the inspection of parsed
  queries and of parameters given as JSON. The version of the crate and BLAKE3 are parameters.

  Shown: a compiled query is within its budget, bound soundly and stamped with the compiler version
  when its passes keep plans sound; what a failure looks like; the summary of a query's parameters
  and predicates; and that JSON strings that look like UUIDs cannot be bound to text parameters.
\<close>

section \<open>The compiler\<close>

record QueryCompiler =
  qc_optimization_pipeline :: OptimizationPipeline
  qc_budget :: QueryBudget

definition QueryCompiler_new :: QueryCompiler where
  "QueryCompiler_new = \<lparr>qc_optimization_pipeline = [], qc_budget = QueryBudget_default\<rparr>"

definition with_optimization_pass :: "OptimizationPass \<Rightarrow> QueryCompiler \<Rightarrow> QueryCompiler" where
  "with_optimization_pass pass compiler =
     compiler\<lparr>qc_optimization_pipeline := with_pass pass (qc_optimization_pipeline compiler)\<rparr>"

definition with_budget :: "QueryBudget \<Rightarrow> QueryCompiler \<Rightarrow> QueryCompiler" where
  "with_budget budget compiler = compiler\<lparr>qc_budget := budget\<rparr>"

text \<open>A dialect is its \<^verbatim>\<open>parse\<close> method.\<close>

definition compiler_parse :: "QueryCompiler \<Rightarrow> (string \<Rightarrow> ParsedQuery result) \<Rightarrow> string \<Rightarrow> ParsedQuery result" where
  "compiler_parse compiler dialect_parse input =
     result_bind (dialect_parse input) (\<lambda>parsed.
     result_bind (QueryBudget_check (qc_budget compiler) (QueryBudgetUsage_for_parsed parsed)) (\<lambda>_.
     Inr parsed))"

definition compiler_bind_and_validate ::
  "string \<Rightarrow> (string \<Rightarrow> string) \<Rightarrow> QueryCompiler \<Rightarrow> ParsedQuery \<Rightarrow> Catalog \<Rightarrow> QueryParameters \<Rightarrow> BoundQuery result" where
  "compiler_bind_and_validate compiler_version blake3_hex compiler parsed catalog params =
     result_bind (QueryBudget_check (qc_budget compiler) (QueryBudgetUsage_for_parsed parsed)) (\<lambda>_.
     result_bind
       (map_sum (QueryFabricError_with_compiler_version compiler_version) id
         (bind_and_validate blake3_hex parsed catalog params)) (\<lambda>bound.
     result_bind (normalize (qc_optimization_pipeline compiler) bound catalog) (\<lambda>normalized.
     let provenance = receipt_with_compiler_version compiler_version (bq_provenance normalized)
     in result_bind
          (QueryBudget_check (qc_budget compiler)
            (QueryBudgetUsage_with_parameters (length (bq_parameters normalized))
              (QueryBudgetUsage_for_parsed (bq_parsed normalized)))) (\<lambda>_.
        Inr (with_provenance provenance normalized)))))"

definition compiler_emit :: "BackendAdapter \<Rightarrow> BoundQuery \<Rightarrow> Catalog \<Rightarrow> EmitArtifact result" where
  "compiler_emit adapter query catalog = ad_emit adapter query catalog"

text \<open>The functions over the default compiler.\<close>

definition facade_bind_and_validate ::
  "string \<Rightarrow> (string \<Rightarrow> string) \<Rightarrow> ParsedQuery \<Rightarrow> Catalog \<Rightarrow> QueryParameters \<Rightarrow> BoundQuery result" where
  "facade_bind_and_validate compiler_version blake3_hex parsed catalog params =
     compiler_bind_and_validate compiler_version blake3_hex QueryCompiler_new parsed catalog params"

definition bind_and_validate_query ::
  "string \<Rightarrow> (string \<Rightarrow> string) \<Rightarrow> ParsedQuery \<Rightarrow> Catalog \<Rightarrow> QueryParameters \<Rightarrow> BoundQuery result" where
  "bind_and_validate_query compiler_version blake3_hex parsed catalog params =
     facade_bind_and_validate compiler_version blake3_hex parsed catalog params"

section \<open>Inspection of parameters\<close>

fun record_parameter :: "ParameterRef \<Rightarrow> ParameterSummary \<Rightarrow> ParameterSummary" where
  "record_parameter (Positional position) summary =
     summary\<lparr>psm_positional_count := max (psm_positional_count summary) position\<rparr>"
| "record_parameter (Named name) summary =
     summary\<lparr>psm_named_params := bs_insert name (bs_extend [] (psm_named_params summary))\<rparr>"

definition visit_opt :: "('a \<Rightarrow> ParameterSummary \<Rightarrow> ParameterSummary) \<Rightarrow> 'a option \<Rightarrow> ParameterSummary \<Rightarrow> ParameterSummary" where
  "visit_opt visit o' summary = (case o' of None \<Rightarrow> summary | Some x \<Rightarrow> visit x summary)"

lemma visit_opt_cong [fundef_cong]:
  assumes "o' = p'" and "\<And>x. p' = Some x \<Longrightarrow> f x = g x"
  shows "visit_opt f o' = visit_opt g p'"
  using assms by (cases p') (simp_all add: visit_opt_def fun_eq_iff)

function visit_query :: "SyntaxQuery \<Rightarrow> ParameterSummary \<Rightarrow> ParameterSummary"
  and visit_set_expr :: "SyntaxSetExpr \<Rightarrow> ParameterSummary \<Rightarrow> ParameterSummary"
  and visit_table_with_joins :: "(SyntaxExpr, SyntaxRelation) SyntaxTableWithJoins \<Rightarrow> ParameterSummary \<Rightarrow> ParameterSummary"
  and visit_relation :: "SyntaxRelation \<Rightarrow> ParameterSummary \<Rightarrow> ParameterSummary"
  and visit_expr :: "SyntaxExpr \<Rightarrow> ParameterSummary \<Rightarrow> ParameterSummary"
where
  "visit_query (SyntaxQuery node query_ctes with_recursive body order_by limit offset clauses) summary =
     visit_opt visit_expr offset (visit_opt visit_expr limit
       (fold (\<lambda>order. visit_expr (so_expr order)) order_by
         (visit_set_expr body (fold (\<lambda>cte. visit_query (sc_query cte)) query_ctes summary))))"
| "visit_set_expr (SyntaxSetExpr.Select (SyntaxSelect distinct' projection from selection group_by having node)) summary =
     visit_opt visit_expr having (fold visit_expr group_by (visit_opt visit_expr selection
       (fold visit_table_with_joins from
         (fold (\<lambda>item. visit_opt (\<lambda>details. visit_expr (sp_expr details)) (SyntaxProjectionItem_as_expr item))
           projection summary))))"
| "visit_set_expr (SyntaxSetExpr.UnionAll left right node) summary = visit_set_expr right (visit_set_expr left summary)"
| "visit_set_expr (SyntaxSetExpr.Unsupported description node) summary = summary"
| "visit_table_with_joins (SyntaxTableWithJoins relation table_joins node) summary =
     fold (\<lambda>join summary. visit_opt visit_expr (sj_on join) (visit_relation (sj_relation join) summary)) table_joins
       (visit_relation relation summary)"
| "visit_relation (SyntaxRelation.Table name alias node) summary = summary"
| "visit_relation (SyntaxRelation.Unsupported description node) summary = summary"
| "visit_relation (SyntaxRelation.Derived query alias node) summary = visit_query query summary"
| "visit_relation (SyntaxRelation.NestedJoin table_with_joins alias node) summary = visit_table_with_joins table_with_joins summary"
| "visit_expr (SyntaxExpr (SyntaxExprKind.Parameter reference) node) summary = record_parameter reference summary"
| "visit_expr (SyntaxExpr (SyntaxExprKind.Unary op e) node) summary = visit_expr e summary"
| "visit_expr (SyntaxExpr (SyntaxExprKind.Cast e data_type) node) summary = visit_expr e summary"
| "visit_expr (SyntaxExpr (SyntaxExprKind.IsNull e negated) node) summary = visit_expr e summary"
| "visit_expr (SyntaxExpr (SyntaxExprKind.Binary op left right) node) summary = visit_expr right (visit_expr left summary)"
| "visit_expr (SyntaxExpr (SyntaxExprKind.Function (SyntaxFunctionCall f args distinct' filter' over)) node) summary =
     visit_opt
       (\<lambda>window summary. fold (\<lambda>order. visit_expr (so_expr order)) (ws_order_by window)
          (fold visit_expr (ws_partition_by window) summary)) over
       (visit_opt visit_expr filter' (fold visit_expr args summary))"
| "visit_expr (SyntaxExpr (SyntaxExprKind.Case operand when_then else_result) node) summary =
     visit_opt visit_expr else_result
       (fold (\<lambda>pair summary. visit_expr (sw_result pair) (visit_expr (sw_condition pair) summary)) when_then
         (visit_opt visit_expr operand summary))"
| "visit_expr (SyntaxExpr (SyntaxExprKind.Between e low high negated) node) summary =
     visit_expr high (visit_expr low (visit_expr e summary))"
| "visit_expr (SyntaxExpr (SyntaxExprKind.InList e items negated) node) summary = fold visit_expr items (visit_expr e summary)"
| "visit_expr (SyntaxExpr (SyntaxExprKind.InSubquery e subquery negated) node) summary = visit_query subquery (visit_expr e summary)"
| "visit_expr (SyntaxExpr (SyntaxExprKind.ScalarSubquery query) node) summary = visit_query query summary"
| "visit_expr (SyntaxExpr (SyntaxExprKind.Exists query) node) summary = visit_query query summary"
| "visit_expr (SyntaxExpr (SyntaxExprKind.Like e pattern negated case_insensitive) node) summary =
     visit_expr pattern (visit_expr e summary)"
| "visit_expr (SyntaxExpr (SyntaxExprKind.Tuple items) node) summary = fold visit_expr items summary"
| "visit_expr (SyntaxExpr (SyntaxExprKind.Array items) node) summary = fold visit_expr items summary"
| "visit_expr (SyntaxExpr (SyntaxExprKind.Column relation name) node) summary = summary"
| "visit_expr (SyntaxExpr (SyntaxExprKind.Literal value) node) summary = summary"
| "visit_expr (SyntaxExpr (SyntaxExprKind.Unsupported description) node) summary = summary"
  by pat_completeness auto
termination
  by (relation "measure (case_sum
        (case_sum (\<lambda>(q, s). size q) (\<lambda>(e, s). size e))
        (case_sum (\<lambda>(t, s). size_SyntaxTableWithJoins size size t)
          (case_sum (\<lambda>(r, s). size r) (\<lambda>(e, s). size e))))")
    (auto simp: size_WindowSpec_sel dest: syntax_size_dests)

definition inspect_parameters :: "ParsedQuery \<Rightarrow> ParameterSummary" where
  "inspect_parameters parsed = visit_query (pq_syntax parsed) \<lparr>psm_positional_count = 0, psm_named_params = []\<rparr>"

section \<open>Inspection of queries\<close>

record ParsedQuerySummary =
  pm_primary_relation :: "string option"
  pm_projected_columns :: "string list option"
  pm_predicate_count :: nat
  pm_row_limit :: "u64 option"
  pm_scope :: string
  pm_output_format :: string

fun first_select_in_set_expr :: "SyntaxSetExpr \<Rightarrow> (SyntaxExpr, SyntaxRelation) SyntaxSelect option" where
  "first_select_in_set_expr (SyntaxSetExpr.Select select) = Some select"
| "first_select_in_set_expr (SyntaxSetExpr.UnionAll left right node) =
     (case first_select_in_set_expr left of Some select \<Rightarrow> Some select | None \<Rightarrow> first_select_in_set_expr right)"
| "first_select_in_set_expr (SyntaxSetExpr.Unsupported description node) = None"

definition first_select :: "SyntaxQuery \<Rightarrow> (SyntaxExpr, SyntaxRelation) SyntaxSelect option" where
  "first_select query = first_select_in_set_expr (sq_body query)"

definition summary_table :: "(SyntaxExpr, SyntaxRelation) SyntaxSelect \<Rightarrow> string option" where
  "summary_table select =
     (case ss_from select of
        [] \<Rightarrow> None
      | table # _ \<Rightarrow> Some
          (case SyntaxTableWithJoins.st_relation table of
             SyntaxRelation.Table name alias node \<Rightarrow> NameRef_display_name name
           | SyntaxRelation.Derived query alias node \<Rightarrow> ''<subquery>''
           | SyntaxRelation.NestedJoin table alias node \<Rightarrow> ''<join>''
           | SyntaxRelation.Unsupported description node \<Rightarrow> ''<unsupported>''))"

definition expression_label :: "SyntaxExpr \<Rightarrow> string" where
  "expression_label expr =
     (case se_kind expr of
        SyntaxExprKind.Column relation name \<Rightarrow> name
      | SyntaxExprKind.Function call \<Rightarrow> FunctionRef_display_name (sf_function call)
      | _ \<Rightarrow> ''<expr>'')"

text \<open>The loop over the projection; a wildcard ends it with nothing.\<close>

fun column_labels :: "SyntaxExpr SyntaxProjectionItem list \<Rightarrow> string list option" where
  "column_labels [] = Some []"
| "column_labels (SyntaxProjectionItem.Wildcard qualifier node # items) = None"
| "column_labels (SyntaxProjectionItem.Expr details # items) =
     map_option ((#) (case sp_alias details of Some alias \<Rightarrow> alias | None \<Rightarrow> expression_label (sp_expr details)))
       (column_labels items)"
| "column_labels (SyntaxProjectionItem.Unsupported description node # items) =
     map_option ((#) ''<expr>'') (column_labels items)"

definition summary_columns :: "(SyntaxExpr, SyntaxRelation) SyntaxSelect \<Rightarrow> string list option" where
  "summary_columns select =
     (if ss_projection select = [] then None
      else Option.bind (column_labels (ss_projection select)) (\<lambda>columns. if columns \<noteq> [] then Some columns else None))"

function count_predicates :: "SyntaxExpr \<Rightarrow> nat" where
  "count_predicates (SyntaxExpr kind node) =
     (case kind of
        SyntaxExprKind.Binary BinaryOperator.And left right \<Rightarrow> count_predicates left + count_predicates right
      | _ \<Rightarrow> 1)"
  by pat_completeness auto
termination by (relation "measure size") (auto split: if_splits)

definition non_negative :: "64 word \<Rightarrow> u64 option" where
  "non_negative v = (if 0 \<le> sint v then Some v else None)"

definition extract_limit :: "SyntaxExpr \<Rightarrow> QueryParameters option \<Rightarrow> u64 option" where
  "extract_limit expr params =
     (case se_kind expr of
        SyntaxExprKind.Literal (LiteralValue.Int64 v) \<Rightarrow> non_negative v
      | SyntaxExprKind.Parameter reference \<Rightarrow>
          Option.bind params (\<lambda>params.
          Option.bind (QueryParameters_lookup params reference) (\<lambda>v.
          case v of ParameterValue.Int64 v \<Rightarrow> non_negative v | _ \<Rightarrow> None))
      | _ \<Rightarrow> None)"

definition inspect_query :: "ParsedQuery \<Rightarrow> QueryParameters option \<Rightarrow> ParsedQuerySummary" where
  "inspect_query parsed params =
     (let select = first_select (pq_syntax parsed)
      in \<lparr>pm_primary_relation = Option.bind select summary_table,
          pm_projected_columns = Option.bind select summary_columns,
          pm_predicate_count = (case Option.bind select ss_selection of None \<Rightarrow> 0 | Some e \<Rightarrow> count_predicates e),
          pm_row_limit = Option.bind (sq_limit (pq_syntax parsed)) (\<lambda>e. extract_limit e params),
          pm_scope = (case DialectMetadata_get (pq_dialect_metadata parsed) ''syql.scope'' of None \<Rightarrow> ''local'' | Some s \<Rightarrow> s),
          pm_output_format =
            (case DialectMetadata_get (pq_dialect_metadata parsed) ''syql.download'' of None \<Rightarrow> ''arrow'' | Some s \<Rightarrow> s)\<rparr>)"

section \<open>Parameters from JSON\<close>

definition is_ascii_hexdigit :: "char \<Rightarrow> bool" where
  "is_ascii_hexdigit c \<longleftrightarrow>
     is_ascii_digit c \<or> 65 \<le> byte_of c \<and> byte_of c \<le> 70 \<or> 97 \<le> byte_of c \<and> byte_of c \<le> 102"

definition looks_like_uuid :: "string \<Rightarrow> bool" where
  "looks_like_uuid s \<longleftrightarrow>
     length s = 36 \<and>
     list_all (\<lambda>(i, c). if i = 8 \<or> i = 13 \<or> i = 18 \<or> i = 23 then c = CHR ''-'' else is_ascii_hexdigit c)
       (enumerate 0 s)"

text \<open>
  \<open>float_text\<close> is the text of the 64-bit float of a JSON number that is no integer, and \<open>json_text\<close> the
  crate's text of a value.
\<close>

definition parameter_number :: "(string \<Rightarrow> string) \<Rightarrow> Number \<Rightarrow> ParameterValue result" where
  "parameter_number float_text number =
     (case number of
        Integer i \<Rightarrow>
          if - (2 ^ 63) \<le> i \<and> i < 2 ^ 63 then Inr (ParameterValue.Int64 (word_of_int i))
          else Inl (Emission (''unsupported numeric parameter value `'' @ Number_to_string number @ ''`''))
      | Float s \<Rightarrow> Inr (ParameterValue.Float64 (float_text s)))"

fun parameter_value_from_json :: "(string \<Rightarrow> string) \<Rightarrow> (Value \<Rightarrow> string) \<Rightarrow> Value \<Rightarrow> ParameterValue result" where
  "parameter_value_from_json float_text json_text Value.Null = Inr ParameterValue.Null"
| "parameter_value_from_json float_text json_text (Value.Bool b) = Inr (ParameterValue.Boolean b)"
| "parameter_value_from_json float_text json_text (Value.Number number) = parameter_number float_text number"
| "parameter_value_from_json float_text json_text (Value.String s) =
     Inr (if looks_like_uuid s then ParameterValue.Uuid s else ParameterValue.Utf8 s)"
| "parameter_value_from_json float_text json_text (Value.Array vs) =
     map_sum id ParameterValue.List (result_collect (parameter_value_from_json float_text json_text) vs)"
| "parameter_value_from_json float_text json_text (Value.Object entries) =
     Inr (ParameterValue.Json (json_text (Value.Object entries)))"

fun insert_positionals :: "(Value \<Rightarrow> ParameterValue result) \<Rightarrow> nat \<Rightarrow> Value list \<Rightarrow> QueryParameters \<Rightarrow> QueryParameters result" where
  "insert_positionals convert i [] params = Inr params"
| "insert_positionals convert i (v # vs) params =
     result_bind (convert v) (\<lambda>p. insert_positionals convert (Suc i) vs (insert_positional (of_nat (Suc i)) p params))"

fun insert_nameds :: "(Value \<Rightarrow> ParameterValue result) \<Rightarrow> (string \<times> Value) list \<Rightarrow> QueryParameters \<Rightarrow> QueryParameters result" where
  "insert_nameds convert [] params = Inr params"
| "insert_nameds convert ((name, v) # vs) params =
     result_bind (convert v) (\<lambda>p. insert_nameds convert vs (insert_named name p params))"

text \<open>The named values come in the order of the hash map.\<close>

definition build_query_parameters ::
  "(Value \<Rightarrow> ParameterValue result) \<Rightarrow> Value list option \<Rightarrow> (string \<times> Value) list option \<Rightarrow> QueryParameters result" where
  "build_query_parameters convert positional named =
     (if positional \<noteq> None \<and> named \<noteq> None
      then Inl (Emission ''mixed positional and named parameters are not supported'')
      else result_bind
        (case positional of None \<Rightarrow> Inr QueryParameters_default
         | Some vs \<Rightarrow> insert_positionals convert 0 vs QueryParameters_default) (\<lambda>params.
        case named of None \<Rightarrow> Inr params | Some vs \<Rightarrow> insert_nameds convert vs params))"

section \<open>What a compilation establishes\<close>

definition sound_query :: "Catalog \<Rightarrow> BoundQuery \<Rightarrow> bool" where
  "sound_query catalog q \<longleftrightarrow>
     plan_all (\<lambda>n. node_supported n \<and> node_typed catalog n) (bq_plan q) \<and> \<not> list_ex is_error (bq_diagnostics q)"

definition pass_keeps_sound :: "Catalog \<Rightarrow> OptimizationPass \<Rightarrow> bool" where
  "pass_keeps_sound catalog pass \<longleftrightarrow>
     (\<forall>q q'. sound_query catalog q \<longrightarrow> op_apply pass q catalog = Inr q' \<longrightarrow> sound_query catalog q')"

lemma bound_sound:
  assumes "bind_and_validate blake3_hex parsed catalog params = Inr q"
  shows "sound_query catalog q"
proof -
  obtain s where s: "plan_all (node_ok catalog s) (bq_plan q)"
      "bq_diagnostics q = pq_lowering_diagnostics parsed @ b_diagnostics s" "\<not> list_ex is_error (bq_diagnostics q)"
    by (rule bind_and_validate_Inr[OF assms]) blast
  then have "\<not> has_error s" by (simp add: has_error_def)
  then show ?thesis
    using s(3) all_nodes_mono(1)[OF s(1)] by (simp add: sound_query_def node_ok_def)
qed

lemma passes_keep_sound:
  assumes "list_all (pass_keeps_sound catalog) passes" and "sound_query catalog q"
    and "apply_passes passes catalog q = Inr q'"
  shows "sound_query catalog q'"
  using assms by (induction passes arbitrary: q) (auto simp: result_bind_Inr_iff pass_keeps_sound_def)

lemma normalize_sound:
  assumes "list_all (pass_keeps_sound catalog) passes" and "sound_query catalog q"
    and "normalize passes q catalog = Inr q'"
  shows "sound_query catalog q'"
  using assms(3) passes_keep_sound[OF assms(1,2)]
  by (auto simp: normalize_def result_bind_Inr_iff Let_def sound_query_def with_diagnostics_def list_ex_iff is_error_def
      QueryDiagnostic_note_def split: if_splits)

text \<open>
  C6. A compiled query is within the budget, whatever the passes. The query that was submitted and the one that is
  returned have each no more bytes of source, tree nodes, levels of nesting, joins and CTEs than the compiler's budget
  permits, counted on the syntax tree without accumulators, and the returned query has no more parameters; the
  receipt carries the version of the compiler.
\<close>

theorem compiled_query_within_budget:
  assumes "compiler_bind_and_validate v blake3_hex compiler parsed catalog params = Inr q" and "budget = qc_budget compiler"
  shows "list_all (\<lambda>p.
      length (pq_source_sql p) \<le> max_input_bytes budget \<and> query_node_count (pq_syntax p) \<le> max_syntax_nodes budget \<and>
      query_depth (pq_syntax p) \<le> max_nesting_depth budget \<and> query_join_count (pq_syntax p) \<le> max_joins budget \<and>
      query_cte_count (pq_syntax p) \<le> max_ctes budget) [parsed, bq_parsed q] \<and>
    length (bq_parameters q) \<le> max_parameters budget \<and>
    pr_compiler_version (bq_provenance q) = v"
proof -
  have within: "length (pq_source_sql p) \<le> max_input_bytes budget \<and> query_node_count (pq_syntax p) \<le> max_syntax_nodes budget \<and>
      query_depth (pq_syntax p) \<le> max_nesting_depth budget \<and> query_join_count (pq_syntax p) \<le> max_joins budget \<and>
      query_cte_count (pq_syntax p) \<le> max_ctes budget \<and> parameters usage \<le> max_parameters budget"
    if "QueryBudget_check budget usage = Inr ()"
      "usage\<lparr>parameters := 0\<rparr> = (QueryBudgetUsage_for_parsed p)\<lparr>parameters := 0\<rparr>" for p usage
  proof -
    from that(2) have "input_bytes usage = length (pq_source_sql p)" "syntax_nodes usage = query_node_count (pq_syntax p)"
      "nesting_depth usage = query_depth (pq_syntax p)" "joins usage = query_join_count (pq_syntax p)"
      "query_cte_count (pq_syntax p) \<le> ctes usage"
      using measured_counts[of "pq_syntax p"] depth_eqs(1)[of "pq_syntax p"]
      by (cases usage; cases "measure_query (pq_syntax p)"; simp add: QueryBudgetUsage_for_parsed_def)+
    with that(1) show ?thesis unfolding QueryBudget_check_def check_limits_Inr by (simp add: budget_limits_def)
  qed
  obtain n where first: "QueryBudget_check budget (QueryBudgetUsage_for_parsed parsed) = Inr ()"
    and check: "QueryBudget_check budget
      (QueryBudgetUsage_with_parameters (length (bq_parameters n)) (QueryBudgetUsage_for_parsed (bq_parsed n))) = Inr ()"
    and q: "q = with_provenance (receipt_with_compiler_version v (bq_provenance n)) n"
    using assms by (cases "bind_and_validate blake3_hex parsed catalog params")
      (auto simp: compiler_bind_and_validate_def result_bind_Inr_iff Let_def)
  from within[OF first, of parsed] within[OF check, of "bq_parsed n"] show ?thesis
    by (simp add: q with_provenance_def receipt_with_compiler_version_def QueryBudgetUsage_with_parameters_def)
qed

text \<open>When every pass keeps plans sound, a compiled query has a fully supported and well-typed plan and no error diagnostic.\<close>

theorem compiled_query_sound:
  assumes "compiler_bind_and_validate v blake3_hex compiler parsed catalog params = Inr q"
    and "list_all (pass_keeps_sound catalog) (qc_optimization_pipeline compiler)"
  shows "sound_query catalog q"
proof -
  obtain b n where b: "bind_and_validate blake3_hex parsed catalog params = Inr b"
    and n: "normalize (qc_optimization_pipeline compiler) b catalog = Inr n"
    and q: "q = with_provenance (receipt_with_compiler_version v (bq_provenance n)) n"
    using assms(1) by (cases "bind_and_validate blake3_hex parsed catalog params")
      (auto simp: compiler_bind_and_validate_def result_bind_Inr_iff Let_def)
  from normalize_sound[OF assms(2) bound_sound[OF b] n] show ?thesis by (simp add: q sound_query_def with_provenance_def)
qed

lemma bind_and_validate_Inl:
  assumes "bind_and_validate blake3_hex parsed catalog params = Inl e"
  shows "\<exists>details. e = QueryFabricError.Bind details \<and> list_ex is_error (be_diagnostics details)"
  using assms
  by (auto simp: bind_and_validate_def finalize_parameters_def QueryFabricError_bind_def Let_def
      split: prod.splits if_splits sum.splits)

text \<open>
  Without passes a compilation fails only by an exceeded limit of the budget or by a binding error,
  which has an error diagnostic and, when it has a receipt, the version of the compiler in it.
\<close>

theorem compile_error_kinds:
  assumes "facade_bind_and_validate v blake3_hex parsed catalog params = Inl e"
  shows "(\<exists>dimension limit actual. e = BudgetExceeded dimension limit actual \<and> limit < actual) \<or>
    (\<exists>details. e = QueryFabricError.Bind details \<and> list_ex is_error (be_diagnostics details) \<and>
       (case be_provenance details of None \<Rightarrow> True | Some receipt \<Rightarrow> pr_compiler_version receipt = v))"
proof -
  have budget: "\<exists>dimension limit actual. x = BudgetExceeded dimension limit actual \<and> limit < actual"
    if "QueryBudget_check budget usage = Inl x" for budget usage x
    using that unfolding QueryBudget_check_def check_limits_Inl by blast
  let ?check = "QueryBudget_check QueryBudget_default (QueryBudgetUsage_for_parsed parsed)"
  note unfold = facade_bind_and_validate_def compiler_bind_and_validate_def QueryCompiler_new_def normalize_def Let_def
  show ?thesis
  proof (cases "bind_and_validate blake3_hex parsed catalog params")
    case (Inl f)
    obtain d where d: "f = QueryFabricError.Bind d" "list_ex is_error (be_diagnostics d)"
      using bind_and_validate_Inl[OF Inl] by blast
    have "?check = Inl e \<or> e = QueryFabricError.Bind (BindErrorDetails_with_compiler_version v d)"
      using assms Inl d(1) by (cases ?check) (auto simp: unfold QueryFabricError_with_compiler_version_def)
    moreover have "list_ex is_error (be_diagnostics (BindErrorDetails_with_compiler_version v d))"
      "case be_provenance (BindErrorDetails_with_compiler_version v d) of
         None \<Rightarrow> True | Some receipt \<Rightarrow> pr_compiler_version receipt = v"
      using d(2) by (auto simp: BindErrorDetails_with_compiler_version_def receipt_with_compiler_version_def split: option.split)
    ultimately show ?thesis using budget by blast
  next
    case (Inr b)
    then have "\<exists>usage. QueryBudget_check QueryBudget_default usage = Inl e"
      using assms by (cases ?check) (auto simp: unfold result_bind_def split: sum.splits)
    then show ?thesis using budget by blast
  qed
qed

text \<open>
  The number of predicates reported for a query is that of the conjuncts of its condition, as the
  optimizer splits it.
\<close>

theorem predicate_count_is_conjuncts:
  "count_predicates e = length (flatten_boolean_and e)"
  by (induction e rule: count_predicates.induct)
    (auto simp: flatten_boolean_and.simps split: SyntaxExprKind.splits BinaryOperator.splits)

text \<open>
  A JSON string that looks like a UUID is never accepted for a text parameter, and a JSON integer
  never for a floating-point parameter.
\<close>

theorem json_value_untyped:
  assumes "looks_like_uuid s" and "- (2 ^ 63) \<le> i" and "i < 2 ^ 63"
  shows "\<not> parameter_value_matches (projr (parameter_value_from_json float_text json_text (Value.String s))) DataType.Utf8 nullable \<and>
    \<not> parameter_value_matches (projr (parameter_value_from_json float_text json_text (Value.Number (Integer i)))) DataType.Float64 nullable"
  using assms by (simp add: parameter_number_def)

theorem json_value_untyped_witness:
  "\<not> parameter_value_matches (projr (parameter_value_from_json id (\<lambda>_. []) (Value.String ''123e4567-e89b-12d3-a456-426614174000'')))
     DataType.Utf8 True \<and>
   \<not> parameter_value_matches (projr (parameter_value_from_json id (\<lambda>_. []) (Value.Number (Integer 5)))) DataType.Float64 True"
  by (rule json_value_untyped) (code_simp, simp_all)

section \<open>From the text to the budget\<close>

lemma parse_syql_source: "parse_syql parser input = Inr parsed \<Longrightarrow> pq_source_sql parsed = input \<and> pq_dialect parsed = ''syql''"
  by (auto simp: parse_syql_def parse_sql_with_source_map_def with_lowering_diagnostics_def with_syntax_def
      with_dialect_metadata_def with_explain_def ParsedQuery_new_def Let_def
      split: prod.splits if_splits sum.splits list.splits option.splits)

text \<open>
  A SyQL text that the compiler parses is no longer than the budget's input limit and its syntax tree
  no deeper than the budget's nesting limit.
\<close>

theorem parsed_text_within_budget:
  assumes "compiler_parse compiler (parse_syql parser) input = Inr parsed"
  shows "length input \<le> max_input_bytes (qc_budget compiler) \<and>
    query_depth (pq_syntax parsed) \<le> max_nesting_depth (qc_budget compiler)"
proof -
  have "QueryBudget_check (qc_budget compiler) (QueryBudgetUsage_for_parsed parsed) = Inr ()"
    and source: "parse_syql parser input = Inr parsed"
    using assms by (auto simp: compiler_parse_def result_bind_Inr_iff)
  then show ?thesis
    using parse_syql_source[OF source]
    unfolding QueryBudget_check_def check_limits_Inr
    by (simp add: budget_limits_def QueryBudgetUsage_for_parsed_def depth_eqs)
qed

definition one_statement_parser :: "(unit, unit) sql_parser" where
  "one_statement_parser =
     \<lparr>pa_parse_sql = \<lambda>_. Inr [()], pa_as_query = Some,
      pa_lower_query = \<lambda>_ _. (example_syntax (Positional 1), []), pa_to_string = \<lambda>_. ''SELECT''\<rparr>"

lemma example_measure:
  "measure_query (example_syntax (Positional 1)) =
     \<lparr>input_bytes = 0, parameters = 0, syntax_nodes = 8, nesting_depth = 2, joins = 0, ctes = 0\<rparr>"
  by code_simp

lemma example_within_budget:
  assumes "pq_syntax parsed = example_syntax (Positional 1)" and "length (pq_source_sql parsed) \<le> 100" and "n \<le> 1"
  shows "QueryBudget_check QueryBudget_default (QueryBudgetUsage_for_parsed parsed) = Inr ()"
    and "QueryBudget_check QueryBudget_default (QueryBudgetUsage_with_parameters n (QueryBudgetUsage_for_parsed parsed)) = Inr ()"
  using assms(2,3)
  by (simp_all add: QueryBudget_check_def budget_limits_def QueryBudget_default_def QueryBudgetUsage_for_parsed_def
      QueryBudgetUsage_with_parameters_def assms(1) example_measure)

lemma example_query_selectors:
  "pq_syntax (example_query syntax) = syntax" "pq_source_sql (example_query syntax) = ''SELECT''"
  by (simp_all add: example_query_def with_syntax_def ParsedQuery_new_def Let_def)

lemma example_parses:
  "\<exists>parsed. parse_syql one_statement_parser ''FROM records'' = Inr parsed \<and> pq_syntax parsed = example_syntax (Positional 1)"
proof -
  let ?r = "parse_syql one_statement_parser ''FROM records''"
  have "\<not> isl ?r" by code_simp
  moreover have "pq_syntax (projr ?r) = example_syntax (Positional 1)" by code_simp
  ultimately show ?thesis by (cases ?r) simp_all
qed

theorem parsed_text_within_budget_witness:
  "\<exists>parsed. compiler_parse QueryCompiler_new (parse_syql one_statement_parser) ''FROM records'' = Inr parsed \<and>
    length ''FROM records'' \<le> max_input_bytes (qc_budget QueryCompiler_new) \<and>
    query_depth (pq_syntax parsed) \<le> max_nesting_depth (qc_budget QueryCompiler_new)"
proof -
  obtain parsed where parsed: "parse_syql one_statement_parser ''FROM records'' = Inr parsed"
    and tree: "pq_syntax parsed = example_syntax (Positional 1)"
    using example_parses by blast
  have "compiler_parse QueryCompiler_new (parse_syql one_statement_parser) ''FROM records'' = Inr parsed"
    using example_within_budget(1)[OF tree, of 0] parse_syql_source[OF parsed]
    by (simp add: compiler_parse_def parsed QueryCompiler_new_def)
  with parsed_text_within_budget[OF this] show ?thesis by blast
qed

lemma IdentityPass_keeps_sound: "pass_keeps_sound catalog IdentityPass"
  by (simp add: pass_keeps_sound_def IdentityPass_def)

lemma example_bound_parameter_count: "length (bq_parameters (projr (example_binding (ParameterValue.Uuid ''u'')))) = 1"
  by code_simp

lemma example_bound_parsed:
  "bq_parsed (projr (example_binding (ParameterValue.Uuid ''u''))) = example_query (example_syntax (Positional 1))"
  by code_simp

theorem compiled_query_within_budget_witness:
  "\<exists>q. compiler_bind_and_validate ''0.1'' id (with_optimization_pass IdentityPass QueryCompiler_new)
      (example_query (example_syntax (Positional 1))) example_catalog (example_parameters (ParameterValue.Uuid ''u'')) = Inr q \<and>
    length (bq_parameters q) \<le> max_parameters QueryBudget_default \<and>
    query_depth (pq_syntax (bq_parsed q)) \<le> max_nesting_depth QueryBudget_default \<and>
    pr_compiler_version (bq_provenance q) = ''0.1''"
proof -
  let ?r = "compiler_bind_and_validate ''0.1'' id (with_optimization_pass IdentityPass QueryCompiler_new)
    (example_query (example_syntax (Positional 1))) example_catalog (example_parameters (ParameterValue.Uuid ''u''))"
  note budget = example_within_budget[where parsed = "example_query (example_syntax (Positional 1))", simplified example_query_selectors]
  obtain q where "?r = Inr q"
    using budget(1)[of 0] budget(2)[of 1]
    by (simp add: compiler_bind_and_validate_def with_optimization_pass_def with_pass_def QueryCompiler_new_def
        normalize_def IdentityPass_def with_diagnostics_def with_provenance_def Let_def example_binds example_bound_parameter_count
        example_bound_parsed)
  with compiled_query_within_budget[OF this refl] show ?thesis
    by (auto simp: with_optimization_pass_def with_pass_def QueryCompiler_new_def)
qed

theorem compile_error_kinds_witness:
  "\<exists>e. facade_bind_and_validate ''0.1'' id (example_query (example_syntax (Positional 1))) example_catalog
      (example_parameters (ParameterValue.Boolean True)) = Inl e \<and>
    ((\<exists>dimension limit actual. e = BudgetExceeded dimension limit actual \<and> limit < actual) \<or>
     (\<exists>details. e = QueryFabricError.Bind details \<and> list_ex is_error (be_diagnostics details) \<and>
        (case be_provenance details of None \<Rightarrow> True | Some receipt \<Rightarrow> pr_compiler_version receipt = ''0.1'')))"
proof -
  let ?r = "facade_bind_and_validate ''0.1'' id (example_query (example_syntax (Positional 1))) example_catalog
    (example_parameters (ParameterValue.Boolean True))"
  have "QueryBudget_check QueryBudget_default
      (QueryBudgetUsage_for_parsed (example_query (example_syntax (Positional 1)))) = Inr ()"
    by (rule example_within_budget(1)[where n = 0]) (simp_all add: example_query_selectors)
  then obtain e where "?r = Inl e"
    by (simp add: facade_bind_and_validate_def compiler_bind_and_validate_def QueryCompiler_new_def example_fails)
  with compile_error_kinds[OF this] show ?thesis by blast
qed

end
