(* ===== verification/Spec2Isabelle.thy ===== *)
theory Spec2Isabelle
  imports QF_Budget QF_Compile QF_Queue QF_Provenance QF_Rewrite QF_Federation_Sound QF_ClickHouse_Sound QF_ClickHouse_Cost
    QF_Node QF_Doi QF_Ids QF_Tokens QF_Runtime QF_K8s QF_Pool QF_Syql QF_Facade
begin

text \<open>
  QueryFabric is a Rust workspace (\<^verbatim>\<open>crates/\<close>) that compiles SQL-like queries to several backends, plans their
  distributed execution, runs them as queued jobs on a federation of clusters, and governs the data: access
  decisions, provenance, and portable bundles. This development is a shallow embedding of its own logic in HOL.
  Every operation is a function with the name of its Rust counterpart (prefixed by its type where names clash),
  written from the source branch by branch, and executable, so that the examples evaluate it.

  \<^bold>\<open>How the parts interact.\<close> A dialect lowers text to a syntax tree; the compilation budget measures the tree and
  refuses oversized queries; the binder resolves names against a catalog, infers types and parameters and yields a
  bound plan with diagnostics; feature analysis derives the capabilities a backend must have; an adapter (PostgreSQL,
  ClickHouse) analyses the plan, rewrites it where the backend needs it, renders it to SQL and estimates its cost; the
  optimizer splits an aggregate over many nodes into a scatter and a gather statement and sizes the workers; the
  job queue dispatches work by priority under a bound on concurrency; the hub of a federation keeps a registry of
  clusters and resources, routes requests, monitors health behind circuit breakers and distributes schema
  migrations; governance decides access, records every activity in an append-only log, and exports and imports
  resources as content-addressed bundles.

  \<^bold>\<open>Theories and sources.\<close>
  \<^item> \<^verbatim>\<open>QF_Prelude\<close>: the operations of the Rust library that the sources use (ASCII case, trimming, decimal text, ordered
    maps and sets as sorted lists, results with \<^verbatim>\<open>?\<close>), the state-monad traversals of the binder with their proof rules, and two
    interfaces as locales: \<open>state_preorder\<close> (relations that every action preserves) and \<open>semilattice_merge\<close>.
  \<^item> \<^verbatim>\<open>QF_Types\<close>, \<^verbatim>\<open>QF_Syntax\<close>, \<^verbatim>\<open>QF_Bound\<close>, \<^verbatim>\<open>QF_Budget\<close>: \<^verbatim>\<open>queryfabric-ir\<close> (\<^verbatim>\<open>types.rs\<close>, \<^verbatim>\<open>diagnostics.rs\<close>, \<^verbatim>\<open>syntax.rs\<close>,
    \<^verbatim>\<open>error.rs\<close>, \<^verbatim>\<open>bound.rs\<close>, \<^verbatim>\<open>budget.rs\<close>). The common type of two types is their least upper bound in the coercion
    order; the budget check reports the first exceeded dimension, and what is measured are the depth, nodes and joins of the
    tree and no fewer CTEs than it has (locale \<open>usage_counter\<close>, interpreted for nodes, joins and CTEs).
  \<^item> \<^verbatim>\<open>QF_Catalog\<close>, \<^verbatim>\<open>QF_Cost\<close>: \<^verbatim>\<open>queryfabric-catalog/src/model.rs\<close> and \<^verbatim>\<open>builtins.rs\<close>. Registration and lookup (locale
    \<open>keyed_registry\<close>, interpreted for relations and functions), the round trip of catalog documents, bounds on costs.
  \<^item> \<^verbatim>\<open>QF_Suggest\<close>, \<^verbatim>\<open>QF_Scope\<close>, \<^verbatim>\<open>QF_Binder\<close>, \<^verbatim>\<open>QF_Bind\<close>: \<^verbatim>\<open>bind/*.rs\<close>. The binder is a state-monad program of eleven mutually
    recursive functions; edit distance equals the least cost of an alignment; resolution is exact.
  \<^item> \<^verbatim>\<open>QF_Plan_Sound\<close>, \<^verbatim>\<open>QF_Compile\<close>: soundness of binding. A successful binding yields a plan whose every node is
    supported and well typed and whose parameters are bound to matching values; a failure carries its first error.
  \<^item> \<^verbatim>\<open>QF_Features\<close>, \<^verbatim>\<open>QF_Requirements\<close>: \<^verbatim>\<open>features.rs\<close>. The requirements cover what a plan needs,
    where the analysis sees all of it.
  \<^item> \<^verbatim>\<open>QF_Sql\<close>, \<^verbatim>\<open>QF_Render\<close>, \<^verbatim>\<open>QF_Emit\<close>: \<^verbatim>\<open>render/*.rs\<close> and \<^verbatim>\<open>queryfabric-adapter-postgres\<close>. Identifiers and string literals
    read back as what they were made from, on ClickHouse exactly when they hold no backslash; every expressible plan is
    emitted, and its placeholders refer to the right parameters.
  \<^item> \<^verbatim>\<open>QF_ClickHouse\<close>, \<^verbatim>\<open>QF_ClickHouse_Sound\<close>, \<^verbatim>\<open>QF_ClickHouse_Cost\<close>: \<^verbatim>\<open>queryfabric-adapter-clickhouse\<close> (\<^verbatim>\<open>lib.rs\<close>, \<^verbatim>\<open>rewrite/*.rs\<close>,
    \<^verbatim>\<open>cost.rs\<close>). The rewriting merges aggregate states in projections and HAVING, keeps the shape of the result schema,
    and is idempotent; it does not merge what a wildcard reads.
  \<^item> \<^verbatim>\<open>QF_Rewrite\<close>: \<^verbatim>\<open>queryfabric-opt/src/syntax.rs\<close>, the syntax transformer and selection overrides.
  \<^item> \<^verbatim>\<open>QF_Federation\<close>, \<^verbatim>\<open>QF_Federation_Sound\<close>: \<^verbatim>\<open>queryfabric-opt/src/federation/*.rs\<close>, \<^verbatim>\<open>lib.rs\<close>, \<^verbatim>\<open>jobs.rs\<close>. A semantics of
    aggregate selects over rows with NULL, and the theorem that the scatter and gather statements compose to the
    original select on every distribution of the rows, for selects that group by what they project.
  \<^item> \<^verbatim>\<open>QF_Priority\<close>, \<^verbatim>\<open>QF_Queue\<close>: \<^verbatim>\<open>queryfabric-job-queue\<close> (\<^verbatim>\<open>priority.rs\<close>, \<^verbatim>\<open>actor.rs\<close>). Dispatch order refines a stable
    sort; the actor with its workers, messages and panics is a step relation whose reachable states conserve permits.
  \<^item> \<^verbatim>\<open>QF_Governance\<close>, \<^verbatim>\<open>QF_Provenance\<close>: \<^verbatim>\<open>queryfabric-contract\<close>, \<^verbatim>\<open>-access\<close>, \<^verbatim>\<open>-tenancy\<close>, \<^verbatim>\<open>-provenance\<close>. Access decisions equal the
    grants of a policy; the locales \<open>ownership_registry\<close> and \<open>provenance_log\<close> state what the traits promise and are
    interpreted on the in-memory implementations.
  \<^item> \<^verbatim>\<open>QF_Cluster\<close>, \<^verbatim>\<open>QF_Node\<close>: \<^verbatim>\<open>queryfabric-cluster\<close> and \<^verbatim>\<open>queryfabric-federation\<close>. Routing, the health monitor as a step
    relation with the invariant that nothing is delegated behind an open circuit, the hub and node actors, schema sync.
  \<^item> \<^verbatim>\<open>QF_Tabular\<close>, \<^verbatim>\<open>QF_Import\<close>, \<^verbatim>\<open>QF_Doi\<close>: \<^verbatim>\<open>queryfabric-portability\<close>. The CSV profile with the round trip of its writer and
    reader, canonical JSON, bundles that validate under their own digest, import plans, DOI minting.
  \<^item> \<^verbatim>\<open>QF_Syql\<close>: \<^verbatim>\<open>queryfabric-dialect-sql\<close> (\<^verbatim>\<open>lib.rs\<close>, \<^verbatim>\<open>lower.rs\<close>, \<^verbatim>\<open>helpers.rs\<close>, \<^verbatim>\<open>source_map.rs\<close>) and
    \<^verbatim>\<open>queryfabric-dialect-syql\<close>. What the SyQL rewriting takes from the input stands in the rewritten SQL where the source
    map says it does; the external SQL parser is an argument.
  \<^item> \<^verbatim>\<open>QF_Facade\<close>: \<^verbatim>\<open>queryfabric/src/lib.rs\<close> and \<^verbatim>\<open>inspect.rs\<close>. The whole compiler: a query it accepts is within every limit
    of the budget, and sound if its passes keep plans sound; its failures are budget or binding errors.
  \<^item> \<^verbatim>\<open>QF_Runtime\<close>, \<^verbatim>\<open>QF_K8s\<close>: \<^verbatim>\<open>queryfabric-runtime\<close> and \<^verbatim>\<open>queryfabric-runtime-k8s\<close>. The Flight service serves data only to
    subjects whom the policy of the ticket allows; manifests, the wait for a worker, and the life cycle of Jobs with
    their cancellation watchers and cleanup streams.
  \<^item> \<^verbatim>\<open>QF_Ids\<close>, \<^verbatim>\<open>QF_Tokens\<close>: \<^verbatim>\<open>queryfabric-namespace-uuid\<close>, \<^verbatim>\<open>-content-hash\<close>, \<^verbatim>\<open>-paseto\<close>, \<^verbatim>\<open>-session\<close>, \<^verbatim>\<open>-types\<close>. Derived
    identifiers, directory digests, user and delegation tokens with their round trip, cookies and validated names.
  \<^item> \<^verbatim>\<open>QF_Pool\<close>: \<^verbatim>\<open>stats_source.rs\<close> of the catalog, \<^verbatim>\<open>queryfabric-flight-pool\<close>, \<^verbatim>\<open>-flight-cache\<close>. Statistics overlays, the
    reaping of idle channels, paths of cached results.

  \<^bold>\<open>State and operations.\<close> A struct is a record whose selectors carry a short prefix, an enum a datatype with the
  source's constructors. A method on \<^verbatim>\<open>&mut self\<close> takes the state and returns it updated; \<^verbatim>\<open>Result\<close> is a sum with the error
  on the left, and every early return is a branch. An actor is its state with one function per message; where messages
  interleave (the job queue, the health monitor) the handlers are the steps of an inductive relation. Concurrent maps
  are association lists with one entry per key, \<^verbatim>\<open>BTreeMap\<close> and \<^verbatim>\<open>BTreeSet\<close> are sorted lists, a \<^verbatim>\<open>BinaryHeap\<close> is a list whose
  pop takes a greatest element. Clocks, fresh identifiers, answers of storage and executors, and hash functions are
  arguments. Integers whose overflow matters are words and wrap or saturate as the release build does; sizes and
  counters that only grow with data in memory are natural numbers. Strings are lists of UTF-8 bytes; case folding and
  trimming are those of ASCII. SQL values in the federation semantics are exact rationals or NULL.

  \<^bold>\<open>Recursion and fuel.\<close> All loops and traversals are total functions; recursion through nested lists is justified by the
  size of the tree. The syntax transformer calls overridable methods, which are modelled as a tower of method tables:
  a tower as high as the size of the query is enough: it stands on methods that fail, and yet it returns, and every
  higher one on any other methods gives the same result. The wait for a
  worker takes what its turns observe as a list, and has answered once a turn is past the deadline.

  \<^bold>\<open>Deviations.\<close> Several theorems state behaviour that contradicts the documentation or the evident intent of the code;
  their text says so.

  \<^bold>\<open>Not modelled.\<close> Everything whose substance is an external library or I/O: the lowering of the sqlparser syntax tree
  (\<^verbatim>\<open>queryfabric-dialect-sql/src/lower/\<close>), the HTTP driver and Arrow decoding of the ClickHouse adapter, the libp2p swarm and
  Fernet encryption, PostgreSQL storage of jobs, Parquet files, object stores and downloads, metrics, web front ends, Python
  bindings, the worker binary, command-line, changelog and release tools, and the demonstration server. Ciphers, hash
  functions, the Kubernetes API, gRPC clients and the file system are arguments of the definitions that use them.
\<close>

end
